(* ===== verification/CCM_Prelude.thy ===== *)
theory CCM_Prelude
  imports Main "HOL-Library.Multiset" "HOL-Library.Sublist"
begin

text \<open>
  Prelude of the development: the lemma collections, the Go string and integer operations the
  components share (decimal formatting, \<open>strconv.Atoi\<close>, \<open>strings.Contains\<close>, \<open>strings.Split\<close>,
  \<open>strings.Trim\<close>, conversion to \<open>int32\<close>), and the generic facts about lists that their proofs
  use. Go strings are byte sequences, so they are the library's \<open>string\<close> (one \<open>char\<close> per byte).
\<close>

named_theorems emits_intro "rules that bound the calls a computation issues"
named_theorems valid_intro "rules of the pre- and postcondition calculus"
named_theorems yields_intro "rules for the values a computation returns"
named_theorems run_simps "equations that run a computation on a state"

subsection \<open>Decimal formatting and parsing\<close>

text \<open>The verb \<open>%d\<close> of \<open>fmt\<close> (and \<open>%v\<close> on an integer).\<close>

fun nat_str :: "nat \<Rightarrow> string" where
  "nat_str n = (if n < 10 then [char_of (48 + n)] else nat_str (n div 10) @ [char_of (48 + n mod 10)])"

declare nat_str.simps [simp del]

definition int_str :: "int \<Rightarrow> string" where
  "int_str i = (if i < 0 then CHR ''-'' # nat_str (nat (- i)) else nat_str (nat i))"

definition is_digit :: "char \<Rightarrow> bool" where
  "is_digit c \<longleftrightarrow> (48::nat) \<le> of_char c \<and> of_char c \<le> (57::nat)"

definition digit_val :: "char \<Rightarrow> nat" where
  "digit_val c = of_char c - 48"

fun digits_val :: "nat \<Rightarrow> string \<Rightarrow> nat" where
  "digits_val acc [] = acc"
| "digits_val acc (c # cs) = digits_val (10 * acc + digit_val c) cs"

text \<open>
  \<open>strconv.Atoi\<close>: an optional sign and at least one decimal digit, with a range error outside
  the 64-bit integers. \<open>None\<close> is the non-nil error.
\<close>

definition atoi_unsigned :: "string \<Rightarrow> nat option" where
  "atoi_unsigned s = (if s \<noteq> [] \<and> list_all is_digit s then Some (digits_val 0 s) else None)"

definition Atoi :: "string \<Rightarrow> int option" where
  "Atoi s = (let (neg, body) = (case s of
                 [] \<Rightarrow> (False, s)
               | c # cs \<Rightarrow> if c = CHR ''-'' then (True, cs) else if c = CHR ''+'' then (False, cs) else (False, s))
             in case atoi_unsigned body of
                  None \<Rightarrow> None
                | Some n \<Rightarrow>
                    (if neg then (if n \<le> 2 ^ 63 then Some (- int n) else None)
                     else (if n < 2 ^ 63 then Some (int n) else None)))"

text \<open>The conversion \<open>int32(x)\<close> of a 64-bit \<open>int\<close>: two's complement truncation.\<close>

definition to_int32 :: "int \<Rightarrow> int" where
  "to_int32 x = signed_take_bit 31 x"

lemma to_int32_range: "- (2 ^ 31) \<le> to_int32 x \<and> to_int32 x < 2 ^ 31"
  using signed_take_bit_int_greater_eq_minus_exp [of 31 x] signed_take_bit_int_less_exp [of 31 x]
  by (simp add: to_int32_def)

lemma to_int32_id: "- (2 ^ 31) \<le> x \<Longrightarrow> x < 2 ^ 31 \<Longrightarrow> to_int32 x = x"
  by (simp add: to_int32_def signed_take_bit_int_eq_self)

lemma digits_val_append: "digits_val acc (xs @ ys) = digits_val (digits_val acc xs) ys"
  by (induction xs arbitrary: acc) auto

lemma of_char_digit: "n < 10 \<Longrightarrow> of_char (char_of (48 + n :: nat)) = 48 + n"
  by simp

lemma is_digit_char_of: "n < 10 \<Longrightarrow> is_digit (char_of (48 + n :: nat))"
  by (simp add: is_digit_def)

lemma digit_val_char_of: "n < 10 \<Longrightarrow> digit_val (char_of (48 + n :: nat)) = n"
  by (simp add: digit_val_def)

lemma nat_str_digits: "list_all is_digit (nat_str n)"
proof (induction n rule: nat_str.induct)
  case (1 n)
  then show ?case
    by (subst nat_str.simps) (simp add: is_digit_char_of)
qed

lemma nat_str_nonempty: "nat_str n \<noteq> []"
  by (subst nat_str.simps) simp

lemma digits_val_nat_str: "digits_val 0 (nat_str n) = n"
proof (induction n rule: nat_str.induct)
  case (1 n)
  show ?case
  proof (cases "n < 10")
    case True
    then show ?thesis by (subst nat_str.simps) (simp add: digit_val_char_of)
  next
    case False
    with 1 have "digits_val 0 (nat_str (n div 10)) = n div 10" by simp
    with False show ?thesis
      by (subst nat_str.simps) (simp add: digits_val_append digit_val_char_of)
  qed
qed

lemma nat_str_inject: "nat_str m = nat_str n \<longleftrightarrow> m = n"
  by (metis digits_val_nat_str)

lemma digit_not_sign: "is_digit c \<Longrightarrow> c \<noteq> CHR ''-'' \<and> c \<noteq> CHR ''+'' \<and> c \<noteq> CHR '':''"
  by (auto simp: is_digit_def)

lemma nat_str_hd: "\<exists>c cs. nat_str n = c # cs \<and> is_digit c"
  using nat_str_digits [of n] nat_str_nonempty [of n] by (cases "nat_str n") auto

lemma int_str_inject: "int_str i = int_str j \<longleftrightarrow> i = j"
proof -
  have neq: "CHR ''-'' # xs \<noteq> nat_str n" for xs n
    using nat_str_hd [of n] by (auto simp: is_digit_def)
  show ?thesis
    using neq neq [symmetric] by (auto simp: int_str_def nat_str_inject)
qed

lemma colon_notin_int_str: "CHR '':'' \<notin> set (int_str i)"
proof -
  have "CHR '':'' \<notin> set (nat_str n)" for n
    using nat_str_digits [of n] by (auto simp: list_all_iff dest: digit_not_sign)
  then show ?thesis by (simp add: int_str_def)
qed

text \<open>Printing and reading a 64-bit integer is a round trip.\<close>

lemma Atoi_nat_str: "n < 2 ^ 63 \<Longrightarrow> Atoi (nat_str n) = Some (int n)"
  using nat_str_hd [of n] nat_str_digits [of n] digits_val_nat_str [of n] digit_not_sign
  by (auto simp: Atoi_def atoi_unsigned_def split: list.splits)

lemma Atoi_int_str: "- (2 ^ 63) \<le> i \<Longrightarrow> i < 2 ^ 63 \<Longrightarrow> Atoi (int_str i) = Some i"
  by (cases "i < 0")
    (simp_all add: int_str_def Atoi_nat_str nat_less_iff, simp add: Atoi_def atoi_unsigned_def
      nat_str_digits nat_str_nonempty digits_val_nat_str nat_le_iff)

subsection \<open>String operations\<close>

text \<open>\<open>strings.Contains(s, sub)\<close>.\<close>

fun contains :: "string \<Rightarrow> string \<Rightarrow> bool" where
  "contains [] sub = (sub = [])"
| "contains (c # cs) sub = (prefix sub (c # cs) \<or> contains cs sub)"

lemma contains_sublist: "contains s sub \<longleftrightarrow> sublist sub s"
  by (induction s) (auto simp: sublist_Cons_right)

text \<open>\<open>strings.Split(s, sep)\<close> for a one-byte separator.\<close>

fun split_on :: "char \<Rightarrow> string \<Rightarrow> string list" where
  "split_on sep [] = [[]]"
| "split_on sep (c # cs) =
     (if c = sep then [] # split_on sep cs
      else case split_on sep cs of [] \<Rightarrow> [[c]] | w # ws \<Rightarrow> (c # w) # ws)"

text \<open>\<open>strings.Trim(s, cutset)\<close> for a predicate on bytes; \<open>strings.TrimSpace\<close> on ASCII input.\<close>

definition trim_by :: "(char \<Rightarrow> bool) \<Rightarrow> string \<Rightarrow> string" where
  "trim_by p s = rev (dropWhile p (rev (dropWhile p s)))"

definition is_space :: "char \<Rightarrow> bool" where
  "is_space c \<longleftrightarrow> c = CHR '' '' \<or> (9::nat) \<le> of_char c \<and> of_char c \<le> (13::nat)"

definition trim_space :: "string \<Rightarrow> string" where
  "trim_space = trim_by is_space"

definition trim_quotes :: "string \<Rightarrow> string" where
  "trim_quotes = trim_by (\<lambda>c. c = CHR 0x22)"

text \<open>\<open>strings.Join(ss, sep)\<close>.\<close>

fun join_with :: "string \<Rightarrow> string list \<Rightarrow> string" where
  "join_with sep [] = []"
| "join_with sep [s] = s"
| "join_with sep (s # t # ts) = s @ sep @ join_with sep (t # ts)"

text \<open>\<open>strings.ToLower\<close> and \<open>strings.EqualFold\<close> on ASCII letters (the code applies them to protocol
  names, header names and annotation values).\<close>

definition to_lower_char :: "char \<Rightarrow> char" where
  "to_lower_char c = (if (65::nat) \<le> of_char c \<and> of_char c \<le> (90::nat) then char_of (of_char c + 32 :: nat) else c)"

definition to_lower :: "string \<Rightarrow> string" where
  "to_lower = map to_lower_char"

definition equal_fold :: "string \<Rightarrow> string \<Rightarrow> bool" where
  "equal_fold s t \<longleftrightarrow> to_lower s = to_lower t"

lemma split_on_nonempty: "split_on sep s \<noteq> []"
  by (induction s) (auto split: list.splits)

lemma split_on_no_sep: "sep \<notin> set s \<Longrightarrow> split_on sep s = [s]"
  by (induction s) auto

lemma join_split: "join_with [sep] (split_on sep s) = s"
proof (induction s)
  case Nil
  then show ?case by simp
next
  case (Cons c cs)
  obtain w ws where ws: "split_on sep cs = w # ws"
    using split_on_nonempty [of sep cs] by (cases "split_on sep cs") auto
  with Cons show ?case by (cases ws) auto
qed

text \<open>A key \<open>addr:port\<close> determines both parts, whatever bytes the address has.\<close>

lemma addr_port_inject:
  assumes "a @ '':'' @ int_str p = b @ '':'' @ int_str q"
  shows "a = b \<and> p = q"
proof -
  have key: "takeWhile (\<lambda>c. c \<noteq> CHR '':'') (rev (x @ '':'' @ int_str r)) = rev (int_str r)" for x r
    using colon_notin_int_str [of r] by (subst rev_append, subst rev_append) (auto simp: takeWhile_append)
  from assms have "rev (int_str p) = rev (int_str q)"
    using key [of a p] key [of b q] by simp
  then have "int_str p = int_str q" by simp
  with assms show ?thesis by (simp add: int_str_inject)
qed

subsection \<open>Lists\<close>

lemma mset_butlast_last: "xs \<noteq> [] \<Longrightarrow> mset xs = add_mset (last xs) (mset (butlast xs))"
  by (cases xs rule: rev_cases) auto

text \<open>The in-place removal \<open>xs[i] = xs[len(xs)-1]; xs = xs[:len(xs)-1]\<close> removes the element at \<open>i\<close>.\<close>

lemma mset_swap_remove:
  assumes "i < length xs"
  shows "mset (butlast (xs[i := last xs])) = mset xs - {#xs ! i#}"
proof -
  let ?ys = "xs[i := last xs]"
  have "?ys \<noteq> []" using assms by auto
  moreover have "last ?ys = last xs"
    using assms by (cases "xs = []") (auto simp: last_conv_nth nth_list_update)
  moreover have "mset ?ys = add_mset (last xs) (mset xs - {#xs ! i#})"
    using assms by (simp add: mset_update)
  ultimately show ?thesis using mset_butlast_last [of ?ys] by simp
qed

end
