(* ===== verification/Go_Result.thy ===== *)
theory Go_Result
  imports CCM_Prelude
begin

text \<open>
  Errors and effects of the Go program. \<open>error\<close> has one constructor per kind of error value the
  code creates or tests (gRPC status, SDK service error by value and by pointer, \<open>fmt.Errorf\<close>,
  the sentinels of \<open>cloudprovider\<close> and \<open>wait\<close>, aggregates, Kubernetes API errors), and
  \<open>err_text\<close> is its \<open>Error()\<close> method. A Go function that talks to a remote service is a
  computation of type \<open>('w, 'e, 'a) m\<close>: it takes the system (the remote world and the log of
  the events issued so far) and ends in a value, an error or a panic. The second half of the
  theory is the calculus used by all components: \<open>emits\<close> bounds the events a computation can
  issue whatever the remote side answers, \<open>valid\<close> is a pre- and postcondition triple.
\<close>

subsection \<open>Errors\<close>

datatype grpc_code = CodeOK | CodeUnknown | CodeInvalidArgument | CodeNotFound | CodeInternal | CodeUnavailable

datatype kube_reason = ReasonNotFound | ReasonConflict | ReasonOther

datatype error =
    StatusError grpc_code string
  | ServiceResponseErrorVal int string string
  | ServiceResponseErrorPtr int string string
  | Errorf string
  | ImplementedElsewhere
  | NotImplemented
  | ErrWaitTimeout
  | KubeError kube_reason string
  | Aggregate "error list"

definition code_text :: "grpc_code \<Rightarrow> string" where
  "code_text c = (case c of CodeOK \<Rightarrow> ''OK'' | CodeUnknown \<Rightarrow> ''Unknown''
     | CodeInvalidArgument \<Rightarrow> ''InvalidArgument'' | CodeNotFound \<Rightarrow> ''NotFound''
     | CodeInternal \<Rightarrow> ''Internal'' | CodeUnavailable \<Rightarrow> ''Unavailable'')"

text \<open>
  \<open>Error()\<close>. A service error is printed by the SDK as JSON; the model prints its status, code and
  message. An aggregate prints its distinct leaf messages.
\<close>

fun err_texts :: "error \<Rightarrow> string list" where
  "err_texts (StatusError c msg) = [''rpc error: code = '' @ code_text c @ '' desc = '' @ msg]"
| "err_texts (ServiceResponseErrorVal st code msg) = [int_str st @ '' '' @ code @ '' '' @ msg]"
| "err_texts (ServiceResponseErrorPtr st code msg) = [int_str st @ '' '' @ code @ '' '' @ msg]"
| "err_texts (Errorf msg) = [msg]"
| "err_texts ImplementedElsewhere = [''implemented by alternate to cloud provider'']"
| "err_texts NotImplemented = [''unimplemented'']"
| "err_texts ErrWaitTimeout = [''timed out waiting for the condition'']"
| "err_texts (KubeError r msg) = [msg]"
| "err_texts (Aggregate es) = concat (map err_texts es)"

definition err_text :: "error \<Rightarrow> string" where
  "err_text e = (case remdups (err_texts e) of
      [] \<Rightarrow> [] | [s] \<Rightarrow> s | ss \<Rightarrow> ''['' @ join_with '', '' ss @ '']'')"

text \<open>\<open>errors.NewAggregate\<close>: no error for the empty list.\<close>

definition NewAggregate :: "error list \<Rightarrow> error option" where
  "NewAggregate es = (if es = [] then None else Some (Aggregate es))"

subsection \<open>Results and computations\<close>

datatype 'a res = Ok 'a | Err error | Panic string

record ('w, 'e) sys =
  world :: 'w
  log :: "'e list"

type_synonym ('w, 'e, 'a) m = "('w, 'e) sys \<Rightarrow> 'a res \<times> ('w, 'e) sys"

definition okR :: "'a \<Rightarrow> ('w, 'e, 'a) m" where
  "okR x = (\<lambda>s. (Ok x, s))"

definition errR :: "error \<Rightarrow> ('w, 'e, 'a) m" where
  "errR e = (\<lambda>s. (Err e, s))"

definition panicR :: "string \<Rightarrow> ('w, 'e, 'a) m" where
  "panicR msg = (\<lambda>s. (Panic msg, s))"

text \<open>Sequencing: \<open>x, err := m(); if err != nil { return err }; f(x)\<close>.\<close>

definition bindR :: "('w, 'e, 'a) m \<Rightarrow> ('a \<Rightarrow> ('w, 'e, 'b) m) \<Rightarrow> ('w, 'e, 'b) m" where
  "bindR m f = (\<lambda>s. case m s of
      (Ok x, s') \<Rightarrow> f x s'
    | (Err e, s') \<Rightarrow> (Err e, s')
    | (Panic msg, s') \<Rightarrow> (Panic msg, s'))"

text \<open>\<open>x, err := m()\<close> with \<open>err\<close> kept as a value; a panic still unwinds.\<close>

definition attempt :: "('w, 'e, 'a) m \<Rightarrow> ('w, 'e, error + 'a) m" where
  "attempt m = (\<lambda>s. case m s of
      (Ok x, s') \<Rightarrow> (Ok (Inr x), s')
    | (Err e, s') \<Rightarrow> (Ok (Inl e), s')
    | (Panic msg, s') \<Rightarrow> (Panic msg, s'))"

text \<open>Dereferencing a pointer that may be nil.\<close>

definition deref :: "'a option \<Rightarrow> ('w, 'e, 'a) m" where
  "deref p = (case p of None \<Rightarrow> panicR ''invalid memory address or nil pointer dereference'' | Some x \<Rightarrow> okR x)"

text \<open>Recording an event, and running a remote operation on the world.\<close>

definition emit :: "'e \<Rightarrow> ('w, 'e, unit) m" where
  "emit ev = (\<lambda>s. (Ok (), s\<lparr>log := log s @ [ev]\<rparr>))"

definition remote :: "'e \<Rightarrow> ('w \<Rightarrow> (error + 'a) \<times> 'w) \<Rightarrow> ('w, 'e, 'a) m" where
  "remote ev f = (\<lambda>s. case f (world s) of
      (Inl e, w) \<Rightarrow> (Err e, s\<lparr>world := w, log := log s @ [ev]\<rparr>)
    | (Inr x, w) \<Rightarrow> (Ok x, s\<lparr>world := w, log := log s @ [ev]\<rparr>))"

text \<open>\<open>for _, x := range xs { b = f(x, b) }\<close>, left at the first error or panic.\<close>

fun foldR :: "('a \<Rightarrow> 'b \<Rightarrow> ('w, 'e, 'b) m) \<Rightarrow> 'a list \<Rightarrow> 'b \<Rightarrow> ('w, 'e, 'b) m" where
  "foldR f [] b = okR b"
| "foldR f (x # xs) b = bindR (f x b) (foldR f xs)"

lemma run_okR [run_simps]: "okR x s = (Ok x, s)"
  by (simp add: okR_def)

lemma run_errR [run_simps]: "errR e s = (Err e, s)"
  by (simp add: errR_def)

lemma run_panicR [run_simps]: "panicR msg s = (Panic msg, s)"
  by (simp add: panicR_def)

lemma run_bindR [run_simps]:
  "bindR m f s = (case m s of (Ok x, s') \<Rightarrow> f x s' | (Err e, s') \<Rightarrow> (Err e, s') | (Panic msg, s') \<Rightarrow> (Panic msg, s'))"
  by (simp add: bindR_def)

lemma run_attempt [run_simps]:
  "attempt m s = (case m s of (Ok x, s') \<Rightarrow> (Ok (Inr x), s') | (Err e, s') \<Rightarrow> (Ok (Inl e), s') | (Panic msg, s') \<Rightarrow> (Panic msg, s'))"
  by (simp add: attempt_def)

lemma run_deref [run_simps]:
  "deref None s = (Panic ''invalid memory address or nil pointer dereference'', s)"
  "deref (Some x) s = (Ok x, s)"
  by (simp_all add: deref_def run_okR run_panicR)

lemma run_emit [run_simps]: "emit ev s = (Ok (), s\<lparr>log := log s @ [ev]\<rparr>)"
  by (simp add: emit_def)

lemma bindR_Pair [run_simps]:
  "bindR (Pair (Ok x)) f = f x" "bindR (Pair (Err e)) f = Pair (Err e)" "bindR (Pair (Panic msg)) f = Pair (Panic msg)"
  by (rule ext, simp add: run_bindR)+

lemma bindR_okR [simp]: "bindR (okR x) f = f x"
  by (rule ext) (simp add: run_bindR okR_def)

lemma bindR_errR [simp]: "bindR (errR e) f = errR e"
  by (rule ext) (simp add: run_bindR errR_def)

lemma bindR_panicR [simp]: "bindR (panicR msg) f = panicR msg"
  by (rule ext) (simp add: run_bindR panicR_def)

lemma bindR_assoc: "bindR (bindR m f) g = bindR m (\<lambda>x. bindR (f x) g)"
  by (rule ext) (simp add: run_bindR split: prod.splits res.splits)

lemma attempt_okR [simp]: "attempt (okR x) = okR (Inr x)"
  by (rule ext) (simp add: run_attempt okR_def)

lemma attempt_errR [simp]: "attempt (errR e) = okR (Inl e)"
  by (rule ext) (simp add: run_attempt errR_def okR_def)

lemma attempt_panicR [simp]: "attempt (panicR msg) = panicR msg"
  by (rule ext) (simp add: run_attempt panicR_def)

lemma deref_Some [simp]: "deref (Some x) = okR x"
  by (simp add: deref_def)

lemma foldR_append: "foldR f (xs @ ys) b = bindR (foldR f xs b) (foldR f ys)"
proof (induction xs arbitrary: b)
  case Nil
  then show ?case by simp
next
  case (Cons x xs)
  then have "foldR f (xs @ ys) = (\<lambda>c. bindR (foldR f xs c) (foldR f ys))" by (rule ext)
  then show ?case by (simp add: bindR_assoc)
qed

lemma bindR_Ok_E:
  assumes "bindR m f s = (Ok y, t)"
  obtains x u where "m s = (Ok x, u)" and "f x u = (Ok y, t)"
  using assms by (auto simp: run_bindR split: prod.splits res.splits)

subsection \<open>Bounding the events of a computation\<close>

text \<open>
  \<open>emits m A\<close>: from every state and for every behaviour of the remote side, \<open>m\<close> only appends
  events of the set \<open>A\<close> to the log.
\<close>

definition emits :: "('w, 'e, 'a) m \<Rightarrow> 'e set \<Rightarrow> bool" where
  "emits m A \<longleftrightarrow> (\<forall>s. \<exists>es. log (snd (m s)) = log s @ es \<and> set es \<subseteq> A)"

lemma emitsI: "(\<And>s r t. m s = (r, t) \<Longrightarrow> \<exists>es. log t = log s @ es \<and> set es \<subseteq> A) \<Longrightarrow> emits m A"
  unfolding emits_def by (metis prod.collapse)

lemma emitsD: "emits m A \<Longrightarrow> m s = (r, t) \<Longrightarrow> \<exists>es. log t = log s @ es \<and> set es \<subseteq> A"
  unfolding emits_def by (metis snd_conv)

lemma emits_no_event:
  assumes "emits m A" and "ev \<notin> A" and "m s = (r, t)" and "ev \<in> set (log t)"
  shows "ev \<in> set (log s)"
  using emitsD [OF assms(1,3)] assms(2,4) by auto

lemma emits_mono: "emits m A \<Longrightarrow> A \<subseteq> B \<Longrightarrow> emits m B"
  unfolding emits_def by blast

lemma emits_okR [emits_intro]: "emits (okR x) A"
  by (simp add: emits_def okR_def)

lemma emits_errR [emits_intro]: "emits (errR e) A"
  by (simp add: emits_def errR_def)

lemma emits_panicR [emits_intro]: "emits (panicR msg) A"
  by (simp add: emits_def panicR_def)

lemma emits_deref [emits_intro]: "emits (deref p) A"
  by (cases p) (simp_all add: emits_def run_simps)

lemma emits_emit [emits_intro]: "ev \<in> A \<Longrightarrow> emits (emit ev) A"
  by (simp add: emits_def emit_def)

lemma emits_remote [emits_intro]: "ev \<in> A \<Longrightarrow> emits (remote ev f) A"
  by (auto simp: emits_def remote_def split: prod.splits sum.splits)

lemma emits_bindR [emits_intro]:
  assumes "emits m A" and "\<And>x. emits (f x) A"
  shows "emits (bindR m f) A"
proof (rule emitsI)
  fix s r t
  assume run: "bindR m f s = (r, t)"
  obtain q u where mu: "m s = (q, u)" by fastforce
  from emitsD [OF assms(1) mu] obtain es where es: "log u = log s @ es" "set es \<subseteq> A" by blast
  show "\<exists>es. log t = log s @ es \<and> set es \<subseteq> A"
  proof (cases q)
    case (Ok x)
    with run mu have "f x u = (r, t)" by (simp add: run_bindR)
    from emitsD [OF assms(2) this] obtain es' where "log t = log u @ es'" "set es' \<subseteq> A" by blast
    with es show ?thesis by auto
  qed (use run mu es in \<open>auto simp: run_bindR\<close>)
qed

lemma emits_attempt [emits_intro]: "emits m A \<Longrightarrow> emits (attempt m) A"
proof (rule emitsI)
  fix s r t
  assume "emits m A" and run: "attempt m s = (r, t)"
  obtain q u where "m s = (q, u)" by fastforce
  with emitsD [OF \<open>emits m A\<close> this] run show "\<exists>es. log t = log s @ es \<and> set es \<subseteq> A"
    by (cases q) (auto simp: run_attempt)
qed

lemma emits_foldR [emits_intro]:
  "(\<And>x b. x \<in> set xs \<Longrightarrow> emits (f x b) A) \<Longrightarrow> emits (foldR f xs b) A"
  by (induction xs arbitrary: b) (auto intro!: emits_intro)

lemma emits_if [emits_intro]: "(c \<Longrightarrow> emits m A) \<Longrightarrow> (\<not> c \<Longrightarrow> emits n A) \<Longrightarrow> emits (if c then m else n) A"
  by simp

lemma emits_case_option [emits_intro]:
  "(p = None \<Longrightarrow> emits m A) \<Longrightarrow> (\<And>x. p = Some x \<Longrightarrow> emits (f x) A) \<Longrightarrow> emits (case p of None \<Rightarrow> m | Some x \<Rightarrow> f x) A"
  by (cases p) auto

lemma emits_case_sum [emits_intro]:
  "(\<And>e. r = Inl e \<Longrightarrow> emits (f e) A) \<Longrightarrow> (\<And>x. r = Inr x \<Longrightarrow> emits (g x) A) \<Longrightarrow>
   emits (case r of Inl e \<Rightarrow> f e | Inr x \<Rightarrow> g x) A"
  by (cases r) auto

lemma emits_case_prod [emits_intro]:
  "(\<And>x y. p = (x, y) \<Longrightarrow> emits (f x y) A) \<Longrightarrow> emits (case p of (x, y) \<Rightarrow> f x y) A"
  by (cases p) auto

lemma emits_case_list [emits_intro]:
  "(xs = [] \<Longrightarrow> emits m A) \<Longrightarrow> (\<And>y ys. xs = y # ys \<Longrightarrow> emits (f y ys) A) \<Longrightarrow>
   emits (case xs of [] \<Rightarrow> m | y # ys \<Rightarrow> f y ys) A"
  by (cases xs) auto

lemma emits_Let [emits_intro]: "emits (f x) A \<Longrightarrow> emits (Let x f) A"
  by (simp add: Let_def)

subsection \<open>Pre- and postconditions\<close>

definition valid :: "(('w, 'e) sys \<Rightarrow> bool) \<Rightarrow> ('w, 'e, 'a) m \<Rightarrow> ('a res \<Rightarrow> ('w, 'e) sys \<Rightarrow> bool) \<Rightarrow> bool" where
  "valid P m Q \<longleftrightarrow> (\<forall>s r t. P s \<longrightarrow> m s = (r, t) \<longrightarrow> Q r t)"

lemma validI: "(\<And>s r t. P s \<Longrightarrow> m s = (r, t) \<Longrightarrow> Q r t) \<Longrightarrow> valid P m Q"
  by (simp add: valid_def)

lemma validD: "valid P m Q \<Longrightarrow> P s \<Longrightarrow> m s = (r, t) \<Longrightarrow> Q r t"
  by (simp add: valid_def)

lemma valid_conseq: "valid P m Q \<Longrightarrow> (\<And>s. P' s \<Longrightarrow> P s) \<Longrightarrow> (\<And>r s. Q r s \<Longrightarrow> Q' r s) \<Longrightarrow> valid P' m Q'"
  unfolding valid_def by blast

lemma valid_bindR:
  assumes "valid P m R"
    and "\<And>x. valid (R (Ok x)) (f x) Q"
    and "\<And>e s. R (Err e) s \<Longrightarrow> Q (Err e) s"
    and "\<And>msg s. R (Panic msg) s \<Longrightarrow> Q (Panic msg) s"
  shows "valid P (bindR m f) Q"
proof (rule validI)
  fix s r t
  assume "P s" and run: "bindR m f s = (r, t)"
  obtain q u where mu: "m s = (q, u)" by fastforce
  with \<open>P s\<close> assms(1) have "R q u" by (blast dest: validD)
  with run mu assms(2-4) show "Q r t"
    by (cases q) (auto simp: run_bindR dest: validD)
qed

text \<open>The loop rule: an invariant over the elements already processed and the accumulator.\<close>

lemma foldR_invariant:
  assumes "\<And>ys x zs b s r t. xs = ys @ x # zs \<Longrightarrow> I ys b s \<Longrightarrow> f x b s = (Ok r, t) \<Longrightarrow> I (ys @ [x]) r t"
    and "I [] b s" and "foldR f xs b s = (Ok r, t)"
  shows "I xs r t"
proof -
  have step: "xs = ys @ zs \<Longrightarrow> I ys b s \<Longrightarrow> foldR f zs b s = (Ok r, t) \<Longrightarrow> I xs r t" for zs ys b s
  proof (induction zs arbitrary: ys b s)
    case Nil
    then show ?case by (simp add: run_simps)
  next
    case (Cons z zs)
    from Cons.prems(3) obtain c u where "f z b s = (Ok c, u)" and rest: "foldR f zs c u = (Ok r, t)"
      by (auto elim: bindR_Ok_E)
    with assms(1) [OF Cons.prems(1,2)] have "I (ys @ [z]) c u" by blast
    with Cons.IH [of "ys @ [z]"] Cons.prems(1) rest show ?case by simp
  qed
  from step [of "[]" xs, OF _ assms(2,3)] show ?thesis by simp
qed

subsection \<open>The values a computation returns\<close>

text \<open>\<open>yields m P\<close>: whatever the remote side answers, a normal return of \<open>m\<close> satisfies \<open>P\<close>.\<close>

definition yields :: "('w, 'e, 'a) m \<Rightarrow> ('a \<Rightarrow> bool) \<Rightarrow> bool" where
  "yields m P \<longleftrightarrow> (\<forall>s r t. m s = (Ok r, t) \<longrightarrow> P r)"

lemma yieldsI: "(\<And>s r t. m s = (Ok r, t) \<Longrightarrow> P r) \<Longrightarrow> yields m P"
  by (auto simp: yields_def)

lemma yieldsD: "yields m P \<Longrightarrow> m s = (Ok r, t) \<Longrightarrow> P r"
  by (auto simp: yields_def)

lemma yields_okR [yields_intro]: "P x \<Longrightarrow> yields (okR x) P"
  by (simp add: yields_def okR_def)

lemma yields_errR [yields_intro]: "yields (errR e) P"
  by (simp add: yields_def errR_def)

lemma yields_panicR [yields_intro]: "yields (panicR msg) P"
  by (simp add: yields_def panicR_def)

lemma yields_bindR: "yields m Q \<Longrightarrow> (\<And>x. Q x \<Longrightarrow> yields (f x) P) \<Longrightarrow> yields (bindR m f) P"
  by (rule yieldsI) (auto elim!: bindR_Ok_E dest: yieldsD)

lemma yields_bindR_any [yields_intro]: "(\<And>x. yields (f x) P) \<Longrightarrow> yields (bindR m f) P"
  by (rule yieldsI) (auto elim!: bindR_Ok_E dest: yieldsD)

lemma yields_foldR [yields_intro]:
  "(\<And>x b. x \<in> set xs \<Longrightarrow> P b \<Longrightarrow> yields (f x b) P) \<Longrightarrow> P b \<Longrightarrow> yields (foldR f xs b) P"
proof (induction xs arbitrary: b)
  case Nil
  then show ?case by (simp add: yields_okR)
next
  case (Cons x xs)
  then have "yields (f x b) P" by simp
  moreover have "yields (foldR f xs c) P" if "P c" for c
    using Cons that by simp
  ultimately show ?case by (simp add: yields_bindR)
qed

lemma yields_if [yields_intro]: "(c \<Longrightarrow> yields m P) \<Longrightarrow> (\<not> c \<Longrightarrow> yields n P) \<Longrightarrow> yields (if c then m else n) P"
  by simp

lemma yields_case_option [yields_intro]:
  "(p = None \<Longrightarrow> yields m P) \<Longrightarrow> (\<And>x. p = Some x \<Longrightarrow> yields (f x) P) \<Longrightarrow> yields (case p of None \<Rightarrow> m | Some x \<Rightarrow> f x) P"
  by (cases p) auto

lemma yields_case_sum [yields_intro]:
  "(\<And>e. r = Inl e \<Longrightarrow> yields (f e) P) \<Longrightarrow> (\<And>x. r = Inr x \<Longrightarrow> yields (g x) P) \<Longrightarrow>
   yields (case r of Inl e \<Rightarrow> f e | Inr x \<Rightarrow> g x) P"
  by (cases r) auto

lemma yields_case_prod [yields_intro]:
  "(\<And>x y. p = (x, y) \<Longrightarrow> yields (f x y) P) \<Longrightarrow> yields (case p of (x, y) \<Rightarrow> f x y) P"
  by (cases p) auto

lemma yields_case_list [yields_intro]:
  "(xs = [] \<Longrightarrow> yields m P) \<Longrightarrow> (\<And>y ys. xs = y # ys \<Longrightarrow> yields (f y ys) P) \<Longrightarrow>
   yields (case xs of [] \<Rightarrow> m | y # ys \<Rightarrow> f y ys) P"
  by (cases xs) auto

end
