(* ===== verification/Common.thy ===== *)
theory Common
  imports Go_Result
begin

text \<open>
  \<open>pkg/common/common.go\<close> and \<open>pkg/utils/utils.go\<close>: the not-found test, the bounded wait, and the
  string helpers. \<open>WaitForCompleted\<close> is the backoff loop of \<open>k8s.io/apimachinery\<close> with 30 steps;
  the sleeping time between two polls is not modelled. The condition is a closure that also
  assigns a captured variable, so it takes the variable and returns its new value with the
  pair \<open>(done, err)\<close>.
\<close>

subsection \<open>IsNotFound\<close>

definition status_code :: "error \<Rightarrow> grpc_code" where
  "status_code e = (case e of StatusError c _ \<Rightarrow> c | _ \<Rightarrow> CodeUnknown)"

definition NotFound :: int where
  "NotFound = 404"

definition IsNotFound :: "error \<Rightarrow> bool" where
  "IsNotFound e =
     (if status_code e = CodeNotFound then True
      else case e of
        ServiceResponseErrorVal st _ _ \<Rightarrow> st = NotFound
      | ServiceResponseErrorPtr st _ _ \<Rightarrow> st = NotFound
      | _ \<Rightarrow> False)"

lemma IsNotFound_simps [simp]:
  "IsNotFound (StatusError c msg) \<longleftrightarrow> c = CodeNotFound"
  "IsNotFound (ServiceResponseErrorVal st code msg) \<longleftrightarrow> st = 404"
  "IsNotFound (ServiceResponseErrorPtr st code msg) \<longleftrightarrow> st = 404"
  "\<not> IsNotFound (Errorf msg)" "\<not> IsNotFound ErrWaitTimeout" "\<not> IsNotFound (Aggregate es)"
  "\<not> IsNotFound ImplementedElsewhere" "\<not> IsNotFound (KubeError r msg)" "\<not> IsNotFound NotImplemented"
  by (auto simp: IsNotFound_def status_code_def NotFound_def)

subsection \<open>WaitForCompleted\<close>

type_synonym 'v poll_result = "'v \<times> (error + bool)"

fun exponential_backoff ::
  "nat \<Rightarrow> ('v \<Rightarrow> ('w, 'e, 'v poll_result) m) \<Rightarrow> 'v \<Rightarrow> ('w, 'e, 'v \<times> error option) m" where
  "exponential_backoff 0 condition v = okR (v, Some ErrWaitTimeout)"
| "exponential_backoff (Suc steps) condition v =
     bindR (condition v) (\<lambda>(v', r). case r of
         Inl e \<Rightarrow> okR (v', Some e)
       | Inr ok \<Rightarrow> if ok then okR (v', None) else exponential_backoff steps condition v')"

definition DefaultSteps :: nat where
  "DefaultSteps = 30"

definition WaitForCompleted ::
  "('v \<Rightarrow> ('w, 'e, 'v poll_result) m) \<Rightarrow> 'v \<Rightarrow> ('w, 'e, 'v \<times> error option) m" where
  "WaitForCompleted condition v = exponential_backoff DefaultSteps condition v"

lemma emits_exponential_backoff [emits_intro]:
  "(\<And>v. emits (condition v) A) \<Longrightarrow> emits (exponential_backoff n condition v) A"
proof (induction n arbitrary: v)
  case 0
  show ?case by (auto intro: emits_intro)
next
  case (Suc n)
  then show ?case by (auto intro!: emits_intro)
qed

lemma emits_WaitForCompleted [emits_intro]:
  "(\<And>v. emits (condition v) A) \<Longrightarrow> emits (WaitForCompleted condition v) A"
  by (simp add: WaitForCompleted_def emits_exponential_backoff)

text \<open>A wait that ends without error saw a poll that reported completion.\<close>

lemma exponential_backoff_completed:
  assumes "exponential_backoff n condition v s = (Ok (v', None), t)"
  shows "\<exists>u s'. condition u s' = (Ok (v', Inr True), t)"
  using assms
proof (induction n arbitrary: v s)
  case 0
  then show ?case by (simp add: run_simps)
next
  case (Suc n)
  from Suc.prems obtain x u where c: "condition v s = (Ok x, u)"
    and rest: "(case x of (v', r) \<Rightarrow> case r of Inl e \<Rightarrow> okR (v', Some e)
       | Inr ok \<Rightarrow> if ok then okR (v', None) else exponential_backoff n condition v') u = (Ok (v', None), t)"
    by (auto elim: bindR_Ok_E)
  then show ?case
    using Suc.IH by (auto simp: run_simps split: prod.splits sum.splits if_splits)
qed

text \<open>The condition is evaluated at most as often as there are steps: with one logged event per
  evaluation, a wait logs at most 30 events.\<close>

lemma exponential_backoff_polls:
  assumes "\<And>v s r t. condition v s = (r, t) \<Longrightarrow> length (log t) = Suc (length (log s))"
    and "exponential_backoff n condition v s = (r, t)"
  shows "length (log t) \<le> length (log s) + n"
  using assms(2)
proof (induction n arbitrary: v s)
  case 0
  then show ?case by (simp add: run_simps)
next
  case (Suc n)
  obtain q u where c: "condition v s = (q, u)" by fastforce
  with assms(1) have u: "length (log u) = Suc (length (log s))" by blast
  show ?case
  proof (cases q)
    case (Ok x)
    with c Suc.prems u show ?thesis
      by (auto simp: run_simps split: prod.splits sum.splits if_splits dest: Suc.IH)
  qed (use c Suc.prems u in \<open>auto simp: run_simps\<close>)
qed

subsection \<open>String and list helpers\<close>

fun IsStrSliceContains :: "string list \<Rightarrow> string \<Rightarrow> bool" where
  "IsStrSliceContains [] strToSearch = False"
| "IsStrSliceContains (item # list) strToSearch =
     (if item = strToSearch then True else IsStrSliceContains list strToSearch)"

definition CutString :: "string \<Rightarrow> nat \<Rightarrow> string" where
  "CutString original len = (if length original > len then take len original else original)"

definition StringToPtr :: "string \<Rightarrow> string option" where
  "StringToPtr s = (if s = [] then None else Some s)"

lemma IsStrSliceContains_set [simp]: "IsStrSliceContains list x \<longleftrightarrow> x \<in> set list"
  by (induction list) auto

lemma CutString_take: "CutString s n = take n s"
  by (simp add: CutString_def)

lemma CutString_length: "length (CutString s n) \<le> n"
  by (simp add: CutString_def)

end
