(* ===== verification/Config.thy ===== *)
theory Config
  imports Common
begin

text \<open>
  \<open>pkg/config\<close>: the option records of the cloud config file and of the load balancer config map,
  their defaults and the loading of the config map. \<open>encoding/json\<close> decodes into an existing value
  and keeps what it decoded before an error, so a decoder takes the old value and returns the new
  one with the error; the decoders are parameters, collected in the record \<open>codecs\<close>.
\<close>

record SessionPersistence =
  sp_Type :: string
  sp_CookieName :: "string option"
  sp_PersistenceTimeout :: "int option"

record HealthCheckOption =
  hc_Enable :: bool
  hc_Delay :: int
  hc_Timeout :: int
  hc_MaxRetries :: int
  hc_Protocol :: string
  hc_Path :: string

record LoadBalancerOptions =
  LBAlgorithm :: string
  LBProvider :: string
  KeepEIP :: bool
  EnableCrossVpc :: bool
  L4FlavorID :: string
  L7FlavorID :: string
  SessionAffinityOption :: SessionPersistence
  SessionAffinityFlag :: string
  EnableTransparentClientIP :: bool
  IdleTimeout :: int
  RequestTimeout :: int
  ResponseTimeout :: int
  HealthCheckFlag :: string
  HealthCheckOption :: HealthCheckOption
  DisableCreateSecurityGroup :: bool
  LoadBalancerClass :: string
  BusinessName :: string
  PrimaryNic :: string

record NetworkingOptions =
  PublicNetworkName :: "string list"
  InternalNetworkName :: "string list"

record MetadataOptions =
  SearchOrder :: string

record LoadbalancerConfig =
  LoadBalancerOpts :: LoadBalancerOptions
  NetworkingOpts :: NetworkingOptions
  MetadataOpts :: MetadataOptions

record VpcOptions =
  vpc_ID :: string
  vpc_SubnetID :: string
  vpc_SecurityGroupID :: string

record AuthOptions =
  Cloud :: string
  AuthURL :: string
  Insecure :: string
  Region :: string
  AccessKey :: string
  SecretKey :: string
  ProjectID :: string
  InstanceVersion :: string

record CloudConfig =
  AuthOpts :: AuthOptions
  VpcOpts :: VpcOptions

record CreateEIPOptions =
  eo_BandwidthSize :: int
  eo_ShareType :: string
  eo_ShareID :: string
  eo_ChargeMode :: string
  eo_IPType :: string

type_synonym 'a decoder = "string \<Rightarrow> 'a \<Rightarrow> 'a \<times> error option"

record codecs =
  json_health :: "HealthCheckOption decoder"
  json_session :: "SessionPersistence decoder"
  json_eip :: "CreateEIPOptions decoder"
  json_lb_options :: "LoadBalancerOptions decoder"
  json_networking :: "NetworkingOptions decoder"
  json_metadata :: "MetadataOptions decoder"

subsection \<open>Zero values and defaults\<close>

definition zero_LoadBalancerOptions :: LoadBalancerOptions where
  "zero_LoadBalancerOptions = \<lparr>LBAlgorithm = [], LBProvider = [], KeepEIP = False, EnableCrossVpc = False,
     L4FlavorID = [], L7FlavorID = [],
     SessionAffinityOption = \<lparr>sp_Type = [], sp_CookieName = None, sp_PersistenceTimeout = None\<rparr>,
     SessionAffinityFlag = [], EnableTransparentClientIP = False, IdleTimeout = 0, RequestTimeout = 0,
     ResponseTimeout = 0, HealthCheckFlag = [],
     HealthCheckOption = \<lparr>hc_Enable = False, hc_Delay = 0, hc_Timeout = 0, hc_MaxRetries = 0, hc_Protocol = [], hc_Path = []\<rparr>,
     DisableCreateSecurityGroup = False, LoadBalancerClass = [], BusinessName = [], PrimaryNic = []\<rparr>"

definition lb_initDefaultValue :: "LoadBalancerOptions \<Rightarrow> LoadBalancerOptions" where
  "lb_initDefaultValue l =
     (let l' = (if LBProvider l = [] then l\<lparr>LBProvider := ''vlb''\<rparr> else l)
      in l'\<lparr>HealthCheckOption := \<lparr>hc_Enable = False, hc_Delay = 5, hc_Timeout = 3, hc_MaxRetries = 3, hc_Protocol = [], hc_Path = []\<rparr>\<rparr>)"

definition md_initDefaultValue :: "MetadataOptions \<Rightarrow> MetadataOptions" where
  "md_initDefaultValue m = (if SearchOrder m = [] then m\<lparr>SearchOrder := ''metadataService'' @ '','' @ ''configDrive''\<rparr> else m)"

definition NewDefaultELBConfig :: LoadbalancerConfig where
  "NewDefaultELBConfig =
     \<lparr>LoadBalancerOpts = lb_initDefaultValue zero_LoadBalancerOptions,
      NetworkingOpts = \<lparr>PublicNetworkName = [], InternalNetworkName = []\<rparr>,
      MetadataOpts = md_initDefaultValue \<lparr>SearchOrder = []\<rparr>\<rparr>"

text \<open>A missing key of the config map reads as the empty string; a decoding error is logged and what
  was decoded stays.\<close>

definition LoadELBConfig :: "codecs \<Rightarrow> (string \<rightharpoonup> string) \<Rightarrow> LoadbalancerConfig" where
  "LoadELBConfig cd data =
     (let get = (\<lambda>k. case data k of None \<Rightarrow> [] | Some v \<Rightarrow> v);
          cfg = NewDefaultELBConfig;
          s1 = get ''loadBalancerOption'';
          cfg1 = (if length s1 > 0 then cfg\<lparr>LoadBalancerOpts := fst (json_lb_options cd s1 (LoadBalancerOpts cfg))\<rparr> else cfg);
          s2 = get ''networkingOption'';
          cfg2 = (if length s2 > 0 then cfg1\<lparr>NetworkingOpts := fst (json_networking cd s2 (NetworkingOpts cfg1))\<rparr> else cfg1);
          s3 = get ''metadataOption''
      in (if length s3 > 0 then cfg2\<lparr>MetadataOpts := fst (json_metadata cd s3 (MetadataOpts cfg2))\<rparr> else cfg2))"

definition setDefaultConfig :: "CloudConfig \<Rightarrow> CloudConfig" where
  "setDefaultConfig cc =
     (let a = AuthOpts cc;
          a1 = (if Cloud a = [] then a\<lparr>Cloud := ''myhuaweicloud.com''\<rparr> else a);
          a2 = (if AuthURL a1 = [] then a1\<lparr>AuthURL := ''https://iam.'' @ Cloud a1 @ '':443/v3/''\<rparr> else a1)
      in cc\<lparr>AuthOpts := a2\<rparr>)"

lemma setDefaultConfig_idem: "setDefaultConfig (setDefaultConfig cc) = setDefaultConfig cc"
  by (simp add: setDefaultConfig_def Let_def)

end
