(* ===== verification/Kube.thy ===== *)
theory Kube
  imports Common
begin

text \<open>
  The Kubernetes objects the provider reads (\<open>v1.Service\<close>, \<open>v1.Node\<close>, \<open>v1.Pod\<close>), as records with the
  fields the code uses. A Go map of strings is a partial function, a nil pointer is \<open>None\<close>.
\<close>

datatype intstr = IntVal int | StrVal string

record service_port =
  port_Name :: string
  port_Protocol :: string
  port_Port :: int
  port_TargetPort :: intstr
  port_NodePort :: int

record service =
  svc_Namespace :: string
  svc_Name :: string
  svc_UID :: string
  svc_Annotations :: "string \<rightharpoonup> string"
  svc_Type :: string
  svc_LoadBalancerClass :: "string option"
  svc_Ports :: "service_port list"
  svc_Selector :: "(string \<times> string) list"
  svc_AllocateLoadBalancerNodePorts :: "bool option"
  svc_ExternalTrafficPolicy :: string
  svc_LoadBalancerIP :: string
  svc_Ingress :: "string list"

record node_address =
  addr_Type :: string
  addr_Address :: string

record condition =
  cond_Type :: string
  cond_Status :: string

record node =
  node_Name :: string
  node_Labels :: "string \<rightharpoonup> string"
  node_ProviderID :: string
  node_Unschedulable :: bool
  node_Addresses :: "node_address list"
  node_Conditions :: "condition list"
  node_MachineID :: string

record container_port =
  cp_Name :: string
  cp_Protocol :: string
  cp_ContainerPort :: int

record pod =
  pod_Namespace :: string
  pod_Name :: string
  pod_DeletionTimestamp :: "string option"
  pod_NodeName :: string
  pod_Containers :: "container_port list list"
  pod_Phase :: string
  pod_Conditions :: "condition list"
  pod_HostIP :: string
  pod_PodIP :: string
  pod_PodIPs :: "string list"

text \<open>A node without anything: the value of a freshly declared \<open>v1.Pod\<close> and the like.\<close>

definition zero_pod :: pod where
  "zero_pod = \<lparr>pod_Namespace = [], pod_Name = [], pod_DeletionTimestamp = None, pod_NodeName = [],
     pod_Containers = [], pod_Phase = [], pod_Conditions = [], pod_HostIP = [], pod_PodIP = [], pod_PodIPs = []\<rparr>"

fun IsPodReadyCondition :: "condition list \<Rightarrow> bool" where
  "IsPodReadyCondition [] = False"
| "IsPodReadyCondition (c # cs) =
     (if cond_Type c = ''Ready'' \<and> cond_Status c = ''True'' then True else IsPodReadyCondition cs)"

definition IsPodActive :: "pod \<Rightarrow> bool" where
  "IsPodActive p =
     (if ''Succeeded'' \<noteq> pod_Phase p \<and> ''Failed'' \<noteq> pod_Phase p \<and> pod_DeletionTimestamp p = None
      then IsPodReadyCondition (pod_Conditions p) else False)"

fun getNodeAddress_loop :: "node_address list \<Rightarrow> string option" where
  "getNodeAddress_loop [] = None"
| "getNodeAddress_loop (a # as) =
     (if addr_Type a = ''InternalIP'' \<or> addr_Type a = ''ExternalIP'' then Some (addr_Address a)
      else getNodeAddress_loop as)"

definition getNodeAddress :: "node \<Rightarrow> error + string" where
  "getNodeAddress n =
     (if length (node_Addresses n) = 0
      then Inl (StatusError CodeNotFound (''error, current node do not have addresses, nodeName: '' @ node_Name n))
      else case getNodeAddress_loop (node_Addresses n) of
        Some a \<Rightarrow> Inr a
      | None \<Rightarrow> Inl (StatusError CodeNotFound (''error, current node do not have any valid addresses, nodeName: '' @ node_Name n)))"

lemma getNodeAddress_Inl: "getNodeAddress n = Inl e \<Longrightarrow> IsNotFound e"
  by (auto simp: getNodeAddress_def split: if_splits option.splits)

lemma getNodeAddress_loop_Some:
  "getNodeAddress_loop as = Some x \<Longrightarrow> \<exists>a\<in>set as. addr_Address a = x \<and> addr_Type a \<in> {''InternalIP'', ''ExternalIP''}"
  by (induction as) (auto split: if_splits)

lemma getNodeAddress_Inr:
  "getNodeAddress n = Inr x \<Longrightarrow> \<exists>a\<in>set (node_Addresses n). addr_Address a = x \<and> addr_Type a \<in> {''InternalIP'', ''ExternalIP''}"
  by (auto simp: getNodeAddress_def split: if_splits option.splits dest: getNodeAddress_loop_Some)

end
