(* ===== verification/Http_Types.thy ===== *)
theory Http_Types
  imports Kube
begin

text \<open>
  The data of the legacy HTTP clients: the objects of \<open>nat_connections.go\<close> (NAT gateway, DNAT rule,
  port, floating IP) and of \<open>elb_connection.go\<close> (the version 1 ELB API; their Go names \<open>Listener\<close>,
  \<open>Member\<close> and so on get the prefix \<open>ELB\<close> here), and the requests and responses of HTTP. A
  response has its body as text; \<open>rsp_ReadErr\<close> is the error of reading the body, if any.
\<close>

subsection \<open>NAT\<close>

record NATGateway =
  ng_Id :: string
  ng_Name :: string
  ng_Description :: string
  ng_RouterId :: string
  ng_InternalNetWorkId :: string
  ng_Status :: string
  ng_Spec :: string
  ng_TenantId :: string
  ng_AdminStateUp :: bool

record DNATRule =
  dr_Id :: string
  dr_TenantId :: string
  dr_NATGatewayId :: string
  dr_PortId :: string
  dr_InternalServicePort :: int
  dr_FloatingIpId :: string
  dr_ExternalServicePort :: int
  dr_FloatingIpAddress :: string
  dr_Protocol :: string
  dr_Status :: string
  dr_AdminStateUp :: bool
  dr_Description :: string

record DNATRuleDescription =
  dd_ClusterID :: string
  dd_Description :: string

record NatFixedIp =
  nfi_SubnetId :: string
  nfi_IpAddress :: string

record AllowAddressPair =
  ap_IpAddress :: string
  ap_MacAddress :: string
  ap_OptName :: string
  ap_OptValue :: string

record Port =
  po_Id :: string
  po_Name :: string
  po_NetworkId :: string
  po_AdminStateUp :: bool
  po_MacAddress :: string
  po_FixedIps :: "NatFixedIp option list"
  po_DeviceId :: string
  po_DeviceOwner :: string
  po_TenantId :: string
  po_Status :: string
  po_SecurityGroups :: "string list"
  po_AllowedAddressPairs :: "AllowAddressPair option list"

record FloatingIp =
  fl_Id :: string
  fl_Status :: string
  fl_FloatingIpAddress :: string
  fl_FloatingNetworkId :: string
  fl_RouterId :: string
  fl_PortId :: string
  fl_FixedIpAddress :: string
  fl_TenantId :: string

definition zero_NATGateway :: NATGateway where
  "zero_NATGateway = \<lparr>ng_Id = [], ng_Name = [], ng_Description = [], ng_RouterId = [], ng_InternalNetWorkId = [],
     ng_Status = [], ng_Spec = [], ng_TenantId = [], ng_AdminStateUp = False\<rparr>"

definition zero_DNATRule :: DNATRule where
  "zero_DNATRule = \<lparr>dr_Id = [], dr_TenantId = [], dr_NATGatewayId = [], dr_PortId = [], dr_InternalServicePort = 0,
     dr_FloatingIpId = [], dr_ExternalServicePort = 0, dr_FloatingIpAddress = [], dr_Protocol = [], dr_Status = [],
     dr_AdminStateUp = False, dr_Description = []\<rparr>"

definition zero_Port :: Port where
  "zero_Port = \<lparr>po_Id = [], po_Name = [], po_NetworkId = [], po_AdminStateUp = False, po_MacAddress = [], po_FixedIps = [],
     po_DeviceId = [], po_DeviceOwner = [], po_TenantId = [], po_Status = [],
     po_SecurityGroups = [], po_AllowedAddressPairs = []\<rparr>"

subsection \<open>ELB, version 1\<close>

record ELB =
  elb_Name :: string
  elb_Description :: string
  elb_VpcID :: string
  elb_Bandwidth :: int
  elb_Type :: string
  elb_AdminStateUp :: int

record ElbDetail = ELB +
  elb_VipAddress :: string
  elb_CreateTime :: string
  elb_Status :: string
  elb_LoadbalancerId :: string
  elb_VipSubnetId :: string

record ElbList =
  el_InstanceNum :: string
  el_Loadbalancers :: "ElbDetail list"

record ELBListener =
  ls_Name :: string
  ls_AdminStateUp :: bool
  ls_Description :: string
  ls_LoadbalancerID :: string
  ls_Protocol :: string
  ls_Port :: int
  ls_BackendProtocol :: string
  ls_BackendPort :: int
  ls_LBAlgorithm :: string
  ls_SSLCertificate :: string
  ls_SessionSticky :: bool
  ls_StickySessionType :: string
  ls_CookieTimeout :: int
  ls_TCPTimeout :: int

text \<open>\<open>ListenerRsp\<close> and \<open>ListenerDetail\<close> have the same fields.\<close>

record ListenerDetail = ELBListener +
  ls_ID :: string
  ls_TenantID :: string
  ls_Status :: string
  ls_CreateTime :: string
  ls_HealthcheckID :: string

record HealthCheck =
  hk_ListenerID :: string
  hk_HealthcheckProtocol :: string
  hk_HealthcheckURI :: string
  hk_HealthcheckConnectPort :: int
  hk_HealthyThreshold :: int
  hk_UnhealthyThreshold :: int
  hk_HealthcheckTimeout :: int
  hk_HealthcheckInterval :: int

record HealthCheckRsp = HealthCheck +
  hk_ID :: string
  hk_TenantID :: string

record HealthCheckDetail = HealthCheckRsp +
  hk_HealthcheckStatus :: string
  hk_CreateTime :: string

record ELBMember =
  em_ListenerID :: string
  em_ServerID :: string
  em_Address :: string

record MemDetail = ELBMember +
  em_ServerAddress :: string
  em_ID :: string
  em_Status :: string
  em_Listeners :: "(string \<times> string) list list"
  em_ServerName :: string
  em_HealthStatus :: string

record MemberRm =
  mr_ID :: string
  mr_Address :: string

record QuotaResource =
  qr_Type :: string
  qr_Used :: int
  qr_Quota :: int

text \<open>The answer to a query for a job; the structs \<open>Entities\<close> and \<open>Elb\<close> in it are flattened, its members are pairs of address and ID.\<close>

record AsyncJobResp =
  aj_Status :: string
  aj_LoadbalancerId :: string
  aj_Members :: "(string \<times> string) list"
  aj_FailReason :: string
  aj_ErrorCode :: string

record JobResp =
  jr_JobID :: string
  jr_Uri :: string

record ErrorRsp =
  er_Message :: string
  er_Code :: string

record Server =
  sv_Id :: string
  sv_Name :: string
  sv_Addresses :: "(string \<times> string list) list"

definition zero_ELBListener :: ELBListener where
  "zero_ELBListener = \<lparr>ls_Name = [], ls_AdminStateUp = False, ls_Description = [], ls_LoadbalancerID = [], ls_Protocol = [],
     ls_Port = 0, ls_BackendProtocol = [], ls_BackendPort = 0, ls_LBAlgorithm = [], ls_SSLCertificate = [],
     ls_SessionSticky = False, ls_StickySessionType = [], ls_CookieTimeout = 0, ls_TCPTimeout = 0\<rparr>"

definition zero_ListenerDetail :: ListenerDetail where
  "zero_ListenerDetail = ELBListener.extend zero_ELBListener
     (ListenerDetail.fields [] [] [] [] [])"

definition zero_HealthCheck :: HealthCheck where
  "zero_HealthCheck = \<lparr>hk_ListenerID = [], hk_HealthcheckProtocol = [], hk_HealthcheckURI = [], hk_HealthcheckConnectPort = 0,
     hk_HealthyThreshold = 0, hk_UnhealthyThreshold = 0, hk_HealthcheckTimeout = 0, hk_HealthcheckInterval = 0\<rparr>"

definition zero_HealthCheckRsp :: HealthCheckRsp where
  "zero_HealthCheckRsp = HealthCheck.extend zero_HealthCheck (HealthCheckRsp.fields [] [])"

definition zero_ElbDetail :: ElbDetail where
  "zero_ElbDetail = \<lparr>elb_Name = [], elb_Description = [], elb_VpcID = [], elb_Bandwidth = 0, elb_Type = [], elb_AdminStateUp = 0,
     elb_VipAddress = [], elb_CreateTime = [], elb_Status = [], elb_LoadbalancerId = [], elb_VipSubnetId = []\<rparr>"

definition zero_AsyncJobResp :: AsyncJobResp where
  "zero_AsyncJobResp = \<lparr>aj_Status = [], aj_LoadbalancerId = [], aj_Members = [], aj_FailReason = [], aj_ErrorCode = []\<rparr>"

definition zero_JobResp :: JobResp where
  "zero_JobResp = \<lparr>jr_JobID = [], jr_Uri = []\<rparr>"

subsection \<open>HTTP\<close>

text \<open>The endpoints: \<open>NewELBClient\<close> builds the endpoint of its ELB client on the host of ECS.\<close>

datatype http_service = NatEndpoint | VpcEndpoint | ElbEndpoint | EcsEndpoint

datatype http_method = MethodGet | MethodPost | MethodPut | MethodDelete

text \<open>The object sent with a request.\<close>

datatype http_obj =
    ObjDNATRule DNATRule
  | ObjELB ELB
  | ObjListener ELBListener
  | ObjHealthCheck HealthCheck
  | ObjMembers "ELBMember list"
  | ObjMembersDel "MemberRm list"

record http_request =
  rq_Service :: http_service
  rq_Method :: http_method
  rq_Url :: string
  rq_Obj :: "http_obj option"

record http_response =
  rsp_StatusCode :: int
  rsp_Body :: string
  rsp_ReadErr :: "error option"

text \<open>The JSON decoders of the objects, each on the text of a body.\<close>

record json_decoders =
  js_NATGateway :: "string \<Rightarrow> error + NATGateway"
  js_NATGateways :: "string \<Rightarrow> error + NATGateway list"
  js_DNATRule :: "string \<Rightarrow> error + DNATRule"
  js_DNATRules :: "string \<Rightarrow> error + DNATRule list"
  js_Port :: "string \<Rightarrow> error + Port"
  js_Ports :: "string \<Rightarrow> error + Port list"
  js_FloatingIps :: "string \<Rightarrow> error + FloatingIp list"
  js_Description :: "string \<Rightarrow> error + DNATRuleDescription"
  js_encDescription :: "DNATRuleDescription \<Rightarrow> string"
  js_Job :: "string \<Rightarrow> error + AsyncJobResp"
  js_JobResp :: "string \<Rightarrow> error + JobResp"
  js_Quotas :: "string \<Rightarrow> error + QuotaResource list"
  js_ElbDetail :: "string \<Rightarrow> error + ElbDetail"
  js_ElbNum :: "string \<Rightarrow> error + string option"
  js_ElbList :: "string \<Rightarrow> error + ElbList"
  js_ListenerRsp :: "string \<Rightarrow> error + ListenerDetail"
  js_Listener :: "string \<Rightarrow> error + ListenerDetail"
  js_Listeners :: "string \<Rightarrow> error + ListenerDetail option list"
  js_ErrorRsp :: "string \<Rightarrow> error + ErrorRsp option"
  js_HealthCheckRsp :: "string \<Rightarrow> error + HealthCheckRsp"
  js_HealthCheckDetail :: "string \<Rightarrow> error + HealthCheckDetail"
  js_Members :: "string \<Rightarrow> error + MemDetail option list"
  js_Servers :: "string \<Rightarrow> error + Server list"
  js_SessionOptions :: "string \<Rightarrow> error + (string \<rightharpoonup> string) option"

end
