(* ===== verification/Sdk_Models.thy ===== *)
theory Sdk_Models
  imports Go_Result
begin

text \<open>
  The packages \<open>model\<close> and \<open>wrapper/model\<close>: the objects of a server and of a load balancer that the repository declares
  itself because the SDK lacks some of their fields, their enumerations with the JSON methods, and the definitions of the requests that
  read them. A pointer with \<open>omitempty\<close> is an option. \<open>utils.Marshal\<close> of the SDK is the parameter \<open>marshal\<close>.
\<close>

subsection \<open>Enumerations\<close>

datatype ServerAddressOSEXTIPStype = ServerAddressOSEXTIPStype (ip_type: string)

datatype LoadbalancerOperatingStatus = LoadbalancerOperatingStatus (operating: string)

datatype LoadbalancerProvisioningStatus = LoadbalancerProvisioningStatus (provisioning: string)

definition GetServerAddressOSEXTIPStypeEnum :: "ServerAddressOSEXTIPStype list" where
  "GetServerAddressOSEXTIPStypeEnum = [ServerAddressOSEXTIPStype ''fixed'', ServerAddressOSEXTIPStype ''floating'']"

definition GetLoadbalancerOperatingStatusEnum :: "LoadbalancerOperatingStatus list" where
  "GetLoadbalancerOperatingStatusEnum = map LoadbalancerOperatingStatus [''ONLINE'', ''OFFLINE'', ''DEGRADED'', ''DISABLED'', ''NO_MONITOR'']"

definition GetLoadbalancerProvisioningStatusEnum :: "LoadbalancerProvisioningStatus list" where
  "GetLoadbalancerProvisioningStatusEnum = map LoadbalancerProvisioningStatus [''ACTIVE'', ''PENDING_CREATE'', ''ERROR'']"

text \<open>
  \<open>MarshalJSON\<close> prints the value. \<open>UnmarshalJSON\<close> trims quotes: the converter for strings exists and gives the
  text back as it is, so there is no error, and a document that is not a string is taken literally.
\<close>

definition ip_type_MarshalJSON :: "(string \<Rightarrow> error + string) \<Rightarrow> ServerAddressOSEXTIPStype \<Rightarrow> error + string" where
  "ip_type_MarshalJSON marshal c = marshal (ip_type c)"

definition ip_type_UnmarshalJSON :: "string \<Rightarrow> ServerAddressOSEXTIPStype" where
  "ip_type_UnmarshalJSON b = ServerAddressOSEXTIPStype (trim_quotes b)"

definition operating_MarshalJSON :: "(string \<Rightarrow> error + string) \<Rightarrow> LoadbalancerOperatingStatus \<Rightarrow> error + string" where
  "operating_MarshalJSON marshal c = marshal (operating c)"

definition operating_UnmarshalJSON :: "string \<Rightarrow> LoadbalancerOperatingStatus" where
  "operating_UnmarshalJSON b = LoadbalancerOperatingStatus (trim_quotes b)"

definition provisioning_MarshalJSON :: "(string \<Rightarrow> error + string) \<Rightarrow> LoadbalancerProvisioningStatus \<Rightarrow> error + string" where
  "provisioning_MarshalJSON marshal c = marshal (provisioning c)"

definition provisioning_UnmarshalJSON :: "string \<Rightarrow> LoadbalancerProvisioningStatus" where
  "provisioning_UnmarshalJSON b = LoadbalancerProvisioningStatus (trim_quotes b)"

subsection \<open>Servers\<close>

text \<open>Objects of the SDK inside them.\<close>

record ServerImage =
  si_Id :: string

record ServerFlavor =
  sf_Id :: string
  sf_Name :: string
  sf_Disk :: string
  sf_Vcpus :: string
  sf_Ram :: string

record ServerSecurityGroup =
  ssg_Name :: string
  ssg_Id :: string

record ServerFault =
  sft_Code :: "int option"
  sft_Created :: "string option"
  sft_Message :: "string option"
  sft_Details :: "string option"

record ServerExtendVolumeAttachment =
  sva_Id :: string
  sva_DeleteOnTermination :: string
  sva_BootIndex :: "string option"
  sva_Device :: string

record ServerSchedulerHints =
  ssh_Group :: "string list option"
  ssh_Tenancy :: "string list option"
  ssh_DedicatedHostId :: "string list option"

record ServerSystemTag =
  sst_Key :: "string option"
  sst_Value :: "string option"

record CpuOptions =
  cpu_HwcpuThreads :: "int option"

record Hypervisor =
  hv_HypervisorType :: "string option"
  hv_CsdHypervisor :: "string option"

record ServerAddress =
  sa_Version :: string
  sa_Addr :: string
  sa_Primary :: bool
  sa_Type :: "ServerAddressOSEXTIPStype option"
  sa_OSEXTIPSMACmacAddr :: "string option"
  sa_OSEXTIPSportId :: "string option"

text \<open>\<open>Addresses\<close> is a Go map from the network id to its addresses: the list gives the entries in the
  order one \<open>range\<close> statement visits them.\<close>

record ServerDetail =
  srv_Status :: string
  srv_Updated :: string
  srv_AutoTerminateTime :: string
  srv_HostId :: string
  srv_OSEXTSRVATTRhost :: string
  srv_Addresses :: "(string \<times> ServerAddress list) list"
  srv_KeyName :: string
  srv_Image :: "ServerImage option"
  srv_OSEXTSTStaskState :: string
  srv_OSEXTSTSvmState :: string
  srv_OSEXTSRVATTRinstanceName :: string
  srv_OSEXTSRVATTRhypervisorHostname :: string
  srv_Flavor :: "ServerFlavor option"
  srv_Id :: string
  srv_SecurityGroups :: "ServerSecurityGroup list"
  srv_Zone :: string
  srv_UserId :: string
  srv_Name :: string
  srv_Created :: string
  srv_TenantId :: string
  srv_OSDCFdiskConfig :: "string option"
  srv_AccessIPv4 :: string
  srv_AccessIPv6 :: string
  srv_Fault :: "ServerFault option"
  srv_Progress :: "int option"
  srv_OSEXTSTSpowerState :: int
  srv_ConfigDrive :: string
  srv_Metadata :: "string \<rightharpoonup> string"
  srv_OSSRVUSGlaunchedAt :: string
  srv_OSSRVUSGterminatedAt :: string
  srv_OsExtendedVolumesvolumesAttached :: "ServerExtendVolumeAttachment list"
  srv_Description :: "string option"
  srv_HostStatus :: string
  srv_OSEXTSRVATTRhostname :: string
  srv_OSEXTSRVATTRreservationId :: "string option"
  srv_OSEXTSRVATTRlaunchIndex :: int
  srv_OSEXTSRVATTRkernelId :: string
  srv_OSEXTSRVATTRramdiskId :: string
  srv_OSEXTSRVATTRrootDeviceName :: string
  srv_OSEXTSRVATTRuserData :: "string option"
  srv_Locked :: bool
  srv_Tags :: "string list option"
  srv_OsschedulerHints :: "ServerSchedulerHints option"
  srv_EnterpriseProjectId :: "string option"
  srv_SysTags :: "ServerSystemTag list option"
  srv_CpuOptions :: "CpuOptions option"
  srv_Hypervisor :: "Hypervisor option"

definition zero_ServerAddress :: ServerAddress where
  "zero_ServerAddress = \<lparr>sa_Version = [], sa_Addr = [], sa_Primary = False, sa_Type = None, sa_OSEXTIPSMACmacAddr = None,
     sa_OSEXTIPSportId = None\<rparr>"

definition zero_ServerDetail :: ServerDetail where
  "zero_ServerDetail = \<lparr>srv_Status = [], srv_Updated = [], srv_AutoTerminateTime = [], srv_HostId = [], srv_OSEXTSRVATTRhost = [],
     srv_Addresses = [], srv_KeyName = [], srv_Image = None, srv_OSEXTSTStaskState = [], srv_OSEXTSTSvmState = [],
     srv_OSEXTSRVATTRinstanceName = [], srv_OSEXTSRVATTRhypervisorHostname = [], srv_Flavor = None, srv_Id = [],
     srv_SecurityGroups = [], srv_Zone = [], srv_UserId = [], srv_Name = [], srv_Created = [], srv_TenantId = [],
     srv_OSDCFdiskConfig = None, srv_AccessIPv4 = [], srv_AccessIPv6 = [], srv_Fault = None, srv_Progress = None,
     srv_OSEXTSTSpowerState = 0, srv_ConfigDrive = [], srv_Metadata = Map.empty, srv_OSSRVUSGlaunchedAt = [],
     srv_OSSRVUSGterminatedAt = [], srv_OsExtendedVolumesvolumesAttached = [], srv_Description = None,
     srv_HostStatus = [], srv_OSEXTSRVATTRhostname = [], srv_OSEXTSRVATTRreservationId = None,
     srv_OSEXTSRVATTRlaunchIndex = 0, srv_OSEXTSRVATTRkernelId = [], srv_OSEXTSRVATTRramdiskId = [],
     srv_OSEXTSRVATTRrootDeviceName = [], srv_OSEXTSRVATTRuserData = None, srv_Locked = False, srv_Tags = None,
     srv_OsschedulerHints = None, srv_EnterpriseProjectId = None, srv_SysTags = None, srv_CpuOptions = None,
     srv_Hypervisor = None\<rparr>"

subsection \<open>Load balancers\<close>

record ResourceList =
  rl_Id :: string

record PublicIP =
  pip_ID :: string
  pip_Address :: string
  pip_IPVersion :: int

record Loadbalancer =
  lbd_Id :: string
  lbd_TenantId :: string
  lbd_Name :: string
  lbd_Description :: string
  lbd_VipSubnetId :: string
  lbd_VipPortId :: string
  lbd_VipAddress :: string
  lbd_Listeners :: "ResourceList list"
  lbd_Pools :: "ResourceList list"
  lbd_Provider :: string
  lbd_OperatingStatus :: LoadbalancerOperatingStatus
  lbd_ProvisioningStatus :: LoadbalancerProvisioningStatus
  lbd_AdminStateUp :: bool
  lbd_CreatedAt :: string
  lbd_UpdatedAt :: string
  lbd_EnterpriseProjectId :: string
  lbd_ProjectId :: string
  lbd_Tags :: "string list"
  lbd_PublicIPs :: "PublicIP list"

definition zero_Loadbalancer :: Loadbalancer where
  "zero_Loadbalancer = \<lparr>lbd_Id = [], lbd_TenantId = [], lbd_Name = [], lbd_Description = [], lbd_VipSubnetId = [], lbd_VipPortId = [],
     lbd_VipAddress = [], lbd_Listeners = [], lbd_Pools = [], lbd_Provider = [],
     lbd_OperatingStatus = LoadbalancerOperatingStatus [],
     lbd_ProvisioningStatus = LoadbalancerProvisioningStatus [], lbd_AdminStateUp = False, lbd_CreatedAt = [],
     lbd_UpdatedAt = [], lbd_EnterpriseProjectId = [], lbd_ProjectId = [], lbd_Tags = [], lbd_PublicIPs = []\<rparr>"

subsection \<open>Replies\<close>

record ListServersDetailsResponse =
  lsd_Count :: "int option"
  lsd_Servers :: "ServerDetail list option"
  lsd_HttpStatusCode :: int

record ListLoadbalancersRsp =
  llr_Loadbalancers :: "Loadbalancer list option"
  llr_HttpStatusCode :: int

record ShowLoadbalancerResponse =
  slr_Loadbalancer :: "Loadbalancer option"
  slr_HttpStatusCode :: int

text \<open>The \<open>String\<close> methods; the list of load balancers prints itself under another name than its type's.\<close>

definition go_String :: "string \<Rightarrow> ('a \<Rightarrow> error + string) \<Rightarrow> 'a \<Rightarrow> string" where
  "go_String name marshal o' = (case marshal o' of Inl e \<Rightarrow> name @ '' struct{}'' | Inr data \<Rightarrow> join_with '' '' [name, data])"

definition ServerAddress_String :: "(ServerAddress \<Rightarrow> error + string) \<Rightarrow> ServerAddress \<Rightarrow> string" where
  "ServerAddress_String = go_String ''ServerAddress''"

definition ServerDetail_String :: "(ServerDetail \<Rightarrow> error + string) \<Rightarrow> ServerDetail \<Rightarrow> string" where
  "ServerDetail_String = go_String ''ServerDetail''"

definition Loadbalancer_String :: "(Loadbalancer \<Rightarrow> error + string) \<Rightarrow> Loadbalancer \<Rightarrow> string" where
  "Loadbalancer_String = go_String ''Loadbalancer''"

definition ListServersDetailsResponse_String :: "(ListServersDetailsResponse \<Rightarrow> error + string) \<Rightarrow> ListServersDetailsResponse \<Rightarrow> string" where
  "ListServersDetailsResponse_String = go_String ''ListServersDetailsResponse''"

definition ListLoadbalancersRsp_String :: "(ListLoadbalancersRsp \<Rightarrow> error + string) \<Rightarrow> ListLoadbalancersRsp \<Rightarrow> string" where
  "ListLoadbalancersRsp_String = go_String ''ListLoadbalancersResponse''"

definition ShowLoadbalancerResponse_String :: "(ShowLoadbalancerResponse \<Rightarrow> error + string) \<Rightarrow> ShowLoadbalancerResponse \<Rightarrow> string" where
  "ShowLoadbalancerResponse_String = go_String ''ShowLoadbalancerResponse''"

subsection \<open>Request definitions\<close>

datatype location_type = LocPath | LocQuery

record field_def =
  fd_Name :: string
  fd_JsonTag :: string
  fd_LocationType :: location_type

record HttpRequestDef =
  rd_Method :: string
  rd_Path :: string
  rd_Response :: string
  rd_ContentType :: string
  rd_RequestFields :: "field_def list"

definition query_field :: "string \<times> string \<Rightarrow> field_def" where
  "query_field f = \<lparr>fd_Name = fst f, fd_JsonTag = snd f, fd_LocationType = LocQuery\<rparr>"

definition GenReqDefForShowLoadbalancer :: HttpRequestDef where
  "GenReqDefForShowLoadbalancer = \<lparr>rd_Method = ''GET'', rd_Path = ''/v2/{project_id}/elb/loadbalancers/{loadbalancer_id}'',
     rd_Response = ''ShowLoadbalancerResponse'', rd_ContentType = ''application/json'',
     rd_RequestFields = [\<lparr>fd_Name = ''LoadbalancerId'', fd_JsonTag = ''loadbalancer_id'', fd_LocationType = LocPath\<rparr>]\<rparr>"

definition GenReqDefForListLoadbalancers :: HttpRequestDef where
  "GenReqDefForListLoadbalancers = \<lparr>rd_Method = ''GET'', rd_Path = ''/v2/{project_id}/elb/loadbalancers'',
     rd_Response = ''ListLoadbalancersRsp'', rd_ContentType = ''application/json'',
     rd_RequestFields = map query_field
       [(''Limit'', ''limit''), (''Marker'', ''marker''), (''PageReverse'', ''page_reverse''), (''Id'', ''id''),
        (''Description'', ''description''), (''Name'', ''name''), (''OperatingStatus'', ''operating_status''),
        (''ProvisioningStatus'', ''provisioning_status''), (''VipAddress'', ''vip_address''), (''VipPortId'', ''vip_port_id''),
        (''VipSubnetId'', ''vip_subnet_id''), (''VpcId'', ''vpc_id''), (''EnterpriseProjectId'', ''enterprise_project_id''),
        (''AdminStateUp'', ''admin_state_up''), (''MemberAddress'', ''member_address''), (''MemberDeviceId'', ''member_device_id'')]\<rparr>"

definition GenReqDefForListServersDetails :: HttpRequestDef where
  "GenReqDefForListServersDetails = \<lparr>rd_Method = ''GET'', rd_Path = ''/v1/{project_id}/cloudservers/detail'',
     rd_Response = ''ListServersDetailsResponse'', rd_ContentType = ''application/json'',
     rd_RequestFields = map query_field
       [(''EnterpriseProjectId'', ''enterprise_project_id''), (''Flavor'', ''flavor''), (''Ip'', ''ip''), (''Limit'', ''limit''),
        (''Name'', ''name''), (''NotTags'', ''not-tags''), (''Offset'', ''offset''), (''ReservationId'', ''reservation_id''),
        (''Status'', ''status''), (''Tags'', ''tags''), (''IpEq'', ''ip_eq''), (''ServerId'', ''server_id'')]\<rparr>"

text \<open>
  What the SDK makes of a definition: the field values of the request (\<open>None\<close> is a nil pointer) become parameters of the
  path or of the query.
\<close>

definition fill_params :: "HttpRequestDef \<Rightarrow> (string \<rightharpoonup> string) \<Rightarrow> location_type \<Rightarrow> (string \<times> string) list" where
  "fill_params reqDef req loc =
     concat (map (\<lambda>f. if fd_LocationType f = loc then (case req (fd_Name f) of None \<Rightarrow> [] | Some v \<Rightarrow> [(fd_JsonTag f, v)]) else [])
       (rd_RequestFields reqDef))"

text \<open>The names in braces of a path.\<close>

fun path_names :: "string \<Rightarrow> string list" where
  "path_names [] = []"
| "path_names (c # cs) = (if c = CHR ''{'' then takeWhile (\<lambda>d. d \<noteq> CHR ''}'') cs # path_names cs else path_names cs)"

definition request_def_ok :: "HttpRequestDef \<Rightarrow> bool" where
  "request_def_ok d \<longleftrightarrow> rd_Method d = ''GET'' \<and> distinct (map fd_Name (rd_RequestFields d)) \<and> distinct (map fd_JsonTag (rd_RequestFields d)) \<and>
     path_names (rd_Path d) = ''project_id'' # map fd_JsonTag (filter (\<lambda>f. fd_LocationType f = LocPath) (rd_RequestFields d))"

subsection \<open>Facts\<close>

lemma request_defs_ok:
  "request_def_ok GenReqDefForShowLoadbalancer" "request_def_ok GenReqDefForListLoadbalancers" "request_def_ok GenReqDefForListServersDetails"
  by (simp_all add: request_def_ok_def GenReqDefForShowLoadbalancer_def GenReqDefForListLoadbalancers_def
      GenReqDefForListServersDetails_def query_field_def)

text \<open>The request for one load balancer fills exactly the names of its path, and a lookup of a server by address sends only the address.\<close>

lemma fill_params_examples:
  "fill_params GenReqDefForShowLoadbalancer [''LoadbalancerId'' \<mapsto> uid] LocPath = [(''loadbalancer_id'', uid)]"
  "fill_params GenReqDefForShowLoadbalancer [''LoadbalancerId'' \<mapsto> uid] LocQuery = []"
  "fill_params GenReqDefForListServersDetails [''IpEq'' \<mapsto> ip] LocQuery = [(''ip_eq'', ip)]"
  by (simp_all add: fill_params_def GenReqDefForShowLoadbalancer_def GenReqDefForListServersDetails_def query_field_def)

text \<open>
  Decoding what was encoded gives the value back, for every value without a quote at either end, when \<open>marshal\<close> puts a string between
  quotes as it is; the values of the enumerations are such strings.
\<close>

lemma trim_quotes_quoted: "CHR 0x22 \<notin> set v \<Longrightarrow> trim_quotes (CHR 0x22 # v @ [CHR 0x22]) = v"
proof -
  assume v: "CHR 0x22 \<notin> set v"
  then have "dropWhile (\<lambda>c. c = CHR 0x22) (v @ [CHR 0x22]) = (if v = [] then [] else v @ [CHR 0x22])" by (cases v) auto
  moreover have "dropWhile (\<lambda>c. c = CHR 0x22) (rev v) = rev v" using v by (cases "rev v") (auto simp flip: set_rev [of v])
  ultimately show ?thesis by (simp add: trim_quotes_def trim_by_def)
qed

lemma enum_json_roundtrip:
  assumes "\<And>v. CHR 0x22 \<notin> set v \<Longrightarrow> marshal v = Inr (CHR 0x22 # v @ [CHR 0x22])" "CHR 0x22 \<notin> set v"
  shows "map_sum (\<lambda>e. e) ip_type_UnmarshalJSON (ip_type_MarshalJSON marshal (ServerAddressOSEXTIPStype v)) = Inr (ServerAddressOSEXTIPStype v)"
    "map_sum (\<lambda>e. e) operating_UnmarshalJSON (operating_MarshalJSON marshal (LoadbalancerOperatingStatus v)) = Inr (LoadbalancerOperatingStatus v)"
    "map_sum (\<lambda>e. e) provisioning_UnmarshalJSON (provisioning_MarshalJSON marshal (LoadbalancerProvisioningStatus v)) = Inr (LoadbalancerProvisioningStatus v)"
  using assms trim_quotes_quoted
  by (simp_all add: ip_type_MarshalJSON_def ip_type_UnmarshalJSON_def operating_MarshalJSON_def operating_UnmarshalJSON_def
      provisioning_MarshalJSON_def provisioning_UnmarshalJSON_def)

lemma enum_values_plain:
  "\<forall>c\<in>set GetServerAddressOSEXTIPStypeEnum. CHR 0x22 \<notin> set (ip_type c)"
  "\<forall>c\<in>set GetLoadbalancerOperatingStatusEnum. CHR 0x22 \<notin> set (operating c)"
  "\<forall>c\<in>set GetLoadbalancerProvisioningStatusEnum. CHR 0x22 \<notin> set (provisioning c)"
  by (simp_all add: GetServerAddressOSEXTIPStypeEnum_def GetLoadbalancerOperatingStatusEnum_def GetLoadbalancerProvisioningStatusEnum_def)

end
