(* ===== verification/Cloud_Api.thy ===== *)
theory Cloud_Api
  imports Config Http_Types Sdk_Models
begin

text \<open>
  The remote side. The Huawei Cloud services (ELB v2 and v3, EIP, ECS) are reached through the SDK
  and the Kubernetes API through client-go; neither is part of the repository, so both are parameters:
  the record \<open>api\<close> holds one function per remote interface, from the world and a request to a
  reply and a new world. Every request is logged as an event. \<open>commonWrapper\<close>,
  \<open>checkStatusCode\<close> and \<open>setResultValue\<close> of \<open>wrapper/ecs.go\<close> are the code between the SDK's reply and
  the provider: an SDK error is returned, a status outside \<open>OKCodes\<close> becomes a service error, a
  reply of another type is a conversion error, an absent object is a nil pointer.
\<close>

subsection \<open>Objects of the cloud services\<close>

record LoadbalancerResp =
  lb_Id :: string
  lb_Name :: string
  lb_VipPortId :: string
  lb_VipAddress :: string
  lb_ProvisioningStatus :: string

record EipInfo =
  ei_EipId :: "string option"
  ei_EipAddress :: "string option"

record LoadBalancer =
  lb3_Id :: string
  lb3_Name :: string
  lb3_VipAddress :: string
  lb3_ProvisioningStatus :: string
  lb3_IpTargetEnable :: bool
  lb3_Eips :: "EipInfo list"

record InsertHeaders =
  ih_XForwardedELBIP :: "bool option"
  ih_XForwardedHost :: "bool option"

record Listener =
  l3_Id :: string
  l3_Name :: string
  l3_Description :: string
  l3_AdminStateUp :: bool
  l3_Loadbalancers :: "string option list"
  l3_ConnectionLimit :: int
  l3_Http2Enable :: bool
  l3_Protocol :: string
  l3_ProtocolPort :: int
  l3_DefaultPoolId :: string
  l3_DefaultTlsContainerRef :: string
  l3_ClientCaTlsContainerRef :: string
  l3_SniContainerRefs :: "string list"
  l3_Tags :: "(string option \<times> string option) list"
  l3_CreatedAt :: string
  l3_UpdatedAt :: string
  l3_InsertHeaders :: "InsertHeaders option"
  l3_ProjectId :: string
  l3_TlsCiphersPolicy :: string

record ListenerResp =
  li_Id :: string
  li_TenantId :: string
  li_Name :: string
  li_Description :: string
  li_AdminStateUp :: bool
  li_Loadbalancers :: "string list"
  li_ConnectionLimit :: int
  li_Http2Enable :: bool
  li_Protocol :: string
  li_ProtocolPort :: int
  li_DefaultPoolId :: string
  li_DefaultTlsContainerRef :: string
  li_ClientCaTlsContainerRef :: string
  li_SniContainerRefs :: "string list"
  li_Tags :: "string list"
  li_CreatedAt :: string
  li_UpdatedAt :: string
  li_InsertHeaders :: "InsertHeaders option"
  li_ProjectId :: string
  li_TlsCiphersPolicy :: string

record Pool =
  pool_Id :: string
  pool_Name :: string
  pool_Listeners :: "string list"
  pool_HealthmonitorId :: string
  pool_Protocol :: string
  pool_LbAlgorithm :: string

record Member =
  mem_Id :: string
  mem_Name :: string
  mem_Address :: string
  mem_ProtocolPort :: int

record Monitor =
  mon_Id :: string
  mon_Type :: string
  mon_Timeout :: int
  mon_Delay :: int
  mon_MaxRetries :: int

record BatchMember =
  bm_Id :: string
  bm_Name :: string
  bm_Address :: string
  bm_ProtocolPort :: int
  bm_RetStatus :: string

record BandwidthResp =
  br_Id :: "string option"
  br_Name :: "string option"
  br_Size :: "int option"
  br_ShareType :: "string option"
  br_ChargeMode :: "string option"

record SecurityGroupRule =
  sgr_Id :: string
  sgr_Description :: string
  sgr_SecurityGroupId :: string
  sgr_Direction :: string
  sgr_Ethertype :: string
  sgr_Protocol :: string
  sgr_PortRangeMin :: int
  sgr_PortRangeMax :: int
  sgr_RemoteIpPrefix :: string
  sgr_RemoteGroupId :: string

record Publicip =
  eip_Id :: "string option"
  eip_PublicIpAddress :: "string option"
  eip_PortId :: "string option"

record FixedIp =
  fip_IpAddress :: "string option"
  fip_SubnetId :: "string option"

record InterfaceAttachment =
  if_PortState :: "string option"
  if_FixedIps :: "FixedIp list option"

subsection \<open>Request options\<close>

record CreateLoadbalancerReq =
  clb_Name :: string
  clb_VipSubnetId :: string
  clb_Provider :: string
  clb_Description :: string

record BandwidthOption =
  bw_Id :: "string option"
  bw_Name :: "string option"
  bw_Size :: "int option"
  bw_ShareType :: "string option"
  bw_ChargeMode :: "string option"

record PublicIpOption =
  pio_NetworkType :: string
  pio_Bandwidth :: "BandwidthOption option"

record CreateLoadBalancerOption =
  clo_Name :: string
  clo_AvailabilityZoneList :: "string list"
  clo_VipSubnetCidrId :: string
  clo_Provider :: string
  clo_Description :: string
  clo_IpTargetEnable :: "bool option"
  clo_L4FlavorId :: "string option"
  clo_L7FlavorId :: "string option"
  clo_PublicipIds :: "string list option"
  clo_Publicip :: "PublicIpOption option"

record CreateListenerOption =
  co_Name :: string
  co_LoadbalancerId :: string
  co_Protocol :: string
  co_ProtocolPort :: int
  co_XForwardedHost :: bool
  co_DefaultTlsContainerRef :: "string option"
  co_KeepaliveTimeout :: "int option"
  co_ClientTimeout :: "int option"
  co_MemberTimeout :: "int option"
  co_TransparentClientIpEnable :: "bool option"

record UpdateListenerOption =
  uo_Name :: string
  uo_XForwardedHost :: "bool option"
  uo_DefaultTlsContainerRef :: "string option"
  uo_KeepaliveTimeout :: "int option"
  uo_ClientTimeout :: "int option"
  uo_MemberTimeout :: "int option"
  uo_TransparentClientIpEnable :: "bool option"

record CreatePoolReq =
  cpl_Name :: string
  cpl_Protocol :: string
  cpl_LbAlgorithm :: string
  cpl_ListenerId :: string
  cpl_SessionPersistence :: "SessionPersistence option"

record HealthmonitorReq =
  hm_Type :: "string option"
  hm_Timeout :: int
  hm_Delay :: int
  hm_MaxRetries :: int

record CreateMemberReq =
  cm_Name :: "string option"
  cm_ProtocolPort :: int
  cm_SubnetId :: "string option"
  cm_Address :: string

record CreatePublicipReq =
  cpr_Name :: string
  cpr_ShareID :: "string option"
  cpr_Size :: int
  cpr_ShareType :: string
  cpr_ChargeMode :: string
  cpr_IPType :: string

text \<open>Options only the clients' methods without callers take; \<open>UpdateMemberReq\<close> is also v3's \<open>UpdateMemberOption\<close>.\<close>

record CreateListenerReq =
  cl_LoadbalancerId :: string
  cl_Protocol :: string
  cl_ProtocolPort :: int
  cl_TenantId :: "string option"
  cl_Name :: "string option"
  cl_Description :: "string option"
  cl_AdminStateUp :: "bool option"
  cl_ConnectionLimit :: "int option"
  cl_Http2Enable :: "bool option"
  cl_DefaultPoolId :: "string option"
  cl_DefaultTlsContainerRef :: "string option"
  cl_ClientCaTlsContainerRef :: "string option"
  cl_SniContainerRefs :: "string list option"
  cl_InsertHeaders :: "InsertHeaders option"
  cl_TlsCiphersPolicy :: "string option"

record UpdateListenerReq =
  ul_Name :: "string option"
  ul_Description :: "string option"
  ul_ConnectionLimit :: "int option"
  ul_Http2Enable :: "bool option"
  ul_DefaultPoolId :: "string option"
  ul_DefaultTlsContainerRef :: "string option"
  ul_ClientCaTlsContainerRef :: "string option"
  ul_SniContainerRefs :: "string list option"
  ul_InsertHeaders :: "InsertHeaders option"
  ul_TlsCiphersPolicy :: "string option"
  ul_AdminStateUp :: "bool option"

record UpdateMemberReq =
  um_Name :: "string option"
  um_AdminStateUp :: "bool option"
  um_Weight :: "int option"

record BatchCreateMembersOption =
  bo_Name :: "string option"
  bo_Address :: string
  bo_ProtocolPort :: int
  bo_SubnetCidrId :: "string option"
  bo_Weight :: "int option"

record CreateSharedBandwidthOption =
  sb_EnterpriseProjectId :: "string option"
  sb_Name :: string
  sb_Size :: int
  sb_ChargeMode :: "string option"

record CreateSecurityGroupRuleOption =
  sgo_SecurityGroupId :: string
  sgo_Description :: "string option"
  sgo_Direction :: string
  sgo_Ethertype :: "string option"
  sgo_Protocol :: "string option"
  sgo_PortRangeMin :: "int option"
  sgo_PortRangeMax :: "int option"
  sgo_RemoteIpPrefix :: "string option"
  sgo_RemoteGroupId :: "string option"

text \<open>ELB v2 (shared).\<close>

datatype elb_request =
    CreateLoadbalancer CreateLoadbalancerReq
  | ShowLoadbalancer string
  | ShowLoadbalancerDetail string
  | ListLoadbalancers string
  | DeleteLoadbalancer string
  | ListListenersReq string
  | ShowListenerReq string
  | DeleteListenerReq string
  | CreatePoolRequest CreatePoolReq
  | ListPoolsReq string
  | UpdatePoolReq string string
  | DeletePoolReq string
  | CreateHealthmonitor string HealthmonitorReq
  | UpdateHealthmonitor string HealthmonitorReq
  | DeleteHealthmonitor string
  | CreateMemberRequest string CreateMemberReq
  | ListMembersReq string
  | DeleteMemberReq string string
  | UpdateLoadbalancerReq string string string
  | CreateListenerRequest CreateListenerReq
  | UpdateListenerRequest string UpdateListenerReq
  | ShowPoolReq string
  | ShowHealthmonitorReq string
  | ShowMemberReq string
  | UpdateMemberRequest string UpdateMemberReq

text \<open>ELB v3 (dedicated).\<close>

datatype elb3_request =
    V3CreateLoadBalancer CreateLoadBalancerOption
  | V3ShowLoadBalancer string
  | V3ListLoadBalancers string
  | V3DeleteLoadBalancer string
  | V3CreateListener CreateListenerOption
  | V3ListListeners string
  | V3UpdateListener string UpdateListenerOption
  | V3DeleteListener string
  | V3CreatePool CreatePoolReq
  | V3ListPools string "string option"
  | V3UpdatePool string string
  | V3DeletePool string
  | V3CreateHealthMonitor string HealthmonitorReq
  | V3UpdateHealthMonitor string HealthmonitorReq
  | V3DeleteHealthMonitor string
  | V3CreateMember string CreateMemberReq
  | V3ListMembers string int
  | V3DeleteMember string string
  | V3UpdateLoadBalancer string string string
  | V3ShowListener string
  | V3ShowPool string
  | V3ShowHealthMonitor string
  | V3BatchCreateMembers string "BatchCreateMembersOption list"
  | V3ShowMember string
  | V3UpdateMember string UpdateMemberReq
  | V3BatchDeleteMembers string "string list"

text \<open>EIP.\<close>

datatype eip_request =
    CreatePublicip CreatePublicipReq
  | ShowPublicip string
  | ListPublicips string
  | UpdatePublicip string string
  | DeletePublicip string
  | CreateSharedBandwidthReq "CreateSharedBandwidthOption option"
  | DeleteSharedBandwidthReq string

text \<open>ECS.\<close>

datatype ecs_request =
    ShowServer string
  | ListServersByIp string
  | ListServersByName string
  | ListServersNew string
  | ListServerInterfaces string
  | NovaListServerSecurityGroups string
  | NovaAssociateSecurityGroup string string
  | NovaDisassociateSecurityGroup string string

text \<open>VPC.\<close>

datatype vpc_request =
    ListSecurityGroupRulesReq string
  | CreateSecurityGroupRuleReq "CreateSecurityGroupRuleOption option"
  | DeleteSecurityGroupRuleReq string

datatype sdk_request = ElbV2 elb_request | ElbV3 elb3_request | Eip eip_request | Ecs ecs_request | Vpc vpc_request

datatype kube_request =
    ListPods string "(string \<times> string) list"
  | ListNodes
  | GetNode string
  | ListServices
  | GetService string string
  | UpdateService service
  | PatchServiceStatus string string "string list"
  | RecordEvent string string

datatype event = Sdk sdk_request | Kube kube_request | Http http_request | LockKey string | UnlockKey string

datatype payload =
    PNone
  | PLoadbalancer LoadbalancerResp
  | PLoadbalancers "LoadbalancerResp list"
  | PDetail Loadbalancer
  | PLoadBalancer3 LoadBalancer
  | PLoadBalancers3 "LoadBalancer list"
  | PListener ListenerResp
  | PListeners "ListenerResp list"
  | PListener3 Listener
  | PListeners3 "Listener list"
  | PPool Pool
  | PPools "Pool list"
  | PMember Member
  | PMembers "Member list"
  | PPublicip Publicip
  | PPublicips "Publicip list"
  | PServer ServerDetail
  | PServers "ServerDetail list option"
  | PInterfaces "InterfaceAttachment list"
  | PSecurityGroups "string list"
  | PMonitor Monitor
  | PBatchMembers "BatchMember list"
  | PBandwidth BandwidthResp
  | PRules "SecurityGroupRule list"
  | PRule SecurityGroupRule

record sdk_response =
  HttpStatusCode :: int
  Body :: payload

datatype kube_payload = KNone | KPods "pod list" | KNodes "node list" | KService service
  | KNode node | KServices "service list"

record 'w api =
  sdk_call :: "'w \<Rightarrow> sdk_request \<Rightarrow> (error + sdk_response) \<times> 'w"
  kube_call :: "'w \<Rightarrow> kube_request \<Rightarrow> (error + kube_payload) \<times> 'w"
  http_call :: "'w \<Rightarrow> http_request \<Rightarrow> (error + http_response) \<times> 'w"
  url_parses :: "string \<Rightarrow> bool"
  lookup_host :: "'w \<Rightarrow> string \<Rightarrow> error + string list"

type_synonym ('w, 'a) prog = "('w, event, 'a) m"

subsection \<open>The wrapper of the SDK\<close>

definition OKCodes :: "int list" where
  "OKCodes = [200, 201, 204]"

definition checkStatusCode :: "sdk_response \<Rightarrow> int list \<Rightarrow> error option" where
  "checkStatusCode rsp okCodes =
     (if HttpStatusCode rsp \<in> set okCodes then None
      else Some (ServiceResponseErrorVal (HttpStatusCode rsp) []
             (''error: unexpected StatusCode: '' @ int_str (HttpStatusCode rsp))))"

definition commonWrapper :: "'w api \<Rightarrow> sdk_request \<Rightarrow> (payload \<Rightarrow> 'a option) \<Rightarrow> ('w, 'a) prog" where
  "commonWrapper A req select =
     bindR (remote (Sdk req) (\<lambda>w. sdk_call A w req)) (\<lambda>rsp.
       case checkStatusCode rsp OKCodes of
         Some e \<Rightarrow> errR e
       | None \<Rightarrow> (case select (Body rsp) of
             None \<Rightarrow> errR (Errorf ''error, cannot convert'')
           | Some x \<Rightarrow> okR x))"

text \<open>A call whose result is not stored.\<close>

definition wrapper0 :: "'w api \<Rightarrow> sdk_request \<Rightarrow> ('w, unit) prog" where
  "wrapper0 A req = commonWrapper A req (\<lambda>_. Some ())"

text \<open>Selecting a pointer field: absent is the nil pointer; selecting a slice.\<close>

definition asLoadbalancer :: "payload \<Rightarrow> LoadbalancerResp option option" where
  "asLoadbalancer p = (case p of PNone \<Rightarrow> Some None | PLoadbalancer x \<Rightarrow> Some (Some x) | _ \<Rightarrow> None)"
definition asLoadbalancers :: "payload \<Rightarrow> LoadbalancerResp list option" where
  "asLoadbalancers p = (case p of PLoadbalancers xs \<Rightarrow> Some xs | _ \<Rightarrow> None)"
definition asDetail :: "payload \<Rightarrow> Loadbalancer option option" where
  "asDetail p = (case p of PNone \<Rightarrow> Some None | PDetail x \<Rightarrow> Some (Some x) | _ \<Rightarrow> None)"
definition asLoadBalancer3 :: "payload \<Rightarrow> LoadBalancer option option" where
  "asLoadBalancer3 p = (case p of PNone \<Rightarrow> Some None | PLoadBalancer3 x \<Rightarrow> Some (Some x) | _ \<Rightarrow> None)"
definition asLoadBalancers3 :: "payload \<Rightarrow> LoadBalancer list option" where
  "asLoadBalancers3 p = (case p of PLoadBalancers3 xs \<Rightarrow> Some xs | _ \<Rightarrow> None)"
definition asListener :: "payload \<Rightarrow> ListenerResp option option" where
  "asListener p = (case p of PNone \<Rightarrow> Some None | PListener x \<Rightarrow> Some (Some x) | _ \<Rightarrow> None)"
definition asListeners :: "payload \<Rightarrow> ListenerResp list option" where
  "asListeners p = (case p of PListeners xs \<Rightarrow> Some xs | _ \<Rightarrow> None)"
definition asListener3 :: "payload \<Rightarrow> Listener option option" where
  "asListener3 p = (case p of PNone \<Rightarrow> Some None | PListener3 x \<Rightarrow> Some (Some x) | _ \<Rightarrow> None)"
definition asListeners3 :: "payload \<Rightarrow> Listener list option" where
  "asListeners3 p = (case p of PListeners3 xs \<Rightarrow> Some xs | _ \<Rightarrow> None)"
definition asPool :: "payload \<Rightarrow> Pool option option" where
  "asPool p = (case p of PNone \<Rightarrow> Some None | PPool x \<Rightarrow> Some (Some x) | _ \<Rightarrow> None)"
definition asPools :: "payload \<Rightarrow> Pool list option" where
  "asPools p = (case p of PPools xs \<Rightarrow> Some xs | _ \<Rightarrow> None)"
definition asMember :: "payload \<Rightarrow> Member option option" where
  "asMember p = (case p of PNone \<Rightarrow> Some None | PMember x \<Rightarrow> Some (Some x) | _ \<Rightarrow> None)"
definition asMembers :: "payload \<Rightarrow> Member list option" where
  "asMembers p = (case p of PMembers xs \<Rightarrow> Some xs | _ \<Rightarrow> None)"
definition asPublicip :: "payload \<Rightarrow> Publicip option option" where
  "asPublicip p = (case p of PNone \<Rightarrow> Some None | PPublicip x \<Rightarrow> Some (Some x) | _ \<Rightarrow> None)"
definition asPublicips :: "payload \<Rightarrow> Publicip list option" where
  "asPublicips p = (case p of PPublicips xs \<Rightarrow> Some xs | _ \<Rightarrow> None)"
definition asServer :: "payload \<Rightarrow> ServerDetail option option" where
  "asServer p = (case p of PNone \<Rightarrow> Some None | PServer x \<Rightarrow> Some (Some x) | _ \<Rightarrow> None)"
definition asServers :: "payload \<Rightarrow> ServerDetail list option option" where
  "asServers p = (case p of PServers xs \<Rightarrow> Some xs | _ \<Rightarrow> None)"
definition asInterfaces :: "payload \<Rightarrow> InterfaceAttachment list option" where
  "asInterfaces p = (case p of PInterfaces xs \<Rightarrow> Some xs | _ \<Rightarrow> None)"

definition asSecurityGroups :: "payload \<Rightarrow> string list option" where
  "asSecurityGroups p = (case p of PSecurityGroups xs \<Rightarrow> Some xs | _ \<Rightarrow> None)"

definition asMonitor :: "payload \<Rightarrow> Monitor option option" where
  "asMonitor p = (case p of PNone \<Rightarrow> Some None | PMonitor x \<Rightarrow> Some (Some x) | _ \<Rightarrow> None)"
text \<open>The result of \<open>BatchAddMember\<close> is a pointer to a slice, into which \<open>setResultValue\<close> never stores a slice.\<close>
definition asBatchMembers :: "payload \<Rightarrow> BatchMember list option option" where
  "asBatchMembers p = (case p of PNone \<Rightarrow> Some None | _ \<Rightarrow> None)"
definition asBandwidth :: "payload \<Rightarrow> BandwidthResp option option" where
  "asBandwidth p = (case p of PNone \<Rightarrow> Some None | PBandwidth x \<Rightarrow> Some (Some x) | _ \<Rightarrow> None)"
definition asRules :: "payload \<Rightarrow> SecurityGroupRule list option" where
  "asRules p = (case p of PRules xs \<Rightarrow> Some xs | _ \<Rightarrow> None)"
definition asRule :: "payload \<Rightarrow> SecurityGroupRule option option" where
  "asRule p = (case p of PNone \<Rightarrow> Some None | PRule x \<Rightarrow> Some (Some x) | _ \<Rightarrow> None)"

lemmas payload_selectors = asLoadbalancer_def asLoadbalancers_def asDetail_def asLoadBalancer3_def asLoadBalancers3_def
  asListener_def asListeners_def asListener3_def asListeners3_def asPool_def asPools_def asMember_def asMembers_def
  asPublicip_def asPublicips_def asServer_def asServers_def asInterfaces_def asSecurityGroups_def

text \<open>\<open>utils.LookupHost\<close>: a failed lookup is logged and gives no addresses.\<close>

definition LookupHost :: "'w api \<Rightarrow> string \<Rightarrow> ('w, string list) prog" where
  "LookupHost A domain = (\<lambda>s. case lookup_host A (world s) domain of
      Inl _ \<Rightarrow> (Ok [], s) | Inr ips \<Rightarrow> (Ok ips, s))"

subsection \<open>Kubernetes client\<close>

definition listPods :: "'w api \<Rightarrow> string \<Rightarrow> (string \<times> string) list \<Rightarrow> ('w, pod list) prog" where
  "listPods A ns sel =
     bindR (remote (Kube (ListPods ns sel)) (\<lambda>w. kube_call A w (ListPods ns sel))) (\<lambda>p.
       case p of KPods ps \<Rightarrow> okR ps | _ \<Rightarrow> errR (KubeError ReasonOther ''unexpected object''))"

lemma emits_commonWrapper [emits_intro]: "Sdk req \<in> S \<Longrightarrow> emits (commonWrapper A req select) S"
  unfolding commonWrapper_def by (intro emits_intro) auto

lemma emits_wrapper0 [emits_intro]: "Sdk req \<in> S \<Longrightarrow> emits (wrapper0 A req) S"
  unfolding wrapper0_def by (intro emits_intro) auto

lemma emits_LookupHost [emits_intro]: "emits (LookupHost A domain) S"
  by (simp add: emits_def LookupHost_def split: sum.splits)

lemma emits_listPods [emits_intro]: "Kube (ListPods ns sel) \<in> S \<Longrightarrow> emits (listPods A ns sel) S"
  unfolding listPods_def by (intro emits_intro) (auto intro!: emits_intro split: kube_payload.splits)

text \<open>Every call of the wrapper issues exactly one request.\<close>

lemma commonWrapper_log: "commonWrapper A req select s = (r, t) \<Longrightarrow> log t = log s @ [Sdk req]"
  by (auto simp: commonWrapper_def remote_def run_simps split: prod.splits sum.splits option.splits)

text \<open>A successful call saw a reply with an accepted status.\<close>

lemma commonWrapper_Ok:
  assumes "commonWrapper A req select s = (Ok x, t)"
  obtains rsp w where "sdk_call A (world s) req = (Inr rsp, w)" "HttpStatusCode rsp \<in> set OKCodes"
    "select (Body rsp) = Some x" "t = s\<lparr>world := w, log := log s @ [Sdk req]\<rparr>"
  using assms
  by (auto simp: commonWrapper_def remote_def checkStatusCode_def run_simps split: prod.splits sum.splits option.splits if_splits)

subsection \<open>Classification of requests\<close>

text \<open>The kind of a request: a query, or the sort of object it changes.\<close>

datatype kind = KRead | KInstanceCreate | KInstanceUpdate | KInstanceDelete | KListener | KPool | KMonitor | KMember
  | KEipCreate | KEipUpdate | KEipDelete | KBandwidth | KSecurityGroup | KStatus | KEvent | KLock | KHttp

fun elb_kind :: "elb_request \<Rightarrow> kind" where
  "elb_kind (CreateLoadbalancer _) = KInstanceCreate"
| "elb_kind (DeleteLoadbalancer _) = KInstanceDelete"
| "elb_kind (DeleteListenerReq _) = KListener"
| "elb_kind (CreatePoolRequest _) = KPool"
| "elb_kind (UpdatePoolReq _ _) = KPool"
| "elb_kind (DeletePoolReq _) = KPool"
| "elb_kind (CreateHealthmonitor _ _) = KMonitor"
| "elb_kind (UpdateHealthmonitor _ _) = KMonitor"
| "elb_kind (DeleteHealthmonitor _) = KMonitor"
| "elb_kind (CreateMemberRequest _ _) = KMember"
| "elb_kind (DeleteMemberReq _ _) = KMember"
| "elb_kind (UpdateLoadbalancerReq _ _ _) = KInstanceUpdate"
| "elb_kind (CreateListenerRequest _) = KListener"
| "elb_kind (UpdateListenerRequest _ _) = KListener"
| "elb_kind (UpdateMemberRequest _ _) = KMember"
| "elb_kind _ = KRead"

fun elb3_kind :: "elb3_request \<Rightarrow> kind" where
  "elb3_kind (V3CreateLoadBalancer _) = KInstanceCreate"
| "elb3_kind (V3DeleteLoadBalancer _) = KInstanceDelete"
| "elb3_kind (V3CreateListener _) = KListener"
| "elb3_kind (V3UpdateListener _ _) = KListener"
| "elb3_kind (V3DeleteListener _) = KListener"
| "elb3_kind (V3CreatePool _) = KPool"
| "elb3_kind (V3UpdatePool _ _) = KPool"
| "elb3_kind (V3DeletePool _) = KPool"
| "elb3_kind (V3CreateHealthMonitor _ _) = KMonitor"
| "elb3_kind (V3UpdateHealthMonitor _ _) = KMonitor"
| "elb3_kind (V3DeleteHealthMonitor _) = KMonitor"
| "elb3_kind (V3CreateMember _ _) = KMember"
| "elb3_kind (V3DeleteMember _ _) = KMember"
| "elb3_kind (V3UpdateLoadBalancer _ _ _) = KInstanceUpdate"
| "elb3_kind (V3BatchCreateMembers _ _) = KMember"
| "elb3_kind (V3UpdateMember _ _) = KMember"
| "elb3_kind (V3BatchDeleteMembers _ _) = KMember"
| "elb3_kind _ = KRead"

fun eip_kind :: "eip_request \<Rightarrow> kind" where
  "eip_kind (CreatePublicip _) = KEipCreate"
| "eip_kind (UpdatePublicip _ _) = KEipUpdate"
| "eip_kind (DeletePublicip _) = KEipDelete"
| "eip_kind (CreateSharedBandwidthReq _) = KBandwidth"
| "eip_kind (DeleteSharedBandwidthReq _) = KBandwidth"
| "eip_kind _ = KRead"

fun ecs_kind :: "ecs_request \<Rightarrow> kind" where
  "ecs_kind (NovaAssociateSecurityGroup _ _) = KSecurityGroup"
| "ecs_kind (NovaDisassociateSecurityGroup _ _) = KSecurityGroup"
| "ecs_kind _ = KRead"

fun vpc_kind :: "vpc_request \<Rightarrow> kind" where
  "vpc_kind (ListSecurityGroupRulesReq _) = KRead"
| "vpc_kind (CreateSecurityGroupRuleReq _) = KSecurityGroup"
| "vpc_kind (DeleteSecurityGroupRuleReq _) = KSecurityGroup"

fun kube_kind :: "kube_request \<Rightarrow> kind" where
  "kube_kind (PatchServiceStatus _ _ _) = KStatus"
| "kube_kind (UpdateService _) = KStatus"
| "kube_kind (RecordEvent _ _) = KEvent"
| "kube_kind _ = KRead"

fun kind_of :: "event \<Rightarrow> kind" where
  "kind_of (Sdk (ElbV2 r)) = elb_kind r"
| "kind_of (Sdk (ElbV3 r)) = elb3_kind r"
| "kind_of (Sdk (Eip r)) = eip_kind r"
| "kind_of (Sdk (Ecs r)) = ecs_kind r"
| "kind_of (Sdk (Vpc r)) = vpc_kind r"
| "kind_of (Kube r) = kube_kind r"
| "kind_of (Http r) = (if rq_Method r = MethodGet then KRead else KHttp)"
| "kind_of (LockKey _) = KLock"
| "kind_of (UnlockKey _) = KLock"

definition kinds :: "kind set \<Rightarrow> event set" where
  "kinds K = {e. kind_of e \<in> K}"

lemma kinds_iff [simp]: "e \<in> kinds K \<longleftrightarrow> kind_of e \<in> K"
  by (simp add: kinds_def)

lemma kinds_mono: "K \<subseteq> L \<Longrightarrow> kinds K \<subseteq> kinds L"
  by (auto simp: kinds_def)

end
