(* ===== verification/Wrapper.thy ===== *)
theory Wrapper
  imports Cloud_Api
begin

text \<open>
  \<open>wrapper/shared_elb.go\<close>, \<open>wrapper/dedicated_elb.go\<close> and \<open>wrapper/eip.go\<close>: the clients the load
  balancers call. A result that is a pointer is an \<open>option\<close>, and the caller dereferences it where
  the Go code does. The prefixes \<open>s_\<close>, \<open>d_\<close> and \<open>e_\<close> name the receiver
  (\<open>SharedLoadBalanceClient\<close>, \<open>DedicatedLoadBalanceClient\<close>, \<open>EIpClient\<close>).
\<close>

subsection \<open>SharedLoadBalanceClient\<close>

definition s_Show :: "'w api \<Rightarrow> string \<Rightarrow> ('w, Loadbalancer option) prog" where
  "s_Show A uid = commonWrapper A (ElbV2 (ShowLoadbalancerDetail uid)) asDetail"

definition s_CreateInstance :: "'w api \<Rightarrow> CreateLoadbalancerReq \<Rightarrow> ('w, LoadbalancerResp option) prog" where
  "s_CreateInstance A req = commonWrapper A (ElbV2 (CreateLoadbalancer req)) asLoadbalancer"

definition s_GetInstance :: "'w api \<Rightarrow> string \<Rightarrow> ('w, LoadbalancerResp option) prog" where
  "s_GetInstance A uid = commonWrapper A (ElbV2 (ShowLoadbalancer uid)) asLoadbalancer"

text \<open>The pair \<open>(instance, err)\<close>: the captured pointer is nil when the last query failed.\<close>

definition s_WaitStatusActive :: "'w api \<Rightarrow> string \<Rightarrow> ('w, LoadbalancerResp option \<times> error option) prog" where
  "s_WaitStatusActive A uid = WaitForCompleted (\<lambda>_.
     bindR (attempt (s_GetInstance A uid)) (\<lambda>r. case r of
         Inl e \<Rightarrow> okR (None, Inl e)
       | Inr ins \<Rightarrow> bindR (deref ins) (\<lambda>i.
           if lb_ProvisioningStatus i = ''ACTIVE'' then okR (Some i, Inr True)
           else if lb_ProvisioningStatus i = ''ERROR''
           then okR (Some i, Inl (StatusError CodeUnavailable ''LoadBalancer has gone into ERROR provisioning status''))
           else okR (Some i, Inr False)))) None"

definition s_CreateInstanceCompleted :: "'w api \<Rightarrow> CreateLoadbalancerReq \<Rightarrow> ('w, LoadbalancerResp option) prog" where
  "s_CreateInstanceCompleted A req =
     bindR (s_CreateInstance A req) (\<lambda>p.
     bindR (deref p) (\<lambda>ins.
     bindR (s_WaitStatusActive A (lb_Id ins)) (\<lambda>(i, err).
       case err of Some e \<Rightarrow> errR e | None \<Rightarrow> okR i)))"

definition s_ListInstances :: "'w api \<Rightarrow> string \<Rightarrow> ('w, LoadbalancerResp list) prog" where
  "s_ListInstances A name = commonWrapper A (ElbV2 (ListLoadbalancers name)) asLoadbalancers"

definition s_DeleteInstance :: "'w api \<Rightarrow> string \<Rightarrow> ('w, unit) prog" where
  "s_DeleteInstance A uid = wrapper0 A (ElbV2 (DeleteLoadbalancer uid))"

definition s_GetListener :: "'w api \<Rightarrow> string \<Rightarrow> ('w, ListenerResp option) prog" where
  "s_GetListener A uid = commonWrapper A (ElbV2 (ShowListenerReq uid)) asListener"

definition s_ListListeners :: "'w api \<Rightarrow> string \<Rightarrow> ('w, ListenerResp list) prog" where
  "s_ListListeners A elbID = commonWrapper A (ElbV2 (ListListenersReq elbID)) asListeners"

definition s_ListPools :: "'w api \<Rightarrow> string \<Rightarrow> ('w, Pool list) prog" where
  "s_ListPools A elbID = commonWrapper A (ElbV2 (ListPoolsReq elbID)) asPools"

text \<open>Each pool counts once, however often it names the listener.\<close>

definition pools_using :: "Pool list \<Rightarrow> string \<Rightarrow> nat" where
  "pools_using pools listenerID = length (filter (\<lambda>p. listenerID \<in> set (pool_Listeners p)) pools)"

definition s_DeleteListener :: "'w api \<Rightarrow> string \<Rightarrow> string \<Rightarrow> ('w, unit) prog" where
  "s_DeleteListener A elbID listenerID =
     bindR (s_ListPools A elbID) (\<lambda>pools.
       let count = pools_using pools listenerID in
       if count > 0
       then errR (Errorf (''delete failed, '' @ int_str (int count) @ '' pools are using the listener: '' @ listenerID))
       else bindR (attempt (wrapper0 A (ElbV2 (DeleteListenerReq listenerID)))) (\<lambda>r. case r of
           Inr _ \<Rightarrow> okR ()
         | Inl e \<Rightarrow>
             if IsNotFound e
             then bindR (attempt (s_GetListener A listenerID)) (\<lambda>r2. case r2 of
                    Inl e2 \<Rightarrow> if IsNotFound e2 then okR () else errR e2
                  | Inr _ \<Rightarrow> okR ())
             else errR e))"

definition s_CreatePool :: "'w api \<Rightarrow> CreatePoolReq \<Rightarrow> ('w, Pool option) prog" where
  "s_CreatePool A req = commonWrapper A (ElbV2 (CreatePoolRequest req)) asPool"

text \<open>Called with the empty key: the wrapper returns before it stores anything.\<close>

definition s_UpdatePool :: "'w api \<Rightarrow> string \<Rightarrow> string \<Rightarrow> ('w, unit) prog" where
  "s_UpdatePool A uid lbAlgorithm = wrapper0 A (ElbV2 (UpdatePoolReq uid lbAlgorithm))"

definition s_DeletePool :: "'w api \<Rightarrow> string \<Rightarrow> ('w, unit) prog" where
  "s_DeletePool A uid = wrapper0 A (ElbV2 (DeletePoolReq uid))"

text \<open>The callers drop the monitor object, so only the error of the call is kept.\<close>

definition s_CreateHealthMonitor :: "'w api \<Rightarrow> string \<Rightarrow> HealthmonitorReq \<Rightarrow> ('w, unit) prog" where
  "s_CreateHealthMonitor A poolID req = wrapper0 A (ElbV2 (CreateHealthmonitor poolID req))"

definition s_UpdateHealthMonitor :: "'w api \<Rightarrow> string \<Rightarrow> HealthmonitorReq \<Rightarrow> ('w, unit) prog" where
  "s_UpdateHealthMonitor A uid req = wrapper0 A (ElbV2 (UpdateHealthmonitor uid req))"

definition s_DeleteHealthMonitor :: "'w api \<Rightarrow> string \<Rightarrow> ('w, unit) prog" where
  "s_DeleteHealthMonitor A uid = (if uid = [] then okR () else wrapper0 A (ElbV2 (DeleteHealthmonitor uid)))"

definition s_AddMember :: "'w api \<Rightarrow> string \<Rightarrow> CreateMemberReq \<Rightarrow> ('w, Member option) prog" where
  "s_AddMember A poolID req = commonWrapper A (ElbV2 (CreateMemberRequest poolID req)) asMember"

definition s_ListMembers :: "'w api \<Rightarrow> string \<Rightarrow> ('w, Member list) prog" where
  "s_ListMembers A poolID = commonWrapper A (ElbV2 (ListMembersReq poolID)) asMembers"

definition s_DeleteMember :: "'w api \<Rightarrow> string \<Rightarrow> string \<Rightarrow> ('w, unit) prog" where
  "s_DeleteMember A poolID memberID = wrapper0 A (ElbV2 (DeleteMemberReq poolID memberID))"

definition clean_members :: "(Member \<Rightarrow> ('w, unit) prog) \<Rightarrow> (error \<Rightarrow> bool) \<Rightarrow> Member list \<Rightarrow> ('w, unit) prog" where
  "clean_members del ignore members =
     bindR (foldR (\<lambda>x errs. bindR (attempt (del x)) (\<lambda>r. case r of
             Inl e \<Rightarrow> if ignore e then okR errs else okR (errs @ [e])
           | Inr _ \<Rightarrow> okR errs)) members [])
       (\<lambda>errs. if length errs \<noteq> 0
               then errR (StatusError CodeInternal (''failed to clean pool members: '' @ err_text (Aggregate errs)))
               else okR ())"

text \<open>A failure to list the members is not an error of this function: it returns nil.\<close>

definition s_DeleteAllPoolMembers :: "'w api \<Rightarrow> string \<Rightarrow> ('w, unit) prog" where
  "s_DeleteAllPoolMembers A poolID =
     bindR (attempt (s_ListMembers A poolID)) (\<lambda>r. case r of
         Inl _ \<Rightarrow> okR ()
       | Inr members \<Rightarrow> clean_members (\<lambda>x. s_DeleteMember A poolID (mem_Id x)) IsNotFound members)"

subsection \<open>DedicatedLoadBalanceClient\<close>

definition d_CreateInstance :: "'w api \<Rightarrow> CreateLoadBalancerOption \<Rightarrow> ('w, LoadBalancer option) prog" where
  "d_CreateInstance A opt = commonWrapper A (ElbV3 (V3CreateLoadBalancer opt)) asLoadBalancer3"

definition d_GetInstance :: "'w api \<Rightarrow> string \<Rightarrow> ('w, LoadBalancer option) prog" where
  "d_GetInstance A uid = commonWrapper A (ElbV3 (V3ShowLoadBalancer uid)) asLoadBalancer3"

text \<open>Here a failed query leaves the captured pointer at its last value.\<close>

definition d_WaitStatusActive :: "'w api \<Rightarrow> string \<Rightarrow> ('w, LoadBalancer option \<times> error option) prog" where
  "d_WaitStatusActive A uid = WaitForCompleted (\<lambda>instance.
     bindR (attempt (d_GetInstance A uid)) (\<lambda>r. case r of
         Inl e \<Rightarrow> okR (instance, Inl e)
       | Inr ins \<Rightarrow> bindR (deref ins) (\<lambda>i.
           if lb3_ProvisioningStatus i = ''ACTIVE'' then okR (Some i, Inr True)
           else if lb3_ProvisioningStatus i = ''ERROR''
           then okR (Some i, Inl (StatusError CodeUnavailable ''LoadBalancer has gone into ERROR provisioning status''))
           else okR (Some i, Inr False)))) None"

definition d_CreateInstanceCompleted :: "'w api \<Rightarrow> CreateLoadBalancerOption \<Rightarrow> ('w, LoadBalancer option) prog" where
  "d_CreateInstanceCompleted A req =
     bindR (d_CreateInstance A req) (\<lambda>p.
     bindR (deref p) (\<lambda>ins.
     bindR (d_WaitStatusActive A (lb3_Id ins)) (\<lambda>(i, err).
       case err of Some e \<Rightarrow> errR e | None \<Rightarrow> okR i)))"

definition d_ListInstances :: "'w api \<Rightarrow> string \<Rightarrow> ('w, LoadBalancer list) prog" where
  "d_ListInstances A name = commonWrapper A (ElbV3 (V3ListLoadBalancers name)) asLoadBalancers3"

definition d_DeleteInstance :: "'w api \<Rightarrow> string \<Rightarrow> ('w, unit) prog" where
  "d_DeleteInstance A uid = wrapper0 A (ElbV3 (V3DeleteLoadBalancer uid))"

definition d_CreateListener :: "'w api \<Rightarrow> CreateListenerOption \<Rightarrow> ('w, Listener option) prog" where
  "d_CreateListener A req = commonWrapper A (ElbV3 (V3CreateListener req)) asListener3"

definition d_ListListeners :: "'w api \<Rightarrow> string \<Rightarrow> ('w, Listener list) prog" where
  "d_ListListeners A elbID = commonWrapper A (ElbV3 (V3ListListeners elbID)) asListeners3"

definition d_UpdateListener :: "'w api \<Rightarrow> string \<Rightarrow> UpdateListenerOption \<Rightarrow> ('w, unit) prog" where
  "d_UpdateListener A uid opt = wrapper0 A (ElbV3 (V3UpdateListener uid opt))"

definition d_ListPools :: "'w api \<Rightarrow> string \<Rightarrow> string option \<Rightarrow> ('w, Pool list) prog" where
  "d_ListPools A elbID listenerID = commonWrapper A (ElbV3 (V3ListPools elbID listenerID)) asPools"

definition d_DeleteListener :: "'w api \<Rightarrow> string \<Rightarrow> string \<Rightarrow> ('w, unit) prog" where
  "d_DeleteListener A elbID listenerID =
     bindR (d_ListPools A elbID (Some listenerID)) (\<lambda>pools.
       if length pools > 0
       then errR (Errorf (''delete failed, '' @ int_str (int (length pools)) @ '' pools are using the listener: '' @ listenerID))
       else bindR (attempt (wrapper0 A (ElbV3 (V3DeleteListener listenerID)))) (\<lambda>r. case r of
           Inr _ \<Rightarrow> okR ()
         | Inl e \<Rightarrow> if IsNotFound e then okR () else errR e))"

definition d_CreatePool :: "'w api \<Rightarrow> CreatePoolReq \<Rightarrow> ('w, Pool option) prog" where
  "d_CreatePool A req = commonWrapper A (ElbV3 (V3CreatePool req)) asPool"

definition d_UpdatePool :: "'w api \<Rightarrow> string \<Rightarrow> string \<Rightarrow> ('w, Pool option) prog" where
  "d_UpdatePool A uid lbAlgorithm = commonWrapper A (ElbV3 (V3UpdatePool uid lbAlgorithm)) asPool"

definition d_DeletePool :: "'w api \<Rightarrow> string \<Rightarrow> ('w, unit) prog" where
  "d_DeletePool A uid = wrapper0 A (ElbV3 (V3DeletePool uid))"

definition d_CreateHealthMonitor :: "'w api \<Rightarrow> string \<Rightarrow> HealthmonitorReq \<Rightarrow> ('w, unit) prog" where
  "d_CreateHealthMonitor A poolID req = wrapper0 A (ElbV3 (V3CreateHealthMonitor poolID req))"

definition d_UpdateHealthMonitor :: "'w api \<Rightarrow> string \<Rightarrow> HealthmonitorReq \<Rightarrow> ('w, unit) prog" where
  "d_UpdateHealthMonitor A uid req = wrapper0 A (ElbV3 (V3UpdateHealthMonitor uid req))"

definition d_DeleteHealthMonitor :: "'w api \<Rightarrow> string \<Rightarrow> ('w, unit) prog" where
  "d_DeleteHealthMonitor A uid = (if uid = [] then okR () else wrapper0 A (ElbV3 (V3DeleteHealthMonitor uid)))"

text \<open>The error is ignored only when it is a service error by value whose error code is \<open>409\<close>.\<close>

definition d_AddMember :: "'w api \<Rightarrow> string \<Rightarrow> CreateMemberReq \<Rightarrow> ('w, Member option) prog" where
  "d_AddMember A poolID req =
     bindR (attempt (commonWrapper A (ElbV3 (V3CreateMember poolID req)) asMember)) (\<lambda>r. case r of
         Inr x \<Rightarrow> okR x
       | Inl e \<Rightarrow> (case e of
             ServiceResponseErrorVal _ code _ \<Rightarrow> if code = ''409'' then okR None else errR e
           | _ \<Rightarrow> errR e))"

definition d_ListMembers :: "'w api \<Rightarrow> string \<Rightarrow> int \<Rightarrow> ('w, Member list) prog" where
  "d_ListMembers A poolID limit = commonWrapper A (ElbV3 (V3ListMembers poolID limit)) asMembers"

definition d_DeleteMember :: "'w api \<Rightarrow> string \<Rightarrow> string \<Rightarrow> ('w, unit) prog" where
  "d_DeleteMember A poolID memberID = wrapper0 A (ElbV3 (V3DeleteMember poolID memberID))"

definition d_DeleteAllPoolMembers :: "'w api \<Rightarrow> string \<Rightarrow> ('w, unit) prog" where
  "d_DeleteAllPoolMembers A poolID =
     bindR (attempt (d_ListMembers A poolID 100)) (\<lambda>r. case r of
         Inl _ \<Rightarrow> okR ()
       | Inr members \<Rightarrow> clean_members (\<lambda>x. d_DeleteMember A poolID (mem_Id x)) (\<lambda>_. False) members)"

subsection \<open>EIpClient\<close>

definition e_Create :: "'w api \<Rightarrow> CreatePublicipReq \<Rightarrow> ('w, Publicip option) prog" where
  "e_Create A req = commonWrapper A (Eip (CreatePublicip req)) asPublicip"

definition e_Get :: "'w api \<Rightarrow> string \<Rightarrow> ('w, Publicip option) prog" where
  "e_Get A uid = commonWrapper A (Eip (ShowPublicip uid)) asPublicip"

definition e_List :: "'w api \<Rightarrow> string \<Rightarrow> ('w, Publicip list) prog" where
  "e_List A portID = commonWrapper A (Eip (ListPublicips portID)) asPublicips"

definition e_Update :: "'w api \<Rightarrow> string \<Rightarrow> string \<Rightarrow> ('w, unit) prog" where
  "e_Update A uid portID = wrapper0 A (Eip (UpdatePublicip uid portID))"

definition e_Bind :: "'w api \<Rightarrow> string \<Rightarrow> string \<Rightarrow> ('w, unit) prog" where
  "e_Bind A uid portID = e_Update A uid portID"

definition e_Unbind :: "'w api \<Rightarrow> string \<Rightarrow> ('w, unit) prog" where
  "e_Unbind A uid = e_Update A uid []"

definition e_Delete :: "'w api \<Rightarrow> string \<Rightarrow> ('w, unit) prog" where
  "e_Delete A uid = wrapper0 A (Eip (DeletePublicip uid))"

lemmas s_client_defs = s_Show_def s_CreateInstance_def s_GetInstance_def s_ListInstances_def s_DeleteInstance_def
  s_GetListener_def s_ListListeners_def s_ListPools_def s_CreatePool_def s_UpdatePool_def s_DeletePool_def
  s_CreateHealthMonitor_def s_UpdateHealthMonitor_def s_DeleteHealthMonitor_def s_AddMember_def s_ListMembers_def
  s_DeleteMember_def

lemmas d_client_defs = d_CreateInstance_def d_GetInstance_def d_ListInstances_def d_DeleteInstance_def
  d_CreateListener_def d_ListListeners_def d_UpdateListener_def d_ListPools_def d_CreatePool_def d_UpdatePool_def
  d_DeletePool_def d_CreateHealthMonitor_def d_UpdateHealthMonitor_def d_DeleteHealthMonitor_def d_ListMembers_def
  d_DeleteMember_def

lemmas e_client_defs = e_Create_def e_Get_def e_List_def e_Update_def e_Bind_def e_Unbind_def e_Delete_def

subsection \<open>The requests each client method issues\<close>

lemma emits_s_Show [emits_intro]: "KRead \<in> K \<Longrightarrow> emits (s_Show A uid) (kinds K)"
  unfolding s_Show_def by (intro emits_intro) simp

lemma emits_s_CreateInstance [emits_intro]: "KInstanceCreate \<in> K \<Longrightarrow> emits (s_CreateInstance A req) (kinds K)"
  unfolding s_CreateInstance_def by (intro emits_intro) simp

lemma emits_s_GetInstance [emits_intro]: "KRead \<in> K \<Longrightarrow> emits (s_GetInstance A uid) (kinds K)"
  unfolding s_GetInstance_def by (intro emits_intro) simp

lemma emits_s_ListInstances [emits_intro]: "KRead \<in> K \<Longrightarrow> emits (s_ListInstances A name) (kinds K)"
  unfolding s_ListInstances_def by (intro emits_intro) simp

lemma emits_s_DeleteInstance [emits_intro]: "KInstanceDelete \<in> K \<Longrightarrow> emits (s_DeleteInstance A uid) (kinds K)"
  unfolding s_DeleteInstance_def by (intro emits_intro) simp

lemma emits_s_GetListener [emits_intro]: "KRead \<in> K \<Longrightarrow> emits (s_GetListener A uid) (kinds K)"
  unfolding s_GetListener_def by (intro emits_intro) simp

lemma emits_s_ListListeners [emits_intro]: "KRead \<in> K \<Longrightarrow> emits (s_ListListeners A elbID) (kinds K)"
  unfolding s_ListListeners_def by (intro emits_intro) simp

lemma emits_s_ListPools [emits_intro]: "KRead \<in> K \<Longrightarrow> emits (s_ListPools A elbID) (kinds K)"
  unfolding s_ListPools_def by (intro emits_intro) simp

lemma emits_s_CreatePool [emits_intro]: "KPool \<in> K \<Longrightarrow> emits (s_CreatePool A req) (kinds K)"
  unfolding s_CreatePool_def by (intro emits_intro) simp

lemma emits_s_UpdatePool [emits_intro]: "KPool \<in> K \<Longrightarrow> emits (s_UpdatePool A uid lbAlgorithm) (kinds K)"
  unfolding s_UpdatePool_def by (intro emits_intro) simp

lemma emits_s_DeletePool [emits_intro]: "KPool \<in> K \<Longrightarrow> emits (s_DeletePool A uid) (kinds K)"
  unfolding s_DeletePool_def by (intro emits_intro) simp

lemma emits_s_CreateHealthMonitor [emits_intro]: "KMonitor \<in> K \<Longrightarrow> emits (s_CreateHealthMonitor A poolID req) (kinds K)"
  unfolding s_CreateHealthMonitor_def by (intro emits_intro) simp

lemma emits_s_UpdateHealthMonitor [emits_intro]: "KMonitor \<in> K \<Longrightarrow> emits (s_UpdateHealthMonitor A uid req) (kinds K)"
  unfolding s_UpdateHealthMonitor_def by (intro emits_intro) simp

lemma emits_s_DeleteHealthMonitor [emits_intro]: "KMonitor \<in> K \<Longrightarrow> emits (s_DeleteHealthMonitor A uid) (kinds K)"
  unfolding s_DeleteHealthMonitor_def by (intro emits_intro) simp

lemma emits_s_AddMember [emits_intro]: "KMember \<in> K \<Longrightarrow> emits (s_AddMember A poolID req) (kinds K)"
  unfolding s_AddMember_def by (intro emits_intro) simp

lemma emits_s_ListMembers [emits_intro]: "KRead \<in> K \<Longrightarrow> emits (s_ListMembers A poolID) (kinds K)"
  unfolding s_ListMembers_def by (intro emits_intro) simp

lemma emits_s_DeleteMember [emits_intro]: "KMember \<in> K \<Longrightarrow> emits (s_DeleteMember A poolID memberID) (kinds K)"
  unfolding s_DeleteMember_def by (intro emits_intro) simp

lemma emits_d_CreateInstance [emits_intro]: "KInstanceCreate \<in> K \<Longrightarrow> emits (d_CreateInstance A opt) (kinds K)"
  unfolding d_CreateInstance_def by (intro emits_intro) simp

lemma emits_d_GetInstance [emits_intro]: "KRead \<in> K \<Longrightarrow> emits (d_GetInstance A uid) (kinds K)"
  unfolding d_GetInstance_def by (intro emits_intro) simp

lemma emits_d_ListInstances [emits_intro]: "KRead \<in> K \<Longrightarrow> emits (d_ListInstances A name) (kinds K)"
  unfolding d_ListInstances_def by (intro emits_intro) simp

lemma emits_d_DeleteInstance [emits_intro]: "KInstanceDelete \<in> K \<Longrightarrow> emits (d_DeleteInstance A uid) (kinds K)"
  unfolding d_DeleteInstance_def by (intro emits_intro) simp

lemma emits_d_CreateListener [emits_intro]: "KListener \<in> K \<Longrightarrow> emits (d_CreateListener A req) (kinds K)"
  unfolding d_CreateListener_def by (intro emits_intro) simp

lemma emits_d_ListListeners [emits_intro]: "KRead \<in> K \<Longrightarrow> emits (d_ListListeners A elbID) (kinds K)"
  unfolding d_ListListeners_def by (intro emits_intro) simp

lemma emits_d_UpdateListener [emits_intro]: "KListener \<in> K \<Longrightarrow> emits (d_UpdateListener A uid opt) (kinds K)"
  unfolding d_UpdateListener_def by (intro emits_intro) simp

lemma emits_d_ListPools [emits_intro]: "KRead \<in> K \<Longrightarrow> emits (d_ListPools A elbID listenerID) (kinds K)"
  unfolding d_ListPools_def by (intro emits_intro) simp

lemma emits_d_CreatePool [emits_intro]: "KPool \<in> K \<Longrightarrow> emits (d_CreatePool A req) (kinds K)"
  unfolding d_CreatePool_def by (intro emits_intro) simp

lemma emits_d_UpdatePool [emits_intro]: "KPool \<in> K \<Longrightarrow> emits (d_UpdatePool A uid lbAlgorithm) (kinds K)"
  unfolding d_UpdatePool_def by (intro emits_intro) simp

lemma emits_d_DeletePool [emits_intro]: "KPool \<in> K \<Longrightarrow> emits (d_DeletePool A uid) (kinds K)"
  unfolding d_DeletePool_def by (intro emits_intro) simp

lemma emits_d_CreateHealthMonitor [emits_intro]: "KMonitor \<in> K \<Longrightarrow> emits (d_CreateHealthMonitor A poolID req) (kinds K)"
  unfolding d_CreateHealthMonitor_def by (intro emits_intro) simp

lemma emits_d_UpdateHealthMonitor [emits_intro]: "KMonitor \<in> K \<Longrightarrow> emits (d_UpdateHealthMonitor A uid req) (kinds K)"
  unfolding d_UpdateHealthMonitor_def by (intro emits_intro) simp

lemma emits_d_DeleteHealthMonitor [emits_intro]: "KMonitor \<in> K \<Longrightarrow> emits (d_DeleteHealthMonitor A uid) (kinds K)"
  unfolding d_DeleteHealthMonitor_def by (intro emits_intro) simp

lemma emits_d_ListMembers [emits_intro]: "KRead \<in> K \<Longrightarrow> emits (d_ListMembers A poolID limit) (kinds K)"
  unfolding d_ListMembers_def by (intro emits_intro) simp

lemma emits_d_DeleteMember [emits_intro]: "KMember \<in> K \<Longrightarrow> emits (d_DeleteMember A poolID memberID) (kinds K)"
  unfolding d_DeleteMember_def by (intro emits_intro) simp

lemma emits_e_Create [emits_intro]: "KEipCreate \<in> K \<Longrightarrow> emits (e_Create A req) (kinds K)"
  unfolding e_Create_def by (intro emits_intro) simp

lemma emits_e_Get [emits_intro]: "KRead \<in> K \<Longrightarrow> emits (e_Get A uid) (kinds K)"
  unfolding e_Get_def by (intro emits_intro) simp

lemma emits_e_List [emits_intro]: "KRead \<in> K \<Longrightarrow> emits (e_List A portID) (kinds K)"
  unfolding e_List_def by (intro emits_intro) simp

lemma emits_e_Update [emits_intro]: "KEipUpdate \<in> K \<Longrightarrow> emits (e_Update A uid portID) (kinds K)"
  unfolding e_Update_def by (intro emits_intro) simp

lemma emits_e_Delete [emits_intro]: "KEipDelete \<in> K \<Longrightarrow> emits (e_Delete A uid) (kinds K)"
  unfolding e_Delete_def by (intro emits_intro) simp

lemma emits_clean_members [emits_intro]: "(\<And>x. emits (del x) S) \<Longrightarrow> emits (clean_members del ign ms) S"
  unfolding clean_members_def by (intro emits_intro)

lemma emits_s_WaitStatusActive [emits_intro]: "KRead \<in> K \<Longrightarrow> emits (s_WaitStatusActive A uid) (kinds K)"
  unfolding s_WaitStatusActive_def by (intro emits_intro) simp_all

lemma emits_s_CreateInstanceCompleted [emits_intro]: "KRead \<in> K \<Longrightarrow> KInstanceCreate \<in> K \<Longrightarrow> emits (s_CreateInstanceCompleted A req) (kinds K)"
  unfolding s_CreateInstanceCompleted_def by (intro emits_intro) simp_all

lemma emits_s_DeleteListener [emits_intro]: "KRead \<in> K \<Longrightarrow> KListener \<in> K \<Longrightarrow> emits (s_DeleteListener A elbID listenerID) (kinds K)"
  unfolding s_DeleteListener_def by (intro emits_intro) simp_all

lemma emits_s_DeleteAllPoolMembers [emits_intro]: "KRead \<in> K \<Longrightarrow> KMember \<in> K \<Longrightarrow> emits (s_DeleteAllPoolMembers A poolID) (kinds K)"
  unfolding s_DeleteAllPoolMembers_def by (intro emits_intro) simp_all

lemma emits_d_WaitStatusActive [emits_intro]: "KRead \<in> K \<Longrightarrow> emits (d_WaitStatusActive A uid) (kinds K)"
  unfolding d_WaitStatusActive_def by (intro emits_intro) simp_all

lemma emits_d_CreateInstanceCompleted [emits_intro]: "KRead \<in> K \<Longrightarrow> KInstanceCreate \<in> K \<Longrightarrow> emits (d_CreateInstanceCompleted A req) (kinds K)"
  unfolding d_CreateInstanceCompleted_def by (intro emits_intro) simp_all

lemma emits_d_DeleteListener [emits_intro]: "KRead \<in> K \<Longrightarrow> KListener \<in> K \<Longrightarrow> emits (d_DeleteListener A elbID listenerID) (kinds K)"
  unfolding d_DeleteListener_def by (intro emits_intro) simp_all

lemma emits_d_AddMember [emits_intro]: "KMember \<in> K \<Longrightarrow> emits (d_AddMember A poolID req) (kinds K)"
  unfolding d_AddMember_def by (intro emits_intro) (auto split: error.splits intro!: emits_intro)

lemma emits_d_DeleteAllPoolMembers [emits_intro]: "KRead \<in> K \<Longrightarrow> KMember \<in> K \<Longrightarrow> emits (d_DeleteAllPoolMembers A poolID) (kinds K)"
  unfolding d_DeleteAllPoolMembers_def by (intro emits_intro) simp_all

lemma emits_e_Bind [emits_intro]: "KEipUpdate \<in> K \<Longrightarrow> emits (e_Bind A uid portID) (kinds K)"
  unfolding e_Bind_def by (intro emits_intro) simp_all

lemma emits_e_Unbind [emits_intro]: "KEipUpdate \<in> K \<Longrightarrow> emits (e_Unbind A uid) (kinds K)"
  unfolding e_Unbind_def by (intro emits_intro) simp_all

lemma d_AddMember_log: "d_AddMember A pid req s = (r, t) \<Longrightarrow> log t = log s @ [Sdk (ElbV3 (V3CreateMember pid req))]"
  by (auto simp: d_AddMember_def run_simps split: prod.splits res.splits error.splits if_splits dest: commonWrapper_log)

end
