(* ===== verification/Net_Ip.thy ===== *)
theory Net_Ip
  imports CCM_Prelude
begin

text \<open>
  \<open>net.ParseIP\<close> and \<open>IP.To4\<close> of the Go standard library (Go 1.20), which decide which addresses of a
  server or a pod count as IP addresses. An address is its 16 bytes; \<open>None\<close> is the nil \<open>IP\<close>.
\<close>

type_synonym ip = "nat list"

definition octet :: "string \<Rightarrow> nat option" where
  "octet s = (if s \<noteq> [] \<and> list_all is_digit s \<and> (length s > 1 \<longrightarrow> hd s \<noteq> CHR ''0'') \<and> digits_val 0 s \<le> 255
              then Some (digits_val 0 s) else None)"

fun octets :: "string list \<Rightarrow> nat list option" where
  "octets [] = Some []"
| "octets (f # fs) = (case octet f of None \<Rightarrow> None
     | Some n \<Rightarrow> (case octets fs of None \<Rightarrow> None | Some ns \<Rightarrow> Some (n # ns)))"

definition parseIPv4 :: "string \<Rightarrow> nat list option" where
  "parseIPv4 s = (let fs = split_on CHR ''.'' s in if length fs = 4 then octets fs else None)"

definition is_hex :: "char \<Rightarrow> bool" where
  "is_hex c \<longleftrightarrow> is_digit c \<or> (97::nat) \<le> of_char c \<and> of_char c \<le> (102::nat)
     \<or> (65::nat) \<le> of_char c \<and> of_char c \<le> (70::nat)"

definition hex_digit :: "char \<Rightarrow> nat" where
  "hex_digit c = (if is_digit c then of_char c - 48 else if (97::nat) \<le> of_char c then of_char c - 87 else of_char c - 55)"

fun hex_val :: "nat \<Rightarrow> string \<Rightarrow> nat" where
  "hex_val acc [] = acc"
| "hex_val acc (c # cs) = hex_val (16 * acc + hex_digit c) cs"

text \<open>The loop of \<open>parseIPv6\<close>: the first argument counts the 16-bit groups that still fit, \<open>ip\<close> the
  bytes read and \<open>ell\<close> the position of the double colon. The result keeps what is left of the input.\<close>

fun ipv6_loop :: "nat \<Rightarrow> string \<Rightarrow> nat list \<Rightarrow> nat option \<Rightarrow> (nat list \<times> nat option \<times> string) option" where
  "ipv6_loop 0 s ip ell = Some (ip, ell, s)"
| "ipv6_loop (Suc k) s ip ell =
     (let ds = takeWhile is_hex s; rest = dropWhile is_hex s; n = hex_val 0 ds; ip' = ip @ [n div 256, n mod 256]
      in if ds = [] \<or> n > 65535 then None
         else case rest of
             [] \<Rightarrow> Some (ip', ell, [])
           | c # s1 \<Rightarrow>
               if c = CHR ''.'' then
                 (if ell = None \<and> length ip \<noteq> 12 \<or> length ip + 4 > 16 then None
                  else case parseIPv4 s of None \<Rightarrow> None | Some b \<Rightarrow> Some (ip @ b, ell, []))
               else if c \<noteq> CHR '':'' then None
               else case s1 of
                   [] \<Rightarrow> None
                 | d # s2 \<Rightarrow>
                     if d = CHR '':'' then
                       (if ell \<noteq> None then None
                        else if s2 = [] then Some (ip', Some (length ip'), [])
                        else ipv6_loop k s2 ip' (Some (length ip')))
                     else ipv6_loop k s1 ip' ell)"

definition parseIPv6 :: "string \<Rightarrow> ip option" where
  "parseIPv6 s =
     (let leading = prefix ''::'' s;
          s' = (if leading then drop 2 s else s)
      in if leading \<and> s' = [] then Some (replicate 16 0)
         else case ipv6_loop 8 s' [] (if leading then Some 0 else None) of
             None \<Rightarrow> None
           | Some (ip, ell, rest) \<Rightarrow>
               if rest \<noteq> [] then None
               else if length ip < 16 then
                 (case ell of None \<Rightarrow> None
                  | Some e \<Rightarrow> Some (take e ip @ replicate (16 - length ip) 0 @ drop e ip))
               else if ell \<noteq> None then None else Some ip)"

definition v4InV6Prefix :: "nat list" where
  "v4InV6Prefix = replicate 10 0 @ [255, 255]"

definition ParseIP :: "string \<Rightarrow> ip option" where
  "ParseIP s = (case dropWhile (\<lambda>c. c \<noteq> CHR ''.'' \<and> c \<noteq> CHR '':'') s of
       [] \<Rightarrow> None
     | c # _ \<Rightarrow> if c = CHR ''.'' then map_option (\<lambda>b. v4InV6Prefix @ b) (parseIPv4 s) else parseIPv6 s)"

definition To4 :: "ip \<Rightarrow> nat list option" where
  "To4 a = (if take 12 a = v4InV6Prefix then Some (drop 12 a) else None)"

lemma octets_length: "octets fs = Some ns \<Longrightarrow> length ns = length fs"
  by (induction fs arbitrary: ns) (auto split: option.splits)

lemma parseIPv4_length: "parseIPv4 s = Some b \<Longrightarrow> length b = 4"
  by (auto simp: parseIPv4_def Let_def split: if_splits dest: octets_length)

lemma ipv6_loop_length:
  "ipv6_loop k s ip ell = Some (ip', ell', s') \<Longrightarrow> length ip + 2 * k = 16 \<Longrightarrow> length ip' \<le> 16"
proof (induction k arbitrary: s ip ell)
  case 0
  then show ?case by simp
next
  case (Suc k)
  define n where "n = hex_val 0 (takeWhile is_hex s)"
  have room: "length (ip @ [n div 256, n mod 256]) + 2 * k = 16" using Suc.prems(2) by simp
  show ?case
    using Suc.prems(1) room Suc.IH [OF _ room]
    unfolding ipv6_loop.simps Let_def n_def [symmetric]
    by (cases "dropWhile is_hex s") (auto split: if_splits list.split_asm option.split_asm dest!: parseIPv4_length)
qed

lemma parseIPv6_length: "parseIPv6 s = Some a \<Longrightarrow> length a = 16"
proof -
  assume "parseIPv6 s = Some a"
  moreover have "length ip \<le> 16" if "ipv6_loop 8 s' [] e = Some (ip, ell, r)" for s' e ip ell r
    using ipv6_loop_length [OF that] by simp
  ultimately show ?thesis
    unfolding parseIPv6_def Let_def
    by (force simp del: ipv6_loop.simps split: if_splits option.splits)
qed

text \<open>Every parsed address has 16 bytes.\<close>

lemma ParseIP_length: "ParseIP s = Some a \<Longrightarrow> length a = 16"
  by (auto simp: ParseIP_def v4InV6Prefix_def split: if_splits list.splits dest: parseIPv4_length parseIPv6_length)

end
