(* ===== verification/Ecs.thy ===== *)
theory Ecs
  imports Wrapper Net_Ip "HOL-Library.Char_ord" "HOL-Library.List_Lexorder"
begin

text \<open>
  \<open>wrapper/ecs.go\<close>: finding the server of a node, and turning the interfaces and addresses of a
  server into node addresses. A pointer field that the code dereferences without a test is
  dereferenced with \<open>deref\<close>.
\<close>

subsection \<open>Queries\<close>

definition ecs_Get :: "'w api \<Rightarrow> string \<Rightarrow> ('w, ServerDetail option) prog" where
  "ecs_Get A uid = commonWrapper A (Ecs (ShowServer uid)) asServer"

definition ecs_ListByIp :: "'w api \<Rightarrow> string \<Rightarrow> ('w, ServerDetail list option) prog" where
  "ecs_ListByIp A ip = commonWrapper A (Ecs (ListServersByIp ip)) asServers"

definition ecs_ListByName :: "'w api \<Rightarrow> string \<Rightarrow> ('w, ServerDetail list option) prog" where
  "ecs_ListByName A name = commonWrapper A (Ecs (ListServersByName name)) asServers"

definition ecs_ListInterfaces :: "'w api \<Rightarrow> string \<Rightarrow> ('w, InterfaceAttachment list) prog" where
  "ecs_ListInterfaces A serverId = commonWrapper A (Ecs (ListServerInterfaces serverId)) asInterfaces"

text \<open>The three nested loops that look for the first server with an address.\<close>

definition server_has_addr :: "string \<Rightarrow> ServerDetail \<Rightarrow> bool" where
  "server_has_addr ip sv \<longleftrightarrow> list_ex (\<lambda>(net, addresses). list_ex (\<lambda>addr. sa_Addr addr = ip) addresses) (srv_Addresses sv)"

definition first_server :: "error \<Rightarrow> string \<Rightarrow> ServerDetail list option \<Rightarrow> ('w, ServerDetail) prog" where
  "first_server notFound ip servers = (case servers of
       None \<Rightarrow> errR notFound
     | Some svs \<Rightarrow> (case find (server_has_addr ip) svs of None \<Rightarrow> errR notFound | Some sv \<Rightarrow> okR sv))"

definition GetByName :: "'w api \<Rightarrow> string \<Rightarrow> ('w, ServerDetail) prog" where
  "GetByName A name0 =
     (let name = ''^'' @ name0 @ ''$'' in
      bindR (ecs_ListByName A name) (\<lambda>servers.
      bindR (deref servers) (\<lambda>serverList. case serverList of
          [] \<Rightarrow> errR (StatusError CodeNotFound (''Error, not found any servers matched name: '' @ name))
        | sv # _ \<Rightarrow> okR sv)))"

definition GetByNodeName :: "'w api \<Rightarrow> string \<Rightarrow> ('w, ServerDetail) prog" where
  "GetByNodeName A name =
     bindR (if Option.bind (ParseIP name) To4 \<noteq> None then okR name
            else bindR (LookupHost A name) (\<lambda>ips.
              okR (case find (\<lambda>ip. ip \<noteq> ''127.0.0.1'' \<and> ip \<noteq> ''127.0.1.1'') ips of None \<Rightarrow> [] | Some ip \<Rightarrow> ip)))
       (\<lambda>privateIP.
         if privateIP = [] then GetByName A name
         else bindR (ecs_ListByIp A privateIP)
                (first_server (StatusError CodeNotFound
                   (''not found any ECS, node: '' @ name @ '', PrivateIP: '' @ privateIP)) privateIP))"

definition GetByNodeIP :: "'w api \<Rightarrow> string \<Rightarrow> ('w, ServerDetail) prog" where
  "GetByNodeIP A privateIP =
     (if privateIP = [] then errR (Errorf ''privateIP can be empty'')
      else bindR (ecs_ListByIp A privateIP)
             (first_server (Errorf (''not found any ECS, PrivateIP: '' @ privateIP)) privateIP))"

definition GetByNodeIPNew :: "'w api \<Rightarrow> string \<Rightarrow> ('w, ServerDetail) prog" where
  "GetByNodeIPNew A privateIP =
     (if privateIP = [] then errR (Errorf ''privateIP can be empty'')
      else bindR (commonWrapper A (Ecs (ListServersNew privateIP)) asServers)
             (first_server (Errorf (''not found any ECS, PrivateIP: '' @ privateIP)) privateIP))"

text \<open>The loop of \<open>GetByNode\<close>: the first internal address and the last host name.\<close>

fun node_ip_and_host :: "node_address list \<Rightarrow> string \<times> string \<Rightarrow> string \<times> string" where
  "node_ip_and_host [] acc = acc"
| "node_ip_and_host (a # as) (privateIP, hostname) =
     node_ip_and_host as
       (if addr_Type a = ''InternalIP'' then (if privateIP = [] then addr_Address a else privateIP, hostname)
        else if addr_Type a = ''Hostname'' then (privateIP, addr_Address a)
        else (privateIP, hostname))"

definition GetByNode :: "'w api \<Rightarrow> node \<Rightarrow> ('w, ServerDetail) prog" where
  "GetByNode A n =
     (let (privateIP, hostname0) = node_ip_and_host (node_Addresses n) ([], []);
          hostname = (if hostname0 = [] then (case node_Labels n ''kubernetes.io/hostname'' of None \<Rightarrow> [] | Some h \<Rightarrow> h)
                      else hostname0);
          fallback = (if hostname \<noteq> [] then GetByNodeName A hostname
                      else errR (Errorf (''cannot find ECS for node '' @ node_Name n @ '': no private IP or hostname available'')))
      in if privateIP \<noteq> []
         then bindR (attempt (GetByNodeIP A privateIP)) (\<lambda>r. case r of Inr server \<Rightarrow> okR server | Inl _ \<Rightarrow> fallback)
         else fallback)"

subsection \<open>Node addresses\<close>

fun addr_exists :: "node_address list \<Rightarrow> node_address \<Rightarrow> bool" where
  "addr_exists [] a = False"
| "addr_exists (existing # rest) a =
     (if addr_Address existing = addr_Address a \<and> addr_Type existing = addr_Type a then True else addr_exists rest a)"

definition addToNodeAddresses :: "node_address list \<Rightarrow> node_address list \<Rightarrow> node_address list" where
  "addToNodeAddresses addresses addAddresses =
     fold (\<lambda>a addresses. if addr_exists addresses a then addresses else addresses @ [a]) addAddresses addresses"

definition indexesToRemove :: "node_address list \<Rightarrow> node_address list \<Rightarrow> nat list" where
  "indexesToRemove addresses removeAddresses =
     concat (map (\<lambda>r. filter (\<lambda>i. addr_Address (addresses ! i) = addr_Address r
                          \<and> (addr_Type (addresses ! i) = addr_Type r \<or> addr_Type r = []))
                        (rev [0..<length addresses])) removeAddresses)"

definition removeFromNodeAddresses :: "node_address list \<Rightarrow> node_address list \<Rightarrow> node_address list" where
  "removeFromNodeAddresses addresses removeAddresses =
     fold (\<lambda>i addresses. if i < length addresses then take i addresses @ drop (i + 1) addresses else addresses)
       (indexesToRemove addresses removeAddresses) addresses"

definition BuildAddresses_interfaces :: "InterfaceAttachment list \<Rightarrow> node_address list \<Rightarrow> ('w, node_address list) prog" where
  "BuildAddresses_interfaces interfaces addrs0 =
     foldR (\<lambda>inter addrs.
       bindR (deref (if_PortState inter)) (\<lambda>st.
         if st = ''ACTIVE''
         then bindR (deref (if_FixedIps inter)) (\<lambda>fixed.
                foldR (\<lambda>fixedIP addrs.
                  bindR (deref (fip_IpAddress fixedIP)) (\<lambda>ip.
                    okR (if ParseIP ip \<noteq> None
                         then addToNodeAddresses addrs [\<lparr>addr_Type = ''InternalIP'', addr_Address = ip\<rparr>] else addrs)))
                  fixed addrs)
         else okR addrs)) interfaces addrs0"

definition BuildAddresses_step :: "NetworkingOptions \<Rightarrow> string \<Rightarrow> ServerAddress \<Rightarrow> node_address list \<Rightarrow> node_address list" where
  "BuildAddresses_step networkingOpts nicID serverAddr addrs =
     (let add = (\<lambda>ty addrs. if ParseIP (sa_Addr serverAddr) \<noteq> None
                            then addToNodeAddresses addrs [\<lparr>addr_Type = ty, addr_Address = sa_Addr serverAddr\<rparr>] else addrs);
          removed = removeFromNodeAddresses addrs [\<lparr>addr_Type = [], addr_Address = sa_Addr serverAddr\<rparr>]
      in if sa_Type serverAddr = Some (ServerAddressOSEXTIPStype ''floating'') then add ''ExternalIP'' addrs
         else if IsStrSliceContains (PublicNetworkName networkingOpts) nicID then add ''ExternalIP'' removed
         else if length (InternalNetworkName networkingOpts) = 0
               \<or> IsStrSliceContains (InternalNetworkName networkingOpts) nicID then add ''InternalIP'' addrs
         else removed)"

definition BuildAddresses :: "ServerDetail \<Rightarrow> InterfaceAttachment list \<Rightarrow> NetworkingOptions \<Rightarrow> ('w, node_address list) prog" where
  "BuildAddresses server interfaces networkingOpts =
     bindR (BuildAddresses_interfaces interfaces []) (\<lambda>addrs.
       let external = (\<lambda>ip addrs. if ip \<noteq> [] then addToNodeAddresses addrs [\<lparr>addr_Type = ''ExternalIP'', addr_Address = ip\<rparr>] else addrs);
           addrs' = external (srv_AccessIPv6 server) (external (srv_AccessIPv4 server) addrs);
           nicIDs = sort (map fst (srv_Addresses server));
           addressesOf = (\<lambda>nicID. case map_of (srv_Addresses server) nicID of None \<Rightarrow> [] | Some as \<Rightarrow> as)
       in okR (fold (\<lambda>nicID addrs. fold (BuildAddresses_step networkingOpts nicID) (addressesOf nicID) addrs) nicIDs addrs'))"

subsection \<open>Security groups\<close>

definition ListSecurityGroups :: "'w api \<Rightarrow> string \<Rightarrow> ('w, string list) prog" where
  "ListSecurityGroups A instanceID = commonWrapper A (Ecs (NovaListServerSecurityGroups instanceID)) asSecurityGroups"

definition AssociateSecurityGroup :: "'w api \<Rightarrow> string \<Rightarrow> string \<Rightarrow> ('w, unit) prog" where
  "AssociateSecurityGroup A instanceID securityGroupID = wrapper0 A (Ecs (NovaAssociateSecurityGroup instanceID securityGroupID))"

definition DisassociateSecurityGroup :: "'w api \<Rightarrow> string \<Rightarrow> string \<Rightarrow> ('w, unit) prog" where
  "DisassociateSecurityGroup A instanceID securityGroupID =
     bindR (attempt (wrapper0 A (Ecs (NovaDisassociateSecurityGroup instanceID securityGroupID)))) (\<lambda>r. case r of
         Inr _ \<Rightarrow> okR ()
       | Inl e \<Rightarrow> if contains (err_text e) ''not associated with the instance'' \<or> contains (err_text e) ''is not found for project''
                  then okR () else errR e)"

subsection \<open>Facts\<close>

lemma addr_exists_iff: "addr_exists as a \<longleftrightarrow> (\<exists>x\<in>set as. addr_Address x = addr_Address a \<and> addr_Type x = addr_Type a)"
  by (induction as) auto

lemma addr_exists_set: "addr_exists as a \<longleftrightarrow> a \<in> set (as :: node_address list)"
  by (auto simp: addr_exists_iff) (metis node_address.equality old.unit.exhaust)

lemma addToNodeAddresses_Nil [simp]: "addToNodeAddresses as [] = as"
  by (simp add: addToNodeAddresses_def)

lemma addToNodeAddresses_Cons:
  "addToNodeAddresses as (b # bs) = addToNodeAddresses (if b \<in> set as then as else as @ [b]) bs"
  by (simp add: addToNodeAddresses_def addr_exists_set)

lemma addToNodeAddresses_set: "set (addToNodeAddresses as bs) = set as \<union> set bs"
  by (induction bs arbitrary: as) (auto simp: addToNodeAddresses_Cons)

lemma addToNodeAddresses_distinct: "distinct as \<Longrightarrow> distinct (addToNodeAddresses as bs)"
  by (induction bs arbitrary: as) (auto simp: addToNodeAddresses_Cons)

lemma addToNodeAddresses_one: "addToNodeAddresses as [b] = (if b \<in> set as then as else as @ [b])"
  by (simp add: addToNodeAddresses_Cons)

text \<open>The indices are collected from the end of the slice, so deleting them one by one deletes exactly
  the matching elements.\<close>

lemma fold_delete_descending:
  "n \<le> length xs \<Longrightarrow>
   fold (\<lambda>i ys. if i < length ys then take i ys @ drop (i + 1) ys else ys) (filter (\<lambda>i. p (xs ! i)) (rev [0..<n])) xs
     = filter (\<lambda>x. \<not> p x) (take n xs) @ drop n xs"
proof (induction n arbitrary: xs)
  case 0
  then show ?case by simp
next
  case (Suc n)
  let ?del = "\<lambda>i ys. if i < length ys then take i ys @ drop (i + 1) ys else ys"
  have snoc: "take (Suc n) xs = take n xs @ [xs ! n]" and drop: "drop n xs = xs ! n # drop (Suc n) xs"
    using Suc.prems by (auto simp: take_Suc_conv_app_nth Cons_nth_drop_Suc)
  show ?case
  proof (cases "p (xs ! n)")
    case False
    then show ?thesis using Suc.IH [of xs] Suc.prems snoc drop by simp
  next
    case True
    let ?ys = "take n xs @ drop (Suc n) xs"
    have same: "filter (\<lambda>i. p (xs ! i)) (rev [0..<n]) = filter (\<lambda>i. p (?ys ! i)) (rev [0..<n])"
      using Suc.prems by (intro filter_cong) (auto simp: nth_append)
    have "fold ?del (filter (\<lambda>i. p (xs ! i)) (rev [0..<Suc n])) xs = fold ?del (filter (\<lambda>i. p (xs ! i)) (rev [0..<n])) ?ys"
      using True Suc.prems by simp
    also have "\<dots> = filter (\<lambda>x. \<not> p x) (take n ?ys) @ drop n ?ys"
      unfolding same by (rule Suc.IH) (use Suc.prems in simp)
    also have "\<dots> = filter (\<lambda>x. \<not> p x) (take (Suc n) xs) @ drop (Suc n) xs"
      using True Suc.prems snoc by simp
    finally show ?thesis .
  qed
qed

lemma removeFromNodeAddresses_one:
  "removeFromNodeAddresses as [r] =
     filter (\<lambda>a. \<not> (addr_Address a = addr_Address r \<and> (addr_Type a = addr_Type r \<or> addr_Type r = []))) as"
  using fold_delete_descending [of "length as" as
      "\<lambda>a. addr_Address a = addr_Address r \<and> (addr_Type a = addr_Type r \<or> addr_Type r = [])"]
  by (simp add: removeFromNodeAddresses_def indexesToRemove_def)

text \<open>The invariant of the address list under construction.\<close>

definition addr_list_ok :: "node_address list \<Rightarrow> bool" where
  "addr_list_ok as \<longleftrightarrow> distinct as \<and> list_all (\<lambda>a. addr_Type a \<in> {''InternalIP'', ''ExternalIP''}) as"

lemma addr_list_ok_add:
  "addr_list_ok as \<Longrightarrow> ty \<in> {''InternalIP'', ''ExternalIP''} \<Longrightarrow> addr_list_ok (addToNodeAddresses as [\<lparr>addr_Type = ty, addr_Address = a\<rparr>])"
  by (auto simp: addr_list_ok_def addToNodeAddresses_one)

lemma addr_list_ok_remove: "addr_list_ok as \<Longrightarrow> addr_list_ok (removeFromNodeAddresses as [r])"
  by (auto simp: addr_list_ok_def removeFromNodeAddresses_one list_all_iff)

lemma addr_list_ok_step: "addr_list_ok as \<Longrightarrow> addr_list_ok (BuildAddresses_step opts nic sa as)"
  by (simp add: BuildAddresses_step_def Let_def addr_list_ok_add addr_list_ok_remove)

lemma addr_list_ok_fold:
  "(\<And>x as. x \<in> set xs \<Longrightarrow> addr_list_ok as \<Longrightarrow> addr_list_ok (f x as)) \<Longrightarrow> addr_list_ok as \<Longrightarrow> addr_list_ok (fold f xs as)"
  by (induction xs arbitrary: as) auto

lemma addr_list_ok_interfaces:
  "addr_list_ok as \<Longrightarrow> yields (BuildAddresses_interfaces ifs as) addr_list_ok"
  unfolding BuildAddresses_interfaces_def by (intro yields_intro) (simp_all add: addr_list_ok_add)

lemma addr_list_ok_BuildAddresses: "yields (BuildAddresses server ifs opts) addr_list_ok"
  unfolding BuildAddresses_def Let_def
  by (rule yields_bindR [OF addr_list_ok_interfaces])
    (auto intro!: yields_intro addr_list_ok_fold addr_list_ok_step addr_list_ok_add simp: addr_list_ok_def [of "[]"])

text \<open>The construction has no error path: it ends in addresses or in a nil dereference.\<close>

definition never_errs :: "('w, 'e, 'a) m \<Rightarrow> bool" where
  "never_errs m \<longleftrightarrow> (\<forall>s e. fst (m s) \<noteq> Err e)"

lemma never_errs_deref: "never_errs (deref p)"
  by (cases p) (simp_all add: never_errs_def run_simps)

lemma never_errs_okR: "never_errs (okR x)"
  by (simp add: never_errs_def run_simps)

lemma never_errs_bindR:
  assumes "never_errs m" and "\<And>x. never_errs (f x)"
  shows "never_errs (bindR m f)"
  unfolding never_errs_def
proof (intro allI)
  fix s e
  show "fst (bindR m f s) \<noteq> Err e"
    using assms unfolding never_errs_def run_bindR by (cases "m s") (auto split: res.splits, metis fst_conv)
qed

lemma never_errs_foldR: "(\<And>x b. never_errs (f x b)) \<Longrightarrow> never_errs (foldR f xs b)"
  by (induction xs arbitrary: b) (simp_all add: never_errs_okR never_errs_bindR)

lemma never_errs_interfaces: "never_errs (BuildAddresses_interfaces ifs as)"
  unfolding BuildAddresses_interfaces_def
  by (intro never_errs_foldR never_errs_bindR never_errs_deref) (auto intro: never_errs_foldR never_errs_bindR never_errs_deref never_errs_okR)

lemma BuildAddresses_never_errs: "never_errs (BuildAddresses server ifs opts)"
  unfolding BuildAddresses_def Let_def by (intro never_errs_bindR never_errs_okR never_errs_interfaces)

text \<open>Looking a server up only reads.\<close>

lemma emits_first_server [emits_intro]: "emits (first_server e ip servers) S"
  unfolding first_server_def by (intro emits_intro)

lemma emits_GetByName [emits_intro]: "KRead \<in> K \<Longrightarrow> emits (GetByName A name) (kinds K)"
  unfolding GetByName_def ecs_ListByName_def by (intro emits_intro) simp_all

lemma emits_GetByNodeName [emits_intro]: "KRead \<in> K \<Longrightarrow> emits (GetByNodeName A name) (kinds K)"
  unfolding GetByNodeName_def ecs_ListByIp_def by (intro emits_intro) simp_all

lemma emits_GetByNodeIP [emits_intro]: "KRead \<in> K \<Longrightarrow> emits (GetByNodeIP A ip) (kinds K)"
  unfolding GetByNodeIP_def ecs_ListByIp_def by (intro emits_intro) simp_all

lemma emits_GetByNodeIPNew [emits_intro]: "KRead \<in> K \<Longrightarrow> emits (GetByNodeIPNew A ip) (kinds K)"
  unfolding GetByNodeIPNew_def by (intro emits_intro) simp_all

lemma emits_GetByNode [emits_intro]: "KRead \<in> K \<Longrightarrow> emits (GetByNode A n) (kinds K)"
  unfolding GetByNode_def by (intro emits_intro)

lemma emits_ecs_ListInterfaces [emits_intro]: "KRead \<in> K \<Longrightarrow> emits (ecs_ListInterfaces A uid) (kinds K)"
  unfolding ecs_ListInterfaces_def by (intro emits_intro) simp_all

lemma emits_ecs_Get [emits_intro]: "KRead \<in> K \<Longrightarrow> emits (ecs_Get A uid) (kinds K)"
  unfolding ecs_Get_def by (intro emits_intro) simp_all

end
