(* ===== verification/Annotations.thy ===== *)
theory Annotations
  imports Config Kube
begin

text \<open>
  How a service's annotations become settings: the typed getters of
  \<open>sharedloadbalancer.go\<close>, the protocol of a listener, the EIP and health check options, the
  validation of a service and the choice of the load balancer version
  (\<open>huaweicloud.go\<close>). Every getter falls back to the setting of the config map.
\<close>

subsection \<open>Annotation keys\<close>

abbreviation (input) ElbClass :: string where "ElbClass \<equiv> ''kubernetes.io/elb.class''"
abbreviation (input) ElbID :: string where "ElbID \<equiv> ''kubernetes.io/elb.id''"
abbreviation (input) ElbSubnetID :: string where "ElbSubnetID \<equiv> ''kubernetes.io/elb.subnet-id''"
abbreviation (input) ElbBackendSubnetID :: string where "ElbBackendSubnetID \<equiv> ''kubernetes.io/elb.backend.subnet-id''"
abbreviation (input) ElbBackendIpVersion :: string where "ElbBackendIpVersion \<equiv> ''kubernetes.io/elb.backend.ip-version''"
abbreviation (input) ElbEipID :: string where "ElbEipID \<equiv> ''kubernetes.io/elb.eip-id''"
abbreviation (input) ELBKeepEip :: string where "ELBKeepEip \<equiv> ''kubernetes.io/elb.keep-eip''"
abbreviation (input) AutoCreateEipOptions :: string where "AutoCreateEipOptions \<equiv> ''kubernetes.io/elb.eip-auto-create-option''"
abbreviation (input) ElbAlgorithm :: string where "ElbAlgorithm \<equiv> ''kubernetes.io/elb.lb-algorithm''"
abbreviation (input) ElbSessionAffinityFlag :: string where "ElbSessionAffinityFlag \<equiv> ''kubernetes.io/elb.session-affinity-flag''"
abbreviation (input) ElbSessionAffinityOption :: string where "ElbSessionAffinityOption \<equiv> ''kubernetes.io/elb.session-affinity-option''"
abbreviation (input) ElbHealthCheckFlag :: string where "ElbHealthCheckFlag \<equiv> ''kubernetes.io/elb.health-check-flag''"
abbreviation (input) ElbHealthCheckOptions :: string where "ElbHealthCheckOptions \<equiv> ''kubernetes.io/elb.health-check-option''"
abbreviation (input) ElbXForwardedHost :: string where "ElbXForwardedHost \<equiv> ''kubernetes.io/elb.x-forwarded-host''"
abbreviation (input) DefaultTLSContainerRef :: string where "DefaultTLSContainerRef \<equiv> ''kubernetes.io/elb.default-tls-container-ref''"
abbreviation (input) ElbIdleTimeout :: string where "ElbIdleTimeout \<equiv> ''kubernetes.io/elb.idle-timeout''"
abbreviation (input) ElbRequestTimeout :: string where "ElbRequestTimeout \<equiv> ''kubernetes.io/elb.request-timeout''"
abbreviation (input) ElbResponseTimeout :: string where "ElbResponseTimeout \<equiv> ''kubernetes.io/elb.response-timeout''"
abbreviation (input) ElbEnableCrossVpc :: string where "ElbEnableCrossVpc \<equiv> ''kubernetes.io/elb.enable-cross-vpc''"
abbreviation (input) ElbL4FlavorID :: string where "ElbL4FlavorID \<equiv> ''kubernetes.io/elb.l4-flavor-id''"
abbreviation (input) ElbL7FlavorID :: string where "ElbL7FlavorID \<equiv> ''kubernetes.io/elb.l7-flavor-id''"
abbreviation (input) ElbAvailabilityZones :: string where "ElbAvailabilityZones \<equiv> ''kubernetes.io/elb.availability-zones''"
abbreviation (input) ElbEnableTransparentClientIP :: string where
  "ElbEnableTransparentClientIP \<equiv> ''kubernetes.io/elb.enable-transparent-client-ip''"
abbreviation (input) ELBMarkAnnotation :: string where "ELBMarkAnnotation \<equiv> ''kubernetes.io/elb.mark''"

abbreviation (input) ProtocolTCP :: string where "ProtocolTCP \<equiv> ''TCP''"
abbreviation (input) ProtocolUDP :: string where "ProtocolUDP \<equiv> ''UDP''"
abbreviation (input) ProtocolHTTP :: string where "ProtocolHTTP \<equiv> ''HTTP''"
abbreviation (input) ProtocolHTTPS :: string where "ProtocolHTTPS \<equiv> ''HTTPS''"
abbreviation (input) ProtocolTerminatedHTTPS :: string where "ProtocolTerminatedHTTPS \<equiv> ''TERMINATED_HTTPS''"

abbreviation (input) LoadBalancerClassName :: string where "LoadBalancerClassName \<equiv> ''huaweicloud.com/elb''"

subsection \<open>Typed getters\<close>

definition getStringFromSvsAnnotation :: "service \<Rightarrow> string \<Rightarrow> string \<Rightarrow> string" where
  "getStringFromSvsAnnotation svc key defaultSetting =
     (case svc_Annotations svc key of Some v \<Rightarrow> v | None \<Rightarrow> defaultSetting)"

definition getBoolFromSvsAnnotation :: "service \<Rightarrow> string \<Rightarrow> bool \<Rightarrow> bool" where
  "getBoolFromSvsAnnotation svc key defaultVal =
     (case svc_Annotations svc key of
        None \<Rightarrow> defaultVal
      | Some v \<Rightarrow> if v = ''true'' then True else if v = ''false'' then False else defaultVal)"

definition getIntFromSvsAnnotation :: "service \<Rightarrow> string \<Rightarrow> int \<Rightarrow> int" where
  "getIntFromSvsAnnotation svc key defaultVal =
     (case svc_Annotations svc key of
        Some v \<Rightarrow> (case Atoi v of None \<Rightarrow> defaultVal | Some n \<Rightarrow> n)
      | None \<Rightarrow> defaultVal)"

text \<open>\<open>if timeout := getIntFromSvsAnnotation(...); timeout != 0 { opt = pointer.Int32(int32(timeout)) }\<close>.\<close>

definition timeout_opt :: "service \<Rightarrow> string \<Rightarrow> int \<Rightarrow> int option" where
  "timeout_opt svc key defaultVal =
     (let timeout = getIntFromSvsAnnotation svc key defaultVal
      in if timeout \<noteq> 0 then Some (to_int32 timeout) else None)"

subsection \<open>Protocol, health check and EIP options\<close>

definition parseProtocol :: "service \<Rightarrow> service_port \<Rightarrow> string" where
  "parseProtocol svc port =
     (let xForwardFor = getBoolFromSvsAnnotation svc ElbXForwardedHost False;
          defaultTLSContainerRef = getStringFromSvsAnnotation svc DefaultTLSContainerRef []
      in if defaultTLSContainerRef \<noteq> [] then ProtocolTerminatedHTTPS
         else if xForwardFor then ProtocolHTTP
         else port_Protocol port)"

definition getHealthCheckOptionFromAnnotation :: "codecs \<Rightarrow> service \<Rightarrow> LoadBalancerOptions \<Rightarrow> HealthCheckOption" where
  "getHealthCheckOptionFromAnnotation cd svc opts =
     (let checkOpts = HealthCheckOption opts;
          healthCheckFlag = getStringFromSvsAnnotation svc ElbHealthCheckFlag (HealthCheckFlag opts);
          checkOpts1 = (if healthCheckFlag = [] \<or> healthCheckFlag = ''on'' then checkOpts\<lparr>hc_Enable := True\<rparr> else checkOpts);
          str = getStringFromSvsAnnotation svc ElbHealthCheckOptions []
      in if str = [] then checkOpts1 else fst (json_health cd str checkOpts1))"

definition zero_CreateEIPOptions :: CreateEIPOptions where
  "zero_CreateEIPOptions = \<lparr>eo_BandwidthSize = 0, eo_ShareType = [], eo_ShareID = [], eo_ChargeMode = [], eo_IPType = []\<rparr>"

text \<open>The pair \<open>(opts, err)\<close> of the source: no options and no error without the annotation.\<close>

definition parseEIPAutoCreateOptions :: "codecs \<Rightarrow> service \<Rightarrow> CreateEIPOptions option \<times> error option" where
  "parseEIPAutoCreateOptions cd svc =
     (let str = getStringFromSvsAnnotation svc AutoCreateEipOptions []
      in if str = [] then (None, None)
         else let (opts, err) = json_eip cd str zero_CreateEIPOptions;
                  opts1 = (if eo_ChargeMode opts = [] then opts\<lparr>eo_ChargeMode := ''traffic''\<rparr> else opts)
              in (Some opts1, err))"

text \<open>
  \<open>getSessionAffinity\<close> of both load balancers reads the same annotations; \<open>None\<close> is the nil pointer. What the reading does to
  the configuration, whose cookie name and timeout are pointers, is in \<open>Session_Affinity\<close>.
\<close>

definition sessionAffinity :: "codecs \<Rightarrow> LoadBalancerOptions \<Rightarrow> service \<Rightarrow> SessionPersistence option" where
  "sessionAffinity cd globalOpts svc =
     (let sessionMode = getStringFromSvsAnnotation svc ElbSessionAffinityFlag (SessionAffinityFlag globalOpts)
      in if sessionMode = [] \<or> sessionMode = ''off'' then None
         else let persistence = SessionAffinityOption globalOpts;
                  opts = getStringFromSvsAnnotation svc ElbSessionAffinityOption []
              in if opts = [] then Some persistence
                 else Some (fst (json_session cd opts persistence)))"

subsection \<open>Validation and classification\<close>

definition ensureLoadBalancerValidation :: "service \<Rightarrow> node list \<Rightarrow> error option" where
  "ensureLoadBalancerValidation svc nodes =
     (if length nodes = 0
      then Some (Errorf (''there are no available nodes for LoadBalancer service '' @ svc_Namespace svc @ ''/'' @ svc_Name svc))
      else if length (svc_Ports svc) = 0 then Some (Errorf ''the loadbalancer service does not configure Spec.Ports'')
      else if length (svc_Selector svc) = 0
      then Some (Errorf ''the loadbalancer service does not provide Selector, services custom endpoints are not supported'')
      else None)"

definition isSupportedSvc :: "LoadBalancerOptions \<Rightarrow> service \<Rightarrow> bool" where
  "isSupportedSvc opts svs =
     (if svc_Type svs \<noteq> ''LoadBalancer'' then False
      else case svc_LoadBalancerClass svs of
        Some c \<Rightarrow> c = LoadBalancerClassName
      | None \<Rightarrow> LoadBalancerClass opts = [])"

datatype LoadBalanceVersion = VersionNotNeedLB | VersionELB | VersionShared | VersionDedicated | VersionNAT

definition getLoadBalancerVersion :: "service \<Rightarrow> error + LoadBalanceVersion" where
  "getLoadBalancerVersion svc =
     (let cls = (case svc_Annotations svc ElbClass of None \<Rightarrow> [] | Some c \<Rightarrow> c)
      in if cls = ''elasticity'' then Inr VersionELB
         else if cls = ''shared'' then Inr VersionShared
         else if cls = ''dedicated'' then Inr VersionDedicated
         else if cls = ''dnat'' then Inr VersionNAT
         else Inl (Errorf (''unknow load balancer elb.class: '' @ cls)))"

definition GetLoadBalancerName_of :: "LoadBalancerOptions \<Rightarrow> string \<Rightarrow> service \<Rightarrow> string" where
  "GetLoadBalancerName_of opts clusterName svc =
     (let cluster = (if BusinessName opts \<noteq> [] then BusinessName opts else clusterName)
      in CutString (''k8s_service_'' @ cluster @ ''_'' @ svc_Namespace svc @ ''_'' @ svc_Name svc) 255)"

lemma ensureLoadBalancerValidation_None:
  "ensureLoadBalancerValidation svc nodes = None \<longleftrightarrow> nodes \<noteq> [] \<and> svc_Ports svc \<noteq> [] \<and> svc_Selector svc \<noteq> []"
  by (simp add: ensureLoadBalancerValidation_def)

lemma timeout_opt_range: "timeout_opt svc key d = Some t \<Longrightarrow> - (2 ^ 31) \<le> t \<and> t < 2 ^ 31"
  using to_int32_range by (auto simp: timeout_opt_def Let_def split: if_splits)

end
