(* ===== verification/Basic.thy ===== *)
theory Basic
  imports Ecs Annotations
begin

text \<open>
  The struct \<open>Basic\<close> of \<open>huaweicloud.go\<close>, embedded in every load balancer: the configuration, the
  clients of the remote services (one \<open>api\<close>) and the JSON decoders; and its methods, which find the
  subnet of a node, choose the primary address and patch the status of a service.
\<close>

record 'w Basic =
  cloudConfig :: CloudConfig
  loadbalancerOpts :: LoadBalancerOptions
  networkingOpts :: NetworkingOptions
  metadataOpts :: MetadataOptions
  clients :: "'w api"
  decoders :: codecs

definition listPodsBySelector :: "'w Basic \<Rightarrow> string \<Rightarrow> (string \<times> string) list \<Rightarrow> ('w, pod list) prog" where
  "listPodsBySelector b namespace selectors = listPods (clients b) namespace selectors"

text \<open>The loop over the interfaces and their fixed addresses of both subnet lookups: the first
  address that matches gives the subnet, read through a pointer.\<close>

definition subnet_of_ip :: "InterfaceAttachment list \<Rightarrow> string \<Rightarrow> error \<Rightarrow> ('w, string) prog" where
  "subnet_of_ip interfaces ip notFound =
     bindR (foldR (\<lambda>inter found. case found of
           Some x \<Rightarrow> okR (Some x)
         | None \<Rightarrow> bindR (deref (if_FixedIps inter)) (\<lambda>fixed.
             case find (\<lambda>f. fip_IpAddress f = Some ip) fixed of
               None \<Rightarrow> okR None
             | Some f \<Rightarrow> bindR (deref (fip_SubnetId f)) (\<lambda>sid. okR (Some sid)))) interfaces None)
       (\<lambda>found. case found of Some sid \<Rightarrow> okR sid | None \<Rightarrow> errR notFound)"

definition getNodeSubnetIDByHostIP :: "'w Basic \<Rightarrow> string \<Rightarrow> ('w, string) prog" where
  "getNodeSubnetIDByHostIP b privateIP =
     bindR (GetByNodeIP (clients b) privateIP) (\<lambda>ins.
     bindR (ecs_ListInterfaces (clients b) (srv_Id ins)) (\<lambda>interfaces.
       subnet_of_ip interfaces privateIP (Errorf (''failed to get node subnet ID with private IP: '' @ privateIP))))"

definition getNodeSubnetID :: "'w Basic \<Rightarrow> node \<Rightarrow> ('w, string) prog" where
  "getNodeSubnetID b n = (case getNodeAddress n of
       Inl e \<Rightarrow> errR e
     | Inr ipAddress \<Rightarrow>
         bindR (GetByNodeName (clients b) (node_Name n)) (\<lambda>ins.
         bindR (ecs_ListInterfaces (clients b) (srv_Id ins)) (\<lambda>interfaces.
           subnet_of_ip interfaces ipAddress (Errorf ''failed to get node subnet ID''))))"

definition missing_subnet :: error where
  "missing_subnet = StatusError CodeInvalidArgument
     ''missing subnet-id, can not to read subnet-id from service or cloud-config''"

definition getSubnetID :: "'w Basic \<Rightarrow> service \<Rightarrow> node \<Rightarrow> ('w, string) prog" where
  "getSubnetID b svc n =
     (let subnetID = getStringFromSvsAnnotation svc ElbSubnetID (vpc_SubnetID (VpcOpts (cloudConfig b)))
      in if subnetID \<noteq> [] then okR subnetID
         else bindR (attempt (getNodeSubnetID b n)) (\<lambda>r.
           let sid = (case r of Inl _ \<Rightarrow> [] | Inr x \<Rightarrow> x)
           in if sid = [] then errR missing_subnet else okR sid))"

definition getPrimaryIP :: "'w Basic \<Rightarrow> string \<Rightarrow> ('w, string) prog" where
  "getPrimaryIP b ip =
     (if PrimaryNic (loadbalancerOpts b) \<noteq> ''force'' then okR ip
      else bindR (GetByNodeIPNew (clients b) ip) (\<lambda>ins.
        case find sa_Primary (concat (map snd (srv_Addresses ins))) of
          Some v \<Rightarrow> okR (sa_Addr v)
        | None \<Rightarrow> errR (StatusError CodeNotFound (''not found ECS primary network by private ip: '' @ ip))))"

text \<open>Only services of the provider's class are patched, and only when the status differs; a failed
  patch is logged.\<close>

definition updateService :: "'w Basic \<Rightarrow> service \<Rightarrow> string list option \<Rightarrow> ('w, unit) prog" where
  "updateService b svc lbStatus =
     (if svc_LoadBalancerClass svc \<noteq> Some LoadBalancerClassName then okR ()
      else bindR (deref lbStatus) (\<lambda>st.
        if svc_Ingress svc = st then okR ()
        else let req = PatchServiceStatus (svc_Namespace svc) (svc_Name svc) st
             in bindR (attempt (remote (Kube req) (\<lambda>w. kube_call (clients b) w req))) (\<lambda>_. okR ())))"

definition sendEvent :: "string \<Rightarrow> string \<Rightarrow> ('w, unit) prog" where
  "sendEvent reason msg = emit (Kube (RecordEvent reason msg))"

lemma emits_subnet_of_ip [emits_intro]: "emits (subnet_of_ip ifs ip e) S"
  unfolding subnet_of_ip_def by (intro emits_intro)

lemma emits_listPodsBySelector [emits_intro]: "KRead \<in> K \<Longrightarrow> emits (listPodsBySelector b ns sel) (kinds K)"
  unfolding listPodsBySelector_def by (intro emits_intro) simp_all

lemma emits_getNodeSubnetIDByHostIP [emits_intro]: "KRead \<in> K \<Longrightarrow> emits (getNodeSubnetIDByHostIP b ip) (kinds K)"
  unfolding getNodeSubnetIDByHostIP_def by (intro emits_intro)

lemma emits_getNodeSubnetID [emits_intro]: "KRead \<in> K \<Longrightarrow> emits (getNodeSubnetID b n) (kinds K)"
  unfolding getNodeSubnetID_def by (intro emits_intro)

lemma emits_getSubnetID [emits_intro]: "KRead \<in> K \<Longrightarrow> emits (getSubnetID b svc n) (kinds K)"
  unfolding getSubnetID_def by (intro emits_intro)

lemma emits_getPrimaryIP [emits_intro]: "KRead \<in> K \<Longrightarrow> emits (getPrimaryIP b ip) (kinds K)"
  unfolding getPrimaryIP_def by (intro emits_intro)

lemma emits_updateService [emits_intro]: "KStatus \<in> K \<Longrightarrow> emits (updateService b svc lbStatus) (kinds K)"
  unfolding updateService_def Let_def by (intro emits_intro) simp_all

lemma emits_sendEvent [emits_intro]: "KEvent \<in> K \<Longrightarrow> emits (sendEvent reason msg) (kinds K)"
  unfolding sendEvent_def by (intro emits_intro) simp_all

text \<open>A subnet found for a node is never empty.\<close>

lemma getSubnetID_nonempty: "yields (getSubnetID b svc n) (\<lambda>sid. sid \<noteq> [])"
  unfolding getSubnetID_def Let_def by (intro yields_intro) auto

lemma getPrimaryIP_default: "PrimaryNic (loadbalancerOpts b) \<noteq> ''force'' \<Longrightarrow> getPrimaryIP b ip = okR ip"
  by (simp add: getPrimaryIP_def)

end
