(* ===== verification/Eip.thy ===== *)
theory Eip
  imports Basic
begin

text \<open>
  The parts of \<open>sharedloadbalancer.go\<close> that manage elastic IPs: creation from the annotation, choosing
  and binding the address of an instance, and unbinding it when the instance goes away.
\<close>

text \<open>The messages of the source contain a full-width colon, three bytes in UTF-8.\<close>

definition rollback_prefix :: string where
  "rollback_prefix = ''rollback'' @ [CHR 0xEF, CHR 0xBC, CHR 0x9A]"

definition getEipAddress :: "Publicip \<Rightarrow> ('w, string) prog" where
  "getEipAddress eip = (case eip_PublicIpAddress eip of
       None \<Rightarrow> errR (StatusError CodeInternal ''rollback: error EIP address is empty, delete ELB instance'')
     | Some a \<Rightarrow> okR a)"

definition createEIP :: "'w Basic \<Rightarrow> service \<Rightarrow> ('w, string) prog" where
  "createEIP b svc = (case parseEIPAutoCreateOptions (decoders b) svc of
       (_, Some e) \<Rightarrow> errR e
     | (None, None) \<Rightarrow> okR []
     | (Some opts, None) \<Rightarrow>
         bindR (e_Create (clients b)
                  \<lparr>cpr_Name = svc_Namespace svc @ ''_'' @ svc_Name svc, cpr_ShareID = StringToPtr (eo_ShareID opts),
                   cpr_Size = eo_BandwidthSize opts, cpr_ShareType = trim_quotes (eo_ShareType opts),
                   cpr_ChargeMode = trim_quotes (eo_ChargeMode opts), cpr_IPType = eo_IPType opts\<rparr>) (\<lambda>p.
         bindR (deref p) (\<lambda>eip. deref (eip_Id eip))))"

text \<open>
  The first half of \<open>createOrAssociateEIP\<close>: the address to return at once (\<open>Inl\<close>), or the EIP to
  bind with the flag \<open>specifiedEip\<close> (\<open>Inr\<close>).
\<close>

definition select_eip :: "'w Basic \<Rightarrow> Loadbalancer option \<Rightarrow> service \<Rightarrow> ('w, string + string \<times> bool) prog" where
  "select_eip b ins svc =
     (let eipID = getStringFromSvsAnnotation svc ElbEipID []
      in if eipID \<noteq> [] then okR (Inr (eipID, True))
         else case parseEIPAutoCreateOptions (decoders b) svc of
             (_, Some e) \<Rightarrow> errR e
           | (None, None) \<Rightarrow> okR (Inl [])
           | (Some _, None) \<Rightarrow>
               bindR (deref ins) (\<lambda>i. case lbd_PublicIPs i of
                   ip # _ \<Rightarrow> okR (Inl (pip_Address ip))
                 | [] \<Rightarrow> bindR (attempt (createEIP b svc)) (\<lambda>r. case r of
                       Inl e \<Rightarrow> errR (StatusError CodeInternal
                                  (rollback_prefix @ ''failed to create EIP, delete ELB instance, error: '' @ err_text e))
                     | Inr eid \<Rightarrow> okR (Inr (eid, False)))))"

text \<open>A different EIP bound to the instance is unbound first; the specified one already bound is the answer.\<close>

definition replace_bound_eip :: "'w Basic \<Rightarrow> Loadbalancer option \<Rightarrow> string \<Rightarrow> bool \<Rightarrow> ('w, string option) prog" where
  "replace_bound_eip b ins eipID specifiedEip =
     (if \<not> specifiedEip then okR None
      else bindR (deref ins) (\<lambda>i. case lbd_PublicIPs i of
          [] \<Rightarrow> okR None
        | ip # _ \<Rightarrow>
            if pip_ID ip = eipID then okR (Some (pip_Address ip))
            else bindR (attempt (e_Unbind (clients b) (pip_ID ip))) (\<lambda>r. case r of
                Inl e \<Rightarrow> errR (StatusError CodeInternal
                           (rollback_prefix @ ''failed to unbind EIP from ELB instance, error: '' @ err_text e))
              | Inr _ \<Rightarrow> okR None)))"

definition bind_eip :: "'w Basic \<Rightarrow> string \<Rightarrow> string \<Rightarrow> ('w, string) prog" where
  "bind_eip b eipID vipPortId =
     bindR (attempt (e_Get (clients b) eipID)) (\<lambda>r. case r of
         Inl e \<Rightarrow> errR (StatusError CodeInternal (rollback_prefix @ ''failed to get EIP, delete ELB instance, error: '' @ err_text e))
       | Inr p \<Rightarrow>
           bindR (deref p) (\<lambda>eip.
             if eip_PortId eip = Some vipPortId then getEipAddress eip
             else bindR (e_Bind (clients b) eipID vipPortId) (\<lambda>_.
                  bindR (e_Get (clients b) eipID) (\<lambda>p2.
                  bindR (deref p2) getEipAddress))))"

definition createOrAssociateEIP :: "'w Basic \<Rightarrow> LoadbalancerResp \<Rightarrow> service \<Rightarrow> ('w, string) prog" where
  "createOrAssociateEIP b loadbalancer svc =
     bindR (attempt (s_Show (clients b) (lb_Id loadbalancer))) (\<lambda>r. case r of
         Inl e \<Rightarrow> errR (StatusError CodeInternal
                    (rollback_prefix @ ''failed to query detail of ELB instance, error: '' @ err_text e))
       | Inr ins \<Rightarrow>
           bindR (select_eip b ins svc) (\<lambda>sel. case sel of
               Inl addr \<Rightarrow> okR addr
             | Inr (eipID, specifiedEip) \<Rightarrow>
                 if eipID = [] then okR []
                 else bindR (replace_bound_eip b ins eipID specifiedEip) (\<lambda>early. case early of
                     Some addr \<Rightarrow> okR addr
                   | None \<Rightarrow> bind_eip b eipID (lb_VipPortId loadbalancer))))"

definition unbindEIP :: "'w api \<Rightarrow> string \<Rightarrow> string \<Rightarrow> bool \<Rightarrow> ('w, unit) prog" where
  "unbindEIP A vipPortID eipID keepEIP =
     bindR (if eipID = []
            then bindR (e_List A vipPortID) (\<lambda>ips. case ips of
                [] \<Rightarrow> okR None
              | ip # _ \<Rightarrow> bindR (deref (eip_Id ip)) (\<lambda>i. okR (Some i)))
            else okR (Some eipID))
       (\<lambda>target. case target of
           None \<Rightarrow> okR ()
         | Some i \<Rightarrow> bindR (e_Unbind A i) (\<lambda>_. if keepEIP then okR () else e_Delete A i))"

subsection \<open>Requests issued\<close>

lemma emits_getEipAddress [emits_intro]: "emits (getEipAddress eip) S"
  unfolding getEipAddress_def by (intro emits_intro)

lemma emits_createEIP [emits_intro]: "KEipCreate \<in> K \<Longrightarrow> emits (createEIP b svc) (kinds K)"
  unfolding createEIP_def by (intro emits_intro) simp_all

lemma emits_select_eip [emits_intro]: "KEipCreate \<in> K \<Longrightarrow> emits (select_eip b ins svc) (kinds K)"
  unfolding select_eip_def by (intro emits_intro) simp_all

lemma emits_replace_bound_eip [emits_intro]: "KEipUpdate \<in> K \<Longrightarrow> emits (replace_bound_eip b ins eid sp) (kinds K)"
  unfolding replace_bound_eip_def by (intro emits_intro) simp_all

lemma emits_bind_eip [emits_intro]: "KRead \<in> K \<Longrightarrow> KEipUpdate \<in> K \<Longrightarrow> emits (bind_eip b eid port) (kinds K)"
  unfolding bind_eip_def by (intro emits_intro) simp_all

lemma emits_createOrAssociateEIP [emits_intro]:
  "KRead \<in> K \<Longrightarrow> KEipCreate \<in> K \<Longrightarrow> KEipUpdate \<in> K \<Longrightarrow> emits (createOrAssociateEIP b lb svc) (kinds K)"
  unfolding createOrAssociateEIP_def by (intro emits_intro) simp_all

lemma emits_unbindEIP [emits_intro]:
  "KRead \<in> K \<Longrightarrow> KEipUpdate \<in> K \<Longrightarrow> (\<not> keep \<Longrightarrow> KEipDelete \<in> K) \<Longrightarrow> emits (unbindEIP A port eid keep) (kinds K)"
  unfolding unbindEIP_def by (intro emits_intro) simp_all

end
