(* ===== verification/Slices.thy ===== *)
theory Slices
  imports CCM_Prelude
begin

text \<open>
  Removal from a Go slice in place. \<open>popMember\<close> and \<open>popListener\<close> overwrite the matching element with
  the last one and shorten the slice while a \<open>range\<close> statement still runs over the slice as it was:
  the loop reads the shared backing array \<open>arr\<close> up to the original length, the assignment is checked
  against the current length \<open>n\<close>. \<open>None\<close> is the index-out-of-range panic.
\<close>

subsection \<open>The loops\<close>

text \<open>The loop without \<open>break\<close> (\<open>popMember\<close>).\<close>

fun pop_loop :: "('a \<Rightarrow> bool) \<Rightarrow> nat list \<Rightarrow> 'a list \<Rightarrow> nat \<Rightarrow> 'a list option" where
  "pop_loop p [] arr n = Some (take n arr)"
| "pop_loop p (i # is) arr n =
     (if p (arr ! i)
      then (if i < n then pop_loop p is (arr[i := arr ! (n - 1)]) (n - 1) else None)
      else pop_loop p is arr n)"

definition pop_all :: "('a \<Rightarrow> bool) \<Rightarrow> 'a list \<Rightarrow> 'a list option" where
  "pop_all p xs = pop_loop p [0..<length xs] xs (length xs)"

text \<open>The loop with \<open>break\<close> (\<open>popListener\<close>); it never panics.\<close>

fun pop_first_loop :: "('a \<Rightarrow> bool) \<Rightarrow> nat list \<Rightarrow> 'a list \<Rightarrow> 'a list" where
  "pop_first_loop p [] arr = arr"
| "pop_first_loop p (i # is) arr =
     (if p (arr ! i) then take (length arr - 1) (arr[i := arr ! (length arr - 1)]) else pop_first_loop p is arr)"

definition pop_first :: "('a \<Rightarrow> bool) \<Rightarrow> 'a list \<Rightarrow> 'a list" where
  "pop_first p xs = pop_first_loop p [0..<length xs] xs"

subsection \<open>Removal of a unique element\<close>

lemma upt_split: "i < n \<Longrightarrow> [0..<n] = [0..<i] @ i # [Suc i..<n]"
  using upt_add_eq_append [of 0 i "n - i"] upt_conv_Cons [of i n] by simp

lemma filter_mset_all: "\<forall>x\<in>set us. p x \<Longrightarrow> filter_mset p (mset us) = mset us"
  by (induction us) auto

lemma take_swap_last:
  assumes "i < length xs"
  shows "take (length xs - 1) (xs[i := xs ! (length xs - 1)]) = butlast (xs[i := last xs])"
proof -
  have "xs \<noteq> []" using assms by auto
  then show ?thesis by (simp add: last_conv_nth butlast_conv_take)
qed

lemma pop_loop_none: "(\<And>i. i \<in> set is \<Longrightarrow> \<not> p (arr ! i)) \<Longrightarrow> pop_loop p is arr n = Some (take n arr)"
  by (induction "is") auto

text \<open>With one match at \<open>i\<close>, the loop swaps once and finishes.\<close>

lemma pop_all_split:
  assumes "xs = ys @ x # zs" and "p x" and "\<forall>y\<in>set ys \<union> set zs. \<not> p y"
  shows "pop_all p xs = Some (butlast (xs[length ys := last xs]))"
proof -
  let ?i = "length ys" and ?n = "length xs"
  have idx: "[0..<?n] = [0..<?i] @ ?i # [Suc ?i..<?n]"
    by (rule upt_split) (simp add: assms(1))
  have skip: "pop_loop p ([0..<?i] @ is) xs ?n = pop_loop p is xs ?n" for "is"
  proof -
    have "\<not> p (xs ! j)" if "j < ?i" for j
      using assms(1,3) that by (simp add: nth_append)
    then have "pop_loop p (js @ is) xs ?n = pop_loop p is xs ?n" if "set js \<subseteq> {0..<?i}" for js
      using that by (induction js) auto
    from this [of "[0..<?i]"] show ?thesis by simp
  qed
  have rest: "\<not> p (xs[?i := xs ! (?n - 1)] ! j)" if "j \<in> set [Suc ?i..<?n]" for j
    using assms(1,3) that by (auto simp: nth_append nth_Cons')
  have "pop_all p xs = pop_loop p (?i # [Suc ?i..<?n]) xs ?n"
    unfolding pop_all_def by (subst idx) (rule skip)
  also have "\<dots> = pop_loop p [Suc ?i..<?n] (xs[?i := xs ! (?n - 1)]) (?n - 1)"
    using assms(1,2) by simp
  also have "\<dots> = Some (take (?n - 1) (xs[?i := xs ! (?n - 1)]))"
    by (rule pop_loop_none) (rule rest)
  also have "\<dots> = Some (butlast (xs[?i := last xs]))"
    using assms(1) by (subst take_swap_last) simp_all
  finally show ?thesis .
qed

lemma pop_first_split:
  assumes "xs = ys @ x # zs" and "p x" and "\<forall>y\<in>set ys. \<not> p y"
  shows "pop_first p xs = butlast (xs[length ys := last xs])"
proof -
  let ?i = "length ys" and ?n = "length xs"
  have idx: "[0..<?n] = [0..<?i] @ ?i # [Suc ?i..<?n]"
    by (rule upt_split) (simp add: assms(1))
  have "\<not> p (xs ! j)" if "j < ?i" for j
    using assms(1,3) that by (simp add: nth_append)
  then have "pop_first_loop p (js @ is) xs = pop_first_loop p is xs" if "set js \<subseteq> {0..<?i}" for js "is"
    using that by (induction js) auto
  from this [of "[0..<?i]"] have "pop_first p xs = pop_first_loop p (?i # [Suc ?i..<?n]) xs"
    unfolding pop_first_def by (subst idx) auto
  also have "\<dots> = take (?n - 1) (xs[?i := xs ! (?n - 1)])"
    using assms(1,2) by simp
  also have "\<dots> = butlast (xs[?i := last xs])"
    by (rule take_swap_last) (simp add: assms(1))
  finally show ?thesis .
qed

lemma pop_all_absent: "\<forall>x\<in>set xs. \<not> p x \<Longrightarrow> pop_all p xs = Some xs"
  unfolding pop_all_def by (subst pop_loop_none) auto

lemma pop_first_absent:
  assumes "\<forall>x\<in>set xs. \<not> p x"
  shows "pop_first p xs = xs"
proof -
  have "pop_first_loop p is xs = xs" if "set is \<subseteq> {0..<length xs}" for "is"
    using that assms by (induction "is") auto
  from this [of "[0..<length xs]"] show ?thesis by (auto simp: pop_first_def)
qed

text \<open>A duplicate of the last element makes \<open>popMember\<close> index past the shortened slice.\<close>

lemma pop_all_duplicate_panics:
  assumes "p x" and "p z" and "\<forall>y\<in>set ys. \<not> p y"
  shows "pop_all p (x # ys @ [z]) = None"
proof -
  let ?xs = "x # ys @ [z]" and ?n = "length ys + 2"
  have idx: "[0..<?n] = 0 # [1..<Suc (length ys)] @ [Suc (length ys)]"
    using upt_conv_Cons [of 0 ?n] by simp
  have skip: "pop_loop p (js @ is) (z # ys @ [z]) m = pop_loop p is (z # ys @ [z]) m"
    if "set js \<subseteq> {1..<Suc (length ys)}" for js "is" m
    using that assms(3)
  proof (induction js)
    case (Cons j js)
    then have "(z # ys @ [z]) ! j = ys ! (j - 1)" "j - 1 < length ys"
      by (auto simp: nth_Cons' nth_append)
    with Cons show ?case by auto
  qed simp
  have "pop_all p ?xs = pop_loop p ([1..<Suc (length ys)] @ [Suc (length ys)]) (z # ys @ [z]) (Suc (length ys))"
    unfolding pop_all_def using idx assms(1) by (simp add: nth_append)
  also have "\<dots> = pop_loop p [Suc (length ys)] (z # ys @ [z]) (Suc (length ys))"
    by (rule skip) auto
  also have "\<dots> = None" using assms(2) by simp
  finally show ?thesis .
qed

subsection \<open>The contract of the removal operations\<close>

text \<open>
  What \<open>popMember\<close> and \<open>popListener\<close> promise their callers: on a slice where at most one element has
  the key, the elements without the key are left, and nothing else.
\<close>

locale keyed_pop =
  fixes pop :: "'k \<Rightarrow> 'a list \<Rightarrow> 'a list option" and key :: "'a \<Rightarrow> 'k"
  assumes pop_unique: "length (filter (\<lambda>x. key x = k) xs) \<le> 1 \<Longrightarrow>
    \<exists>ys. pop k xs = Some ys \<and> mset ys = filter_mset (\<lambda>x. key x \<noteq> k) (mset xs)"
begin

lemma pop_distinct_keys:
  assumes "distinct (map key xs)"
  obtains ys where "pop k xs = Some ys" "mset ys = filter_mset (\<lambda>x. key x \<noteq> k) (mset xs)" "distinct (map key ys)"
proof -
  have "length (filter (\<lambda>x. key x = k) xs) \<le> 1"
  proof -
    have "distinct (map key (filter (\<lambda>x. key x = k) xs))"
      using assms by (rule distinct_map_filter)
    moreover have "set (map key (filter (\<lambda>x. key x = k) xs)) \<subseteq> {k}" by auto
    ultimately have "length (map key (filter (\<lambda>x. key x = k) xs)) \<le> card {k}"
      by (metis card_mono distinct_card finite.emptyI finite.insertI)
    then show ?thesis by simp
  qed
  then obtain ys where ys: "pop k xs = Some ys" "mset ys = filter_mset (\<lambda>x. key x \<noteq> k) (mset xs)"
    using pop_unique by blast
  moreover have "distinct (map key ys)"
  proof -
    have "mset (map key ys) = mset (map key (filter (\<lambda>x. key x \<noteq> k) xs))"
      using ys(2) by (metis mset_filter mset_map)
    then show ?thesis
      using assms mset_eq_imp_distinct_iff distinct_map_filter by metis
  qed
  ultimately show ?thesis using that by blast
qed

text \<open>Popping a sequence of keys one after the other leaves the elements with none of them.\<close>

lemma pop_sequence:
  assumes "distinct (map key xs)"
  shows "\<exists>ys. fold (\<lambda>k r. Option.bind r (pop k)) ks (Some xs) = Some ys
            \<and> mset ys = filter_mset (\<lambda>x. key x \<notin> set ks) (mset xs)"
  using assms
proof (induction ks arbitrary: xs)
  case Nil
  then show ?case by simp
next
  case (Cons k ks)
  from pop_distinct_keys [OF Cons.prems, of k] obtain ys where
    ys: "pop k xs = Some ys" "mset ys = filter_mset (\<lambda>x. key x \<noteq> k) (mset xs)" "distinct (map key ys)" .
  from Cons.IH [OF ys(3)] ys(1,2) show ?case
    by (auto simp: filter_filter_mset conj_commute)
qed

end

text \<open>At most one match: none, or a split around it.\<close>

lemma filter_le_1_cases:
  assumes "length (filter p xs) \<le> 1"
  obtains "\<forall>x\<in>set xs. \<not> p x"
    | ys x zs where "xs = ys @ x # zs" "p x" "\<forall>y\<in>set ys \<union> set zs. \<not> p y"
proof (cases "\<exists>x\<in>set xs. p x")
  case True
  from split_list_first_prop [OF this] obtain ys x zs where xs: "xs = ys @ x # zs" "p x" "\<forall>y\<in>set ys. \<not> p y"
    by blast
  then have zs: "filter p zs = []" using assms by simp
  show ?thesis
    by (rule that(2) [OF xs(1,2)]) (use xs(3) zs in \<open>auto simp: filter_empty_conv\<close>)
next
  case False
  then show ?thesis by (intro that(1)) blast
qed

lemma mset_pop:
  assumes "xs = ys @ x # zs" "p x" "\<forall>y\<in>set ys \<union> set zs. \<not> p y"
  shows "mset (butlast (xs[length ys := last xs])) = filter_mset (\<lambda>x. \<not> p x) (mset xs)"
proof -
  have "mset (butlast (xs[length ys := last xs])) = mset xs - {#x#}"
    using assms(1) by (subst mset_swap_remove) auto
  then show ?thesis
    using assms filter_mset_all [of ys "\<lambda>x. \<not> p x"] filter_mset_all [of zs "\<lambda>x. \<not> p x"] by simp
qed

interpretation pop_all: keyed_pop "\<lambda>k. pop_all (\<lambda>x. key x = k)" key for key :: "'a \<Rightarrow> 'k"
proof
  fix k and xs :: "'a list"
  assume "length (filter (\<lambda>x. key x = k) xs) \<le> 1"
  then show "\<exists>ys. pop_all (\<lambda>x. key x = k) xs = Some ys \<and> mset ys = filter_mset (\<lambda>x. key x \<noteq> k) (mset xs)"
  proof (cases rule: filter_le_1_cases)
    case 1
    then show ?thesis by (auto simp: pop_all_absent filter_mset_all)
  next
    case (2 ys x zs)
    then show ?thesis using pop_all_split [where p = "\<lambda>x. key x = k", OF 2] mset_pop [where p = "\<lambda>x. key x = k", OF 2] by auto
  qed
qed

interpretation pop_first: keyed_pop "\<lambda>k xs. Some (pop_first (\<lambda>x. key x = k) xs)" key for key :: "'a \<Rightarrow> 'k"
proof
  fix k and xs :: "'a list"
  assume "length (filter (\<lambda>x. key x = k) xs) \<le> 1"
  then show "\<exists>ys. Some (pop_first (\<lambda>x. key x = k) xs) = Some ys \<and> mset ys = filter_mset (\<lambda>x. key x \<noteq> k) (mset xs)"
  proof (cases rule: filter_le_1_cases)
    case 1
    then show ?thesis by (auto simp: pop_first_absent filter_mset_all)
  next
    case (2 ys x zs)
    then show ?thesis using pop_first_split [where p = "\<lambda>x. key x = k", OF 2(1,2)] mset_pop [where p = "\<lambda>x. key x = k", OF 2] by auto
  qed
qed

end
