(* ===== verification/Member_Sync.thy ===== *)
theory Member_Sync
  imports Basic Slices
begin

text \<open>
  The reconciliation of the members of a pool with the pods of a service. The functions
  \<open>addOrRemoveMembers\<close> of \<open>sharedloadbalancer.go\<close> and \<open>dedicatedloadbalancer.go\<close> are the same
  statements over different clients: \<open>sync_members\<close> is that text with the calls of the clients as
  arguments. The locale \<open>member_backend\<close> states what the calls promise, and its main lemma
  says which members a successful run creates and deletes; both load balancers interpret it.
\<close>

definition member_key :: "string \<Rightarrow> int \<Rightarrow> string" where
  "member_key address portNum = address @ '':'' @ int_str portNum"

definition endpoint :: "Member \<Rightarrow> string \<times> int" where
  "endpoint m = (mem_Address m, mem_ProtocolPort m)"

definition popMember :: "Member list \<Rightarrow> string \<Rightarrow> int \<Rightarrow> ('w, Member list) prog" where
  "popMember members addr port =
     (case pop_all (\<lambda>m. mem_Address m = addr \<and> mem_ProtocolPort m = port) members of
        None \<Rightarrow> panicR ''index out of range''
      | Some ms \<Rightarrow> okR ms)"

text \<open>A later node with the same name replaces an earlier one.\<close>

definition nodeNameMapping :: "node list \<Rightarrow> (string \<rightharpoonup> node)" where
  "nodeNameMapping nodes = fold (\<lambda>n m. m(node_Name n \<mapsto> n)) nodes Map.empty"

definition member_step ::
  "(node \<Rightarrow> pod \<Rightarrow> ('w, string \<times> int) prog) \<Rightarrow> (pod \<Rightarrow> node \<Rightarrow> ('w, unit) prog) \<Rightarrow> (string \<rightharpoonup> node) \<Rightarrow>
   pod \<Rightarrow> string set \<times> Member list \<Rightarrow> ('w, string set \<times> Member list) prog" where
  "member_step getMemberIP addMember nodeMap p = (\<lambda>(existsMember, members).
     if \<not> IsPodActive p then okR (existsMember, members)
     else if pod_HostIP p = [] then okR (existsMember, members)
     else case nodeMap (pod_NodeName p) of
         None \<Rightarrow> errR (Errorf (''could not find the node where the Pod resides, Pod: '' @ pod_Namespace p @ ''/'' @ pod_NodeName p))
       | Some n \<Rightarrow>
           bindR (attempt (getMemberIP n p)) (\<lambda>r. case r of
               Inl e \<Rightarrow>
                 if IsNotFound e then okR (existsMember, members)
                 else errR (Errorf (''error getting address for node '' @ node_Name n @ '': '' @ err_text e))
             | Inr (address, portNum) \<Rightarrow>
                 if member_key address portNum \<in> existsMember
                 then bindR (popMember members address portNum) (\<lambda>members'. okR (existsMember, members'))
                 else bindR (addMember p n) (\<lambda>_. okR (insert (member_key address portNum) existsMember, members))))"

definition sync_members ::
  "('w, Member list) prog \<Rightarrow> ('w, pod list) prog \<Rightarrow> (node \<Rightarrow> pod \<Rightarrow> ('w, string \<times> int) prog) \<Rightarrow>
   (pod \<Rightarrow> node \<Rightarrow> ('w, unit) prog) \<Rightarrow> (Member \<Rightarrow> ('w, unit) prog) \<Rightarrow> node list \<Rightarrow> ('w, unit) prog" where
  "sync_members listMembers podList getMemberIP addMember deleteMember nodes =
     bindR listMembers (\<lambda>members.
     bindR podList (\<lambda>pods.
     bindR (foldR (member_step getMemberIP addMember (nodeNameMapping nodes)) pods
              (set (map (\<lambda>m. member_key (mem_Address m) (mem_ProtocolPort m)) members), members)) (\<lambda>(_, rest).
       foldR (\<lambda>m _. deleteMember m) rest ())))"

subsection \<open>Facts about the pieces\<close>

lemma member_key_inject: "member_key a p = member_key a' p' \<longleftrightarrow> a = a' \<and> p = p'"
  unfolding member_key_def using addr_port_inject by auto

lemma endpoint_keys: "(\<lambda>m. member_key (mem_Address m) (mem_ProtocolPort m)) = (\<lambda>m. case_prod member_key (endpoint m))"
  by (simp add: endpoint_def fun_eq_iff)

lemma pop_endpoint_distinct:
  assumes "distinct (map endpoint ms)"
  obtains ms' where "pop_all (\<lambda>m. mem_Address m = a \<and> mem_ProtocolPort m = p) ms = Some ms'"
    "mset ms' = filter_mset (\<lambda>m. endpoint m \<noteq> (a, p)) (mset ms)" "distinct (map endpoint ms')"
proof -
  have eq: "(\<lambda>m. mem_Address m = a \<and> mem_ProtocolPort m = p) = (\<lambda>m. endpoint m = (a, p))"
    by (simp add: endpoint_def fun_eq_iff)
  obtain ms' where "pop_all (\<lambda>m. endpoint m = (a, p)) ms = Some ms'"
    "mset ms' = filter_mset (\<lambda>m. endpoint m \<noteq> (a, p)) (mset ms)" "distinct (map endpoint ms')"
    using pop_all.pop_distinct_keys [OF assms] .
  then show ?thesis by (intro that [of ms']) (simp_all add: eq)
qed

lemma emits_popMember [emits_intro]: "emits (popMember ms a p) S"
  unfolding popMember_def by (intro emits_intro)

lemma emits_member_step [emits_intro]:
  "(\<And>n p. emits (getIP n p) S) \<Longrightarrow> (\<And>n p. emits (add p n) S) \<Longrightarrow> emits (member_step getIP add nm p st) S"
  unfolding member_step_def by (intro emits_intro)

lemma emits_sync_members [emits_intro]:
  "emits lm S \<Longrightarrow> emits lp S \<Longrightarrow> (\<And>n p. emits (getIP n p) S) \<Longrightarrow> (\<And>n p. emits (add p n) S) \<Longrightarrow> (\<And>m. emits (del m) S) \<Longrightarrow>
   emits (sync_members lm lp getIP add del nodes) S"
  unfolding sync_members_def by (intro emits_intro)

text \<open>What a projection of the log sees of a computation that issues none of its events.\<close>

lemma emits_map_filter:
  assumes "emits m S" and "\<And>e. e \<in> S \<Longrightarrow> f e = None" and "m s = (r, t)"
  shows "List.map_filter f (log t) = List.map_filter f (log s)"
proof -
  obtain es where es: "log t = log s @ es" "set es \<subseteq> S" using emitsD [OF assms(1,3)] by blast
  have "List.map_filter f es = []" using es(2) assms(2)
    by (induction es) (auto simp: List.map_filter_simps)
  with es(1) show ?thesis by (simp add: List.map_filter_def)
qed

subsection \<open>The members a service wants\<close>

definition wanted :: "(node \<Rightarrow> pod \<Rightarrow> error + string \<times> int) \<Rightarrow> (string \<rightharpoonup> node) \<Rightarrow> pod \<Rightarrow> (string \<times> int) option" where
  "wanted addr_of nodeMap p =
     (if IsPodActive p \<and> pod_HostIP p \<noteq> []
      then (case nodeMap (pod_NodeName p) of None \<Rightarrow> None
            | Some n \<Rightarrow> (case addr_of n p of Inl _ \<Rightarrow> None | Inr a \<Rightarrow> Some a))
      else None)"

definition desired_members :: "(node \<Rightarrow> pod \<Rightarrow> error + string \<times> int) \<Rightarrow> node list \<Rightarrow> pod list \<Rightarrow> (string \<times> int) set" where
  "desired_members addr_of nodes pods = set (List.map_filter (wanted addr_of (nodeNameMapping nodes)) pods)"

lemma set_map_filter_snoc:
  "set (List.map_filter f (xs @ [x])) = (case f x of None \<Rightarrow> set (List.map_filter f xs) | Some y \<Rightarrow> insert y (set (List.map_filter f xs)))"
  by (auto simp: List.map_filter_def split: option.splits)

text \<open>
  The contract of a backend: with a steady address selection, reading the address of a pod is a pure
  function; adding a pod issues one creation request, for that address; deleting a member issues one
  deletion request, for that member; neither issues the other kind.
\<close>

locale member_backend =
  fixes steady :: "'env \<Rightarrow> bool"
    and addr_of :: "'env \<Rightarrow> node \<Rightarrow> pod \<Rightarrow> error + string \<times> int"
    and getIP :: "'env \<Rightarrow> node \<Rightarrow> pod \<Rightarrow> ('w, string \<times> int) prog"
    and add :: "'env \<Rightarrow> pod \<Rightarrow> node \<Rightarrow> ('w, unit) prog"
    and del :: "'env \<Rightarrow> Member \<Rightarrow> ('w, unit) prog"
    and created :: "'env \<Rightarrow> event list \<Rightarrow> (string \<times> int) list"
    and deleted :: "'env \<Rightarrow> event list \<Rightarrow> string list"
  assumes getIP_pure: "steady env \<Longrightarrow> getIP env n p = (case addr_of env n p of Inl e \<Rightarrow> errR e | Inr a \<Rightarrow> okR a)"
    and add_created: "steady env \<Longrightarrow> addr_of env n p = Inr a \<Longrightarrow> add env p n s = (Ok u, t) \<Longrightarrow>
      created env (log t) = created env (log s) @ [a] \<and> deleted env (log t) = deleted env (log s)"
    and del_deleted: "del env m s = (Ok u, t) \<Longrightarrow>
      created env (log t) = created env (log s) \<and> deleted env (log t) = deleted env (log s) @ [mem_Id m]"
begin

definition sync_inv where
  "sync_inv env nm ms s0 ys st s \<longleftrightarrow>
     (let D = set (List.map_filter (wanted (addr_of env) nm) ys) in
      fst st = case_prod member_key ` (endpoint ` set ms \<union> D)
      \<and> mset (snd st) = filter_mset (\<lambda>m. endpoint m \<notin> D) (mset ms)
      \<and> distinct (map endpoint (snd st))
      \<and> deleted env (log s) = deleted env (log s0)
      \<and> (\<exists>new. created env (log s) = created env (log s0) @ new \<and> distinct new \<and> set new = D - endpoint ` set ms))"

lemma key_in_image: "member_key a p \<in> case_prod member_key ` X \<longleftrightarrow> (a, p) \<in> X"
  by (force simp: member_key_inject)

lemma sync_inv_step:
  assumes "steady env" and inv: "sync_inv env nm ms s0 ys st s"
    and run: "member_step (getIP env) (add env) nm p st s = (Ok st', t)"
  shows "sync_inv env nm ms s0 (ys @ [p]) st' t"
proof (cases "wanted (addr_of env) nm p")
  case None
  with run have "st' = st \<and> t = s"
    by (auto simp: member_step_def wanted_def getIP_pure [OF assms(1)] run_simps split: if_splits option.splits prod.splits sum.splits)
  with inv None show ?thesis by (simp add: sync_inv_def set_map_filter_snoc)
next
  case (Some a)
  obtain ex rest where st: "st = (ex, rest)" by fastforce
  obtain addr port where a: "a = (addr, port)" by fastforce
  let ?D = "set (List.map_filter (wanted (addr_of env) nm) ys)"
  from Some obtain n where n: "nm (pod_NodeName p) = Some n" "addr_of env n p = Inr a" "IsPodActive p" "pod_HostIP p \<noteq> []"
    by (auto simp: wanted_def split: if_splits option.splits sum.splits)
  from inv st have ex: "ex = case_prod member_key ` (endpoint ` set ms \<union> ?D)"
    and rest: "mset rest = filter_mset (\<lambda>m. endpoint m \<notin> ?D) (mset ms)" and dist: "distinct (map endpoint rest)"
    and del: "deleted env (log s) = deleted env (log s0)"
    by (simp_all add: sync_inv_def Let_def)
  from inv obtain new where new: "created env (log s) = created env (log s0) @ new" "distinct new" "set new = ?D - endpoint ` set ms"
    by (auto simp: sync_inv_def Let_def)
  have D': "set (List.map_filter (wanted (addr_of env) nm) (ys @ [p])) = insert a ?D"
    using Some by (simp add: set_map_filter_snoc)
  show ?thesis
  proof (cases "a \<in> endpoint ` set ms \<union> ?D")
    case True
    then have "member_key addr port \<in> ex" by (simp add: ex key_in_image a)
    moreover obtain rest' where rest': "pop_all (\<lambda>m. mem_Address m = addr \<and> mem_ProtocolPort m = port) rest = Some rest'"
      "mset rest' = filter_mset (\<lambda>m. endpoint m \<noteq> (addr, port)) (mset rest)" "distinct (map endpoint rest')"
      using pop_endpoint_distinct [OF dist] .
    ultimately have "st' = (ex, rest')" "t = s"
      using run n a st by (auto simp: member_step_def getIP_pure [OF assms(1)] run_simps popMember_def rest'(1))
    moreover have "mset rest' = filter_mset (\<lambda>m. endpoint m \<notin> insert a ?D) (mset ms)"
      using rest'(2) rest a by (simp add: filter_filter_mset conj_commute)
    moreover have "ex = case_prod member_key ` (endpoint ` set ms \<union> insert a ?D)"
      using True ex by (auto simp: insert_absorb)
    moreover have "\<exists>new. created env (log s) = created env (log s0) @ new \<and> distinct new \<and> set new = insert a ?D - endpoint ` set ms"
      using new True by (intro exI [of _ new]) auto
    ultimately show ?thesis
      unfolding sync_inv_def D' Let_def using rest'(3) del by simp
  next
    case False
    then have "member_key addr port \<notin> ex" by (simp add: ex key_in_image a)
    with run n a st obtain u where "add env p n s = (Ok u, t)" and st': "st' = (insert (member_key addr port) ex, rest)"
      by (auto simp: member_step_def getIP_pure [OF assms(1)] run_simps split: prod.splits res.splits)
    with add_created [OF assms(1) n(2)] have t: "created env (log t) = created env (log s) @ [a]" "deleted env (log t) = deleted env (log s)"
      by auto
    have "filter_mset (\<lambda>m. endpoint m \<notin> ?D) (mset ms) = filter_mset (\<lambda>m. endpoint m \<notin> insert a ?D) (mset ms)"
      using False by (intro filter_mset_cong) auto
    moreover have "\<exists>new. created env (log t) = created env (log s0) @ new \<and> distinct new \<and> set new = insert a ?D - endpoint ` set ms"
      using new False t(1) by (intro exI [of _ "new @ [a]"]) auto
    ultimately show ?thesis
      unfolding sync_inv_def D' Let_def using st' rest dist t(2) del ex a by simp
  qed
qed

lemma delete_rest:
  "foldR (\<lambda>m _. del env m) rest () s = (Ok u, t) \<Longrightarrow>
   created env (log t) = created env (log s) \<and> deleted env (log t) = deleted env (log s) @ map mem_Id rest"
proof (induction rest arbitrary: s)
  case Nil
  then show ?case by (simp add: run_simps)
next
  case (Cons m rest)
  then obtain s' where "del env m s = (Ok (), s')" "foldR (\<lambda>m _. del env m) rest () s' = (Ok u, t)"
    by (auto elim: bindR_Ok_E)
  with Cons.IH del_deleted show ?case by fastforce
qed

text \<open>
  A successful reconciliation creates each wanted endpoint the pool lacks exactly once, and deletes
  exactly the members whose endpoint is not wanted.
\<close>

lemma sync_members_exact:
  assumes "steady env"
    and "lm s = (Ok ms, s1)" and "lp s1 = (Ok ps, s2)"
    and quiet: "created env (log s2) = created env (log s)" "deleted env (log s2) = deleted env (log s)"
    and "distinct (map endpoint ms)"
    and run: "sync_members lm lp (getIP env) (add env) (del env) nodes s = (Ok u, t)"
  shows "\<exists>new gone. created env (log t) = created env (log s) @ new \<and> distinct new
      \<and> set new = desired_members (addr_of env) nodes ps - endpoint ` set ms
      \<and> deleted env (log t) = deleted env (log s) @ gone
      \<and> mset gone = image_mset mem_Id (filter_mset (\<lambda>m. endpoint m \<notin> desired_members (addr_of env) nodes ps) (mset ms))"
proof -
  let ?nm = "nodeNameMapping nodes" and ?D = "desired_members (addr_of env) nodes ps"
  let ?init = "(set (map (\<lambda>m. member_key (mem_Address m) (mem_ProtocolPort m)) ms), ms)"
  from run assms(2,3) have "bindR (foldR (member_step (getIP env) (add env) ?nm) ps ?init)
      (\<lambda>(_, rest). foldR (\<lambda>m _. del env m) rest ()) s2 = (Ok u, t)"
    unfolding sync_members_def by (simp add: run_bindR [where s = s] run_bindR [where s = s1])
  then obtain st s3 where loop: "foldR (member_step (getIP env) (add env) ?nm) ps ?init s2 = (Ok st, s3)"
    and final: "foldR (\<lambda>m _. del env m) (snd st) () s3 = (Ok u, t)"
    by (auto elim: bindR_Ok_E)
  have "sync_inv env ?nm ms s ps st s3"
  proof (rule foldR_invariant [where I = "sync_inv env ?nm ms s", OF _ _ loop])
    show "sync_inv env ?nm ms s [] ?init s2"
      using assms(6) quiet by (simp add: sync_inv_def List.map_filter_def endpoint_keys image_image filter_mset_all)
  qed (use sync_inv_step [OF assms(1)] in blast)
  with delete_rest [OF final] show ?thesis
    unfolding sync_inv_def Let_def desired_members_def by auto
qed

end

end
