(* ===== verification/Shared_Load_Balancer.thy ===== *)
theory Shared_Load_Balancer
  imports Eip Member_Sync
begin

text \<open>
  \<open>sharedloadbalancer.go\<close>: the load balancer over shared ELB instances. The prefix \<open>slb_\<close> names the
  receiver \<open>SharedLoadBalancer\<close>; the definitions follow the order of the file from the instance down to
  the members and back up to the three entry points.
\<close>

subsection \<open>Instance\<close>

definition slb_getLoadBalancerInstance :: "'w Basic \<Rightarrow> string \<Rightarrow> service \<Rightarrow> ('w, LoadbalancerResp option) prog" where
  "slb_getLoadBalancerInstance b clusterName svc =
     (let uid = getStringFromSvsAnnotation svc ElbID []
      in if uid \<noteq> [] then s_GetInstance (clients b) uid
         else let name = GetLoadBalancerName_of (loadbalancerOpts b) clusterName svc
              in bindR (s_ListInstances (clients b) name) (\<lambda>list.
                   if length list = 0 then errR (StatusError CodeNotFound (''not found ELB instance '' @ name))
                   else if length list \<noteq> 1
                   then errR (StatusError CodeUnavailable (''error, found '' @ int_str (int (length list)) @ '' ELBs named ''
                                @ name @ '', make sure there is only one''))
                   else okR (Some (hd list))))"

definition slb_GetLoadBalancer :: "'w Basic \<Rightarrow> string \<Rightarrow> service \<Rightarrow> ('w, string list option \<times> bool) prog" where
  "slb_GetLoadBalancer b clusterName svc =
     bindR (attempt (slb_getLoadBalancerInstance b clusterName svc)) (\<lambda>r. case r of
         Inl e \<Rightarrow> if IsNotFound e then okR (None, False) else errR e
       | Inr p \<Rightarrow>
           bindR (deref p) (\<lambda>loadbalancer.
             let portID = lb_VipPortId loadbalancer in
             if portID = []
             then errR (StatusError CodeUnavailable (''The ELB '' @ GetLoadBalancerName_of (loadbalancerOpts b) clusterName svc
                          @ '' VipPortId is empty, and the instance is unavailable''))
             else bindR (attempt (e_List (clients b) portID)) (\<lambda>r2. case r2 of
                 Inl e \<Rightarrow> errR (StatusError CodeUnavailable (''error querying EIPs base on PortId ('' @ portID @ ''): '' @ err_text e))
               | Inr [] \<Rightarrow> okR (Some [lb_VipAddress loadbalancer], True)
               | Inr (ip # _) \<Rightarrow> bindR (deref (eip_PublicIpAddress ip)) (\<lambda>a. okR (Some [a], True)))))"

definition slb_createLoadbalancer :: "'w Basic \<Rightarrow> string \<Rightarrow> string \<Rightarrow> service \<Rightarrow> ('w, LoadbalancerResp option) prog" where
  "slb_createLoadbalancer b clusterName subnetID svc =
     s_CreateInstanceCompleted (clients b)
       \<lparr>clb_Name = GetLoadBalancerName_of (loadbalancerOpts b) clusterName svc,
        clb_VipSubnetId = subnetID, clb_Provider = ''vlb'',
        clb_Description = ''Created by the ELB service('' @ svc_Namespace svc @ ''/'' @ svc_Name svc
          @ '') of the k8s cluster('' @ clusterName @ '').''\<rparr>"

subsection \<open>Health check\<close>

text \<open>\<open>loadbalancer, err := WaitStatusActive(id); if err != nil { return Errorf(msg, loadbalancer.ProvisioningStatus) }\<close>:
  the message reads the captured pointer.\<close>

definition slb_wait_active :: "'w Basic \<Rightarrow> string \<Rightarrow> string \<Rightarrow> ('w, unit) prog" where
  "slb_wait_active b elbID msg =
     bindR (s_WaitStatusActive (clients b) elbID) (\<lambda>(loadbalancer, err). case err of
         None \<Rightarrow> okR ()
       | Some _ \<Rightarrow> bindR (deref loadbalancer) (\<lambda>l. errR (Errorf (msg @ lb_ProvisioningStatus l))))"

definition slb_updateHealthMonitor :: "'w Basic \<Rightarrow> string \<Rightarrow> string \<Rightarrow> HealthCheckOption \<Rightarrow> ('w, unit) prog" where
  "slb_updateHealthMonitor b uid protocol0 opts =
     (let protocol = (if protocol0 = ProtocolHTTPS \<or> protocol0 = ProtocolTerminatedHTTPS then ProtocolHTTP
                      else if protocol0 = ProtocolUDP then [] else protocol0)
      in s_UpdateHealthMonitor (clients b) uid
           \<lparr>hm_Type = (if protocol \<noteq> [] then Some protocol else None),
            hm_Timeout = hc_Timeout opts, hm_Delay = hc_Delay opts, hm_MaxRetries = hc_MaxRetries opts\<rparr>)"

definition slb_createHealthMonitor :: "'w Basic \<Rightarrow> string \<Rightarrow> string \<Rightarrow> string \<Rightarrow> HealthCheckOption \<Rightarrow> ('w, unit) prog" where
  "slb_createHealthMonitor b loadbalancerID poolID protocol0 opts =
     (let protocol = (if protocol0 = ProtocolHTTPS \<or> protocol0 = ProtocolTerminatedHTTPS then ProtocolHTTP
                      else if protocol0 = ProtocolUDP then ''UDP_CONNECT'' else protocol0)
      in bindR (attempt (s_CreateHealthMonitor (clients b) poolID
                  \<lparr>hm_Type = Some (trim_quotes protocol), hm_Timeout = hc_Timeout opts, hm_Delay = hc_Delay opts,
                   hm_MaxRetries = hc_MaxRetries opts\<rparr>)) (\<lambda>r. case r of
             Inl e \<Rightarrow> errR (Errorf (''error creating SharedLoadBalancer pool health monitor: '' @ err_text e))
           | Inr _ \<Rightarrow> slb_wait_active b loadbalancerID
               ''timeout when waiting for loadbalancer to be ACTIVE after creating member, current provisioning status ''))"

definition slb_ensureHealthCheck :: "'w Basic \<Rightarrow> string \<Rightarrow> Pool \<Rightarrow> service_port \<Rightarrow> service \<Rightarrow> ('w, unit) prog" where
  "slb_ensureHealthCheck b loadbalancerID pool port svc =
     (let healthCheckOpts = getHealthCheckOptionFromAnnotation (decoders b) svc (loadbalancerOpts b);
          monitorID = pool_HealthmonitorId pool;
          protocolStr = parseProtocol svc port
      in if monitorID = [] \<and> hc_Enable healthCheckOpts
         then slb_createHealthMonitor b loadbalancerID (pool_Id pool) protocolStr healthCheckOpts
         else if monitorID \<noteq> [] \<and> hc_Enable healthCheckOpts
         then slb_updateHealthMonitor b monitorID protocolStr healthCheckOpts
         else if monitorID \<noteq> [] \<and> \<not> hc_Enable healthCheckOpts
         then bindR (attempt (s_DeleteHealthMonitor (clients b) monitorID)) (\<lambda>r. case r of
                Inl e \<Rightarrow> errR (Errorf (''failed to delete health monitor '' @ monitorID @ '' for pool '' @ pool_Id pool
                            @ '', error: '' @ err_text e))
              | Inr _ \<Rightarrow> okR ())
         else okR ())"

subsection \<open>Members\<close>

definition slb_getMemberIP :: "'w Basic \<Rightarrow> service \<Rightarrow> node \<Rightarrow> pod \<Rightarrow> service_port \<Rightarrow> ('w, string \<times> int) prog" where
  "slb_getMemberIP b svc n p svcPort = (case svc_AllocateLoadBalancerNodePorts svc of
       Some True \<Rightarrow>
         bindR (if pod_HostIP p \<noteq> [] then okR (pod_HostIP p)
                else case getNodeAddress n of Inl e \<Rightarrow> errR e | Inr addr \<Rightarrow> okR addr) (\<lambda>address.
         bindR (getPrimaryIP b address) (\<lambda>address'. okR (address', port_NodePort svcPort)))
     | Some False \<Rightarrow> (case port_TargetPort svcPort of
           IntVal i \<Rightarrow> okR (pod_PodIP p, i)
         | StrVal nm \<Rightarrow>
             (case find (\<lambda>c. cp_Name c = nm \<and> cp_Protocol c = port_Protocol svcPort) (concat (pod_Containers p)) of
                Some c \<Rightarrow> okR (pod_PodIP p, cp_ContainerPort c)
              | None \<Rightarrow> errR (Errorf ''not found member IP and port'')))
     | None \<Rightarrow> errR (Errorf ''not found member IP and port''))"

definition slb_addMember :: "'w Basic \<Rightarrow> service \<Rightarrow> string \<Rightarrow> string \<Rightarrow> service_port \<Rightarrow> pod \<Rightarrow> node \<Rightarrow> ('w, unit) prog" where
  "slb_addMember b svc elbID poolID svcPort p n =
     bindR (slb_getMemberIP b svc n p svcPort) (\<lambda>(address, port).
     bindR (getNodeSubnetIDByHostIP b address) (\<lambda>subnetID.
     bindR (attempt (s_AddMember (clients b) poolID
              \<lparr>cm_Name = None, cm_ProtocolPort = port, cm_SubnetId = Some subnetID, cm_Address = address\<rparr>)) (\<lambda>r. case r of
         Inl e \<Rightarrow> errR (Errorf (''error creating SharedLoadBalancer pool member for node: '' @ node_Name n @ '', '' @ err_text e))
       | Inr _ \<Rightarrow> slb_wait_active b elbID
           ''timeout when waiting for loadbalancer to be ACTIVE after adding members, current status '')))"

definition slb_deleteMember :: "'w Basic \<Rightarrow> string \<Rightarrow> string \<Rightarrow> Member \<Rightarrow> ('w, unit) prog" where
  "slb_deleteMember b elbID poolID member =
     bindR (attempt (s_DeleteMember (clients b) poolID (mem_Id member))) (\<lambda>r.
       let wait = slb_wait_active b elbID
             ''timeout when waiting for loadbalancer to be ACTIVE after creating member, current provisioning status '' in
       case r of
         Inl e \<Rightarrow> if IsNotFound e then wait
                  else errR (Errorf (''error deleting obsolete member '' @ poolID @ '' for pool '' @ mem_Id member
                               @ '' address '' @ mem_Address member @ '': '' @ err_text e))
       | Inr _ \<Rightarrow> wait)"

definition slb_addOrRemoveMembers ::
  "'w Basic \<Rightarrow> LoadbalancerResp \<Rightarrow> service \<Rightarrow> Pool \<Rightarrow> service_port \<Rightarrow> node list \<Rightarrow> ('w, unit) prog" where
  "slb_addOrRemoveMembers b loadbalancer svc pool svcPort nodes =
     sync_members (s_ListMembers (clients b) (pool_Id pool))
       (listPodsBySelector b (svc_Namespace svc) (svc_Selector svc))
       (\<lambda>n p. slb_getMemberIP b svc n p svcPort)
       (\<lambda>p n. slb_addMember b svc (lb_Id loadbalancer) (pool_Id pool) svcPort p n)
       (slb_deleteMember b (lb_Id loadbalancer) (pool_Id pool)) nodes"

subsection \<open>Pools\<close>

definition slb_getPool :: "'w Basic \<Rightarrow> string \<Rightarrow> string \<Rightarrow> ('w, Pool) prog" where
  "slb_getPool b elbID listenerID =
     bindR (s_ListPools (clients b) elbID) (\<lambda>pools.
       case find (\<lambda>p. listenerID \<in> set (pool_Listeners p)) pools of
         Some p \<Rightarrow> okR p
       | None \<Rightarrow> errR (StatusError CodeNotFound
                    (''not found pool matched ListenerId: '' @ listenerID @ '', ELB ID: '' @ elbID)))"

definition slb_createPool :: "'w Basic \<Rightarrow> ListenerResp \<Rightarrow> service \<Rightarrow> ('w, Pool option) prog" where
  "slb_createPool b listener svc =
     (let lbAlgorithm = getStringFromSvsAnnotation svc ElbAlgorithm (LBAlgorithm (loadbalancerOpts b));
          persistence = (case sessionAffinity (decoders b) (loadbalancerOpts b) svc of
              None \<Rightarrow> None
            | Some p \<Rightarrow> Some (if sp_Type p \<noteq> ''APP_COOKIE'' then p\<lparr>sp_CookieName := None\<rparr> else p\<lparr>sp_PersistenceTimeout := None\<rparr>));
          protocolStr = (if li_Protocol listener = ProtocolHTTPS \<or> li_Protocol listener = ProtocolTerminatedHTTPS
                         then ProtocolHTTP else li_Protocol listener)
      in s_CreatePool (clients b)
           \<lparr>cpl_Name = CutString (''sg_'' @ li_Name listener) 64, cpl_Protocol = trim_quotes protocolStr,
            cpl_LbAlgorithm = lbAlgorithm, cpl_ListenerId = li_Id listener, cpl_SessionPersistence = persistence\<rparr>)"

definition slb_ensurePoolAlgorithm :: "'w Basic \<Rightarrow> Pool \<Rightarrow> service \<Rightarrow> ('w, unit) prog" where
  "slb_ensurePoolAlgorithm b pool svc =
     (let desiredAlgorithm = getStringFromSvsAnnotation svc ElbAlgorithm (LBAlgorithm (loadbalancerOpts b))
      in if desiredAlgorithm = [] then okR ()
         else if pool_LbAlgorithm pool = desiredAlgorithm then okR ()
         else s_UpdatePool (clients b) (pool_Id pool) desiredAlgorithm)"

text \<open>The errors of the three deletions, in order; an absent monitor or pool is no error.\<close>

definition slb_deletePool :: "'w Basic \<Rightarrow> Pool \<Rightarrow> ('w, error list) prog" where
  "slb_deletePool b pool =
     bindR (attempt (s_DeleteAllPoolMembers (clients b) (pool_Id pool))) (\<lambda>r1.
     bindR (attempt (s_DeleteHealthMonitor (clients b) (pool_HealthmonitorId pool))) (\<lambda>r2.
     bindR (attempt (s_DeletePool (clients b) (pool_Id pool))) (\<lambda>r3.
       okR ((case r1 of Inl e \<Rightarrow> [e] | Inr _ \<Rightarrow> [])
            @ (case r2 of Inl e \<Rightarrow> if IsNotFound e then [] else [e] | Inr _ \<Rightarrow> [])
            @ (case r3 of Inl e \<Rightarrow> if IsNotFound e then [] else [e] | Inr _ \<Rightarrow> [])))))"

subsection \<open>Listeners\<close>

definition slb_deleteListeners :: "'w Basic \<Rightarrow> string \<Rightarrow> ListenerResp list \<Rightarrow> ('w, unit) prog" where
  "slb_deleteListeners b elbID listeners =
     bindR (foldR (\<lambda>lis errs.
         let del = (\<lambda>errs. bindR (attempt (s_DeleteListener (clients b) elbID (li_Id lis))) (\<lambda>r. case r of
               Inl e \<Rightarrow> if IsNotFound e then okR errs
                        else okR (errs @ [Errorf (''failed to delete ELB listener '' @ li_Id lis @ '' : '' @ err_text e @ '' '')])
             | Inr _ \<Rightarrow> okR errs)) in
         bindR (attempt (slb_getPool b elbID (li_Id lis))) (\<lambda>r. case r of
             Inl e \<Rightarrow> if IsNotFound e then del errs else okR (errs @ [e])
           | Inr pool \<Rightarrow> bindR (slb_deletePool b pool) (\<lambda>delErrs. del (errs @ delErrs)))) listeners [])
       (\<lambda>errs. if length errs \<noteq> 0 then errR (Errorf (''failed to delete listeners: '' @ err_text (Aggregate errs))) else okR ())"

definition convertToListenerV2 :: "Listener \<Rightarrow> ('w, ListenerResp) prog" where
  "convertToListenerV2 listener =
     bindR (foldR (\<lambda>p acc. bindR (deref p) (\<lambda>x. okR (acc @ [x]))) (l3_Loadbalancers listener) []) (\<lambda>loadBalancers.
     bindR (foldR (\<lambda>(k, v) acc. bindR (deref k) (\<lambda>key.
              okR (acc @ [key @ ''='' @ (case v of None \<Rightarrow> [] | Some x \<Rightarrow> x)]))) (l3_Tags listener) []) (\<lambda>tags.
     bindR (deref (l3_InsertHeaders listener)) (\<lambda>headers.
       okR \<lparr>li_Id = l3_Id listener, li_TenantId = [], li_Name = l3_Name listener, li_Description = l3_Description listener,
            li_AdminStateUp = l3_AdminStateUp listener, li_Loadbalancers = loadBalancers,
            li_ConnectionLimit = l3_ConnectionLimit listener, li_Http2Enable = l3_Http2Enable listener,
            li_Protocol = trim_quotes (l3_Protocol listener), li_ProtocolPort = l3_ProtocolPort listener,
            li_DefaultPoolId = l3_DefaultPoolId listener, li_DefaultTlsContainerRef = l3_DefaultTlsContainerRef listener,
            li_ClientCaTlsContainerRef = l3_ClientCaTlsContainerRef listener, li_SniContainerRefs = l3_SniContainerRefs listener,
            li_Tags = tags, li_CreatedAt = l3_CreatedAt listener, li_UpdatedAt = l3_UpdatedAt listener,
            li_InsertHeaders = Some \<lparr>ih_XForwardedELBIP = ih_XForwardedELBIP headers, ih_XForwardedHost = ih_XForwardedHost headers\<rparr>,
            li_ProjectId = l3_ProjectId listener, li_TlsCiphersPolicy = l3_TlsCiphersPolicy listener\<rparr>)))"

definition slb_listener_option :: "LoadBalancerOptions \<Rightarrow> string \<Rightarrow> service \<Rightarrow> service_port \<Rightarrow> CreateListenerOption" where
  "slb_listener_option opts loadbalancerID svc port =
     (let xForwardFor = getBoolFromSvsAnnotation svc ElbXForwardedHost False;
          protocol0 = parseProtocol svc port;
          protocol = (if protocol0 = ProtocolTerminatedHTTPS then protocol0 else if xForwardFor then ProtocolHTTP else protocol0);
          http = (protocol = ProtocolHTTP \<or> protocol = ProtocolTerminatedHTTPS)
      in \<lparr>co_Name = CutString (svc_Name svc @ ''_'' @ protocol @ ''_'' @ int_str (port_Port port)) 255,
          co_LoadbalancerId = loadbalancerID, co_Protocol = protocol, co_ProtocolPort = port_Port port,
          co_XForwardedHost = xForwardFor,
          co_DefaultTlsContainerRef = (if protocol0 = ProtocolTerminatedHTTPS
             then Some (getStringFromSvsAnnotation svc DefaultTLSContainerRef []) else None),
          co_KeepaliveTimeout = timeout_opt svc ElbIdleTimeout (IdleTimeout opts),
          co_ClientTimeout = (if http then timeout_opt svc ElbRequestTimeout (RequestTimeout opts) else None),
          co_MemberTimeout = (if http then timeout_opt svc ElbResponseTimeout (ResponseTimeout opts) else None),
          co_TransparentClientIpEnable = (if protocol = ProtocolTCP \<or> protocol = ProtocolUDP
             then Some (getBoolFromSvsAnnotation svc ElbEnableTransparentClientIP (EnableTransparentClientIP opts)) else None)\<rparr>)"

definition slb_createListener :: "'w Basic \<Rightarrow> string \<Rightarrow> service \<Rightarrow> service_port \<Rightarrow> ('w, ListenerResp) prog" where
  "slb_createListener b loadbalancerID svc port =
     bindR (attempt (d_CreateListener (clients b) (slb_listener_option (loadbalancerOpts b) loadbalancerID svc port))) (\<lambda>r. case r of
         Inl e \<Rightarrow> errR (StatusError CodeInternal (''Failed to create listener for loadbalancer '' @ loadbalancerID @ '': '' @ err_text e))
       | Inr p \<Rightarrow> bindR (deref p) convertToListenerV2)"

definition slb_updateListener :: "'w Basic \<Rightarrow> ListenerResp \<Rightarrow> service \<Rightarrow> ('w, unit) prog" where
  "slb_updateListener b listener svc =
     (let opts = loadbalancerOpts b; protocol = li_Protocol listener;
          http = (protocol = ProtocolHTTP \<or> protocol = ProtocolTerminatedHTTPS)
      in d_UpdateListener (clients b) (li_Id listener)
           \<lparr>uo_Name = CutString (svc_Name svc @ ''_'' @ protocol @ ''_'' @ int_str (li_ProtocolPort listener)) 255,
            uo_XForwardedHost = Some (getBoolFromSvsAnnotation svc ElbXForwardedHost False),
            uo_DefaultTlsContainerRef = None,
            uo_KeepaliveTimeout = timeout_opt svc ElbIdleTimeout (IdleTimeout opts),
            uo_ClientTimeout = (if http then timeout_opt svc ElbRequestTimeout (RequestTimeout opts) else None),
            uo_MemberTimeout = (if http then timeout_opt svc ElbResponseTimeout (ResponseTimeout opts) else None),
            uo_TransparentClientIpEnable = (if protocol = ProtocolTCP \<or> protocol = ProtocolUDP
               then Some (getBoolFromSvsAnnotation svc ElbEnableTransparentClientIP (EnableTransparentClientIP opts)) else None)\<rparr>)"

definition slb_filterListenerByPort :: "ListenerResp list \<Rightarrow> service \<Rightarrow> service_port \<Rightarrow> ListenerResp option" where
  "slb_filterListenerByPort listeners svc port =
     (let protocol = parseProtocol svc port
      in find (\<lambda>l. li_Protocol l = protocol \<and> li_ProtocolPort l = port_Port port) listeners)"

definition slb_popListener :: "ListenerResp list \<Rightarrow> string \<Rightarrow> ListenerResp list" where
  "slb_popListener arr uid = pop_first (\<lambda>lis. li_Id lis = uid) arr"

subsection \<open>Deletion\<close>

definition slb_deleteListener :: "'w Basic \<Rightarrow> LoadbalancerResp \<Rightarrow> service \<Rightarrow> ('w, unit) prog" where
  "slb_deleteListener b loadBalancer svc =
     bindR (s_ListListeners (clients b) (lb_Id loadBalancer)) (\<lambda>listenerArr.
       slb_deleteListeners b (lb_Id loadBalancer)
         (List.map_filter (slb_filterListenerByPort listenerArr svc) (svc_Ports svc)))"

definition slb_deleteELBInstance :: "'w Basic \<Rightarrow> LoadbalancerResp \<Rightarrow> service \<Rightarrow> ('w, unit) prog" where
  "slb_deleteELBInstance b loadBalancer svc =
     bindR (s_ListListeners (clients b) (lb_Id loadBalancer)) (\<lambda>listenerArr.
     bindR (slb_deleteListeners b (lb_Id loadBalancer) listenerArr) (\<lambda>_.
     bindR (unbindEIP (clients b) (lb_VipPortId loadBalancer) (getStringFromSvsAnnotation svc ElbEipID [])
              (getBoolFromSvsAnnotation svc ELBKeepEip (KeepEIP (loadbalancerOpts b)))) (\<lambda>_.
       s_DeleteInstance (clients b) (lb_Id loadBalancer))))"

definition slb_EnsureLoadBalancerDeleted :: "'w Basic \<Rightarrow> string \<Rightarrow> service \<Rightarrow> ('w, unit) prog" where
  "slb_EnsureLoadBalancerDeleted b clusterName svc =
     bindR (attempt (slb_getLoadBalancerInstance b clusterName svc)) (\<lambda>r. case r of
         Inl e \<Rightarrow> if IsNotFound e then okR () else errR e
       | Inr p \<Rightarrow> bindR (deref p) (\<lambda>loadBalancer.
           if getStringFromSvsAnnotation svc ElbID [] \<noteq> [] then slb_deleteListener b loadBalancer svc
           else slb_deleteELBInstance b loadBalancer svc))"

subsection \<open>EnsureLoadBalancer and UpdateLoadBalancer\<close>

text \<open>\<open>getPool\<close>, and \<open>createPool\<close> when there is none.\<close>

definition slb_getOrCreatePool :: "'w Basic \<Rightarrow> string \<Rightarrow> ListenerResp \<Rightarrow> service \<Rightarrow> ('w, Pool) prog" where
  "slb_getOrCreatePool b elbID listener svc =
     bindR (attempt (slb_getPool b elbID (li_Id listener))) (\<lambda>r. case r of
         Inr pool \<Rightarrow> okR pool
       | Inl e \<Rightarrow> if IsNotFound e then bindR (slb_createPool b listener svc) deref else errR e)"

text \<open>The argument \<open>nodes[0]\<close> of the call, which panics on an empty slice.\<close>

definition slb_health_with_first_node ::
  "'w Basic \<Rightarrow> string \<Rightarrow> Pool \<Rightarrow> service_port \<Rightarrow> service \<Rightarrow> node list \<Rightarrow> ('w, unit) prog" where
  "slb_health_with_first_node b elbID pool port svc nodes = (case nodes of
       [] \<Rightarrow> panicR ''index out of range''
     | _ # _ \<Rightarrow> slb_ensureHealthCheck b elbID pool port svc)"

definition slb_ensure_port ::
  "'w Basic \<Rightarrow> LoadbalancerResp \<Rightarrow> service \<Rightarrow> node list \<Rightarrow> service_port \<Rightarrow> ListenerResp list \<Rightarrow> ('w, ListenerResp list) prog" where
  "slb_ensure_port b loadbalancer svc nodes port listeners =
     bindR (case slb_filterListenerByPort listeners svc port of
              None \<Rightarrow> slb_createListener b (lb_Id loadbalancer) svc port
            | Some listener \<Rightarrow> bindR (slb_updateListener b listener svc) (\<lambda>_. okR listener)) (\<lambda>listener.
     bindR (slb_getOrCreatePool b (lb_Id loadbalancer) listener svc) (\<lambda>pool.
     bindR (slb_ensurePoolAlgorithm b pool svc) (\<lambda>_.
     bindR (slb_addOrRemoveMembers b loadbalancer svc pool port nodes) (\<lambda>_.
     bindR (slb_health_with_first_node b (lb_Id loadbalancer) pool port svc nodes) (\<lambda>_.
       okR (slb_popListener listeners (li_Id listener)))))))"

text \<open>The instance to work on: the existing one, or a new one when the service names none.\<close>

definition slb_ensure_instance :: "'w Basic \<Rightarrow> string \<Rightarrow> service \<Rightarrow> ('w, LoadbalancerResp) prog" where
  "slb_ensure_instance b clusterName svc =
     bindR (attempt (slb_getLoadBalancerInstance b clusterName svc)) (\<lambda>r.
       let specifiedID = getStringFromSvsAnnotation svc ElbID [] in
       case r of
         Inr p \<Rightarrow> deref p
       | Inl e \<Rightarrow>
           if IsNotFound e \<and> specifiedID \<noteq> [] then errR e
           else if IsNotFound e
           then (let subnetID = getStringFromSvsAnnotation svc ElbSubnetID (vpc_SubnetID (VpcOpts (cloudConfig b)))
                 in if subnetID = [] then errR missing_subnet
                    else bindR (slb_createLoadbalancer b clusterName subnetID svc) deref)
           else errR e)"

definition slb_EnsureLoadBalancer :: "'w Basic \<Rightarrow> string \<Rightarrow> service \<Rightarrow> node list \<Rightarrow> ('w, string list) prog" where
  "slb_EnsureLoadBalancer b clusterName svc nodes =
     (if \<not> isSupportedSvc (loadbalancerOpts b) svc then errR ImplementedElsewhere
      else case ensureLoadBalancerValidation svc nodes of
        Some e \<Rightarrow> errR e
      | None \<Rightarrow>
          bindR (slb_ensure_instance b clusterName svc) (\<lambda>loadbalancer.
          bindR (s_ListListeners (clients b) (lb_Id loadbalancer)) (\<lambda>listeners0.
          bindR (foldR (slb_ensure_port b loadbalancer svc nodes) (svc_Ports svc) listeners0) (\<lambda>listeners.
          bindR (if getStringFromSvsAnnotation svc ElbID [] = []
                 then slb_deleteListeners b (lb_Id loadbalancer) listeners else okR ()) (\<lambda>_.
          bindR (attempt (createOrAssociateEIP b loadbalancer svc)) (\<lambda>r. case r of
              Inr publicIPAddr \<Rightarrow> okR [if publicIPAddr \<noteq> [] then publicIPAddr else lb_VipAddress loadbalancer]
            | Inl e \<Rightarrow> bindR (attempt (slb_EnsureLoadBalancerDeleted b clusterName svc)) (\<lambda>r2.
                errR (Aggregate (e # (case r2 of Inl e2 \<Rightarrow> [e2] | Inr _ \<Rightarrow> [])))))))))) "

definition slb_update_port ::
  "'w Basic \<Rightarrow> LoadbalancerResp \<Rightarrow> service \<Rightarrow> node list \<Rightarrow> ListenerResp list \<Rightarrow> service_port \<Rightarrow> unit \<Rightarrow> ('w, unit) prog" where
  "slb_update_port b loadbalancer svc nodes listeners port = (\<lambda>_.
     case slb_filterListenerByPort listeners svc port of
       None \<Rightarrow> errR (StatusError CodeUnavailable (''error, can not find a listener matching '' @ port_Protocol port
                 @ '':'' @ int_str (port_Port port)))
     | Some listener \<Rightarrow>
         bindR (slb_getOrCreatePool b (lb_Id loadbalancer) listener svc) (\<lambda>pool.
         bindR (slb_addOrRemoveMembers b loadbalancer svc pool port nodes) (\<lambda>_.
           slb_health_with_first_node b (lb_Id loadbalancer) pool port svc nodes)))"

definition slb_UpdateLoadBalancer :: "'w Basic \<Rightarrow> string \<Rightarrow> service \<Rightarrow> node list \<Rightarrow> ('w, unit) prog" where
  "slb_UpdateLoadBalancer b clusterName svc nodes =
     (if \<not> isSupportedSvc (loadbalancerOpts b) svc then errR ImplementedElsewhere
      else bindR (slb_getLoadBalancerInstance b clusterName svc) (\<lambda>p.
           bindR (deref p) (\<lambda>loadbalancer.
           bindR (s_ListListeners (clients b) (lb_Id loadbalancer)) (\<lambda>listeners.
             foldR (slb_update_port b loadbalancer svc nodes listeners) (svc_Ports svc) ()))))"

subsection \<open>Requests issued\<close>

lemma emits_slb_getLoadBalancerInstance [emits_intro]:
  "KRead \<in> K \<Longrightarrow> emits (slb_getLoadBalancerInstance b c svc) (kinds K)"
  unfolding slb_getLoadBalancerInstance_def by (intro emits_intro) simp_all

lemma emits_slb_GetLoadBalancer [emits_intro]:
  "KRead \<in> K \<Longrightarrow> emits (slb_GetLoadBalancer b c svc) (kinds K)"
  unfolding slb_GetLoadBalancer_def Let_def by (intro emits_intro) simp_all

lemma emits_slb_createLoadbalancer [emits_intro]:
  "KRead \<in> K \<Longrightarrow> KInstanceCreate \<in> K \<Longrightarrow> emits (slb_createLoadbalancer b c sid svc) (kinds K)"
  unfolding slb_createLoadbalancer_def by (intro emits_intro) simp_all

lemma emits_slb_wait_active [emits_intro]:
  "KRead \<in> K \<Longrightarrow> emits (slb_wait_active b uid msg) (kinds K)"
  unfolding slb_wait_active_def by (intro emits_intro) simp_all

lemma emits_slb_updateHealthMonitor [emits_intro]:
  "KMonitor \<in> K \<Longrightarrow> emits (slb_updateHealthMonitor b uid p opts) (kinds K)"
  unfolding slb_updateHealthMonitor_def by (intro emits_intro) simp_all

lemma emits_slb_createHealthMonitor [emits_intro]:
  "KRead \<in> K \<Longrightarrow> KMonitor \<in> K \<Longrightarrow> emits (slb_createHealthMonitor b lid pid p opts) (kinds K)"
  unfolding slb_createHealthMonitor_def by (intro emits_intro) simp_all

lemma emits_slb_ensureHealthCheck [emits_intro]:
  "KRead \<in> K \<Longrightarrow> KMonitor \<in> K \<Longrightarrow> emits (slb_ensureHealthCheck b lid pool port svc) (kinds K)"
  unfolding slb_ensureHealthCheck_def by (intro emits_intro) simp_all

lemma emits_slb_getMemberIP [emits_intro]:
  "KRead \<in> K \<Longrightarrow> emits (slb_getMemberIP b svc n p port) (kinds K)"
  unfolding slb_getMemberIP_def
  by (auto intro!: emits_intro split: option.splits bool.splits intstr.splits sum.splits)

lemma emits_slb_addMember [emits_intro]:
  "KRead \<in> K \<Longrightarrow> KMember \<in> K \<Longrightarrow> emits (slb_addMember b svc eid pid port p n) (kinds K)"
  unfolding slb_addMember_def by (intro emits_intro) simp_all

lemma emits_slb_deleteMember [emits_intro]:
  "KRead \<in> K \<Longrightarrow> KMember \<in> K \<Longrightarrow> emits (slb_deleteMember b eid pid m) (kinds K)"
  unfolding slb_deleteMember_def by (intro emits_intro) simp_all

lemma emits_slb_addOrRemoveMembers [emits_intro]:
  "KRead \<in> K \<Longrightarrow> KMember \<in> K \<Longrightarrow> emits (slb_addOrRemoveMembers b lb svc pool port nodes) (kinds K)"
  unfolding slb_addOrRemoveMembers_def by (intro emits_intro) simp_all

lemma emits_slb_getPool [emits_intro]:
  "KRead \<in> K \<Longrightarrow> emits (slb_getPool b eid lid) (kinds K)"
  unfolding slb_getPool_def by (intro emits_intro) simp_all

lemma emits_slb_createPool [emits_intro]:
  "KPool \<in> K \<Longrightarrow> emits (slb_createPool b l svc) (kinds K)"
  unfolding slb_createPool_def Let_def by (intro emits_intro) simp_all

lemma emits_slb_ensurePoolAlgorithm [emits_intro]:
  "KPool \<in> K \<Longrightarrow> emits (slb_ensurePoolAlgorithm b pool svc) (kinds K)"
  unfolding slb_ensurePoolAlgorithm_def by (intro emits_intro) simp_all

lemma emits_slb_deletePool [emits_intro]:
  "KRead \<in> K \<Longrightarrow> KMember \<in> K \<Longrightarrow> KMonitor \<in> K \<Longrightarrow> KPool \<in> K \<Longrightarrow> emits (slb_deletePool b pool) (kinds K)"
  unfolding slb_deletePool_def by (intro emits_intro) simp_all

lemma emits_slb_deleteListeners [emits_intro]:
  "KRead \<in> K \<Longrightarrow> KMember \<in> K \<Longrightarrow> KMonitor \<in> K \<Longrightarrow> KPool \<in> K \<Longrightarrow> KListener \<in> K \<Longrightarrow> emits (slb_deleteListeners b eid ls) (kinds K)"
  unfolding slb_deleteListeners_def by (intro emits_intro) simp_all

lemma emits_convertToListenerV2 [emits_intro]: "emits (convertToListenerV2 l) S"
  unfolding convertToListenerV2_def by (auto intro!: emits_intro split: prod.splits)

lemma emits_slb_createListener [emits_intro]:
  "KListener \<in> K \<Longrightarrow> emits (slb_createListener b eid svc port) (kinds K)"
  unfolding slb_createListener_def by (intro emits_intro) simp_all

lemma emits_slb_updateListener [emits_intro]:
  "KListener \<in> K \<Longrightarrow> emits (slb_updateListener b l svc) (kinds K)"
  unfolding slb_updateListener_def Let_def by (intro emits_intro) simp_all

lemma emits_slb_deleteListener [emits_intro]:
  "KRead \<in> K \<Longrightarrow> KMember \<in> K \<Longrightarrow> KMonitor \<in> K \<Longrightarrow> KPool \<in> K \<Longrightarrow> KListener \<in> K \<Longrightarrow> emits (slb_deleteListener b lb svc) (kinds K)"
  unfolding slb_deleteListener_def by (intro emits_intro) simp_all

lemma emits_slb_deleteELBInstance [emits_intro]:
  "KRead \<in> K \<Longrightarrow> KMember \<in> K \<Longrightarrow> KMonitor \<in> K \<Longrightarrow> KPool \<in> K \<Longrightarrow> KListener \<in> K \<Longrightarrow> KEipUpdate \<in> K \<Longrightarrow> (\<not> getBoolFromSvsAnnotation svc ELBKeepEip (KeepEIP (loadbalancerOpts b)) \<Longrightarrow> KEipDelete \<in> K) \<Longrightarrow> KInstanceDelete \<in> K \<Longrightarrow> emits (slb_deleteELBInstance b lb svc) (kinds K)"
  unfolding slb_deleteELBInstance_def by (intro emits_intro) simp_all

lemma emits_slb_EnsureLoadBalancerDeleted [emits_intro]:
  "KRead \<in> K \<Longrightarrow> KMember \<in> K \<Longrightarrow> KMonitor \<in> K \<Longrightarrow> KPool \<in> K \<Longrightarrow> KListener \<in> K \<Longrightarrow> (getStringFromSvsAnnotation svc ElbID [] = [] \<Longrightarrow> KInstanceDelete \<in> K \<and> KEipUpdate \<in> K) \<Longrightarrow> (getStringFromSvsAnnotation svc ElbID [] = [] \<Longrightarrow> \<not> getBoolFromSvsAnnotation svc ELBKeepEip (KeepEIP (loadbalancerOpts b)) \<Longrightarrow> KEipDelete \<in> K) \<Longrightarrow> emits (slb_EnsureLoadBalancerDeleted b c svc) (kinds K)"
  unfolding slb_EnsureLoadBalancerDeleted_def by (intro emits_intro) simp_all

lemma emits_slb_getOrCreatePool [emits_intro]:
  "KRead \<in> K \<Longrightarrow> KPool \<in> K \<Longrightarrow> emits (slb_getOrCreatePool b eid l svc) (kinds K)"
  unfolding slb_getOrCreatePool_def by (intro emits_intro) simp_all

lemma emits_slb_health_with_first_node [emits_intro]:
  "KRead \<in> K \<Longrightarrow> KMonitor \<in> K \<Longrightarrow> emits (slb_health_with_first_node b eid pool port svc nodes) (kinds K)"
  unfolding slb_health_with_first_node_def by (intro emits_intro) simp_all

lemma emits_slb_ensure_port [emits_intro]:
  "KRead \<in> K \<Longrightarrow> KMember \<in> K \<Longrightarrow> KMonitor \<in> K \<Longrightarrow> KPool \<in> K \<Longrightarrow> KListener \<in> K \<Longrightarrow> emits (slb_ensure_port b lb svc nodes port ls) (kinds K)"
  unfolding slb_ensure_port_def by (intro emits_intro) simp_all

lemma emits_slb_ensure_instance [emits_intro]:
  "KRead \<in> K \<Longrightarrow> (getStringFromSvsAnnotation svc ElbID [] = [] \<Longrightarrow> KInstanceCreate \<in> K) \<Longrightarrow> emits (slb_ensure_instance b c svc) (kinds K)"
  unfolding slb_ensure_instance_def by (intro emits_intro) simp_all

lemma emits_slb_EnsureLoadBalancer [emits_intro]:
  "KRead \<in> K \<Longrightarrow> KMember \<in> K \<Longrightarrow> KMonitor \<in> K \<Longrightarrow> KPool \<in> K \<Longrightarrow> KListener \<in> K \<Longrightarrow> KEipCreate \<in> K \<Longrightarrow> KEipUpdate \<in> K \<Longrightarrow> (getStringFromSvsAnnotation svc ElbID [] = [] \<Longrightarrow> KInstanceCreate \<in> K \<and> KInstanceDelete \<in> K) \<Longrightarrow> (getStringFromSvsAnnotation svc ElbID [] = [] \<Longrightarrow> \<not> getBoolFromSvsAnnotation svc ELBKeepEip (KeepEIP (loadbalancerOpts b)) \<Longrightarrow> KEipDelete \<in> K) \<Longrightarrow> emits (slb_EnsureLoadBalancer b c svc nodes) (kinds K)"
  unfolding slb_EnsureLoadBalancer_def by (intro emits_intro) simp_all

lemma emits_slb_update_port [emits_intro]:
  "KRead \<in> K \<Longrightarrow> KMember \<in> K \<Longrightarrow> KMonitor \<in> K \<Longrightarrow> KPool \<in> K \<Longrightarrow> emits (slb_update_port b lb svc nodes ls port u) (kinds K)"
  unfolding slb_update_port_def by (intro emits_intro) simp_all

lemma emits_slb_UpdateLoadBalancer [emits_intro]:
  "KRead \<in> K \<Longrightarrow> KMember \<in> K \<Longrightarrow> KMonitor \<in> K \<Longrightarrow> KPool \<in> K \<Longrightarrow> emits (slb_UpdateLoadBalancer b c svc nodes) (kinds K)"
  unfolding slb_UpdateLoadBalancer_def by (intro emits_intro) simp_all

subsection \<open>Reconciliation of the members\<close>

text \<open>The address a member gets when the primary network card is not forced.\<close>

definition slb_member_addr :: "service \<Rightarrow> service_port \<Rightarrow> node \<Rightarrow> pod \<Rightarrow> error + string \<times> int" where
  "slb_member_addr svc svcPort n p = (case svc_AllocateLoadBalancerNodePorts svc of
       Some True \<Rightarrow>
         if pod_HostIP p \<noteq> [] then Inr (pod_HostIP p, port_NodePort svcPort)
         else (case getNodeAddress n of Inl e \<Rightarrow> Inl e | Inr addr \<Rightarrow> Inr (addr, port_NodePort svcPort))
     | Some False \<Rightarrow> (case port_TargetPort svcPort of
           IntVal i \<Rightarrow> Inr (pod_PodIP p, i)
         | StrVal nm \<Rightarrow>
             (case find (\<lambda>c. cp_Name c = nm \<and> cp_Protocol c = port_Protocol svcPort) (concat (pod_Containers p)) of
                Some c \<Rightarrow> Inr (pod_PodIP p, cp_ContainerPort c)
              | None \<Rightarrow> Inl (Errorf ''not found member IP and port'')))
     | None \<Rightarrow> Inl (Errorf ''not found member IP and port''))"

text \<open>The endpoints and the member ids named by the creation and deletion requests of a log.\<close>

fun slb_create_event :: "string \<Rightarrow> event \<Rightarrow> (string \<times> int) option" where
  "slb_create_event poolID (Sdk (ElbV2 (CreateMemberRequest pid req))) =
     (if pid = poolID then Some (cm_Address req, cm_ProtocolPort req) else None)"
| "slb_create_event poolID _ = None"

fun slb_delete_event :: "string \<Rightarrow> event \<Rightarrow> string option" where
  "slb_delete_event poolID (Sdk (ElbV2 (DeleteMemberReq pid mid))) = (if pid = poolID then Some mid else None)"
| "slb_delete_event poolID _ = None"

definition slb_created :: "string \<Rightarrow> event list \<Rightarrow> (string \<times> int) list" where
  "slb_created poolID = List.map_filter (slb_create_event poolID)"

definition slb_deleted :: "string \<Rightarrow> event list \<Rightarrow> string list" where
  "slb_deleted poolID = List.map_filter (slb_delete_event poolID)"

lemma slb_create_event_kind: "kind_of e \<noteq> KMember \<Longrightarrow> slb_create_event pid e = None"
  by (cases "(pid, e)" rule: slb_create_event.cases) auto

lemma slb_delete_event_kind: "kind_of e \<noteq> KMember \<Longrightarrow> slb_delete_event pid e = None"
  by (cases "(pid, e)" rule: slb_delete_event.cases) auto

lemma slb_log_quiet:
  assumes "emits m (kinds {KRead})" and "m s = (r, t)"
  shows "slb_created pid (log t) = slb_created pid (log s)" "slb_deleted pid (log t) = slb_deleted pid (log s)"
  unfolding slb_created_def slb_deleted_def
  using assms by (auto intro!: emits_map_filter slb_create_event_kind slb_delete_event_kind)

lemma slb_log_snoc [simp]:
  "slb_created pid (es @ [e]) = slb_created pid es @ (case slb_create_event pid e of None \<Rightarrow> [] | Some a \<Rightarrow> [a])"
  "slb_deleted pid (es @ [e]) = slb_deleted pid es @ (case slb_delete_event pid e of None \<Rightarrow> [] | Some a \<Rightarrow> [a])"
  by (simp_all add: slb_created_def slb_deleted_def List.map_filter_def split: option.splits)

lemma slb_getMemberIP_pure:
  "PrimaryNic (loadbalancerOpts b) \<noteq> ''force'' \<Longrightarrow>
   slb_getMemberIP b svc n p port = (case slb_member_addr svc port n p of Inl e \<Rightarrow> errR e | Inr a \<Rightarrow> okR a)"
  by (auto simp: slb_getMemberIP_def slb_member_addr_def getPrimaryIP_default split: option.splits bool.splits sum.splits intstr.splits)

lemma slb_addMember_log:
  assumes "PrimaryNic (loadbalancerOpts b) \<noteq> ''force''" and "slb_member_addr svc port n p = Inr a"
    and "slb_addMember b svc eid pid port p n s = (Ok u, t)"
  shows "slb_created pid (log t) = slb_created pid (log s) @ [a] \<and> slb_deleted pid (log t) = slb_deleted pid (log s)"
proof -
  obtain addr pt where a: "a = (addr, pt)" by fastforce
  let ?req = "\<lambda>sid. \<lparr>cm_Name = None, cm_ProtocolPort = pt, cm_SubnetId = Some sid, cm_Address = addr\<rparr>"
  from assms a obtain sid s1 x s2 where
    s1: "getNodeSubnetIDByHostIP b addr s = (Ok sid, s1)"
    and s2: "s_AddMember (clients b) pid (?req sid) s1 = (Ok x, s2)"
    and t: "slb_wait_active b eid ''timeout when waiting for loadbalancer to be ACTIVE after adding members, current status '' s2 = (Ok u, t)"
    unfolding slb_addMember_def
    by (auto simp: slb_getMemberIP_pure elim!: bindR_Ok_E simp: run_simps split: prod.splits res.splits)
  from s2 have "log s2 = log s1 @ [Sdk (ElbV2 (CreateMemberRequest pid (?req sid)))]"
    unfolding s_AddMember_def by (rule commonWrapper_log)
  then show ?thesis
    using slb_log_quiet [OF emits_getNodeSubnetIDByHostIP s1] slb_log_quiet [OF emits_slb_wait_active t] a by simp
qed

lemma slb_deleteMember_log:
  assumes "slb_deleteMember b eid pid m s = (Ok u, t)"
  shows "slb_created pid (log t) = slb_created pid (log s) \<and> slb_deleted pid (log t) = slb_deleted pid (log s) @ [mem_Id m]"
proof -
  from assms obtain r s1 where s1: "s_DeleteMember (clients b) pid (mem_Id m) s = (r, s1)"
    and t: "slb_wait_active b eid ''timeout when waiting for loadbalancer to be ACTIVE after creating member, current provisioning status '' s1 = (Ok u, t)"
    unfolding slb_deleteMember_def
    by (auto elim!: bindR_Ok_E simp: run_simps Let_def split: prod.splits res.splits sum.splits if_splits)
  from s1 have "log s1 = log s @ [Sdk (ElbV2 (DeleteMemberReq pid (mem_Id m)))]"
    unfolding s_DeleteMember_def wrapper0_def by (rule commonWrapper_log)
  then show ?thesis using slb_log_quiet [OF emits_slb_wait_active t] by simp
qed

interpretation shared_members: member_backend
  "\<lambda>(b, svc, eid, pid, port). PrimaryNic (loadbalancerOpts b) \<noteq> ''force''"
  "\<lambda>(b, svc, eid, pid, port). slb_member_addr svc port"
  "\<lambda>(b, svc, eid, pid, port) n p. slb_getMemberIP b svc n p port"
  "\<lambda>(b, svc, eid, pid, port) p n. slb_addMember b svc eid pid port p n"
  "\<lambda>(b, svc, eid, pid, port). slb_deleteMember b eid pid"
  "\<lambda>(b, svc, eid, pid, port). slb_created pid"
  "\<lambda>(b, svc, eid, pid, port). slb_deleted pid"
  by unfold_locales (auto simp: slb_getMemberIP_pure dest: slb_addMember_log slb_deleteMember_log)

end
