(* ===== verification/Dedicated_Load_Balancer.thy ===== *)
theory Dedicated_Load_Balancer
  imports Eip Member_Sync
begin

text \<open>
  \<open>dedicatedloadbalancer.go\<close>: the load balancer over dedicated ELB instances (API v3). The prefix
  \<open>dlb_\<close> names the receiver \<open>DedicatedLoadBalancer\<close>.
\<close>

subsection \<open>Instance\<close>

definition dlb_getLoadBalancerInstance :: "'w Basic \<Rightarrow> string \<Rightarrow> service \<Rightarrow> ('w, LoadBalancer option) prog" where
  "dlb_getLoadBalancerInstance b clusterName svc =
     (let uid = getStringFromSvsAnnotation svc ElbID []
      in if uid \<noteq> [] then d_GetInstance (clients b) uid
         else let name = GetLoadBalancerName_of (loadbalancerOpts b) clusterName svc
              in bindR (d_ListInstances (clients b) name) (\<lambda>list.
                   if length list = 0 then errR (StatusError CodeNotFound (''not found dedicated ELB instance '' @ name))
                   else if length list \<noteq> 1
                   then errR (StatusError CodeUnavailable (''error, found '' @ int_str (int (length list)) @ '' dedicated ELB named ''
                                @ name @ '', make sure there is only one''))
                   else okR (Some (hd list))))"

definition dlb_buildStatus :: "LoadBalancer \<Rightarrow> string list" where
  "dlb_buildStatus loadbalancer = (case lb3_Eips loadbalancer of
       e # _ \<Rightarrow> (case ei_EipAddress e of Some a \<Rightarrow> [a] | None \<Rightarrow> [lb3_VipAddress loadbalancer])
     | [] \<Rightarrow> [lb3_VipAddress loadbalancer])"

definition dlb_GetLoadBalancer :: "'w Basic \<Rightarrow> string \<Rightarrow> service \<Rightarrow> ('w, string list option \<times> bool) prog" where
  "dlb_GetLoadBalancer b clusterName svc =
     bindR (attempt (dlb_getLoadBalancerInstance b clusterName svc)) (\<lambda>r. case r of
         Inl e \<Rightarrow> if IsNotFound e then okR (None, False) else errR e
       | Inr p \<Rightarrow> bindR (deref p) (\<lambda>l. okR (Some (dlb_buildStatus l), True)))"

definition dlb_parsePublicIP :: "codecs \<Rightarrow> service \<Rightarrow> error + PublicIpOption option" where
  "dlb_parsePublicIP cd svc = (case parseEIPAutoCreateOptions cd svc of
       (_, Some e) \<Rightarrow> Inl e
     | (None, None) \<Rightarrow> Inr None
     | (Some eipOpt, None) \<Rightarrow>
         let bandwidth = (if eo_BandwidthSize eipOpt \<noteq> 0
               then Some \<lparr>bw_Id = None, bw_Name = Some (svc_Namespace svc @ ''_'' @ svc_Name svc), bw_Size = Some (eo_BandwidthSize eipOpt),
                          bw_ShareType = Some (trim_quotes (eo_ShareType eipOpt)), bw_ChargeMode = Some (trim_quotes (eo_ChargeMode eipOpt))\<rparr>
               else None);
             bandwidth' = (if eo_ShareID eipOpt \<noteq> []
               then Some \<lparr>bw_Id = Some (eo_ShareID eipOpt), bw_Name = None, bw_Size = None, bw_ShareType = None, bw_ChargeMode = None\<rparr>
               else bandwidth)
         in Inr (Some \<lparr>pio_NetworkType = eo_IPType eipOpt, pio_Bandwidth = bandwidth'\<rparr>))"

text \<open>The creation options, or the error that stops the creation before any request.\<close>

definition dlb_create_option :: "'w Basic \<Rightarrow> string \<Rightarrow> string \<Rightarrow> service \<Rightarrow> error + CreateLoadBalancerOption" where
  "dlb_create_option b clusterName subnetID svc =
     (let azStr = getStringFromSvsAnnotation svc ElbAvailabilityZones [] in
      if azStr = []
      then Inl (StatusError CodeInvalidArgument
             (''Invalid argument, annotation '' @ [CHR 0x22] @ ''kubernetes.io/elb.availability-zones'' @ [CHR 0x22] @ '' cannot be empty''))
      else let enableCrossVpc = (svc_ExternalTrafficPolicy svc = ''Local''
                 \<or> getBoolFromSvsAnnotation svc ElbEnableCrossVpc (EnableCrossVpc (loadbalancerOpts b)));
               l4 = getStringFromSvsAnnotation svc ElbL4FlavorID (L4FlavorID (loadbalancerOpts b));
               l7 = getStringFromSvsAnnotation svc ElbL7FlavorID (L7FlavorID (loadbalancerOpts b));
               eipID = getStringFromSvsAnnotation svc ElbEipID [];
               opt = (\<lambda>ids pip. \<lparr>clo_Name = GetLoadBalancerName_of (loadbalancerOpts b) clusterName svc,
                       clo_AvailabilityZoneList = split_on CHR '';'' azStr, clo_VipSubnetCidrId = subnetID,
                       clo_Provider = ''vlb'',
                       clo_Description = ''Created by the ELB service('' @ svc_Namespace svc @ ''/'' @ svc_Name svc
                         @ '') of the k8s cluster('' @ clusterName @ '').'',
                       clo_IpTargetEnable = (if enableCrossVpc then Some True else None),
                       clo_L4FlavorId = StringToPtr l4, clo_L7FlavorId = StringToPtr l7,
                       clo_PublicipIds = ids, clo_Publicip = pip\<rparr>)
           in if eipID \<noteq> [] then Inr (opt (Some [eipID]) None)
              else case dlb_parsePublicIP (decoders b) svc of Inl e \<Rightarrow> Inl e | Inr pip \<Rightarrow> Inr (opt None pip))"

definition dlb_createLoadbalancer :: "'w Basic \<Rightarrow> string \<Rightarrow> string \<Rightarrow> service \<Rightarrow> ('w, LoadBalancer option) prog" where
  "dlb_createLoadbalancer b clusterName subnetID svc = (case dlb_create_option b clusterName subnetID svc of
       Inl e \<Rightarrow> errR e
     | Inr opt \<Rightarrow> d_CreateInstanceCompleted (clients b) opt)"

subsection \<open>Health check\<close>

definition dlb_wait_active :: "'w Basic \<Rightarrow> string \<Rightarrow> string \<Rightarrow> ('w, unit) prog" where
  "dlb_wait_active b elbID msg =
     bindR (d_WaitStatusActive (clients b) elbID) (\<lambda>(loadbalancer, err). case err of
         None \<Rightarrow> okR ()
       | Some _ \<Rightarrow> bindR (deref loadbalancer) (\<lambda>l. errR (Errorf (msg @ lb3_ProvisioningStatus l))))"

definition dlb_updateHealthMonitor :: "'w Basic \<Rightarrow> string \<Rightarrow> string \<Rightarrow> HealthCheckOption \<Rightarrow> ('w, unit) prog" where
  "dlb_updateHealthMonitor b uid protocol0 opts =
     (let protocol = (if protocol0 = ProtocolHTTPS \<or> protocol0 = ProtocolTerminatedHTTPS then ProtocolHTTP
                      else if protocol0 = ProtocolUDP then ''UDP_CONNECT'' else protocol0)
      in if protocol = ''SCTP'' then errR (StatusError CodeInvalidArgument ''Protocol SCTP not supported'')
         else d_UpdateHealthMonitor (clients b) uid
           \<lparr>hm_Type = Some protocol, hm_Timeout = hc_Timeout opts, hm_Delay = hc_Delay opts, hm_MaxRetries = hc_MaxRetries opts\<rparr>)"

definition dlb_createHealthMonitor :: "'w Basic \<Rightarrow> string \<Rightarrow> string \<Rightarrow> string \<Rightarrow> HealthCheckOption \<Rightarrow> ('w, unit) prog" where
  "dlb_createHealthMonitor b loadbalancerID poolID protocol0 opts =
     (let protocol = (if protocol0 = ProtocolHTTPS \<or> protocol0 = ProtocolTerminatedHTTPS then ProtocolHTTP
                      else if protocol0 = ProtocolUDP then ''UDP_CONNECT'' else protocol0)
      in bindR (attempt (d_CreateHealthMonitor (clients b) poolID
                  \<lparr>hm_Type = Some protocol, hm_Timeout = hc_Timeout opts, hm_Delay = hc_Delay opts,
                   hm_MaxRetries = hc_MaxRetries opts\<rparr>)) (\<lambda>r. case r of
             Inl e \<Rightarrow> errR (Errorf (''error creating DedicatedLoadBalancer pool health monitor: '' @ err_text e))
           | Inr _ \<Rightarrow> dlb_wait_active b loadbalancerID
               ''timeout when waiting for loadbalancer to be ACTIVE after creating member, current provisioning status ''))"

definition dlb_ensureHealthCheck :: "'w Basic \<Rightarrow> string \<Rightarrow> Pool \<Rightarrow> service_port \<Rightarrow> service \<Rightarrow> ('w, unit) prog" where
  "dlb_ensureHealthCheck b loadbalancerID pool port svc =
     (let healthCheckOpts = getHealthCheckOptionFromAnnotation (decoders b) svc (loadbalancerOpts b);
          monitorID = pool_HealthmonitorId pool
      in if monitorID = [] \<and> hc_Enable healthCheckOpts
         then dlb_createHealthMonitor b loadbalancerID (pool_Id pool) (pool_Protocol pool) healthCheckOpts
         else if monitorID \<noteq> [] \<and> hc_Enable healthCheckOpts
         then dlb_updateHealthMonitor b monitorID (port_Protocol port) healthCheckOpts
         else if monitorID \<noteq> [] \<and> \<not> hc_Enable healthCheckOpts
         then bindR (attempt (d_DeleteHealthMonitor (clients b) monitorID)) (\<lambda>r. case r of
                Inl e \<Rightarrow> errR (Errorf (''failed to delete health monitor '' @ monitorID @ '' for pool '' @ pool_Id pool
                            @ '', error: '' @ err_text e))
              | Inr _ \<Rightarrow> okR ())
         else okR ())"

subsection \<open>Members\<close>

text \<open>The first address of the pod of the wanted IP version.\<close>

definition getPodIPByVersion :: "pod \<Rightarrow> string \<Rightarrow> string" where
  "getPodIPByVersion p ipVersion =
     (if ipVersion = [] then pod_PodIP p
      else let v = to_lower ipVersion in
        if v \<in> {''ipv4'', ''v4'', ''ipv6'', ''v6''}
        then (let wantV4 = (v \<in> {''ipv4'', ''v4''});
                  fits = (\<lambda>ip. case ParseIP ip of None \<Rightarrow> False | Some a \<Rightarrow> (To4 a \<noteq> None) = wantV4)
              in case find fits (pod_PodIPs p) of
                   Some ip \<Rightarrow> ip
                 | None \<Rightarrow> if fits (pod_PodIP p) then pod_PodIP p else [])
        else pod_PodIP p)"

definition getEndpointFromPod :: "service \<Rightarrow> pod \<Rightarrow> service_port \<Rightarrow> error + string \<times> int" where
  "getEndpointFromPod svc p svcPort =
     (let podIp = getPodIPByVersion p (getStringFromSvsAnnotation svc ElbBackendIpVersion [])
      in case port_TargetPort svcPort of
           IntVal i \<Rightarrow> Inr (podIp, i)
         | StrVal nm \<Rightarrow>
             (case find (\<lambda>c. cp_Name c = nm \<and> cp_Protocol c = port_Protocol svcPort) (concat (pod_Containers p)) of
                Some c \<Rightarrow> Inr (podIp, cp_ContainerPort c)
              | None \<Rightarrow> Inl (Errorf ''not found member IP and port'')))"

definition dlb_getMemberIP :: "'w Basic \<Rightarrow> service \<Rightarrow> node \<Rightarrow> pod \<Rightarrow> service_port \<Rightarrow> ('w, string \<times> int) prog" where
  "dlb_getMemberIP b svc n p svcPort =
     (let fromPod = (case getEndpointFromPod svc p svcPort of Inl e \<Rightarrow> errR e | Inr a \<Rightarrow> okR a) in
      if svc_ExternalTrafficPolicy svc = ''Local'' then fromPod
      else case svc_AllocateLoadBalancerNodePorts svc of
          Some True \<Rightarrow>
            bindR (if pod_HostIP p \<noteq> [] then okR (pod_HostIP p)
                   else case getNodeAddress n of Inl e \<Rightarrow> errR e | Inr addr \<Rightarrow> okR addr) (\<lambda>address.
            bindR (getPrimaryIP b address) (\<lambda>address'. okR (address', port_NodePort svcPort)))
        | Some False \<Rightarrow> fromPod
        | None \<Rightarrow> errR (Errorf ''not found member IP and port''))"

text \<open>The subnet of a new member: the annotation, or that of the node unless the instance accepts any IP.\<close>

definition dlb_member_subnet :: "'w Basic \<Rightarrow> service \<Rightarrow> LoadBalancer \<Rightarrow> string \<Rightarrow> ('w, string option) prog" where
  "dlb_member_subnet b svc loadbalancer address =
     (let backendSubnetId = getStringFromSvsAnnotation svc ElbBackendSubnetID [] in
      if backendSubnetId \<noteq> [] then okR (Some backendSubnetId)
      else if \<not> lb3_IpTargetEnable loadbalancer
      then bindR (getNodeSubnetIDByHostIP b address) (\<lambda>subnetID. okR (Some subnetID))
      else okR None)"

definition dlb_addMember ::
  "'w Basic \<Rightarrow> service \<Rightarrow> LoadBalancer \<Rightarrow> Pool \<Rightarrow> pod \<Rightarrow> service_port \<Rightarrow> node \<Rightarrow> ('w, unit) prog" where
  "dlb_addMember b svc loadbalancer pool p svcPort n =
     bindR (dlb_getMemberIP b svc n p svcPort) (\<lambda>(address, port).
     bindR (dlb_member_subnet b svc loadbalancer address) (\<lambda>subnet.
     bindR (attempt (d_AddMember (clients b) (pool_Id pool)
              \<lparr>cm_Name = Some (CutString (''member_'' @ pool_Name pool @ ''_'' @ node_Name n) 255),
               cm_ProtocolPort = port, cm_SubnetId = subnet, cm_Address = address\<rparr>)) (\<lambda>r. case r of
         Inl e \<Rightarrow> errR (Errorf (''error creating DedicatedLoadBalancer pool member for node: '' @ node_Name n @ '', '' @ err_text e))
       | Inr _ \<Rightarrow> dlb_wait_active b (lb3_Id loadbalancer)
           ''timeout when waiting for loadbalancer to be ACTIVE after adding members, current status '')))"

definition dlb_deleteMember :: "'w Basic \<Rightarrow> string \<Rightarrow> string \<Rightarrow> Member \<Rightarrow> ('w, unit) prog" where
  "dlb_deleteMember b elbID poolID member =
     bindR (attempt (d_DeleteMember (clients b) poolID (mem_Id member))) (\<lambda>r.
       let wait = dlb_wait_active b elbID
             ''timeout when waiting for loadbalancer to be ACTIVE after creating member, current provisioning status '' in
       case r of
         Inl e \<Rightarrow> if IsNotFound e then wait
                  else errR (Errorf (''error deleting obsolete member '' @ poolID @ '' for pool '' @ mem_Id member
                               @ '' address '' @ mem_Address member @ '': '' @ err_text e))
       | Inr _ \<Rightarrow> wait)"

definition dlb_addOrRemoveMembers ::
  "'w Basic \<Rightarrow> LoadBalancer \<Rightarrow> service \<Rightarrow> Pool \<Rightarrow> service_port \<Rightarrow> node list \<Rightarrow> ('w, unit) prog" where
  "dlb_addOrRemoveMembers b loadbalancer svc pool svcPort nodes =
     sync_members (d_ListMembers (clients b) (pool_Id pool) 100)
       (listPodsBySelector b (svc_Namespace svc) (svc_Selector svc))
       (\<lambda>n p. dlb_getMemberIP b svc n p svcPort)
       (\<lambda>p n. dlb_addMember b svc loadbalancer pool p svcPort n)
       (dlb_deleteMember b (lb3_Id loadbalancer) (pool_Id pool)) nodes"

subsection \<open>Pools\<close>

definition dlb_getPool :: "'w Basic \<Rightarrow> string \<Rightarrow> string \<Rightarrow> ('w, Pool) prog" where
  "dlb_getPool b elbID listenerID =
     bindR (d_ListPools (clients b) elbID None) (\<lambda>pools.
       case find (\<lambda>p. listenerID \<in> set (pool_Listeners p)) pools of
         Some p \<Rightarrow> okR p
       | None \<Rightarrow> errR (StatusError CodeNotFound
                    (''not found pool matched ListenerId: '' @ listenerID @ '', ELB ID: '' @ elbID)))"

definition dlb_createPool :: "'w Basic \<Rightarrow> Listener \<Rightarrow> service \<Rightarrow> ('w, Pool option) prog" where
  "dlb_createPool b listener svc =
     (let persistence = (case sessionAffinity (decoders b) (loadbalancerOpts b) svc of
              None \<Rightarrow> None
            | Some p \<Rightarrow> (let ty = trim_quotes (sp_Type p) in
                Some (if ty = ''APP_COOKIE''
                      then \<lparr>sp_Type = ty, sp_CookieName = sp_CookieName p, sp_PersistenceTimeout = None\<rparr>
                      else \<lparr>sp_Type = ty, sp_CookieName = None, sp_PersistenceTimeout = sp_PersistenceTimeout p\<rparr>)));
          protocol = (if l3_Protocol listener = ProtocolTerminatedHTTPS then ProtocolHTTP else l3_Protocol listener)
      in d_CreatePool (clients b)
           \<lparr>cpl_Name = ''pl_'' @ l3_Name listener, cpl_Protocol = protocol,
            cpl_LbAlgorithm = getStringFromSvsAnnotation svc ElbAlgorithm (LBAlgorithm (loadbalancerOpts b)),
            cpl_ListenerId = l3_Id listener, cpl_SessionPersistence = persistence\<rparr>)"

definition dlb_ensurePoolAlgorithm :: "'w Basic \<Rightarrow> Pool \<Rightarrow> service \<Rightarrow> ('w, unit) prog" where
  "dlb_ensurePoolAlgorithm b pool svc =
     (let desiredAlgorithm = getStringFromSvsAnnotation svc ElbAlgorithm (LBAlgorithm (loadbalancerOpts b))
      in if desiredAlgorithm = [] then okR ()
         else if pool_LbAlgorithm pool = desiredAlgorithm then okR ()
         else bindR (d_UpdatePool (clients b) (pool_Id pool) desiredAlgorithm) (\<lambda>_. okR ()))"

definition dlb_deletePool :: "'w Basic \<Rightarrow> Pool \<Rightarrow> ('w, error list) prog" where
  "dlb_deletePool b pool =
     bindR (attempt (d_DeleteAllPoolMembers (clients b) (pool_Id pool))) (\<lambda>r1.
     bindR (attempt (d_DeleteHealthMonitor (clients b) (pool_HealthmonitorId pool))) (\<lambda>r2.
     bindR (attempt (d_DeletePool (clients b) (pool_Id pool))) (\<lambda>r3.
       okR ((case r1 of Inl e \<Rightarrow> [e] | Inr _ \<Rightarrow> [])
            @ (case r2 of Inl e \<Rightarrow> if IsNotFound e then [] else [e] | Inr _ \<Rightarrow> [])
            @ (case r3 of Inl e \<Rightarrow> if IsNotFound e then [] else [e] | Inr _ \<Rightarrow> [])))))"

subsection \<open>Listeners\<close>

definition dlb_deleteListeners :: "'w Basic \<Rightarrow> string \<Rightarrow> Listener list \<Rightarrow> ('w, unit) prog" where
  "dlb_deleteListeners b elbID listeners =
     bindR (foldR (\<lambda>lis errs.
         let del = (\<lambda>errs. bindR (attempt (d_DeleteListener (clients b) elbID (l3_Id lis))) (\<lambda>r. case r of
               Inl e \<Rightarrow> if IsNotFound e then okR errs
                        else okR (errs @ [Errorf (''failed to delete ELB listener '' @ l3_Id lis @ '' : '' @ err_text e @ '' '')])
             | Inr _ \<Rightarrow> okR errs)) in
         bindR (attempt (dlb_getPool b elbID (l3_Id lis))) (\<lambda>r. case r of
             Inl e \<Rightarrow> if IsNotFound e then del errs else okR (errs @ [e])
           | Inr pool \<Rightarrow> bindR (dlb_deletePool b pool) (\<lambda>delErrs. del (errs @ delErrs)))) listeners [])
       (\<lambda>errs. if length errs \<noteq> 0 then errR (Errorf (''failed to delete listeners: '' @ err_text (Aggregate errs))) else okR ())"

definition dlb_createListener :: "'w Basic \<Rightarrow> string \<Rightarrow> service \<Rightarrow> service_port \<Rightarrow> ('w, Listener option) prog" where
  "dlb_createListener b loadbalancerID svc port =
     (let opts = loadbalancerOpts b;
          xForwardFor = getBoolFromSvsAnnotation svc ElbXForwardedHost False;
          protocol0 = parseProtocol svc port;
          protocol = (if protocol0 = ProtocolTerminatedHTTPS then protocol0 else if xForwardFor then ProtocolHTTP else protocol0);
          http = (protocol = ProtocolHTTP \<or> protocol = ProtocolTerminatedHTTPS)
      in bindR (attempt (d_CreateListener (clients b)
           \<lparr>co_Name = CutString (svc_Name svc @ ''_'' @ port_Protocol port @ ''_'' @ int_str (port_Port port)) 255,
            co_LoadbalancerId = loadbalancerID, co_Protocol = protocol, co_ProtocolPort = port_Port port,
            co_XForwardedHost = xForwardFor,
            co_DefaultTlsContainerRef = (if protocol0 = ProtocolTerminatedHTTPS
               then Some (getStringFromSvsAnnotation svc DefaultTLSContainerRef []) else None),
            co_KeepaliveTimeout = timeout_opt svc ElbIdleTimeout (IdleTimeout opts),
            co_ClientTimeout = (if http then timeout_opt svc ElbRequestTimeout (RequestTimeout opts) else None),
            co_MemberTimeout = (if http then timeout_opt svc ElbResponseTimeout (ResponseTimeout opts) else None),
            co_TransparentClientIpEnable =
              (if getBoolFromSvsAnnotation svc ElbEnableTransparentClientIP (EnableTransparentClientIP opts) then Some True else None)\<rparr>)) (\<lambda>r. case r of
         Inl e \<Rightarrow> errR (StatusError CodeInternal (''Failed to create listener for loadbalancer '' @ loadbalancerID @ '': '' @ err_text e))
       | Inr l \<Rightarrow> okR l))"

definition dlb_updateListener :: "'w Basic \<Rightarrow> Listener \<Rightarrow> service \<Rightarrow> service_port \<Rightarrow> ('w, unit) prog" where
  "dlb_updateListener b listener svc port =
     (let opts = loadbalancerOpts b;
          xForwardFor = getBoolFromSvsAnnotation svc ElbXForwardedHost False;
          protocol0 = parseProtocol svc port;
          protocol = (if protocol0 = ProtocolTerminatedHTTPS then protocol0 else if xForwardFor then ProtocolHTTP else protocol0);
          http = (protocol = ProtocolHTTP \<or> protocol = ProtocolTerminatedHTTPS)
      in d_UpdateListener (clients b) (l3_Id listener)
           \<lparr>uo_Name = CutString (svc_Name svc @ ''_'' @ port_Protocol port @ ''_'' @ int_str (port_Port port)) 255,
            uo_XForwardedHost = None,
            uo_DefaultTlsContainerRef = (if protocol0 = ProtocolTerminatedHTTPS
               then Some (getStringFromSvsAnnotation svc DefaultTLSContainerRef []) else None),
            uo_KeepaliveTimeout = timeout_opt svc ElbIdleTimeout (IdleTimeout opts),
            uo_ClientTimeout = (if http then timeout_opt svc ElbRequestTimeout (RequestTimeout opts) else None),
            uo_MemberTimeout = (if http then timeout_opt svc ElbResponseTimeout (ResponseTimeout opts) else None),
            uo_TransparentClientIpEnable =
              (if getBoolFromSvsAnnotation svc ElbEnableTransparentClientIP (EnableTransparentClientIP opts) then Some True else None)\<rparr>)"

definition dlb_filterListenerByPort :: "Listener list \<Rightarrow> service \<Rightarrow> service_port \<Rightarrow> Listener option" where
  "dlb_filterListenerByPort listeners svc port =
     (let protocol = parseProtocol svc port
      in find (\<lambda>l. l3_Protocol l = protocol \<and> l3_ProtocolPort l = port_Port port) listeners)"

definition dlb_popListener :: "Listener list \<Rightarrow> string \<Rightarrow> Listener list" where
  "dlb_popListener listeners uid = pop_first (\<lambda>lis. l3_Id lis = uid) listeners"

subsection \<open>Deletion\<close>

definition dlb_deleteListener :: "'w Basic \<Rightarrow> LoadBalancer \<Rightarrow> service \<Rightarrow> ('w, unit) prog" where
  "dlb_deleteListener b loadBalancer svc =
     bindR (d_ListListeners (clients b) (lb3_Id loadBalancer)) (\<lambda>listenerArr.
       dlb_deleteListeners b (lb3_Id loadBalancer)
         (List.map_filter (dlb_filterListenerByPort listenerArr svc) (svc_Ports svc)))"

text \<open>The EIP to delete: the annotation, or the first one of the instance. A failed deletion is logged.\<close>

definition dlb_deleteELBInstance :: "'w Basic \<Rightarrow> LoadBalancer \<Rightarrow> service \<Rightarrow> ('w, unit) prog" where
  "dlb_deleteELBInstance b loadBalancer svc =
     bindR (d_ListListeners (clients b) (lb3_Id loadBalancer)) (\<lambda>listenerArr.
     bindR (dlb_deleteListeners b (lb3_Id loadBalancer) listenerArr) (\<lambda>_.
     bindR (d_DeleteInstance (clients b) (lb3_Id loadBalancer)) (\<lambda>_.
       if getBoolFromSvsAnnotation svc ELBKeepEip (KeepEIP (loadbalancerOpts b)) then okR ()
       else let lbEIP = (case lb3_Eips loadBalancer of
                  e # _ \<Rightarrow> (case ei_EipId e of Some i \<Rightarrow> i | None \<Rightarrow> []) | [] \<Rightarrow> []);
                eipID = getStringFromSvsAnnotation svc ElbEipID lbEIP
            in if eipID = [] then okR ()
               else bindR (attempt (e_Delete (clients b) eipID)) (\<lambda>_. okR ()))))"

definition dlb_EnsureLoadBalancerDeleted :: "'w Basic \<Rightarrow> string \<Rightarrow> service \<Rightarrow> ('w, unit) prog" where
  "dlb_EnsureLoadBalancerDeleted b clusterName svc =
     bindR (attempt (dlb_getLoadBalancerInstance b clusterName svc)) (\<lambda>r. case r of
         Inl e \<Rightarrow> if IsNotFound e then okR () else errR e
       | Inr p \<Rightarrow> bindR (deref p) (\<lambda>loadBalancer.
           if getStringFromSvsAnnotation svc ElbID [] \<noteq> [] then dlb_deleteListener b loadBalancer svc
           else dlb_deleteELBInstance b loadBalancer svc))"

subsection \<open>EnsureLoadBalancer and UpdateLoadBalancer\<close>

definition dlb_getOrCreatePool :: "'w Basic \<Rightarrow> string \<Rightarrow> Listener \<Rightarrow> service \<Rightarrow> ('w, Pool) prog" where
  "dlb_getOrCreatePool b elbID listener svc =
     bindR (attempt (dlb_getPool b elbID (l3_Id listener))) (\<lambda>r. case r of
         Inr pool \<Rightarrow> okR pool
       | Inl e \<Rightarrow> if IsNotFound e then bindR (dlb_createPool b listener svc) deref else errR e)"

definition dlb_health_with_first_node ::
  "'w Basic \<Rightarrow> string \<Rightarrow> Pool \<Rightarrow> service_port \<Rightarrow> service \<Rightarrow> node list \<Rightarrow> ('w, unit) prog" where
  "dlb_health_with_first_node b elbID pool port svc nodes = (case nodes of
       [] \<Rightarrow> panicR ''index out of range''
     | _ # _ \<Rightarrow> dlb_ensureHealthCheck b elbID pool port svc)"

definition dlb_ensure_port ::
  "'w Basic \<Rightarrow> LoadBalancer \<Rightarrow> service \<Rightarrow> node list \<Rightarrow> service_port \<Rightarrow> Listener list \<Rightarrow> ('w, Listener list) prog" where
  "dlb_ensure_port b loadbalancer svc nodes port listeners =
     bindR (case dlb_filterListenerByPort listeners svc port of
              None \<Rightarrow> bindR (dlb_createListener b (lb3_Id loadbalancer) svc port) deref
            | Some listener \<Rightarrow> bindR (dlb_updateListener b listener svc port) (\<lambda>_. okR listener)) (\<lambda>listener.
     bindR (dlb_getOrCreatePool b (lb3_Id loadbalancer) listener svc) (\<lambda>pool.
     bindR (dlb_ensurePoolAlgorithm b pool svc) (\<lambda>_.
     bindR (dlb_addOrRemoveMembers b loadbalancer svc pool port nodes) (\<lambda>_.
     bindR (dlb_health_with_first_node b (lb3_Id loadbalancer) pool port svc nodes) (\<lambda>_.
       okR (dlb_popListener listeners (l3_Id listener)))))))"

definition dlb_ensure_instance :: "'w Basic \<Rightarrow> string \<Rightarrow> service \<Rightarrow> node list \<Rightarrow> ('w, LoadBalancer) prog" where
  "dlb_ensure_instance b clusterName svc nodes =
     bindR (attempt (dlb_getLoadBalancerInstance b clusterName svc)) (\<lambda>r.
       let specifiedID = getStringFromSvsAnnotation svc ElbID [] in
       case r of
         Inr p \<Rightarrow> deref p
       | Inl e \<Rightarrow>
           if IsNotFound e \<and> specifiedID \<noteq> [] then errR e
           else if IsNotFound e
           then (case nodes of
                   [] \<Rightarrow> panicR ''index out of range''
                 | n # _ \<Rightarrow> bindR (getSubnetID b svc n) (\<lambda>subnetID.
                              bindR (dlb_createLoadbalancer b clusterName subnetID svc) deref))
           else errR e)"

definition dlb_EnsureLoadBalancer :: "'w Basic \<Rightarrow> string \<Rightarrow> service \<Rightarrow> node list \<Rightarrow> ('w, string list) prog" where
  "dlb_EnsureLoadBalancer b clusterName svc nodes =
     (if \<not> isSupportedSvc (loadbalancerOpts b) svc then errR ImplementedElsewhere
      else case ensureLoadBalancerValidation svc nodes of
        Some e \<Rightarrow> errR e
      | None \<Rightarrow>
          bindR (dlb_ensure_instance b clusterName svc nodes) (\<lambda>loadbalancer.
          bindR (d_ListListeners (clients b) (lb3_Id loadbalancer)) (\<lambda>listeners0.
          bindR (foldR (dlb_ensure_port b loadbalancer svc nodes) (svc_Ports svc) listeners0) (\<lambda>listeners.
          bindR (if getStringFromSvsAnnotation svc ElbID [] = []
                 then dlb_deleteListeners b (lb3_Id loadbalancer) listeners else okR ()) (\<lambda>_.
            okR (dlb_buildStatus loadbalancer))))))"

definition dlb_update_port ::
  "'w Basic \<Rightarrow> LoadBalancer \<Rightarrow> service \<Rightarrow> node list \<Rightarrow> Listener list \<Rightarrow> service_port \<Rightarrow> unit \<Rightarrow> ('w, unit) prog" where
  "dlb_update_port b loadbalancer svc nodes listeners port = (\<lambda>_.
     case dlb_filterListenerByPort listeners svc port of
       None \<Rightarrow> errR (StatusError CodeUnavailable (''error, can not find a listener matching '' @ port_Protocol port
                 @ '':'' @ int_str (port_Port port)))
     | Some listener \<Rightarrow>
         bindR (dlb_getOrCreatePool b (lb3_Id loadbalancer) listener svc) (\<lambda>pool.
         bindR (dlb_addOrRemoveMembers b loadbalancer svc pool port nodes) (\<lambda>_.
           dlb_health_with_first_node b (lb3_Id loadbalancer) pool port svc nodes)))"

definition dlb_UpdateLoadBalancer :: "'w Basic \<Rightarrow> string \<Rightarrow> service \<Rightarrow> node list \<Rightarrow> ('w, unit) prog" where
  "dlb_UpdateLoadBalancer b clusterName svc nodes =
     (if \<not> isSupportedSvc (loadbalancerOpts b) svc then errR ImplementedElsewhere
      else bindR (dlb_getLoadBalancerInstance b clusterName svc) (\<lambda>p.
           bindR (deref p) (\<lambda>loadbalancer.
           bindR (d_ListListeners (clients b) (lb3_Id loadbalancer)) (\<lambda>listeners.
             foldR (dlb_update_port b loadbalancer svc nodes listeners) (svc_Ports svc) ()))))"

subsection \<open>Requests issued\<close>

lemma emits_dlb_getLoadBalancerInstance [emits_intro]:
  "KRead \<in> K \<Longrightarrow> emits (dlb_getLoadBalancerInstance b c svc) (kinds K)"
  unfolding dlb_getLoadBalancerInstance_def by (intro emits_intro) simp_all

lemma emits_dlb_GetLoadBalancer [emits_intro]:
  "KRead \<in> K \<Longrightarrow> emits (dlb_GetLoadBalancer b c svc) (kinds K)"
  unfolding dlb_GetLoadBalancer_def by (intro emits_intro) simp_all

lemma emits_dlb_createLoadbalancer [emits_intro]:
  "KRead \<in> K \<Longrightarrow> KInstanceCreate \<in> K \<Longrightarrow> emits (dlb_createLoadbalancer b c sid svc) (kinds K)"
  unfolding dlb_createLoadbalancer_def by (intro emits_intro) simp_all

lemma emits_dlb_wait_active [emits_intro]:
  "KRead \<in> K \<Longrightarrow> emits (dlb_wait_active b uid msg) (kinds K)"
  unfolding dlb_wait_active_def by (intro emits_intro) simp_all

lemma emits_dlb_updateHealthMonitor [emits_intro]:
  "KMonitor \<in> K \<Longrightarrow> emits (dlb_updateHealthMonitor b uid p opts) (kinds K)"
  unfolding dlb_updateHealthMonitor_def by (intro emits_intro) simp_all

lemma emits_dlb_createHealthMonitor [emits_intro]:
  "KRead \<in> K \<Longrightarrow> KMonitor \<in> K \<Longrightarrow> emits (dlb_createHealthMonitor b lid pid p opts) (kinds K)"
  unfolding dlb_createHealthMonitor_def by (intro emits_intro) simp_all

lemma emits_dlb_ensureHealthCheck [emits_intro]:
  "KRead \<in> K \<Longrightarrow> KMonitor \<in> K \<Longrightarrow> emits (dlb_ensureHealthCheck b lid pool port svc) (kinds K)"
  unfolding dlb_ensureHealthCheck_def by (intro emits_intro) simp_all

lemma emits_dlb_getMemberIP [emits_intro]:
  "KRead \<in> K \<Longrightarrow> emits (dlb_getMemberIP b svc n p port) (kinds K)"
  unfolding dlb_getMemberIP_def Let_def
  by (auto intro!: emits_intro split: option.splits bool.splits sum.splits)

lemma emits_dlb_member_subnet [emits_intro]:
  "KRead \<in> K \<Longrightarrow> emits (dlb_member_subnet b svc lb addr) (kinds K)"
  unfolding dlb_member_subnet_def by (intro emits_intro) simp_all

lemma emits_dlb_addMember [emits_intro]:
  "KRead \<in> K \<Longrightarrow> KMember \<in> K \<Longrightarrow> emits (dlb_addMember b svc lb pool p port n) (kinds K)"
  unfolding dlb_addMember_def by (intro emits_intro) simp_all

lemma emits_dlb_deleteMember [emits_intro]:
  "KRead \<in> K \<Longrightarrow> KMember \<in> K \<Longrightarrow> emits (dlb_deleteMember b eid pid m) (kinds K)"
  unfolding dlb_deleteMember_def by (intro emits_intro) simp_all

lemma emits_dlb_addOrRemoveMembers [emits_intro]:
  "KRead \<in> K \<Longrightarrow> KMember \<in> K \<Longrightarrow> emits (dlb_addOrRemoveMembers b lb svc pool port nodes) (kinds K)"
  unfolding dlb_addOrRemoveMembers_def by (intro emits_intro) simp_all

lemma emits_dlb_getPool [emits_intro]:
  "KRead \<in> K \<Longrightarrow> emits (dlb_getPool b eid lid) (kinds K)"
  unfolding dlb_getPool_def by (intro emits_intro) simp_all

lemma emits_dlb_createPool [emits_intro]:
  "KPool \<in> K \<Longrightarrow> emits (dlb_createPool b l svc) (kinds K)"
  unfolding dlb_createPool_def Let_def by (intro emits_intro) simp_all

lemma emits_dlb_ensurePoolAlgorithm [emits_intro]:
  "KPool \<in> K \<Longrightarrow> emits (dlb_ensurePoolAlgorithm b pool svc) (kinds K)"
  unfolding dlb_ensurePoolAlgorithm_def by (intro emits_intro) simp_all

lemma emits_dlb_deletePool [emits_intro]:
  "KRead \<in> K \<Longrightarrow> KMember \<in> K \<Longrightarrow> KMonitor \<in> K \<Longrightarrow> KPool \<in> K \<Longrightarrow> emits (dlb_deletePool b pool) (kinds K)"
  unfolding dlb_deletePool_def by (intro emits_intro) simp_all

lemma emits_dlb_deleteListeners [emits_intro]:
  "KRead \<in> K \<Longrightarrow> KMember \<in> K \<Longrightarrow> KMonitor \<in> K \<Longrightarrow> KPool \<in> K \<Longrightarrow> KListener \<in> K \<Longrightarrow> emits (dlb_deleteListeners b eid ls) (kinds K)"
  unfolding dlb_deleteListeners_def by (intro emits_intro) simp_all

lemma emits_dlb_createListener [emits_intro]:
  "KListener \<in> K \<Longrightarrow> emits (dlb_createListener b eid svc port) (kinds K)"
  unfolding dlb_createListener_def Let_def by (intro emits_intro) simp_all

lemma emits_dlb_updateListener [emits_intro]:
  "KListener \<in> K \<Longrightarrow> emits (dlb_updateListener b l svc port) (kinds K)"
  unfolding dlb_updateListener_def Let_def by (intro emits_intro) simp_all

lemma emits_dlb_deleteListener [emits_intro]:
  "KRead \<in> K \<Longrightarrow> KMember \<in> K \<Longrightarrow> KMonitor \<in> K \<Longrightarrow> KPool \<in> K \<Longrightarrow> KListener \<in> K \<Longrightarrow> emits (dlb_deleteListener b lb svc) (kinds K)"
  unfolding dlb_deleteListener_def by (intro emits_intro) simp_all

lemma emits_dlb_deleteELBInstance [emits_intro]:
  "KRead \<in> K \<Longrightarrow> KMember \<in> K \<Longrightarrow> KMonitor \<in> K \<Longrightarrow> KPool \<in> K \<Longrightarrow> KListener \<in> K \<Longrightarrow> (\<not> getBoolFromSvsAnnotation svc ELBKeepEip (KeepEIP (loadbalancerOpts b)) \<Longrightarrow> KEipDelete \<in> K) \<Longrightarrow> KInstanceDelete \<in> K \<Longrightarrow> emits (dlb_deleteELBInstance b lb svc) (kinds K)"
  unfolding dlb_deleteELBInstance_def by (intro emits_intro) simp_all

lemma emits_dlb_EnsureLoadBalancerDeleted [emits_intro]:
  "KRead \<in> K \<Longrightarrow> KMember \<in> K \<Longrightarrow> KMonitor \<in> K \<Longrightarrow> KPool \<in> K \<Longrightarrow> KListener \<in> K \<Longrightarrow> (getStringFromSvsAnnotation svc ElbID [] = [] \<Longrightarrow> KInstanceDelete \<in> K) \<Longrightarrow> (getStringFromSvsAnnotation svc ElbID [] = [] \<Longrightarrow> \<not> getBoolFromSvsAnnotation svc ELBKeepEip (KeepEIP (loadbalancerOpts b)) \<Longrightarrow> KEipDelete \<in> K) \<Longrightarrow> emits (dlb_EnsureLoadBalancerDeleted b c svc) (kinds K)"
  unfolding dlb_EnsureLoadBalancerDeleted_def by (intro emits_intro) simp_all

lemma emits_dlb_getOrCreatePool [emits_intro]:
  "KRead \<in> K \<Longrightarrow> KPool \<in> K \<Longrightarrow> emits (dlb_getOrCreatePool b eid l svc) (kinds K)"
  unfolding dlb_getOrCreatePool_def by (intro emits_intro) simp_all

lemma emits_dlb_health_with_first_node [emits_intro]:
  "KRead \<in> K \<Longrightarrow> KMonitor \<in> K \<Longrightarrow> emits (dlb_health_with_first_node b eid pool port svc nodes) (kinds K)"
  unfolding dlb_health_with_first_node_def by (intro emits_intro) simp_all

lemma emits_dlb_ensure_port [emits_intro]:
  "KRead \<in> K \<Longrightarrow> KMember \<in> K \<Longrightarrow> KMonitor \<in> K \<Longrightarrow> KPool \<in> K \<Longrightarrow> KListener \<in> K \<Longrightarrow> emits (dlb_ensure_port b lb svc nodes port ls) (kinds K)"
  unfolding dlb_ensure_port_def by (intro emits_intro) simp_all

lemma emits_dlb_ensure_instance [emits_intro]:
  "KRead \<in> K \<Longrightarrow> (getStringFromSvsAnnotation svc ElbID [] = [] \<Longrightarrow> KInstanceCreate \<in> K) \<Longrightarrow> emits (dlb_ensure_instance b c svc nodes) (kinds K)"
  unfolding dlb_ensure_instance_def by (intro emits_intro) simp_all

lemma emits_dlb_EnsureLoadBalancer [emits_intro]:
  "KRead \<in> K \<Longrightarrow> KMember \<in> K \<Longrightarrow> KMonitor \<in> K \<Longrightarrow> KPool \<in> K \<Longrightarrow> KListener \<in> K \<Longrightarrow> (getStringFromSvsAnnotation svc ElbID [] = [] \<Longrightarrow> KInstanceCreate \<in> K) \<Longrightarrow> emits (dlb_EnsureLoadBalancer b c svc nodes) (kinds K)"
  unfolding dlb_EnsureLoadBalancer_def by (intro emits_intro) simp_all

lemma emits_dlb_update_port [emits_intro]:
  "KRead \<in> K \<Longrightarrow> KMember \<in> K \<Longrightarrow> KMonitor \<in> K \<Longrightarrow> KPool \<in> K \<Longrightarrow> emits (dlb_update_port b lb svc nodes ls port u) (kinds K)"
  unfolding dlb_update_port_def by (intro emits_intro) simp_all

lemma emits_dlb_UpdateLoadBalancer [emits_intro]:
  "KRead \<in> K \<Longrightarrow> KMember \<in> K \<Longrightarrow> KMonitor \<in> K \<Longrightarrow> KPool \<in> K \<Longrightarrow> emits (dlb_UpdateLoadBalancer b c svc nodes) (kinds K)"
  unfolding dlb_UpdateLoadBalancer_def by (intro emits_intro) simp_all

subsection \<open>Reconciliation of the members\<close>

definition dlb_member_addr :: "service \<Rightarrow> service_port \<Rightarrow> node \<Rightarrow> pod \<Rightarrow> error + string \<times> int" where
  "dlb_member_addr svc svcPort n p =
     (if svc_ExternalTrafficPolicy svc = ''Local'' then getEndpointFromPod svc p svcPort
      else case svc_AllocateLoadBalancerNodePorts svc of
          Some True \<Rightarrow>
            if pod_HostIP p \<noteq> [] then Inr (pod_HostIP p, port_NodePort svcPort)
            else (case getNodeAddress n of Inl e \<Rightarrow> Inl e | Inr addr \<Rightarrow> Inr (addr, port_NodePort svcPort))
        | Some False \<Rightarrow> getEndpointFromPod svc p svcPort
        | None \<Rightarrow> Inl (Errorf ''not found member IP and port''))"

fun dlb_create_event :: "string \<Rightarrow> event \<Rightarrow> (string \<times> int) option" where
  "dlb_create_event poolID (Sdk (ElbV3 (V3CreateMember pid req))) =
     (if pid = poolID then Some (cm_Address req, cm_ProtocolPort req) else None)"
| "dlb_create_event poolID _ = None"

fun dlb_delete_event :: "string \<Rightarrow> event \<Rightarrow> string option" where
  "dlb_delete_event poolID (Sdk (ElbV3 (V3DeleteMember pid mid))) = (if pid = poolID then Some mid else None)"
| "dlb_delete_event poolID _ = None"

definition dlb_created :: "string \<Rightarrow> event list \<Rightarrow> (string \<times> int) list" where
  "dlb_created poolID = List.map_filter (dlb_create_event poolID)"

definition dlb_deleted :: "string \<Rightarrow> event list \<Rightarrow> string list" where
  "dlb_deleted poolID = List.map_filter (dlb_delete_event poolID)"

lemma dlb_create_event_kind: "kind_of e \<noteq> KMember \<Longrightarrow> dlb_create_event pid e = None"
  by (cases "(pid, e)" rule: dlb_create_event.cases) auto

lemma dlb_delete_event_kind: "kind_of e \<noteq> KMember \<Longrightarrow> dlb_delete_event pid e = None"
  by (cases "(pid, e)" rule: dlb_delete_event.cases) auto

lemma dlb_log_quiet:
  assumes "emits m (kinds {KRead})" and "m s = (r, t)"
  shows "dlb_created pid (log t) = dlb_created pid (log s)" "dlb_deleted pid (log t) = dlb_deleted pid (log s)"
  unfolding dlb_created_def dlb_deleted_def
  using assms by (auto intro!: emits_map_filter dlb_create_event_kind dlb_delete_event_kind)

lemma dlb_log_snoc [simp]:
  "dlb_created pid (es @ [e]) = dlb_created pid es @ (case dlb_create_event pid e of None \<Rightarrow> [] | Some a \<Rightarrow> [a])"
  "dlb_deleted pid (es @ [e]) = dlb_deleted pid es @ (case dlb_delete_event pid e of None \<Rightarrow> [] | Some a \<Rightarrow> [a])"
  by (simp_all add: dlb_created_def dlb_deleted_def List.map_filter_def split: option.splits)

lemma dlb_getMemberIP_pure:
  "PrimaryNic (loadbalancerOpts b) \<noteq> ''force'' \<Longrightarrow>
   dlb_getMemberIP b svc n p port = (case dlb_member_addr svc port n p of Inl e \<Rightarrow> errR e | Inr a \<Rightarrow> okR a)"
  by (auto simp: dlb_getMemberIP_def dlb_member_addr_def getPrimaryIP_default split: option.splits bool.splits sum.splits)

lemma dlb_addMember_log:
  assumes "PrimaryNic (loadbalancerOpts b) \<noteq> ''force''" and "dlb_member_addr svc port n p = Inr a"
    and "dlb_addMember b svc lb pool p port n s = (Ok u, t)"
  shows "dlb_created (pool_Id pool) (log t) = dlb_created (pool_Id pool) (log s) @ [a]
     \<and> dlb_deleted (pool_Id pool) (log t) = dlb_deleted (pool_Id pool) (log s)"
proof -
  obtain addr pt where a: "a = (addr, pt)" by fastforce
  let ?req = "\<lambda>sub. \<lparr>cm_Name = Some (CutString (''member_'' @ pool_Name pool @ ''_'' @ node_Name n) 255),
     cm_ProtocolPort = pt, cm_SubnetId = sub, cm_Address = addr\<rparr>"
  from assms a obtain sub s1 x s2 where
    s1: "dlb_member_subnet b svc lb addr s = (Ok sub, s1)"
    and s2: "d_AddMember (clients b) (pool_Id pool) (?req sub) s1 = (Ok x, s2)"
    and t: "dlb_wait_active b (lb3_Id lb) ''timeout when waiting for loadbalancer to be ACTIVE after adding members, current status '' s2 = (Ok u, t)"
    unfolding dlb_addMember_def
    by (auto simp: dlb_getMemberIP_pure elim!: bindR_Ok_E simp: run_simps split: prod.splits res.splits)
  have "log s2 = log s1 @ [Sdk (ElbV3 (V3CreateMember (pool_Id pool) (?req sub)))]"
    using s2 by (rule d_AddMember_log)
  then show ?thesis
    using dlb_log_quiet [OF emits_dlb_member_subnet s1] dlb_log_quiet [OF emits_dlb_wait_active t] a by simp
qed

lemma dlb_deleteMember_log:
  assumes "dlb_deleteMember b eid pid m s = (Ok u, t)"
  shows "dlb_created pid (log t) = dlb_created pid (log s) \<and> dlb_deleted pid (log t) = dlb_deleted pid (log s) @ [mem_Id m]"
proof -
  from assms obtain r s1 where s1: "d_DeleteMember (clients b) pid (mem_Id m) s = (r, s1)"
    and t: "dlb_wait_active b eid ''timeout when waiting for loadbalancer to be ACTIVE after creating member, current provisioning status '' s1 = (Ok u, t)"
    unfolding dlb_deleteMember_def
    by (auto elim!: bindR_Ok_E simp: run_simps Let_def split: prod.splits res.splits sum.splits if_splits)
  from s1 have "log s1 = log s @ [Sdk (ElbV3 (V3DeleteMember pid (mem_Id m)))]"
    unfolding d_DeleteMember_def wrapper0_def by (rule commonWrapper_log)
  then show ?thesis using dlb_log_quiet [OF emits_dlb_wait_active t] by simp
qed

interpretation dedicated_members: member_backend
  "\<lambda>(b, svc, lb, pool, port). PrimaryNic (loadbalancerOpts b) \<noteq> ''force''"
  "\<lambda>(b, svc, lb, pool, port). dlb_member_addr svc port"
  "\<lambda>(b, svc, lb, pool, port) n p. dlb_getMemberIP b svc n p port"
  "\<lambda>(b, svc, lb, pool, port) p n. dlb_addMember b svc lb pool p port n"
  "\<lambda>(b, svc, lb, pool, port). dlb_deleteMember b (lb3_Id lb) (pool_Id pool)"
  "\<lambda>(b, svc, lb, pool, port). dlb_created (pool_Id pool)"
  "\<lambda>(b, svc, lb, pool, port). dlb_deleted (pool_Id pool)"
  by unfold_locales (auto simp: dlb_getMemberIP_pure dest: dlb_addMember_log dlb_deleteMember_log)

end
