(* ===== verification/Lb_Interface.thy ===== *)
theory Lb_Interface
  imports Shared_Load_Balancer Dedicated_Load_Balancer
begin

text \<open>
  The interface \<open>cloudprovider.LoadBalancer\<close> as the service controller uses it. \<open>provider\<close> is the
  interface value (its method table), \<open>controller_run\<close> a sequence of calls for one service, with
  errors reported back to the controller. The locale \<open>lb_provider\<close> is the contract
  the dispatcher and the controller rely on; both load balancers interpret it.
\<close>

record 'w provider =
  p_GetLoadBalancer :: "string \<Rightarrow> service \<Rightarrow> ('w, string list option \<times> bool) prog"
  p_GetLoadBalancerName :: "string \<Rightarrow> service \<Rightarrow> string"
  p_EnsureLoadBalancer :: "string \<Rightarrow> service \<Rightarrow> node list \<Rightarrow> ('w, string list option) prog"
  p_UpdateLoadBalancer :: "string \<Rightarrow> service \<Rightarrow> node list \<Rightarrow> ('w, unit) prog"
  p_EnsureLoadBalancerDeleted :: "string \<Rightarrow> service \<Rightarrow> ('w, unit) prog"

definition SharedLoadBalancer_provider :: "'w Basic \<Rightarrow> 'w provider" where
  "SharedLoadBalancer_provider b =
     \<lparr>p_GetLoadBalancer = slb_GetLoadBalancer b,
      p_GetLoadBalancerName = GetLoadBalancerName_of (loadbalancerOpts b),
      p_EnsureLoadBalancer = (\<lambda>c svc nodes. bindR (slb_EnsureLoadBalancer b c svc nodes) (\<lambda>st. okR (Some st))),
      p_UpdateLoadBalancer = slb_UpdateLoadBalancer b,
      p_EnsureLoadBalancerDeleted = slb_EnsureLoadBalancerDeleted b\<rparr>"

definition DedicatedLoadBalancer_provider :: "'w Basic \<Rightarrow> 'w provider" where
  "DedicatedLoadBalancer_provider b =
     \<lparr>p_GetLoadBalancer = dlb_GetLoadBalancer b,
      p_GetLoadBalancerName = GetLoadBalancerName_of (loadbalancerOpts b),
      p_EnsureLoadBalancer = (\<lambda>c svc nodes. bindR (dlb_EnsureLoadBalancer b c svc nodes) (\<lambda>st. okR (Some st))),
      p_UpdateLoadBalancer = dlb_UpdateLoadBalancer b,
      p_EnsureLoadBalancerDeleted = dlb_EnsureLoadBalancerDeleted b\<rparr>"

datatype lb_call = CallGet | CallEnsure "node list" | CallUpdate "node list" | CallDelete

fun controller_call :: "'w provider \<Rightarrow> string \<Rightarrow> service \<Rightarrow> lb_call \<Rightarrow> ('w, error option) prog" where
  "controller_call P c svc CallGet =
     bindR (attempt (p_GetLoadBalancer P c svc)) (\<lambda>r. okR (case r of Inl e \<Rightarrow> Some e | Inr _ \<Rightarrow> None))"
| "controller_call P c svc (CallEnsure nodes) =
     bindR (attempt (p_EnsureLoadBalancer P c svc nodes)) (\<lambda>r. okR (case r of Inl e \<Rightarrow> Some e | Inr _ \<Rightarrow> None))"
| "controller_call P c svc (CallUpdate nodes) =
     bindR (attempt (p_UpdateLoadBalancer P c svc nodes)) (\<lambda>r. okR (case r of Inl e \<Rightarrow> Some e | Inr _ \<Rightarrow> None))"
| "controller_call P c svc CallDelete =
     bindR (attempt (p_EnsureLoadBalancerDeleted P c svc)) (\<lambda>r. okR (case r of Inl e \<Rightarrow> Some e | Inr _ \<Rightarrow> None))"

definition controller_run :: "'w provider \<Rightarrow> string \<Rightarrow> service \<Rightarrow> lb_call list \<Rightarrow> ('w, error option list) prog" where
  "controller_run P c svc calls = foldR (\<lambda>call errs. bindR (controller_call P c svc call) (\<lambda>e. okR (errs @ [e]))) calls []"

text \<open>The kinds of requests a provider may issue at all, and those it may issue for a service whose
  annotation names the instance to use.\<close>

definition provider_kinds :: "kind set" where
  "provider_kinds = - {KLock, KStatus, KEvent, KSecurityGroup}"

definition named_kinds :: "kind set" where
  "named_kinds = {KRead, KMember, KMonitor, KPool, KListener, KEipCreate, KEipUpdate}"

locale lb_provider =
  fixes P :: "'w Basic \<Rightarrow> 'w provider"
  assumes get_reads: "emits (p_GetLoadBalancer (P b) c svc) (kinds {KRead})"
    and update_kinds: "emits (p_UpdateLoadBalancer (P b) c svc nodes) (kinds {KRead, KMember, KMonitor, KPool})"
    and ensure_kinds: "emits (p_EnsureLoadBalancer (P b) c svc nodes) (kinds provider_kinds)"
    and delete_kinds: "emits (p_EnsureLoadBalancerDeleted (P b) c svc) (kinds provider_kinds)"
    and ensure_named: "getStringFromSvsAnnotation svc ElbID [] \<noteq> [] \<Longrightarrow>
      emits (p_EnsureLoadBalancer (P b) c svc nodes) (kinds named_kinds)"
    and delete_named: "getStringFromSvsAnnotation svc ElbID [] \<noteq> [] \<Longrightarrow>
      emits (p_EnsureLoadBalancerDeleted (P b) c svc) (kinds named_kinds)"
    and ensure_unsupported: "\<not> isSupportedSvc (loadbalancerOpts b) svc \<Longrightarrow>
      p_EnsureLoadBalancer (P b) c svc nodes = errR ImplementedElsewhere"
    and update_unsupported: "\<not> isSupportedSvc (loadbalancerOpts b) svc \<Longrightarrow>
      p_UpdateLoadBalancer (P b) c svc nodes = errR ImplementedElsewhere"
begin

lemma call_kinds: "emits (controller_call (P b) c svc call) (kinds provider_kinds)"
proof (cases call)
  case (CallUpdate nodes)
  then show ?thesis
    using emits_mono [OF update_kinds kinds_mono] by (auto intro!: emits_intro simp: provider_kinds_def)
next
  case CallGet
  then show ?thesis
    using emits_mono [OF get_reads kinds_mono] by (auto intro!: emits_intro simp: provider_kinds_def)
qed (auto intro!: emits_intro ensure_kinds delete_kinds)

lemma named_call_kinds:
  "getStringFromSvsAnnotation svc ElbID [] \<noteq> [] \<Longrightarrow> emits (controller_call (P b) c svc call) (kinds named_kinds)"
proof (cases call)
  case (CallUpdate nodes)
  then show ?thesis
    using emits_mono [OF update_kinds kinds_mono] by (auto intro!: emits_intro simp: named_kinds_def)
next
  case CallGet
  then show ?thesis
    using emits_mono [OF get_reads kinds_mono] by (auto intro!: emits_intro simp: named_kinds_def)
qed (auto intro!: emits_intro ensure_named delete_named)

text \<open>Whatever the controller does with a service that names its instance, the instance is neither
  created nor deleted, and no EIP is deleted.\<close>

lemma named_run_kinds:
  "getStringFromSvsAnnotation svc ElbID [] \<noteq> [] \<Longrightarrow> emits (controller_run (P b) c svc calls) (kinds named_kinds)"
  unfolding controller_run_def by (intro emits_intro named_call_kinds)

lemma run_kinds: "emits (controller_run (P b) c svc calls) (kinds provider_kinds)"
  unfolding controller_run_def by (intro emits_intro call_kinds)

end

interpretation shared: lb_provider SharedLoadBalancer_provider
proof
  fix b :: "'a Basic" and c svc nodes
  show "emits (p_GetLoadBalancer (SharedLoadBalancer_provider b) c svc) (kinds {KRead})"
    by (simp add: SharedLoadBalancer_provider_def emits_slb_GetLoadBalancer)
  show "emits (p_UpdateLoadBalancer (SharedLoadBalancer_provider b) c svc nodes) (kinds {KRead, KMember, KMonitor, KPool})"
    by (simp add: SharedLoadBalancer_provider_def emits_slb_UpdateLoadBalancer)
  show "emits (p_EnsureLoadBalancer (SharedLoadBalancer_provider b) c svc nodes) (kinds provider_kinds)"
    by (auto simp: SharedLoadBalancer_provider_def provider_kinds_def intro!: emits_intro)
  show "emits (p_EnsureLoadBalancerDeleted (SharedLoadBalancer_provider b) c svc) (kinds provider_kinds)"
    by (auto simp: SharedLoadBalancer_provider_def provider_kinds_def intro!: emits_intro)
  show "emits (p_EnsureLoadBalancer (SharedLoadBalancer_provider b) c svc nodes) (kinds named_kinds)"
    "emits (p_EnsureLoadBalancerDeleted (SharedLoadBalancer_provider b) c svc) (kinds named_kinds)"
    if "getStringFromSvsAnnotation svc ElbID [] \<noteq> []"
    using that by (auto simp: SharedLoadBalancer_provider_def named_kinds_def intro!: emits_intro)
  show "p_EnsureLoadBalancer (SharedLoadBalancer_provider b) c svc nodes = errR ImplementedElsewhere"
    "p_UpdateLoadBalancer (SharedLoadBalancer_provider b) c svc nodes = errR ImplementedElsewhere"
    if "\<not> isSupportedSvc (loadbalancerOpts b) svc"
    using that by (simp_all add: SharedLoadBalancer_provider_def slb_EnsureLoadBalancer_def slb_UpdateLoadBalancer_def)
qed

interpretation dedicated: lb_provider DedicatedLoadBalancer_provider
proof
  fix b :: "'a Basic" and c svc nodes
  show "emits (p_GetLoadBalancer (DedicatedLoadBalancer_provider b) c svc) (kinds {KRead})"
    by (simp add: DedicatedLoadBalancer_provider_def emits_dlb_GetLoadBalancer)
  show "emits (p_UpdateLoadBalancer (DedicatedLoadBalancer_provider b) c svc nodes) (kinds {KRead, KMember, KMonitor, KPool})"
    by (simp add: DedicatedLoadBalancer_provider_def emits_dlb_UpdateLoadBalancer)
  show "emits (p_EnsureLoadBalancer (DedicatedLoadBalancer_provider b) c svc nodes) (kinds provider_kinds)"
    by (auto simp: DedicatedLoadBalancer_provider_def provider_kinds_def intro!: emits_intro)
  show "emits (p_EnsureLoadBalancerDeleted (DedicatedLoadBalancer_provider b) c svc) (kinds provider_kinds)"
    by (auto simp: DedicatedLoadBalancer_provider_def provider_kinds_def intro!: emits_intro)
  show "emits (p_EnsureLoadBalancer (DedicatedLoadBalancer_provider b) c svc nodes) (kinds named_kinds)"
    "emits (p_EnsureLoadBalancerDeleted (DedicatedLoadBalancer_provider b) c svc) (kinds named_kinds)"
    if "getStringFromSvsAnnotation svc ElbID [] \<noteq> []"
    using that by (auto simp: DedicatedLoadBalancer_provider_def named_kinds_def intro!: emits_intro)
  show "p_EnsureLoadBalancer (DedicatedLoadBalancer_provider b) c svc nodes = errR ImplementedElsewhere"
    "p_UpdateLoadBalancer (DedicatedLoadBalancer_provider b) c svc nodes = errR ImplementedElsewhere"
    if "\<not> isSupportedSvc (loadbalancerOpts b) svc"
    using that by (simp_all add: DedicatedLoadBalancer_provider_def dlb_EnsureLoadBalancer_def dlb_UpdateLoadBalancer_def)
qed

end
