(* ===== verification/Cloud_Provider.thy ===== *)
theory Cloud_Provider
  imports Lb_Interface
begin

text \<open>
  \<open>CloudProvider\<close> of \<open>huaweicloud.go\<close>: the dispatch of a service to the provider its annotation asks for,
  under the lock of the service, and the handler of endpoint and service events. The providers
  \<open>ELBCloud\<close> and \<open>NATCloud\<close> enter as values of the interface.
\<close>

record 'w CloudProvider =
  cp_Basic :: "'w Basic"
  cp_providers :: "LoadBalanceVersion \<rightharpoonup> 'w provider"

definition NewHWSCloud_providers :: "'w Basic \<Rightarrow> 'w provider \<Rightarrow> 'w provider \<Rightarrow> (LoadBalanceVersion \<rightharpoonup> 'w provider)" where
  "NewHWSCloud_providers basic elb dnat =
     Map.empty(VersionELB \<mapsto> elb, VersionShared \<mapsto> SharedLoadBalancer_provider basic,
               VersionDedicated \<mapsto> DedicatedLoadBalancer_provider basic, VersionNAT \<mapsto> dnat)"

definition NewHWSCloud :: "'w Basic \<Rightarrow> 'w provider \<Rightarrow> 'w provider \<Rightarrow> 'w CloudProvider" where
  "NewHWSCloud basic elb dnat = \<lparr>cp_Basic = basic, cp_providers = NewHWSCloud_providers basic elb dnat\<rparr>"

text \<open>\<open>mutexLock.Lock(key); defer mutexLock.Unlock(key)\<close>: the unlock runs on every way out.\<close>

definition with_lock :: "string \<Rightarrow> ('w, 'a) prog \<Rightarrow> ('w, 'a) prog" where
  "with_lock key m = bindR (emit (LockKey key)) (\<lambda>_ s. case m s of (r, t) \<Rightarrow> (r, t\<lparr>log := log t @ [UnlockKey key]\<rparr>))"

definition service_key :: "service \<Rightarrow> string" where
  "service_key svc = svc_Namespace svc @ ''/'' @ svc_Name svc"

definition cp_GetLoadBalancer :: "'w CloudProvider \<Rightarrow> string \<Rightarrow> service \<Rightarrow> ('w, string list option \<times> bool) prog" where
  "cp_GetLoadBalancer h clusterName svc =
     (if \<not> isSupportedSvc (loadbalancerOpts (cp_Basic h)) svc then errR ImplementedElsewhere
      else case getLoadBalancerVersion svc of
        Inl e \<Rightarrow> errR e
      | Inr lbVersion \<Rightarrow> (case cp_providers h lbVersion of
            None \<Rightarrow> okR (None, False)
          | Some provider \<Rightarrow> p_GetLoadBalancer provider clusterName svc))"

definition cp_GetLoadBalancerName :: "'w CloudProvider \<Rightarrow> string \<Rightarrow> service \<Rightarrow> string" where
  "cp_GetLoadBalancerName h clusterName svc =
     (if \<not> isSupportedSvc (loadbalancerOpts (cp_Basic h)) svc then []
      else case getLoadBalancerVersion svc of
        Inl e \<Rightarrow> []
      | Inr lbVersion \<Rightarrow> (case cp_providers h lbVersion of
            None \<Rightarrow> []
          | Some provider \<Rightarrow> p_GetLoadBalancerName provider clusterName svc))"

definition cp_EnsureLoadBalancer :: "'w CloudProvider \<Rightarrow> string \<Rightarrow> service \<Rightarrow> node list \<Rightarrow> ('w, string list option) prog" where
  "cp_EnsureLoadBalancer h clusterName svc nodes =
     (if \<not> isSupportedSvc (loadbalancerOpts (cp_Basic h)) svc then errR ImplementedElsewhere
      else with_lock (service_key svc) (case getLoadBalancerVersion svc of
        Inl e \<Rightarrow> errR e
      | Inr lbVersion \<Rightarrow> (case cp_providers h lbVersion of
            None \<Rightarrow> okR None
          | Some provider \<Rightarrow> p_EnsureLoadBalancer provider clusterName svc nodes)))"

definition cp_UpdateLoadBalancer :: "'w CloudProvider \<Rightarrow> string \<Rightarrow> service \<Rightarrow> node list \<Rightarrow> ('w, unit) prog" where
  "cp_UpdateLoadBalancer h clusterName svc nodes =
     (if \<not> isSupportedSvc (loadbalancerOpts (cp_Basic h)) svc then errR ImplementedElsewhere
      else with_lock (service_key svc) (case getLoadBalancerVersion svc of
        Inl e \<Rightarrow> errR e
      | Inr lbVersion \<Rightarrow> (case cp_providers h lbVersion of
            None \<Rightarrow> okR ()
          | Some provider \<Rightarrow> p_UpdateLoadBalancer provider clusterName svc nodes)))"

definition cp_EnsureLoadBalancerDeleted :: "'w CloudProvider \<Rightarrow> string \<Rightarrow> service \<Rightarrow> ('w, unit) prog" where
  "cp_EnsureLoadBalancerDeleted h clusterName svc =
     (if \<not> isSupportedSvc (loadbalancerOpts (cp_Basic h)) svc then errR ImplementedElsewhere
      else with_lock (service_key svc) (case getLoadBalancerVersion svc of
        Inl e \<Rightarrow> errR e
      | Inr lbVersion \<Rightarrow> (case cp_providers h lbVersion of
            None \<Rightarrow> okR ()
          | Some provider \<Rightarrow> p_EnsureLoadBalancerDeleted provider clusterName svc)))"

subsection \<open>The listener of endpoints and services\<close>

text \<open>The client of the cluster returns an empty list beside an error, which the handler only logs.\<close>

definition list_nodes :: "'w Basic \<Rightarrow> ('w, node list) prog" where
  "list_nodes b = bindR (attempt (remote (Kube ListNodes) (\<lambda>w. kube_call (clients b) w ListNodes))) (\<lambda>r. okR (case r of
       Inr (KNodes ns) \<Rightarrow> ns
     | _ \<Rightarrow> []))"

definition handle_delete :: "'w CloudProvider \<Rightarrow> string \<Rightarrow> service \<Rightarrow> ('w, unit) prog" where
  "handle_delete h clusterName svc =
     bindR (attempt (cp_EnsureLoadBalancerDeleted h clusterName svc)) (\<lambda>r. case r of
         Inl e \<Rightarrow> sendEvent ''DeleteLoadBalancer'' (''failed to clean listener for service: '' @ service_key svc
                    @ '', error: '' @ err_text e)
       | Inr _ \<Rightarrow> okR ())"

text \<open>Errors of an update that make the handler ensure the load balancer instead.\<close>

definition needs_ensure :: "error \<Rightarrow> bool" where
  "needs_ensure e \<longleftrightarrow> IsNotFound e \<or> contains (err_text e) ''error, can not find a listener matching''"

definition handle_update :: "'w CloudProvider \<Rightarrow> string \<Rightarrow> service \<Rightarrow> ('w, unit) prog" where
  "handle_update h clusterName svc =
     bindR (list_nodes (cp_Basic h)) (\<lambda>nodes.
     bindR (sendEvent ''UpdateLoadBalancer'' ''Endpoints changed, start updating'') (\<lambda>_.
     bindR (attempt (cp_UpdateLoadBalancer h clusterName svc nodes)) (\<lambda>r. case r of
         Inr _ \<Rightarrow> bindR (attempt (cp_GetLoadBalancer h clusterName svc)) (\<lambda>g. case g of
             Inl e \<Rightarrow> okR ()
           | Inr (lbStatus, exists) \<Rightarrow> if \<not> exists then okR () else updateService (cp_Basic h) svc lbStatus)
       | Inl e \<Rightarrow>
           if needs_ensure e
           then bindR (attempt (cp_EnsureLoadBalancer h clusterName svc nodes)) (\<lambda>g. case g of
                  Inl e2 \<Rightarrow> okR ()
                | Inr lbStatus \<Rightarrow> updateService (cp_Basic h) svc lbStatus)
           else okR ())))"

definition handle_service :: "'w CloudProvider \<Rightarrow> string \<Rightarrow> service \<Rightarrow> bool \<Rightarrow> ('w, unit) prog" where
  "handle_service h clusterName svc isDelete =
     (if \<not> isSupportedSvc (loadbalancerOpts (cp_Basic h)) svc then okR ()
      else if isDelete then handle_delete h clusterName svc
      else handle_update h clusterName svc)"

text \<open>The filters of the informers: endpoints of the control plane are ignored, and services are handled only
  when they name the provider's class.\<close>

definition endpoint_submitted :: "string \<Rightarrow> bool" where
  "endpoint_submitted name \<longleftrightarrow> \<not> (name = ''kube-scheduler'' \<or> name = ''kube-controller-manager'' \<or> name = ''cloud-controller-manager'')"

definition service_submitted :: "'w Basic \<Rightarrow> service \<Rightarrow> bool" where
  "service_submitted b svs \<longleftrightarrow> \<not> (svc_LoadBalancerClass svs = None \<or> \<not> isSupportedSvc (loadbalancerOpts b) svs)"

text \<open>The cache of services known not to exist maps a key to the error text while its entry lives.\<close>

definition dispatcher ::
  "'w Basic \<Rightarrow> (string \<rightharpoonup> string) \<Rightarrow> string \<Rightarrow> string \<Rightarrow> string \<Rightarrow> (service \<Rightarrow> bool \<Rightarrow> ('w, unit) prog) \<Rightarrow>
   ('w, string \<rightharpoonup> string) prog" where
  "dispatcher b invalidServiceCache namespace name eType handle =
     (let key = namespace @ ''/'' @ name in
      if invalidServiceCache key \<noteq> None then okR invalidServiceCache
      else bindR (attempt (remote (Kube (GetService namespace name)) (\<lambda>w. kube_call (clients b) w (GetService namespace name)))) (\<lambda>r.
        case r of
          Inl e \<Rightarrow> okR (if contains (err_text e) ''not found'' then invalidServiceCache(key \<mapsto> err_text e) else invalidServiceCache)
        | Inr (KService svc) \<Rightarrow>
            if svc_Type svc \<noteq> ''LoadBalancer'' \<or> \<not> isSupportedSvc (loadbalancerOpts b) svc then okR invalidServiceCache
            else if eType = ''endpointAdded'' \<and> svc_LoadBalancerClass svc \<noteq> None \<and> svc_LoadBalancerClass svc \<noteq> Some LoadBalancerClassName
            then okR invalidServiceCache
            else bindR (handle svc False) (\<lambda>_. okR invalidServiceCache)
        | Inr _ \<Rightarrow> okR invalidServiceCache))"

subsection \<open>Facts\<close>

text \<open>The critical section: the lock first, the unlock last, and only the body's events between.\<close>

lemma with_lock_log:
  assumes "emits m S" and "with_lock key m s = (r, t)"
  shows "\<exists>es. log t = log s @ LockKey key # es @ [UnlockKey key] \<and> set es \<subseteq> S"
proof -
  obtain q u where q: "m (s\<lparr>log := log s @ [LockKey key]\<rparr>) = (q, u)" by fastforce
  with assms(2) have "t = u\<lparr>log := log u @ [UnlockKey key]\<rparr>"
    by (auto simp: with_lock_def run_simps)
  with emitsD [OF assms(1) q] show ?thesis by auto
qed

lemma emits_with_lock: "emits m S \<Longrightarrow> emits (with_lock key m) (insert (LockKey key) (insert (UnlockKey key) S))"
  by (rule emitsI) (auto dest!: with_lock_log)

lemma NewHWSCloud_shared:
  "cp_Basic (NewHWSCloud b elb dnat) = b"
  "cp_providers (NewHWSCloud b elb dnat) VersionShared = Some (SharedLoadBalancer_provider b)"
  "cp_providers (NewHWSCloud b elb dnat) VersionDedicated = Some (DedicatedLoadBalancer_provider b)"
  "cp_providers (NewHWSCloud b elb dnat) VersionNotNeedLB = None"
  by (simp_all add: NewHWSCloud_def NewHWSCloud_providers_def)

end
