(* ===== verification/Scenario.thy ===== *)
theory Scenario
  imports Cloud_Provider
begin

text \<open>
  A concrete cluster and cloud on which the properties are instantiated: one node pair, a service
  of two ports, an active instance with a pool that has one current and one obsolete member.
  The services of this cloud answer every query from the same tables.
\<close>

definition reply :: "payload \<Rightarrow> error + sdk_response" where
  "reply p = Inr \<lparr>HttpStatusCode = 200, Body = p\<rparr>"

definition demo_lb :: LoadbalancerResp where
  "demo_lb = \<lparr>lb_Id = ''lb'', lb_Name = ''elb'', lb_VipPortId = ''vport'', lb_VipAddress = ''192.168.0.9'', lb_ProvisioningStatus = ''ACTIVE''\<rparr>"

definition demo_lb3 :: LoadBalancer where
  "demo_lb3 = \<lparr>lb3_Id = ''lb'', lb3_Name = ''elb'', lb3_VipAddress = ''192.168.0.9'', lb3_ProvisioningStatus = ''ACTIVE'',
     lb3_IpTargetEnable = False, lb3_Eips = []\<rparr>"

definition demo_listener :: "string \<Rightarrow> string \<Rightarrow> int \<Rightarrow> ListenerResp" where
  "demo_listener i proto port = \<lparr>li_Id = i, li_TenantId = [], li_Name = i, li_Description = [], li_AdminStateUp = True,
     li_Loadbalancers = [''lb''], li_ConnectionLimit = -1, li_Http2Enable = False, li_Protocol = proto, li_ProtocolPort = port,
     li_DefaultPoolId = [], li_DefaultTlsContainerRef = [], li_ClientCaTlsContainerRef = [], li_SniContainerRefs = [],
     li_Tags = [], li_CreatedAt = [], li_UpdatedAt = [], li_InsertHeaders = None, li_ProjectId = [], li_TlsCiphersPolicy = []\<rparr>"

definition demo_listener3 :: "string \<Rightarrow> string \<Rightarrow> int \<Rightarrow> Listener" where
  "demo_listener3 i proto port = \<lparr>l3_Id = i, l3_Name = i, l3_Description = [], l3_AdminStateUp = True,
     l3_Loadbalancers = [Some ''lb''], l3_ConnectionLimit = -1, l3_Http2Enable = False, l3_Protocol = proto, l3_ProtocolPort = port,
     l3_DefaultPoolId = [], l3_DefaultTlsContainerRef = [], l3_ClientCaTlsContainerRef = [], l3_SniContainerRefs = [],
     l3_Tags = [(Some ''env'', None)], l3_CreatedAt = [], l3_UpdatedAt = [],
     l3_InsertHeaders = Some \<lparr>ih_XForwardedELBIP = None, ih_XForwardedHost = Some False\<rparr>, l3_ProjectId = [], l3_TlsCiphersPolicy = []\<rparr>"

definition demo_pool :: Pool where
  "demo_pool = \<lparr>pool_Id = ''pool'', pool_Name = ''sg'', pool_Listeners = [''l80''], pool_HealthmonitorId = ''hm'',
     pool_Protocol = ''TCP'', pool_LbAlgorithm = ''ROUND_ROBIN''\<rparr>"

definition demo_members :: "Member list" where
  "demo_members = [\<lparr>mem_Id = ''m1'', mem_Name = ''a'', mem_Address = ''10.0.0.1'', mem_ProtocolPort = 30080\<rparr>,
                   \<lparr>mem_Id = ''m9'', mem_Name = ''z'', mem_Address = ''10.0.0.9'', mem_ProtocolPort = 30080\<rparr>]"

definition demo_server :: "string \<Rightarrow> ServerDetail" where
  "demo_server ip = zero_ServerDetail\<lparr>srv_Id := ''srv'', srv_Name := ''node'', srv_Status := ''ACTIVE'',
     srv_Flavor := Some \<lparr>sf_Id = ''s6'', sf_Name = ''s6.large'', sf_Disk = ''0'', sf_Vcpus = ''2'', sf_Ram = ''4096''\<rparr>, srv_Zone := ''az1'',
     srv_Addresses := [(''vpc'', [zero_ServerAddress\<lparr>sa_Addr := ip, sa_Primary := True, sa_Type := Some (ServerAddressOSEXTIPStype ''fixed'')\<rparr>])]\<rparr>"

definition demo_interfaces :: "InterfaceAttachment list" where
  "demo_interfaces = [\<lparr>if_PortState = Some ''ACTIVE'', if_FixedIps = Some
     [\<lparr>fip_IpAddress = Some ''10.0.0.1'', fip_SubnetId = Some ''subnet''\<rparr>,
      \<lparr>fip_IpAddress = Some ''10.0.0.2'', fip_SubnetId = Some ''subnet''\<rparr>]\<rparr>]"

fun demo_elb :: "elb_request \<Rightarrow> payload" where
  "demo_elb (ShowLoadbalancer _) = PLoadbalancer demo_lb"
| "demo_elb (ShowLoadbalancerDetail _) = PDetail (zero_Loadbalancer\<lparr>lbd_Id := ''lb''\<rparr>)"
| "demo_elb (ListLoadbalancers _) = PLoadbalancers [demo_lb]"
| "demo_elb (ListListenersReq _) = PListeners [demo_listener ''l80'' ''TCP'' 80, demo_listener ''l99'' ''TCP'' 99]"
| "demo_elb (ListPoolsReq _) = PPools [demo_pool]"
| "demo_elb (CreatePoolRequest _) = PPool demo_pool"
| "demo_elb (ListMembersReq _) = PMembers demo_members"
| "demo_elb _ = PNone"

fun demo_elb3 :: "elb3_request \<Rightarrow> payload" where
  "demo_elb3 (V3ShowLoadBalancer _) = PLoadBalancer3 demo_lb3"
| "demo_elb3 (V3ListLoadBalancers _) = PLoadBalancers3 [demo_lb3]"
| "demo_elb3 (V3ListListeners _) = PListeners3 [demo_listener3 ''l80'' ''TCP'' 80, demo_listener3 ''l99'' ''TCP'' 99]"
| "demo_elb3 (V3CreateListener _) = PListener3 (demo_listener3 ''lnew'' ''TCP'' 443)"
| "demo_elb3 (V3ListPools _ _) = PPools [demo_pool]"
| "demo_elb3 (V3CreatePool _) = PPool demo_pool"
| "demo_elb3 (V3ListMembers _ _) = PMembers demo_members"
| "demo_elb3 _ = PNone"

fun demo_eip :: "eip_request \<Rightarrow> payload" where
  "demo_eip (ListPublicips _) = PPublicips [\<lparr>eip_Id = Some ''eip'', eip_PublicIpAddress = Some ''100.1.1.1'', eip_PortId = Some ''vport''\<rparr>]"
| "demo_eip (ShowPublicip _) = PPublicip \<lparr>eip_Id = Some ''eip'', eip_PublicIpAddress = Some ''100.1.1.1'', eip_PortId = Some ''vport''\<rparr>"
| "demo_eip _ = PNone"

fun demo_ecs :: "ecs_request \<Rightarrow> payload" where
  "demo_ecs (ListServersByIp ip) = PServers (Some [demo_server ip])"
| "demo_ecs (ListServersNew ip) = PServers (Some [demo_server ip])"
| "demo_ecs (ListServerInterfaces _) = PInterfaces demo_interfaces"
| "demo_ecs (ShowServer _) = PServer (demo_server ''10.0.0.1'')"
| "demo_ecs _ = PNone"

fun demo_sdk :: "sdk_request \<Rightarrow> payload" where
  "demo_sdk (ElbV2 r) = demo_elb r"
| "demo_sdk (ElbV3 r) = demo_elb3 r"
| "demo_sdk (Eip r) = demo_eip r"
| "demo_sdk (Ecs r) = demo_ecs r"

definition demo_pod :: "string \<Rightarrow> pod" where
  "demo_pod ip = zero_pod\<lparr>pod_Namespace := ''ns'', pod_Name := ''web'', pod_NodeName := ''n1'', pod_Phase := ''Running'',
     pod_Conditions := [\<lparr>cond_Type = ''Ready'', cond_Status = ''True''\<rparr>], pod_HostIP := ip, pod_PodIP := ''172.16.0.5'',
     pod_PodIPs := [''172.16.0.5'', ''fd00::5'']\<rparr>"

definition demo_node :: node where
  "demo_node = \<lparr>node_Name = ''n1'', node_Labels = Map.empty, node_ProviderID = [], node_Unschedulable = False,
     node_Addresses = [\<lparr>addr_Type = ''InternalIP'', addr_Address = ''10.0.0.1''\<rparr>], node_Conditions = [], node_MachineID = []\<rparr>"

fun demo_kube :: "kube_request \<Rightarrow> error + kube_payload" where
  "demo_kube (ListPods _ _) = Inr (KPods [demo_pod ''10.0.0.1'', demo_pod ''10.0.0.2'', demo_pod ''10.0.0.2''])"
| "demo_kube ListNodes = Inr (KNodes [demo_node])"
| "demo_kube _ = Inr KNone"

definition demo_api :: "unit api" where
  "demo_api = \<lparr>sdk_call = (\<lambda>w r. (reply (demo_sdk r), w)), kube_call = (\<lambda>w r. (demo_kube r, w)),
     http_call = (\<lambda>w r. (Inl (Errorf ''no route to host''), w)), url_parses = (\<lambda>_. True), lookup_host = (\<lambda>_ _. Inr [])\<rparr>"

text \<open>Decoders that leave the value unchanged, as on the document \<open>{}\<close>.\<close>

definition demo_codecs :: codecs where
  "demo_codecs = \<lparr>json_health = (\<lambda>_ x. (x, None)), json_session = (\<lambda>_ x. (x, None)), json_eip = (\<lambda>_ x. (x, None)),
     json_lb_options = (\<lambda>_ x. (x, None)), json_networking = (\<lambda>_ x. (x, None)), json_metadata = (\<lambda>_ x. (x, None))\<rparr>"

definition demo_config :: CloudConfig where
  "demo_config = \<lparr>AuthOpts = \<lparr>Cloud = [], AuthURL = [], Insecure = [], Region = ''r'', AccessKey = [], SecretKey = [], ProjectID = [], InstanceVersion = []\<rparr>,
     VpcOpts = \<lparr>vpc_ID = ''vpc'', vpc_SubnetID = ''subnet'', vpc_SecurityGroupID = []\<rparr>\<rparr>"

definition demo_basic :: "unit Basic" where
  "demo_basic = \<lparr>cloudConfig = demo_config, loadbalancerOpts = LoadBalancerOpts NewDefaultELBConfig,
     networkingOpts = NetworkingOpts NewDefaultELBConfig, metadataOpts = MetadataOpts NewDefaultELBConfig,
     clients = demo_api, decoders = demo_codecs\<rparr>"

definition demo_port :: service_port where
  "demo_port = \<lparr>port_Name = ''http'', port_Protocol = ''TCP'', port_Port = 80, port_TargetPort = IntVal 8080, port_NodePort = 30080\<rparr>"

definition demo_service :: "(string \<rightharpoonup> string) \<Rightarrow> service" where
  "demo_service ann = \<lparr>svc_Namespace = ''ns'', svc_Name = ''web'', svc_UID = ''u'', svc_Annotations = ann,
     svc_Type = ''LoadBalancer'', svc_LoadBalancerClass = None, svc_Ports = [demo_port], svc_Selector = [(''app'', ''web'')],
     svc_AllocateLoadBalancerNodePorts = Some True, svc_ExternalTrafficPolicy = ''Cluster'', svc_LoadBalancerIP = [], svc_Ingress = []\<rparr>"

definition start :: "(unit, event) sys" where
  "start = \<lparr>world = (), log = []\<rparr>"

lemma demo_selectors [simp]:
  "svc_Namespace (demo_service a) = ''ns''" "svc_Name (demo_service a) = ''web''" "svc_Annotations (demo_service a) = a"
  "svc_Type (demo_service a) = ''LoadBalancer''" "svc_LoadBalancerClass (demo_service a) = None"
  "svc_Ports (demo_service a) = [demo_port]" "svc_Selector (demo_service a) = [(''app'', ''web'')]"
  "svc_AllocateLoadBalancerNodePorts (demo_service a) = Some True" "svc_ExternalTrafficPolicy (demo_service a) = ''Cluster''"
  "port_Protocol demo_port = ''TCP''" "port_Port demo_port = 80" "port_NodePort demo_port = 30080" "port_TargetPort demo_port = IntVal 8080"
  "node_Name demo_node = ''n1''" "pool_Id demo_pool = ''pool''" "pool_Name demo_pool = ''sg''" "pool_HealthmonitorId demo_pool = ''hm''"
  "pool_Listeners demo_pool = [''l80'']" "pool_LbAlgorithm demo_pool = ''ROUND_ROBIN''"
  "lb_Id demo_lb = ''lb''" "lb_VipPortId demo_lb = ''vport''" "lb_VipAddress demo_lb = ''192.168.0.9''" "lb_ProvisioningStatus demo_lb = ''ACTIVE''"
  "lb3_Id demo_lb3 = ''lb''" "lb3_IpTargetEnable demo_lb3 = False" "lb3_VipAddress demo_lb3 = ''192.168.0.9''" "lb3_Eips demo_lb3 = []"
  "lb3_ProvisioningStatus demo_lb3 = ''ACTIVE''"
  by (simp_all add: demo_service_def demo_port_def demo_node_def demo_pool_def demo_lb_def demo_lb3_def)

lemma demo_call:
  "commonWrapper demo_api req sel s =
     ((case sel (demo_sdk req) of None \<Rightarrow> Err (Errorf ''error, cannot convert'') | Some x \<Rightarrow> Ok x), s\<lparr>log := log s @ [Sdk req]\<rparr>)"
  by (cases s) (simp add: commonWrapper_def demo_api_def reply_def remote_def checkStatusCode_def OKCodes_def run_simps split: option.splits)

lemma demo_listPods:
  "listPods demo_api ns sel s =
     (Ok [demo_pod ''10.0.0.1'', demo_pod ''10.0.0.2'', demo_pod ''10.0.0.2''], s\<lparr>log := log s @ [Kube (ListPods ns sel)]\<rparr>)"
  by (cases s) (simp add: listPods_def demo_api_def remote_def run_simps)

text \<open>On an active instance the first poll ends the wait.\<close>

lemma WaitForCompleted_first:
  "condition v s = (Ok (v', Inr True), t) \<Longrightarrow> WaitForCompleted condition v s = (Ok (v', None), t)"
  by (simp add: WaitForCompleted_def DefaultSteps_def numeral_eq_Suc run_simps)

lemma demo_s_wait: "s_WaitStatusActive demo_api uid s = (Ok (Some demo_lb, None), s\<lparr>log := log s @ [Sdk (ElbV2 (ShowLoadbalancer uid))]\<rparr>)"
  unfolding s_WaitStatusActive_def
  by (rule WaitForCompleted_first) (simp add: s_GetInstance_def run_simps demo_call asLoadbalancer_def demo_lb_def)

lemma demo_d_wait: "d_WaitStatusActive demo_api uid s = (Ok (Some demo_lb3, None), s\<lparr>log := log s @ [Sdk (ElbV3 (V3ShowLoadBalancer uid))]\<rparr>)"
  unfolding d_WaitStatusActive_def
  by (rule WaitForCompleted_first) (simp add: d_GetInstance_def run_simps demo_call asLoadBalancer3_def demo_lb3_def)

lemma demo_pod_simps [simp]:
  "IsPodActive (demo_pod ip)" "pod_HostIP (demo_pod ip) = ip" "pod_NodeName (demo_pod ip) = ''n1''" "pod_PodIP (demo_pod ip) = ''172.16.0.5''"
  by (simp_all add: demo_pod_def zero_pod_def IsPodActive_def)

lemma demo_clients [simp]: "clients demo_basic = demo_api" "decoders demo_basic = demo_codecs"
  "PrimaryNic (loadbalancerOpts demo_basic) = []" "LBAlgorithm (loadbalancerOpts demo_basic) = []"
  "LoadBalancerClass (loadbalancerOpts demo_basic) = []" "KeepEIP (loadbalancerOpts demo_basic) = False"
  by (simp_all add: demo_basic_def NewDefaultELBConfig_def lb_initDefaultValue_def zero_LoadBalancerOptions_def)

lemmas demo_run = demo_call demo_listPods demo_s_wait demo_d_wait run_simps payload_selectors wrapper0_def s_client_defs d_client_defs e_client_defs
  LookupHost_def listPodsBySelector_def

lemma demo_subnet:
  "ip \<in> {''10.0.0.1'', ''10.0.0.2''} \<Longrightarrow>
   getNodeSubnetIDByHostIP demo_basic ip s =
     (Ok ''subnet'', s\<lparr>log := log s @ [Sdk (Ecs (ListServersByIp ip)), Sdk (Ecs (ListServerInterfaces ''srv''))]\<rparr>)"
  by (auto simp: getNodeSubnetIDByHostIP_def GetByNodeIP_def ecs_ListByIp_def first_server_def server_has_addr_def demo_server_def
      ecs_ListInterfaces_def subnet_of_ip_def demo_interfaces_def demo_run)

lemma demo_slb_getMemberIP:
  "ip \<noteq> [] \<Longrightarrow> slb_getMemberIP demo_basic (demo_service a) n (demo_pod ip) demo_port = okR (ip, 30080)"
  by (simp add: slb_getMemberIP_def getPrimaryIP_def)

lemma demo_dlb_getMemberIP:
  "ip \<noteq> [] \<Longrightarrow> dlb_getMemberIP demo_basic (demo_service a) n (demo_pod ip) demo_port = okR (ip, 30080)"
  by (simp add: dlb_getMemberIP_def getPrimaryIP_def)


lemma demo_slb_addMember:
  "\<exists>es. slb_addMember demo_basic (demo_service a) eid pid demo_port (demo_pod ''10.0.0.2'') n s = (Ok (), s\<lparr>log := log s @ es\<rparr>)"
  by (simp add: slb_addMember_def demo_slb_getMemberIP demo_subnet slb_wait_active_def demo_run) blast

lemma demo_dlb_addMember:
  "\<exists>es. dlb_addMember demo_basic (demo_service Map.empty) demo_lb3 pool (demo_pod ''10.0.0.2'') demo_port n s = (Ok (), s\<lparr>log := log s @ es\<rparr>)"
  by (simp add: dlb_addMember_def dlb_member_subnet_def getStringFromSvsAnnotation_def demo_dlb_getMemberIP demo_subnet dlb_wait_active_def
      d_AddMember_def demo_run) blast

lemma demo_slb_deleteMember:
  "\<exists>es. slb_deleteMember demo_basic eid pid m s = (Ok (), s\<lparr>log := log s @ es\<rparr>)"
  by (simp add: slb_deleteMember_def slb_wait_active_def demo_run) blast

lemma demo_dlb_deleteMember:
  "\<exists>es. dlb_deleteMember demo_basic eid pid m s = (Ok (), s\<lparr>log := log s @ es\<rparr>)"
  by (simp add: dlb_deleteMember_def dlb_wait_active_def demo_run) blast

lemma demo_wanted_keys:
  "(\<lambda>m. member_key (mem_Address m) (mem_ProtocolPort m)) ` set demo_members
     = {member_key ''10.0.0.1'' 30080, member_key ''10.0.0.9'' 30080}"
  by (simp add: demo_members_def)

lemma demo_pop: "popMember demo_members ''10.0.0.1'' 30080 = okR [demo_members ! Suc 0]"
  by (simp add: popMember_def pop_all_def demo_members_def upt_rec)

lemma demo_pop_none: "popMember [demo_members ! Suc 0] ''10.0.0.2'' 30080 = okR [demo_members ! Suc 0]"
  by (simp add: popMember_def pop_all_def demo_members_def upt_rec)

lemma demo_slb_reconcile:
  "\<exists>t. slb_addOrRemoveMembers demo_basic demo_lb (demo_service a) demo_pool demo_port [demo_node] s = (Ok (), t)"
proof -
  let ?s = "s\<lparr>log := log s @ [Sdk (ElbV2 (ListMembersReq ''pool'')), Kube (ListPods ''ns'' [(''app'', ''web'')])]\<rparr>"
  obtain es where add: "slb_addMember demo_basic (demo_service a) ''lb'' ''pool'' demo_port (demo_pod ''10.0.0.2'') demo_node ?s
      = (Ok (), ?s\<lparr>log := log ?s @ es\<rparr>)"
    using demo_slb_addMember by blast
  show ?thesis
    using demo_slb_deleteMember [of "''lb''" "''pool''" "demo_members ! Suc 0" "?s\<lparr>log := log ?s @ es\<rparr>"] add
    by (auto simp: slb_addOrRemoveMembers_def sync_members_def member_step_def nodeNameMapping_def demo_slb_getMemberIP
        demo_wanted_keys member_key_inject demo_pop demo_pop_none demo_run)
qed

lemma demo_dlb_reconcile:
  "\<exists>t. dlb_addOrRemoveMembers demo_basic demo_lb3 (demo_service Map.empty) demo_pool demo_port [demo_node] s = (Ok (), t)"
proof -
  let ?s = "s\<lparr>log := log s @ [Sdk (ElbV3 (V3ListMembers ''pool'' 100)), Kube (ListPods ''ns'' [(''app'', ''web'')])]\<rparr>"
  obtain es where add: "dlb_addMember demo_basic (demo_service Map.empty) demo_lb3 demo_pool (demo_pod ''10.0.0.2'') demo_port demo_node ?s
      = (Ok (), ?s\<lparr>log := log ?s @ es\<rparr>)"
    using demo_dlb_addMember by blast
  show ?thesis
    using demo_dlb_deleteMember [of "''lb''" "''pool''" "demo_members ! Suc 0" "?s\<lparr>log := log ?s @ es\<rparr>"] add
    by (auto simp: dlb_addOrRemoveMembers_def sync_members_def member_step_def nodeNameMapping_def demo_dlb_getMemberIP
        demo_wanted_keys member_key_inject demo_pop demo_pop_none demo_run)
qed

text \<open>The port of the service is served by the listener \<open>l80\<close>; the listener \<open>l99\<close> is left over.\<close>

lemma demo_ensure_port:
  "\<exists>t. slb_ensure_port demo_basic demo_lb (demo_service Map.empty) [demo_node] demo_port
     [demo_listener ''l80'' ''TCP'' 80, demo_listener ''l99'' ''TCP'' 99] s = (Ok [demo_listener ''l99'' ''TCP'' 99], t)"
proof -
  let ?ls = "[demo_listener ''l80'' ''TCP'' 80, demo_listener ''l99'' ''TCP'' 99]"
  have find: "slb_filterListenerByPort ?ls (demo_service Map.empty) demo_port = Some (demo_listener ''l80'' ''TCP'' 80)"
    by (simp add: slb_filterListenerByPort_def demo_listener_def parseProtocol_def getBoolFromSvsAnnotation_def getStringFromSvsAnnotation_def)
  have upd: "\<exists>s'. slb_updateListener demo_basic l svc s = (Ok (), s')" for l svc s
    by (simp add: slb_updateListener_def Let_def demo_run)
  have pool: "\<exists>s'. slb_getOrCreatePool demo_basic ''lb'' (demo_listener ''l80'' ''TCP'' 80) svc s = (Ok demo_pool, s')" for svc s
    by (simp add: slb_getOrCreatePool_def slb_getPool_def demo_run demo_listener_def)
  have alg: "slb_ensurePoolAlgorithm demo_basic demo_pool (demo_service Map.empty) = okR ()"
    by (simp add: slb_ensurePoolAlgorithm_def getStringFromSvsAnnotation_def)
  have health: "\<exists>s'. slb_health_with_first_node demo_basic ''lb'' demo_pool demo_port (demo_service Map.empty) [demo_node] s = (Ok (), s')" for s
    by (simp add: slb_health_with_first_node_def slb_ensureHealthCheck_def slb_updateHealthMonitor_def Let_def demo_run
        getHealthCheckOptionFromAnnotation_def getStringFromSvsAnnotation_def demo_codecs_def)
  have pop: "slb_popListener ?ls (li_Id (demo_listener ''l80'' ''TCP'' 80)) = [demo_listener ''l99'' ''TCP'' 99]"
    by (simp add: slb_popListener_def pop_first_def demo_listener_def upt_rec)
  obtain s1 where 1: "slb_updateListener demo_basic (demo_listener ''l80'' ''TCP'' 80) (demo_service Map.empty) s = (Ok (), s1)" using upd by blast
  obtain s2 where 2: "slb_getOrCreatePool demo_basic ''lb'' (demo_listener ''l80'' ''TCP'' 80) (demo_service Map.empty) s1 = (Ok demo_pool, s2)" using pool by blast
  obtain s3 where 3: "slb_addOrRemoveMembers demo_basic demo_lb (demo_service Map.empty) demo_pool demo_port [demo_node] s2 = (Ok (), s3)"
    using demo_slb_reconcile by blast
  obtain s4 where 4: "slb_health_with_first_node demo_basic ''lb'' demo_pool demo_port (demo_service Map.empty) [demo_node] s3 = (Ok (), s4)"
    using health by blast
  show ?thesis by (simp add: slb_ensure_port_def find alg pop run_bindR run_okR 1 2 3 4)
qed

end
