(* ===== verification/Members_Correct.thy ===== *)
theory Members_Correct
  imports Scenario
begin

text \<open>
  The members of a pool after \<open>addOrRemoveMembers\<close>, for both load balancers, and the slice removal
  they use. The statements come from the interpretations of \<open>member_backend\<close> and \<open>keyed_pop\<close>.
\<close>

text \<open>
  C1. Reconciliation (shared). When the primary network card is not forced and the members of the
  pool have distinct endpoints, a successful \<open>addOrRemoveMembers\<close> requests the creation of every wanted
  endpoint the pool lacks exactly once and of nothing else, and the deletion of exactly the
  members whose endpoint no ready, scheduled pod wants.
\<close>

theorem shared_members_reconciled:
  assumes "PrimaryNic (loadbalancerOpts b) \<noteq> ''force''"
    and "s_ListMembers (clients b) (pool_Id pool) s = (Ok ms, s1)"
    and "listPodsBySelector b (svc_Namespace svc) (svc_Selector svc) s1 = (Ok ps, s2)"
    and "distinct (map endpoint ms)"
    and "slb_addOrRemoveMembers b lb svc pool port nodes s = (Ok (), t)"
  shows "\<exists>new gone. slb_created (pool_Id pool) (log t) = slb_created (pool_Id pool) (log s) @ new \<and> distinct new
      \<and> set new = desired_members (slb_member_addr svc port) nodes ps - endpoint ` set ms
      \<and> slb_deleted (pool_Id pool) (log t) = slb_deleted (pool_Id pool) (log s) @ gone
      \<and> mset gone = image_mset mem_Id (filter_mset (\<lambda>m. endpoint m \<notin> desired_members (slb_member_addr svc port) nodes ps) (mset ms))"
proof -
  have quiet: "slb_created (pool_Id pool) (log s2) = slb_created (pool_Id pool) (log s)"
    "slb_deleted (pool_Id pool) (log s2) = slb_deleted (pool_Id pool) (log s)"
    using slb_log_quiet [OF emits_s_ListMembers assms(2)] slb_log_quiet [OF emits_listPodsBySelector assms(3)] by simp_all
  show ?thesis
    using shared_members.sync_members_exact [where env = "(b, svc, lb_Id lb, pool_Id pool, port)" and nodes = nodes
        and lm = "s_ListMembers (clients b) (pool_Id pool)" and lp = "listPodsBySelector b (svc_Namespace svc) (svc_Selector svc)"]
      quiet assms by (simp add: slb_addOrRemoveMembers_def)
qed

text \<open>
  C2. Reconciliation (dedicated), with the endpoint of a pod chosen by \<open>dlb_member_addr\<close>: the pod's own
  address for local traffic, the node's otherwise.
\<close>

theorem dedicated_members_reconciled:
  assumes "PrimaryNic (loadbalancerOpts b) \<noteq> ''force''"
    and "d_ListMembers (clients b) (pool_Id pool) 100 s = (Ok ms, s1)"
    and "listPodsBySelector b (svc_Namespace svc) (svc_Selector svc) s1 = (Ok ps, s2)"
    and "distinct (map endpoint ms)"
    and "dlb_addOrRemoveMembers b lb svc pool port nodes s = (Ok (), t)"
  shows "\<exists>new gone. dlb_created (pool_Id pool) (log t) = dlb_created (pool_Id pool) (log s) @ new \<and> distinct new
      \<and> set new = desired_members (dlb_member_addr svc port) nodes ps - endpoint ` set ms
      \<and> dlb_deleted (pool_Id pool) (log t) = dlb_deleted (pool_Id pool) (log s) @ gone
      \<and> mset gone = image_mset mem_Id (filter_mset (\<lambda>m. endpoint m \<notin> desired_members (dlb_member_addr svc port) nodes ps) (mset ms))"
proof -
  have quiet: "dlb_created (pool_Id pool) (log s2) = dlb_created (pool_Id pool) (log s)"
    "dlb_deleted (pool_Id pool) (log s2) = dlb_deleted (pool_Id pool) (log s)"
    using dlb_log_quiet [OF emits_d_ListMembers assms(2)] dlb_log_quiet [OF emits_listPodsBySelector assms(3)] by simp_all
  show ?thesis
    using dedicated_members.sync_members_exact [where env = "(b, svc, lb, pool, port)" and nodes = nodes
        and lm = "d_ListMembers (clients b) (pool_Id pool) 100" and lp = "listPodsBySelector b (svc_Namespace svc) (svc_Selector svc)"]
      quiet assms by (simp add: dlb_addOrRemoveMembers_def)
qed

subsection \<open>The scenario\<close>

lemma demo_listed:
  "s_ListMembers demo_api ''pool'' start = (Ok demo_members, start\<lparr>log := [Sdk (ElbV2 (ListMembersReq ''pool''))]\<rparr>)"
  "d_ListMembers demo_api ''pool'' 100 start = (Ok demo_members, start\<lparr>log := [Sdk (ElbV3 (V3ListMembers ''pool'' 100))]\<rparr>)"
  by (simp_all add: demo_run start_def)

lemma demo_pods_listed:
  "listPodsBySelector demo_basic ns sel s =
     (Ok [demo_pod ''10.0.0.1'', demo_pod ''10.0.0.2'', demo_pod ''10.0.0.2''], s\<lparr>log := log s @ [Kube (ListPods ns sel)]\<rparr>)"
  by (simp add: demo_run)

lemma demo_distinct: "distinct (map endpoint demo_members)"
  by (simp add: demo_members_def endpoint_def)

lemma demo_desired:
  "desired_members (slb_member_addr (demo_service Map.empty) demo_port) [demo_node] [demo_pod ''10.0.0.1'', demo_pod ''10.0.0.2'', demo_pod ''10.0.0.2'']
     = {(''10.0.0.1'', 30080), (''10.0.0.2'', 30080)}"
  by (simp add: desired_members_def List.map_filter_def wanted_def nodeNameMapping_def slb_member_addr_def)

theorem shared_members_reconciled_witness:
  "\<exists>t new. slb_addOrRemoveMembers demo_basic demo_lb (demo_service Map.empty) demo_pool demo_port [demo_node] start = (Ok (), t)
     \<and> slb_created ''pool'' (log t) = new \<and> distinct new \<and> set new = {(''10.0.0.2'', 30080)}"
proof -
  obtain t where t: "slb_addOrRemoveMembers demo_basic demo_lb (demo_service Map.empty) demo_pool demo_port [demo_node] start = (Ok (), t)"
    using demo_slb_reconcile by blast
  show ?thesis
    using shared_members_reconciled [OF _ _ demo_pods_listed _ t, of demo_members] demo_listed(1) demo_distinct t
    by (auto simp: demo_desired demo_members_def endpoint_def slb_created_def start_def List.map_filter_def)
qed

lemma demo_dlb_desired:
  "desired_members (dlb_member_addr (demo_service Map.empty) demo_port) [demo_node] [demo_pod ''10.0.0.1'', demo_pod ''10.0.0.2'', demo_pod ''10.0.0.2'']
     = {(''10.0.0.1'', 30080), (''10.0.0.2'', 30080)}"
  by (simp add: desired_members_def List.map_filter_def wanted_def nodeNameMapping_def dlb_member_addr_def)

theorem dedicated_members_reconciled_witness:
  "\<exists>t gone. dlb_addOrRemoveMembers demo_basic demo_lb3 (demo_service Map.empty) demo_pool demo_port [demo_node] start = (Ok (), t)
     \<and> dlb_deleted ''pool'' (log t) = gone \<and> mset gone = {#''m9''#}"
proof -
  obtain t where t: "dlb_addOrRemoveMembers demo_basic demo_lb3 (demo_service Map.empty) demo_pool demo_port [demo_node] start = (Ok (), t)"
    using demo_dlb_reconcile by blast
  show ?thesis
    using dedicated_members_reconciled [OF _ _ demo_pods_listed _ t, of demo_members] demo_listed(2) demo_distinct t
    by (auto simp: demo_dlb_desired demo_members_def endpoint_def dlb_deleted_def start_def List.map_filter_def)
qed

end
