(* ===== verification/Lifecycle_Correct.thy ===== *)
theory Lifecycle_Correct
  imports Scenario
begin

text \<open>
  What the load balancers may do to instances, EIPs, listeners, pools and monitors, whatever the cloud
  answers. The bounds on the requests come from the interpretations of \<open>lb_provider\<close>.
\<close>

lemma emits_snd: "emits m S \<Longrightarrow> \<exists>es. log (snd (m s)) = log s @ es \<and> set es \<subseteq> S"
  by (simp add: emits_def)

abbreviation named_ann :: "string \<rightharpoonup> string" where
  "named_ann \<equiv> [ElbID \<mapsto> ''lb'', ElbClass \<mapsto> ''shared'']"

lemma named_ann_ElbID: "getStringFromSvsAnnotation (demo_service named_ann) ElbID [] = ''lb''"
  by (simp add: getStringFromSvsAnnotation_def)

text \<open>
  An instance named by the annotation is never created or deleted by the shared load balancer, and
  no EIP is deleted, over any sequence of controller calls and any answers of the cloud.
\<close>

theorem shared_named_instance_kept:
  assumes "getStringFromSvsAnnotation svc ElbID [] \<noteq> []"
  shows "\<exists>es. log (snd (controller_run (SharedLoadBalancer_provider b) c svc calls s)) = log s @ es
     \<and> (\<forall>e\<in>set es. kind_of e \<notin> {KInstanceCreate, KInstanceDelete, KEipDelete})"
  using emits_snd [OF shared.named_run_kinds [OF assms]] by (fastforce simp: named_kinds_def)

theorem shared_named_instance_kept_witness:
  "\<exists>es. log (snd (controller_run (SharedLoadBalancer_provider demo_basic) ''c'' (demo_service named_ann)
            [CallEnsure [demo_node], CallDelete] start)) = [] @ es
     \<and> (\<forall>e\<in>set es. kind_of e \<notin> {KInstanceCreate, KInstanceDelete, KEipDelete})"
  using shared_named_instance_kept [of "demo_service named_ann" demo_basic "''c''" "[CallEnsure [demo_node], CallDelete]" start]
  by (simp add: named_ann_ElbID start_def)

text \<open>The same for the dedicated load balancer.\<close>

theorem dedicated_named_instance_kept:
  assumes "getStringFromSvsAnnotation svc ElbID [] \<noteq> []"
  shows "\<exists>es. log (snd (controller_run (DedicatedLoadBalancer_provider b) c svc calls s)) = log s @ es
     \<and> (\<forall>e\<in>set es. kind_of e \<notin> {KInstanceCreate, KInstanceDelete, KEipDelete})"
  using emits_snd [OF dedicated.named_run_kinds [OF assms]] by (fastforce simp: named_kinds_def)

theorem dedicated_named_instance_kept_witness:
  "\<exists>es. log (snd (controller_run (DedicatedLoadBalancer_provider demo_basic) ''c'' (demo_service named_ann)
            [CallUpdate [demo_node], CallDelete, CallGet] start)) = [] @ es
     \<and> (\<forall>e\<in>set es. kind_of e \<notin> {KInstanceCreate, KInstanceDelete, KEipDelete})"
  using dedicated_named_instance_kept [of "demo_service named_ann" demo_basic "''c''" "[CallUpdate [demo_node], CallDelete, CallGet]" start]
  by (simp add: named_ann_ElbID start_def)

text \<open>
  C6. With \<open>keep-eip\<close> set by the annotation or the configuration, deleting a load balancer never
  deletes an EIP, for both load balancers.
\<close>

theorem keep_eip_never_deletes:
  assumes "getBoolFromSvsAnnotation svc ELBKeepEip (KeepEIP (loadbalancerOpts b))"
  shows "(\<exists>es. log (snd (slb_EnsureLoadBalancerDeleted b c svc s)) = log s @ es \<and> (\<forall>e\<in>set es. kind_of e \<noteq> KEipDelete))
     \<and> (\<exists>es. log (snd (dlb_EnsureLoadBalancerDeleted b c svc s)) = log s @ es \<and> (\<forall>e\<in>set es. kind_of e \<noteq> KEipDelete))"
proof -
  have "emits (slb_EnsureLoadBalancerDeleted b c svc) (kinds (- {KEipDelete}))"
    "emits (dlb_EnsureLoadBalancerDeleted b c svc) (kinds (- {KEipDelete}))"
    using assms by (auto intro!: emits_slb_EnsureLoadBalancerDeleted emits_dlb_EnsureLoadBalancerDeleted)
  from emits_snd [OF this(1), of s] emits_snd [OF this(2), of s] show ?thesis by fastforce
qed

theorem keep_eip_never_deletes_witness:
  "\<exists>es. log (snd (slb_EnsureLoadBalancerDeleted demo_basic ''c'' (demo_service [ELBKeepEip \<mapsto> ''true'']) start)) = [] @ es
     \<and> (\<forall>e\<in>set es. kind_of e \<noteq> KEipDelete)"
  using keep_eip_never_deletes [of "demo_service [ELBKeepEip \<mapsto> ''true'']" demo_basic "''c''" start]
  by (simp add: getBoolFromSvsAnnotation_def start_def)

subsection \<open>Deleting a shared instance\<close>

text \<open>The removal of a listener, and the requests by which an EIP is unbound and, unless it is kept, deleted.\<close>

fun removes_listener :: "event \<Rightarrow> bool" where
  "removes_listener (Sdk (ElbV2 (DeleteListenerReq _))) = True"
| "removes_listener _ = False"

abbreviation removal :: "ListenerResp \<Rightarrow> event" where
  "removal l \<equiv> Sdk (ElbV2 (DeleteListenerReq (li_Id l)))"

definition eip_released :: "bool \<Rightarrow> string \<Rightarrow> event list" where
  "eip_released keep uid = Sdk (Eip (UpdatePublicip uid [])) # (if keep then [] else [Sdk (Eip (DeletePublicip uid))])"

text \<open>The EIP that is released: the one the service names, or else the first one that is listed for the port of the instance.\<close>

definition eip_requests :: "bool \<Rightarrow> string \<Rightarrow> string \<Rightarrow> Publicip list res \<Rightarrow> event list" where
  "eip_requests keep named port listed =
     (if named \<noteq> [] then eip_released keep named
      else Sdk (Eip (ListPublicips port)) # (case listed of
          Ok (ip # _) \<Rightarrow> (case eip_Id ip of Some uid \<Rightarrow> eip_released keep uid | None \<Rightarrow> [])
        | _ \<Rightarrow> []))"

text \<open>
  The list of pools of an instance is not answered by a not-found error. (Such an answer would count as success of the removal
  of a listener before the request is sent.)
\<close>

definition pools_listed :: "'w api \<Rightarrow> string \<Rightarrow> bool" where
  "pools_listed A elbID \<longleftrightarrow> (\<forall>s e t. s_ListPools A elbID s = (Err e, t) \<longrightarrow> \<not> IsNotFound e)"

lemma removes_listener_kind: "removes_listener e \<Longrightarrow> kind_of e = KListener"
  by (induction e rule: removes_listener.induct) simp_all

lemma no_removal:
  assumes "emits m (kinds K)" "KListener \<notin> K" "m s = (r, t)"
  obtains es where "log t = log s @ es" "filter removes_listener es = []"
proof -
  obtain es where es: "log t = log s @ es" "set es \<subseteq> kinds K" using emitsD [OF assms(1,3)] by blast
  then have "\<not> removes_listener e" if "e \<in> set es" for e using that assms(2) removes_listener_kind by fastforce
  then show thesis using that es(1) by (simp add: filter_empty_conv)
qed

lemma s_DeleteListener_removes:
  assumes "s_DeleteListener A elbID i s = (Ok x, t)"
  shows "\<exists>es. log t = log s @ es \<and> filter removes_listener es = [Sdk (ElbV2 (DeleteListenerReq i))]"
  using assms
  by (auto simp: s_DeleteListener_def s_ListPools_def s_GetListener_def wrapper0_def run_simps Let_def
      split: prod.splits res.splits if_splits dest!: commonWrapper_log)

lemma s_DeleteListener_error:
  assumes "s_DeleteListener A elbID i s = (Err e, t)" "pools_listed A elbID"
  shows "\<not> IsNotFound e"
  using assms by (auto simp: s_DeleteListener_def pools_listed_def run_simps Let_def split: prod.splits res.splits if_splits)

text \<open>One round of the loop over the listeners: if it adds no error, it has sent the removal of its listener and no other.\<close>

definition delete_listener_step :: "'w Basic \<Rightarrow> string \<Rightarrow> ListenerResp \<Rightarrow> error list \<Rightarrow> ('w, error list) prog" where
  "delete_listener_step b elbID lis errs =
     bindR (attempt (s_DeleteListener (clients b) elbID (li_Id lis))) (\<lambda>r. case r of
         Inl e \<Rightarrow> if IsNotFound e then okR errs
                  else okR (errs @ [Errorf (''failed to delete ELB listener '' @ li_Id lis @ '' : '' @ err_text e @ '' '')])
       | Inr _ \<Rightarrow> okR errs)"

definition delete_round :: "'w Basic \<Rightarrow> string \<Rightarrow> ListenerResp \<Rightarrow> error list \<Rightarrow> ('w, error list) prog" where
  "delete_round b elbID lis errs =
     bindR (attempt (slb_getPool b elbID (li_Id lis))) (\<lambda>r. case r of
         Inl e \<Rightarrow> if IsNotFound e then delete_listener_step b elbID lis errs else okR (errs @ [e])
       | Inr pool \<Rightarrow> bindR (slb_deletePool b pool) (\<lambda>delErrs. delete_listener_step b elbID lis (errs @ delErrs)))"

lemma slb_deleteListeners_rounds:
  "slb_deleteListeners b elbID listeners = bindR (foldR (delete_round b elbID) listeners [])
     (\<lambda>errs. if length errs \<noteq> 0 then errR (Errorf (''failed to delete listeners: '' @ err_text (Aggregate errs))) else okR ())"
  unfolding slb_deleteListeners_def Let_def delete_round_def [abs_def] delete_listener_step_def by (rule refl)

lemma delete_listener_step_removes:
  assumes "delete_listener_step b elbID lis errs s = (Ok [], t)" "pools_listed (clients b) elbID"
  shows "errs = [] \<and> (\<exists>es. log t = log s @ es \<and> filter removes_listener es = [removal lis])"
  using assms s_DeleteListener_removes s_DeleteListener_error
  by (fastforce simp: delete_listener_step_def run_simps split: prod.splits res.splits if_splits)

lemma delete_round_removes:
  assumes run: "delete_round b elbID lis errs s = (Ok [], t)" and pools: "pools_listed (clients b) elbID"
  shows "errs = [] \<and> (\<exists>es. log t = log s @ es \<and> filter removes_listener es = [removal lis])"
proof -
  obtain q u where q: "slb_getPool b elbID (li_Id lis) s = (q, u)" by fastforce
  have "emits (slb_getPool b elbID (li_Id lis)) (kinds {KRead})" by (intro emits_intro) simp
  from no_removal [OF this _ q] obtain es where es: "log u = log s @ es" "filter removes_listener es = []" by auto
  show ?thesis
  proof (cases q)
    case (Err e)
    then have "delete_listener_step b elbID lis errs u = (Ok [], t)"
      using run q by (simp add: delete_round_def run_simps split: if_splits)
    from delete_listener_step_removes [OF this pools] es show ?thesis by auto
  next
    case (Ok pool)
    obtain p v where p: "slb_deletePool b pool u = (p, v)" by fastforce
    have "emits (slb_deletePool b pool) (kinds {KRead, KMember, KMonitor, KPool})" by (intro emits_intro) simp_all
    from no_removal [OF this _ p] obtain es' where es': "log v = log u @ es'" "filter removes_listener es' = []" by auto
    obtain ds where "delete_listener_step b elbID lis (errs @ ds) v = (Ok [], t)"
      using run q Ok p by (cases p) (simp_all add: delete_round_def run_simps)
    from delete_listener_step_removes [OF this pools] es es' show ?thesis by auto
  qed (use run q in \<open>simp add: delete_round_def run_simps\<close>)
qed

lemma deleteListeners_removes:
  assumes "slb_deleteListeners b elbID ls s = (Ok x, t)" and pools: "pools_listed (clients b) elbID"
  shows "\<exists>es. log t = log s @ es \<and> filter removes_listener es = map removal ls"
proof -
  have rounds: "foldR (delete_round b elbID) ls [] s = (Ok [], t)"
    using assms(1) by (auto simp: slb_deleteListeners_rounds run_simps split: prod.splits res.splits if_splits)
  have "\<exists>es. errs = [] \<and> log t = log s @ es \<and> filter removes_listener es = map removal ls" if "foldR (delete_round b elbID) ls errs s = (Ok [], t)" for errs s
    using that
  proof (induction ls arbitrary: errs s)
    case Nil
    then show ?case by (simp add: run_simps)
  next
    case (Cons l ls)
    then obtain errs' u where u: "delete_round b elbID l errs s = (Ok errs', u)" "foldR (delete_round b elbID) ls errs' u = (Ok [], t)"
      by (auto elim: bindR_Ok_E)
    from Cons.IH [OF u(2)] obtain es where es: "errs' = []" "log t = log u @ es" "filter removes_listener es = map removal ls" by blast
    from delete_round_removes [OF _ pools] u(1) es(1) obtain es' where
      "errs = []" "log u = log s @ es'" "filter removes_listener es' = [removal l]" by blast
    with es show ?case by auto
  qed
  from this [OF rounds] show ?thesis by blast
qed

lemma unbindEIP_requests:
  assumes "unbindEIP A port named keep s = (Ok x, t)"
  shows "log t = log s @ eip_requests keep named port (fst (e_List A port s))"
  using assms
  by (auto simp: unbindEIP_def eip_requests_def eip_released_def e_client_defs wrapper0_def run_simps
      split: prod.splits res.splits list.splits option.splits if_splits dest!: commonWrapper_log)

text \<open>Two computations that delete no instance, and a last one, which runs if both succeed.\<close>

lemma runs_last:
  assumes kinds: "emits m (kinds (- {KInstanceDelete}))" "emits n (kinds (- {KInstanceDelete}))"
    and last: "\<And>s. log (snd (d s)) = log s @ [e]"
  obtains u v x y es es' where "m s = (Ok x, u)" "n u = (Ok y, v)" "log u = log s @ es" "log v = log u @ es'"
      "\<forall>e\<in>set es. kind_of e \<noteq> KInstanceDelete" "log (snd (bindR m (\<lambda>_. bindR n (\<lambda>_. d)) s)) = log s @ es @ es' @ [e]"
    | new where "\<forall>x. fst (bindR m (\<lambda>_. bindR n (\<lambda>_. d)) s) \<noteq> Ok x" "log (snd (bindR m (\<lambda>_. bindR n (\<lambda>_. d)) s)) = log s @ new"
      "\<forall>e\<in>set new. kind_of e \<noteq> KInstanceDelete"
proof -
  obtain r u where u: "m s = (r, u)" by fastforce
  obtain es where es: "log u = log s @ es" "\<forall>e\<in>set es. kind_of e \<noteq> KInstanceDelete" using emitsD [OF kinds(1) u] by fastforce
  obtain q v where v: "n u = (q, v)" by fastforce
  obtain es' where es': "log v = log u @ es'" "\<forall>e\<in>set es'. kind_of e \<noteq> KInstanceDelete" using emitsD [OF kinds(2) v] by fastforce
  have both: "\<forall>e\<in>set (es @ es'). kind_of e \<noteq> KInstanceDelete" using es es' by auto
  show thesis
  proof (cases r)
    case (Ok x)
    show thesis
    proof (cases q)
      case q: (Ok y)
      show thesis by (rule that(1) [of x u y v es es']) (use Ok q u v es es' last [of v] in \<open>simp_all add: run_bindR\<close>)
    qed (rule that(2) [of "es @ es'"]; use Ok u v es es' both in \<open>simp add: run_bindR\<close>)+
  qed (rule that(2) [of es]; use u es in \<open>simp add: run_bindR\<close>)+
qed

lemma listed_then_removed:
  assumes "bindR (s_ListListeners (clients b) elbID) (slb_deleteListeners b elbID) s = (Ok x, u)" "pools_listed (clients b) elbID" "log u = log s @ es"
  obtains ls where "fst (s_ListListeners (clients b) elbID s) = Ok ls" "filter removes_listener es = map removal ls"
proof -
  obtain ls w where ls: "s_ListListeners (clients b) elbID s = (Ok ls, w)" and del: "slb_deleteListeners b elbID ls w = (Ok x, u)"
    using assms(1) by (auto elim: bindR_Ok_E)
  have "log w = log s @ [Sdk (ElbV2 (ListListenersReq elbID))]" using ls by (auto simp: s_ListListeners_def dest: commonWrapper_log)
  then show thesis using that [of ls] ls deleteListeners_removes [OF del assms(2)] assms(3) by auto
qed

lemma s_DeleteInstance_log: "log (snd (s_DeleteInstance A uid s)) = log s @ [Sdk (ElbV2 (DeleteLoadbalancer uid))]"
  by (cases "s_DeleteInstance A uid s") (auto simp: s_DeleteInstance_def wrapper0_def dest: commonWrapper_log)

text \<open>
  C7. Deletion order (shared). When \<open>deleteELBInstance\<close> asks for the deletion of the instance, this is its very last request, and
  before it, it has asked for the removal of exactly the listeners listed for the instance, in their order, and then
  for exactly the requests that release the EIP: the listing by the port unless the service names the EIP, the unbinding, and the
  deletion unless the EIP is kept. Without the request to delete the instance the call does not succeed.
\<close>

theorem shared_instance_deleted_last:
  fixes b :: "'w Basic"
  assumes "pools_listed (clients b) (lb_Id lb)"
  shows "\<exists>new. log (snd (slb_deleteELBInstance b lb svc s)) = log s @ new
     \<and> (if Sdk (ElbV2 (DeleteLoadbalancer (lb_Id lb))) \<in> set new
        then \<exists>ls es u. fst (s_ListListeners (clients b) (lb_Id lb) s) = Ok ls
           \<and> log (u :: ('w, event) sys) = log s @ es \<and> filter removes_listener es = map removal ls \<and> (\<forall>e\<in>set es. kind_of e \<noteq> KInstanceDelete)
           \<and> new = es
               @ eip_requests (getBoolFromSvsAnnotation svc ELBKeepEip (KeepEIP (loadbalancerOpts b)))
                   (getStringFromSvsAnnotation svc ElbEipID []) (lb_VipPortId lb) (fst (e_List (clients b) (lb_VipPortId lb) u))
               @ [Sdk (ElbV2 (DeleteLoadbalancer (lb_Id lb)))]
        else (\<forall>x. fst (slb_deleteELBInstance b lb svc s) \<noteq> Ok x) \<and> (\<forall>e\<in>set new. kind_of e \<noteq> KInstanceDelete))"
proof -
  let ?listeners = "bindR (s_ListListeners (clients b) (lb_Id lb)) (slb_deleteListeners b (lb_Id lb))"
  let ?eip = "unbindEIP (clients b) (lb_VipPortId lb) (getStringFromSvsAnnotation svc ElbEipID [])
     (getBoolFromSvsAnnotation svc ELBKeepEip (KeepEIP (loadbalancerOpts b)))"
  let ?delete = "s_DeleteInstance (clients b) (lb_Id lb)"
  have whole: "slb_deleteELBInstance b lb svc = bindR ?listeners (\<lambda>_. bindR ?eip (\<lambda>_. ?delete))"
    by (simp add: slb_deleteELBInstance_def bindR_assoc)
  have kinds: "emits ?listeners (kinds (- {KInstanceDelete}))" "emits ?eip (kinds (- {KInstanceDelete}))"
    by (intro emits_intro; simp)+
  show ?thesis
  proof (rule runs_last [OF kinds s_DeleteInstance_log, where s = s])
    fix u v es es' and x y :: unit
    assume run: "?listeners s = (Ok x, u)" "?eip u = (Ok y, v)" "log u = log s @ es" "log v = log u @ es'"
      and new: "\<forall>e\<in>set es. kind_of e \<noteq> KInstanceDelete"
        "log (snd (bindR ?listeners (\<lambda>_. bindR ?eip (\<lambda>_. ?delete)) s)) = log s @ es @ es' @ [Sdk (ElbV2 (DeleteLoadbalancer (lb_Id lb)))]"
    obtain ls where "fst (s_ListListeners (clients b) (lb_Id lb) s) = Ok ls" "filter removes_listener es = map removal ls"
      using listed_then_removed [OF run(1) assms run(3)] .
    then show ?thesis using run(3,4) new [folded whole] unbindEIP_requests [OF run(2)]
      by (intro exI [of _ "es @ es' @ [Sdk (ElbV2 (DeleteLoadbalancer (lb_Id lb)))]"]) auto
  next
    fix new
    assume "\<forall>x. fst (bindR ?listeners (\<lambda>_. bindR ?eip (\<lambda>_. ?delete)) s) \<noteq> Ok x" "log (snd (bindR ?listeners (\<lambda>_. bindR ?eip (\<lambda>_. ?delete)) s)) = log s @ new"
      "\<forall>e\<in>set new. kind_of e \<noteq> KInstanceDelete"
    from this [folded whole] show ?thesis by (intro exI [of _ new]) auto
  qed
qed

text \<open>The cloud of the scenario with an instance whose two listeners have no pools: both are removed, and the EIP of its port is released.\<close>

definition no_pools_basic :: "unit Basic" where
  "no_pools_basic = demo_basic\<lparr>clients := demo_api\<lparr>sdk_call :=
     (\<lambda>w r. (reply (case r of ElbV2 (ListPoolsReq _) \<Rightarrow> PPools [] | _ \<Rightarrow> demo_sdk r), w))\<rparr>\<rparr>"

lemma no_pools_call:
  "commonWrapper (clients no_pools_basic) req sel s =
     ((case sel (case req of ElbV2 (ListPoolsReq _) \<Rightarrow> PPools [] | _ \<Rightarrow> demo_sdk req) of
         None \<Rightarrow> Err (Errorf ''error, cannot convert'') | Some x \<Rightarrow> Ok x), s\<lparr>log := log s @ [Sdk req]\<rparr>)"
  by (cases s) (simp add: no_pools_basic_def commonWrapper_def reply_def remote_def checkStatusCode_def OKCodes_def run_simps split: option.splits)

theorem shared_instance_deleted_last_witness:
  "\<exists>es. log (snd (slb_deleteELBInstance no_pools_basic demo_lb (demo_service Map.empty) start)) =
       es @ [Sdk (Eip (ListPublicips ''vport'')), Sdk (Eip (UpdatePublicip ''eip'' [])), Sdk (Eip (DeletePublicip ''eip'')),
             Sdk (ElbV2 (DeleteLoadbalancer ''lb''))]
     \<and> filter removes_listener es = [Sdk (ElbV2 (DeleteListenerReq ''l80'')), Sdk (ElbV2 (DeleteListenerReq ''l99''))]"
proof -
  have listed: "pools_listed (clients no_pools_basic) (lb_Id demo_lb)"
    by (simp add: pools_listed_def s_ListPools_def no_pools_call asPools_def)
  have listeners: "fst (s_ListListeners (clients no_pools_basic) (lb_Id demo_lb) start) =
      Ok [demo_listener ''l80'' ''TCP'' 80, demo_listener ''l99'' ''TCP'' 99]"
    by (simp add: s_ListListeners_def no_pools_call asListeners_def)
  have eips: "fst (e_List (clients no_pools_basic) ''vport'' u) =
      Ok [\<lparr>eip_Id = Some ''eip'', eip_PublicIpAddress = Some ''100.1.1.1'', eip_PortId = Some ''vport''\<rparr>]" for u
    by (simp add: e_List_def no_pools_call asPublicips_def)
  have unset: "getStringFromSvsAnnotation (demo_service Map.empty) ElbEipID [] = []"
    "\<not> getBoolFromSvsAnnotation (demo_service Map.empty) ELBKeepEip (KeepEIP (loadbalancerOpts no_pools_basic))"
    by (simp_all add: getStringFromSvsAnnotation_def getBoolFromSvsAnnotation_def no_pools_basic_def)
  have ok: "fst (slb_deleteELBInstance no_pools_basic demo_lb (demo_service Map.empty) start) = Ok ()"
    by (simp add: slb_deleteELBInstance_def slb_deleteListeners_def slb_getPool_def s_DeleteListener_def pools_using_def unbindEIP_def
        unset run_simps no_pools_call payload_selectors wrapper0_def s_client_defs e_client_defs)
  obtain ls es u where "fst (s_ListListeners (clients no_pools_basic) (lb_Id demo_lb) start) = Ok ls"
    and es: "filter removes_listener es = map removal ls"
    and log: "log (snd (slb_deleteELBInstance no_pools_basic demo_lb (demo_service Map.empty) start)) = log start @ es
      @ eip_requests False [] ''vport'' (fst (e_List (clients no_pools_basic) ''vport'' u)) @ [Sdk (ElbV2 (DeleteLoadbalancer ''lb''))]"
    using shared_instance_deleted_last [OF listed, of "demo_service Map.empty" start] ok by (auto simp: unset split: if_splits)
  then have "ls = [demo_listener ''l80'' ''TCP'' 80, demo_listener ''l99'' ''TCP'' 99]" using listeners by simp
  then show ?thesis
    using es log by (auto simp: eips eip_requests_def eip_released_def start_def demo_listener_def)
qed


end
