(* ===== verification/Ensure_Correct.thy ===== *)
theory Ensure_Correct
  imports Scenario
begin

text \<open>
  The behaviour of the entry points and of the steps of \<open>EnsureLoadBalancer\<close>: guards, waiting, cleanup of
  listeners, pool algorithm and health check, for both load balancers.
\<close>

subsection \<open>Guards\<close>

text \<open>
  C11. A service of another class or type is refused by every entry point of the provider with
  \<open>ImplementedElsewhere\<close>, before any lock or request.
\<close>

theorem unsupported_service_untouched:
  assumes "\<not> isSupportedSvc (loadbalancerOpts (cp_Basic h)) svc"
  shows "cp_GetLoadBalancer h c svc s = (Err ImplementedElsewhere, s)
     \<and> cp_EnsureLoadBalancer h c svc nodes s = (Err ImplementedElsewhere, s)
     \<and> cp_UpdateLoadBalancer h c svc nodes s = (Err ImplementedElsewhere, s)
     \<and> cp_EnsureLoadBalancerDeleted h c svc s = (Err ImplementedElsewhere, s)
     \<and> handle_service h c svc isDelete s = (Ok (), s)"
  using assms by (simp add: cp_GetLoadBalancer_def cp_EnsureLoadBalancer_def cp_UpdateLoadBalancer_def
      cp_EnsureLoadBalancerDeleted_def handle_service_def run_simps)

abbreviation demo_cloud :: "unit CloudProvider" where
  "demo_cloud \<equiv> NewHWSCloud demo_basic (SharedLoadBalancer_provider demo_basic) (SharedLoadBalancer_provider demo_basic)"

theorem unsupported_service_untouched_witness:
  "cp_EnsureLoadBalancer demo_cloud ''c'' ((demo_service Map.empty)\<lparr>svc_LoadBalancerClass := Some ''other''\<rparr>) [demo_node] start
     = (Err ImplementedElsewhere, start)"
  using unsupported_service_untouched [of demo_cloud "(demo_service Map.empty)\<lparr>svc_LoadBalancerClass := Some ''other''\<rparr>"
      "''c''" start "[demo_node]" False]
  by (simp add: NewHWSCloud_shared isSupportedSvc_def)

text \<open>
  C12. A supported service without nodes, ports or selector is rejected by both load balancers with the
  validation error and no request.
\<close>

theorem invalid_service_rejected:
  assumes "isSupportedSvc (loadbalancerOpts b) svc" and "nodes = [] \<or> svc_Ports svc = [] \<or> svc_Selector svc = []"
  shows "\<exists>msg. slb_EnsureLoadBalancer b c svc nodes s = (Err (Errorf msg), s) \<and> dlb_EnsureLoadBalancer b c svc nodes s = (Err (Errorf msg), s)"
  using assms by (auto simp: slb_EnsureLoadBalancer_def dlb_EnsureLoadBalancer_def ensureLoadBalancerValidation_def run_simps)

theorem invalid_service_rejected_witness:
  "\<exists>msg. slb_EnsureLoadBalancer demo_basic ''c'' (demo_service Map.empty) [] start = (Err (Errorf msg), start)
     \<and> dlb_EnsureLoadBalancer demo_basic ''c'' (demo_service Map.empty) [] start = (Err (Errorf msg), start)"
  by (rule invalid_service_rejected) (simp_all add: isSupportedSvc_def)

subsection \<open>Waiting for the instance\<close>

lemma s_poll_log:
  assumes "(bindR (attempt (s_GetInstance A uid)) (\<lambda>r. case r of
         Inl e \<Rightarrow> okR (None, Inl e)
       | Inr ins \<Rightarrow> bindR (deref ins) (\<lambda>i.
           if lb_ProvisioningStatus i = ''ACTIVE'' then okR (Some i, Inr True)
           else if lb_ProvisioningStatus i = ''ERROR''
           then okR (Some i, Inl (StatusError CodeUnavailable ''LoadBalancer has gone into ERROR provisioning status''))
           else okR (Some i, Inr False)))) s = (r, t)"
  shows "length (log t) = Suc (length (log s))"
proof -
  obtain q u where q: "s_GetInstance A uid s = (q, u)" by fastforce
  then have "log u = log s @ [Sdk (ElbV2 (ShowLoadbalancer uid))]"
    unfolding s_GetInstance_def by (rule commonWrapper_log)
  moreover from assms q have "log t = log u"
    by (auto simp: run_simps deref_def split: res.splits option.splits if_splits)
  ultimately show ?thesis by simp
qed

text \<open>
  C13. Waiting for a shared instance polls at most 30 times, and it reports success only for an instance
  whose last poll said \<open>ACTIVE\<close>.
\<close>

theorem shared_wait_bounded_and_active:
  "length (log (snd (s_WaitStatusActive A uid s))) \<le> length (log s) + 30
     \<and> (case fst (s_WaitStatusActive A uid s) of
          Ok (p, None) \<Rightarrow> (case p of Some i \<Rightarrow> lb_ProvisioningStatus i = ''ACTIVE'' | None \<Rightarrow> False)
        | _ \<Rightarrow> True)"
proof -
  obtain r t where run: "s_WaitStatusActive A uid s = (r, t)" by fastforce
  have "length (log t) \<le> length (log s) + 30"
    using exponential_backoff_polls [OF s_poll_log run [unfolded s_WaitStatusActive_def WaitForCompleted_def DefaultSteps_def]] .
  moreover have "\<exists>i. p = Some i \<and> lb_ProvisioningStatus i = ''ACTIVE''" if "r = Ok (p, None)" for p
    using exponential_backoff_completed [OF run [unfolded s_WaitStatusActive_def WaitForCompleted_def that]]
    by (auto simp: run_simps deref_def split: prod.splits res.splits option.splits if_splits sum.splits)
  ultimately show ?thesis using run by (auto split: res.splits option.splits prod.splits)
qed

subsection \<open>Deleting a listener\<close>

text \<open>
  A shared listener that some pool still uses is not deleted: the client reports the number of
  pools and issues no deletion.
\<close>

theorem listener_in_use_kept:
  assumes "s_ListPools A elbID s = (Ok pools, s1)" and "\<exists>p\<in>set pools. listenerID \<in> set (pool_Listeners p)"
  shows "s_DeleteListener A elbID listenerID s =
     (Err (Errorf (''delete failed, '' @ int_str (int (length (filter (\<lambda>p. listenerID \<in> set (pool_Listeners p)) pools)))
        @ '' pools are using the listener: '' @ listenerID)), s1)"
proof -
  have "pools_using pools listenerID > 0"
    using assms(2) by (auto simp: pools_using_def filter_empty_conv)
  with assms(1) show ?thesis
    by (simp add: s_DeleteListener_def run_bindR Let_def pools_using_def run_errR)
qed

theorem listener_in_use_kept_witness:
  "fst (s_DeleteListener demo_api ''lb'' ''l80'' start) = Err (Errorf (''delete failed, '' @ int_str 1 @ '' pools are using the listener: '' @ ''l80''))"
  using listener_in_use_kept [of demo_api "''lb''" start "[demo_pool]" "start\<lparr>log := [Sdk (ElbV2 (ListPoolsReq ''lb''))]\<rparr>" "''l80''"]
  by (simp add: demo_run start_def)

subsection \<open>Update without nodes\<close>

lemma slb_update_port_no_nodes: "yields (slb_update_port b lb svc [] ls port u) (\<lambda>_. False)"
  unfolding slb_update_port_def slb_health_with_first_node_def by (auto intro!: yields_intro split: option.splits)

lemma dlb_update_port_no_nodes: "yields (dlb_update_port b lb svc [] ls port u) (\<lambda>_. False)"
  unfolding dlb_update_port_def dlb_health_with_first_node_def by (auto intro!: yields_intro split: option.splits)

lemma foldR_never:
  assumes "xs \<noteq> []" and "\<And>x b. yields (f x b) (\<lambda>_. False)"
  shows "yields (foldR f xs b) (\<lambda>_. False)"
  using assms by (cases xs) (auto intro: yields_bindR)

text \<open>
  \<open>UpdateLoadBalancer\<close> with no nodes never succeeds for a supported service with ports: it evaluates
  \<open>nodes[0]\<close>, so it ends in an error or a panic, for both load balancers.
\<close>

theorem update_without_nodes_fails:
  assumes "svc_Ports svc \<noteq> []"
  shows "fst (slb_UpdateLoadBalancer b c svc [] s) \<noteq> Ok () \<and> fst (dlb_UpdateLoadBalancer b c svc [] s) \<noteq> Ok ()"
proof -
  have "yields (slb_UpdateLoadBalancer b c svc []) (\<lambda>_. False)" "yields (dlb_UpdateLoadBalancer b c svc []) (\<lambda>_. False)"
    unfolding slb_UpdateLoadBalancer_def dlb_UpdateLoadBalancer_def
    by (intro yields_intro foldR_never assms slb_update_port_no_nodes dlb_update_port_no_nodes)+
  then show ?thesis unfolding yields_def by (metis prod.collapse)
qed

theorem update_without_nodes_fails_witness:
  "fst (slb_UpdateLoadBalancer demo_basic ''c'' (demo_service Map.empty) [] start) \<noteq> Ok ()"
  using update_without_nodes_fails [of "demo_service Map.empty" demo_basic "''c''" start] by simp

subsection \<open>Cleanup of listeners\<close>

lemma slb_popListener_removes:
  assumes "distinct (map li_Id ls)"
  shows "set (slb_popListener ls uid) = {l \<in> set ls. li_Id l \<noteq> uid}" "distinct (map li_Id (slb_popListener ls uid))"
proof -
  obtain ys where ys: "Some (slb_popListener ls uid) = Some ys"
    "mset ys = filter_mset (\<lambda>x. li_Id x \<noteq> uid) (mset ls)" "distinct (map li_Id ys)"
    using pop_first.pop_distinct_keys [OF assms, of uid] unfolding slb_popListener_def .
  have "set ys = set_mset (mset ys)" by simp
  also have "\<dots> = {l \<in> set ls. li_Id l \<noteq> uid}" unfolding ys(2) by simp
  finally show "set (slb_popListener ls uid) = {l \<in> set ls. li_Id l \<noteq> uid}" using ys(1) by simp
  show "distinct (map li_Id (slb_popListener ls uid))" using ys(1,3) by simp
qed

lemma slb_ensure_port_Ok:
  assumes "slb_ensure_port b lb svc nodes port ls s = (Ok ls', t)"
  shows "\<exists>l. ls' = slb_popListener ls (li_Id l) \<and> (\<forall>x. slb_filterListenerByPort ls svc port = Some x \<longrightarrow> l = x)"
proof (cases "slb_filterListenerByPort ls svc port")
  case None
  with assms show ?thesis
    unfolding slb_ensure_port_def by (auto elim!: bindR_Ok_E simp: run_okR)
next
  case (Some x)
  with assms show ?thesis
    unfolding slb_ensure_port_def bindR_assoc by (auto elim!: bindR_Ok_E simp: run_okR bindR_assoc)
qed

text \<open>
  The listeners left for deletion after the ports of a service were ensured are existing listeners
  that serve none of its ports, when listeners have distinct ids and distinct protocol and port.
\<close>

theorem obsolete_listeners_serve_no_port:
  assumes "foldR (slb_ensure_port b lb svc nodes) ports ls s = (Ok ls', t)"
    and "distinct (map li_Id ls)" and "distinct (map (\<lambda>l. (li_Protocol l, li_ProtocolPort l)) ls)"
  shows "\<forall>l\<in>set ls'. l \<in> set ls \<and> (\<forall>port\<in>set ports. \<not> (li_Protocol l = parseProtocol svc port \<and> li_ProtocolPort l = port_Port port))"
proof -
  let ?serves = "\<lambda>l port. li_Protocol l = parseProtocol svc port \<and> li_ProtocolPort l = port_Port port"
  define I where "I = (\<lambda>ps ls' (s :: ('a, event) sys). distinct (map li_Id ls') \<and> set ls' \<subseteq> set ls \<and> (\<forall>l\<in>set ls'. \<forall>port\<in>set ps. \<not> ?serves l port))"
  have "I ports ls' t"
  proof (rule foldR_invariant [OF _ _ assms(1)])
    show "I [] ls s" by (simp add: I_def assms(2))
  next
    fix ys x zs cur and s' :: "('a, event) sys" and r t
    assume inv: "I ys cur s'" and run: "slb_ensure_port b lb svc nodes x cur s' = (Ok r, t)"
    obtain l where r: "r = slb_popListener cur (li_Id l)"
      and l: "\<And>y. slb_filterListenerByPort cur svc x = Some y \<Longrightarrow> l = y"
      using slb_ensure_port_Ok [OF run] by blast
    have pop: "set r = {m \<in> set cur. li_Id m \<noteq> li_Id l}" "distinct (map li_Id r)"
      using slb_popListener_removes [of cur] inv r by (simp_all add: I_def)
    have "\<not> ?serves m x" if "m \<in> set r" for m
    proof
      assume m: "?serves m x"
      with that pop(1) have "find (\<lambda>l. ?serves l x) cur \<noteq> None"
        by (auto simp: find_None_iff)
      then obtain y where y: "find (\<lambda>l. ?serves l x) cur = Some y" by blast
      then have "l = y" using l by (simp add: slb_filterListenerByPort_def)
      from y have "?serves y x" "y \<in> set cur" by (auto simp: find_Some_iff)
      moreover have "m \<in> set ls" "y \<in> set ls" using inv that pop(1) \<open>y \<in> set cur\<close> by (auto simp: I_def)
      ultimately have "m = y" using assms(3) m by (auto simp: distinct_map inj_on_def)
      with \<open>l = y\<close> that pop(1) show False by simp
    qed
    with inv pop show "I (ys @ [x]) r t" by (auto simp: I_def)
  qed
  then show ?thesis by (auto simp: I_def)
qed

theorem obsolete_listeners_serve_no_port_witness:
  "\<exists>t. foldR (slb_ensure_port demo_basic demo_lb (demo_service Map.empty) [demo_node]) [demo_port]
       [demo_listener ''l80'' ''TCP'' 80, demo_listener ''l99'' ''TCP'' 99] start = (Ok [demo_listener ''l99'' ''TCP'' 99], t)
     \<and> \<not> (li_Protocol (demo_listener ''l99'' ''TCP'' 99) = parseProtocol (demo_service Map.empty) demo_port
           \<and> li_ProtocolPort (demo_listener ''l99'' ''TCP'' 99) = port_Port demo_port)"
proof -
  obtain t where t: "foldR (slb_ensure_port demo_basic demo_lb (demo_service Map.empty) [demo_node]) [demo_port]
       [demo_listener ''l80'' ''TCP'' 80, demo_listener ''l99'' ''TCP'' 99] start = (Ok [demo_listener ''l99'' ''TCP'' 99], t)"
    using demo_ensure_port [of start] by (auto simp: run_simps)
  then show ?thesis
    using obsolete_listeners_serve_no_port [OF t] by (simp add: demo_listener_def)
qed

end
