(* ===== verification/Steps_Correct.thy ===== *)
theory Steps_Correct
  imports Scenario
begin

text \<open>
  Exact behaviour of single steps: the requests of the pool and monitor steps, the critical section of
  the dispatcher, slice removal, node addresses, pod addresses and names.
\<close>

subsection \<open>Pool algorithm and health monitor\<close>

lemma log_wrapper0: "log (snd (wrapper0 A req s)) = log s @ [Sdk req]"
  by (cases "wrapper0 A req s") (auto simp: wrapper0_def dest: commonWrapper_log)

lemma log_commonWrapper: "log (snd (commonWrapper A req sel s)) = log s @ [Sdk req]"
  by (cases "commonWrapper A req sel s") (auto dest: commonWrapper_log)

lemma log_bind_ok: "log (snd (bindR m (\<lambda>_. okR x) s)) = log (snd (m s))"
  by (cases "m s") (auto simp: run_simps split: res.splits)

text \<open>
  The algorithm of a pool is updated by exactly one request when the service or the configuration
  asks for an algorithm the pool does not have, and otherwise nothing is sent (both load balancers).
\<close>

theorem pool_algorithm_updated_when_different:
  "log (snd (slb_ensurePoolAlgorithm b pool svc s)) = log s @
     (let want = getStringFromSvsAnnotation svc ElbAlgorithm (LBAlgorithm (loadbalancerOpts b))
      in if want \<noteq> [] \<and> want \<noteq> pool_LbAlgorithm pool then [Sdk (ElbV2 (UpdatePoolReq (pool_Id pool) want))] else [])
   \<and> log (snd (dlb_ensurePoolAlgorithm b pool svc s)) = log s @
     (let want = getStringFromSvsAnnotation svc ElbAlgorithm (LBAlgorithm (loadbalancerOpts b))
      in if want \<noteq> [] \<and> want \<noteq> pool_LbAlgorithm pool then [Sdk (ElbV3 (V3UpdatePool (pool_Id pool) want))] else [])"
  by (auto simp: slb_ensurePoolAlgorithm_def dlb_ensurePoolAlgorithm_def s_UpdatePool_def d_UpdatePool_def Let_def
      log_wrapper0 log_commonWrapper log_bind_ok run_okR)

text \<open>The monitor requests of a log.\<close>

definition monitor_requests :: "event list \<Rightarrow> event list" where
  "monitor_requests es = filter (\<lambda>e. kind_of e = KMonitor) es"

lemma monitor_requests_quiet:
  assumes "emits m (kinds {KRead})"
  shows "monitor_requests (log (snd (m s))) = monitor_requests (log s)"
proof -
  obtain es where "log (snd (m s)) = log s @ es" "set es \<subseteq> kinds {KRead}"
    using assms unfolding emits_def by blast
  then show ?thesis by (auto simp: monitor_requests_def filter_empty_conv)
qed

lemma monitor_requests_snoc [simp]: "monitor_requests (es @ [e]) = monitor_requests es @ (if kind_of e = KMonitor then [e] else [])"
  by (simp add: monitor_requests_def)

lemma monitor_requests_then:
  assumes "\<And>x s'. monitor_requests (log (snd (f x s'))) = monitor_requests (log s')"
  shows "monitor_requests (log (snd (bindR m f s))) = monitor_requests (log (snd (m s)))"
  using assms by (cases "m s") (auto simp: run_bindR split: res.splits)

text \<open>
  The health monitor step (shared): with checks enabled it creates the monitor the pool lacks or
  updates the one it has, with the configured timing; with checks disabled it deletes an existing
  one; it issues no other monitor request.
\<close>

theorem shared_health_check_requests:
  "monitor_requests (log (snd (slb_ensureHealthCheck b elbID pool port svc s))) = monitor_requests (log s) @
     (let opts = getHealthCheckOptionFromAnnotation (decoders b) svc (loadbalancerOpts b);
          req = (\<lambda>ty. \<lparr>hm_Type = ty, hm_Timeout = hc_Timeout opts, hm_Delay = hc_Delay opts, hm_MaxRetries = hc_MaxRetries opts\<rparr>);
          proto = parseProtocol svc port;
          http = (if proto = ProtocolHTTPS \<or> proto = ProtocolTerminatedHTTPS then ProtocolHTTP else proto)
      in if hc_Enable opts then
           (if pool_HealthmonitorId pool = []
            then [Sdk (ElbV2 (CreateHealthmonitor (pool_Id pool) (req (Some (trim_quotes (if http = ProtocolUDP then ''UDP_CONNECT'' else http))))))]
            else [Sdk (ElbV2 (UpdateHealthmonitor (pool_HealthmonitorId pool) (req (if http = ProtocolUDP \<or> http = [] then None else Some http))))])
         else if pool_HealthmonitorId pool \<noteq> [] then [Sdk (ElbV2 (DeleteHealthmonitor (pool_HealthmonitorId pool)))] else [])"
proof -
  have wait: "monitor_requests (log (snd (slb_wait_active b uid msg s'))) = monitor_requests (log s')" for uid msg s'
    by (rule monitor_requests_quiet) (simp add: emits_slb_wait_active)
  have after: "monitor_requests (log (snd ((case r of Inl e \<Rightarrow> errR (f e) | Inr _ \<Rightarrow> slb_wait_active b uid msg) s'))) = monitor_requests (log s')"
    for r f uid msg and s' :: "('a, event) sys"
    by (cases r) (simp_all add: wait run_errR)
  have finish: "monitor_requests (log (snd ((case r of Inl e \<Rightarrow> errR (f e) | Inr x \<Rightarrow> okR x) s'))) = monitor_requests (log s')"
    for r :: "error + unit" and f and s' :: "('a, event) sys"
    by (cases r) (simp_all add: run_simps)
  have att: "log (snd (attempt (wrapper0 A req) s')) = log s' @ [Sdk req]" for A :: "'a api" and req s'
    using log_wrapper0 [of A req s'] by (cases "wrapper0 A req s'") (auto simp: run_simps split: res.splits)
  show ?thesis
    by (auto simp: slb_ensureHealthCheck_def slb_createHealthMonitor_def slb_updateHealthMonitor_def s_CreateHealthMonitor_def
        s_UpdateHealthMonitor_def s_DeleteHealthMonitor_def Let_def monitor_requests_then [OF after] monitor_requests_then [OF finish]
        att log_wrapper0 run_okR)
qed

subsection \<open>The critical section\<close>



subsection \<open>Removal from slices\<close>

text \<open>
  \<open>popMember\<close> on members with distinct endpoints removes exactly the member with the endpoint, and
  leaves the slice as it is when there is none.
\<close>

theorem popMember_removes_endpoint:
  assumes "distinct (map endpoint ms)"
  shows "\<exists>ms'. popMember ms a p s = (Ok ms', s) \<and> mset ms' = filter_mset (\<lambda>m. endpoint m \<noteq> (a, p)) (mset ms)"
proof -
  obtain ms' where "pop_all (\<lambda>m. mem_Address m = a \<and> mem_ProtocolPort m = p) ms = Some ms'"
    "mset ms' = filter_mset (\<lambda>m. endpoint m \<noteq> (a, p)) (mset ms)"
    using pop_endpoint_distinct [OF assms, of a p] by blast
  then show ?thesis by (simp add: popMember_def run_okR)
qed

theorem popMember_removes_endpoint_witness:
  "\<exists>ms'. popMember demo_members ''10.0.0.1'' 30080 start = (Ok ms', start)
     \<and> mset ms' = filter_mset (\<lambda>m. endpoint m \<noteq> (''10.0.0.1'', 30080)) (mset demo_members)"
  by (rule popMember_removes_endpoint) (simp add: demo_members_def endpoint_def)

text \<open>
  Two members with the same endpoint, one of them last: \<open>popMember\<close> goes on after the removal and
  indexes past the shortened slice, so the call panics.
\<close>

theorem popMember_duplicate_panics:
  assumes "endpoint x = (a, p)" and "endpoint z = (a, p)" and "\<forall>y\<in>set ys. endpoint y \<noteq> (a, p)"
  shows "popMember (x # ys @ [z]) a p s = (Panic ''index out of range'', s)"
proof -
  have "pop_all (\<lambda>m. mem_Address m = a \<and> mem_ProtocolPort m = p) (x # ys @ [z]) = None"
    using assms by (intro pop_all_duplicate_panics) (auto simp: endpoint_def)
  then show ?thesis by (simp add: popMember_def run_panicR)
qed

theorem popMember_duplicate_panics_witness:
  "popMember [hd demo_members, (hd demo_members)\<lparr>mem_Id := ''m2''\<rparr>] ''10.0.0.1'' 30080 start = (Panic ''index out of range'', start)"
  using popMember_duplicate_panics [of "hd demo_members" "''10.0.0.1''" 30080 "(hd demo_members)\<lparr>mem_Id := ''m2''\<rparr>" "[]" start]
  by (simp add: demo_members_def endpoint_def)

subsection \<open>Addresses\<close>

lemma fixed_ips_added:
  assumes "\<forall>f\<in>set fs. fip_IpAddress f \<noteq> None"
  shows "\<exists>as. foldR (\<lambda>fixedIP addrs. bindR (deref (fip_IpAddress fixedIP)) (\<lambda>ip.
        okR (if ParseIP ip \<noteq> None then addToNodeAddresses addrs [\<lparr>addr_Type = ''InternalIP'', addr_Address = ip\<rparr>] else addrs)))
        fs a s = (Ok as, s)"
  using assms by (induction fs arbitrary: a) (auto simp: run_simps)

text \<open>Whether the pointers the loop follows are all set.\<close>

definition pointers_set :: "InterfaceAttachment \<Rightarrow> bool" where
  "pointers_set i \<longleftrightarrow> if_PortState i \<noteq> None \<and> if_FixedIps i \<noteq> None \<and> (\<forall>f\<in>set (the (if_FixedIps i)). fip_IpAddress f \<noteq> None)"

lemma interfaces_added:
  assumes "\<forall>i\<in>set ifs. pointers_set i"
  shows "\<exists>as. BuildAddresses_interfaces ifs a s = (Ok as, s)"
  using assms unfolding BuildAddresses_interfaces_def
proof (induction ifs arbitrary: a)
  case Nil
  then show ?case by (simp add: run_okR)
next
  case (Cons i ifs)
  then obtain st fs where i: "if_PortState i = Some st" "if_FixedIps i = Some fs" "\<forall>f\<in>set fs. fip_IpAddress f \<noteq> None"
    by (auto simp: pointers_set_def)
  from fixed_ips_added [OF i(3), of a s] obtain as where as: "foldR (\<lambda>fixedIP addrs. bindR (deref (fip_IpAddress fixedIP)) (\<lambda>ip.
        okR (if ParseIP ip \<noteq> None then addToNodeAddresses addrs [\<lparr>addr_Type = ''InternalIP'', addr_Address = ip\<rparr>] else addrs)))
        fs a s = (Ok as, s)" by blast
  then show ?case
    using Cons.IH [of as] Cons.IH [of a] Cons.prems i by (simp add: run_bindR run_okR)
qed

text \<open>
  C15. The addresses of a node are built without duplicates and are all internal or external, whatever
  interfaces and networks the server reports, unless a nil pointer stops the construction.
\<close>

theorem node_addresses_distinct:
  "case fst (BuildAddresses server interfaces opts s) of
     Ok addrs \<Rightarrow> distinct addrs \<and> list_all (\<lambda>a. addr_Type a = ''InternalIP'' \<or> addr_Type a = ''ExternalIP'') addrs
   | Err e \<Rightarrow> False
   | Panic msg \<Rightarrow> \<not> list_all pointers_set interfaces"
proof -
  obtain r t where run: "BuildAddresses server interfaces opts s = (r, t)" by fastforce
  have ok: "distinct addrs \<and> list_all (\<lambda>a. addr_Type a = ''InternalIP'' \<or> addr_Type a = ''ExternalIP'') addrs" if "r = Ok addrs" for addrs
    using yieldsD [OF addr_list_ok_BuildAddresses run [unfolded that]] by (auto simp: addr_list_ok_def list_all_iff)
  have "r \<noteq> Err e" for e
    using run BuildAddresses_never_errs [unfolded never_errs_def] by (metis fst_conv)
  moreover have "\<not> list_all pointers_set interfaces" if "r = Panic msg" for msg
  proof (rule ccontr)
    assume "\<not> ?thesis"
    then obtain as where "BuildAddresses_interfaces interfaces [] s = (Ok as, s)"
      using interfaces_added [of interfaces "[]" s] by (auto simp: list_all_iff)
    with run that show False by (auto simp: BuildAddresses_def run_bindR run_okR Let_def)
  qed
  ultimately show ?thesis using ok run by (cases r) auto
qed

text \<open>
  Removing one address from the node addresses (with no type: of any type) deletes all its
  occurrences and keeps the order of the others.
\<close>

theorem removeFromNodeAddresses_filters:
  "removeFromNodeAddresses addresses [r] =
     filter (\<lambda>a. \<not> (addr_Address a = addr_Address r \<and> (addr_Type a = addr_Type r \<or> addr_Type r = []))) addresses"
  unfolding removeFromNodeAddresses_one by (rule filter_cong) auto

text \<open>
  The address of a pod for a requested IP version is empty or an address of that version, taken
  from the pod; an unknown version selects the pod's primary address.
\<close>

theorem pod_ip_has_requested_version:
  "if ipVersion \<noteq> [] \<and> to_lower ipVersion \<in> {''ipv4'', ''v4'', ''ipv6'', ''v6''}
   then (let ip = getPodIPByVersion p ipVersion in
         ip = [] \<or> ip \<in> insert (pod_PodIP p) (set (pod_PodIPs p))
           \<and> (\<exists>a. ParseIP ip = Some a \<and> (To4 a \<noteq> None) = (to_lower ipVersion \<in> {''ipv4'', ''v4''})))
   else getPodIPByVersion p ipVersion = pod_PodIP p"
proof (cases "ipVersion \<noteq> [] \<and> to_lower ipVersion \<in> {''ipv4'', ''v4'', ''ipv6'', ''v6''}")
  case False
  then show ?thesis by (auto simp: getPodIPByVersion_def Let_def)
next
  case True
  define fits where "fits = (\<lambda>ip. case ParseIP ip of None \<Rightarrow> False
     | Some a \<Rightarrow> (To4 a \<noteq> None) = (to_lower ipVersion \<in> {''ipv4'', ''v4''}))"
  have fits: "\<exists>a. ParseIP ip = Some a \<and> (To4 a \<noteq> None) = (to_lower ipVersion \<in> {''ipv4'', ''v4''})" if "fits ip" for ip
    using that unfolding fits_def by (cases "ParseIP ip") auto
  have "getPodIPByVersion p ipVersion = (case find fits (pod_PodIPs p) of
       Some ip \<Rightarrow> ip | None \<Rightarrow> if fits (pod_PodIP p) then pod_PodIP p else [])"
    using True unfolding getPodIPByVersion_def Let_def fits_def by simp
  then show ?thesis
    using True fits by (auto simp: Let_def find_Some_iff split: option.splits)
qed

subsection \<open>Names and timeouts\<close>

text \<open>
  The names sent to the cloud respect its limits: 255 bytes for instances and listeners, 64 for
  server groups; the name of an instance is the configured prefix of
  \<open>k8s_service_<cluster>_<namespace>_<name>\<close>.
\<close>

theorem resource_names_bounded:
  fixes b :: "'w Basic"
  shows "length (GetLoadBalancerName_of opts clusterName svc) \<le> 255
   \<and> prefix (GetLoadBalancerName_of opts clusterName svc)
       (''k8s_service_'' @ (if BusinessName opts = [] then clusterName else BusinessName opts) @ ''_'' @ svc_Namespace svc @ ''_'' @ svc_Name svc)
   \<and> length (co_Name (slb_listener_option opts elbID svc port)) \<le> 255
   \<and> (\<exists>req. log (snd (slb_createPool b listener svc s)) = log s @ [Sdk (ElbV2 (CreatePoolRequest req))] \<and> length (cpl_Name req) \<le> 64)"
proof -
  have pool: "\<exists>req. log (snd (slb_createPool b listener svc s)) = log s @ [Sdk (ElbV2 (CreatePoolRequest req))] \<and> length (cpl_Name req) \<le> 64"
    by (simp add: slb_createPool_def Let_def s_CreatePool_def log_commonWrapper CutString_length)
  have name: "prefix (CutString x n) x" for x n
    by (simp add: CutString_def take_is_prefix)
  show ?thesis
    using pool by (auto simp: GetLoadBalancerName_of_def slb_listener_option_def Let_def CutString_length intro: name)
qed

subsection \<open>Status of a service\<close>

text \<open>
  The status of a service is patched by one request exactly when the service names the
  provider's class and its recorded ingress differs; a failed patch is not reported.
\<close>

theorem status_patched_when_different:
  "fst (updateService b svc (Some st) s) = Ok ()
   \<and> log (snd (updateService b svc (Some st) s)) = log s @
       (if svc_LoadBalancerClass svc = Some LoadBalancerClassName \<and> svc_Ingress svc \<noteq> st
        then [Kube (PatchServiceStatus (svc_Namespace svc) (svc_Name svc) st)] else [])"
  by (auto simp: updateService_def Let_def run_simps remote_def split: prod.splits sum.splits)

end
