(* ===== verification/Listener_Correct.thy ===== *)
theory Listener_Correct
  imports Scenario
begin

text \<open>
  Properties of the listener of endpoints (\<open>dispatcher\<close> of \<open>huaweicloud.go\<close>): which services reach the
  handler, and that a service that does not exist is asked for once.
\<close>

lemma dispatcher_cached: "cache (namespace @ ''/'' @ name) \<noteq> None \<Longrightarrow> dispatcher b cache namespace name ty handle = okR cache"
  by (auto simp: dispatcher_def)

lemma dispatcher_missing:
  assumes "cache (namespace @ ''/'' @ name) = None"
    and "kube_call (clients b) (world s) (GetService namespace name) = (Inl e, w)" and "contains (err_text e) ''not found''"
  shows "dispatcher b cache namespace name ty handle s =
    (Ok (cache(namespace @ ''/'' @ name \<mapsto> err_text e)), s\<lparr>world := w, log := log s @ [Kube (GetService namespace name)]\<rparr>)"
  using assms by (simp add: dispatcher_def remote_def run_simps)

subsection \<open>Properties\<close>

text \<open>
  C27. A service that the cluster reports as not found is queried once: the first dispatch issues the
  query and remembers the key, and while the entry lives no later dispatch of that key issues any
  request or calls the handler.
\<close>

theorem missing_service_not_retried:
  assumes "cache (namespace @ ''/'' @ name) = None"
    and "kube_call (clients b) (world s) (GetService namespace name) = (Inl e, w)" and "contains (err_text e) ''not found''"
  shows "\<exists>cache'. dispatcher b cache namespace name ty handle s =
      (Ok cache', s\<lparr>world := w, log := log s @ [Kube (GetService namespace name)]\<rparr>)
    \<and> dispatcher b cache' namespace name ty' handle' = okR cache'"
proof (intro exI conjI)
  let ?cache' = "cache(namespace @ ''/'' @ name \<mapsto> err_text e)"
  show "dispatcher b cache namespace name ty handle s =
      (Ok ?cache', s\<lparr>world := w, log := log s @ [Kube (GetService namespace name)]\<rparr>)"
    by (rule dispatcher_missing) (fact assms)+
  show "dispatcher b ?cache' namespace name ty' handle' = okR ?cache'" by (rule dispatcher_cached) simp
qed

definition empty_cluster :: "unit Basic" where
  "empty_cluster = demo_basic\<lparr>clients := demo_api\<lparr>kube_call :=
     (\<lambda>w r. (Inl (KubeError ReasonNotFound ''services web not found''), w))\<rparr>\<rparr>"

theorem missing_service_not_retried_witness:
  "\<exists>cache'. dispatcher empty_cluster Map.empty ''ns'' ''web'' ''endpointAdded'' (\<lambda>_ _. okR ()) start =
      (Ok cache', start\<lparr>log := [Kube (GetService ''ns'' ''web'')]\<rparr>)
    \<and> dispatcher empty_cluster cache' ''ns'' ''web'' ''endpointUpdate'' (\<lambda>_ _. okR ()) = okR cache'"
proof -
  let ?e = "KubeError ReasonNotFound ''services web not found''"
  have "kube_call (clients empty_cluster) (world start) (GetService ''ns'' ''web'') = (Inl ?e, ())"
    by (simp add: empty_cluster_def start_def)
  moreover have "contains (err_text ?e) ''not found''" by (simp add: err_text_def)
  ultimately show ?thesis
    using missing_service_not_retried [of Map.empty "''ns''" "''web''" empty_cluster start ?e "()" "''endpointAdded''" "\<lambda>_ _. okR ()"
        "''endpointUpdate''" "\<lambda>_ _. okR ()"]
    by (simp add: start_def)
qed

text \<open>
  The handler is only run for a service the provider supports: when the service found is not of
  type \<open>LoadBalancer\<close>, or belongs to another load balancer class, the one request issued is the query.
\<close>

theorem unsupported_service_not_dispatched:
  assumes "kube_call (clients b) (world s) (GetService namespace name) = (Inr (KService svc), w)"
    and "svc_Type svc \<noteq> ''LoadBalancer'' \<or> \<not> isSupportedSvc (loadbalancerOpts b) svc"
  shows "\<exists>t. dispatcher b cache namespace name ty handle s = (Ok cache, t)
    \<and> (log t = log s \<or> log t = log s @ [Kube (GetService namespace name)])"
  using assms by (cases "cache (namespace @ ''/'' @ name)") (auto simp: dispatcher_def remote_def run_simps)

definition nodeport_cluster :: "unit Basic" where
  "nodeport_cluster = demo_basic\<lparr>clients := demo_api\<lparr>kube_call :=
     (\<lambda>w r. (Inr (KService (demo_service Map.empty\<lparr>svc_Type := ''NodePort''\<rparr>)), w))\<rparr>\<rparr>"

theorem unsupported_service_not_dispatched_witness:
  "\<exists>t. dispatcher nodeport_cluster Map.empty ''ns'' ''web'' ''endpointAdded'' (\<lambda>_ _. panicR ''handled'') start = (Ok Map.empty, t)"
  using unsupported_service_not_dispatched [of nodeport_cluster start "''ns''" "''web''" "demo_service Map.empty\<lparr>svc_Type := ''NodePort''\<rparr>"
      "()" Map.empty "''endpointAdded''" "\<lambda>_ _. panicR ''handled''"]
  by (auto simp: nodeport_cluster_def start_def)

end
