(* ===== verification/Instances.thy ===== *)
theory Instances
  imports Basic
begin

text \<open>
  \<open>instances.go\<close>: what the cloud controller asks about a node. A node is identified by the
  provider ID \<open>huaweicloud:///<instance>\<close> (a bare instance ID is accepted too) or by its addresses.
  \<open>AddSSHKeyToAllInstances\<close> and \<open>CurrentNodeName\<close> are constant.
\<close>

definition ProviderName :: string where
  "ProviderName = ''huaweicloud''"

definition instanceShutoffStatus :: string where
  "instanceShutoffStatus = ''SHUTOFF''"

definition provider_prefix :: string where
  "provider_prefix = ProviderName @ '':///''"

text \<open>\<open>providerIDRegexp\<close>, \<open>^huaweicloud:///([^/]+)$\<close>: the group that matched, if the whole string does.\<close>

definition FindStringSubmatch :: "string \<Rightarrow> string option" where
  "FindStringSubmatch s =
     (if prefix provider_prefix s
      then (let g = drop (length provider_prefix) s in if g \<noteq> [] \<and> list_all (\<lambda>c. c \<noteq> CHR ''/'') g then Some g else None)
      else None)"

definition parseInstanceID :: "string \<Rightarrow> error + string" where
  "parseInstanceID providerID0 =
     (let providerID = (if providerID0 \<noteq> [] \<and> \<not> contains providerID0 '':///'' then provider_prefix @ providerID0
                        else providerID0)
      in case FindStringSubmatch providerID of
           None \<Rightarrow> Inl (Errorf (''ProviderID \"'' @ providerID @ ''\" didn't match expected format \"huaweicloud:///InstanceID\"''))
         | Some i \<Rightarrow> Inr i)"

definition lift_result :: "error + 'a \<Rightarrow> ('w, 'a) prog" where
  "lift_result r = (case r of Inl e \<Rightarrow> errR e | Inr x \<Rightarrow> okR x)"

definition getInstanceFlavor :: "ServerDetail option \<Rightarrow> ('w, string) prog" where
  "getInstanceFlavor instance =
     bindR (deref instance) (\<lambda>sv.
     bindR (deref (srv_Flavor sv)) (\<lambda>flavor.
       if length (sf_Name flavor) > 0 then okR (sf_Name flavor)
       else if length (sf_Id flavor) > 0 then okR (sf_Name flavor)
       else errR (Errorf ''flavor name/id not found'')))"

definition NodeAddressesByProviderID :: "'w Basic \<Rightarrow> string \<Rightarrow> ('w, node_address list) prog" where
  "NodeAddressesByProviderID i providerID =
     bindR (lift_result (parseInstanceID providerID)) (\<lambda>instanceID.
     bindR (ecs_ListInterfaces (clients i) instanceID) (\<lambda>interfaces.
     bindR (ecs_Get (clients i) instanceID) (\<lambda>instance.
     bindR (deref instance) (\<lambda>sv.
       BuildAddresses sv interfaces (networkingOpts i)))))"

definition NodeAddresses :: "'w Basic \<Rightarrow> string \<Rightarrow> ('w, node_address list) prog" where
  "NodeAddresses i name =
     bindR (GetByNodeName (clients i) name) (\<lambda>instance.
       NodeAddressesByProviderID i (srv_Id instance))"

definition InstanceID :: "'w Basic \<Rightarrow> string \<Rightarrow> ('w, string) prog" where
  "InstanceID i name =
     bindR (attempt (GetByNodeName (clients i) name)) (\<lambda>r. case r of
         Inl e \<Rightarrow> if IsNotFound e then okR [] else errR e
       | Inr server \<Rightarrow> okR (srv_Id server))"

definition InstanceType :: "'w Basic \<Rightarrow> string \<Rightarrow> ('w, string) prog" where
  "InstanceType i name =
     bindR (GetByNodeName (clients i) name) (\<lambda>instance. getInstanceFlavor (Some instance))"

definition InstanceTypeByProviderID :: "'w Basic \<Rightarrow> string \<Rightarrow> ('w, string) prog" where
  "InstanceTypeByProviderID i providerID =
     bindR (lift_result (parseInstanceID providerID)) (\<lambda>instanceID.
     bindR (ecs_Get (clients i) instanceID) getInstanceFlavor)"

definition AddSSHKeyToAllInstances :: "('w, unit) prog" where
  "AddSSHKeyToAllInstances = errR NotImplemented"

definition CurrentNodeName :: "string \<Rightarrow> ('w, string) prog" where
  "CurrentNodeName hostname = okR hostname"

definition InstanceExistsByProviderID :: "'w Basic \<Rightarrow> string \<Rightarrow> ('w, bool) prog" where
  "InstanceExistsByProviderID i providerID =
     bindR (lift_result (parseInstanceID providerID)) (\<lambda>instanceID.
     bindR (attempt (ecs_Get (clients i) instanceID)) (\<lambda>r. case r of
         Inl e \<Rightarrow> if IsNotFound e then okR False else errR e
       | Inr _ \<Rightarrow> okR True))"

definition InstanceShutdownByProviderID :: "'w Basic \<Rightarrow> string \<Rightarrow> ('w, bool) prog" where
  "InstanceShutdownByProviderID i providerID =
     bindR (lift_result (parseInstanceID providerID)) (\<lambda>instanceID.
     bindR (ecs_Get (clients i) instanceID) (\<lambda>server.
     bindR (deref server) (\<lambda>sv. okR (srv_Status sv = instanceShutoffStatus))))"

definition InstanceExists :: "'w Basic \<Rightarrow> node \<Rightarrow> ('w, bool) prog" where
  "InstanceExists i n =
     bindR (attempt (GetByNode (clients i) n)) (\<lambda>r. case r of
         Inl e \<Rightarrow> if IsNotFound e then okR False else errR e
       | Inr _ \<Rightarrow> okR True)"

definition InstanceShutdown :: "'w Basic \<Rightarrow> node \<Rightarrow> ('w, bool) prog" where
  "InstanceShutdown i n = InstanceShutdownByProviderID i (node_ProviderID n)"

record instance_metadata =
  im_Region :: string
  im_Zone :: string
  im_ProviderID :: string
  im_InstanceType :: string
  im_NodeAddresses :: "node_address list"

definition InstanceMetadata :: "'w Basic \<Rightarrow> node \<Rightarrow> ('w, instance_metadata) prog" where
  "InstanceMetadata i n =
     bindR (if node_ProviderID n = []
            then bindR (GetByNode (clients i) n) (\<lambda>instance. okR (provider_prefix @ srv_Id instance, Some instance))
            else bindR (lift_result (parseInstanceID (node_ProviderID n))) (\<lambda>instanceID.
                 bindR (ecs_Get (clients i) instanceID) (\<lambda>instance. okR (provider_prefix @ instanceID, instance))))
       (\<lambda>(providerID, instance).
     bindR (getInstanceFlavor instance) (\<lambda>instanceFlavor.
     bindR (deref instance) (\<lambda>sv.
     bindR (ecs_ListInterfaces (clients i) (srv_Id sv)) (\<lambda>interfaces.
     bindR (BuildAddresses sv interfaces (networkingOpts i)) (\<lambda>addresses.
       okR \<lparr>im_Region = Region (AuthOpts (cloudConfig i)), im_Zone = srv_Zone sv, im_ProviderID = providerID,
            im_InstanceType = instanceFlavor, im_NodeAddresses = addresses\<rparr>)))))"

subsection \<open>Facts\<close>

lemma FindStringSubmatch_iff:
  "FindStringSubmatch s = Some i \<longleftrightarrow> s = provider_prefix @ i \<and> i \<noteq> [] \<and> CHR ''/'' \<notin> set i"
proof (cases "prefix provider_prefix s")
  case True
  then obtain g where "s = provider_prefix @ g" by (rule prefixE)
  then show ?thesis by (auto simp: FindStringSubmatch_def list_all_iff)
next
  case False
  then show ?thesis by (auto simp: FindStringSubmatch_def)
qed

lemma contains_provider_prefix: "contains (provider_prefix @ i) '':///''"
  unfolding contains_sublist provider_prefix_def by (simp only: append_assoc sublist_appendI)

lemma contains_slash: "contains s '':///'' \<Longrightarrow> CHR ''/'' \<in> set s"
  by (auto simp: contains_sublist sublist_def)

lemma parseInstanceID_iff:
  "parseInstanceID pid = Inr i \<longleftrightarrow> i \<noteq> [] \<and> CHR ''/'' \<notin> set i \<and> (pid = i \<or> pid = provider_prefix @ i)"
proof (cases "pid \<noteq> [] \<and> \<not> contains pid '':///''")
  case True
  then have "parseInstanceID pid = Inr i \<longleftrightarrow> FindStringSubmatch (provider_prefix @ pid) = Some i"
    by (simp add: parseInstanceID_def Let_def split: option.splits)
  with True show ?thesis by (auto simp: FindStringSubmatch_iff contains_provider_prefix)
next
  case False
  then have "parseInstanceID pid = Inr i \<longleftrightarrow> FindStringSubmatch pid = Some i"
    by (auto simp: parseInstanceID_def Let_def split: option.splits)
  with False show ?thesis using contains_slash [of pid] by (auto simp: FindStringSubmatch_iff)
qed

lemma run_lift_result [run_simps]:
  "lift_result (Inl e) s = (Err e, s)" "lift_result (Inr x) s = (Ok x, s)"
  by (simp_all add: lift_result_def run_simps)

lemma lift_result_OkD: "lift_result r s = (Ok x, t) \<Longrightarrow> r = Inr x \<and> t = s"
  by (cases r) (simp_all add: run_simps)

lemma yields_lift_result: "yields (lift_result r) (\<lambda>x. r = Inr x)"
  by (rule yieldsI) (blast dest: lift_result_OkD)

lemma emits_lift_result [emits_intro]: "emits (lift_result r) S"
  by (cases r) (simp_all add: lift_result_def emits_okR emits_errR)

lemma emits_getInstanceFlavor [emits_intro]: "emits (getInstanceFlavor sv) S"
  unfolding getInstanceFlavor_def by (intro emits_intro)

lemma emits_BuildAddresses [emits_intro]: "emits (BuildAddresses sv ifs opts) S"
  unfolding BuildAddresses_def BuildAddresses_interfaces_def by (intro emits_intro)

lemma emits_NodeAddressesByProviderID [emits_intro]:
  "KRead \<in> K \<Longrightarrow> emits (NodeAddressesByProviderID i pid) (kinds K)"
  unfolding NodeAddressesByProviderID_def by (intro emits_intro) assumption+

lemma emits_InstanceMetadata [emits_intro]: "KRead \<in> K \<Longrightarrow> emits (InstanceMetadata i n) (kinds K)"
  unfolding InstanceMetadata_def by (intro emits_intro) assumption+

lemma yields_InstanceMetadata_ProviderID:
  "yields (InstanceMetadata i n) (\<lambda>md. \<exists>uid. im_ProviderID md = provider_prefix @ uid
     \<and> (node_ProviderID n \<noteq> [] \<longrightarrow> parseInstanceID (node_ProviderID n) = Inr uid))"
  unfolding InstanceMetadata_def
proof (rule yields_bindR)
  let ?Q = "\<lambda>p. \<exists>uid. fst p = provider_prefix @ uid
     \<and> (node_ProviderID n \<noteq> [] \<longrightarrow> parseInstanceID (node_ProviderID n) = Inr uid)"
  show "yields (if node_ProviderID n = []
            then bindR (GetByNode (clients i) n) (\<lambda>instance. okR (provider_prefix @ srv_Id instance, Some instance))
            else bindR (lift_result (parseInstanceID (node_ProviderID n))) (\<lambda>instanceID.
                 bindR (ecs_Get (clients i) instanceID) (\<lambda>instance. okR (provider_prefix @ instanceID, instance)))) ?Q"
    by (intro yields_if yields_bindR [OF yields_lift_result]) (intro yields_intro; simp)+
qed (auto intro!: yields_intro)

end
