(* ===== verification/Nodes_Correct.thy ===== *)
theory Nodes_Correct
  imports Instances Scenario
begin

text \<open>
  Properties of the node queries of \<open>instances.go\<close>: the provider IDs accepted, the ID reported back,
  when a node counts as gone, and that queries only read.
\<close>

subsection \<open>A node of the concrete cloud, and a cloud without servers\<close>

definition missing_api :: "unit api" where
  "missing_api = demo_api\<lparr>sdk_call := (\<lambda>w r. (Inl (ServiceResponseErrorPtr 404 ''Ecs.0114'' ''not found''), w))\<rparr>"

lemma demo_provider_id: "parseInstanceID ''i-1'' = Inr ''i-1''"
  by (simp add: parseInstanceID_iff)

lemma missing_run:
  "InstanceExistsByProviderID (demo_basic\<lparr>clients := missing_api\<rparr>) ''i-1'' start = (Ok False, start\<lparr>log := [Sdk (Ecs (ShowServer ''i-1''))]\<rparr>)"
  by (simp add: InstanceExistsByProviderID_def demo_provider_id run_simps ecs_Get_def commonWrapper_def missing_api_def remote_def start_def)

lemma demo_interface_addresses: "\<exists>as. BuildAddresses_interfaces demo_interfaces [] = (okR as :: ('w, node_address list) prog)"
  by (simp add: BuildAddresses_interfaces_def demo_interfaces_def) blast

lemma demo_metadata: "\<exists>md t. InstanceMetadata demo_basic (demo_node\<lparr>node_ProviderID := ''i-1''\<rparr>) start = (Ok md, t)"
proof -
  obtain as where "BuildAddresses_interfaces demo_interfaces [] = (okR as :: (unit, node_address list) prog)"
    using demo_interface_addresses by blast
  then show ?thesis
    by (simp add: InstanceMetadata_def demo_provider_id ecs_Get_def ecs_ListInterfaces_def getInstanceFlavor_def demo_run run_lift_result
        BuildAddresses_def demo_server_def Let_def)
qed

subsection \<open>Properties\<close>

text \<open>
  C19. The provider IDs accepted are exactly a nonempty instance ID without a slash, bare or after
  \<open>huaweicloud:///\<close>, and the instance ID is what is returned; every other string is an error.
\<close>

theorem parseInstanceID_accepts:
  "parseInstanceID pid = Inr i \<longleftrightarrow> i \<noteq> [] \<and> CHR ''/'' \<notin> set i \<and> (pid = i \<or> pid = ''huaweicloud:///'' @ i)"
  using parseInstanceID_iff [of pid i] by (simp add: provider_prefix_def ProviderName_def)

text \<open>
  C20. The metadata of a node that has a provider ID carries that ID in its standard form: parsing
  it gives the instance of the node again, whichever of the two accepted forms the node had.
\<close>

theorem metadata_provider_id_normal:
  assumes "InstanceMetadata i n s = (Ok md, t)" "node_ProviderID n \<noteq> []"
  shows "\<exists>uid. im_ProviderID md = ''huaweicloud:///'' @ uid
    \<and> parseInstanceID (node_ProviderID n) = Inr uid \<and> parseInstanceID (im_ProviderID md) = Inr uid"
proof -
  obtain uid where "im_ProviderID md = provider_prefix @ uid" "parseInstanceID (node_ProviderID n) = Inr uid"
    using yieldsD [OF yields_InstanceMetadata_ProviderID assms(1)] assms(2) by auto
  moreover from this have "parseInstanceID (im_ProviderID md) = Inr uid" by (simp add: parseInstanceID_iff)
  ultimately show ?thesis by (simp add: provider_prefix_def ProviderName_def)
qed

theorem metadata_provider_id_normal_witness:
  "\<exists>md t uid. InstanceMetadata demo_basic (demo_node\<lparr>node_ProviderID := ''i-1''\<rparr>) start = (Ok md, t)
     \<and> im_ProviderID md = ''huaweicloud:///'' @ uid \<and> parseInstanceID (im_ProviderID md) = Inr uid"
proof -
  obtain md t where run: "InstanceMetadata demo_basic (demo_node\<lparr>node_ProviderID := ''i-1''\<rparr>) start = (Ok md, t)"
    using demo_metadata by blast
  with metadata_provider_id_normal [OF run] show ?thesis by auto
qed

text \<open>The address and the host name by which the server of a node without provider ID is found.\<close>

definition node_ip :: "node \<Rightarrow> string" where
  "node_ip n = fst (node_ip_and_host (node_Addresses n) ([], []))"

definition node_host :: "node \<Rightarrow> string" where
  "node_host n = (let h = snd (node_ip_and_host (node_Addresses n) ([], [])) in
     if h = [] then (case node_Labels n ''kubernetes.io/hostname'' of None \<Rightarrow> [] | Some l \<Rightarrow> l) else h)"

lemma GetByNode_eq:
  "GetByNode A n = (let fallback = (if node_host n \<noteq> [] then GetByNodeName A (node_host n)
        else errR (Errorf (''cannot find ECS for node '' @ node_Name n @ '': no private IP or hostname available'')))
     in if node_ip n \<noteq> [] then bindR (attempt (GetByNodeIP A (node_ip n))) (\<lambda>r. case r of Inr server \<Rightarrow> okR server | Inl _ \<Rightarrow> fallback)
        else fallback)"
  by (simp add: GetByNode_def node_ip_def node_host_def Let_def split: prod.splits)

lemma exists_False:
  "bindR (attempt m) (\<lambda>r. case r of Inl e \<Rightarrow> if IsNotFound e then okR False else errR e | Inr _ \<Rightarrow> okR True) s = (Ok False, t)
     \<longleftrightarrow> (\<exists>e. m s = (Err e, t) \<and> IsNotFound e)"
  by (cases "m s") (auto simp: run_simps split: res.splits)

lemma GetByNode_NotFound:
  "(\<exists>e. GetByNode A n s = (Err e, t) \<and> IsNotFound e) \<longleftrightarrow>
     (\<exists>u e. (if node_ip n = [] then u = s else \<exists>e'. GetByNodeIP A (node_ip n) s = (Err e', u)) \<and>
        node_host n \<noteq> [] \<and> GetByNodeName A (node_host n) u = (Err e, t) \<and> IsNotFound e)"
  by (cases "GetByNodeIP A (node_ip n) s") (auto simp: GetByNode_eq Let_def run_simps split: res.splits)

text \<open>
  C21. When a node is reported as gone. By provider ID: exactly when the cloud answers the question for the instance of that ID
  with a not-found error; any other failure is returned as an error. By the node itself: exactly when it has a host name, the
  query by this name ends in a not-found error, and a query by the private address, if the node has one, came before and
  failed. That failure can be of any kind, so here an outage of the query by address is not passed on.
\<close>

theorem instance_gone_only_if_not_found:
  "(InstanceExistsByProviderID i pid s = (Ok False, t) \<longleftrightarrow>
      (\<exists>uid e. parseInstanceID pid = Inr uid \<and> ecs_Get (clients i) uid s = (Err e, t) \<and> IsNotFound e))
   \<and> (InstanceExists i n s = (Ok False, t) \<longleftrightarrow>
      (\<exists>u e. (if node_ip n = [] then u = s else \<exists>e'. GetByNodeIP (clients i) (node_ip n) s = (Err e', u)) \<and>
         node_host n \<noteq> [] \<and> GetByNodeName (clients i) (node_host n) u = (Err e, t) \<and> IsNotFound e))"
proof
  show "InstanceExistsByProviderID i pid s = (Ok False, t) \<longleftrightarrow>
      (\<exists>uid e. parseInstanceID pid = Inr uid \<and> ecs_Get (clients i) uid s = (Err e, t) \<and> IsNotFound e)"
    by (cases "parseInstanceID pid") (simp_all add: InstanceExistsByProviderID_def run_bindR [of "lift_result r" for r] run_lift_result exists_False)
  show "InstanceExists i n s = (Ok False, t) \<longleftrightarrow>
      (\<exists>u e. (if node_ip n = [] then u = s else \<exists>e'. GetByNodeIP (clients i) (node_ip n) s = (Err e', u)) \<and>
         node_host n \<noteq> [] \<and> GetByNodeName (clients i) (node_host n) u = (Err e, t) \<and> IsNotFound e)"
    unfolding InstanceExists_def exists_False GetByNode_NotFound ..
qed

text \<open>
  A node whose server exists, in a cloud where the query by address is answered with status 500 and no server has the host
  name as its name: it is reported as gone.
\<close>

fun outage_sdk :: "sdk_request \<Rightarrow> error + sdk_response" where
  "outage_sdk (Ecs (ListServersByIp ip)) = Inl (ServiceResponseErrorPtr 500 ''Ecs.0100'' ''internal error'')"
| "outage_sdk (Ecs (ListServersByName name)) = reply (PServers (Some []))"
| "outage_sdk r = reply (demo_sdk r)"

definition outage_api :: "unit api" where
  "outage_api = demo_api\<lparr>sdk_call := (\<lambda>w r. (outage_sdk r, w))\<rparr>"

definition named_node :: node where
  "named_node = demo_node\<lparr>node_Labels := [''kubernetes.io/hostname'' \<mapsto> ''web-1'']\<rparr>"

theorem outage_reported_as_gone:
  "fst (InstanceExists (demo_basic\<lparr>clients := outage_api\<rparr>) named_node start) = Ok False
   \<and> fst (GetByNodeIP outage_api (node_ip named_node) start) = Err (ServiceResponseErrorPtr 500 ''Ecs.0100'' ''internal error'')"
proof -
  have "ParseIP ''web-1'' = None" by code_simp
  then show ?thesis
    by (simp add: InstanceExists_def GetByNode_eq node_ip_def node_host_def named_node_def demo_node_def GetByNodeIP_def ecs_ListByIp_def
        GetByNodeName_def GetByName_def ecs_ListByName_def LookupHost_def commonWrapper_def remote_def run_simps outage_api_def demo_api_def
        reply_def checkStatusCode_def OKCodes_def payload_selectors Let_def start_def)
qed

text \<open>No question about a node changes anything in the cloud: every request issued is a read.\<close>

theorem node_queries_only_read:
  "emits (NodeAddresses i name) (kinds {KRead}) \<and> emits (NodeAddressesByProviderID i pid) (kinds {KRead})
   \<and> emits (InstanceID i name) (kinds {KRead}) \<and> emits (InstanceType i name) (kinds {KRead})
   \<and> emits (InstanceTypeByProviderID i pid) (kinds {KRead}) \<and> emits (InstanceExistsByProviderID i pid) (kinds {KRead})
   \<and> emits (InstanceShutdownByProviderID i pid) (kinds {KRead}) \<and> emits (InstanceExists i n) (kinds {KRead})
   \<and> emits (InstanceShutdown i n) (kinds {KRead}) \<and> emits (InstanceMetadata i n) (kinds {KRead})"
  unfolding NodeAddresses_def InstanceID_def InstanceType_def InstanceTypeByProviderID_def InstanceExistsByProviderID_def
    InstanceShutdown_def InstanceShutdownByProviderID_def InstanceExists_def
  by (intro conjI; (intro emits_intro)?; simp?)

end
