(* ===== verification/Http_Client.thy ===== *)
theory Http_Client
  imports Cloud_Api
begin

text \<open>
  \<open>http.go\<close>: one HTTP exchange and the decoding of its body, as the NAT and the version 1 ELB clients use
  them. Sending (with signing and rate limiting) is \<open>http_call\<close> of the record \<open>api\<close>, and \<open>url_parses\<close>
  says whether \<open>net/url\<close> accepts an address. \<open>DoRequest\<close> sets a header on the request before it looks
  at the error of \<open>http.NewRequest\<close>, so an address that does not parse is a nil dereference.
\<close>

record AccessInfo =
  ai_Region :: string
  ai_AccessKey :: string
  ai_SecretKey :: string
  ai_SecurityToken :: string
  ai_ServiceType :: string

record ServiceClient =
  sc_Endpoint :: string
  sc_Access :: "AccessInfo option"
  sc_TenantId :: string

text \<open>A client of the host \<open>host\<close>, as \<open>NewNATClient\<close> and \<open>NewELBClient\<close> build them; \<open>cloud\<close> is the domain.\<close>

definition service_client :: "string \<Rightarrow> string \<Rightarrow> string \<Rightarrow> string \<Rightarrow> string \<Rightarrow> string \<Rightarrow> ServiceClient" where
  "service_client host cloud region projectID accessKey secretKey =
     \<lparr>sc_Endpoint = ''https://'' @ host @ ''.'' @ region @ ''.'' @ cloud,
      sc_Access = Some \<lparr>ai_Region = region, ai_AccessKey = accessKey, ai_SecretKey = secretKey, ai_SecurityToken = [], ai_ServiceType = ''ec2''\<rparr>,
      sc_TenantId = projectID\<rparr>"

lemma service_client_tenant [simp]: "sc_TenantId (service_client host cloud region projectID accessKey secretKey) = projectID"
  by (simp add: service_client_def)

definition NewRequest :: "http_service \<Rightarrow> http_method \<Rightarrow> string \<Rightarrow> http_obj option \<Rightarrow> http_request" where
  "NewRequest service meth url obj = \<lparr>rq_Service = service, rq_Method = meth, rq_Url = url, rq_Obj = obj\<rparr>"

definition DoRequest :: "'w api \<Rightarrow> http_request \<Rightarrow> ('w, http_response) prog" where
  "DoRequest A r =
     (if \<not> url_parses A (rq_Url r) then panicR ''invalid memory address or nil pointer dereference''
      else bindR (attempt (remote (Http r) (\<lambda>w. http_call A w r))) (\<lambda>res. case res of
          Inl e \<Rightarrow> errR (Errorf (''http client do request error. '' @ err_text e))
        | Inr rsp \<Rightarrow> okR rsp))"

text \<open>\<open>out\<close> keeps its zero value when the body has at most two bytes apart from blanks.\<close>

definition DecodeBody :: "http_response \<Rightarrow> (string \<Rightarrow> error + 'a) \<Rightarrow> 'a \<Rightarrow> error + 'a" where
  "DecodeBody resp decode out =
     (case rsp_ReadErr resp of
        Some e \<Rightarrow> Inl e
      | None \<Rightarrow>
          if rsp_StatusCode resp \<noteq> 200 \<and> rsp_StatusCode resp \<noteq> 201 \<and> rsp_StatusCode resp \<noteq> 204
          then Inl (Errorf (''request failed: '' @ rsp_Body resp @ '', status code: '' @ int_str (rsp_StatusCode resp)))
          else if length (filter (\<lambda>c. c \<noteq> CHR '' '') (rsp_Body resp)) \<le> 2 then Inr out
          else (case decode (rsp_Body resp) of
                  Inl e \<Rightarrow> Inl (Errorf (''Decode failed: '' @ rsp_Body resp @ '', err: '' @ err_text e))
                | Inr x \<Rightarrow> Inr x))"

text \<open>The query of a list request; \<open>params\<close> in the order in which \<open>range\<close> visits the map.\<close>

definition query_string :: "(string \<times> string) list \<Rightarrow> string" where
  "query_string params =
     (if params = [] then [] else butlast (''?'' @ concat (map (\<lambda>(k, v). k @ ''='' @ v @ ''&'') params)))"

text \<open>A request whose reply is decoded, the error prefixed with \<open>failed\<close>.\<close>

definition request_decode ::
  "'w api \<Rightarrow> http_request \<Rightarrow> string \<Rightarrow> (string \<Rightarrow> error + 'a) \<Rightarrow> 'a \<Rightarrow> ('w, 'a) prog" where
  "request_decode A r failed decode out =
     bindR (DoRequest A r) (\<lambda>resp. case DecodeBody resp decode out of
         Inl e \<Rightarrow> errR (Errorf (failed @ err_text e))
       | Inr x \<Rightarrow> okR x)"

text \<open>The same where a status 404 is an error of its own.\<close>

definition request_decode_found ::
  "'w api \<Rightarrow> http_request \<Rightarrow> string \<Rightarrow> string \<Rightarrow> (string \<Rightarrow> error + 'a) \<Rightarrow> 'a \<Rightarrow> ('w, 'a) prog" where
  "request_decode_found A r missing failed decode out =
     bindR (DoRequest A r) (\<lambda>resp.
       if rsp_StatusCode resp = 404 then errR (Errorf missing)
       else case DecodeBody resp decode out of
         Inl e \<Rightarrow> errR (Errorf (failed @ err_text e))
       | Inr x \<Rightarrow> okR x)"

text \<open>A request that must be answered with status 204; the error carries the body.\<close>

definition request_no_content :: "'w api \<Rightarrow> http_request \<Rightarrow> string \<Rightarrow> ('w, unit) prog" where
  "request_no_content A r failed =
     bindR (DoRequest A r) (\<lambda>resp.
       if rsp_StatusCode resp \<noteq> 204
       then errR (Errorf (failed @ rsp_Body resp @ '', status code: '' @ int_str (rsp_StatusCode resp)))
       else okR ())"

text \<open>\<open>client-go\<close>: a service, a node, and the list of all services (empty beside an error).\<close>

definition kube_service :: "'w api \<Rightarrow> string \<Rightarrow> string \<Rightarrow> ('w, service) prog" where
  "kube_service A ns name =
     bindR (remote (Kube (GetService ns name)) (\<lambda>w. kube_call A w (GetService ns name))) (\<lambda>p.
       case p of KService s \<Rightarrow> okR s | _ \<Rightarrow> errR (KubeError ReasonOther ''unexpected object''))"

definition kube_node :: "'w api \<Rightarrow> string \<Rightarrow> ('w, node) prog" where
  "kube_node A name =
     bindR (remote (Kube (GetNode name)) (\<lambda>w. kube_call A w (GetNode name))) (\<lambda>p.
       case p of KNode n \<Rightarrow> okR n | _ \<Rightarrow> errR (KubeError ReasonOther ''unexpected object''))"

definition kube_services :: "'w api \<Rightarrow> ('w, service list) prog" where
  "kube_services A =
     bindR (attempt (remote (Kube ListServices) (\<lambda>w. kube_call A w ListServices))) (\<lambda>r.
       okR (case r of Inr (KServices ss) \<Rightarrow> ss | _ \<Rightarrow> []))"

subsection \<open>Facts\<close>

lemma NewRequest_sel [simp]:
  "rq_Service (NewRequest sv meth url obj) = sv" "rq_Method (NewRequest sv meth url obj) = meth"
  "rq_Url (NewRequest sv meth url obj) = url" "rq_Obj (NewRequest sv meth url obj) = obj"
  by (simp_all add: NewRequest_def)

lemma emits_DoRequest [emits_intro]: "Http r \<in> S \<Longrightarrow> emits (DoRequest A r) S"
  unfolding DoRequest_def by (intro emits_intro)

lemma emits_request_decode [emits_intro]: "Http r \<in> S \<Longrightarrow> emits (request_decode A r failed decode out) S"
  unfolding request_decode_def by (intro emits_intro)

lemma emits_request_decode_found [emits_intro]: "Http r \<in> S \<Longrightarrow> emits (request_decode_found A r missing failed decode out) S"
  unfolding request_decode_found_def by (intro emits_intro)

lemma emits_request_no_content [emits_intro]: "Http r \<in> S \<Longrightarrow> emits (request_no_content A r failed) S"
  unfolding request_no_content_def by (intro emits_intro)

lemma emits_kube_service [emits_intro]: "Kube (GetService ns name) \<in> S \<Longrightarrow> emits (kube_service A ns name) S"
  unfolding kube_service_def by (intro emits_intro) (auto intro!: emits_intro split: kube_payload.splits)

lemma emits_kube_node [emits_intro]: "Kube (GetNode name) \<in> S \<Longrightarrow> emits (kube_node A name) S"
  unfolding kube_node_def by (intro emits_intro) (auto intro!: emits_intro split: kube_payload.splits)

lemma emits_kube_services [emits_intro]: "Kube ListServices \<in> S \<Longrightarrow> emits (kube_services A) S"
  unfolding kube_services_def by (intro emits_intro)

text \<open>An exchange is one event, or none when the address does not parse.\<close>

lemma DoRequest_log: "log (snd (DoRequest A r s)) = log s @ (if url_parses A (rq_Url r) then [Http r] else [])"
  by (auto simp: DoRequest_def remote_def run_simps split: prod.splits sum.splits res.splits)

lemma DoRequest_world:
  "DoRequest A r s = (Ok rsp, t) \<Longrightarrow>
   http_call A (world s) r = (Inr rsp, world t) \<and> log t = log s @ [Http r]"
  by (auto simp: DoRequest_def remote_def run_simps split: if_splits prod.splits sum.splits res.splits)

lemma query_string_one: "query_string [(k, v)] = ''?'' @ k @ ''='' @ v"
  by (simp add: query_string_def butlast_append)

end
