(* ===== verification/Nat_Client.thy ===== *)
theory Nat_Client
  imports Http_Client
begin

text \<open>
  The client of \<open>nat_connections.go\<close>: NAT gateways, DNAT rules, ports and floating IPs. \<open>tenant\<close> is the
  project ID of the configuration. The address of \<open>GetDNATRule\<close> is built as the source builds it,
  without a slash before the rule's ID.
\<close>

record NATClient =
  nc_natClient :: ServiceClient
  nc_vpcClient :: ServiceClient

definition NewNATClient :: "string \<Rightarrow> string \<Rightarrow> string \<Rightarrow> string \<Rightarrow> string \<Rightarrow> NATClient" where
  "NewNATClient cloud region projectID accessKey secretKey =
     \<lparr>nc_natClient = service_client ''nat'' cloud region projectID accessKey secretKey,
      nc_vpcClient = service_client ''vpc'' cloud region projectID accessKey secretKey\<rparr>"

definition GetNATGateway :: "'w api \<Rightarrow> json_decoders \<Rightarrow> string \<Rightarrow> string \<Rightarrow> ('w, NATGateway) prog" where
  "GetNATGateway A J tenant natGatewayId =
     request_decode_found A (NewRequest NatEndpoint MethodGet (''/v2/'' @ tenant @ ''/nat_gateways/'' @ natGatewayId) None)
       (''Failed to GetNATGateway: No Nat Gateway exist with id '' @ natGatewayId) ''Failed to GetNATGateway : ''
       (js_NATGateway J) zero_NATGateway"

definition ListNATGateways :: "'w api \<Rightarrow> json_decoders \<Rightarrow> string \<Rightarrow> (string \<times> string) list \<Rightarrow> ('w, NATGateway list) prog" where
  "ListNATGateways A J tenant params =
     request_decode A (NewRequest NatEndpoint MethodGet (''/v2/'' @ tenant @ ''/nat_gateways'' @ query_string params) None)
       ''Failed to get NATList : '' (js_NATGateways J) []"

definition CreateDNATRule :: "'w api \<Rightarrow> json_decoders \<Rightarrow> string \<Rightarrow> DNATRule \<Rightarrow> ('w, DNATRule) prog" where
  "CreateDNATRule A J tenant dnatRuleConf =
     request_decode A (NewRequest NatEndpoint MethodPost (''/v2/'' @ tenant @ ''/dnat_rules'') (Some (ObjDNATRule dnatRuleConf)))
       ''Failed to CreateDNATRule : '' (js_DNATRule J) zero_DNATRule"

definition delete_rule_url :: "string \<Rightarrow> string \<Rightarrow> string \<Rightarrow> string" where
  "delete_rule_url tenant natGatewayId dnatRuleId =
     ''/v2/'' @ tenant @ ''/nat_gateways/'' @ natGatewayId @ ''/dnat_rules/'' @ dnatRuleId"

definition DeleteDNATRule :: "'w api \<Rightarrow> string \<Rightarrow> string \<Rightarrow> string \<Rightarrow> ('w, unit) prog" where
  "DeleteDNATRule A tenant dnatRuleId natGatewayId =
     request_no_content A (NewRequest NatEndpoint MethodDelete (delete_rule_url tenant natGatewayId dnatRuleId) None)
       ''Failed to DeleteDNATRule : ''"

definition GetDNATRule :: "'w api \<Rightarrow> json_decoders \<Rightarrow> string \<Rightarrow> string \<Rightarrow> ('w, DNATRule) prog" where
  "GetDNATRule A J tenant dnatRuleId =
     request_decode_found A (NewRequest NatEndpoint MethodGet (''/v2/'' @ tenant @ ''/dnat_rules'' @ dnatRuleId) None)
       (''Failed to GetDNATRule: No DNAT rule exist with id '' @ dnatRuleId) ''Failed to GetDNATRule : ''
       (js_DNATRule J) zero_DNATRule"

definition ListDNATRules :: "'w api \<Rightarrow> json_decoders \<Rightarrow> string \<Rightarrow> (string \<times> string) list \<Rightarrow> ('w, DNATRule list) prog" where
  "ListDNATRules A J tenant params =
     request_decode A (NewRequest NatEndpoint MethodGet (''/v2/'' @ tenant @ ''/dnat_rules'' @ query_string params) None)
       ''Failed to Get DNATRuleList : '' (js_DNATRules J) []"

definition ListPorts :: "'w api \<Rightarrow> json_decoders \<Rightarrow> (string \<times> string) list \<Rightarrow> ('w, Port list) prog" where
  "ListPorts A J params =
     request_decode A (NewRequest VpcEndpoint MethodGet (''/v2.0/ports'' @ query_string params) None)
       ''Failed to Get PortList : '' (js_Ports J) []"

definition GetPort :: "'w api \<Rightarrow> json_decoders \<Rightarrow> string \<Rightarrow> ('w, Port) prog" where
  "GetPort A J portId =
     request_decode_found A (NewRequest VpcEndpoint MethodGet (''/v2.0/ports/'' @ portId) None)
       (''Failed to GetPort: No port exist with id '' @ portId) ''Failed to get Port : '' (js_Port J) zero_Port"

definition ListFloatings :: "'w api \<Rightarrow> json_decoders \<Rightarrow> (string \<times> string) list \<Rightarrow> ('w, FloatingIp list) prog" where
  "ListFloatings A J params =
     request_decode A (NewRequest VpcEndpoint MethodGet (''/v2.0/floatingips'' @ query_string params) None)
       ''Failed to Get FloatingIpList : '' (js_FloatingIps J) []"

lemmas nat_client_defs = GetNATGateway_def CreateDNATRule_def DeleteDNATRule_def GetDNATRule_def ListDNATRules_def
  ListPorts_def GetPort_def ListFloatings_def

text \<open>The reads of the client.\<close>

lemma emits_nat_reads [emits_intro]:
  "(\<And>r. rq_Method r = MethodGet \<Longrightarrow> Http r \<in> S) \<Longrightarrow> emits (GetNATGateway A J tenant gid) S"
  "(\<And>r. rq_Method r = MethodGet \<Longrightarrow> Http r \<in> S) \<Longrightarrow> emits (GetDNATRule A J tenant rid) S"
  "(\<And>r. rq_Method r = MethodGet \<Longrightarrow> Http r \<in> S) \<Longrightarrow> emits (ListDNATRules A J tenant params) S"
  "(\<And>r. rq_Method r = MethodGet \<Longrightarrow> Http r \<in> S) \<Longrightarrow> emits (ListPorts A J params) S"
  "(\<And>r. rq_Method r = MethodGet \<Longrightarrow> Http r \<in> S) \<Longrightarrow> emits (GetPort A J pid) S"
  "(\<And>r. rq_Method r = MethodGet \<Longrightarrow> Http r \<in> S) \<Longrightarrow> emits (ListFloatings A J params) S"
  unfolding nat_client_defs by (intro emits_intro; simp)+

lemma emits_CreateDNATRule [emits_intro]:
  "Http (NewRequest NatEndpoint MethodPost (''/v2/'' @ tenant @ ''/dnat_rules'') (Some (ObjDNATRule conf))) \<in> S \<Longrightarrow>
   emits (CreateDNATRule A J tenant conf) S"
  unfolding CreateDNATRule_def by (intro emits_intro)

lemma emits_DeleteDNATRule [emits_intro]:
  "Http (NewRequest NatEndpoint MethodDelete (delete_rule_url tenant gid rid) None) \<in> S \<Longrightarrow>
   emits (DeleteDNATRule A tenant rid gid) S"
  unfolding DeleteDNATRule_def by (intro emits_intro)

end
