(* ===== verification/Nat_Cloud.thy ===== *)
theory Nat_Cloud
  imports Nat_Client Lb_Interface
begin

text \<open>
  The NAT provider of \<open>nat.go\<close>: a service is published by DNAT rules of a NAT gateway, one per port, to
  the host of a ready pod. Rules carry the cluster's ID in their description; rules of other clusters
  are filtered out right after listing. \<open>nc_ClusterID\<close> is the environment variable \<open>CLUSTER_ID\<close> and
  \<open>nc_Ticks\<close> the number of ticks \<open>wait.Poll\<close> delivers before its timeout of five seconds; the condition
  is evaluated once more when it expires.
\<close>

record 'w NATCloud =
  nc_Basic :: "'w Basic"
  nc_json :: json_decoders
  nc_ClusterID :: string
  nc_Ticks :: nat

definition nat_api :: "'w NATCloud \<Rightarrow> 'w api" where
  "nat_api c = clients (nc_Basic c)"

definition getNATClient :: "'w NATCloud \<Rightarrow> NATClient" where
  "getNATClient c = (let authOpts = AuthOpts (cloudConfig (nc_Basic c)) in
     NewNATClient (Cloud authOpts) (Region authOpts) (ProjectID authOpts) (AccessKey authOpts) (SecretKey authOpts))"

definition nat_tenant :: "'w NATCloud \<Rightarrow> string" where
  "nat_tenant c = sc_TenantId (nc_natClient (getNATClient c))"

definition AnnotationsNATID :: string where
  "AnnotationsNATID = ''kubernetes.io/natgateway.id''"

definition natGatewayId_of :: "service \<Rightarrow> string" where
  "natGatewayId_of svc = (case svc_Annotations svc AnnotationsNATID of None \<Rightarrow> [] | Some v \<Rightarrow> v)"

definition missing_gateway :: error where
  "missing_gateway = Errorf (''The id of natGateway should be set by '' @ AnnotationsNATID @ '' in annotations '')"

definition Attention :: string where
  "Attention = ''It is auto-generated by cloud-provider-huaweicloud, do not modify!''"

subsection \<open>Rules\<close>

definition genDNATRuleDescription :: "'w NATCloud \<Rightarrow> string" where
  "genDNATRuleDescription c = js_encDescription (nc_json c) \<lparr>dd_ClusterID = nc_ClusterID c, dd_Description = Attention\<rparr>"

definition getDNATRuleDescription :: "'w NATCloud \<Rightarrow> string \<Rightarrow> DNATRuleDescription option" where
  "getDNATRuleDescription c desc = (case js_Description (nc_json c) desc of Inl e \<Rightarrow> None | Inr d \<Rightarrow> Some d)"

text \<open>The filter of \<open>listDnatRule\<close>.\<close>

definition own_rule :: "'w NATCloud \<Rightarrow> DNATRule \<Rightarrow> bool" where
  "own_rule c rule \<longleftrightarrow> dr_Description rule \<noteq> []
     \<and> (case getDNATRuleDescription c (dr_Description rule) of None \<Rightarrow> False | Some desc \<Rightarrow> dd_ClusterID desc = nc_ClusterID c)"

definition listDnatRule :: "'w NATCloud \<Rightarrow> string \<Rightarrow> ('w, DNATRule list) prog" where
  "listDnatRule c natGatewayId =
     bindR (ListDNATRules (nat_api c) (nc_json c) (nat_tenant c) [(''nat_gateway_id'', natGatewayId)]) (\<lambda>rules.
       okR (filter (own_rule c) rules))"

definition listAllDnatRuleByFloatIP :: "'w NATCloud \<Rightarrow> string \<Rightarrow> ('w, DNATRule list) prog" where
  "listAllDnatRuleByFloatIP c floatIP =
     ListDNATRules (nat_api c) (nc_json c) (nat_tenant c) [(''floating_ip_address'', floatIP)]"

definition rule_matches :: "DNATRule \<Rightarrow> service_port \<Rightarrow> bool" where
  "rule_matches rule port \<longleftrightarrow> dr_ExternalServicePort rule = port_Port port
     \<and> dr_InternalServicePort rule = port_NodePort port \<and> equal_fold (dr_Protocol rule) (port_Protocol port)"

definition getServicePort :: "DNATRule \<Rightarrow> service_port list \<Rightarrow> service_port option" where
  "getServicePort dnatRule ports = find (rule_matches dnatRule) ports"

definition getDNATRule :: "DNATRule list \<Rightarrow> service_port \<Rightarrow> DNATRule option" where
  "getDNATRule rules port = find (\<lambda>rule. rule_matches rule port) rules"

definition new_rule :: "'w NATCloud \<Rightarrow> service_port \<Rightarrow> Port \<Rightarrow> FloatingIp \<Rightarrow> string \<Rightarrow> DNATRule" where
  "new_rule c port netPort floatingIp natGatewayId =
     zero_DNATRule\<lparr>dr_NATGatewayId := natGatewayId, dr_PortId := po_Id netPort, dr_InternalServicePort := port_NodePort port,
       dr_FloatingIpId := fl_Id floatingIp, dr_ExternalServicePort := port_Port port, dr_Protocol := port_Protocol port,
       dr_Description := genDNATRuleDescription c\<rparr>"

definition ensureCreateDNATRule :: "'w NATCloud \<Rightarrow> service_port \<Rightarrow> Port \<Rightarrow> FloatingIp \<Rightarrow> string \<Rightarrow> ('w, unit) prog" where
  "ensureCreateDNATRule c port netPort floatingIp natGatewayId =
     bindR (CreateDNATRule (nat_api c) (nc_json c) (nat_tenant c) (new_rule c port netPort floatingIp natGatewayId)) (\<lambda>_. okR ())"

definition checkDNATRuleById :: "'w NATCloud \<Rightarrow> string \<Rightarrow> ('w, bool) prog" where
  "checkDNATRuleById c dnatRuleId =
     bindR (attempt (GetDNATRule (nat_api c) (nc_json c) (nat_tenant c) dnatRuleId)) (\<lambda>r.
       okR (case r of Inl e \<Rightarrow> \<not> contains (err_text e) ''No DNAT rule exist'' | Inr _ \<Rightarrow> True))"

definition ensureDeleteDNATRule :: "'w NATCloud \<Rightarrow> DNATRule \<Rightarrow> string \<Rightarrow> ('w, unit) prog" where
  "ensureDeleteDNATRule c dnatRule natGatewayId =
     bindR (DeleteDNATRule (nat_api c) (nat_tenant c) (dr_Id dnatRule) natGatewayId) (\<lambda>_.
     bindR (exponential_backoff (Suc (nc_Ticks c))
              (\<lambda>_. bindR (checkDNATRuleById c (dr_Id dnatRule)) (\<lambda>exist. okR ((), Inr (\<not> exist)))) ())
       (\<lambda>(_, err). case err of None \<Rightarrow> okR () | Some e \<Rightarrow> errR e))"

subsection \<open>Addresses, ports and nodes\<close>

definition checkFloatingIp :: "DNATRule list \<Rightarrow> FloatingIp \<Rightarrow> string \<Rightarrow> bool" where
  "checkFloatingIp rules floatingIp natGatewayId \<longleftrightarrow>
     (if fl_PortId floatingIp = [] then True
      else case rules of [] \<Rightarrow> False | rule # _ \<Rightarrow> dr_NATGatewayId rule = natGatewayId)"

definition getFloatingIpInfoByIp :: "'w NATCloud \<Rightarrow> string \<Rightarrow> ('w, FloatingIp) prog" where
  "getFloatingIpInfoByIp c ip =
     bindR (ListFloatings (nat_api c) (nc_json c) [(''floating_ip_address'', ip)]) (\<lambda>ips. case ips of
         [] \<Rightarrow> errR (Errorf (''The floating ip '' @ ip @ '' is not exist''))
       | f # _ \<Rightarrow> okR f)"

definition getPortByFixedIp :: "'w NATCloud \<Rightarrow> string \<Rightarrow> string \<Rightarrow> ('w, Port) prog" where
  "getPortByFixedIp c subnetId fixedIp =
     bindR (ListPorts (nat_api c) (nc_json c) [(''network_id'', subnetId), (''fixed_ips=ip_address'', fixedIp)]) (\<lambda>ports. case ports of
         [] \<Rightarrow> errR (Errorf (''The port with fixed ip '' @ fixedIp @ '' is not exist ''))
       | p # _ \<Rightarrow> okR p)"

definition getSubnetIdForPod :: "'w NATCloud \<Rightarrow> pod \<Rightarrow> node list \<Rightarrow> string" where
  "getSubnetIdForPod c p nodes =
     (case find (\<lambda>n. list_ex (\<lambda>a. addr_Type a = ''InternalIP'' \<and> addr_Address a = pod_HostIP p) (node_Addresses n)) nodes of
        None \<Rightarrow> vpc_SubnetID (VpcOpts (cloudConfig (nc_Basic c)))
      | Some n \<Rightarrow> (case node_Labels n ''node.kubernetes.io/subnetid'' of
            None \<Rightarrow> vpc_SubnetID (VpcOpts (cloudConfig (nc_Basic c)))
          | Some nodeSubnetId \<Rightarrow> nodeSubnetId))"

definition CheckNodeHealth :: "node \<Rightarrow> bool" where
  "CheckNodeHealth n =
     (let conditionMap = fold (\<lambda>cond m. m(cond_Type cond \<mapsto> cond_Status cond)) (node_Conditions n) Map.empty;
          status = (case conditionMap ''Ready'' of None \<Rightarrow> False | Some st \<Rightarrow> st = ''True'')
      in if node_Unschedulable n then False else status)"

text \<open>\<open>podutil.IsPodReady\<close>: the first condition of type \<open>Ready\<close> is true.\<close>

definition IsPodReady :: "pod \<Rightarrow> bool" where
  "IsPodReady p = (case find (\<lambda>c. cond_Type c = ''Ready'') (pod_Conditions p) of None \<Rightarrow> False | Some c \<Rightarrow> cond_Status c = ''True'')"

definition nat_getPods :: "'w NATCloud \<Rightarrow> string \<Rightarrow> string \<Rightarrow> ('w, pod list) prog" where
  "nat_getPods c name namespace =
     bindR (kube_service (nat_api c) namespace name) (\<lambda>svc.
       if length (svc_Selector svc) = 0
       then errR (Errorf (''the service '' @ name @ '' has no selector to associate the pods''))
       else listPods (nat_api c) namespace (svc_Selector svc))"

text \<open>The first ready pod, or the zero value.\<close>

definition runningPod :: "pod list \<Rightarrow> pod" where
  "runningPod pods = (case find IsPodReady pods of None \<Rightarrow> zero_pod | Some p \<Rightarrow> p)"

subsection \<open>The provider\<close>

definition nat_GetLoadBalancer :: "'w NATCloud \<Rightarrow> string \<Rightarrow> service \<Rightarrow> ('w, string list option \<times> bool) prog" where
  "nat_GetLoadBalancer c clusterName svc =
     (let natGatewayId = natGatewayId_of svc in
      if natGatewayId = [] then errR missing_gateway
      else bindR (listDnatRule c natGatewayId) (\<lambda>rules.
        if length rules = 0 then okR (None, False)
        else if list_ex (\<lambda>port. getDNATRule rules port = None) (svc_Ports svc) then okR (None, False)
        else okR (Some [svc_LoadBalancerIP svc], True)))"

definition nat_GetLoadBalancerName :: "string \<Rightarrow> service \<Rightarrow> string" where
  "nat_GetLoadBalancerName clusterName svc = []"

text \<open>The checks that open \<open>EnsureLoadBalancer\<close> and \<open>UpdateLoadBalancer\<close>; \<open>blank\<close> ends the last message.\<close>

definition nat_prepare :: "'w NATCloud \<Rightarrow> service \<Rightarrow> string \<Rightarrow> ('w, NATGateway \<times> DNATRule list \<times> FloatingIp) prog" where
  "nat_prepare c svc blank =
     (let natGatewayId = natGatewayId_of svc in
      if natGatewayId = [] then errR missing_gateway
      else bindR (GetNATGateway (nat_api c) (nc_json c) (nat_tenant c) natGatewayId) (\<lambda>natGateway.
        if ng_RouterId natGateway \<noteq> vpc_ID (VpcOpts (cloudConfig (nc_Basic c)))
        then errR (Errorf ''The natGateway is not in the same VPC with cluster. '')
        else bindR (listDnatRule c natGatewayId) (\<lambda>dnatRuleList.
             bindR (getFloatingIpInfoByIp c (svc_LoadBalancerIP svc)) (\<lambda>floatingIp.
             bindR (listAllDnatRuleByFloatIP c (svc_LoadBalancerIP svc)) (\<lambda>allDnatRuleInFloatIP.
               if \<not> checkFloatingIp allDnatRuleInFloatIP floatingIp natGatewayId
               then errR (Errorf (''The floating ip '' @ fl_FloatingIpAddress floatingIp
                      @ '' is binding to port,and its not DNAT rule in natGateway '' @ ng_Name natGateway @ blank))
               else okR (natGateway, dnatRuleList, floatingIp))))))"

definition collect :: "string \<Rightarrow> ('w, unit) prog \<Rightarrow> error list \<Rightarrow> ('w, error list) prog" where
  "collect msg m errs = bindR (attempt m) (\<lambda>r. okR (case r of Inl e \<Rightarrow> errs @ [Errorf (msg @ err_text e)] | Inr _ \<Rightarrow> errs))"

definition aggregate :: "error list \<Rightarrow> ('w, unit) prog" where
  "aggregate errs = (if length errs \<noteq> 0 then errR (Aggregate errs) else okR ())"

text \<open>The ports of all services published by DNAT under one address.\<close>

definition dnat_ports :: "string \<Rightarrow> service list \<Rightarrow> service_port list" where
  "dnat_ports ip svcs =
     concat (map svc_Ports (filter (\<lambda>svc. svc_Annotations svc ElbClass = Some ''dnat'' \<and> svc_LoadBalancerIP svc = ip) svcs))"

text \<open>The two loops of \<open>EnsureLoadBalancer\<close>, which create the missing rules and delete the obsolete ones.\<close>

definition create_rules :: "'w NATCloud \<Rightarrow> DNATRule list \<Rightarrow> Port \<Rightarrow> FloatingIp \<Rightarrow> string \<Rightarrow> service_port list \<Rightarrow> ('w, error list) prog" where
  "create_rules c rules netPort floatingIp natGatewayId ports =
     foldR (\<lambda>port errs. if getDNATRule rules port \<noteq> None then okR errs
         else collect ''EnsureCreateDNATRule Failed: '' (ensureCreateDNATRule c port netPort floatingIp natGatewayId) errs) ports []"

definition delete_rules :: "'w NATCloud \<Rightarrow> DNATRule list \<Rightarrow> string \<Rightarrow> service_port list \<Rightarrow> string \<Rightarrow> error list \<Rightarrow> ('w, error list) prog" where
  "delete_rules c rules ip lbPorts natGatewayId errs =
     foldR (\<lambda>rule errs. if dr_FloatingIpAddress rule \<noteq> ip then okR errs
         else if getServicePort rule lbPorts \<noteq> None then okR errs
         else collect ''EnsureDeleteDNATRule Failed: '' (ensureDeleteDNATRule c rule natGatewayId) errs) rules errs"

definition reconcile_rules :: "'w NATCloud \<Rightarrow> service \<Rightarrow> DNATRule list \<Rightarrow> Port \<Rightarrow> FloatingIp \<Rightarrow> ('w, unit) prog" where
  "reconcile_rules c svc rules netPort floatingIp =
     bindR (create_rules c rules netPort floatingIp (natGatewayId_of svc) (svc_Ports svc)) (\<lambda>errs.
     bindR (kube_services (nat_api c)) (\<lambda>lbServers.
     bindR (delete_rules c rules (svc_LoadBalancerIP svc) (dnat_ports (svc_LoadBalancerIP svc) lbServers) (natGatewayId_of svc) errs)
       aggregate))"

definition nat_EnsureLoadBalancer :: "'w NATCloud \<Rightarrow> string \<Rightarrow> service \<Rightarrow> node list \<Rightarrow> ('w, string list option) prog" where
  "nat_EnsureLoadBalancer c clusterName svc hosts =
     bindR (nat_prepare c svc []) (\<lambda>(natGateway, dnatRuleList, floatingIp).
     bindR (nat_getPods c (svc_Name svc) (svc_Namespace svc)) (\<lambda>podList.
       let p = runningPod podList in
       if length (pod_HostIP p) = 0
       then errR (Errorf (''There is no availabel endpoint for the service '' @ svc_Name svc))
       else bindR (getPortByFixedIp c (getSubnetIdForPod c p hosts) (pod_HostIP p)) (\<lambda>netPort.
            bindR (reconcile_rules c svc dnatRuleList netPort floatingIp) (\<lambda>_.
              okR (Some [svc_LoadBalancerIP svc])))))"

text \<open>The rules of the service's ports are deleted.\<close>

definition delete_port_rules :: "'w NATCloud \<Rightarrow> string \<Rightarrow> DNATRule list \<Rightarrow> string \<Rightarrow> service_port list \<Rightarrow> ('w, error list) prog" where
  "delete_port_rules c msg rules natGatewayId ports =
     foldR (\<lambda>port errs. case getDNATRule rules port of
         None \<Rightarrow> okR errs
       | Some rule \<Rightarrow> collect msg (ensureDeleteDNATRule c rule natGatewayId) errs) ports []"

text \<open>
  One port of \<open>UpdateLoadBalancer\<close>: a rule to a node that is not healthy is replaced. A node that
  cannot be read leaves the rule as it is and is no error.
\<close>

definition nat_update_port :: "'w NATCloud \<Rightarrow> DNATRule list \<Rightarrow> Port \<Rightarrow> FloatingIp \<Rightarrow> string \<Rightarrow> string \<Rightarrow> service_port \<Rightarrow> error list \<Rightarrow> ('w, error list) prog" where
  "nat_update_port c rules netPort floatingIp natGatewayId gatewayId port errs =
     (let create = collect ''UpdateDNATRule Failed: '' (ensureCreateDNATRule c port netPort floatingIp gatewayId) in
      case getDNATRule rules port of
        None \<Rightarrow> create errs
      | Some rule \<Rightarrow>
          bindR (attempt (GetPort (nat_api c) (nc_json c) (dr_PortId rule))) (\<lambda>r. case r of
              Inl e \<Rightarrow> okR (errs @ [e])
            | Inr networkPort \<Rightarrow> (case po_FixedIps networkPort of
                  [] \<Rightarrow> okR (errs @ [Errorf ''The port has no ipAddress binded ''])
                | fip # _ \<Rightarrow> bindR (deref fip) (\<lambda>f.
                    bindR (attempt (kube_node (nat_api c) (nfi_IpAddress f))) (\<lambda>q. case q of
                        Inl e \<Rightarrow> okR errs
                      | Inr n \<Rightarrow>
                          if CheckNodeHealth n then okR errs
                          else bindR (attempt (ensureDeleteDNATRule c rule natGatewayId)) (\<lambda>d. case d of
                                 Inl e \<Rightarrow> okR (errs @ [Errorf (''UpdateDNATRule Failed: '' @ err_text e)])
                               | Inr _ \<Rightarrow> create errs))))))"

definition nat_UpdateLoadBalancer :: "'w NATCloud \<Rightarrow> string \<Rightarrow> service \<Rightarrow> node list \<Rightarrow> ('w, unit) prog" where
  "nat_UpdateLoadBalancer c clusterName svc nodes =
     bindR (nat_prepare c svc '' '') (\<lambda>(natGateway, dnatRuleList, floatingIp).
     bindR (nat_getPods c (svc_Name svc) (svc_Namespace svc)) (\<lambda>podList.
       let p = runningPod podList in
       if length (pod_HostIP p) = 0
       then bindR (delete_port_rules c ''UpdateDNATRule Failed: '' dnatRuleList (natGatewayId_of svc) (svc_Ports svc)) aggregate
       else bindR (getPortByFixedIp c (getSubnetIdForPod c p nodes) (pod_HostIP p)) (\<lambda>netPort.
            bindR (foldR (nat_update_port c dnatRuleList netPort floatingIp (natGatewayId_of svc) (ng_Id natGateway)) (svc_Ports svc) [])
              aggregate)))"

text \<open>Here the errors are collected without a prefix.\<close>

definition collect_plain :: "('w, unit) prog \<Rightarrow> error list \<Rightarrow> ('w, error list) prog" where
  "collect_plain m errs = bindR (attempt m) (\<lambda>r. okR (case r of Inl e \<Rightarrow> errs @ [e] | Inr _ \<Rightarrow> errs))"

definition nat_EnsureLoadBalancerDeleted :: "'w NATCloud \<Rightarrow> string \<Rightarrow> service \<Rightarrow> ('w, unit) prog" where
  "nat_EnsureLoadBalancerDeleted c clusterName svc =
     (let natGatewayId = natGatewayId_of svc in
      if natGatewayId = [] then errR missing_gateway
      else bindR (listDnatRule c natGatewayId) (\<lambda>rules.
           bindR (foldR (\<lambda>port errs. case getDNATRule rules port of
                None \<Rightarrow> okR errs
              | Some rule \<Rightarrow> collect_plain (ensureDeleteDNATRule c rule natGatewayId) errs) (svc_Ports svc) [])
             aggregate))"

definition NATCloud_provider :: "'w NATCloud \<Rightarrow> 'w provider" where
  "NATCloud_provider c = \<lparr>p_GetLoadBalancer = nat_GetLoadBalancer c, p_GetLoadBalancerName = nat_GetLoadBalancerName,
     p_EnsureLoadBalancer = nat_EnsureLoadBalancer c, p_UpdateLoadBalancer = nat_UpdateLoadBalancer c,
     p_EnsureLoadBalancerDeleted = nat_EnsureLoadBalancerDeleted c\<rparr>"

end
