(* ===== verification/Changes.thy ===== *)
theory Changes
  imports Http_Client
begin

text \<open>
  The changes a computation requests, in order. \<open>changes\<close> drops the reads of a log. \<open>settles m cs\<close>: from
  every state, whatever the remote side answers, \<open>m\<close> ends without a panic and the changes it requests
  are exactly \<open>cs\<close>; \<open>steady m cs\<close>: it also ends without an error, so that what follows it runs.
\<close>

definition changes :: "event list \<Rightarrow> event list" where
  "changes es = filter (\<lambda>e. kind_of e \<noteq> KRead) es"

lemma changes_simps [simp]:
  "changes [] = []" "changes (e # es) = (if kind_of e = KRead then changes es else e # changes es)"
  "changes (es @ fs) = changes es @ changes fs"
  by (simp_all add: changes_def)

definition settles :: "('w, 'a) prog \<Rightarrow> event list \<Rightarrow> bool" where
  "settles m cs \<longleftrightarrow> (\<forall>s. \<exists>r t es. m s = (r, t) \<and> (\<forall>msg. r \<noteq> Panic msg) \<and> log t = log s @ es \<and> changes es = cs)"

definition steady :: "('w, 'a) prog \<Rightarrow> event list \<Rightarrow> bool" where
  "steady m cs \<longleftrightarrow> (\<forall>s. \<exists>x t es. m s = (Ok x, t) \<and> log t = log s @ es \<and> changes es = cs)"

named_theorems settles_intro "rules for settles and steady"

lemma settlesD: "settles m cs \<Longrightarrow> \<exists>es. log (snd (m s)) = log s @ es \<and> changes es = cs"
  unfolding settles_def by (metis snd_conv)

lemma settlesE:
  assumes "settles m cs"
  obtains r t es where "m s = (r, t)" "\<And>msg. r \<noteq> Panic msg" "log t = log s @ es" "changes es = cs"
  using assms unfolding settles_def by blast

lemma steadyE:
  assumes "steady m cs"
  obtains x t es where "m s = (Ok x, t)" "log t = log s @ es" "changes es = cs"
  using assms unfolding steady_def by blast

lemma steady_settles: "steady m cs \<Longrightarrow> settles m cs"
  unfolding steady_def settles_def by (metis res.distinct(3))

lemma steady_okR [settles_intro]: "steady (okR x) []"
  by (simp add: steady_def run_okR)

lemma settles_okR [settles_intro]: "settles (okR x) []"
  by (rule steady_settles [OF steady_okR])

lemma settles_errR [settles_intro]: "settles (errR e) []"
  by (simp add: settles_def run_errR)

lemma steady_attempt [settles_intro]:
  assumes "settles m cs"
  shows "steady (attempt m) cs"
  unfolding steady_def
proof
  fix s
  obtain r t es where run: "m s = (r, t)" "\<And>msg. r \<noteq> Panic msg" "log t = log s @ es" "changes es = cs"
    using settlesE [OF assms] by metis
  then show "\<exists>x t es. attempt m s = (Ok x, t) \<and> log t = log s @ es \<and> changes es = cs"
    by (cases r) (auto simp: run_attempt)
qed

lemma steady_bindR:
  assumes "steady m cs" and "\<And>x. steady (f x) ds"
  shows "steady (bindR m f) (cs @ ds)"
  unfolding steady_def
proof
  fix s
  obtain x t es where m: "m s = (Ok x, t)" "log t = log s @ es" "changes es = cs" using steadyE [OF assms(1)] by metis
  obtain y u fs where f: "f x t = (Ok y, u)" "log u = log t @ fs" "changes fs = ds" using steadyE [OF assms(2)] by metis
  show "\<exists>x t es. bindR m f s = (Ok x, t) \<and> log t = log s @ es \<and> changes es = cs @ ds"
    using m f by (auto simp: run_bindR intro!: exI [of _ "es @ fs"])
qed

lemma settles_bindR:
  assumes "steady m cs" and "\<And>x. settles (f x) ds"
  shows "settles (bindR m f) (cs @ ds)"
  unfolding settles_def
proof
  fix s
  obtain x t es where m: "m s = (Ok x, t)" "log t = log s @ es" "changes es = cs" using steadyE [OF assms(1)] by metis
  obtain r u fs where f: "f x t = (r, u)" "\<And>msg. r \<noteq> Panic msg" "log u = log t @ fs" "changes fs = ds"
    using settlesE [OF assms(2)] by metis
  show "\<exists>r t es. bindR m f s = (r, t) \<and> (\<forall>msg. r \<noteq> Panic msg) \<and> log t = log s @ es \<and> changes es = cs @ ds"
    using m f by (auto simp: run_bindR intro!: exI [of _ "es @ fs"])
qed

text \<open>Where only reads follow, it does not matter whether the first part fails.\<close>

lemma settles_bindR_reads:
  assumes "settles m cs" and "\<And>x. settles (f x) []"
  shows "settles (bindR m f) cs"
  unfolding settles_def
proof
  fix s
  obtain r t es where m: "m s = (r, t)" "\<And>msg. r \<noteq> Panic msg" "log t = log s @ es" "changes es = cs"
    using settlesE [OF assms(1)] by metis
  show "\<exists>r t es. bindR m f s = (r, t) \<and> (\<forall>msg. r \<noteq> Panic msg) \<and> log t = log s @ es \<and> changes es = cs"
  proof (cases r)
    case (Ok x)
    obtain q u fs where f: "f x t = (q, u)" "\<And>msg. q \<noteq> Panic msg" "log u = log t @ fs" "changes fs = []"
      using settlesE [OF assms(2)] by metis
    then show ?thesis using m Ok by (auto simp: run_bindR intro!: exI [of _ "es @ fs"])
  qed (use m in \<open>auto simp: run_bindR\<close>)
qed

lemma steady_foldR:
  assumes "\<And>x b. steady (f x b) (g x)"
  shows "steady (foldR f xs b) (concat (map g xs))"
proof (induction xs arbitrary: b)
  case Nil
  then show ?case by (simp add: steady_okR)
next
  case (Cons x xs)
  then show ?case by (simp add: steady_bindR assms)
qed

lemma steady_exponential_backoff [settles_intro]:
  assumes "\<And>v. steady (condition v) []"
  shows "steady (exponential_backoff n condition v) []"
proof (induction n arbitrary: v)
  case 0
  then show ?case by (simp add: steady_okR)
next
  case (Suc n)
  have "steady (bindR (condition v) (\<lambda>(v', r). case r of
      Inl e \<Rightarrow> okR (v', Some e) | Inr ok \<Rightarrow> if ok then okR (v', None) else exponential_backoff n condition v')) ([] @ [])"
    by (rule steady_bindR [OF assms]) (auto simp: steady_okR Suc split: sum.splits)
  then show ?case by simp
qed

lemma settles_DoRequest [settles_intro]:
  assumes "url_parses A (rq_Url r)"
  shows "settles (DoRequest A r) (changes [Http r])"
  unfolding settles_def
proof
  fix s
  show "\<exists>res t es. DoRequest A r s = (res, t) \<and> (\<forall>msg. res \<noteq> Panic msg) \<and> log t = log s @ es \<and> changes es = changes [Http r]"
    using assms by (cases "http_call A (world s) r")
      (auto simp: DoRequest_def remote_def run_simps split: sum.splits intro!: exI [of _ "[Http r]"])
qed

lemma settles_request_decode [settles_intro]:
  "url_parses A (rq_Url r) \<Longrightarrow> settles (request_decode A r failed decode out) (changes [Http r])"
  unfolding request_decode_def
  by (rule settles_bindR_reads [OF settles_DoRequest]) (auto simp: settles_okR settles_errR split: sum.splits)

lemma settles_request_decode_found [settles_intro]:
  "url_parses A (rq_Url r) \<Longrightarrow> settles (request_decode_found A r missing failed decode out) (changes [Http r])"
  unfolding request_decode_found_def
  by (rule settles_bindR_reads [OF settles_DoRequest]) (auto simp: settles_okR settles_errR split: sum.splits)

lemma settles_request_no_content [settles_intro]:
  "url_parses A (rq_Url r) \<Longrightarrow> settles (request_no_content A r failed) (changes [Http r])"
  unfolding request_no_content_def
  by (rule settles_bindR_reads [OF settles_DoRequest]) (auto simp: settles_okR settles_errR)

lemma steady_if: "steady m cs \<Longrightarrow> steady n ds \<Longrightarrow> steady (if b then m else n) (if b then cs else ds)"
  by simp

end
