(* ===== verification/Http_Scenario.thy ===== *)
theory Http_Scenario
  imports Scenario Http_Client
begin

text \<open>
  Decoders for the concrete instances of the NAT and version 1 ELB properties: each instance replaces
  those it needs. The encoder writes the cluster's ID after a brace.
\<close>

definition no_json :: "string \<Rightarrow> error + 'a" where
  "no_json body = Inl (Errorf ''unexpected end of JSON input'')"

definition no_decoders :: json_decoders where
  "no_decoders = \<lparr>js_NATGateway = no_json, js_NATGateways = no_json, js_DNATRule = no_json, js_DNATRules = no_json, js_Port = no_json,
     js_Ports = no_json, js_FloatingIps = no_json, js_Description = no_json,
     js_encDescription = (\<lambda>d. CHR ''{'' # dd_ClusterID d), js_Job = no_json, js_JobResp = no_json,
     js_Quotas = no_json, js_ElbDetail = no_json, js_ElbNum = no_json, js_ElbList = no_json,
     js_ListenerRsp = no_json, js_Listener = no_json, js_Listeners = no_json, js_ErrorRsp = no_json, js_HealthCheckRsp = no_json,
     js_HealthCheckDetail = no_json, js_Members = no_json, js_Servers = no_json, js_SessionOptions = no_json\<rparr>"

end
