(* ===== verification/Nat_Correct.thy ===== *)
theory Nat_Correct
  imports Nat_Cloud Changes Http_Scenario
begin

text \<open>
  What the NAT provider changes: the rules it creates and deletes, exactly and in order. The statements
  hold from every state and whatever the remote side answers to the requests themselves; addresses
  are assumed to parse (an address that does not parse is a panic, see \<open>Http_Client\<close>).
\<close>

subsection \<open>The requests\<close>

definition post_event :: "'w NATCloud \<Rightarrow> Port \<Rightarrow> FloatingIp \<Rightarrow> string \<Rightarrow> service_port \<Rightarrow> event" where
  "post_event c netPort floatingIp gid p =
     Http (NewRequest NatEndpoint MethodPost (''/v2/'' @ nat_tenant c @ ''/dnat_rules'')
       (Some (ObjDNATRule (new_rule c p netPort floatingIp gid))))"

definition delete_event :: "'w NATCloud \<Rightarrow> string \<Rightarrow> DNATRule \<Rightarrow> event" where
  "delete_event c gid rule =
     Http (NewRequest NatEndpoint MethodDelete (delete_rule_url (nat_tenant c) gid (dr_Id rule)) None)"

definition missing_ports :: "DNATRule list \<Rightarrow> service_port list \<Rightarrow> service_port list" where
  "missing_ports rules ports = filter (\<lambda>p. \<not> list_ex (\<lambda>r. rule_matches r p) rules) ports"

definition obsolete_rules :: "string \<Rightarrow> service_port list \<Rightarrow> DNATRule list \<Rightarrow> DNATRule list" where
  "obsolete_rules ip lbPorts rules =
     filter (\<lambda>r. dr_FloatingIpAddress r = ip \<and> \<not> list_ex (rule_matches r) lbPorts) rules"

lemma getDNATRule_None: "getDNATRule rules p = None \<longleftrightarrow> \<not> list_ex (\<lambda>r. rule_matches r p) rules"
  by (auto simp: getDNATRule_def find_None_iff list_ex_iff)

lemma getServicePort_None: "getServicePort r ports = None \<longleftrightarrow> \<not> list_ex (rule_matches r) ports"
  by (auto simp: getServicePort_def find_None_iff list_ex_iff)

lemma concat_filter: "concat (map (\<lambda>x. if P x then [f x] else []) xs) = map f (filter P xs)"
  by (induction xs) auto

lemma steady_collect [settles_intro]: "settles m cs \<Longrightarrow> steady (collect msg m errs) cs"
  using steady_bindR [OF steady_attempt steady_okR] by (fastforce simp: collect_def)

lemma steady_collect_plain [settles_intro]: "settles m cs \<Longrightarrow> steady (collect_plain m errs) cs"
  using steady_bindR [OF steady_attempt steady_okR] by (fastforce simp: collect_plain_def)

lemma settles_aggregate: "settles (aggregate errs) []"
  by (simp add: aggregate_def settles_intro)

lemma settles_create:
  assumes "\<And>u. url_parses (nat_api c) u"
  shows "settles (ensureCreateDNATRule c p netPort floatingIp gid) [post_event c netPort floatingIp gid p]"
proof -
  let ?r = "NewRequest NatEndpoint MethodPost (''/v2/'' @ nat_tenant c @ ''/dnat_rules'')
    (Some (ObjDNATRule (new_rule c p netPort floatingIp gid)))"
  have "settles (ensureCreateDNATRule c p netPort floatingIp gid) (changes [Http ?r])"
    unfolding ensureCreateDNATRule_def CreateDNATRule_def
    by (intro settles_bindR_reads settles_request_decode settles_okR) (simp add: assms)
  then show ?thesis by (simp add: post_event_def)
qed

lemma settles_check:
  assumes "\<And>u. url_parses (nat_api c) u"
  shows "steady (checkDNATRuleById c rid) []"
proof -
  let ?r = "NewRequest NatEndpoint MethodGet (''/v2/'' @ nat_tenant c @ ''/dnat_rules'' @ rid) None"
  have "steady (checkDNATRuleById c rid) (changes [Http ?r] @ [])"
    unfolding checkDNATRuleById_def GetDNATRule_def
    by (intro steady_bindR steady_attempt settles_request_decode_found steady_okR) (simp add: assms)
  then show ?thesis by simp
qed

lemma settles_poll:
  assumes "\<And>u. url_parses (nat_api c) u"
  shows "settles (bindR (exponential_backoff n
            (\<lambda>_. bindR (checkDNATRuleById c rid) (\<lambda>exist. okR ((), Inr (\<not> exist)))) ())
          (\<lambda>(_, err). case err of None \<Rightarrow> okR () | Some e \<Rightarrow> errR e)) []"
proof -
  have "steady (bindR (checkDNATRuleById c rid) (\<lambda>exist. okR ((), Inr (\<not> exist)))) []"
    using steady_bindR [OF settles_check [OF assms] steady_okR] by fastforce
  then show ?thesis
    by (intro settles_bindR_reads steady_settles [OF steady_exponential_backoff])
      (auto simp: settles_okR settles_errR split: option.splits)
qed

lemma settles_delete:
  assumes "\<And>u. url_parses (nat_api c) u"
  shows "settles (ensureDeleteDNATRule c rule gid) [delete_event c gid rule]"
proof -
  let ?r = "NewRequest NatEndpoint MethodDelete (delete_rule_url (nat_tenant c) gid (dr_Id rule)) None"
  have "settles (ensureDeleteDNATRule c rule gid) (changes [Http ?r])"
    unfolding ensureDeleteDNATRule_def DeleteDNATRule_def
    by (intro settles_bindR_reads settles_request_no_content settles_poll) (simp_all add: assms)
  then show ?thesis by (simp add: delete_event_def)
qed

subsection \<open>The loops\<close>

lemma steady_create_rules:
  assumes "\<And>u. url_parses (nat_api c) u"
  shows "steady (create_rules c rules netPort floatingIp gid ports)
           (map (post_event c netPort floatingIp gid) (missing_ports rules ports))"
  unfolding create_rules_def missing_ports_def concat_filter [symmetric]
  by (rule steady_foldR)
    (simp add: getDNATRule_None [symmetric] steady_okR steady_collect [OF settles_create [OF assms]])

lemma steady_delete_rules:
  assumes "\<And>u. url_parses (nat_api c) u"
  shows "steady (delete_rules c rules ip lbPorts gid errs) (map (delete_event c gid) (obsolete_rules ip lbPorts rules))"
  unfolding delete_rules_def obsolete_rules_def concat_filter [symmetric]
  by (rule steady_foldR)
    (simp add: getServicePort_None [symmetric] steady_okR steady_collect [OF settles_delete [OF assms]])

definition rules_of_ports :: "DNATRule list \<Rightarrow> service_port list \<Rightarrow> DNATRule list" where
  "rules_of_ports rules ports = List.map_filter (getDNATRule rules) ports"

lemma rules_of_ports_concat:
  "map f (rules_of_ports rules ports) =
   concat (map (\<lambda>p. case getDNATRule rules p of None \<Rightarrow> [] | Some r \<Rightarrow> [f r]) ports)"
  by (induction ports) (auto simp: rules_of_ports_def List.map_filter_simps split: option.splits)

lemma steady_delete_ports:
  assumes "\<And>u. url_parses (nat_api c) u"
  shows "steady (foldR (\<lambda>p errs. case getDNATRule rules p of
                None \<Rightarrow> okR errs
              | Some rule \<Rightarrow> collect_plain (ensureDeleteDNATRule c rule gid) errs) ports errs)
           (map (delete_event c gid) (rules_of_ports rules ports))"
  unfolding rules_of_ports_concat
  by (rule steady_foldR)
    (auto simp: steady_okR intro!: steady_collect_plain settles_delete assms split: option.splits)

lemma steady_delete_port_rules:
  assumes "\<And>u. url_parses (nat_api c) u"
  shows "steady (delete_port_rules c msg rules gid ports) (map (delete_event c gid) (rules_of_ports rules ports))"
  unfolding delete_port_rules_def rules_of_ports_concat
  by (rule steady_foldR)
    (auto simp: steady_okR intro!: steady_collect settles_delete assms split: option.splits)

text \<open>The list of all services, as the loop that deletes rules sees it.\<close>

definition services_of :: "error + kube_payload \<Rightarrow> service list" where
  "services_of ans = (case ans of Inr (KServices ss) \<Rightarrow> ss | _ \<Rightarrow> [])"

lemma services_of_simps: "services_of (Inr (KServices ss)) = ss" "services_of (Inl e) = []"
  by (simp_all add: services_of_def)

lemma run_kube_services:
  "\<exists>t. kube_services A s = (Ok (services_of (fst (kube_call A (world s) ListServices))), t) \<and> log t = log s @ [Kube ListServices]"
  by (cases "kube_call A (world s) ListServices")
    (auto simp: kube_services_def remote_def run_simps services_of_def split: sum.splits kube_payload.splits)

text \<open>
  The changes of the two loops; the services are those the cluster lists once the creating loop is over. \<open>listed_services\<close>
  is that list, empty when it cannot be read.
\<close>

definition listed_services :: "'w NATCloud \<Rightarrow> service \<Rightarrow> DNATRule list \<Rightarrow> Port \<Rightarrow> FloatingIp \<Rightarrow> ('w, event) sys \<Rightarrow> service list" where
  "listed_services c svc rules netPort floatingIp s =
     services_of (fst (kube_call (nat_api c)
       (world (snd (create_rules c rules netPort floatingIp (natGatewayId_of svc) (svc_Ports svc) s))) ListServices))"

definition rule_changes :: "'w NATCloud \<Rightarrow> service \<Rightarrow> DNATRule list \<Rightarrow> Port \<Rightarrow> FloatingIp \<Rightarrow> service list \<Rightarrow> event list" where
  "rule_changes c svc rules netPort floatingIp svcs =
     map (post_event c netPort floatingIp (natGatewayId_of svc)) (missing_ports rules (svc_Ports svc))
     @ map (delete_event c (natGatewayId_of svc))
         (obsolete_rules (svc_LoadBalancerIP svc) (dnat_ports (svc_LoadBalancerIP svc) svcs) rules)"

lemma run_reconcile_rules:
  assumes urls: "\<And>u. url_parses (nat_api c) u"
  shows "\<exists>r t es. reconcile_rules c svc rules netPort floatingIp s = (r, t) \<and> log t = log s @ es
     \<and> changes es = rule_changes c svc rules netPort floatingIp (listed_services c svc rules netPort floatingIp s)"
proof -
  let ?gid = "natGatewayId_of svc" and ?ip = "svc_LoadBalancerIP svc"
  obtain errs t es where create: "create_rules c rules netPort floatingIp ?gid (svc_Ports svc) s = (Ok errs, t)" "log t = log s @ es"
    "changes es = map (post_event c netPort floatingIp ?gid) (missing_ports rules (svc_Ports svc))"
    using steadyE [OF steady_create_rules [OF urls]] by metis
  let ?svcs = "listed_services c svc rules netPort floatingIp s"
  have svcs: "?svcs = services_of (fst (kube_call (nat_api c) (world t) ListServices))"
    by (simp add: listed_services_def create(1))
  obtain u where list: "kube_services (nat_api c) t = (Ok ?svcs, u)" "log u = log t @ [Kube ListServices]"
    using run_kube_services [of "nat_api c" t] svcs by auto
  have "settles (bindR (delete_rules c rules ?ip (dnat_ports ?ip ?svcs) ?gid errs) aggregate)
      (map (delete_event c ?gid) (obsolete_rules ?ip (dnat_ports ?ip ?svcs) rules))"
    by (rule settles_bindR_reads [OF steady_settles [OF steady_delete_rules [OF urls]] settles_aggregate])
  then obtain r v fs where delete: "bindR (delete_rules c rules ?ip (dnat_ports ?ip ?svcs) ?gid errs) aggregate u = (r, v)"
    "log v = log u @ fs" "changes fs = map (delete_event c ?gid) (obsolete_rules ?ip (dnat_ports ?ip ?svcs) rules)"
    using settlesE by metis
  have "reconcile_rules c svc rules netPort floatingIp s = (r, v)"
    using create(1) list(1) delete(1) by (simp add: reconcile_rules_def run_bindR)
  moreover have "log v = log s @ (es @ Kube ListServices # fs)" using create(2) list(2) delete(2) by simp
  moreover have "changes (es @ Kube ListServices # fs) = rule_changes c svc rules netPort floatingIp ?svcs"
    using create(3) delete(3) by (simp add: rule_changes_def)
  ultimately show ?thesis by blast
qed

subsection \<open>The operations\<close>

text \<open>The part of \<open>EnsureLoadBalancer\<close> that only reads: the own rules, the backend's port and the address.\<close>

definition nat_inputs :: "'w NATCloud \<Rightarrow> service \<Rightarrow> node list \<Rightarrow> ('w, DNATRule list \<times> Port \<times> FloatingIp) prog" where
  "nat_inputs c svc hosts =
     bindR (nat_prepare c svc []) (\<lambda>(natGateway, rules, floatingIp).
     bindR (nat_getPods c (svc_Name svc) (svc_Namespace svc)) (\<lambda>podList.
       if pod_HostIP (runningPod podList) = []
       then errR (Errorf (''There is no availabel endpoint for the service '' @ svc_Name svc))
       else bindR (getPortByFixedIp c (getSubnetIdForPod c (runningPod podList) hosts) (pod_HostIP (runningPod podList))) (\<lambda>netPort.
         okR (rules, netPort, floatingIp))))"

lemma Ensure_eq_inputs:
  "nat_EnsureLoadBalancer c cluster svc hosts s =
   bindR (nat_inputs c svc hosts) (\<lambda>(rules, netPort, floatingIp).
     bindR (reconcile_rules c svc rules netPort floatingIp) (\<lambda>_. okR (Some [svc_LoadBalancerIP svc]))) s"
  by (simp add: nat_EnsureLoadBalancer_def nat_inputs_def run_bindR Let_def run_errR run_okR split: res.splits prod.splits)

lemma settles_kube [settles_intro]:
  "settles (kube_service A ns name) []" "settles (kube_node A name) []" "settles (listPods A ns sel) []"
  by (auto simp: settles_def kube_service_def kube_node_def listPods_def remote_def run_simps
      split: prod.splits sum.splits kube_payload.splits res.splits intro!: exI [of _ "[Kube r]" for r])

lemma settles_nat_reads:
  assumes "\<And>u. url_parses A u"
  shows "settles (GetNATGateway A J tenant gid) []" "settles (ListDNATRules A J tenant params) []"
    "settles (ListPorts A J params) []" "settles (ListFloatings A J params) []" "settles (GetPort A J pid) []"
  using settles_request_decode [of A "NewRequest sv MethodGet u None" for sv u]
    settles_request_decode_found [of A "NewRequest sv MethodGet u None" for sv u]
  by (simp_all add: nat_client_defs assms)

lemma settles_listDnatRule:
  assumes "\<And>u. url_parses (nat_api c) u"
  shows "settles (listDnatRule c gid) []"
  unfolding listDnatRule_def by (intro settles_bindR_reads settles_nat_reads settles_okR assms)

lemma settles_nat_prepare:
  assumes "\<And>u. url_parses (nat_api c) u"
  shows "settles (nat_prepare c svc blank) []"
  unfolding nat_prepare_def getFloatingIpInfoByIp_def listAllDnatRuleByFloatIP_def Let_def
  by (auto intro!: settles_bindR_reads settles_nat_reads settles_listDnatRule settles_okR settles_errR assms split: list.splits)

lemma settles_nat_getPods: "settles (nat_getPods c name namespace) []"
  unfolding nat_getPods_def by (auto intro!: settles_bindR_reads settles_kube settles_errR)

lemma settles_nat_inputs:
  assumes "\<And>u. url_parses (nat_api c) u"
  shows "settles (nat_inputs c svc hosts) []"
  unfolding nat_inputs_def getPortByFixedIp_def
  by (auto intro!: settles_bindR_reads settles_nat_prepare settles_nat_getPods settles_nat_reads settles_okR settles_errR assms
      split: list.splits)

text \<open>Only rules of this cluster are considered.\<close>

lemma listDnatRule_own: "listDnatRule c gid s = (Ok rules, t) \<Longrightarrow> list_all (own_rule c) rules"
  by (auto simp: listDnatRule_def run_bindR run_okR list_all_iff split: res.splits prod.splits)

lemma nat_prepare_own: "nat_prepare c svc blank s = (Ok (gw, rules, fip), t) \<Longrightarrow> list_all (own_rule c) rules"
  by (auto simp: nat_prepare_def Let_def run_bindR run_okR run_errR dest: listDnatRule_own split: res.splits prod.splits if_splits)

lemma nat_inputs_own: "nat_inputs c svc hosts s = (Ok (rules, netPort, fip), t) \<Longrightarrow> list_all (own_rule c) rules"
  by (auto simp: nat_inputs_def run_bindR run_okR run_errR dest: nat_prepare_own split: res.splits prod.splits if_splits)

lemma settles_bindR_case:
  assumes "settles m []" and "\<And>x. settles (f x) (g x)"
  shows "\<exists>es. log (snd (bindR m f s)) = log s @ es \<and> changes es = (case fst (m s) of Ok x \<Rightarrow> g x | _ \<Rightarrow> [])"
proof -
  obtain r t es where m: "m s = (r, t)" "log t = log s @ es" "changes es = []" using settlesE [OF assms(1)] by metis
  show ?thesis
  proof (cases r)
    case (Ok x)
    obtain q u fs where f: "f x t = (q, u)" "log u = log t @ fs" "changes fs = g x" using settlesE [OF assms(2)] by metis
    with m Ok show ?thesis by (auto simp: run_bindR intro!: exI [of _ "es @ fs"])
  qed (use m in \<open>auto simp: run_bindR\<close>)
qed

lemma nat_Ensure_changes:
  assumes "\<And>u. url_parses (nat_api c) u"
  shows "\<exists>es. log (snd (nat_EnsureLoadBalancer c cluster svc hosts s)) = log s @ es \<and>
     (case nat_inputs c svc hosts s of
        (Ok (rules, netPort, floatingIp), t) \<Rightarrow> list_all (own_rule c) rules \<and>
          changes es = rule_changes c svc rules netPort floatingIp (listed_services c svc rules netPort floatingIp t)
      | _ \<Rightarrow> changes es = [])"
proof -
  obtain q t es where inputs: "nat_inputs c svc hosts s = (q, t)" "\<And>msg. q \<noteq> Panic msg" "log t = log s @ es" "changes es = []"
    using settlesE [OF settles_nat_inputs [OF assms]] by metis
  show ?thesis
  proof (cases q)
    case (Ok x)
    obtain rules netPort floatingIp where x: "x = (rules, netPort, floatingIp)" by (cases x)
    obtain r u fs where rec: "reconcile_rules c svc rules netPort floatingIp t = (r, u)" "log u = log t @ fs"
      "changes fs = rule_changes c svc rules netPort floatingIp (listed_services c svc rules netPort floatingIp t)"
      using run_reconcile_rules [OF assms] by metis
    have "log (snd (nat_EnsureLoadBalancer c cluster svc hosts s)) = log s @ (es @ fs)"
      using inputs(1,3) rec(1,2) Ok x unfolding Ensure_eq_inputs by (cases r) (auto simp: run_bindR run_okR)
    moreover have "list_all (own_rule c) rules" using nat_inputs_own inputs(1) Ok x by blast
    ultimately show ?thesis using inputs(1,4) rec(3) Ok x by (intro exI [of _ "es @ fs"]) simp
  next
    case (Err e)
    then show ?thesis using inputs unfolding Ensure_eq_inputs by (auto simp: run_bindR)
  qed (use inputs in blast)
qed

subsection \<open>A concrete gateway\<close>

text \<open>
  The gateway has one rule, of this cluster, for port 99; the service has port 80. Bodies are not
  read by these decoders, which know the only document of each kind.
\<close>

definition demo_rule :: DNATRule where
  "demo_rule = zero_DNATRule\<lparr>dr_Id := ''r1'', dr_NATGatewayId := ''gw'', dr_FloatingIpAddress := ''100.1.1.1'',
     dr_ExternalServicePort := 99, dr_InternalServicePort := 30099, dr_Protocol := ''tcp'', dr_Description := ''{c1''\<rparr>"

definition demo_floating :: FloatingIp where
  "demo_floating = \<lparr>fl_Id = ''f'', fl_Status = ''DOWN'', fl_FloatingIpAddress = ''100.1.1.1'', fl_FloatingNetworkId = [],
     fl_RouterId = [], fl_PortId = [], fl_FixedIpAddress = [], fl_TenantId = []\<rparr>"

definition demo_decoders :: "DNATRule list \<Rightarrow> json_decoders" where
  "demo_decoders rules = no_decoders\<lparr>js_NATGateway := (\<lambda>_. Inr (zero_NATGateway\<lparr>ng_Id := ''gw'', ng_RouterId := ''vpc''\<rparr>)),
     js_DNATRules := (\<lambda>_. Inr rules), js_Ports := (\<lambda>_. Inr [zero_Port\<lparr>po_Id := ''np''\<rparr>]),
     js_FloatingIps := (\<lambda>_. Inr [demo_floating]),
     js_Description := (\<lambda>s. Inr \<lparr>dd_ClusterID = tl s, dd_Description = Attention\<rparr>)\<rparr>"

definition demo_http :: "http_request \<Rightarrow> http_response" where
  "demo_http r = \<lparr>rsp_StatusCode = (if rq_Method r = MethodDelete then 204
       else if rq_Url r = ''/v2//dnat_rulesr1'' then 404 else 200), rsp_Body = ''body'', rsp_ReadErr = None\<rparr>"

definition nat_service :: service where
  "nat_service = (demo_service [AnnotationsNATID \<mapsto> ''gw'', ElbClass \<mapsto> ''dnat''])\<lparr>svc_LoadBalancerIP := ''100.1.1.1''\<rparr>"

fun nat_kube :: "(error + kube_payload) \<Rightarrow> kube_request \<Rightarrow> error + kube_payload" where
  "nat_kube ans (GetService _ _) = Inr (KService nat_service)"
| "nat_kube ans ListServices = ans"
| "nat_kube ans r = demo_kube r"

definition demo_nat :: "(error + kube_payload) \<Rightarrow> DNATRule list \<Rightarrow> unit NATCloud" where
  "demo_nat ans rules = \<lparr>nc_Basic = demo_basic\<lparr>clients := demo_api\<lparr>http_call := (\<lambda>w r. (Inr (demo_http r), w)),
       kube_call := (\<lambda>w r. (nat_kube ans r, w))\<rparr>\<rparr>, nc_json = demo_decoders rules, nc_ClusterID = ''c1'', nc_Ticks = 50\<rparr>"

lemma demo_nat_simps [simp]:
  "url_parses (nat_api (demo_nat ans rules)) u" "kube_call (nat_api (demo_nat ans rules)) w r = (nat_kube ans r, w)"
  "http_call (nat_api (demo_nat ans rules)) w q = (Inr (demo_http q), w)"
  "nat_tenant (demo_nat ans rules) = []" "natGatewayId_of nat_service = ''gw''" "svc_Annotations nat_service ''kubernetes.io/elb.class'' = Some ''dnat''"
  "svc_Name nat_service = ''web''" "svc_Namespace nat_service = ''ns''" "svc_Selector nat_service = [(''app'', ''web'')]"
  "svc_Ports nat_service = [demo_port]" "svc_LoadBalancerIP nat_service = ''100.1.1.1''"
  "nc_json (demo_nat ans rules) = demo_decoders rules" "nc_ClusterID (demo_nat ans rules) = ''c1''"
  by (simp_all add: nat_api_def demo_nat_def demo_api_def nat_tenant_def getNATClient_def NewNATClient_def demo_basic_def demo_config_def natGatewayId_of_def nat_service_def
      AnnotationsNATID_def)

lemma demo_decode:
  assumes "rq_Method r \<noteq> MethodDelete" "rq_Url r \<noteq> ''/v2//dnat_rulesr1''" "decode ''body'' = Inr x"
  shows "request_decode (nat_api (demo_nat ans rules)) r failed decode out s = (Ok x, s\<lparr>log := log s @ [Http r]\<rparr>)"
    and "request_decode_found (nat_api (demo_nat ans rules)) r missing failed decode out s = (Ok x, s\<lparr>log := log s @ [Http r]\<rparr>)"
  using assms by (cases s; simp add: request_decode_def request_decode_found_def DoRequest_def remote_def run_simps DecodeBody_def demo_http_def)+

lemma demo_nat_decoders [simp]:
  "js_NATGateway (demo_decoders rules) b = Inr (zero_NATGateway\<lparr>ng_Id := ''gw'', ng_RouterId := ''vpc''\<rparr>)"
  "js_DNATRules (demo_decoders rules) b = Inr rules" "js_Ports (demo_decoders rules) b = Inr [zero_Port\<lparr>po_Id := ''np''\<rparr>]"
  "js_FloatingIps (demo_decoders rules) b = Inr [demo_floating]"
  "js_Description (demo_decoders rules) d = Inr \<lparr>dd_ClusterID = tl d, dd_Description = Attention\<rparr>"
  "js_encDescription (demo_decoders rules) e = CHR ''{'' # dd_ClusterID e"
  by (simp_all add: demo_decoders_def no_decoders_def)

lemma demo_prepare:
  "\<exists>t. nat_prepare (demo_nat ans rules) nat_service blank s =
     (Ok (zero_NATGateway\<lparr>ng_Id := ''gw'', ng_RouterId := ''vpc''\<rparr>, filter (own_rule (demo_nat ans rules)) rules, demo_floating), t)"
proof -
  have vpc: "vpc_ID (VpcOpts (cloudConfig (nc_Basic (demo_nat ans rules)))) = ''vpc''"
    by (simp add: demo_nat_def demo_basic_def demo_config_def)
  show ?thesis
    by (auto simp: nat_prepare_def listDnatRule_def getFloatingIpInfoByIp_def listAllDnatRuleByFloatIP_def nat_client_defs
        demo_decode query_string_one run_bindR run_okR Let_def vpc zero_NATGateway_def checkFloatingIp_def demo_floating_def)
qed

lemma demo_inputs:
  "fst (nat_inputs (demo_nat ans rules) nat_service [] s) =
     Ok (filter (own_rule (demo_nat ans rules)) rules, zero_Port\<lparr>po_Id := ''np''\<rparr>, demo_floating)"
proof -
  let ?c = "demo_nat ans rules"
  obtain t where prep: "nat_prepare ?c nat_service [] s =
      (Ok (zero_NATGateway\<lparr>ng_Id := ''gw'', ng_RouterId := ''vpc''\<rparr>, filter (own_rule ?c) rules, demo_floating), t)"
    using demo_prepare by blast
  show ?thesis
    by (simp add: nat_inputs_def run_bindR prep nat_getPods_def kube_service_def listPods_def remote_def run_simps
        runningPod_def IsPodReady_def demo_pod_def getPortByFixedIp_def nat_client_defs demo_decode query_string_def)
qed

lemma demo_list: "fst (listDnatRule (demo_nat ans rules) gid s) = Ok (filter (own_rule (demo_nat ans rules)) rules)"
  by (simp add: listDnatRule_def nat_client_defs demo_decode query_string_one run_simps)

lemma demo_own [simp]: "own_rule (demo_nat ans rules) demo_rule"
  by (simp add: own_rule_def demo_rule_def getDNATRuleDescription_def zero_DNATRule_def)

definition demo_kept_rule :: DNATRule where
  "demo_kept_rule = demo_rule\<lparr>dr_Id := ''r2'', dr_ExternalServicePort := 80, dr_InternalServicePort := 30080\<rparr>"

lemma demo_kept [simp]:
  "own_rule (demo_nat ans rules) demo_kept_rule" "rule_matches demo_kept_rule demo_port" "\<not> rule_matches demo_rule demo_port"
  "dr_FloatingIpAddress demo_rule = ''100.1.1.1''" "dr_FloatingIpAddress demo_kept_rule = ''100.1.1.1''"
  by (simp_all add: own_rule_def demo_kept_rule_def demo_rule_def getDNATRuleDescription_def zero_DNATRule_def rule_matches_def equal_fold_def to_lower_def to_lower_char_def
      char_of_def bit_Suc_0_iff)

subsection \<open>Properties\<close>

text \<open>
  C9. What \<open>EnsureLoadBalancer\<close> of the NAT provider changes, whatever the remote side answers. It issues no change before its
  reads have succeeded; then it creates one rule per port of the service that no own rule matches, in the order of the ports; and
  after that it deletes the own rules of the service's address that match no port of any service published under this address, in
  the order of the rules. Own rules are those whose description is a document with the cluster ID of the process (with
  \<open>CLUSTER_ID\<close> unset, a document without one). The services are those listed after the creations; a list that cannot be read
  counts as empty, so that then every own rule of the address is deleted.
\<close>

theorem nat_rules_reconciled:
  assumes "\<And>u. url_parses (nat_api c) u"
  shows "\<exists>es. log (snd (nat_EnsureLoadBalancer c cluster svc hosts s)) = log s @ es \<and>
     (case nat_inputs c svc hosts s of
        (Ok (rules, netPort, floatingIp), t) \<Rightarrow>
          list_all (\<lambda>r. dr_Description r \<noteq> [] \<and> map_option dd_ClusterID (getDNATRuleDescription c (dr_Description r)) = Some (nc_ClusterID c)) rules \<and>
          changes es = map (post_event c netPort floatingIp (natGatewayId_of svc)) (missing_ports rules (svc_Ports svc))
            @ map (delete_event c (natGatewayId_of svc))
                (obsolete_rules (svc_LoadBalancerIP svc)
                  (dnat_ports (svc_LoadBalancerIP svc) (listed_services c svc rules netPort floatingIp t)) rules)
      | _ \<Rightarrow> changes es = [])"
proof -
  have own: "list_all (own_rule c) rules \<Longrightarrow>
      list_all (\<lambda>r. dr_Description r \<noteq> [] \<and> map_option dd_ClusterID (getDNATRuleDescription c (dr_Description r)) = Some (nc_ClusterID c)) rules" for rules
    by (auto simp: list_all_iff own_rule_def split: option.splits)
  show ?thesis
    using nat_Ensure_changes [OF assms, where cluster = cluster and svc = svc and hosts = hosts and s = s] own
    unfolding rule_changes_def by (fastforce split: res.splits prod.splits)
qed

lemma demo_services_listed: "listed_services (demo_nat (Inr (KServices svcs)) ds) svc rules netPort floatingIp s = svcs"
  "listed_services (demo_nat (Inl e) ds) svc rules netPort floatingIp s = []"
  by (simp_all add: listed_services_def services_of_simps)

text \<open>A gateway whose list of services can be read, and one where it cannot.\<close>

theorem nat_rules_reconciled_witness:
  "(\<exists>es. log (snd (nat_EnsureLoadBalancer (demo_nat (Inr (KServices [nat_service])) [demo_rule]) [] nat_service [] start)) = es \<and>
     changes es = [post_event (demo_nat (Inr (KServices [nat_service])) [demo_rule]) (zero_Port\<lparr>po_Id := ''np''\<rparr>) demo_floating ''gw'' demo_port,
       delete_event (demo_nat (Inr (KServices [nat_service])) [demo_rule]) ''gw'' demo_rule])
   \<and> (\<exists>es. log (snd (nat_EnsureLoadBalancer (demo_nat (Inl (Errorf ''timeout'')) [demo_kept_rule]) [] nat_service [] start)) = es \<and>
     changes es = [delete_event (demo_nat (Inl (Errorf ''timeout'')) [demo_kept_rule]) ''gw'' demo_kept_rule])"
proof
  have log: "log start = []" by (simp add: start_def)
  let ?c = "demo_nat (Inr (KServices [nat_service])) [demo_rule]" and ?d = "demo_nat (Inl (Errorf ''timeout'')) [demo_kept_rule]"
  obtain t where t: "nat_inputs ?c nat_service [] start = (Ok ([demo_rule], zero_Port\<lparr>po_Id := ''np''\<rparr>, demo_floating), t)"
    using demo_inputs [of "Inr (KServices [nat_service])" "[demo_rule]" start] by (cases "nat_inputs ?c nat_service [] start") simp
  show "\<exists>es. log (snd (nat_EnsureLoadBalancer ?c [] nat_service [] start)) = es \<and>
     changes es = [post_event ?c (zero_Port\<lparr>po_Id := ''np''\<rparr>) demo_floating ''gw'' demo_port, delete_event ?c ''gw'' demo_rule]"
    using nat_rules_reconciled [of ?c "[]" nat_service "[]" start]
    by (simp add: t log demo_services_listed missing_ports_def obsolete_rules_def dnat_ports_def)
  obtain u where u: "nat_inputs ?d nat_service [] start = (Ok ([demo_kept_rule], zero_Port\<lparr>po_Id := ''np''\<rparr>, demo_floating), u)"
    using demo_inputs [of "Inl (Errorf ''timeout'')" "[demo_kept_rule]" start] by (cases "nat_inputs ?d nat_service [] start") simp
  show "\<exists>es. log (snd (nat_EnsureLoadBalancer ?d [] nat_service [] start)) = es \<and> changes es = [delete_event ?d ''gw'' demo_kept_rule]"
    using nat_rules_reconciled [of ?d "[]" nat_service "[]" start]
    by (simp add: u log demo_services_listed missing_ports_def obsolete_rules_def dnat_ports_def)
qed

text \<open>
  When the list of services cannot be read, \<open>EnsureLoadBalancer\<close> goes on with an empty list: every
  own rule of the service's address is deleted, also those of ports that are still published.
\<close>

theorem nat_service_list_failure_deletes:
  assumes "\<And>u. url_parses (nat_api c) u" and "\<And>w. fst (kube_call (nat_api c) w ListServices) = Inl e"
    and "nat_inputs c svc hosts s = (Ok (rules, netPort, floatingIp), t)"
    and "rule \<in> set rules" and "dr_FloatingIpAddress rule = svc_LoadBalancerIP svc"
  shows "delete_event c (natGatewayId_of svc) rule \<in> set (log (snd (nat_EnsureLoadBalancer c cluster svc hosts s)))"
proof -
  have "listed_services c svc rules netPort floatingIp t = []" by (simp add: listed_services_def assms(2) services_of_simps)
  then obtain es where es: "log (snd (nat_EnsureLoadBalancer c cluster svc hosts s)) = log s @ es"
    "changes es = rule_changes c svc rules netPort floatingIp []"
    using nat_Ensure_changes [OF assms(1), where cluster = cluster and svc = svc and hosts = hosts and s = s]
    by (auto simp: assms(3))
  have "delete_event c (natGatewayId_of svc) rule \<in> set (changes es)"
    using assms(4,5) by (simp add: es(2) rule_changes_def obsolete_rules_def dnat_ports_def)
  then show ?thesis by (simp add: es(1) changes_def)
qed

theorem nat_service_list_failure_deletes_witness:
  "rule_matches demo_kept_rule demo_port \<and>
   delete_event (demo_nat (Inl (Errorf ''timeout'')) [demo_kept_rule]) ''gw'' demo_kept_rule
     \<in> set (log (snd (nat_EnsureLoadBalancer (demo_nat (Inl (Errorf ''timeout'')) [demo_kept_rule]) [] nat_service [] start)))"
proof -
  let ?c = "demo_nat (Inl (Errorf ''timeout'')) [demo_kept_rule]"
  obtain t where t: "nat_inputs ?c nat_service [] start = (Ok ([demo_kept_rule], zero_Port\<lparr>po_Id := ''np''\<rparr>, demo_floating), t)"
    using demo_inputs [of "Inl (Errorf ''timeout'')" "[demo_kept_rule]" start] by (cases "nat_inputs ?c nat_service [] start") simp
  show ?thesis
    using nat_service_list_failure_deletes [of ?c "Errorf ''timeout''" nat_service "[]" start "[demo_kept_rule]" "zero_Port\<lparr>po_Id := ''np''\<rparr>"
        demo_floating t demo_kept_rule "[]"] t
    by (simp add: demo_kept)
qed

text \<open>
  C30. Deletion: \<open>EnsureLoadBalancerDeleted\<close> changes nothing but the own rules that match a port of the
  service, one request per port that has such a rule, in the order of the ports.
\<close>

theorem nat_deletion_exact:
  assumes "\<And>u. url_parses (nat_api c) u" and "natGatewayId_of svc \<noteq> []"
  shows "\<exists>es. log (snd (nat_EnsureLoadBalancerDeleted c cluster svc s)) = log s @ es \<and>
     changes es = (case fst (listDnatRule c (natGatewayId_of svc) s) of
        Ok rules \<Rightarrow> map (delete_event c (natGatewayId_of svc)) (rules_of_ports rules (svc_Ports svc))
      | _ \<Rightarrow> [])"
  unfolding nat_EnsureLoadBalancerDeleted_def Let_def
  using assms(2) settles_bindR_case [OF settles_listDnatRule [OF assms(1)]
      settles_bindR_reads [OF steady_settles [OF steady_delete_ports [OF assms(1)]] settles_aggregate]]
  by simp

theorem nat_deletion_exact_witness:
  "\<exists>es. log (snd (nat_EnsureLoadBalancerDeleted (demo_nat (Inr KNone) [demo_rule, demo_kept_rule]) [] nat_service start)) = es \<and>
     changes es = [delete_event (demo_nat (Inr KNone) [demo_rule, demo_kept_rule]) ''gw'' demo_kept_rule]"
  using nat_deletion_exact [of "demo_nat (Inr KNone) [demo_rule, demo_kept_rule]" nat_service "[]" start]
  by (simp add: demo_list demo_own demo_kept rules_of_ports_def List.map_filter_simps getDNATRule_def start_def)

text \<open>
  A rule is recognised by the cluster that created it and by no other, if JSON decoding undoes
  encoding: the description written into a new rule is filtered in exactly when the IDs agree. So the
  rule also matches the port it was created for, which then is not missing any more.
\<close>

theorem nat_rule_roundtrip:
  assumes "\<And>i. js_Description (nc_json d) (js_encDescription (nc_json c) \<lparr>dd_ClusterID = i, dd_Description = Attention\<rparr>)
       = Inr \<lparr>dd_ClusterID = i, dd_Description = Attention\<rparr>"
    and "\<And>x. js_encDescription (nc_json c) x \<noteq> []"
  shows "(own_rule d (new_rule c p netPort floatingIp gid) \<longleftrightarrow> nc_ClusterID d = nc_ClusterID c) \<and>
     missing_ports (rules @ [new_rule c p netPort floatingIp gid]) [p] = []"
  using assms by (auto simp: own_rule_def new_rule_def genDNATRuleDescription_def getDNATRuleDescription_def zero_DNATRule_def
      missing_ports_def rule_matches_def equal_fold_def)

theorem nat_rule_roundtrip_witness:
  "own_rule (demo_nat (Inr KNone) []) (new_rule (demo_nat (Inr KNone) []) demo_port zero_Port demo_floating ''gw'')
   \<and> missing_ports [new_rule (demo_nat (Inr KNone) []) demo_port zero_Port demo_floating ''gw''] [demo_port] = []"
  using nat_rule_roundtrip [of "demo_nat (Inr KNone) []" "demo_nat (Inr KNone) []" demo_port zero_Port demo_floating "''gw''" "[]"] by simp

end
