(* ===== verification/Elb1_Client.thy ===== *)
theory Elb1_Client
  imports Http_Client Common
begin

text \<open>
  The client of \<open>elb_connection.go\<close> for the version 1 ELB API, over \<open>http.go\<close>. \<open>tenant\<close> is the project
  ID. Jobs run in the cloud: \<open>waitJobEnd\<close> asks for the status of one up to 100 times, \<open>WaitJobComplete\<close>
  and \<open>WaitMemberComplete\<close> poll with the backoff of \<open>common.WaitForCompleted\<close>. Where the source returns an
  \<open>ErrorRsp\<close> beside the error, the model returns both in the left of a sum.
\<close>

text \<open>As written, the endpoint of the ELB client is the host of the ECS service.\<close>

record ELBClient =
  ecl_ecsClient :: ServiceClient
  ecl_elbClient :: ServiceClient

definition NewELBClient :: "string \<Rightarrow> string \<Rightarrow> string \<Rightarrow> string \<Rightarrow> string \<Rightarrow> ELBClient" where
  "NewELBClient cloud region projectID accessKey secretKey =
     \<lparr>ecl_ecsClient = service_client ''ecs'' cloud region projectID accessKey secretKey,
      ecl_elbClient = service_client ''ecs'' cloud region projectID accessKey secretKey\<rparr>"

definition elb_url :: "string \<Rightarrow> string \<Rightarrow> string" where
  "elb_url tenant path = ''/v1.0/'' @ tenant @ path"

abbreviation (input) elb_get :: "string \<Rightarrow> string \<Rightarrow> http_request" where
  "elb_get tenant path \<equiv> NewRequest ElbEndpoint MethodGet (elb_url tenant path) None"

subsection \<open>Validation\<close>

definition name_start :: "char \<Rightarrow> bool" where
  "name_start c \<longleftrightarrow> (97::nat) \<le> of_char c \<and> of_char c \<le> (122::nat)
     \<or> (65::nat) \<le> of_char c \<and> of_char c \<le> (90::nat) \<or> c = CHR ''_''"

definition name_char :: "char \<Rightarrow> bool" where
  "name_char c \<longleftrightarrow> name_start c \<or> is_digit c \<or> c = CHR ''-''"

definition IsValidName :: "string \<Rightarrow> bool" where
  "IsValidName s = (case s of [] \<Rightarrow> False | c # cs \<Rightarrow> name_start c \<and> list_all name_char cs \<and> length cs \<le> 63)"

definition IsValidDesc :: "string \<Rightarrow> bool" where
  "IsValidDesc s \<longleftrightarrow> list_all name_char s \<and> length s \<le> 128"

definition IsValidBandwidth :: "int \<Rightarrow> bool" where
  "IsValidBandwidth bandwidth \<longleftrightarrow> 1 \<le> bandwidth \<and> bandwidth \<le> 300"

subsection \<open>Jobs\<close>

definition GetJobStatus :: "'w api \<Rightarrow> json_decoders \<Rightarrow> string \<Rightarrow> string \<Rightarrow> ('w, AsyncJobResp) prog" where
  "GetJobStatus A J tenant jobID =
     request_decode A (elb_get tenant (''/jobs/'' @ jobID)) ''failed to getAsyncJobStatus : '' (js_Job J) zero_AsyncJobResp"

definition job_failed :: "string \<Rightarrow> AsyncJobResp \<Rightarrow> error" where
  "job_failed jobID job = Errorf (''job status is failed. id: '' @ jobID @ '', reason: '' @ aj_FailReason job)"

fun wait_job :: "nat \<Rightarrow> 'w api \<Rightarrow> json_decoders \<Rightarrow> string \<Rightarrow> string \<Rightarrow> ('w, AsyncJobResp) prog" where
  "wait_job 0 A J tenant jobID = errR (Errorf (''start job time out id: '' @ jobID))"
| "wait_job (Suc n) A J tenant jobID =
     bindR (GetJobStatus A J tenant jobID) (\<lambda>job.
       if aj_Status job = ''SUCCESS'' then okR job
       else if aj_Status job = ''FAIL'' then errR (job_failed jobID job)
       else wait_job n A J tenant jobID)"

definition tryJobStatusTimes :: nat where
  "tryJobStatusTimes = 100"

definition waitJobEnd :: "'w api \<Rightarrow> json_decoders \<Rightarrow> string \<Rightarrow> string \<Rightarrow> ('w, AsyncJobResp) prog" where
  "waitJobEnd A J tenant jobID = wait_job tryJobStatusTimes A J tenant jobID"

definition job_condition :: "'w api \<Rightarrow> json_decoders \<Rightarrow> string \<Rightarrow> string \<Rightarrow> ('w, error + bool) prog" where
  "job_condition A J tenant jobID =
     bindR (attempt (GetJobStatus A J tenant jobID)) (\<lambda>r. okR (case r of
         Inl e \<Rightarrow> Inr False
       | Inr job \<Rightarrow> if aj_Status job = ''SUCCESS'' then Inr True
                    else if aj_Status job = ''FAIL'' then Inl (job_failed jobID job)
                    else Inr False))"

text \<open>A wait without a value: its error is returned.\<close>

definition wait_for :: "('w, error + bool) prog \<Rightarrow> ('w, unit) prog" where
  "wait_for condition =
     bindR (WaitForCompleted (\<lambda>_. bindR condition (\<lambda>r. okR ((), r))) ()) (\<lambda>(_, err).
       case err of None \<Rightarrow> okR () | Some e \<Rightarrow> errR e)"

definition WaitJobComplete :: "'w api \<Rightarrow> json_decoders \<Rightarrow> string \<Rightarrow> string \<Rightarrow> ('w, unit) prog" where
  "WaitJobComplete A J tenant jobID = wait_for (job_condition A J tenant jobID)"

subsection \<open>Load balancers\<close>

definition elb_Quota :: "'w api \<Rightarrow> json_decoders \<Rightarrow> string \<Rightarrow> ('w, QuotaResource list) prog" where
  "elb_Quota A J tenant =
     request_decode A (elb_get tenant ''/elbaas/quotas'') ''Failed to getElbQuota : '' (js_Quotas J) []"

text \<open>A request answered with the ID of a job.\<close>

definition submit_job :: "'w api \<Rightarrow> json_decoders \<Rightarrow> http_request \<Rightarrow> string \<Rightarrow> ('w, JobResp) prog" where
  "submit_job A J r failed = request_decode A r failed (js_JobResp J) zero_JobResp"

definition v1_CreateLoadBalancer :: "'w api \<Rightarrow> json_decoders \<Rightarrow> string \<Rightarrow> ELB \<Rightarrow> ('w, string) prog" where
  "v1_CreateLoadBalancer A J tenant elbConf =
     (if \<not> IsValidBandwidth (elb_Bandwidth elbConf) \<or> \<not> IsValidName (elb_Name elbConf) \<or> \<not> IsValidDesc (elb_Description elbConf)
         \<or> (elb_Type elbConf \<noteq> ''Internal'' \<and> elb_Type elbConf \<noteq> ''External'')
      then errR (Errorf ''invalid param'')
      else bindR (elb_Quota A J tenant) (\<lambda>resources.
        case find (\<lambda>q. qr_Type q = ''elb'') resources of
          None \<Rightarrow> errR (Errorf ''the quota of elb type can not be found'')
        | Some q \<Rightarrow>
            if qr_Used q \<ge> qr_Quota q then errR (Errorf ''the elb quota is not enough'')
            else bindR (submit_job A J (NewRequest ElbEndpoint MethodPost (elb_url tenant ''/elbaas/loadbalancers'') (Some (ObjELB elbConf)))
                          ''Failed to CreateElb : '') (\<lambda>job.
                 bindR (waitJobEnd A J tenant (jr_JobID job)) (\<lambda>asyJob. okR (aj_LoadbalancerId asyJob)))))"

definition v1_DeleteLoadBalancer :: "'w api \<Rightarrow> json_decoders \<Rightarrow> string \<Rightarrow> string \<Rightarrow> ('w, unit) prog" where
  "v1_DeleteLoadBalancer A J tenant loadbalancerID =
     bindR (submit_job A J (NewRequest ElbEndpoint MethodDelete (elb_url tenant (''/elbaas/loadbalancers/'' @ loadbalancerID)) None)
              ''Failed to DeleteElb : '') (\<lambda>job.
     bindR (waitJobEnd A J tenant (jr_JobID job)) (\<lambda>_. okR ()))"

definition v1_GetLoadBalancer :: "'w api \<Rightarrow> json_decoders \<Rightarrow> string \<Rightarrow> string \<Rightarrow> ('w, ElbDetail) prog" where
  "v1_GetLoadBalancer A J tenant loadbalancerID =
     request_decode A (elb_get tenant (''/elbaas/loadbalancers/'' @ loadbalancerID)) ''Failed to GetElbDetail : ''
       (js_ElbDetail J) zero_ElbDetail"

text \<open>The query leaves out empty keys and values.\<close>

definition elb_query :: "(string \<times> string) list \<Rightarrow> string" where
  "elb_query params =
     (if params = [] then []
      else butlast (''?'' @ concat (map (\<lambda>(k, v). if k \<noteq> [] \<and> v \<noteq> [] then k @ ''='' @ v @ ''&'' else []) params)))"

definition v1_ListLoadBalancers :: "'w api \<Rightarrow> json_decoders \<Rightarrow> string \<Rightarrow> (string \<times> string) list \<Rightarrow> ('w, ElbList) prog" where
  "v1_ListLoadBalancers A J tenant params =
     bindR (DoRequest A (elb_get tenant (''/elbaas/loadbalancers'' @ elb_query params))) (\<lambda>resp.
       case rsp_ReadErr resp of
         Some e \<Rightarrow> errR e
       | None \<Rightarrow> (case js_ElbNum J (rsp_Body resp) of
             Inl e \<Rightarrow> errR (Errorf (''Failed to get elbNum : '' @ err_text e))
           | Inr elbNum \<Rightarrow> bindR (deref elbNum) (\<lambda>num.
               if num = ''0'' then okR \<lparr>el_InstanceNum = ''0'', el_Loadbalancers = []\<rparr>
               else (case js_ElbList J (rsp_Body resp) of
                       Inl e \<Rightarrow> errR (Errorf (''Failed to get elbList : '' @ err_text e))
                     | Inr l \<Rightarrow> okR l))))"

definition ModifyElb :: "ELB \<Rightarrow> ('w, ELB option) prog" where
  "ModifyElb elbConf = okR None"

subsection \<open>Listeners\<close>

definition v1_CreateListener ::
  "'w api \<Rightarrow> json_decoders \<Rightarrow> string \<Rightarrow> ELBListener \<Rightarrow> ('w, error \<times> ErrorRsp option + ListenerDetail) prog" where
  "v1_CreateListener A J tenant listenerConf =
     bindR (attempt (DoRequest A (NewRequest ElbEndpoint MethodPost (elb_url tenant ''/elbaas/listeners'') (Some (ObjListener listenerConf))))) (\<lambda>res.
       okR (case res of
           Inl e \<Rightarrow> Inl (e, None)
         | Inr resp \<Rightarrow>
             if rsp_StatusCode resp \<noteq> 200
             then (case js_ErrorRsp J (rsp_Body resp) of
                     Inl e \<Rightarrow> Inl (Errorf (''Failed to unmarshal error resp: '' @ err_text e @ '', '' @ rsp_Body resp), None)
                   | Inr errRsp \<Rightarrow> Inl (Errorf (''Failed to create listener : '' @ rsp_Body resp @ '', status code: ''
                                                @ int_str (rsp_StatusCode resp)), errRsp))
             else (case js_ListenerRsp J (rsp_Body resp) of
                     Inl e \<Rightarrow> Inl (Errorf (''Failed to unmarshal listener resp: '' @ err_text e @ '', body '' @ rsp_Body resp), None)
                   | Inr listener \<Rightarrow> Inr listener)))"

definition v1_DeleteListener :: "'w api \<Rightarrow> string \<Rightarrow> string \<Rightarrow> ('w, unit) prog" where
  "v1_DeleteListener A tenant listenerID =
     request_no_content A (NewRequest ElbEndpoint MethodDelete (elb_url tenant (''/elbaas/listeners/'' @ listenerID)) None)
       ''Failed to delete listener : ''"

definition v1_GetListener :: "'w api \<Rightarrow> json_decoders \<Rightarrow> string \<Rightarrow> string \<Rightarrow> ('w, ListenerDetail) prog" where
  "v1_GetListener A J tenant listenerID =
     request_decode A (elb_get tenant (''/elbaas/listeners/'' @ listenerID)) ''Failed to GetListenerDetail : '' (js_Listener J) zero_ListenerDetail"

definition v1_ListListeners :: "'w api \<Rightarrow> json_decoders \<Rightarrow> string \<Rightarrow> string \<Rightarrow> ('w, ListenerDetail option list) prog" where
  "v1_ListListeners A J tenant loadbalancerID =
     request_decode A (elb_get tenant (''/elbaas/listeners'' @ (if length loadbalancerID \<noteq> 0 then ''?loadbalancer_id='' @ loadbalancerID else [])))
       ''Failed to GetListenersList : '' (js_Listeners J) []"

definition v1_UpdateListener :: "'w api \<Rightarrow> json_decoders \<Rightarrow> string \<Rightarrow> ELBListener \<Rightarrow> string \<Rightarrow> ('w, ListenerDetail) prog" where
  "v1_UpdateListener A J tenant listener listenerID =
     request_decode A (NewRequest ElbEndpoint MethodPut (elb_url tenant (''/elbaas/listeners/'' @ listenerID)) (Some (ObjListener listener)))
       ''Failed to ModifyListener : '' (js_Listener J) zero_ListenerDetail"

subsection \<open>Health checks\<close>

definition v1_CreateHealthCheck :: "'w api \<Rightarrow> json_decoders \<Rightarrow> string \<Rightarrow> HealthCheck \<Rightarrow> ('w, HealthCheckRsp) prog" where
  "v1_CreateHealthCheck A J tenant healthConf =
     request_decode A (NewRequest ElbEndpoint MethodPost (elb_url tenant ''/elbaas/healthcheck'') (Some (ObjHealthCheck healthConf)))
       ''Failed to CreateHealthCheck : '' (js_HealthCheckRsp J) zero_HealthCheckRsp"

definition v1_DeleteHealthCheck :: "'w api \<Rightarrow> string \<Rightarrow> string \<Rightarrow> ('w, unit) prog" where
  "v1_DeleteHealthCheck A tenant healthcheckID =
     request_no_content A (NewRequest ElbEndpoint MethodDelete (elb_url tenant (''/elbaas/healthcheck/'' @ healthcheckID)) None)
       ''Failed to delete HealthCheck : ''"

text \<open>Here the \<open>ErrorRsp\<close> is a value, not a pointer, so the document \<open>null\<close> leaves its zero value.\<close>

definition v1_GetHealthCheck ::
  "'w api \<Rightarrow> json_decoders \<Rightarrow> string \<Rightarrow> string \<Rightarrow> ('w, error \<times> ErrorRsp option + HealthCheckDetail) prog" where
  "v1_GetHealthCheck A J tenant healthcheckID =
     bindR (attempt (DoRequest A (elb_get tenant (''/elbaas/healthcheck/'' @ healthcheckID)))) (\<lambda>res.
       okR (case res of
           Inl e \<Rightarrow> Inl (e, None)
         | Inr resp \<Rightarrow>
             if rsp_StatusCode resp \<noteq> 200
             then (case js_ErrorRsp J (rsp_Body resp) of
                     Inl e \<Rightarrow> Inl (Errorf (''Failed to unmarshal error resp: '' @ err_text e @ '', '' @ rsp_Body resp), None)
                   | Inr errRsp \<Rightarrow> Inl (Errorf (''Failed to get healthcheck : '' @ rsp_Body resp @ '', status code: ''
                         @ int_str (rsp_StatusCode resp)),
                       Some (case errRsp of None \<Rightarrow> \<lparr>er_Message = [], er_Code = []\<rparr> | Some r \<Rightarrow> r)))
             else (case js_HealthCheckDetail J (rsp_Body resp) of
                     Inl e \<Rightarrow> Inl (Errorf (''Failed to unmarshal healthcheck: '' @ err_text e), None)
                   | Inr h \<Rightarrow> Inr h)))"

definition v1_UpdateHealthCheck :: "'w api \<Rightarrow> json_decoders \<Rightarrow> string \<Rightarrow> HealthCheck \<Rightarrow> string \<Rightarrow> ('w, HealthCheckRsp) prog" where
  "v1_UpdateHealthCheck A J tenant healthConf healthcheckID =
     request_decode A (NewRequest ElbEndpoint MethodPut (elb_url tenant (''/elbaas/healthcheck/'' @ healthcheckID)) (Some (ObjHealthCheck healthConf)))
       ''Failed to ModifyHealthCheck : '' (js_HealthCheckRsp J) zero_HealthCheckRsp"

subsection \<open>Members\<close>

definition members_path :: "string \<Rightarrow> string" where
  "members_path listenerID = ''/elbaas/listeners/'' @ listenerID @ ''/members''"

definition add_members_request :: "string \<Rightarrow> string \<Rightarrow> ELBMember list \<Rightarrow> http_request" where
  "add_members_request tenant listenerID ms =
     NewRequest ElbEndpoint MethodPost (elb_url tenant (members_path listenerID)) (Some (ObjMembers ms))"

definition del_members_request :: "string \<Rightarrow> string \<Rightarrow> MemberRm list \<Rightarrow> http_request" where
  "del_members_request tenant listenerID rms =
     NewRequest ElbEndpoint MethodPost (elb_url tenant (members_path listenerID @ ''/action'')) (Some (ObjMembersDel rms))"

definition RegisterInstancesWithListener ::
  "'w api \<Rightarrow> json_decoders \<Rightarrow> string \<Rightarrow> string \<Rightarrow> ELBMember list \<Rightarrow> ('w, AsyncJobResp) prog" where
  "RegisterInstancesWithListener A J tenant listenerID memberConf =
     bindR (submit_job A J (add_members_request tenant listenerID memberConf) ''Failed to AddMember : '') (\<lambda>job.
       waitJobEnd A J tenant (jr_JobID job))"

text \<open>The service answers \<open>{}\<close> where it should answer an empty list.\<close>

definition v1_ListMembers :: "'w api \<Rightarrow> json_decoders \<Rightarrow> string \<Rightarrow> string \<Rightarrow> ('w, MemDetail option list) prog" where
  "v1_ListMembers A J tenant listenerID =
     bindR (DoRequest A (elb_get tenant (members_path listenerID))) (\<lambda>resp.
       case rsp_ReadErr resp of
         Some e \<Rightarrow> errR e
       | None \<Rightarrow>
           if trim_space (rsp_Body resp) = ''{}'' then okR []
           else (case js_Members J (rsp_Body resp) of
                   Inl e \<Rightarrow> errR (Errorf (''Failed to GetMembers : '' @ err_text e))
                 | Inr ms \<Rightarrow> okR ms))"

text \<open>Reading through every pointer of a list.\<close>

definition deref_all :: "'a option list \<Rightarrow> ('w, 'a list) prog" where
  "deref_all ps = foldR (\<lambda>p xs. bindR (deref p) (\<lambda>x. okR (xs @ [x]))) ps []"

definition member_rm :: "MemDetail \<Rightarrow> MemberRm" where
  "member_rm m = \<lparr>mr_ID = em_ID m, mr_Address = em_Address m\<rparr>"

definition v1_DeleteMembers :: "'w api \<Rightarrow> json_decoders \<Rightarrow> string \<Rightarrow> string \<Rightarrow> ('w, unit) prog" where
  "v1_DeleteMembers A J tenant listenerID =
     bindR (v1_ListMembers A J tenant listenerID) (\<lambda>ps.
     bindR (deref_all ps) (\<lambda>members.
       if length members = 0 then okR ()
       else bindR (submit_job A J (del_members_request tenant listenerID (map member_rm members)) ''Failed to DeleteMembers : '') (\<lambda>job.
            WaitJobComplete A J tenant (jr_JobID job))))"

definition DeregisterInstancesFromListener ::
  "'w api \<Rightarrow> json_decoders \<Rightarrow> string \<Rightarrow> string \<Rightarrow> MemberRm list \<Rightarrow> ('w, unit) prog" where
  "DeregisterInstancesFromListener A J tenant listenerID memDel =
     bindR (submit_job A J (del_members_request tenant listenerID memDel) ''Failed to DeleteSpecMembers : '') (\<lambda>job.
     bindR (waitJobEnd A J tenant (jr_JobID job)) (\<lambda>_. okR ()))"

definition ListMachines :: "'w api \<Rightarrow> json_decoders \<Rightarrow> string \<Rightarrow> ('w, Server list) prog" where
  "ListMachines A J tenant =
     request_decode A (NewRequest EcsEndpoint MethodGet (''/v2/'' @ tenant @ ''/servers/detail'') None) ''Failed to GetEcsList : '' (js_Servers J) []"

definition AsyncCreateMembers :: "'w api \<Rightarrow> json_decoders \<Rightarrow> string \<Rightarrow> string \<Rightarrow> ELBMember list \<Rightarrow> ('w, JobResp) prog" where
  "AsyncCreateMembers A J tenant listenerID memberConf =
     submit_job A J (add_members_request tenant listenerID memberConf) ''Failed to AddMembers : ''"

definition AsyncDeleteMembers :: "'w api \<Rightarrow> json_decoders \<Rightarrow> string \<Rightarrow> string \<Rightarrow> MemberRm list \<Rightarrow> ('w, JobResp) prog" where
  "AsyncDeleteMembers A J tenant listenerID memDel =
     submit_job A J (del_members_request tenant listenerID memDel) ''Failed to DeleteMembers : ''"

text \<open>
  The condition of \<open>WaitMemberComplete\<close>: the listed members are searched for each new member in turn;
  the first one found that is normal ends the wait, one that is unavailable ends it with an error,
  and any other state goes on with the next new member.
\<close>

fun scan_member :: "string \<Rightarrow> MemDetail option list \<Rightarrow> ('w, MemDetail option) prog" where
  "scan_member serverID [] = okR None"
| "scan_member serverID (p # ps) =
     bindR (deref p) (\<lambda>d. if serverID = em_ServerID d then okR (Some d) else scan_member serverID ps)"

fun members_ready :: "ELBMember list \<Rightarrow> MemDetail option list \<Rightarrow> ('w, error + bool) prog" where
  "members_ready [] ps = okR (Inr False)"
| "members_ready (m # ms) ps =
     bindR (scan_member (em_ServerID m) ps) (\<lambda>found. case found of
         None \<Rightarrow> members_ready ms ps
       | Some d \<Rightarrow>
           if em_HealthStatus d = ''NORMAL'' then okR (Inr True)
           else if em_HealthStatus d = ''UNAVAILABLE''
           then okR (Inl (Errorf (''Member('' @ em_ServerAddress d @ '') status is abnormal'')))
           else members_ready ms ps)"

definition WaitMemberComplete :: "'w api \<Rightarrow> json_decoders \<Rightarrow> string \<Rightarrow> string \<Rightarrow> ELBMember list \<Rightarrow> ('w, unit) prog" where
  "WaitMemberComplete A J tenant listenerID newMembers =
     wait_for (bindR (attempt (v1_ListMembers A J tenant listenerID)) (\<lambda>r. case r of
         Inl e \<Rightarrow> okR (Inr False)
       | Inr ps \<Rightarrow> members_ready newMembers ps))"

end
