(* ===== verification/Elb1_Cloud.thy ===== *)
theory Elb1_Cloud
  imports Elb1_Client Lb_Interface Nat_Cloud "HOL-Library.AList"
begin

text \<open>
  The version 1 ELB provider of \<open>elb.go\<close>: the listeners of a service are those that carry its name, on a
  load balancer found by the service's address. \<open>EnsureLoadBalancer\<close> starts three goroutines (create,
  update, delete) and waits for all; \<open>ec_Schedule\<close> is the order in which they run, one after the other.
  \<open>ec_Range\<close> is the order in which \<open>range\<close> visits the map of listeners to update. Jobs in the cloud are
  awaited by goroutines that outlive the call: an operation returns them as values of type
  \<open>background\<close>, and \<open>run_background\<close> is the body of such a goroutine.
\<close>

datatype elb_task = TaskCreate | TaskUpdate | TaskDelete

type_synonym tempServicePort = "service_port \<times> ListenerDetail"

record 'w ELBCloud =
  ec_Basic :: "'w Basic"
  ec_json :: json_decoders
  ec_Schedule :: "elb_task list"
  ec_Range :: "tempServicePort list \<Rightarrow> tempServicePort list"

record tempJobInfo =
  tj_jobID :: string
  tj_detail :: string

record background =
  bg_Service :: service
  bg_Jobs :: "tempJobInfo list"
  bg_ListenerID :: string
  bg_NewMembers :: "ELBMember list"
  bg_TryAgain :: bool

definition elb_api :: "'w ELBCloud \<Rightarrow> 'w api" where
  "elb_api c = clients (ec_Basic c)"

definition elb_ELBClient :: "'w ELBCloud \<Rightarrow> ELBClient" where
  "elb_ELBClient c = (let authOpts = AuthOpts (cloudConfig (ec_Basic c)) in
     NewELBClient (Cloud authOpts) (Region authOpts) (ProjectID authOpts) (AccessKey authOpts) (SecretKey authOpts))"

definition elb_tenant :: "'w ELBCloud \<Rightarrow> string" where
  "elb_tenant c = sc_TenantId (ecl_elbClient (elb_ELBClient c))"

abbreviation (input) ELBSessionSourceIP :: string where "ELBSessionSourceIP \<equiv> ''SOURCE_IP''"
abbreviation (input) ELBPersistenceTimeout :: string where "ELBPersistenceTimeout \<equiv> ''persistence_timeout''"
abbreviation (input) HealthzCCE :: string where "HealthzCCE \<equiv> ''cce-healthz''"

definition MaxRetry :: nat where
  "MaxRetry = 3"

subsection \<open>Names, health check port and session affinity\<close>

definition GetListenerName :: "service \<Rightarrow> string" where
  "GetListenerName svc = svc_UID svc"

definition GetOldListenerName :: "service \<Rightarrow> string" where
  "GetOldListenerName svc = map (\<lambda>ch. if ch = CHR ''.'' then CHR ''_'' else ch) (svc_Name svc @ ''_'' @ svc_UID svc)"

definition GetHealthCheckPort :: "service \<Rightarrow> service_port option" where
  "GetHealthCheckPort svc = find (\<lambda>p. port_Name p = HealthzCCE) (svc_Ports svc)"

definition annotation :: "service \<Rightarrow> string \<Rightarrow> string" where
  "annotation svc key = (case svc_Annotations svc key of None \<Rightarrow> [] | Some v \<Rightarrow> v)"

definition GetSessionAffinityType :: "service \<Rightarrow> string" where
  "GetSessionAffinityType svc = annotation svc ElbSessionAffinityFlag"

text \<open>As written, the options are read from the annotation of the health check.\<close>

definition GetSessionAffinityOptions :: "service \<Rightarrow> string" where
  "GetSessionAffinityOptions svc = annotation svc ElbHealthCheckOptions"

definition elb_getSessionAffinityType :: "service \<Rightarrow> ('w, string) prog" where
  "elb_getSessionAffinityType svc =
     (let mode = GetSessionAffinityType svc in
      if mode = ELBSessionSourceIP then okR ELBSessionSourceIP
      else if mode = [] then okR []
      else errR (Errorf (''session affinity type:'' @ mode @ '' not support now'')))"

text \<open>
  The document \<open>null\<close> sets the map to nil: reading it finds nothing, and storing the default timeout
  into it panics.
\<close>

definition elb_getSessionAffinityOptions :: "'w ELBCloud \<Rightarrow> service \<Rightarrow> ('w, string \<rightharpoonup> string) prog" where
  "elb_getSessionAffinityOptions c svc =
     (let option = GetSessionAffinityOptions svc;
          parsed = (if option \<noteq> [] then js_SessionOptions (ec_json c) option else Inr (Some Map.empty))
      in case parsed of
           Inl e \<Rightarrow> errR (Errorf ''invalid session affinity option[parse json failed]'')
         | Inr opts \<Rightarrow>
             if GetSessionAffinityType svc = ELBSessionSourceIP
             then (case Option.bind opts (\<lambda>opt. opt ELBPersistenceTimeout) of
                     Some val \<Rightarrow> (case Atoi val of
                         None \<Rightarrow> errR (Errorf ''invalid session affinity option ,invalid cookie timeout [1<timeout<60]'')
                       | Some timeout \<Rightarrow>
                           if timeout > 60 \<or> timeout < 1
                           then errR (Errorf ''invalid session affinity option ,invalid cookie timeout [1<timeout<60]'')
                           else okR (case opts of None \<Rightarrow> Map.empty | Some opt \<Rightarrow> opt))
                   | None \<Rightarrow> (case opts of
                         None \<Rightarrow> panicR ''assignment to entry in nil map''
                       | Some opt \<Rightarrow> okR (opt(ELBPersistenceTimeout \<mapsto> int_str 60))))
             else okR (case opts of None \<Rightarrow> Map.empty | Some opt \<Rightarrow> opt))"

text \<open>The timeout sent: \<open>Atoi\<close> with its error ignored.\<close>

definition affinity_timeout :: "(string \<rightharpoonup> string) \<Rightarrow> int" where
  "affinity_timeout opts =
     (case Atoi (case opts ELBPersistenceTimeout of None \<Rightarrow> [] | Some v \<Rightarrow> v) of None \<Rightarrow> 0 | Some t \<Rightarrow> t)"

subsection \<open>Retry marks\<close>

text \<open>\<open>client-go\<close> returns an empty object beside an error.\<close>

definition zero_service :: service where
  "zero_service = \<lparr>svc_Namespace = [], svc_Name = [], svc_UID = [], svc_Annotations = Map.empty, svc_Type = [],
     svc_LoadBalancerClass = None, svc_Ports = [], svc_Selector = [], svc_AllocateLoadBalancerNodePorts = None,
     svc_ExternalTrafficPolicy = [], svc_LoadBalancerIP = [], svc_Ingress = []\<rparr>"

definition kube_update :: "'w api \<Rightarrow> service \<Rightarrow> ('w, unit) prog" where
  "kube_update A svc = bindR (remote (Kube (UpdateService svc)) (\<lambda>w. kube_call A w (UpdateService svc))) (\<lambda>_. okR ())"

definition set_mark :: "string \<Rightarrow> service \<Rightarrow> service" where
  "set_mark mark svc = svc\<lparr>svc_Annotations := (svc_Annotations svc)(ELBMarkAnnotation \<mapsto> mark)\<rparr>"

text \<open>
  What both loops do with the reply to an update: \<open>None\<close> ends the loop, \<open>Some s\<close> goes on with the
  service \<open>s\<close>. After a conflict the service is read again.
\<close>

definition after_update :: "'w api \<Rightarrow> service \<Rightarrow> error + unit \<Rightarrow> ('w, service option) prog" where
  "after_update A svc r = (case r of
       Inr _ \<Rightarrow> okR None
     | Inl (KubeError ReasonNotFound _) \<Rightarrow> okR None
     | Inl (KubeError ReasonConflict _) \<Rightarrow>
         bindR (attempt (kube_service A (svc_Namespace svc) (svc_Name svc))) (\<lambda>q.
           okR (Some (case q of Inl e \<Rightarrow> zero_service | Inr s \<Rightarrow> s)))
     | Inl _ \<Rightarrow> okR (Some svc))"

text \<open>The mark of the next attempt; \<open>None\<close> when there were too many.\<close>

definition next_mark :: "service \<Rightarrow> string option" where
  "next_mark svc = (case svc_Annotations svc ELBMarkAnnotation of
       None \<Rightarrow> Some ''1''
     | Some mark \<Rightarrow> (case Atoi mark of
           None \<Rightarrow> Some ''1''
         | Some retry \<Rightarrow> if retry \<ge> int MaxRetry then None else Some (int_str (retry + 1))))"

fun update_status_loop :: "nat \<Rightarrow> 'w api \<Rightarrow> service \<Rightarrow> ('w, unit) prog" where
  "update_status_loop 0 A svc = okR ()"
| "update_status_loop (Suc n) A svc = (case next_mark svc of
       None \<Rightarrow> sendEvent ''CreateLoadBalancerFailed'' ''Retry LoadBalancer configuration too many times''
     | Some mark \<Rightarrow>
         bindR (attempt (kube_update A (set_mark mark svc))) (\<lambda>r.
         bindR (after_update A svc r) (\<lambda>next. case next of
             None \<Rightarrow> okR ()
           | Some svc' \<Rightarrow> update_status_loop n A svc')))"

definition updateServiceStatus :: "'w api \<Rightarrow> service \<Rightarrow> ('w, unit) prog" where
  "updateServiceStatus A svc = update_status_loop MaxRetry A svc"

fun update_mark_loop :: "nat \<Rightarrow> 'w api \<Rightarrow> service \<Rightarrow> bool \<Rightarrow> ('w, unit) prog" where
  "update_mark_loop 0 A svc tryAgain = okR ()"
| "update_mark_loop (Suc n) A svc tryAgain =
     (if svc_Annotations svc ELBMarkAnnotation = None \<and> \<not> tryAgain then okR ()
      else
        let toUpdate = (if svc_Annotations svc ELBMarkAnnotation = None then set_mark ''0'' svc
                        else svc\<lparr>svc_Annotations := (svc_Annotations svc)(ELBMarkAnnotation := None)\<rparr>)
        in bindR (attempt (kube_update A toUpdate)) (\<lambda>r.
           bindR (after_update A svc r) (\<lambda>next. case next of
               None \<Rightarrow> okR ()
             | Some svc' \<Rightarrow> update_mark_loop n A svc' tryAgain)))"

definition updateServiceMarkIfNeeded :: "'w api \<Rightarrow> service \<Rightarrow> bool \<Rightarrow> ('w, unit) prog" where
  "updateServiceMarkIfNeeded A svc tryAgain = update_mark_loop MaxRetry A svc tryAgain"

subsection \<open>Waiting in the background\<close>

definition asyncWaitJobs :: "service \<Rightarrow> tempJobInfo list \<Rightarrow> string \<Rightarrow> ELBMember list \<Rightarrow> bool \<Rightarrow> background list" where
  "asyncWaitJobs svc jobs listenerID newMembers tryAgain =
     (if length jobs = 0 \<and> \<not> tryAgain then []
      else [\<lparr>bg_Service = svc, bg_Jobs = jobs, bg_ListenerID = listenerID, bg_NewMembers = newMembers, bg_TryAgain = tryAgain\<rparr>])"

definition run_background :: "'w ELBCloud \<Rightarrow> background \<Rightarrow> ('w, unit) prog" where
  "run_background c bg =
     bindR (foldR (\<lambda>job errs. bindR (attempt (WaitJobComplete (elb_api c) (ec_json c) (elb_tenant c) (tj_jobID job))) (\<lambda>r. case r of
           Inl e \<Rightarrow> bindR (sendEvent ''CreateLoadBalancerFailed'' (''Job('' @ tj_detail job @ '') is abnormal: '' @ err_text e)) (\<lambda>_.
                      okR (errs @ [e]))
         | Inr _ \<Rightarrow> okR errs)) (bg_Jobs bg) []) (\<lambda>errs.
       if length errs \<noteq> 0 then updateServiceStatus (elb_api c) (bg_Service bg)
       else bindR (if length (bg_NewMembers bg) \<noteq> 0
                   then bindR (attempt (WaitMemberComplete (elb_api c) (ec_json c) (elb_tenant c) (bg_ListenerID bg) (bg_NewMembers bg))) (\<lambda>_. okR ())
                   else okR ()) (\<lambda>_.
            updateServiceMarkIfNeeded (elb_api c) (bg_Service bg) (bg_TryAgain bg)))"

subsection \<open>Listeners and members of a service\<close>

definition getListenersByService :: "'w ELBCloud \<Rightarrow> service \<Rightarrow> ('w, ListenerDetail list) prog" where
  "getListenersByService c svc =
     bindR (v1_ListListeners (elb_api c) (ec_json c) (elb_tenant c) []) (\<lambda>ps.
     bindR (deref_all ps) (\<lambda>listenerList.
       okR (filter (\<lambda>l. ls_Name l = GetListenerName svc \<or> ls_Name l = GetOldListenerName svc) listenerList)))"

text \<open>\<open>compare\<close>: the ports without a listener, the listeners with their port by ID, and the other listeners.\<close>

definition compare_step ::
  "string \<Rightarrow> ListenerDetail list \<Rightarrow> service_port list \<times> (string \<times> tempServicePort) list \<Rightarrow> service_port
     \<Rightarrow> service_port list \<times> (string \<times> tempServicePort) list" where
  "compare_step loadBalancerID listeners acc port =
     (if port_Name port = HealthzCCE then acc
      else case find (\<lambda>l. port_Port port = ls_Port l \<and> ls_LoadbalancerID l = loadBalancerID) listeners of
        None \<Rightarrow> (fst acc @ [port], snd acc)
      | Some l \<Rightarrow> (fst acc, AList.update (ls_ID l) (port, l) (snd acc)))"

definition elb_compare ::
  "string \<Rightarrow> service \<Rightarrow> ListenerDetail list
     \<Rightarrow> service_port list \<times> (string \<times> tempServicePort) list \<times> ListenerDetail list" where
  "elb_compare loadBalancerID svc listeners =
     (let (needsCreate, needsUpdate) = foldl (compare_step loadBalancerID listeners) ([], []) (svc_Ports svc)
      in (needsCreate, needsUpdate, filter (\<lambda>l. map_of needsUpdate (ls_ID l) = None) listeners))"

definition elb_getPods :: "'w ELBCloud \<Rightarrow> string \<Rightarrow> string \<Rightarrow> ('w, pod list) prog" where
  "elb_getPods c name namespace =
     bindR (kube_service (elb_api c) namespace name) (\<lambda>svc.
       if length (svc_Selector svc) = 0
       then errR (Errorf (''the service '' @ name @ '' has no selector to associate the pods''))
       else listPods (elb_api c) namespace (svc_Selector svc))"

definition generate_step :: "'w ELBCloud \<Rightarrow> pod \<Rightarrow> ELBMember list \<times> string list \<Rightarrow> ('w, ELBMember list \<times> string list) prog" where
  "generate_step c item acc = (case acc of (members, hasNodeExist) \<Rightarrow>
     if pod_HostIP item = [] then okR acc
     else if \<not> IsPodActive item then okR acc
     else if pod_HostIP item \<in> set hasNodeExist then okR acc
     else bindR (attempt (kube_node (elb_api c) (pod_NodeName item))) (\<lambda>r. case r of
         Inl e \<Rightarrow> okR acc
       | Inr n \<Rightarrow> okR (members @ [\<lparr>em_ListenerID = [], em_ServerID = node_MachineID n, em_Address = pod_HostIP item\<rparr>],
                       pod_HostIP item # hasNodeExist)))"

definition generateMembers :: "'w ELBCloud \<Rightarrow> service \<Rightarrow> ('w, ELBMember list) prog" where
  "generateMembers c svc =
     bindR (elb_getPods c (svc_Name svc) (svc_Namespace svc)) (\<lambda>podList.
     bindR (foldR (generate_step c) podList ([], [])) (\<lambda>(members, _).
       if length members = 0 then errR (Errorf ''have no node to bind'') else okR members))"

subsection \<open>Members of a listener\<close>

definition match_members ::
  "ELBMember list \<Rightarrow> MemDetail option list \<Rightarrow> ('w, ELBMember list \<times> (string \<times> MemDetail) list) prog" where
  "match_members newMembers preMembers =
     foldR (\<lambda>m acc. bindR (scan_member (em_ServerID m) preMembers) (\<lambda>found. okR (case found of
         None \<Rightarrow> (fst acc @ [m], snd acc)
       | Some d \<Rightarrow> (fst acc, AList.update (em_ServerID d) d (snd acc))))) newMembers ([], [])"

definition gracefulRemoveElbMembers :: "(string \<times> MemDetail) list \<Rightarrow> bool" where
  "gracefulRemoveElbMembers existMembers = list_ex (\<lambda>(_, m). em_HealthStatus m = ''NORMAL'') existMembers"

text \<open>An error of a request is reported as an event and returned with the same text.\<close>

definition or_report :: "string \<Rightarrow> string \<Rightarrow> ('w, 'a) prog \<Rightarrow> ('w, 'a) prog" where
  "or_report reason what m =
     bindR (attempt m) (\<lambda>r. case r of
         Inl e \<Rightarrow> bindR (sendEvent reason (what @ '' error: '' @ err_text e)) (\<lambda>_. errR (Errorf (what @ '' error: '' @ err_text e)))
       | Inr x \<Rightarrow> okR x)"

definition updateListenerMembers ::
  "'w ELBCloud \<Rightarrow> service \<Rightarrow> string \<Rightarrow> ELBMember list \<Rightarrow> MemDetail option list \<Rightarrow> ('w, background list) prog" where
  "updateListenerMembers c svc listenerID newMembers preMembers =
     bindR (match_members newMembers preMembers) (\<lambda>(addMembers, matchedMembers).
     bindR (deref_all preMembers) (\<lambda>pre.
       let removeMember = map member_rm (filter (\<lambda>d. map_of matchedMembers (em_ServerID d) = None) pre) in
       bindR (if length addMembers \<noteq> 0
              then bindR (or_report ''UpdateLoadBalancerFailed'' (''Add members of listener('' @ listenerID @ '')'')
                            (AsyncCreateMembers (elb_api c) (ec_json c) (elb_tenant c) listenerID addMembers)) (\<lambda>addJob.
                   okR [\<lparr>tj_jobID = jr_JobID addJob, tj_detail = ''Add listener('' @ listenerID @ '') members''\<rparr>])
              else okR []) (\<lambda>addJobs.
       bindR (if gracefulRemoveElbMembers matchedMembers \<and> length removeMember \<noteq> 0
              then bindR (or_report ''UpdateLoadBalancerFailed'' (''Delete members of listener('' @ listenerID @ '')'')
                            (AsyncDeleteMembers (elb_api c) (ec_json c) (elb_tenant c) listenerID removeMember)) (\<lambda>delJob.
                   okR [\<lparr>tj_jobID = jr_JobID delJob, tj_detail = ''Delete listener('' @ listenerID @ '') members''\<rparr>])
              else okR []) (\<lambda>delJobs.
       okR (if length addMembers \<noteq> 0 then asyncWaitJobs svc (addJobs @ delJobs) listenerID addMembers True
            else asyncWaitJobs svc (addJobs @ delJobs) listenerID [] False)))))"

subsection \<open>Creating, updating and deleting listeners\<close>

definition listener_conf :: "string \<Rightarrow> string \<Rightarrow> service_port \<Rightarrow> string \<Rightarrow> string \<Rightarrow> (string \<rightharpoonup> string) \<Rightarrow> ELBListener" where
  "listener_conf name elbAlgorithm port loadBalancerID affinity opts =
     (let conf = zero_ELBListener\<lparr>ls_Protocol := port_Protocol port, ls_Port := port_Port port,
            ls_BackendProtocol := port_Protocol port, ls_BackendPort := port_NodePort port, ls_LBAlgorithm := elbAlgorithm,
            ls_Name := name, ls_AdminStateUp := True, ls_Description := Attention, ls_LoadbalancerID := loadBalancerID\<rparr>
      in if affinity = ELBSessionSourceIP
         then conf\<lparr>ls_SessionSticky := True, ls_TCPTimeout := affinity_timeout opts\<rparr> else conf)"

definition ensureCreateListener ::
  "'w ELBCloud \<Rightarrow> string \<Rightarrow> string \<Rightarrow> service_port \<Rightarrow> string \<Rightarrow> string \<Rightarrow> (string \<rightharpoonup> string) \<Rightarrow> ('w, string) prog" where
  "ensureCreateListener c name elbAlgorithm port loadBalancerID affinity opts =
     bindR (v1_CreateListener (elb_api c) (ec_json c) (elb_tenant c)
              (listener_conf name elbAlgorithm port loadBalancerID affinity opts)) (\<lambda>r. case r of
         Inr l \<Rightarrow> okR (ls_ID l)
       | Inl (e, errRsp) \<Rightarrow>
           if (case errRsp of None \<Rightarrow> False | Some rsp \<Rightarrow> er_Code rsp = ''ELB.6101'') then okR [] else errR e)"

definition health_conf :: "service_port \<Rightarrow> service_port option \<Rightarrow> string \<Rightarrow> HealthCheck" where
  "health_conf port healthCheckPort listenerID =
     (let p = (case healthCheckPort of None \<Rightarrow> port | Some h \<Rightarrow> h) in
      zero_HealthCheck\<lparr>hk_HealthcheckConnectPort := port_NodePort p, hk_HealthcheckInterval := 5, hk_HealthcheckProtocol := port_Protocol p,
        hk_HealthcheckTimeout := 10, hk_HealthyThreshold := 3, hk_ListenerID := listenerID, hk_UnhealthyThreshold := 3\<rparr>)"

text \<open>One port of \<open>createLoadBalancer\<close>; \<open>acc\<close> holds the errors and the jobs so far.\<close>

definition create_port ::
  "'w ELBCloud \<Rightarrow> string \<Rightarrow> service \<Rightarrow> service_port option \<Rightarrow> ELBMember list \<Rightarrow> string \<Rightarrow> (string \<rightharpoonup> string)
     \<Rightarrow> service_port \<Rightarrow> error list \<times> tempJobInfo list \<Rightarrow> ('w, error list \<times> tempJobInfo list) prog" where
  "create_port c loadBalancerID svc healthCheckPort members affinity opts port acc =
     (case acc of (errs, jobs) \<Rightarrow>
      let fail = (\<lambda>what e. bindR (sendEvent ''CreateLoadBalancerFailed'' (what @ '' error: '' @ err_text e)) (\<lambda>_. okR (errs @ [e], jobs)))
      in bindR (attempt (ensureCreateListener c (GetListenerName svc) ''ROUND_ROBIN'' port loadBalancerID affinity opts)) (\<lambda>r. case r of
           Inl e \<Rightarrow> fail (''Create listener('' @ int_str (port_Port port) @ '')'') e
         | Inr listenerID \<Rightarrow>
             if listenerID = []
             then bindR (sendEvent ''CreateLoadBalancerFailed'' (''The listener('' @ int_str (port_Port port) @ '') has already exist'')) (\<lambda>_. okR acc)
             else bindR (attempt (v1_CreateHealthCheck (elb_api c) (ec_json c) (elb_tenant c) (health_conf port healthCheckPort listenerID))) (\<lambda>h. case h of
                 Inl e \<Rightarrow> fail (''Create healthcheck of listener('' @ listenerID @ '')'') e
               | Inr _ \<Rightarrow> bindR (attempt (AsyncCreateMembers (elb_api c) (ec_json c) (elb_tenant c) listenerID members)) (\<lambda>q. case q of
                     Inl e \<Rightarrow> fail (''Create members of listener('' @ listenerID @ '')'') e
                   | Inr job \<Rightarrow> okR (errs, jobs @ [\<lparr>tj_jobID = jr_JobID job, tj_detail = ''Create members of listener('' @ listenerID @ '')''\<rparr>])))))"

text \<open>The session options of a service; an error is reported under \<open>reason\<close> and returned as it is.\<close>

definition session_or_report :: "'w ELBCloud \<Rightarrow> service \<Rightarrow> string \<Rightarrow> string \<Rightarrow> ('w, string \<times> (string \<rightharpoonup> string)) prog" where
  "session_or_report c svc reason what =
     bindR (attempt (bindR (elb_getSessionAffinityType svc) (\<lambda>aff.
              bindR (elb_getSessionAffinityOptions c svc) (\<lambda>opts. okR (aff, opts))))) (\<lambda>r. case r of
         Inl e \<Rightarrow> bindR (sendEvent reason (what @ '' loadbalancer('' @ svc_LoadBalancerIP svc @ '') error: '' @ err_text e)) (\<lambda>_. errR e)
       | Inr x \<Rightarrow> okR x)"

definition createLoadBalancer ::
  "'w ELBCloud \<Rightarrow> string \<Rightarrow> service \<Rightarrow> service_port list \<Rightarrow> service_port option \<Rightarrow> ELBMember list
     \<Rightarrow> ('w, error option \<times> background list) prog" where
  "createLoadBalancer c loadBalancerID svc needsCreate healthCheckPort members =
     bindR (attempt (session_or_report c svc ''CreateLoadBalancerFailed'' ''Create'')) (\<lambda>r. case r of
         Inl e \<Rightarrow> okR (Some e, [])
       | Inr (affinity, opts) \<Rightarrow>
           bindR (foldR (create_port c loadBalancerID svc healthCheckPort members affinity opts) needsCreate ([], [])) (\<lambda>(errs, jobs).
             okR (NewAggregate errs, asyncWaitJobs svc jobs [] [] False)))"

text \<open>The health check of a listener to update is created when it is missing and updated when port or protocol differ.\<close>

definition updateHealthcheckIfNeeded :: "'w ELBCloud \<Rightarrow> service \<Rightarrow> tempServicePort \<Rightarrow> service_port option \<Rightarrow> ('w, unit) prog" where
  "updateHealthcheckIfNeeded c svc tempPort healthCheckPort = (case tempPort of (port, listener) \<Rightarrow>
     let p = (case healthCheckPort of None \<Rightarrow> port | Some h \<Rightarrow> h);
         report = (\<lambda>what e. bindR (sendEvent ''UpdateLoadBalancerFailed''
                     (what @ '' healthcheck of listener('' @ ls_ID listener @ '') error: '' @ err_text e)) (\<lambda>_. errR e));
         create = bindR (attempt (v1_CreateHealthCheck (elb_api c) (ec_json c) (elb_tenant c) (health_conf port healthCheckPort (ls_ID listener))))
                    (\<lambda>r. case r of Inl e \<Rightarrow> report ''Create'' e | Inr _ \<Rightarrow> okR ())
     in if ls_HealthcheckID listener = [] \<or> ls_HealthcheckID listener = ''null'' then create
        else bindR (v1_GetHealthCheck (elb_api c) (ec_json c) (elb_tenant c) (ls_HealthcheckID listener)) (\<lambda>r. case r of
            Inl (e, errResp) \<Rightarrow>
              if (case errResp of None \<Rightarrow> False | Some rsp \<Rightarrow> er_Code rsp = ''ELB.7020'') then create else errR e
          | Inr healthz \<Rightarrow>
              if port_NodePort p \<noteq> hk_HealthcheckConnectPort healthz \<or> port_Protocol p \<noteq> hk_HealthcheckProtocol healthz
              then bindR (attempt (v1_UpdateHealthCheck (elb_api c) (ec_json c) (elb_tenant c) (health_conf port healthCheckPort [])
                            (ls_HealthcheckID listener))) (\<lambda>u. case u of Inl e \<Rightarrow> report ''Update'' e | Inr _ \<Rightarrow> okR ())
              else okR ()))"

definition update_listener_conf :: "service_port \<Rightarrow> bool \<Rightarrow> int \<Rightarrow> ELBListener" where
  "update_listener_conf port sticky timeout =
     (let ll = zero_ELBListener\<lparr>ls_BackendPort := port_NodePort port, ls_SessionSticky := sticky\<rparr>
      in if sticky then ll\<lparr>ls_TCPTimeout := timeout\<rparr> else ll)"

text \<open>One listener of \<open>updateLoadBalancer\<close>; an error that is appended to \<open>errs\<close> goes on with the next listener.\<close>

definition update_listener ::
  "'w ELBCloud \<Rightarrow> service \<Rightarrow> service_port option \<Rightarrow> ELBMember list \<Rightarrow> string \<Rightarrow> (string \<rightharpoonup> string) \<Rightarrow> tempServicePort
     \<Rightarrow> error list \<times> background list \<Rightarrow> ('w, error list \<times> background list) prog" where
  "update_listener c svc healthCheckPort members affinity opts tempPort acc = (case (tempPort, acc) of ((port, listener), (errs, bgs)) \<Rightarrow>
     if port_Protocol port \<noteq> ls_Protocol listener
     then bindR (sendEvent ''UpdateLoadBalancerFailed'' (''The protocol of listener('' @ ls_ID listener @ '') can not be modified'')) (\<lambda>_. okR acc)
     else
       let sticky = (affinity = ELBSessionSourceIP);
           timeout = (if sticky then affinity_timeout opts else 0);
           upd = (if port_NodePort port \<noteq> ls_BackendPort listener \<or> ls_SessionSticky listener \<noteq> sticky \<or> ls_TCPTimeout listener \<noteq> timeout
                  then bindR (attempt (v1_UpdateListener (elb_api c) (ec_json c) (elb_tenant c) (update_listener_conf port sticky timeout) (ls_ID listener)))
                    (\<lambda>r. case r of
                        Inl e \<Rightarrow> bindR (sendEvent ''UpdateLoadBalancerFailed'' (''Update listener('' @ ls_ID listener @ '') error: '' @ err_text e)) (\<lambda>_. errR e)
                      | Inr _ \<Rightarrow> okR ())
                  else okR ())
       in bindR (attempt (bindR upd (\<lambda>_.
            bindR (updateHealthcheckIfNeeded c svc tempPort healthCheckPort) (\<lambda>_.
            bindR (v1_ListMembers (elb_api c) (ec_json c) (elb_tenant c) (ls_ID listener)) (\<lambda>currentMembers.
              updateListenerMembers c svc (ls_ID listener) members currentMembers))))) (\<lambda>r. okR (case r of
              Inl e \<Rightarrow> (errs @ [e], bgs)
            | Inr bg \<Rightarrow> (errs, bgs @ bg))))"

definition updateLoadBalancer ::
  "'w ELBCloud \<Rightarrow> service \<Rightarrow> (string \<times> tempServicePort) list \<Rightarrow> service_port option \<Rightarrow> ELBMember list
     \<Rightarrow> ('w, error option \<times> background list) prog" where
  "updateLoadBalancer c svc needsUpdate healthCheckPort members =
     bindR (attempt (session_or_report c svc ''UpdateLoadBalancerFailed'' ''Update'')) (\<lambda>r. case r of
         Inl e \<Rightarrow> okR (Some e, [])
       | Inr (affinity, opts) \<Rightarrow>
           bindR (foldR (update_listener c svc healthCheckPort members affinity opts) (ec_Range c (map snd needsUpdate)) ([], [])) (\<lambda>(errs, bgs).
             okR (NewAggregate errs, bgs)))"

text \<open>The members of a listener go first, then its health check, then the listener.\<close>

definition prefixed :: "string \<Rightarrow> ('w, 'a) prog \<Rightarrow> ('w, 'a) prog" where
  "prefixed what m = bindR (attempt m) (\<lambda>r. case r of Inl e \<Rightarrow> errR (Errorf (what @ err_text e)) | Inr x \<Rightarrow> okR x)"

definition elb_deleteListener :: "'w ELBCloud \<Rightarrow> string \<Rightarrow> string \<Rightarrow> ('w, unit) prog" where
  "elb_deleteListener c listenerID healthcheckID =
     bindR (if listenerID \<noteq> []
            then prefixed (''Delete members of listener('' @ listenerID @ '') error: '') (v1_DeleteMembers (elb_api c) (ec_json c) (elb_tenant c) listenerID)
            else okR ()) (\<lambda>_.
     bindR (if healthcheckID \<noteq> [] \<and> healthcheckID \<noteq> ''null''
            then prefixed (''Delete healthcheck of listener('' @ listenerID @ '') error: '') (v1_DeleteHealthCheck (elb_api c) (elb_tenant c) healthcheckID)
            else okR ()) (\<lambda>_.
     if listenerID \<noteq> []
     then prefixed (''Delete listener('' @ listenerID @ '') error: '') (v1_DeleteListener (elb_api c) (elb_tenant c) listenerID)
     else okR ()))"

text \<open>The loop over listeners of \<open>deleteLoadBalancer\<close> and of \<open>EnsureLoadBalancerDeleted\<close>, which differ in the text of the event.\<close>

definition delete_listeners :: "'w ELBCloud \<Rightarrow> (ListenerDetail \<Rightarrow> error \<Rightarrow> string) \<Rightarrow> ListenerDetail list \<Rightarrow> ('w, error list) prog" where
  "delete_listeners c message listeners =
     foldR (\<lambda>l errs. bindR (attempt (elb_deleteListener c (ls_ID l) (ls_HealthcheckID l))) (\<lambda>r. case r of
         Inl e \<Rightarrow> bindR (sendEvent ''DeleteLoadBalancerFailed'' (message l e)) (\<lambda>_. okR (errs @ [e]))
       | Inr _ \<Rightarrow> okR errs)) listeners []"

definition deleteLoadBalancer :: "'w ELBCloud \<Rightarrow> ListenerDetail list \<Rightarrow> ('w, error option) prog" where
  "deleteLoadBalancer c needsDelete =
     (if length needsDelete = 0 then okR None
      else bindR (delete_listeners c (\<lambda>_ e. err_text e) needsDelete) (\<lambda>errs. okR (NewAggregate errs)))"

subsection \<open>The provider\<close>

definition elb_GetLoadBalancer :: "'w ELBCloud \<Rightarrow> string \<Rightarrow> service \<Rightarrow> ('w, string list option \<times> bool) prog" where
  "elb_GetLoadBalancer c clusterName svc =
     bindR (getListenersByService c svc) (\<lambda>listeners.
       if length listeners = 0 then okR (None, False) else okR (Some [svc_LoadBalancerIP svc], True))"

definition elb_GetLoadBalancerName :: "string \<Rightarrow> service \<Rightarrow> string" where
  "elb_GetLoadBalancerName clusterName svc = []"

definition run_task ::
  "'w ELBCloud \<Rightarrow> string \<Rightarrow> service \<Rightarrow> service_port list \<times> (string \<times> tempServicePort) list \<times> ListenerDetail list \<Rightarrow> ELBMember list
     \<Rightarrow> elb_task \<Rightarrow> ('w, error option \<times> background list) prog" where
  "run_task c loadBalancerID svc plan members task = (case plan of (needsCreate, needsUpdate, needsDelete) \<Rightarrow> (case task of
       TaskCreate \<Rightarrow> createLoadBalancer c loadBalancerID svc needsCreate (GetHealthCheckPort svc) members
     | TaskUpdate \<Rightarrow> updateLoadBalancer c svc needsUpdate (GetHealthCheckPort svc) members
     | TaskDelete \<Rightarrow> bindR (deleteLoadBalancer c needsDelete) (\<lambda>e. okR (e, []))))"

definition elb_EnsureLoadBalancer :: "'w ELBCloud \<Rightarrow> string \<Rightarrow> service \<Rightarrow> node list \<Rightarrow> ('w, (error + string list) \<times> background list) prog" where
  "elb_EnsureLoadBalancer c clusterName svc hosts =
     bindR (getListenersByService c svc) (\<lambda>listeners.
     bindR (generateMembers c svc) (\<lambda>members.
     let vpc = vpc_ID (VpcOpts (cloudConfig (ec_Basic c)));
         params = (if vpc \<noteq> [] then [(''vpc_id'', vpc)] else [])
           @ (if svc_LoadBalancerIP svc \<noteq> [] then [(''vip_address'', svc_LoadBalancerIP svc)] else [])
     in bindR (v1_ListLoadBalancers (elb_api c) (ec_json c) (elb_tenant c) params) (\<lambda>lbList. case el_Loadbalancers lbList of
         [] \<Rightarrow> errR (Errorf (''can'' @ [CHR 0x27] @ ''t find matched Loadbalancer''))
       | [lb] \<Rightarrow>
           let loadBalancerID = elb_LoadbalancerId lb; plan = elb_compare loadBalancerID svc listeners
           in bindR (foldR (\<lambda>task acc. bindR (run_task c loadBalancerID svc plan members task) (\<lambda>(err, bg).
                  okR (fst acc @ (case err of None \<Rightarrow> [] | Some e \<Rightarrow> [e]), snd acc @ bg))) (ec_Schedule c) ([], [])) (\<lambda>(errs, bgs).
                okR (case NewAggregate errs of Some e \<Rightarrow> Inl e | None \<Rightarrow> Inr [svc_LoadBalancerIP svc], bgs))
       | _ \<Rightarrow> errR (Errorf (''find more than one Loadbalancer(service:'' @ svc_Namespace svc @ ''/'' @ svc_Name svc @ '')'')))))"

definition elb_UpdateLoadBalancer :: "'w ELBCloud \<Rightarrow> string \<Rightarrow> service \<Rightarrow> node list \<Rightarrow> ('w, error option \<times> background list) prog" where
  "elb_UpdateLoadBalancer c clusterName svc hosts =
     bindR (generateMembers c svc) (\<lambda>members.
     bindR (getListenersByService c svc) (\<lambda>listeners.
     bindR (foldR (\<lambda>l acc. bindR (attempt (bindR (v1_ListMembers (elb_api c) (ec_json c) (elb_tenant c) (ls_ID l)) (\<lambda>preMembers.
                updateListenerMembers c svc (ls_ID l) members preMembers))) (\<lambda>r. okR (case r of
                    Inl e \<Rightarrow> (fst acc @ [e], snd acc)
                  | Inr bg \<Rightarrow> (fst acc, snd acc @ bg)))) listeners ([], [])) (\<lambda>(errs, bgs).
       okR (NewAggregate errs, bgs))))"

definition elb_EnsureLoadBalancerDeleted :: "'w ELBCloud \<Rightarrow> string \<Rightarrow> service \<Rightarrow> ('w, unit) prog" where
  "elb_EnsureLoadBalancerDeleted c clusterName svc =
     bindR (getListenersByService c svc) (\<lambda>listeners.
     bindR (delete_listeners c (\<lambda>l e. ''Delete listener('' @ ls_ID l @ '') error: '' @ err_text e) listeners) (\<lambda>errs.
       case NewAggregate errs of None \<Rightarrow> okR () | Some e \<Rightarrow> errR e))"

text \<open>The method table, with the goroutines left behind run after the call that started them.\<close>

definition settle_background :: "'w ELBCloud \<Rightarrow> background list \<Rightarrow> ('w, unit) prog" where
  "settle_background c bgs = foldR (\<lambda>bg _. run_background c bg) bgs ()"

definition ELBCloud_provider :: "'w ELBCloud \<Rightarrow> 'w provider" where
  "ELBCloud_provider c = \<lparr>p_GetLoadBalancer = elb_GetLoadBalancer c, p_GetLoadBalancerName = elb_GetLoadBalancerName,
     p_EnsureLoadBalancer = (\<lambda>name svc hosts. bindR (elb_EnsureLoadBalancer c name svc hosts) (\<lambda>(r, bgs).
       bindR (settle_background c bgs) (\<lambda>_. case r of Inl e \<Rightarrow> errR e | Inr st \<Rightarrow> okR (Some st)))),
     p_UpdateLoadBalancer = (\<lambda>name svc hosts. bindR (elb_UpdateLoadBalancer c name svc hosts) (\<lambda>(err, bgs).
       bindR (settle_background c bgs) (\<lambda>_. case err of Some e \<Rightarrow> errR e | None \<Rightarrow> okR ()))),
     p_EnsureLoadBalancerDeleted = elb_EnsureLoadBalancerDeleted c\<rparr>"

end
