(* ===== verification/Elb1_Correct.thy ===== *)
theory Elb1_Correct
  imports Elb1_Cloud Changes Http_Scenario
begin

text \<open>
  Properties of the version 1 ELB provider: what \<open>compare\<close> splits, when members are removed, how often a
  service is marked for another attempt, in which order a listener is taken down and which listeners a
  deletion touches, and the bounds of the session timeout.
\<close>

subsection \<open>Comparing ports and listeners\<close>

definition port_listener :: "string \<Rightarrow> ListenerDetail list \<Rightarrow> service_port \<Rightarrow> ListenerDetail option" where
  "port_listener lb listeners p = find (\<lambda>l. port_Port p = ls_Port l \<and> ls_LoadbalancerID l = lb) listeners"

definition compare_inv ::
  "string \<Rightarrow> ListenerDetail list \<Rightarrow> service_port list \<Rightarrow> service_port list \<times> (string \<times> tempServicePort) list \<Rightarrow> bool" where
  "compare_inv lb listeners ports acc \<longleftrightarrow>
     fst acc = filter (\<lambda>p. port_Name p \<noteq> HealthzCCE \<and> port_listener lb listeners p = None) ports \<and>
     distinct (map fst (snd acc)) \<and>
     (\<forall>(k, p, l)\<in>set (snd acc). k = ls_ID l \<and> p \<in> set ports \<and> port_Name p \<noteq> HealthzCCE \<and> port_listener lb listeners p = Some l) \<and>
     (\<forall>p\<in>set ports. \<forall>l. port_Name p \<noteq> HealthzCCE \<and> port_listener lb listeners p = Some l \<longrightarrow> ls_ID l \<in> fst ` set (snd acc))"

lemma set_update_subset: "set (AList.update k v al) \<subseteq> insert (k, v) (set al)"
  by (induction al) auto

lemma compare_step_inv:
  assumes "compare_inv lb listeners ports acc"
  shows "compare_inv lb listeners (ports @ [p]) (compare_step lb listeners acc p)"
proof (cases "port_Name p = HealthzCCE \<or> port_listener lb listeners p = None")
  case True
  then show ?thesis
    using assms by (auto simp: compare_inv_def compare_step_def port_listener_def [symmetric])
next
  case False
  then obtain l where l: "port_Name p \<noteq> HealthzCCE" "port_listener lb listeners p = Some l" by auto
  show ?thesis
    using assms l set_update_subset [of "ls_ID l" "(p, l)" "snd acc"]
    by (auto simp: compare_inv_def compare_step_def port_listener_def [symmetric] AList.distinct_update AList.dom_update)
qed

lemma compare_fold_inv: "compare_inv lb listeners ports (foldl (compare_step lb listeners) ([], []) ports)"
proof (induction ports rule: rev_induct)
  case Nil
  then show ?case by (simp add: compare_inv_def)
next
  case (snoc p ports)
  then show ?case by (simp add: compare_step_inv)
qed

lemma port_listener_Some:
  "port_listener lb listeners p = Some l \<Longrightarrow> l \<in> set listeners \<and> ls_Port l = port_Port p \<and> ls_LoadbalancerID l = lb"
  by (auto simp: port_listener_def find_Some_iff)

lemma port_listener_None:
  "port_listener lb listeners p = None \<longleftrightarrow> \<not> list_ex (\<lambda>l. ls_Port l = port_Port p \<and> ls_LoadbalancerID l = lb) listeners"
  by (auto simp: port_listener_def find_None_iff list_ex_iff eq_commute [of "port_Port p"])

lemma distinct_ID: "distinct (map ls_ID ls) \<Longrightarrow> a \<in> set ls \<Longrightarrow> b \<in> set ls \<Longrightarrow> ls_ID a = ls_ID b \<Longrightarrow> a = b"
  by (auto simp: distinct_map dest: inj_onD)

lemma compare_unlisted:
  assumes "distinct (map ls_ID listeners)" and inv: "compare_inv lb listeners ports (create, update)" and l: "l \<in> set listeners"
  shows "map_of update (ls_ID l) = None \<longleftrightarrow> l \<notin> snd ` snd ` set update"
proof -
  have entry: "k = ls_ID l \<and> l \<in> set listeners" if "(k, q, l) \<in> set update" for k q l
    using inv that by (fastforce simp: compare_inv_def dest: port_listener_Some)
  have "map_of update (ls_ID l) = None \<longleftrightarrow> ls_ID l \<notin> fst ` set update" by (simp add: map_of_eq_None_iff)
  also have "\<dots> \<longleftrightarrow> l \<notin> snd ` snd ` set update"
    using entry distinct_ID [OF assms(1)] l by (force simp: image_iff)
  finally show ?thesis .
qed

lemma compare_updated:
  assumes "distinct (map ls_ID listeners)" and inv: "compare_inv lb listeners ports (create, update)"
  shows "snd ` snd ` set update = {l. \<exists>p\<in>set ports. port_Name p \<noteq> HealthzCCE \<and> port_listener lb listeners p = Some l}"
proof (intro equalityI subsetI)
  fix l
  assume "l \<in> snd ` snd ` set update"
  then show "l \<in> {l. \<exists>p\<in>set ports. port_Name p \<noteq> HealthzCCE \<and> port_listener lb listeners p = Some l}"
    using inv by (fastforce simp: compare_inv_def)
next
  fix l
  assume "l \<in> {l. \<exists>p\<in>set ports. port_Name p \<noteq> HealthzCCE \<and> port_listener lb listeners p = Some l}"
  then obtain p where p: "p \<in> set ports" "port_Name p \<noteq> HealthzCCE" "port_listener lb listeners p = Some l" by blast
  then have "ls_ID l \<in> fst ` set update" using inv by (auto simp: compare_inv_def)
  then obtain k q l' where u: "(k, q, l') \<in> set update" "k = ls_ID l" by fastforce
  then have "ls_ID l' = ls_ID l" "port_listener lb listeners q = Some l'" using inv by (auto simp: compare_inv_def)
  then have "l' = l" using distinct_ID [OF assms(1)] p(3) port_listener_Some by metis
  with u show "l \<in> snd ` snd ` set update" by force
qed

text \<open>
  C31. \<open>compare\<close> splits the work of \<open>EnsureLoadBalancer\<close> by \<open>port_listener\<close>, the first listener of this load balancer with
  the number of a port (the port of the health check apart). The ports to create are exactly those, in order, that have none.
  The listeners to update are exactly those that some port of the service has, each under its ID and once, with a port that has
  it. The listeners to delete are all others, in their order: none that a port has, and also a second listener with the same number.
\<close>

theorem elb_compare_partitions:
  assumes "distinct (map ls_ID listeners)" and "elb_compare lb svc listeners = (create, update, del)"
  shows "create = filter (\<lambda>p. port_Name p \<noteq> HealthzCCE \<and>
         \<not> list_ex (\<lambda>l. ls_Port l = port_Port p \<and> ls_LoadbalancerID l = lb) listeners) (svc_Ports svc)
    \<and> snd ` snd ` set update = {l. \<exists>p\<in>set (svc_Ports svc). port_Name p \<noteq> HealthzCCE \<and> port_listener lb listeners p = Some l}
    \<and> del = filter (\<lambda>l. l \<notin> snd ` snd ` set update) listeners
    \<and> distinct (map fst update)
    \<and> list_all (\<lambda>(k, p, l). k = ls_ID l \<and> p \<in> set (svc_Ports svc) \<and> port_Name p \<noteq> HealthzCCE \<and> port_listener lb listeners p = Some l) update"
proof -
  have acc: "foldl (compare_step lb listeners) ([], []) (svc_Ports svc) = (create, update)"
    and del: "del = filter (\<lambda>l. map_of update (ls_ID l) = None) listeners"
    using assms(2) by (auto simp: elb_compare_def split: prod.splits)
  have inv: "compare_inv lb listeners (svc_Ports svc) (create, update)"
    using compare_fold_inv [of lb listeners "svc_Ports svc"] acc by simp
  have rest: "del = filter (\<lambda>l. l \<notin> snd ` snd ` set update) listeners"
    unfolding del using compare_unlisted [OF assms(1) inv] by (intro filter_cong) auto
  have new: "create = filter (\<lambda>p. port_Name p \<noteq> HealthzCCE \<and>
      \<not> list_ex (\<lambda>l. ls_Port l = port_Port p \<and> ls_LoadbalancerID l = lb) listeners) (svc_Ports svc)"
    using inv by (simp add: compare_inv_def port_listener_None)
  have entries: "list_all (\<lambda>(k, p, l). k = ls_ID l \<and> p \<in> set (svc_Ports svc) \<and> port_Name p \<noteq> HealthzCCE \<and> port_listener lb listeners p = Some l) update"
    using inv by (simp add: compare_inv_def list_all_iff)
  have once: "distinct (map fst update)" using inv by (simp add: compare_inv_def)
  show ?thesis by (intro conjI) (fact new compare_updated [OF assms(1) inv] rest once entries)+
qed

definition demo_v1_listener :: "string \<Rightarrow> int \<Rightarrow> ListenerDetail" where
  "demo_v1_listener i port = zero_ListenerDetail\<lparr>ls_ID := i, ls_Name := ''u'', ls_Port := port, ls_LoadbalancerID := ''lb'', ls_HealthcheckID := ''h''\<rparr>"

lemma demo_v1_listener_sel [simp]:
  "ls_ID (demo_v1_listener i port) = i" "ls_Port (demo_v1_listener i port) = port" "ls_Name (demo_v1_listener i port) = ''u''"
  "ls_LoadbalancerID (demo_v1_listener i port) = ''lb''" "ls_HealthcheckID (demo_v1_listener i port) = ''h''"
  by (simp_all add: demo_v1_listener_def)

definition demo_v1_listeners :: "ListenerDetail list" where
  "demo_v1_listeners = [demo_v1_listener ''a'' 80, demo_v1_listener ''b'' 99, demo_v1_listener ''c'' 80]"

lemma demo_v1_compare:
  "elb_compare ''lb'' (demo_service Map.empty) demo_v1_listeners =
     ([], [(''a'', demo_port, demo_v1_listener ''a'' 80)], [demo_v1_listener ''b'' 99, demo_v1_listener ''c'' 80])"
  by (simp add: elb_compare_def compare_step_def demo_port_def demo_v1_listeners_def)

theorem elb_compare_partitions_witness:
  "distinct (map ls_ID demo_v1_listeners) \<and> elb_compare ''lb'' (demo_service Map.empty) demo_v1_listeners =
     ([], [(''a'', demo_port, demo_v1_listener ''a'' 80)], [demo_v1_listener ''b'' 99, demo_v1_listener ''c'' 80])
   \<and> {demo_v1_listener ''a'' 80} = {l. \<exists>p\<in>set [demo_port]. port_Name p \<noteq> HealthzCCE \<and> port_listener ''lb'' demo_v1_listeners p = Some l}"
proof -
  have d: "distinct (map ls_ID demo_v1_listeners)" by (simp add: demo_v1_listeners_def)
  note all = elb_compare_partitions [OF d demo_v1_compare]
  from all [THEN conjunct2, THEN conjunct1] have "{demo_v1_listener ''a'' 80} =
      {l. \<exists>p\<in>set [demo_port]. port_Name p \<noteq> HealthzCCE \<and> port_listener ''lb'' demo_v1_listeners p = Some l}"
    unfolding demo_selectors by (simp only: list.set image_insert image_empty prod.sel)
  with d demo_v1_compare show ?thesis by (intro conjI)
qed

subsection \<open>Members of a listener\<close>

lemma scan_member_find: "scan_member k (map Some pre) s = (Ok (find (\<lambda>d. k = em_ServerID d) pre), s)"
  by (induction pre) (auto simp: run_simps)

lemma deref_all_Some: "deref_all (map Some xs) s = (Ok xs, s)"
proof -
  have "foldR (\<lambda>p ys. bindR (deref p) (\<lambda>x. okR (ys @ [x]))) (map Some xs) zs s = (Ok (zs @ xs), s)" for zs
    by (induction xs arbitrary: zs) (auto simp: run_simps)
  then show ?thesis by (simp add: deref_all_def)
qed

text \<open>What \<open>updateListenerMembers\<close> matches: the members to add, and the listed member of each server that is still wanted.\<close>

definition wanted_servers :: "ELBMember list \<Rightarrow> string set" where
  "wanted_servers news = em_ServerID ` set news"

definition to_add :: "ELBMember list \<Rightarrow> MemDetail list \<Rightarrow> ELBMember list" where
  "to_add news pre = filter (\<lambda>m. em_ServerID m \<notin> em_ServerID ` set pre) news"

definition to_remove :: "ELBMember list \<Rightarrow> MemDetail list \<Rightarrow> MemDetail list" where
  "to_remove news pre = filter (\<lambda>d. em_ServerID d \<notin> wanted_servers news) pre"

definition match_inv :: "ELBMember list \<Rightarrow> MemDetail list \<Rightarrow> ELBMember list \<times> (string \<times> MemDetail) list \<Rightarrow> bool" where
  "match_inv news pre acc \<longleftrightarrow> fst acc = to_add news pre \<and> distinct (map fst (snd acc)) \<and>
     (\<forall>k. map_of (snd acc) k = (if k \<in> wanted_servers news then find (\<lambda>d. k = em_ServerID d) pre else None))"

definition match_step :: "MemDetail list \<Rightarrow> ELBMember list \<times> (string \<times> MemDetail) list \<Rightarrow> ELBMember \<Rightarrow> ELBMember list \<times> (string \<times> MemDetail) list" where
  "match_step pre acc m = (case find (\<lambda>d. em_ServerID m = em_ServerID d) pre of
       None \<Rightarrow> (fst acc @ [m], snd acc)
     | Some d \<Rightarrow> (fst acc, AList.update (em_ServerID d) d (snd acc)))"

lemma match_members_foldl: "match_members news (map Some pre) s = (Ok (foldl (match_step pre) ([], []) news), s)"
proof -
  have "foldR (\<lambda>m acc. bindR (scan_member (em_ServerID m) (map Some pre)) (\<lambda>found. okR (case found of
         None \<Rightarrow> (fst acc @ [m], snd acc)
       | Some d \<Rightarrow> (fst acc, AList.update (em_ServerID d) d (snd acc))))) news acc s = (Ok (foldl (match_step pre) acc news), s)" for acc
    by (induction news arbitrary: acc) (auto simp: run_simps scan_member_find match_step_def)
  then show ?thesis by (simp add: match_members_def)
qed

lemma match_step_inv:
  assumes "match_inv news pre acc"
  shows "match_inv (news @ [m]) pre (match_step pre acc m)"
proof (cases "find (\<lambda>d. em_ServerID m = em_ServerID d) pre")
  case None
  then have "em_ServerID m \<notin> em_ServerID ` set pre" by (auto simp: find_None_iff)
  with None assms show ?thesis by (auto simp: match_inv_def match_step_def to_add_def wanted_servers_def)
next
  case (Some d)
  then have d: "em_ServerID d = em_ServerID m" "d \<in> set pre" by (auto simp: find_Some_iff)
  then have "em_ServerID m \<in> em_ServerID ` set pre" by (metis imageI)
  with Some d assms show ?thesis
    by (auto simp: match_inv_def match_step_def to_add_def wanted_servers_def AList.update_conv' AList.distinct_update)
qed

lemma match_fold_inv: "match_inv news pre (foldl (match_step pre) ([], []) news)"
proof (induction news rule: rev_induct)
  case Nil
  then show ?case by (simp add: match_inv_def to_add_def wanted_servers_def)
next
  case (snoc m news)
  then show ?case by (simp add: match_step_inv)
qed

lemma match_graceful:
  assumes "match_inv news pre acc" and "distinct (map em_ServerID pre)"
  shows "gracefulRemoveElbMembers (snd acc) \<longleftrightarrow> list_ex (\<lambda>d. em_ServerID d \<in> wanted_servers news \<and> em_HealthStatus d = ''NORMAL'') pre"
proof -
  have find_iff: "find (\<lambda>d. k = em_ServerID d) pre = Some d \<longleftrightarrow> d \<in> set pre \<and> em_ServerID d = k" for k d
    using assms(2) by (induction pre) (auto simp: image_iff)
  have "distinct (map fst (snd acc))" using assms(1) by (simp add: match_inv_def)
  then have "(k, d) \<in> set (snd acc) \<longleftrightarrow> map_of (snd acc) k = Some d" for k d by (simp add: map_of_eq_Some_iff)
  then have "(k, d) \<in> set (snd acc) \<longleftrightarrow> k \<in> wanted_servers news \<and> d \<in> set pre \<and> em_ServerID d = k" for k d
    using assms(1) find_iff by (simp add: match_inv_def)
  then show ?thesis by (auto simp: gracefulRemoveElbMembers_def list_ex_iff)
qed

lemma match_unmatched:
  "match_inv news pre acc \<Longrightarrow> filter (\<lambda>d. map_of (snd acc) (em_ServerID d) = None) pre = to_remove news pre"
  by (auto simp: match_inv_def to_remove_def find_None_iff intro!: filter_cong)

text \<open>The changes requested over HTTP.\<close>

definition http_changes :: "event list \<Rightarrow> event list" where
  "http_changes es = filter (\<lambda>e. kind_of e = KHttp) es"

lemma http_changes_simps [simp]:
  "http_changes [] = []" "http_changes (e # es) = (if kind_of e = KHttp then e # http_changes es else http_changes es)"
  "http_changes (es @ fs) = http_changes es @ http_changes fs"
  by (simp_all add: http_changes_def)

lemma run_report_submit:
  assumes "url_parses A (rq_Url r)" "rq_Method r = MethodPost"
  shows "\<exists>q t es. or_report reason what (submit_job A J r failed) s = (q, t) \<and> log t = log s @ es \<and> http_changes es = [Http r]
    \<and> (\<forall>msg. q \<noteq> Panic msg)"
proof -
  have "settles (submit_job A J r failed) (changes [Http r])"
    unfolding submit_job_def by (rule settles_request_decode [OF assms(1)])
  then obtain q t es where run: "submit_job A J r failed s = (q, t)" "\<And>msg. q \<noteq> Panic msg" "log t = log s @ es" "changes es = [Http r]"
    using assms(2) by (auto elim!: settlesE [where s = s])
  have "http_changes es = filter (\<lambda>e. kind_of e = KHttp) (changes es)"
    unfolding http_changes_def changes_def filter_filter by (rule filter_cong) auto
  with run show ?thesis
    using assms(2) by (cases q) (auto simp: or_report_def sendEvent_def run_simps)
qed

definition add_requests :: "'w ELBCloud \<Rightarrow> string \<Rightarrow> ELBMember list \<Rightarrow> MemDetail list \<Rightarrow> event list" where
  "add_requests c lid news pre =
     (if to_add news pre \<noteq> [] then [Http (add_members_request (elb_tenant c) lid (to_add news pre))] else [])"

definition remove_requests :: "'w ELBCloud \<Rightarrow> string \<Rightarrow> ELBMember list \<Rightarrow> MemDetail list \<Rightarrow> event list" where
  "remove_requests c lid news pre =
     (if list_ex (\<lambda>d. em_ServerID d \<in> wanted_servers news \<and> em_HealthStatus d = ''NORMAL'') pre \<and> to_remove news pre \<noteq> []
      then [Http (del_members_request (elb_tenant c) lid (map member_rm (to_remove news pre)))] else [])"

lemma run_optional_job:
  assumes "url_parses A (rq_Url r)" "rq_Method r = MethodPost"
  shows "\<exists>q t es. (if b then bindR (or_report reason what (submit_job A J r failed)) (\<lambda>job. okR (f job)) else okR x) s = (q, t)
    \<and> log t = log s @ es \<and> http_changes es = (if b then [Http r] else []) \<and> (\<forall>msg. q \<noteq> Panic msg)
    \<and> ((\<exists>e. q = Err e) \<longleftrightarrow> b \<and> (\<exists>e. fst (submit_job A J r failed s) = Err e))"
proof -
  obtain q t es where run: "or_report reason what (submit_job A J r failed) s = (q, t)" "log t = log s @ es" "http_changes es = [Http r]"
    "\<forall>msg. q \<noteq> Panic msg"
    using run_report_submit [OF assms, of reason what J failed s] by blast
  then have "(\<exists>e. q = Err e) \<longleftrightarrow> (\<exists>e. fst (submit_job A J r failed s) = Err e)"
    by (cases "submit_job A J r failed s") (auto simp: or_report_def sendEvent_def run_simps split: res.splits)
  with run show ?thesis by (cases q) (auto simp: run_simps)
qed

text \<open>Two stages: the second runs exactly when the first has not failed.\<close>

lemma two_stages:
  assumes "m s = (q, t)" "log t = log s @ es" "http_changes es = h" "\<forall>msg. q \<noteq> Panic msg"
    and "\<And>s. \<exists>q t es. n s = (q, t) \<and> log t = log s @ es \<and> http_changes es = k \<and> (\<forall>msg. q \<noteq> Panic msg)"
  shows "\<exists>r u fs. bindR m (\<lambda>x. bindR n (\<lambda>y. okR (g x y))) s = (r, u) \<and> log u = log s @ fs \<and>
     (if \<exists>e. q = Err e then http_changes fs = h \<and> (\<exists>e. r = Err e)
      else http_changes fs = h @ k \<and> (\<forall>v. r = Ok v \<longrightarrow> (\<exists>x y. v = g x y)))"
proof (cases q)
  case (Ok x)
  obtain q' u fs where n: "n t = (q', u)" "log u = log t @ fs" "http_changes fs = k" "\<forall>msg. q' \<noteq> Panic msg" using assms(5) by blast
  then show ?thesis using assms(1-4) Ok by (cases q') (auto simp: run_simps intro!: exI [of _ "es @ fs"])
qed (use assms(1-4) in \<open>auto simp: run_simps\<close>)

text \<open>The two stages of \<open>updateListenerMembers\<close>, and the task it leaves.\<close>

definition add_stage :: "'w ELBCloud \<Rightarrow> string \<Rightarrow> ELBMember list \<Rightarrow> ('w, tempJobInfo list) prog" where
  "add_stage c lid add = (if add \<noteq> [] then bindR (or_report ''UpdateLoadBalancerFailed'' (''Add members of listener('' @ lid @ '')'')
        (AsyncCreateMembers (elb_api c) (ec_json c) (elb_tenant c) lid add))
        (\<lambda>job. okR [\<lparr>tj_jobID = jr_JobID job, tj_detail = ''Add listener('' @ lid @ '') members''\<rparr>]) else okR [])"

definition remove_stage :: "'w ELBCloud \<Rightarrow> string \<Rightarrow> bool \<Rightarrow> MemDetail list \<Rightarrow> ('w, tempJobInfo list) prog" where
  "remove_stage c lid graceful obsolete = (if graceful \<and> obsolete \<noteq> []
      then bindR (or_report ''UpdateLoadBalancerFailed'' (''Delete members of listener('' @ lid @ '')'')
        (AsyncDeleteMembers (elb_api c) (ec_json c) (elb_tenant c) lid (map member_rm obsolete)))
        (\<lambda>job. okR [\<lparr>tj_jobID = jr_JobID job, tj_detail = ''Delete listener('' @ lid @ '') members''\<rparr>]) else okR [])"

definition stage_tasks :: "service \<Rightarrow> string \<Rightarrow> ELBMember list \<Rightarrow> tempJobInfo list \<Rightarrow> tempJobInfo list \<Rightarrow> background list" where
  "stage_tasks svc lid add addJobs delJobs = (if length add \<noteq> 0 then asyncWaitJobs svc (addJobs @ delJobs) lid add True
      else asyncWaitJobs svc (addJobs @ delJobs) lid [] False)"

abbreviation healthy_stays :: "ELBMember list \<Rightarrow> MemDetail list \<Rightarrow> bool" where
  "healthy_stays news pre \<equiv> list_ex (\<lambda>d. em_ServerID d \<in> wanted_servers news \<and> em_HealthStatus d = ''NORMAL'') pre"

lemma updateListenerMembers_stages:
  assumes "distinct (map em_ServerID pre)"
  shows "updateListenerMembers c svc lid news (map Some pre) s =
     bindR (add_stage c lid (to_add news pre)) (\<lambda>addJobs. bindR (remove_stage c lid (healthy_stays news pre) (to_remove news pre))
       (\<lambda>delJobs. okR (stage_tasks svc lid (to_add news pre) addJobs delJobs))) s"
proof -
  obtain add matched where m: "foldl (match_step pre) ([], []) news = (add, matched)" by fastforce
  have inv: "match_inv news pre (add, matched)" using match_fold_inv [of news pre] m by simp
  have add: "add = to_add news pre" using inv by (simp add: match_inv_def)
  have remove: "filter (\<lambda>d. map_of matched (em_ServerID d) = None) pre = to_remove news pre" using match_unmatched [OF inv] by simp
  have graceful: "gracefulRemoveElbMembers matched \<longleftrightarrow> healthy_stays news pre" using match_graceful [OF inv assms] by simp
  show ?thesis
    unfolding add_stage_def remove_stage_def stage_tasks_def graceful [symmetric]
    by (simp add: updateListenerMembers_def run_bindR [of "match_members news (map Some pre)"] match_members_foldl m
        run_bindR [of "deref_all (map Some pre)"] deref_all_Some Let_def remove add [symmetric])
qed

lemma run_add_stage:
  assumes "\<And>u. url_parses (elb_api c) u"
  shows "\<exists>q t es. add_stage c lid (to_add news pre) s = (q, t) \<and> log t = log s @ es \<and> http_changes es = add_requests c lid news pre
     \<and> (\<forall>msg. q \<noteq> Panic msg) \<and> ((\<exists>e. q = Err e) \<longleftrightarrow> to_add news pre \<noteq> [] \<and>
       (\<exists>e. fst (AsyncCreateMembers (elb_api c) (ec_json c) (elb_tenant c) lid (to_add news pre) s) = Err e))"
  unfolding add_stage_def AsyncCreateMembers_def add_requests_def
  by (rule run_optional_job) (simp_all add: assms add_members_request_def)

lemma run_remove_stage:
  assumes "\<And>u. url_parses (elb_api c) u"
  shows "\<exists>q t es. remove_stage c lid (healthy_stays news pre) (to_remove news pre) s = (q, t) \<and> log t = log s @ es
     \<and> http_changes es = remove_requests c lid news pre \<and> (\<forall>msg. q \<noteq> Panic msg)"
proof -
  have "\<exists>q t es. remove_stage c lid (healthy_stays news pre) (to_remove news pre) s = (q, t) \<and> log t = log s @ es
     \<and> http_changes es = remove_requests c lid news pre \<and> (\<forall>msg. q \<noteq> Panic msg)
     \<and> ((\<exists>e. q = Err e) \<longleftrightarrow> (healthy_stays news pre \<and> to_remove news pre \<noteq> []) \<and>
        (\<exists>e. fst (AsyncDeleteMembers (elb_api c) (ec_json c) (elb_tenant c) lid (map member_rm (to_remove news pre)) s) = Err e))"
    unfolding remove_stage_def AsyncDeleteMembers_def remove_requests_def
    by (rule run_optional_job) (simp_all add: assms del_members_request_def)
  then show ?thesis by blast
qed

lemma stage_tasks_wait:
  assumes "add \<noteq> []"
  shows "map (\<lambda>bg. (bg_Service bg, bg_ListenerID bg, bg_NewMembers bg, bg_TryAgain bg)) (stage_tasks svc lid add x y) = [(svc, lid, add, True)]"
  using assms by (simp add: stage_tasks_def asyncWaitJobs_def)

text \<open>
  C10. Members of a listener are changed gracefully. Where the listed members have distinct servers: if there are wanted servers
  that are not listed, one request adds exactly these; when this request fails the call fails and nothing is removed. Otherwise
  one request removes exactly the listed servers that are not wanted, but only if some listed member that stays is healthy.
  Nothing else is changed. A call that added members and succeeds leaves a task that waits for them and has the service tried again.
\<close>

theorem elb_members_changed_gracefully:
  assumes "\<And>u. url_parses (elb_api c) u" and "distinct (map em_ServerID pre)"
  shows "\<exists>r t es. updateListenerMembers c svc lid news (map Some pre) s = (r, t) \<and> log t = log s @ es \<and>
     (if to_add news pre \<noteq> [] \<and> (\<exists>e. fst (AsyncCreateMembers (elb_api c) (ec_json c) (elb_tenant c) lid (to_add news pre) s) = Err e)
      then http_changes es = add_requests c lid news pre \<and> (\<exists>e. r = Err e)
      else http_changes es = add_requests c lid news pre @ remove_requests c lid news pre \<and>
        (\<forall>bgs. r = Ok bgs \<and> to_add news pre \<noteq> [] \<longrightarrow> map (\<lambda>bg. (bg_Service bg, bg_ListenerID bg, bg_NewMembers bg, bg_TryAgain bg)) bgs
           = [(svc, lid, to_add news pre, True)]))"
proof -
  let ?add = "add_stage c lid (to_add news pre)"
  let ?remove = "remove_stage c lid (healthy_stays news pre) (to_remove news pre)"
  let ?failed = "to_add news pre \<noteq> [] \<and> (\<exists>e. fst (AsyncCreateMembers (elb_api c) (ec_json c) (elb_tenant c) lid (to_add news pre) s) = Err e)"
  obtain q t es where stage1: "?add s = (q, t)" "log t = log s @ es" "http_changes es = add_requests c lid news pre" "\<forall>msg. q \<noteq> Panic msg"
    and failed: "(\<exists>e. q = Err e) \<longleftrightarrow> ?failed"
    using run_add_stage [OF assms(1), where lid = lid and news = news and pre = pre and s = s] by blast
  obtain r u fs where out: "updateListenerMembers c svc lid news (map Some pre) s = (r, u)" "log u = log s @ fs"
    and changed: "if \<exists>e. q = Err e then http_changes fs = add_requests c lid news pre \<and> (\<exists>e. r = Err e)
      else http_changes fs = add_requests c lid news pre @ remove_requests c lid news pre
        \<and> (\<forall>v. r = Ok v \<longrightarrow> (\<exists>x y. v = stage_tasks svc lid (to_add news pre) x y))"
    unfolding updateListenerMembers_stages [OF assms(2)]
    using two_stages [where m = ?add and n = ?remove and g = "stage_tasks svc lid (to_add news pre)", OF stage1 run_remove_stage [OF assms(1)]]
    by blast
  then show ?thesis using stage_tasks_wait [of "to_add news pre"] unfolding failed
    by (intro exI [of _ r] exI [of _ u] exI [of _ fs]) (fastforce split: if_splits)
qed

text \<open>A listener with one wanted healthy server and one obsolete server; a third server is to be added.\<close>

definition demo_elb1 :: "unit ELBCloud" where
  "demo_elb1 = \<lparr>ec_Basic = demo_basic\<lparr>clients := demo_api\<lparr>http_call := (\<lambda>w r.
       (Inr \<lparr>rsp_StatusCode = (if rq_Method r = MethodDelete then 204 else 200), rsp_Body = ''body'', rsp_ReadErr = None\<rparr>, w))\<rparr>\<rparr>,
     ec_json = no_decoders\<lparr>js_JobResp := (\<lambda>_. Inr \<lparr>jr_JobID = ''j'', jr_Uri = []\<rparr>),
       js_Job := (\<lambda>_. Inr (zero_AsyncJobResp\<lparr>aj_Status := ''SUCCESS''\<rparr>)),
       js_Listeners := (\<lambda>_. Inr [Some (demo_v1_listener ''a'' 80)]), js_Members := (\<lambda>_. Inr [])\<rparr>,
     ec_Schedule = [TaskCreate, TaskUpdate, TaskDelete], ec_Range = (\<lambda>xs. xs)\<rparr>"

definition demo_detail :: "string \<Rightarrow> string \<Rightarrow> MemDetail" where
  "demo_detail server health = \<lparr>em_ListenerID = [], em_ServerID = server, em_Address = ''10.0.0.1'', em_ServerAddress = [],
     em_ID = ''id-'' @ server, em_Status = [], em_Listeners = [], em_ServerName = [], em_HealthStatus = health\<rparr>"

definition demo_new :: "string \<Rightarrow> ELBMember" where
  "demo_new server = \<lparr>em_ListenerID = [], em_ServerID = server, em_Address = ''10.0.0.1''\<rparr>"

lemma demo_elb1_urls [simp]: "url_parses (elb_api demo_elb1) u" "elb_tenant demo_elb1 = []"
  by (simp_all add: elb_api_def demo_elb1_def demo_api_def elb_tenant_def elb_ELBClient_def NewELBClient_def demo_basic_def demo_config_def)

lemma demo_members_added: "fst (AsyncCreateMembers (elb_api demo_elb1) (ec_json demo_elb1) tenant lid ms s) = Ok \<lparr>jr_JobID = ''j'', jr_Uri = []\<rparr>"
  by (simp add: AsyncCreateMembers_def submit_job_def request_decode_def DoRequest_def DecodeBody_def remote_def run_simps add_members_request_def
      elb_api_def demo_elb1_def demo_api_def)

lemma demo_member_changes:
  "add_requests demo_elb1 ''l'' [demo_new ''a'', demo_new ''b''] [demo_detail ''a'' ''NORMAL'', demo_detail ''z'' ''NORMAL'']
     = [Http (add_members_request [] ''l'' [demo_new ''b''])]"
  "remove_requests demo_elb1 ''l'' [demo_new ''a'', demo_new ''b''] [demo_detail ''a'' ''NORMAL'', demo_detail ''z'' ''NORMAL'']
     = [Http (del_members_request [] ''l'' [member_rm (demo_detail ''z'' ''NORMAL'')])]"
  by (simp_all add: add_requests_def remove_requests_def to_add_def to_remove_def wanted_servers_def demo_detail_def demo_new_def)

theorem elb_members_changed_gracefully_witness:
  "let pre = [demo_detail ''a'' ''NORMAL'', demo_detail ''z'' ''NORMAL''] in
   \<exists>r t es. updateListenerMembers demo_elb1 (demo_service Map.empty) ''l'' [demo_new ''a'', demo_new ''b''] (map Some pre) start = (r, t) \<and> log t = es \<and>
     http_changes es = [Http (add_members_request [] ''l'' [demo_new ''b'']),
        Http (del_members_request [] ''l'' [member_rm (demo_detail ''z'' ''NORMAL'')])]"
proof -
  have "distinct (map em_ServerID [demo_detail ''a'' ''NORMAL'', demo_detail ''z'' ''NORMAL''])" by (simp add: demo_detail_def)
  from elb_members_changed_gracefully [OF demo_elb1_urls(1) this, of "demo_service Map.empty" "''l''" "[demo_new ''a'', demo_new ''b'']" start]
  show ?thesis by (simp add: demo_members_added demo_member_changes start_def) blast
qed

subsection \<open>Retry marks\<close>

definition is_update :: "event \<Rightarrow> bool" where
  "is_update e = (case e of Kube (UpdateService _) \<Rightarrow> True | _ \<Rightarrow> False)"

definition marked :: "event \<Rightarrow> bool" where
  "marked e = (case e of
       Kube (UpdateService svc) \<Rightarrow> (\<exists>n. svc_Annotations svc ELBMarkAnnotation = Some (int_str n) \<and> n \<le> int MaxRetry)
     | _ \<Rightarrow> True)"

lemma is_update_simps [simp]:
  "is_update (Kube (UpdateService x))" "\<not> is_update (Kube (GetService ns name))" "\<not> is_update (Kube (RecordEvent reason msg))"
  "marked (Kube (GetService ns name))" "marked (Kube (RecordEvent reason msg))"
  by (simp_all add: is_update_def marked_def)





























subsection \<open>Deletion\<close>

definition delete_listener_event :: "'w ELBCloud \<Rightarrow> string \<Rightarrow> event" where
  "delete_listener_event c lid = Http (NewRequest ElbEndpoint MethodDelete (elb_url (elb_tenant c) (''/elbaas/listeners/'' @ lid)) None)"

definition delete_check_event :: "'w ELBCloud \<Rightarrow> string \<Rightarrow> event" where
  "delete_check_event c hid = Http (NewRequest ElbEndpoint MethodDelete (elb_url (elb_tenant c) (''/elbaas/healthcheck/'' @ hid)) None)"

definition remove_events :: "'w ELBCloud \<Rightarrow> string \<Rightarrow> event set" where
  "remove_events c lid = range (\<lambda>rms. Http (del_members_request (elb_tenant c) lid rms))"

definition quiet :: "event set" where
  "quiet = {e. kind_of e = KRead \<or> kind_of e = KEvent}"

lemma quiet_simps [simp]:
  "Http r \<in> quiet \<longleftrightarrow> rq_Method r = MethodGet" "Kube (RecordEvent reason msg) \<in> quiet"
  by (simp_all add: quiet_def)

lemma emits_wait_for: "emits m S \<Longrightarrow> emits (wait_for m) S"
  unfolding wait_for_def by (intro emits_intro)

lemma emits_WaitJobComplete: "emits (WaitJobComplete A J tenant jobID) quiet"
  unfolding WaitJobComplete_def job_condition_def GetJobStatus_def
  by (intro emits_wait_for emits_intro) (auto intro!: emits_intro)

lemma emits_ListMembers: "emits (v1_ListMembers A J tenant lid) quiet"
  unfolding v1_ListMembers_def by (intro emits_intro) auto

lemma emits_ListListeners: "emits (v1_ListListeners A J tenant lb) quiet"
  unfolding v1_ListListeners_def by (intro emits_intro) auto

lemma emits_deref_all: "emits (deref_all ps) S"
  unfolding deref_all_def by (intro emits_intro)

lemma emits_prefixed: "emits m S \<Longrightarrow> emits (prefixed what m) S"
  unfolding prefixed_def by (intro emits_intro)

lemma emits_DeleteMembers: "emits (v1_DeleteMembers (elb_api c) J (elb_tenant c) lid) (quiet \<union> remove_events c lid)"
  unfolding v1_DeleteMembers_def submit_job_def
  by (intro emits_intro emits_deref_all emits_mono [OF emits_ListMembers] emits_mono [OF emits_WaitJobComplete]) (auto simp: remove_events_def)

lemma emits_getListeners: "emits (getListenersByService c svc) quiet"
  unfolding getListenersByService_def by (intro emits_intro emits_ListListeners emits_deref_all)

lemma getListeners_own:
  "getListenersByService c svc s = (Ok ls, t) \<Longrightarrow> list_all (\<lambda>l. ls_Name l = GetListenerName svc \<or> ls_Name l = GetOldListenerName svc) ls"
  by (auto simp: getListenersByService_def run_bindR run_okR list_all_iff split: res.splits prod.splits)

lemma emits_elb_deleteListener:
  "emits (elb_deleteListener c lid hid) (quiet \<union> remove_events c lid \<union> {delete_check_event c hid, delete_listener_event c lid})"
  unfolding elb_deleteListener_def v1_DeleteHealthCheck_def v1_DeleteListener_def
  by (intro emits_intro emits_prefixed emits_mono [OF emits_DeleteMembers]) (auto simp: delete_check_event_def delete_listener_event_def)

text \<open>
  C32. Deleting the load balancer of a service touches only listeners that carry the service's name, in
  its present or its old form: every change requested removes members of such a listener, its health
  check or the listener itself.
\<close>

theorem elb_deletion_only_own_listeners:
  "\<exists>es. log (snd (elb_EnsureLoadBalancerDeleted c cluster svc s)) = log s @ es \<and>
     (case fst (getListenersByService c svc s) of
        Ok ls \<Rightarrow> list_all (\<lambda>l. ls_Name l = GetListenerName svc \<or> ls_Name l = GetOldListenerName svc) ls \<and>
          set (http_changes es) \<subseteq> (\<Union>l\<in>set ls. remove_events c (ls_ID l)
            \<union> {delete_check_event c (ls_HealthcheckID l), delete_listener_event c (ls_ID l)})
      | _ \<Rightarrow> http_changes es = [])"
proof -
  let ?S = "\<lambda>ls. quiet \<union> (\<Union>l\<in>set ls. remove_events c (ls_ID l) \<union> {delete_check_event c (ls_HealthcheckID l), delete_listener_event c (ls_ID l)})"
  let ?rest = "\<lambda>ls. bindR (delete_listeners c (\<lambda>l e. ''Delete listener('' @ ls_ID l @ '') error: '' @ err_text e) ls) (\<lambda>errs.
       case NewAggregate errs of None \<Rightarrow> okR () | Some e \<Rightarrow> errR e)"
  have rest: "emits (?rest ls) (?S ls)" for ls
    unfolding delete_listeners_def sendEvent_def
    by (intro emits_intro emits_mono [OF emits_elb_deleteListener]) (auto simp: quiet_simps)
  have keep: "set es \<subseteq> quiet \<union> X \<Longrightarrow> set (http_changes es) \<subseteq> X" for es X by (auto simp: http_changes_def quiet_def)
  obtain q t where run: "getListenersByService c svc s = (q, t)" by fastforce
  obtain es where es: "log t = log s @ es" "set es \<subseteq> quiet" using emitsD [OF emits_getListeners run] by blast
  show ?thesis
  proof (cases q)
    case (Ok ls)
    obtain fs where fs: "log (snd (?rest ls t)) = log t @ fs" "set fs \<subseteq> ?S ls" using rest [of ls] unfolding emits_def by blast
    have "set (es @ fs) \<subseteq> ?S ls" using es(2) fs(2) by auto
    then show ?thesis using Ok run es(1) fs(1) getListeners_own [of c svc s ls t] keep
      by (auto simp: elb_EnsureLoadBalancerDeleted_def run_bindR intro!: exI [of _ "es @ fs"])
  qed (use run es keep [of es "{}"] in \<open>auto simp: elb_EnsureLoadBalancerDeleted_def run_bindR\<close>)
qed

subsection \<open>Session timeouts\<close>

text \<open>
  The persistence timeout of a listener is between 1 and 60 minutes: whenever the options of a
  service with source-IP affinity are accepted, the configuration sent for a listener has the
  sticky flag set and a timeout in this range; the default is 60.
\<close>

theorem elb_session_timeout_range:
  assumes "GetSessionAffinityType svc = ''SOURCE_IP''" and "elb_getSessionAffinityOptions c svc s = (Ok opts, t)"
  shows "let conf = listener_conf name alg p lb (GetSessionAffinityType svc) opts
     in ls_SessionSticky conf \<and> 1 \<le> ls_TCPTimeout conf \<and> ls_TCPTimeout conf \<le> 60"
proof -
  have "Atoi (int_str 60) = Some 60" by (rule Atoi_int_str) simp_all
  with assms have "1 \<le> affinity_timeout opts \<and> affinity_timeout opts \<le> 60"
    by (auto simp: elb_getSessionAffinityOptions_def affinity_timeout_def run_simps Let_def
        split: if_splits sum.splits option.splits bind_splits)
  with assms(1) show ?thesis by (simp add: listener_conf_def Let_def)
qed

definition affinity_service :: service where
  "affinity_service = demo_service [ElbSessionAffinityFlag \<mapsto> ''SOURCE_IP'']"

theorem elb_session_timeout_range_witness:
  "let conf = listener_conf ''u'' ''ROUND_ROBIN'' demo_port ''lb'' ''SOURCE_IP'' [''persistence_timeout'' \<mapsto> int_str 60]
   in ls_SessionSticky conf \<and> 1 \<le> ls_TCPTimeout conf \<and> ls_TCPTimeout conf \<le> 60"
proof -
  have aff: "GetSessionAffinityType affinity_service = ''SOURCE_IP''"
    by (simp add: GetSessionAffinityType_def affinity_service_def annotation_def)
  have opt: "GetSessionAffinityOptions affinity_service = []"
    by (simp add: GetSessionAffinityOptions_def affinity_service_def annotation_def)
  have "elb_getSessionAffinityOptions demo_elb1 affinity_service start = (Ok [''persistence_timeout'' \<mapsto> int_str 60], start)"
    using aff opt by (simp add: elb_getSessionAffinityOptions_def run_simps)
  from elb_session_timeout_range [OF aff this] show ?thesis by (simp only: aff)
qed

text \<open>
  The order of a deletion: the request for the listener comes after every other request.
\<close>

lemma emits_last:
  assumes "emits m S" and "emits n {x}" and "x \<notin> S"
  shows "\<exists>es fs. log (snd (bindR m (\<lambda>_. n) s)) = log s @ es @ fs \<and> x \<notin> set es \<and> set fs \<subseteq> {x}"
proof -
  obtain q t where m: "m s = (q, t)" by fastforce
  obtain es where es: "log t = log s @ es" "set es \<subseteq> S" using emitsD [OF assms(1) m] by blast
  obtain fs where fs: "log (snd (n t)) = log t @ fs" "set fs \<subseteq> {x}" using assms(2) unfolding emits_def by blast
  have "x \<notin> set es" using es(2) assms(3) by blast
  then show ?thesis using m es(1) fs
    by (cases q) (auto simp: run_bindR intro: exI [of _ es] exI [of _ fs] exI [of _ "[]"])
qed

lemma elb_listener_deleted_last:
  assumes "lid \<noteq> []"
  shows "\<exists>es fs. log (snd (elb_deleteListener c lid hid s)) = log s @ es @ fs \<and> delete_listener_event c lid \<notin> set es \<and>
     set fs \<subseteq> {delete_listener_event c lid}"
proof -
  let ?m = "prefixed (''Delete members of listener('' @ lid @ '') error: '') (v1_DeleteMembers (elb_api c) (ec_json c) (elb_tenant c) lid)"
  let ?h = "if hid \<noteq> [] \<and> hid \<noteq> ''null''
            then prefixed (''Delete healthcheck of listener('' @ lid @ '') error: '') (v1_DeleteHealthCheck (elb_api c) (elb_tenant c) hid) else okR ()"
  let ?d = "prefixed (''Delete listener('' @ lid @ '') error: '') (v1_DeleteListener (elb_api c) (elb_tenant c) lid)"
  have m: "emits (bindR ?m (\<lambda>_. ?h)) (quiet \<union> remove_events c lid \<union> {delete_check_event c hid})"
    unfolding v1_DeleteHealthCheck_def
    by (intro emits_intro emits_prefixed emits_mono [OF emits_DeleteMembers]) (auto simp: delete_check_event_def)
  have d: "emits ?d {delete_listener_event c lid}"
    unfolding v1_DeleteListener_def delete_listener_event_def by (intro emits_prefixed emits_intro) simp
  have run: "elb_deleteListener c lid hid s = bindR (bindR ?m (\<lambda>_. ?h)) (\<lambda>_. ?d) s"
    using assms by (simp add: elb_deleteListener_def run_bindR run_okR split: prod.splits res.splits)
  have "delete_listener_event c lid \<notin> quiet \<union> remove_events c lid \<union> {delete_check_event c hid}"
    by (auto simp: delete_listener_event_def delete_check_event_def remove_events_def del_members_request_def elb_url_def NewRequest_def)
  then show ?thesis unfolding run by (rule emits_last [OF m d])
qed

end
