(* ===== verification/Security_Group.thy ===== *)
theory Security_Group
  imports Ecs Scenario
begin

text \<open>
  \<open>security_group_listener.go\<close>: nodes that join the cluster are put into the configured security group,
  nodes that leave are taken out of it. The informer of \<open>client-go\<close> is a sequence of events; an object
  that is not a node (a tombstone, for instance) is \<open>None\<close>. Starting tries again until the list of
  nodes could be read and the handler registered: \<open>tries\<close> bounds the attempts, each with the error
  of the registration, and \<open>False\<close> is an informer that was not started within them.
\<close>

record 'w SecurityGroupListener =
  sg_Api :: "'w api"
  sg_SecurityGroupID :: string

datatype node_event = NodeAdd "node option" | NodeUpdate "node option" "node option" | NodeDelete "node option"

definition swallow :: "('w, unit) prog \<Rightarrow> ('w, unit) prog" where
  "swallow m = bindR (attempt m) (\<lambda>_. okR ())"

definition on_node_server :: "'w SecurityGroupListener \<Rightarrow> node option \<Rightarrow> (string \<Rightarrow> ('w, unit) prog) \<Rightarrow> ('w, unit) prog" where
  "on_node_server L obj act = (case obj of
       None \<Rightarrow> okR ()
     | Some kubeNode \<Rightarrow>
         bindR (attempt (GetByNodeName (sg_Api L) (node_Name kubeNode))) (\<lambda>r. case r of
             Inl e \<Rightarrow> okR ()
           | Inr ecsNode \<Rightarrow> swallow (act (srv_Id ecsNode))))"

definition sg_AddFunc :: "'w SecurityGroupListener \<Rightarrow> node option \<Rightarrow> ('w, unit) prog" where
  "sg_AddFunc L obj = on_node_server L obj (\<lambda>i. AssociateSecurityGroup (sg_Api L) i (sg_SecurityGroupID L))"

definition sg_DeleteFunc :: "'w SecurityGroupListener \<Rightarrow> node option \<Rightarrow> ('w, unit) prog" where
  "sg_DeleteFunc L obj = on_node_server L obj (\<lambda>i. DisassociateSecurityGroup (sg_Api L) i (sg_SecurityGroupID L))"

fun handle_node_event :: "'w SecurityGroupListener \<Rightarrow> node_event \<Rightarrow> ('w, unit) prog" where
  "handle_node_event L (NodeAdd obj) = sg_AddFunc L obj"
| "handle_node_event L (NodeUpdate old new) = okR ()"
| "handle_node_event L (NodeDelete obj) = sg_DeleteFunc L obj"

definition CreateSecurityGroupInformer :: "'w SecurityGroupListener \<Rightarrow> error option \<Rightarrow> ('w, unit) prog" where
  "CreateSecurityGroupInformer L registration =
     bindR (remote (Kube ListNodes) (\<lambda>w. kube_call (sg_Api L) w ListNodes)) (\<lambda>_.
       case registration of Some e \<Rightarrow> errR e | None \<Rightarrow> okR ())"

fun start_informer :: "error option list \<Rightarrow> 'w SecurityGroupListener \<Rightarrow> ('w, bool) prog" where
  "start_informer [] L = okR False"
| "start_informer (registration # tries) L =
     bindR (attempt (CreateSecurityGroupInformer L registration)) (\<lambda>r. case r of
         Inl e \<Rightarrow> start_informer tries L
       | Inr _ \<Rightarrow> okR True)"

definition startSecurityGroupListener :: "'w SecurityGroupListener \<Rightarrow> error option list \<Rightarrow> ('w, bool) prog" where
  "startSecurityGroupListener L tries = (if sg_SecurityGroupID L = [] then okR False else start_informer tries L)"

text \<open>The listener with the events its informer delivers.\<close>

definition listener_run :: "'w SecurityGroupListener \<Rightarrow> error option list \<Rightarrow> node_event list \<Rightarrow> ('w, unit) prog" where
  "listener_run L tries events =
     bindR (startSecurityGroupListener L tries) (\<lambda>started.
       if started then foldR (\<lambda>ev _. handle_node_event L ev) events () else okR ())"

subsection \<open>What it changes\<close>

definition sg_requests :: "event list \<Rightarrow> event list" where
  "sg_requests es = filter (\<lambda>e. kind_of e \<noteq> KRead) es"

lemma sg_requests_simps [simp]: "sg_requests [] = []" "sg_requests (es @ fs) = sg_requests es @ sg_requests fs"
  by (simp_all add: sg_requests_def)

text \<open>The changes an event may cause: at most one request, for the configured group.\<close>

fun allowed :: "string \<Rightarrow> node_event \<Rightarrow> event list \<Rightarrow> bool" where
  "allowed g (NodeAdd obj) es \<longleftrightarrow> es = [] \<or> obj \<noteq> None \<and> (\<exists>i. es = [Sdk (Ecs (NovaAssociateSecurityGroup i g))])"
| "allowed g (NodeUpdate old new) es \<longleftrightarrow> es = []"
| "allowed g (NodeDelete obj) es \<longleftrightarrow> es = [] \<or> obj \<noteq> None \<and> (\<exists>i. es = [Sdk (Ecs (NovaDisassociateSecurityGroup i g))])"

lemma GetByNodeName_reads: "\<exists>es. log (snd (attempt (GetByNodeName A name) s)) = log s @ es \<and> sg_requests es = []"
proof -
  have "emits (attempt (GetByNodeName A name)) (kinds {KRead})" by (intro emits_intro) simp
  then show ?thesis by (fastforce simp: emits_def sg_requests_def filter_empty_conv kinds_def)
qed

lemma run_wrapper0: "log (snd (wrapper0 A req s)) = log s @ [Sdk req]"
  by (auto simp: wrapper0_def commonWrapper_def remote_def run_simps split: prod.splits sum.splits res.splits option.splits if_splits)

lemma swallow_log: "log (snd (swallow m s)) = log (snd (m s))"
  by (auto simp: swallow_def run_simps split: prod.splits res.splits)

lemma run_Disassociate: "log (snd (DisassociateSecurityGroup A i g s)) = log s @ [Sdk (Ecs (NovaDisassociateSecurityGroup i g))]"
  using run_wrapper0 [of A "Ecs (NovaDisassociateSecurityGroup i g)" s]
  by (auto simp: DisassociateSecurityGroup_def run_simps split: prod.splits res.splits)

lemma on_node_server_requests:
  assumes "\<And>i s. log (snd (act i s)) = log s @ [f i]" and "\<And>i. kind_of (f i) \<noteq> KRead"
  shows "\<exists>es. log (snd (on_node_server L obj act s)) = log s @ es \<and> (sg_requests es = [] \<or> obj \<noteq> None \<and> (\<exists>i. sg_requests es = [f i]))"
proof (cases obj)
  case None
  then show ?thesis by (simp add: on_node_server_def run_simps)
next
  case (Some n)
  obtain q t where q: "attempt (GetByNodeName (sg_Api L) (node_Name n)) s = (q, t)" by fastforce
  then obtain es where es: "log t = log s @ es" "sg_requests es = []" using GetByNodeName_reads [of "sg_Api L" "node_Name n" s] by auto
  show ?thesis
  proof (cases "\<exists>x. q = Ok (Inr x)")
    case True
    then obtain x where "q = Ok (Inr x)" by blast
    then have "log (snd (on_node_server L obj act s)) = log s @ es @ [f (srv_Id x)]"
      using Some q es(1) assms(1) by (simp add: on_node_server_def run_bindR swallow_log)
    moreover have "sg_requests (es @ [f (srv_Id x)]) = [f (srv_Id x)]" using es(2) assms(2) by (simp add: sg_requests_def)
    ultimately show ?thesis using Some by blast
  next
    case False
    then have "log (snd (on_node_server L obj act s)) = log s @ es"
      using Some q es(1) by (cases q) (auto simp: on_node_server_def run_bindR run_okR split: sum.splits)
    with es(2) show ?thesis by blast
  qed
qed

lemma handle_node_event_allowed:
  "\<exists>es. log (snd (handle_node_event L ev s)) = log s @ es \<and> allowed (sg_SecurityGroupID L) ev (sg_requests es)"
proof (cases ev)
  case (NodeAdd obj)
  have "log (snd (AssociateSecurityGroup (sg_Api L) i g s)) = log s @ [Sdk (Ecs (NovaAssociateSecurityGroup i g))]" for i g s
    by (simp add: AssociateSecurityGroup_def run_wrapper0)
  from on_node_server_requests [OF this] NodeAdd show ?thesis by (simp add: sg_AddFunc_def)
next
  case (NodeDelete obj)
  from on_node_server_requests [OF run_Disassociate] NodeDelete show ?thesis by (simp add: sg_DeleteFunc_def)
qed (simp add: run_simps)

lemma handle_events_allowed:
  "\<exists>es ess. log (snd (foldR (\<lambda>ev _. handle_node_event L ev) events x s)) = log s @ es \<and> sg_requests es = concat ess \<and>
     length ess \<le> length events \<and> list_all2 (allowed (sg_SecurityGroupID L)) (take (length ess) events) ess"
proof (induction events arbitrary: x s)
  case Nil
  then show ?case by (simp add: run_simps)
next
  case (Cons ev events)
  obtain q t where q: "handle_node_event L ev s = (q, t)" by fastforce
  then obtain es where es: "log t = log s @ es" "allowed (sg_SecurityGroupID L) ev (sg_requests es)"
    using handle_node_event_allowed [of L ev s] by auto
  show ?case
  proof (cases q)
    case (Ok y)
    obtain fs fss where "log (snd (foldR (\<lambda>ev _. handle_node_event L ev) events y t)) = log t @ fs" "sg_requests fs = concat fss"
      "length fss \<le> length events" "list_all2 (allowed (sg_SecurityGroupID L)) (take (length fss) events) fss"
      using Cons.IH by blast
    then show ?thesis using Ok q es by (auto simp: run_bindR intro!: exI [of _ "es @ fs"] exI [of _ "sg_requests es # fss"])
  qed (use q es in \<open>auto simp: run_bindR intro!: exI [of _ es] exI [of _ "[sg_requests es]"]\<close>)
qed

lemma start_informer_reads: "emits (start_informer tries L) (kinds {KRead})"
  by (induction tries) (auto simp: CreateSecurityGroupInformer_def intro!: emits_intro)

text \<open>
  C40. The security group listener changes nothing but the membership of nodes in the configured group:
  per event of the informer at most one request, an association for a node that was added and a
  disassociation for one that was deleted, in the order of the events. Without a configured group it
  issues no request at all.
\<close>

theorem security_group_one_change_per_event:
  "\<exists>es ess. log (snd (listener_run L tries events s)) = log s @ es \<and> sg_requests es = concat ess \<and>
     length ess \<le> length events \<and> list_all2 (allowed (sg_SecurityGroupID L)) (take (length ess) events) ess \<and>
     \<not> (sg_SecurityGroupID L = [] \<and> es \<noteq> [])"
proof (cases "sg_SecurityGroupID L = []")
  case True
  then show ?thesis by (auto simp: listener_run_def startSecurityGroupListener_def run_simps intro!: exI [of _ "[]"])
next
  case False
  obtain q t where q: "start_informer tries L s = (q, t)" by fastforce
  obtain es where es: "log t = log s @ es" "sg_requests es = []"
    using emitsD [OF start_informer_reads q] by (auto simp: sg_requests_def filter_empty_conv kinds_def)
  show ?thesis
  proof (cases "q = Ok True")
    case True
    obtain fs fss where "log (snd (foldR (\<lambda>ev _. handle_node_event L ev) events () t)) = log t @ fs" "sg_requests fs = concat fss"
      "length fss \<le> length events" "list_all2 (allowed (sg_SecurityGroupID L)) (take (length fss) events) fss"
      using handle_events_allowed by blast
    then show ?thesis using True False q es
      by (auto simp: listener_run_def startSecurityGroupListener_def run_bindR intro!: exI [of _ "es @ fs"] exI [of _ fss])
  next
    case no: False
    then show ?thesis using False q es
      by (cases q) (auto simp: listener_run_def startSecurityGroupListener_def run_bindR run_okR intro!: exI [of _ es] exI [of _ "[]"])
  qed
qed

end
