(* ===== verification/Throttle.thy ===== *)
theory Throttle
  imports Common
begin

text \<open>
  \<open>throttle.go\<close>: the rate limits per kind of request, read from the environment at start and
  overwritten from \<open>throttle.json\<close> later. Parsing, conversion and comparison of \<open>float32\<close> are
  the record \<open>floats\<close>; a rate limiter is its rate and its burst. The nine \<open>get...Throttle\<close>
  functions are the same statements for each pair of variables, so a function is its list of
  \<open>throttle_spec\<close>s. The goroutine that watches the file is in the theory \<open>Throttle_Watch\<close>.
\<close>

record 'f floats =
  parse_float32 :: "string \<Rightarrow> error + 'f"
  float_of_int :: "int \<Rightarrow> 'f"
  float_lt :: "'f \<Rightarrow> 'f \<Rightarrow> bool"

record 'f rate_limiter =
  rl_qps :: 'f
  rl_burst :: int

type_synonym 'f throttles = "string \<rightharpoonup> 'f rate_limiter"

record throttle_spec =
  ts_QPSEnv :: string
  ts_BurstEnv :: string
  ts_DefaultQPS :: string
  ts_DefaultBurst :: string
  ts_QPSName :: string
  ts_BurstName :: string
  ts_Key :: string

definition spec :: "string \<Rightarrow> string \<Rightarrow> string \<Rightarrow> string \<Rightarrow> string \<Rightarrow> string \<Rightarrow> string \<Rightarrow> throttle_spec" where
  "spec q b dq db qn bn k = \<lparr>ts_QPSEnv = q, ts_BurstEnv = b, ts_DefaultQPS = dq, ts_DefaultBurst = db,
     ts_QPSName = qn, ts_BurstName = bn, ts_Key = k\<rparr>"

text \<open>The values used: both from the environment, or both defaults when one of them is empty.\<close>

definition throttle_values :: "(string \<Rightarrow> string) \<Rightarrow> throttle_spec \<Rightarrow> string \<times> string" where
  "throttle_values env ts =
     (if env (ts_QPSEnv ts) = [] \<or> env (ts_BurstEnv ts) = [] then (ts_DefaultQPS ts, ts_DefaultBurst ts)
      else (env (ts_QPSEnv ts), env (ts_BurstEnv ts)))"

definition set_throttle :: "'f floats \<Rightarrow> (string \<Rightarrow> string) \<Rightarrow> throttle_spec \<Rightarrow> 'f throttles \<Rightarrow> error + 'f throttles" where
  "set_throttle fl env ts th =
     (let (maxQPS, maxBurst) = throttle_values env ts in
      case parse_float32 fl maxQPS of
        Inl e \<Rightarrow> Inl e
      | Inr qps \<Rightarrow> (case Atoi maxBurst of
            None \<Rightarrow> Inl (Errorf (''strconv.Atoi: parsing '' @ maxBurst))
          | Some burst \<Rightarrow>
              if float_lt fl (float_of_int fl burst) qps
              then Inl (Errorf (''elb '' @ ts_QPSName ts @ ''('' @ maxQPS @ '') should not be larger than ''
                     @ ts_BurstName ts @ ''('' @ maxBurst @ '')''))
              else Inr (th(ts_Key ts \<mapsto> \<lparr>rl_qps = qps, rl_burst = burst\<rparr>))))"

fun set_throttles :: "'f floats \<Rightarrow> (string \<Rightarrow> string) \<Rightarrow> throttle_spec list \<Rightarrow> 'f throttles \<Rightarrow> error + 'f throttles" where
  "set_throttles fl env [] th = Inr th"
| "set_throttles fl env (ts # tss) th = (case set_throttle fl env ts th of Inl e \<Rightarrow> Inl e | Inr th' \<Rightarrow> set_throttles fl env tss th')"

subsection \<open>The groups\<close>

definition instance_specs :: "throttle_spec list" where
  "instance_specs =
    [spec ''PUBLIC_ELB_INSTANCE_GET_MAX_QPS'' ''PUBLIC_ELB_INSTANCE_GET_MAX_BURST'' ''10.0'' ''15'' ''maxInstanceGetQPS'' ''maxInstanceGetBurst'' ''ELB_INSTANCE_GET'',
     spec ''PUBLIC_ELB_INSTANCE_LIST_MAX_QPS'' ''PUBLIC_ELB_INSTANCE_LIST_MAX_BURST'' ''10.0'' ''15'' ''maxInstanceListQPS'' ''maxInstanceListBurst'' ''ELB_INSTANCE_LIST'',
     spec ''PUBLIC_ELB_INSTANCE_CREATE_MAX_QPS'' ''PUBLIC_ELB_INSTANCE_CREATE_MAX_BURST'' ''1.5'' ''2'' ''maxInstanecCreateQPS'' ''maxInstanceCreateBurst'' ''ELB_INSTANCE_CREATE'',
     spec ''PUBLIC_ELB_INSTANCE_DELETE_MAX_QPS'' ''PUBLIC_ELB_INSTANCE_DELETE_MAX_BURST'' ''1.5'' ''2'' ''maxInstanecDeleteQPS'' ''maxInstanceDeleteBurst'' ''ELB_INSTANCE_DELETE'']"

definition getInstanceThrottle :: "'f floats \<Rightarrow> (string \<Rightarrow> string) \<Rightarrow> 'f throttles \<Rightarrow> error + 'f throttles" where
  "getInstanceThrottle fl env = set_throttles fl env instance_specs"

definition listener_specs :: "throttle_spec list" where
  "listener_specs =
    [spec ''PUBLIC_ELB_LISTENER_GET_MAX_QPS'' ''PUBLIC_ELB_LISTENER_GET_MAX_BURST'' ''10.0'' ''15'' ''maxListenerGetQPS'' ''maxListenerGetBurst'' ''ELB_LISTENER_GET'',
     spec ''PUBLIC_ELB_LISTENER_LIST_MAX_QPS'' ''PUBLIC_ELB_LISTENER_LIST_MAX_BURST'' ''10.0'' ''15'' ''maxListenerListQPS'' ''maxListenerListBurst'' ''ELB_LISTENER_LIST'',
     spec ''PUBLIC_ELB_LISTENER_CREATE_MAX_QPS'' ''PUBLIC_ELB_LISTENER_CREATE_MAX_BURST'' ''1.5'' ''2'' ''maxListenerCreateQPS'' ''maxListenerCreateBurst'' ''ELB_LISTENER_CREATE'',
     spec ''PUBLIC_ELB_LISTENER_UPDATE_MAX_QPS'' ''PUBLIC_ELB_LISTENER_UPDATE_MAX_BURST'' ''1.5'' ''2'' ''maxListenerUpdateQPS'' ''maxListenerUpdateBurst'' ''ELB_LISTENER_UPDATE'',
     spec ''PUBLIC_ELB_LISTENER_DELETE_MAX_QPS'' ''PUBLIC_ELB_LISTENER_DELETE_MAX_BURST'' ''1.5'' ''2'' ''maxListenerDeleteQPS'' ''maxListenerDeleteBurst'' ''ELB_LISTENER_DELETE'']"

definition getListenerThrottle :: "'f floats \<Rightarrow> (string \<Rightarrow> string) \<Rightarrow> 'f throttles \<Rightarrow> error + 'f throttles" where
  "getListenerThrottle fl env = set_throttles fl env listener_specs"

definition pool_specs :: "throttle_spec list" where
  "pool_specs =
    [spec ''PUBLIC_ELB_POOL_GET_MAX_QPS'' ''PUBLIC_ELB_POOL_GET_MAX_BURST'' ''10.0'' ''15'' ''maxPoolGetQPS'' ''maxPoolGetBurst'' ''ELB_POOL_GET'',
     spec ''PUBLIC_ELB_POOL_LIST_MAX_QPS'' ''PUBLIC_ELB_POOL_LIST_MAX_BURST'' ''10.0'' ''15'' ''maxPoolListQPS'' ''maxPoolListBurst'' ''ELB_POOL_LIST'',
     spec ''PUBLIC_ELB_POOL_CREATE_MAX_QPS'' ''PUBLIC_ELB_POOL_CREATE_MAX_BURST'' ''1.5'' ''2'' ''maxPoolCreateQPS'' ''maxPoolCreateBurst'' ''ELB_POOL_CREATE'',
     spec ''PUBLIC_ELB_POOL_UPDATE_MAX_QPS'' ''PUBLIC_ELB_POOL_UPDATE_MAX_BURST'' ''1.5'' ''2'' ''maxPoolUpdateQPS'' ''maxPoolUpdateBurst'' ''ELB_POOL_UPDATE'',
     spec ''PUBLIC_ELB_POOL_DELETE_MAX_QPS'' ''PUBLIC_ELB_POOL_DELETE_MAX_BURST'' ''1.5'' ''2'' ''maxPoolDeleteQPS'' ''maxPoolDeleteBurst'' ''ELB_POOL_DELETE'']"

definition getPoolThrottle :: "'f floats \<Rightarrow> (string \<Rightarrow> string) \<Rightarrow> 'f throttles \<Rightarrow> error + 'f throttles" where
  "getPoolThrottle fl env = set_throttles fl env pool_specs"

definition member_specs :: "throttle_spec list" where
  "member_specs =
    [spec ''PUBLIC_ELB_MEMBER_GET_MAX_QPS'' ''PUBLIC_ELB_MEMBER_GET_MAX_BURST'' ''10.0'' ''15'' ''maxMemberGetQPS'' ''maxMemberGetBurst'' ''ELB_MEMBER_GET'',
     spec ''PUBLIC_ELB_MEMBER_LIST_MAX_QPS'' ''PUBLIC_ELB_MEMBER_LIST_MAX_BURST'' ''10.0'' ''15'' ''maxMemberListQPS'' ''maxMemberListBurst'' ''ELB_MEMBER_LIST'',
     spec ''PUBLIC_ELB_MEMBER_CREATE_MAX_QPS'' ''PUBLIC_ELB_MEMBER_CREATE_MAX_BURST'' ''3.0'' ''4'' ''maxMemberCreateQPS'' ''maxMemberCreateBurst'' ''ELB_MEMBER_CREATE'',
     spec ''PUBLIC_ELB_MEMBER_UPDATE_MAX_QPS'' ''PUBLIC_ELB_MEMBER_UPDATE_MAX_BURST'' ''3.0'' ''4'' ''maxMemberUpdateQPS'' ''maxMemberUpdateBurst'' ''ELB_MEMBER_UPDATE'',
     spec ''PUBLIC_ELB_MEMBER_DELETE_MAX_QPS'' ''PUBLIC_ELB_MEMBER_DELETE_MAX_BURST'' ''3.0'' ''4'' ''maxMemberDeleteQPS'' ''maxMemberDeleteBurst'' ''ELB_MEMBER_DELETE'']"

definition getMemberThrottle :: "'f floats \<Rightarrow> (string \<Rightarrow> string) \<Rightarrow> 'f throttles \<Rightarrow> error + 'f throttles" where
  "getMemberThrottle fl env = set_throttles fl env member_specs"

definition healthz_specs :: "throttle_spec list" where
  "healthz_specs =
    [spec ''PUBLIC_ELB_HEALTHZ_GET_MAX_QPS'' ''PUBLIC_ELB_HEALTHZ_GET_MAX_BURST'' ''10.0'' ''15'' ''maxHealthzGetQPS'' ''maxHealthzGetBurst'' ''ELB_HEALTHZ_GET'',
     spec ''PUBLIC_ELB_HEALTHZ_LIST_MAX_QPS'' ''PUBLIC_ELB_HEALTHZ_LIST_MAX_BURST'' ''10.0'' ''15'' ''maxHealthzListQPS'' ''maxHealthzListBurst'' ''ELB_HEALTHZ_LIST'',
     spec ''PUBLIC_ELB_HEALTHZ_CREATE_MAX_QPS'' ''PUBLIC_ELB_HEALTHZ_CREATE_MAX_BURST'' ''1.5'' ''2'' ''maxHealthzCreateQPS'' ''maxHealthzCreateBurst'' ''ELB_HEALTHZ_CREATE'',
     spec ''PUBLIC_ELB_HEALTHZ_UPDATE_MAX_QPS'' ''PUBLIC_ELB_HEALTHZ_UPDATE_MAX_BURST'' ''1.5'' ''2'' ''maxHealthzUpdateQPS'' ''maxHealthzUpdateBurst'' ''ELB_HEALTHZ_UPDATE'',
     spec ''PUBLIC_ELB_HEALTHZ_DELETE_MAX_QPS'' ''PUBLIC_ELB_HEALTHZ_DELETE_MAX_BURST'' ''1.5'' ''2'' ''maxHealthzDeleteQPS'' ''maxHealthzDeleteBurst'' ''ELB_HEALTHZ_DELETE'']"

definition getHealthzThrottle :: "'f floats \<Rightarrow> (string \<Rightarrow> string) \<Rightarrow> 'f throttles \<Rightarrow> error + 'f throttles" where
  "getHealthzThrottle fl env = set_throttles fl env healthz_specs"

definition nat_gateway_specs :: "throttle_spec list" where
  "nat_gateway_specs =
    [spec ''NAT_GATEWAY_GET_MAX_QPS'' ''NAT_GATEWAY_GET_MAX_BURST'' ''8.0'' ''10'' ''maxNatGatewayGetQPS'' ''maxNatGatewayGetBurst'' ''NAT_GATEWAY_GET'',
     spec ''NAT_GATEWAY_LIST_MAX_QPS'' ''NAT_GATEWAY_LIST_MAX_BURST'' ''8.0'' ''10'' ''maxNatGatewayListQPS'' ''maxNatGatewayListBurst'' ''NAT_GATEWAY_LIST'']"

definition getNatGatewayThrottle :: "'f floats \<Rightarrow> (string \<Rightarrow> string) \<Rightarrow> 'f throttles \<Rightarrow> error + 'f throttles" where
  "getNatGatewayThrottle fl env = set_throttles fl env nat_gateway_specs"

definition nat_rule_specs :: "throttle_spec list" where
  "nat_rule_specs =
    [spec ''NAT_RULE_GET_MAX_QPS'' ''NAT_RULE_GET_MAX_BURST'' ''8.0'' ''10'' ''maxNatRuleGetQPS'' ''maxNatRuleGetBurst'' ''NAT_RULE_GET'',
     spec ''NAT_RULE_LIST_MAX_QPS'' ''NAT_RULE_LIST_MAX_BURST'' ''8.0'' ''10'' ''maxNatRuleListQPS'' ''maxNatRuleListBurst'' ''NAT_RULE_LIST'',
     spec ''NAT_RULE_CREATE_MAX_QPS'' ''NAT_RULE_CREATE_MAX_BURST'' ''0.8'' ''1'' ''maxNatRuleCreateQPS'' ''maxNatRuleCreateBurst'' ''NAT_RULE_CREATE'',
     spec ''NAT_RULE_DELETE_MAX_QPS'' ''NAT_RULE_DELETE_MAX_BURST'' ''0.8'' ''1'' ''maxNatRuleDeleteQPS'' ''maxNatRuleDeleteBurst'' ''NAT_RULE_DELETE'']"

definition getNatRuleThrottle :: "'f floats \<Rightarrow> (string \<Rightarrow> string) \<Rightarrow> 'f throttles \<Rightarrow> error + 'f throttles" where
  "getNatRuleThrottle fl env = set_throttles fl env nat_rule_specs"

definition eip_specs :: "throttle_spec list" where
  "eip_specs =
    [spec ''EIP_BIND_MAX_QPS'' ''EIP_BIND_MAX_BURST'' ''1.5'' ''2'' ''maxEipBindQPS'' ''maxEipBindBurst'' ''EIP_BIND'',
     spec ''EIP_CREATE_MAX_QPS'' ''EIP_CREATE_MAX_BURST'' ''1.5'' ''2'' ''maxEipCreateQPS'' ''maxEipCreateBurst'' ''EIP_CREATE'',
     spec ''EIP_DELETE_MAX_QPS'' ''EIP_DELETE_MAX_BURST'' ''1.5'' ''2'' ''maxEipDeleteQPS'' ''maxEipDeleteBurst'' ''EIP_DELETE'',
     spec ''EIP_LIST_MAX_QPS'' ''EIP_LIST_MAX_BURST'' ''6.0'' ''9'' ''maxEipListQPS'' ''maxEipListBurst'' ''EIP_LIST'']"

definition getEipThrottle :: "'f floats \<Rightarrow> (string \<Rightarrow> string) \<Rightarrow> 'f throttles \<Rightarrow> error + 'f throttles" where
  "getEipThrottle fl env = set_throttles fl env eip_specs"

definition subnet_specs :: "throttle_spec list" where
  "subnet_specs =
    [spec ''SUBNET_GET_MAX_QPS'' ''SUBNET_GET_MAX_BURST'' ''10.0'' ''15'' ''maxSubnetGetQPS'' ''maxSubnetGetBurst'' ''SUBNET_GET'',
     spec ''SUBNET_LIST_MAX_QPS'' ''SUBNET_LIST_MAX_BURST'' ''10.0'' ''15'' ''maxSubnetListQPS'' ''maxSubnetListBurst'' ''SUBNET_LIST'']"

definition getSubnetThrottle :: "'f floats \<Rightarrow> (string \<Rightarrow> string) \<Rightarrow> 'f throttles \<Rightarrow> error + 'f throttles" where
  "getSubnetThrottle fl env = set_throttles fl env subnet_specs"

text \<open>The groups in the order of \<open>InitialThrottler\<close>; the first error is returned.\<close>

definition bind_result :: "error + 'a \<Rightarrow> ('a \<Rightarrow> error + 'b) \<Rightarrow> error + 'b" where
  "bind_result r f = (case r of Inl e \<Rightarrow> Inl e | Inr x \<Rightarrow> f x)"

definition InitialThrottler :: "'f floats \<Rightarrow> (string \<Rightarrow> string) \<Rightarrow> error + 'f throttles" where
  "InitialThrottler fl env =
     bind_result (bind_result (bind_result (bind_result (bind_result (bind_result (bind_result (bind_result (getInstanceThrottle fl env Map.empty)
     (getListenerThrottle fl env))
     (getPoolThrottle fl env))
     (getMemberThrottle fl env))
     (getHealthzThrottle fl env))
     (getNatGatewayThrottle fl env))
     (getNatRuleThrottle fl env))
     (getEipThrottle fl env))
     (getSubnetThrottle fl env)"

record 'f ThrottleParam =
  tp_QPS :: 'f
  tp_Burst :: int

text \<open>
  One entry of the decoded file: an entry whose rate exceeds its burst is skipped. A Go map has
  each key once; \<open>entries\<close> is the order in which the \<open>range\<close> statement visits them.
\<close>

definition reset_throttle :: "'f floats \<Rightarrow> string \<times> 'f ThrottleParam \<Rightarrow> 'f throttles \<Rightarrow> 'f throttles" where
  "reset_throttle fl entry th =
     (let (key, params) = entry in
      if float_lt fl (float_of_int fl (tp_Burst params)) (tp_QPS params) then th
      else th(key \<mapsto> \<lparr>rl_qps = tp_QPS params, rl_burst = tp_Burst params\<rparr>))"

text \<open>\<open>file\<close> is what \<open>os.ReadFile\<close> returned, \<open>unmarshal\<close> the JSON decoder.\<close>

definition resetThrottles ::
  "'f floats \<Rightarrow> (string \<Rightarrow> error + (string \<times> 'f ThrottleParam) list) \<Rightarrow> error + string \<Rightarrow> 'f throttles \<Rightarrow> 'f throttles" where
  "resetThrottles fl unmarshal file th =
     (case file of
        Inl e \<Rightarrow> th
      | Inr b \<Rightarrow> (case unmarshal b of
            Inl e \<Rightarrow> th
          | Inr entries \<Rightarrow> fold (reset_throttle fl) entries th))"

definition GetThrottleByKey :: "'f throttles \<Rightarrow> string \<Rightarrow> 'f rate_limiter option" where
  "GetThrottleByKey th key = th key"

subsection \<open>Facts\<close>

definition all_specs :: "throttle_spec list" where
  "all_specs = instance_specs @ listener_specs @ pool_specs @ member_specs @ healthz_specs @ nat_gateway_specs @ nat_rule_specs @ eip_specs @ subnet_specs"

text \<open>No limiter has a rate above its burst.\<close>

definition limiter_ok :: "'f floats \<Rightarrow> 'f rate_limiter \<Rightarrow> bool" where
  "limiter_ok fl l \<longleftrightarrow> \<not> float_lt fl (float_of_int fl (rl_burst l)) (rl_qps l)"

definition throttles_ok :: "'f floats \<Rightarrow> 'f throttles \<Rightarrow> bool" where
  "throttles_ok fl th \<longleftrightarrow> (\<forall>k l. th k = Some l \<longrightarrow> limiter_ok fl l)"

lemma set_throttle_Inr:
  assumes "set_throttle fl env ts th = Inr th'"
  shows "dom th' = insert (ts_Key ts) (dom th)" "throttles_ok fl th \<Longrightarrow> throttles_ok fl th'"
  using assms by (auto simp: set_throttle_def throttles_ok_def limiter_ok_def split: prod.splits sum.splits option.splits if_splits)

lemma set_throttles_Inr:
  assumes "set_throttles fl env tss th = Inr th'"
  shows "dom th' = ts_Key ` set tss \<union> dom th \<and> (throttles_ok fl th \<longrightarrow> throttles_ok fl th')"
  using assms
proof (induction tss arbitrary: th)
  case (Cons ts tss)
  then obtain u where u: "set_throttle fl env ts th = Inr u" "set_throttles fl env tss u = Inr th'"
    by (auto split: sum.splits)
  from Cons.IH [OF u(2)] set_throttle_Inr [OF u(1)] show ?case by auto
qed simp

lemma set_throttles_append:
  "set_throttles fl env (xs @ ys) th = bind_result (set_throttles fl env xs th) (set_throttles fl env ys)"
  by (induction xs arbitrary: th) (auto simp: bind_result_def split: sum.splits)

lemma bind_result_assoc: "bind_result (bind_result r f) g = bind_result r (\<lambda>x. bind_result (f x) g)"
  by (cases r) (simp_all add: bind_result_def)

lemma set_throttles_append_fun:
  "set_throttles fl env (xs @ ys) = (\<lambda>th. bind_result (set_throttles fl env xs th) (set_throttles fl env ys))"
  by (rule ext) (rule set_throttles_append)

lemma InitialThrottler_specs: "InitialThrottler fl env = set_throttles fl env all_specs Map.empty"
  unfolding InitialThrottler_def all_specs_def getInstanceThrottle_def getListenerThrottle_def getPoolThrottle_def
    getMemberThrottle_def getHealthzThrottle_def getNatGatewayThrottle_def getNatRuleThrottle_def getEipThrottle_def getSubnetThrottle_def
  by (simp only: set_throttles_append_fun bind_result_assoc)

lemma set_throttles_total:
  assumes "\<And>ts th. ts \<in> set tss \<Longrightarrow> \<exists>th'. set_throttle fl env ts th = Inr th'"
  shows "\<exists>th'. set_throttles fl env tss th = Inr th'"
  using assms
proof (induction tss arbitrary: th)
  case (Cons ts tss)
  obtain u where "set_throttle fl env ts th = Inr u" using Cons.prems [of ts th] by auto
  moreover obtain v where "set_throttles fl env tss u = Inr v" using Cons.IH [of u] Cons.prems by auto
  ultimately show ?case by simp
qed simp

text \<open>The pairs of defaults that occur, each with its burst.\<close>

definition default_pairs :: "(string \<times> int) list" where
  "default_pairs = [(''10.0'', 15), (''1.5'', 2), (''3.0'', 4), (''8.0'', 10), (''0.8'', 1), (''6.0'', 9)]"

definition is_default :: "throttle_spec \<Rightarrow> bool" where
  "is_default ts \<longleftrightarrow> (\<exists>p \<in> set default_pairs. ts_DefaultQPS ts = fst p \<and> Atoi (ts_DefaultBurst ts) = Some (snd p))"

lemma Atoi_defaults:
  "Atoi ''15'' = Some 15" "Atoi ''2'' = Some 2" "Atoi ''4'' = Some 4"
  "Atoi ''10'' = Some 10" "Atoi ''1'' = Some 1" "Atoi ''9'' = Some 9"
  by (simp_all add: Atoi_def atoi_unsigned_def is_digit_def digit_val_def)

lemma all_specs_default: "list_all is_default all_specs"
  by (simp add: all_specs_def instance_specs_def listener_specs_def pool_specs_def member_specs_def healthz_specs_def
      nat_gateway_specs_def nat_rule_specs_def eip_specs_def subnet_specs_def spec_def is_default_def default_pairs_def Atoi_defaults)

lemma set_throttle_default:
  assumes "is_default ts" "env (ts_QPSEnv ts) = [] \<or> env (ts_BurstEnv ts) = []"
    and "\<And>q b. (q, b) \<in> set default_pairs \<Longrightarrow> \<exists>f. parse_float32 fl q = Inr f \<and> \<not> float_lt fl (float_of_int fl b) f"
  shows "\<exists>th'. set_throttle fl env ts th = Inr th'"
proof -
  obtain q b where "(q, b) \<in> set default_pairs" "ts_DefaultQPS ts = q" "Atoi (ts_DefaultBurst ts) = Some b"
    using assms(1) by (auto simp: is_default_def)
  with assms(2) assms(3) [of q b] show ?thesis by (auto simp: set_throttle_def throttle_values_def)
qed

lemma reset_throttle_ok: "throttles_ok fl th \<Longrightarrow> throttles_ok fl (reset_throttle fl entry th)"
  by (auto simp: reset_throttle_def throttles_ok_def limiter_ok_def split: prod.splits)

lemma fold_reset_throttle_ok: "throttles_ok fl th \<Longrightarrow> throttles_ok fl (fold (reset_throttle fl) entries th)"
  by (induction entries arbitrary: th) (simp_all add: reset_throttle_ok)

lemma fold_reset_throttle_other:
  "k \<notin> fst ` set entries \<Longrightarrow> fold (reset_throttle fl) entries th k = th k"
proof (induction entries arbitrary: th)
  case (Cons e entries)
  then show ?case by (cases e) (simp add: reset_throttle_def)
qed simp

lemma fold_reset_throttle_lookup:
  assumes "distinct (map fst entries)" "(k, p) \<in> set entries"
  shows "fold (reset_throttle fl) entries th k =
    (if float_lt fl (float_of_int fl (tp_Burst p)) (tp_QPS p) then th k
     else Some \<lparr>rl_qps = tp_QPS p, rl_burst = tp_Burst p\<rparr>)"
  using assms
proof (induction entries arbitrary: th)
  case (Cons e entries)
  show ?case
  proof (cases "e = (k, p)")
    case True
    with Cons.prems show ?thesis by (simp add: fold_reset_throttle_other) (simp add: reset_throttle_def)
  next
    case False
    with Cons.prems have "(k, p) \<in> set entries" by simp
    with Cons.prems(1) have "fst e \<noteq> k" by (metis distinct.simps(2) fst_conv image_eqI list.set_map list.simps(9))
    then have "reset_throttle fl e th k = th k" by (cases e) (simp add: reset_throttle_def)
    with Cons.IH [of "reset_throttle fl e th"] Cons.prems \<open>(k, p) \<in> set entries\<close> show ?thesis by simp
  qed
qed simp

subsection \<open>Properties\<close>

text \<open>
  When the throttler starts, it has a limiter for each of the keys of the nine groups and for
  no other, and no limiter has a rate above its burst, whatever the environment says.
\<close>

theorem initial_throttles_complete_and_valid:
  assumes "InitialThrottler fl env = Inr th"
  shows "dom th = ts_Key ` set all_specs \<and> throttles_ok fl th"
  using set_throttles_Inr [of fl env all_specs Map.empty th] assms
  by (simp add: InitialThrottler_specs throttles_ok_def)

text \<open>Rates as exact decimals with one digit after the point, counted in tenths.\<close>

definition tenths :: "int floats" where
  "tenths = \<lparr>parse_float32 = (\<lambda>s. case rev s of
       d # dot # r \<Rightarrow> (case Atoi (rev r @ [d]) of None \<Rightarrow> Inl (Errorf ''invalid syntax'') | Some n \<Rightarrow> Inr n)
     | _ \<Rightarrow> Inl (Errorf ''invalid syntax'')),
     float_of_int = (\<lambda>n. 10 * n), float_lt = (\<lambda>x y. x < y)\<rparr>"

lemma tenths_parse:
  "parse_float32 tenths ''10.0'' = Inr 100" "parse_float32 tenths ''1.5'' = Inr 15" "parse_float32 tenths ''3.0'' = Inr 30"
  "parse_float32 tenths ''8.0'' = Inr 80" "parse_float32 tenths ''0.8'' = Inr 8" "parse_float32 tenths ''6.0'' = Inr 60"
  by (simp_all add: tenths_def Atoi_def atoi_unsigned_def is_digit_def digit_val_def)

lemma tenths_defaults:
  assumes "(q, b) \<in> set default_pairs"
  shows "\<exists>f. parse_float32 tenths q = Inr f \<and> \<not> float_lt tenths (float_of_int tenths b) f"
proof -
  have lt: "float_lt tenths (float_of_int tenths b) f \<longleftrightarrow> 10 * b < f" for f by (simp add: tenths_def)
  from assms show ?thesis unfolding lt default_pairs_def
    by (auto simp: tenths_parse)
qed

lemma tenths_start: "\<exists>th. InitialThrottler tenths (\<lambda>_. []) = Inr th"
  unfolding InitialThrottler_specs
proof (rule set_throttles_total)
  fix ts :: throttle_spec and th :: "int throttles"
  assume "ts \<in> set all_specs"
  then have "is_default ts" using all_specs_default by (simp add: list_all_iff)
  then show "\<exists>th'. set_throttle tenths (\<lambda>_. []) ts th = Inr th'"
    by (rule set_throttle_default) (simp_all add: tenths_defaults)
qed

theorem initial_throttles_complete_and_valid_witness:
  "\<exists>th. InitialThrottler tenths (\<lambda>_. []) = Inr th \<and> dom th = ts_Key ` set all_specs \<and> throttles_ok tenths th"
  using tenths_start initial_throttles_complete_and_valid [of tenths "\<lambda>_. []"] by blast

text \<open>
  The built-in rates are usable: where no pair of variables is fully set, and the six built-in
  rates parse as numbers not above their bursts, the throttler starts.
\<close>

theorem default_throttles_start:
  assumes "\<And>ts. ts \<in> set all_specs \<Longrightarrow> env (ts_QPSEnv ts) = [] \<or> env (ts_BurstEnv ts) = []"
    and "\<And>q b. (q, b) \<in> set default_pairs \<Longrightarrow> \<exists>f. parse_float32 fl q = Inr f \<and> \<not> float_lt fl (float_of_int fl b) f"
  shows "\<exists>th. InitialThrottler fl env = Inr th"
  unfolding InitialThrottler_specs
proof (rule set_throttles_total)
  fix ts th
  assume ts: "ts \<in> set all_specs"
  then have "is_default ts" using all_specs_default by (simp add: list_all_iff)
  then show "\<exists>th'. set_throttle fl env ts th = Inr th'"
    using assms(1) [OF ts] assms(2) by (rule set_throttle_default)
qed

theorem default_throttles_start_witness: "\<exists>th. InitialThrottler tenths (\<lambda>_. []) = Inr th"
  by (rule default_throttles_start) (simp_all add: tenths_defaults)

text \<open>
  C18. Reloading \<open>throttle.json\<close> installs exactly the valid entries of the file: an entry whose
  rate exceeds its burst leaves the limiter that was there, a key the file does not name keeps its
  limiter, and a valid set of limiters stays valid.
\<close>

theorem reset_throttles_exact:
  assumes "unmarshal b = Inr entries" "distinct (map fst entries)" "throttles_ok fl th"
  shows "throttles_ok fl (resetThrottles fl unmarshal (Inr b) th)
    \<and> (\<forall>k. GetThrottleByKey (resetThrottles fl unmarshal (Inr b) th) k =
        (case map_of entries k of
           None \<Rightarrow> GetThrottleByKey th k
         | Some p \<Rightarrow> if float_lt fl (float_of_int fl (tp_Burst p)) (tp_QPS p) then GetThrottleByKey th k
                     else Some \<lparr>rl_qps = tp_QPS p, rl_burst = tp_Burst p\<rparr>))"
proof -
  have eq: "resetThrottles fl unmarshal (Inr b) th = fold (reset_throttle fl) entries th"
    using assms(1) by (simp add: resetThrottles_def)
  show ?thesis unfolding eq GetThrottleByKey_def
  proof (intro conjI allI)
    show "throttles_ok fl (fold (reset_throttle fl) entries th)" by (rule fold_reset_throttle_ok [OF assms(3)])
    fix k
    show "fold (reset_throttle fl) entries th k =
        (case map_of entries k of None \<Rightarrow> th k
         | Some p \<Rightarrow> if float_lt fl (float_of_int fl (tp_Burst p)) (tp_QPS p) then th k
                     else Some \<lparr>rl_qps = tp_QPS p, rl_burst = tp_Burst p\<rparr>)"
    proof (cases "map_of entries k")
      case None
      then have "k \<notin> fst ` set entries" by (simp add: map_of_eq_None_iff)
      with None show ?thesis by (simp add: fold_reset_throttle_other)
    next
      case (Some p)
      then show ?thesis using fold_reset_throttle_lookup [OF assms(2) map_of_SomeD [OF Some], of fl th] by simp
    qed
  qed
qed

theorem reset_throttles_exact_witness:
  "GetThrottleByKey (resetThrottles tenths (\<lambda>_. Inr [(''EIP_LIST'', \<lparr>tp_QPS = 20, tp_Burst = 3\<rparr>), (''EIP_BIND'', \<lparr>tp_QPS = 50, tp_Burst = 4\<rparr>)])
     (Inr ''{}'') Map.empty) ''EIP_LIST'' = Some \<lparr>rl_qps = 20, rl_burst = 3\<rparr>
   \<and> GetThrottleByKey (resetThrottles tenths (\<lambda>_. Inr [(''EIP_LIST'', \<lparr>tp_QPS = 20, tp_Burst = 3\<rparr>), (''EIP_BIND'', \<lparr>tp_QPS = 50, tp_Burst = 4\<rparr>)])
     (Inr ''{}'') Map.empty) ''EIP_BIND'' = None"
proof -
  let ?es = "[(''EIP_LIST'', \<lparr>tp_QPS = 20, tp_Burst = 3\<rparr>), (''EIP_BIND'', \<lparr>tp_QPS = 50, tp_Burst = 4\<rparr>)] :: (string \<times> int ThrottleParam) list"
  have "throttles_ok tenths Map.empty" by (simp add: throttles_ok_def)
  then show ?thesis
    using reset_throttles_exact [of "\<lambda>_. Inr ?es" "''{}''" ?es tenths Map.empty]
    by (simp add: GetThrottleByKey_def tenths_def)
qed

end
