(* ===== verification/Mutex_KV.thy ===== *)
theory Mutex_KV
  imports CCM_Prelude
begin

text \<open>
  \<open>mutexkv.go\<close> under concurrent callers. A state has the inner lock \<open>m.lock\<close> (the thread inside
  \<open>get\<close>), the store from keys to mutexes (addresses), the set of mutexes that are locked, and the
  program counter of every goroutine; one step of \<open>advance\<close> is one atomic action. A caller locks a
  key and later unlocks the same key, as \<open>huaweicloud.go\<close> does with \<open>defer mutexKV.Unlock(key)\<close>.
  Unlocking a mutex that is not locked ends the process: the counter \<open>Crashed\<close>.
\<close>

datatype kv_op = OpLock | OpUnlock

datatype kv_pc =
    Idle
  | WantStore kv_op string
  | InStore kv_op string
  | Found kv_op string nat
  | Got kv_op string nat
  | Critical string
  | Crashed

record MutexKV =
  kv_store :: "string \<rightharpoonup> nat"
  kv_next :: nat

record kv_state =
  kv_lock :: "nat option"
  kv_kv :: MutexKV
  kv_locked :: "nat set"
  kv_pcs :: "nat \<Rightarrow> kv_pc"

text \<open>\<open>NewMutexKV\<close> and the body of \<open>get\<close>; a new mutex has an address not used before.\<close>

definition NewMutexKV :: MutexKV where
  "NewMutexKV = \<lparr>kv_store = Map.empty, kv_next = 0\<rparr>"

definition kv_get :: "string \<Rightarrow> MutexKV \<Rightarrow> nat \<times> MutexKV" where
  "kv_get key m = (case kv_store m key of
       Some mutex \<Rightarrow> (mutex, m)
     | None \<Rightarrow> (kv_next m, \<lparr>kv_store = (kv_store m)(key \<mapsto> kv_next m), kv_next = Suc (kv_next m)\<rparr>))"

definition set_pc :: "nat \<Rightarrow> kv_pc \<Rightarrow> kv_state \<Rightarrow> kv_state" where
  "set_pc t p s = s\<lparr>kv_pcs := (kv_pcs s)(t := p)\<rparr>"

text \<open>
  The next action of goroutine \<open>t\<close>, or \<open>None\<close> while it is blocked; an idle one starts \<open>Lock(key)\<close>.
\<close>

definition advance :: "nat \<Rightarrow> string \<Rightarrow> kv_state \<Rightarrow> kv_state option" where
  "advance t key s = (case kv_pcs s t of
       Idle \<Rightarrow> Some (set_pc t (WantStore OpLock key) s)
     | WantStore op k \<Rightarrow> if kv_lock s = None then Some (set_pc t (InStore op k) (s\<lparr>kv_lock := Some t\<rparr>)) else None
     | InStore op k \<Rightarrow> (case kv_get k (kv_kv s) of (mutex, m) \<Rightarrow> Some (set_pc t (Found op k mutex) (s\<lparr>kv_kv := m\<rparr>)))
     | Found op k mutex \<Rightarrow> Some (set_pc t (Got op k mutex) (s\<lparr>kv_lock := None\<rparr>))
     | Got op k mutex \<Rightarrow> (case op of
           OpLock \<Rightarrow> if mutex \<in> kv_locked s then None
                     else Some (set_pc t (Critical k) (s\<lparr>kv_locked := insert mutex (kv_locked s)\<rparr>))
         | OpUnlock \<Rightarrow> if mutex \<in> kv_locked s then Some (set_pc t Idle (s\<lparr>kv_locked := kv_locked s - {mutex}\<rparr>))
                       else Some (set_pc t Crashed s))
     | Critical k \<Rightarrow> Some (set_pc t (WantStore OpUnlock k) s)
     | Crashed \<Rightarrow> None)"

definition kv_init :: kv_state where
  "kv_init = \<lparr>kv_lock = None, kv_kv = NewMutexKV, kv_locked = {}, kv_pcs = (\<lambda>_. Idle)\<rparr>"

inductive kv_step :: "kv_state \<Rightarrow> kv_state \<Rightarrow> bool" where
  advance: "advance t key s = Some s' \<Longrightarrow> kv_step s s'"

inductive kv_reachable :: "kv_state \<Rightarrow> bool" where
  init: "kv_reachable kv_init"
| step: "kv_reachable s \<Longrightarrow> kv_step s s' \<Longrightarrow> kv_reachable s'"

inductive_cases kv_stepE: "kv_step s s'"

subsection \<open>The invariant\<close>

text \<open>The goroutine is between the end of \<open>Lock(k)\<close> and the end of \<open>Unlock(k)\<close>.\<close>

fun holds :: "kv_pc \<Rightarrow> string \<Rightarrow> bool" where
  "holds (Critical k) key = (k = key)"
| "holds (WantStore op k) key = (op = OpUnlock \<and> k = key)"
| "holds (InStore op k) key = (op = OpUnlock \<and> k = key)"
| "holds (Found op k mutex) key = (op = OpUnlock \<and> k = key)"
| "holds (Got op k mutex) key = (op = OpUnlock \<and> k = key)"
| "holds _ key = False"

text \<open>The goroutine is inside \<open>get\<close>, and the mutex it has found.\<close>

fun in_store :: "kv_pc \<Rightarrow> bool" where
  "in_store (InStore op k) = True"
| "in_store (Found op k mutex) = True"
| "in_store _ = False"

fun found :: "kv_pc \<Rightarrow> string \<Rightarrow> nat \<Rightarrow> bool" where
  "found (Found op k mutex) key m = (k = key \<and> mutex = m)"
| "found (Got op k mutex) key m = (k = key \<and> mutex = m)"
| "found _ key m = False"

definition store_ok :: "MutexKV \<Rightarrow> bool" where
  "store_ok m \<longleftrightarrow> (\<forall>j k a. kv_store m j = Some a \<longrightarrow> kv_store m k = Some a \<longrightarrow> j = k) \<and> (\<forall>k a. kv_store m k = Some a \<longrightarrow> a < kv_next m)"

definition lock_ok :: "kv_state \<Rightarrow> bool" where
  "lock_ok s \<longleftrightarrow> (\<forall>t. kv_lock s = Some t \<longleftrightarrow> in_store (kv_pcs s t))"

definition found_ok :: "kv_state \<Rightarrow> bool" where
  "found_ok s \<longleftrightarrow> (\<forall>t k m. found (kv_pcs s t) k m \<longrightarrow> kv_store (kv_kv s) k = Some m)"

definition holder_ok :: "kv_state \<Rightarrow> bool" where
  "holder_ok s \<longleftrightarrow> (\<forall>t u k. holds (kv_pcs s t) k \<longrightarrow> holds (kv_pcs s u) k \<longrightarrow> t = u)"

definition locked_ok :: "kv_state \<Rightarrow> bool" where
  "locked_ok s \<longleftrightarrow> (\<forall>a. a \<in> kv_locked s \<longleftrightarrow> (\<exists>t k. holds (kv_pcs s t) k \<and> kv_store (kv_kv s) k = Some a))
     \<and> (\<forall>t k. holds (kv_pcs s t) k \<longrightarrow> k \<in> dom (kv_store (kv_kv s)))"

definition kv_inv :: "kv_state \<Rightarrow> bool" where
  "kv_inv s \<longleftrightarrow> store_ok (kv_kv s) \<and> lock_ok s \<and> found_ok s \<and> holder_ok s \<and> locked_ok s \<and> (\<forall>t. kv_pcs s t \<noteq> Crashed)"

lemma set_pc_simps [simp]:
  "kv_lock (set_pc t p s) = kv_lock s" "kv_kv (set_pc t p s) = kv_kv s" "kv_locked (set_pc t p s) = kv_locked s"
  "kv_pcs (set_pc t p s) u = (if u = t then p else kv_pcs s u)"
  by (simp_all add: set_pc_def)

lemma store_okD: "store_ok m \<Longrightarrow> kv_store m j = Some a \<Longrightarrow> kv_store m k = Some a \<Longrightarrow> j = k"
  by (auto simp: store_ok_def)

lemma kv_get_store:
  assumes "kv_get k m = (a, m')"
  shows "kv_store m' k = Some a" "kv_store m j = Some b \<Longrightarrow> kv_store m' j = Some b"
    "j \<noteq> k \<Longrightarrow> kv_store m' j = kv_store m j" "k \<in> dom (kv_store m) \<Longrightarrow> m' = m"
  using assms by (auto simp: kv_get_def split: option.splits if_splits)

lemma kv_get_ok:
  assumes ok: "store_ok m" and get: "kv_get k m = (a, m')"
  shows "store_ok m'"
proof (cases "kv_store m k")
  case None
  with get have m': "a = kv_next m" "m' = \<lparr>kv_store = (kv_store m)(k \<mapsto> kv_next m), kv_next = Suc (kv_next m)\<rparr>"
    by (auto simp: kv_get_def)
  have fresh: "kv_store m j \<noteq> Some (kv_next m)" for j using ok by (auto simp: store_ok_def)
  with ok fresh [symmetric] show ?thesis by (auto simp: m' store_ok_def less_Suc_eq)
next
  case (Some b)
  with get ok show ?thesis by (simp add: kv_get_def)
qed

lemma found_okD: "found_ok s \<Longrightarrow> found (kv_pcs s t) k a \<Longrightarrow> kv_store (kv_kv s) k = Some a"
  by (auto simp: found_ok_def)

text \<open>A step that keeps the store, the locked mutexes and what each goroutine holds.\<close>

lemma kv_inv_silent:
  assumes "kv_inv s" "kv_kv s' = kv_kv s" "kv_locked s' = kv_locked s" "lock_ok s'" "found_ok s'"
    and "\<And>u k. holds (kv_pcs s' u) k \<longleftrightarrow> holds (kv_pcs s u) k" "\<And>u. kv_pcs s' u \<noteq> Crashed"
  shows "kv_inv s'"
  using assms by (simp add: kv_inv_def holder_ok_def locked_ok_def)

lemma kv_inv_get:
  assumes inv: "kv_inv s" and pc: "kv_pcs s t = InStore op k" and get: "kv_get k (kv_kv s) = (a, m)"
    and s': "s' = set_pc t (Found op k a) (s\<lparr>kv_kv := m\<rparr>)"
  shows "kv_inv s'"
proof -
  have pcs: "holds (kv_pcs s' u) j \<longleftrightarrow> holds (kv_pcs s u) j" for u j by (simp add: s' pc)
  have kv: "kv_kv s' = m" "kv_locked s' = kv_locked s" by (simp_all add: s')
  have keep: "kv_store m j = kv_store (kv_kv s) j" if "holds (kv_pcs s u) j" for u j
    using inv that kv_get_store(2) [OF get, of j] by (fastforce simp: kv_inv_def locked_ok_def)
  have eq: "holds (kv_pcs s u) j \<and> kv_store m j = Some b \<longleftrightarrow> holds (kv_pcs s u) j \<and> kv_store (kv_kv s) j = Some b" for u j b
    using keep [of u j] by auto
  have "locked_ok s'" using inv keep unfolding locked_ok_def pcs kv eq kv_inv_def by (auto simp: domIff)
  moreover have "holder_ok s'" using inv by (simp add: holder_ok_def pcs kv_inv_def)
  moreover have "lock_ok s'" using inv pc by (auto simp: lock_ok_def s' kv_inv_def)
  moreover have "found_ok s'" using inv kv_get_store(1,2) [OF get] by (auto simp: found_ok_def s' kv_inv_def)
  moreover have "store_ok m" using inv kv_get_ok [OF _ get] by (simp add: kv_inv_def)
  ultimately show ?thesis using inv by (simp add: kv_inv_def s')
qed

lemma kv_inv_release:
  assumes inv: "kv_inv s" and pc: "kv_pcs s t = Found op k a" and s': "s' = set_pc t (Got op k a) (s\<lparr>kv_lock := None\<rparr>)"
  shows "kv_inv s'"
proof -
  have "kv_store (kv_kv s) k = Some a" by (rule found_okD [of s t]) (use inv pc in \<open>simp_all add: kv_inv_def\<close>)
  moreover have other: "in_store (kv_pcs s u) \<longleftrightarrow> u = t" for u
  proof -
    have "kv_lock s = Some t" using inv pc by (auto simp: kv_inv_def lock_ok_def)
    then show ?thesis using inv by (auto simp: kv_inv_def lock_ok_def)
  qed
  ultimately show ?thesis
    by (intro kv_inv_silent [OF inv]) (use inv pc other in \<open>auto simp: s' kv_inv_def lock_ok_def found_ok_def\<close>)
qed

lemma kv_inv_lock:
  assumes inv: "kv_inv s" and pc: "kv_pcs s t = Got OpLock k a" and a: "a \<notin> kv_locked s"
    and s': "s' = set_pc t (Critical k) (s\<lparr>kv_locked := insert a (kv_locked s)\<rparr>)"
  shows "kv_inv s'"
proof -
  have store: "kv_store (kv_kv s) k = Some a" by (rule found_okD [of s t]) (use inv pc in \<open>simp_all add: kv_inv_def\<close>)
  have free: "\<not> holds (kv_pcs s u) k" for u using inv a store by (auto simp: kv_inv_def locked_ok_def)
  have pcs: "holds (kv_pcs s' u) j \<longleftrightarrow> holds (kv_pcs s u) j \<or> u = t \<and> j = k" for u j
    by (auto simp: s' pc)
  have kv: "kv_kv s' = kv_kv s" "kv_locked s' = insert a (kv_locked s)" by (simp_all add: s')
  have "locked_ok s'" using inv store unfolding pcs kv kv_inv_def locked_ok_def by auto
  moreover have "holder_ok s'" using inv free by (auto simp: s' holder_ok_def kv_inv_def)
  ultimately show ?thesis using inv pc by (auto simp: s' kv_inv_def lock_ok_def found_ok_def)
qed

lemma kv_inv_unlock:
  assumes inv: "kv_inv s" and pc: "kv_pcs s t = Got OpUnlock k a"
    and s': "s' = set_pc t Idle (s\<lparr>kv_locked := kv_locked s - {a}\<rparr>)"
  shows "kv_inv s'"
proof -
  have store: "kv_store (kv_kv s) k = Some a" by (rule found_okD [of s t]) (use inv pc in \<open>simp_all add: kv_inv_def\<close>)
  have same: "j = k" if "kv_store (kv_kv s) j = Some a" for j
    using inv store that by (auto simp: kv_inv_def dest: store_okD)
  have only: "u = t" if "holds (kv_pcs s u) k" for u
    using inv pc that by (auto simp: kv_inv_def holder_ok_def)
  have pcs: "holds (kv_pcs s' u) j \<longleftrightarrow> holds (kv_pcs s u) j \<and> j \<noteq> k" for u j
  proof (cases "u = t")
    case True
    then show ?thesis by (auto simp: s' pc)
  next
    case False
    then have "\<not> holds (kv_pcs s u) k" using only by blast
    then show ?thesis using False by (auto simp: s')
  qed
  have kv: "kv_kv s' = kv_kv s" "kv_locked s' = kv_locked s - {a}" by (simp_all add: s')
  have eq: "(holds (kv_pcs s u) j \<and> j \<noteq> k) \<and> kv_store (kv_kv s) j = Some b
      \<longleftrightarrow> (holds (kv_pcs s u) j \<and> kv_store (kv_kv s) j = Some b) \<and> b \<noteq> a" for u j b
    using store same [of j] by auto
  have "locked_ok s'" using inv unfolding pcs kv eq kv_inv_def locked_ok_def by auto
  moreover have "holder_ok s'" using inv by (auto simp: s' holder_ok_def kv_inv_def)
  ultimately show ?thesis using inv pc by (auto simp: s' kv_inv_def lock_ok_def found_ok_def)
qed

lemma kv_inv_unlock_locked: "kv_inv s \<Longrightarrow> kv_pcs s t = Got OpUnlock k a \<Longrightarrow> a \<in> kv_locked s"
  using found_okD [of s t k a] by (auto simp: kv_inv_def locked_ok_def intro!: exI [of _ t])

lemma advance_inv:
  assumes inv: "kv_inv s" and adv: "advance t key s = Some s'"
  shows "kv_inv s'"
proof (cases "kv_pcs s t")
  case Idle
  with adv have s': "s' = set_pc t (WantStore OpLock key) s" by (simp add: advance_def)
  show ?thesis
    by (rule kv_inv_silent [OF inv]) (use inv Idle in \<open>auto simp: s' kv_inv_def lock_ok_def found_ok_def\<close>)
next
  case (WantStore op k)
  with adv have s': "kv_lock s = None" "s' = set_pc t (InStore op k) (s\<lparr>kv_lock := Some t\<rparr>)"
    by (auto simp: advance_def split: if_splits)
  show ?thesis
    by (rule kv_inv_silent [OF inv]) (use inv WantStore s' in \<open>auto simp: kv_inv_def lock_ok_def found_ok_def\<close>)
next
  case (InStore op k)
  obtain a m where "kv_get k (kv_kv s) = (a, m)" by fastforce
  with inv InStore adv show ?thesis by (auto simp: advance_def intro: kv_inv_get)
next
  case (Found op k a)
  with inv adv show ?thesis by (auto simp: advance_def intro: kv_inv_release)
next
  case (Got op k a)
  with inv adv show ?thesis
    by (cases op) (auto simp: advance_def kv_inv_unlock_locked intro: kv_inv_lock kv_inv_unlock split: if_splits)
next
  case (Critical k)
  with adv have s': "s' = set_pc t (WantStore OpUnlock k) s" by (simp add: advance_def)
  show ?thesis
    by (rule kv_inv_silent [OF inv]) (use inv Critical in \<open>auto simp: s' kv_inv_def lock_ok_def found_ok_def\<close>)
next
  case Crashed
  with adv show ?thesis by (simp add: advance_def)
qed

lemma kv_reachable_inv: "kv_reachable s \<Longrightarrow> kv_inv s"
proof (induction rule: kv_reachable.induct)
  case init
  then show ?case
    by (simp add: kv_inv_def kv_init_def NewMutexKV_def store_ok_def lock_ok_def found_ok_def holder_ok_def locked_ok_def)
next
  case (step s s')
  then show ?case by (auto elim!: kv_stepE dest: advance_inv)
qed

text \<open>The locks make progress from every state that satisfies the invariant.\<close>

lemma kv_progress:
  assumes inv: "kv_inv s" and busy: "kv_pcs s t \<noteq> Idle"
  shows "\<exists>u s'. kv_pcs s u \<noteq> Idle \<and> advance u key s = Some s'"
proof (rule ccontr)
  assume stuck: "\<nexists>u s'. kv_pcs s u \<noteq> Idle \<and> advance u key s = Some s'"
  have moves: "advance u key s \<noteq> None" if "in_store (kv_pcs s u) \<or> (\<exists>k. kv_pcs s u = Critical k)" for u
    using that by (cases "kv_pcs s u") (auto simp: advance_def split: prod.splits)
  have free: "kv_lock s = None"
  proof (rule ccontr)
    assume "kv_lock s \<noteq> None"
    with inv obtain u where "in_store (kv_pcs s u)" by (auto simp: kv_inv_def lock_ok_def)
    moreover from this have "kv_pcs s u \<noteq> Idle" by auto
    ultimately show False using moves [of u] stuck by auto
  qed
  have pcs: "kv_pcs s u = Idle \<or> (\<exists>k a. kv_pcs s u = Got OpLock k a \<and> a \<in> kv_locked s)" for u
  proof -
    have "kv_pcs s u = Idle \<or> advance u key s = None" using stuck by auto
    moreover have "kv_pcs s u \<noteq> Crashed" using inv by (simp add: kv_inv_def)
    ultimately show ?thesis using free moves [of u]
      by (cases "kv_pcs s u") (auto simp: advance_def split: if_splits kv_op.splits)
  qed
  from busy pcs [of t] obtain a where "a \<in> kv_locked s" by auto
  with inv obtain u k where "holds (kv_pcs s u) k" by (auto simp: kv_inv_def locked_ok_def)
  with pcs [of u] show False by auto
qed

subsection \<open>Properties\<close>

text \<open>
  C22. In every interleaving at most one goroutine is between \<open>Lock(key)\<close> and \<open>Unlock(key)\<close> of a
  key: the calls for one service are mutually exclusive. And no interleaving unlocks a mutex that is
  not locked, which would end the process.
\<close>

theorem mutexkv_mutual_exclusion:
  assumes "kv_reachable s"
  shows "(holds (kv_pcs s t) key \<and> holds (kv_pcs s u) key \<longrightarrow> t = u) \<and> kv_pcs s v \<noteq> Crashed"
  using kv_reachable_inv [OF assms] unfolding kv_inv_def holder_ok_def by blast

text \<open>Goroutine 1 enters the critical section of a key while goroutine 2 waits for it.\<close>

definition kv_run :: "(nat \<times> string) list \<Rightarrow> kv_state \<Rightarrow> kv_state option" where
  "kv_run sched s = foldl (\<lambda>r (t, key). Option.bind r (advance t key)) (Some s) sched"

lemma kv_run_step: "kv_run (sched @ [(t, key)]) s = Option.bind (kv_run sched s) (advance t key)"
  by (simp add: kv_run_def)

lemma kv_run_reachable: "kv_run sched kv_init = Some s \<Longrightarrow> kv_reachable s"
proof (induction sched arbitrary: s rule: rev_induct)
  case Nil
  then show ?case by (simp add: kv_run_def kv_reachable.init)
next
  case (snoc e sched)
  obtain t key where e: "e = (t, key)" by fastforce
  from snoc.prems obtain r where "kv_run sched kv_init = Some r" "advance t key r = Some s"
    by (auto simp: e kv_run_step bind_eq_Some_conv)
  with snoc.IH show ?case by (blast intro: kv_reachable.step kv_step.advance)
qed

definition kv_contended :: kv_state where
  "kv_contended = the (kv_run [(1, ''k''), (1, ''k''), (1, ''k''), (1, ''k''), (1, ''k''),
     (2, ''k''), (2, ''k''), (2, ''k''), (2, ''k'')] kv_init)"

lemma kv_contended_run:
  "kv_run [(1, ''k''), (1, ''k''), (1, ''k''), (1, ''k''), (1, ''k''), (2, ''k''), (2, ''k''), (2, ''k''), (2, ''k'')] kv_init
     = Some kv_contended"
  "kv_pcs kv_contended = (\<lambda>_. Idle)(1 := Critical ''k'', 2 := Got OpLock ''k'' 0)"
  "advance 2 ''k'' kv_contended = None"
  by (simp_all add: kv_contended_def kv_run_def advance_def kv_init_def NewMutexKV_def kv_get_def set_pc_def fun_upd_twist)

lemma kv_contended_reachable: "kv_reachable kv_contended"
  by (rule kv_run_reachable [OF kv_contended_run(1)])

theorem mutexkv_mutual_exclusion_witness:
  "kv_reachable kv_contended \<and> holds (kv_pcs kv_contended 1) ''k'' \<and> \<not> holds (kv_pcs kv_contended 2) ''k'' \<and> kv_pcs kv_contended 1 \<noteq> Crashed"
  using kv_contended_reachable mutexkv_mutual_exclusion [OF kv_contended_reachable, of 1 "''k''" 2 1] by (simp add: kv_contended_run(2))

text \<open>
  The locks alone never deadlock: while some goroutine is inside \<open>Lock\<close>, \<open>Unlock\<close> or its
  critical section, some goroutine that is not idle can take a step.
\<close>

theorem mutexkv_no_deadlock:
  assumes "kv_reachable s" "kv_pcs s t \<noteq> Idle"
  shows "\<exists>u s'. kv_pcs s u \<noteq> Idle \<and> advance u key s = Some s'"
  by (rule kv_progress [OF kv_reachable_inv]) (fact assms)+

theorem mutexkv_no_deadlock_witness:
  "kv_reachable kv_contended \<and> kv_pcs kv_contended 2 \<noteq> Idle \<and> advance 2 ''k'' kv_contended = None
   \<and> (\<exists>u s'. kv_pcs kv_contended u \<noteq> Idle \<and> advance u ''k'' kv_contended = Some s')"
proof -
  have "kv_pcs kv_contended 2 \<noteq> Idle" by (simp add: kv_contended_run(2))
  then show ?thesis
    using kv_contended_reachable kv_contended_run(3) mutexkv_no_deadlock [OF kv_contended_reachable, of 2 "''k''"] by blast
qed

end
