(* ===== verification/Execute_Pool.thy ===== *)
theory Execute_Pool
  imports CCM_Prelude
begin

text \<open>
  The worker pool of \<open>common.go\<close> (\<open>NewExecutePool\<close>, \<open>Start\<close>, \<open>Stop\<close>, \<open>Submit\<close>) on a model of Go
  channels: a send blocks on a full or nil channel and panics on a closed one, a receive drains a
  closed channel before it reports the end, closing twice panics. The workers run concurrently: a
  step relation with one step per receive or end of a handler. The sends and closes of one \<open>Start\<close>
  or \<open>Stop\<close> are one step. The ghost lists \<open>ep_submitted\<close> and \<open>ep_taken\<close> record the jobs accepted
  and the jobs handed to a worker.
\<close>

subsection \<open>Channels\<close>

record 'a chan =
  ch_buf :: "'a list"
  ch_cap :: nat
  ch_closed :: bool

datatype 'a outcome = Done 'a | Blocks | Panics string

definition make_chan :: "nat \<Rightarrow> 'a chan" where
  "make_chan n = \<lparr>ch_buf = [], ch_cap = n, ch_closed = False\<rparr>"

definition chan_send :: "'a chan \<Rightarrow> 'a \<Rightarrow> 'a chan outcome" where
  "chan_send c x = (if ch_closed c then Panics ''send on closed channel''
     else if length (ch_buf c) < ch_cap c then Done (c\<lparr>ch_buf := ch_buf c @ [x]\<rparr>) else Blocks)"

definition chan_close :: "'a chan \<Rightarrow> 'a chan outcome" where
  "chan_close c = (if ch_closed c then Panics ''close of closed channel'' else Done (c\<lparr>ch_closed := True\<rparr>))"

definition chan_recv :: "'a chan \<Rightarrow> ('a option \<times> 'a chan) outcome" where
  "chan_recv c = (case ch_buf c of
       x # xs \<Rightarrow> Done (Some x, c\<lparr>ch_buf := xs\<rparr>)
     | [] \<Rightarrow> if ch_closed c then Done (None, c) else Blocks)"

definition bind_outcome :: "'a outcome \<Rightarrow> ('a \<Rightarrow> 'b outcome) \<Rightarrow> 'b outcome" where
  "bind_outcome r f = (case r of Done x \<Rightarrow> f x | Blocks \<Rightarrow> Blocks | Panics msg \<Rightarrow> Panics msg)"

subsection \<open>The pool\<close>

datatype 'j worker_state = Waiting | Running 'j | Exited

record 'j worker =
  w_stopCh :: nat
  w_state :: "'j worker_state"

record 'j ExecutePool =
  ep_workerNum :: nat
  ep_queueCh :: "'j chan"
  ep_stopCh :: "nat option"
  ep_stopChans :: "unit chan list"
  ep_workers :: "'j worker list"
  ep_submitted :: "'j list"
  ep_taken :: "'j list"

definition MaxPoolSize :: nat where
  "MaxPoolSize = 2000"

definition NewExecutePool :: "nat \<Rightarrow> 'j ExecutePool" where
  "NewExecutePool wn = \<lparr>ep_workerNum = wn, ep_queueCh = make_chan MaxPoolSize, ep_stopCh = None, ep_stopChans = [],
     ep_workers = [], ep_submitted = [], ep_taken = []\<rparr>"

text \<open>\<open>w.stopCh <- struct{}{}; close(w.stopCh)\<close>; the send on a nil channel blocks.\<close>

definition signal_stop :: "'j ExecutePool \<Rightarrow> 'j ExecutePool outcome" where
  "signal_stop w = (case ep_stopCh w of
       None \<Rightarrow> Blocks
     | Some i \<Rightarrow>
         bind_outcome (chan_send (ep_stopChans w ! i) ()) (\<lambda>c.
         bind_outcome (chan_close c) (\<lambda>c'. Done (w\<lparr>ep_stopChans := (ep_stopChans w)[i := c']\<rparr>))))"

definition Start :: "'j ExecutePool \<Rightarrow> 'j ExecutePool outcome" where
  "Start w =
     bind_outcome (if ep_stopCh w \<noteq> None then signal_stop w else Done w) (\<lambda>w.
       let i = length (ep_stopChans w) in
       Done (w\<lparr>ep_stopChans := ep_stopChans w @ [make_chan 1], ep_stopCh := Some i,
               ep_workers := ep_workers w @ replicate (ep_workerNum w) \<lparr>w_stopCh = i, w_state = Waiting\<rparr>\<rparr>))"

definition Stop :: "'j ExecutePool \<Rightarrow> 'j ExecutePool outcome" where
  "Stop w =
     bind_outcome (signal_stop w) (\<lambda>w.
     bind_outcome (chan_close (ep_queueCh w)) (\<lambda>q. Done (w\<lparr>ep_queueCh := q\<rparr>)))"

definition Submit :: "'j \<Rightarrow> 'j ExecutePool \<Rightarrow> 'j ExecutePool outcome" where
  "Submit work w =
     bind_outcome (chan_send (ep_queueCh w) work) (\<lambda>q.
       Done (w\<lparr>ep_queueCh := q, ep_submitted := ep_submitted w @ [work]\<rparr>))"

definition set_worker :: "nat \<Rightarrow> 'j worker_state \<Rightarrow> 'j ExecutePool \<Rightarrow> 'j ExecutePool" where
  "set_worker n st w = w\<lparr>ep_workers := (ep_workers w)[n := (ep_workers w ! n)\<lparr>w_state := st\<rparr>]\<rparr>"

text \<open>The two cases of the \<open>select\<close> of worker \<open>n\<close>; where both are ready either is taken.\<close>

definition worker_queue :: "nat \<Rightarrow> 'j ExecutePool \<Rightarrow> 'j ExecutePool outcome" where
  "worker_queue n w =
     bind_outcome (chan_recv (ep_queueCh w)) (\<lambda>(handler, q). case handler of
         None \<Rightarrow> Done (set_worker n Exited w)
       | Some j \<Rightarrow> Done (set_worker n (Running j) (w\<lparr>ep_queueCh := q, ep_taken := ep_taken w @ [j]\<rparr>)))"

definition worker_stop :: "nat \<Rightarrow> 'j ExecutePool \<Rightarrow> 'j ExecutePool outcome" where
  "worker_stop n w =
     (let i = w_stopCh (ep_workers w ! n) in
      bind_outcome (chan_recv (ep_stopChans w ! i)) (\<lambda>(_, c).
        Done (set_worker n Exited (w\<lparr>ep_stopChans := (ep_stopChans w)[i := c]\<rparr>))))"

inductive pool_step :: "'j ExecutePool \<Rightarrow> 'j ExecutePool \<Rightarrow> bool" where
  start: "Start w = Done w' \<Longrightarrow> pool_step w w'"
| stop: "Stop w = Done w' \<Longrightarrow> pool_step w w'"
| submit: "Submit j w = Done w' \<Longrightarrow> pool_step w w'"
| take: "n < length (ep_workers w) \<Longrightarrow> w_state (ep_workers w ! n) = Waiting \<Longrightarrow> worker_queue n w = Done w' \<Longrightarrow> pool_step w w'"
| leave: "n < length (ep_workers w) \<Longrightarrow> w_state (ep_workers w ! n) = Waiting \<Longrightarrow> worker_stop n w = Done w' \<Longrightarrow> pool_step w w'"
| finish: "n < length (ep_workers w) \<Longrightarrow> w_state (ep_workers w ! n) = Running j \<Longrightarrow> pool_step w (set_worker n Waiting w)"

inductive pool_reachable :: "nat \<Rightarrow> 'j ExecutePool \<Rightarrow> bool" for wn where
  new: "pool_reachable wn (NewExecutePool wn)"
| step: "pool_reachable wn w \<Longrightarrow> pool_step w w' \<Longrightarrow> pool_reachable wn w'"

inductive_cases pool_stepE: "pool_step w w'"

subsection \<open>The invariant\<close>

text \<open>Jobs are taken in the order of submission, the queue is within its bound, \<open>Start\<close> adds the
  workers of one generation.\<close>

definition queue_ok :: "'j ExecutePool \<Rightarrow> bool" where
  "queue_ok w \<longleftrightarrow> ep_taken w @ ch_buf (ep_queueCh w) = ep_submitted w
     \<and> ch_cap (ep_queueCh w) = MaxPoolSize \<and> length (ch_buf (ep_queueCh w)) \<le> MaxPoolSize"

definition workers_ok :: "nat \<Rightarrow> 'j ExecutePool \<Rightarrow> bool" where
  "workers_ok wn w \<longleftrightarrow> ep_workerNum w = wn \<and> length (ep_workers w) = wn * length (ep_stopChans w)
     \<and> (\<forall>i. ep_stopCh w = Some i \<longrightarrow> i < length (ep_stopChans w))"

lemma bind_outcome_Done: "bind_outcome r f = Done y \<longleftrightarrow> (\<exists>x. r = Done x \<and> f x = Done y)"
  by (cases r) (auto simp: bind_outcome_def)

lemma signal_stop_Done:
  assumes "signal_stop w = Done w'"
  obtains i c where "ep_stopCh w = Some i" "w' = w\<lparr>ep_stopChans := (ep_stopChans w)[i := c]\<rparr>" "ch_closed c"
  using assms by (auto simp: signal_stop_def bind_outcome_Done chan_close_def split: option.splits if_splits)

lemma signal_stop_ok:
  "signal_stop w = Done w' \<Longrightarrow> queue_ok w' = queue_ok w \<and> workers_ok wn w' = workers_ok wn w"
  by (auto simp: queue_ok_def workers_ok_def elim!: signal_stop_Done)

lemma set_worker_ok [simp]:
  "queue_ok (set_worker n st w) = queue_ok w" "workers_ok wn (set_worker n st w) = workers_ok wn w"
  by (simp_all add: set_worker_def queue_ok_def workers_ok_def)

lemma set_worker_sel [simp]:
  "ep_queueCh (set_worker n st w) = ep_queueCh w" "ep_stopChans (set_worker n st w) = ep_stopChans w"
  "ep_stopCh (set_worker n st w) = ep_stopCh w" "ep_workerNum (set_worker n st w) = ep_workerNum w"
  "ep_submitted (set_worker n st w) = ep_submitted w" "ep_taken (set_worker n st w) = ep_taken w"
  "length (ep_workers (set_worker n st w)) = length (ep_workers w)"
  by (simp_all add: set_worker_def)

lemma pool_step_ok:
  assumes "queue_ok w" "workers_ok wn w" "pool_step w w'"
  shows "queue_ok w' \<and> workers_ok wn w'"
  using assms(3)
proof cases
  case start
  then obtain u where u: "queue_ok u \<and> workers_ok wn u"
    "w' = u\<lparr>ep_stopChans := ep_stopChans u @ [make_chan 1], ep_stopCh := Some (length (ep_stopChans u)),
       ep_workers := ep_workers u @ replicate (ep_workerNum u) \<lparr>w_stopCh = length (ep_stopChans u), w_state = Waiting\<rparr>\<rparr>"
    using assms(1,2) by (auto simp: Start_def bind_outcome_Done Let_def split: if_splits dest!: signal_stop_ok)
  then show ?thesis by (simp add: queue_ok_def workers_ok_def)
next
  case stop
  then show ?thesis using assms(1,2)
    by (auto simp: Stop_def bind_outcome_Done chan_close_def queue_ok_def workers_ok_def split: if_splits elim!: signal_stop_Done)
next
  case (submit j)
  then show ?thesis using assms(1,2)
    by (auto simp: Submit_def bind_outcome_Done chan_send_def queue_ok_def workers_ok_def split: if_splits)
next
  case (take n)
  then show ?thesis using assms(1,2)
    by (auto simp: worker_queue_def bind_outcome_Done chan_recv_def queue_ok_def workers_ok_def split: list.splits if_splits option.splits)
next
  case (leave n)
  then show ?thesis using assms(1,2)
    by (auto simp: worker_stop_def Let_def bind_outcome_Done queue_ok_def workers_ok_def)
next
  case (finish n j)
  then show ?thesis using assms(1,2) by simp
qed

lemma pool_reachable_ok: "pool_reachable wn w \<Longrightarrow> queue_ok w \<and> workers_ok wn w"
proof (induction rule: pool_reachable.induct)
  case new
  then show ?case by (simp add: NewExecutePool_def queue_ok_def workers_ok_def make_chan_def)
next
  case (step w w')
  then show ?case by (blast dest: pool_step_ok)
qed

subsection \<open>Properties\<close>

definition is_running :: "'j worker \<Rightarrow> bool" where
  "is_running x \<longleftrightarrow> (case w_state x of Running _ \<Rightarrow> True | _ \<Rightarrow> False)"

text \<open>
  C25. In every interleaving of submissions, workers, \<open>Start\<close> and \<open>Stop\<close>, the jobs handed to workers
  followed by the jobs waiting are the jobs accepted, in order: none is lost before a worker takes it,
  duplicated or reordered. At most \<open>MaxPoolSize\<close> jobs wait, and at most \<open>workerNum\<close> run for each
  call of \<open>Start\<close>.
\<close>

theorem pool_fifo_and_bounded:
  assumes "pool_reachable wn w"
  shows "ep_taken w @ ch_buf (ep_queueCh w) = ep_submitted w \<and> length (ch_buf (ep_queueCh w)) \<le> 2000
    \<and> length (filter is_running (ep_workers w)) \<le> wn * length (ep_stopChans w)"
  using pool_reachable_ok [OF assms] length_filter_le [of is_running "ep_workers w"]
  by (simp add: queue_ok_def workers_ok_def MaxPoolSize_def)

definition pool_started :: "nat ExecutePool" where
  "pool_started = (NewExecutePool 1)\<lparr>ep_stopChans := [make_chan 1], ep_stopCh := Some 0,
     ep_workers := [\<lparr>w_stopCh = 0, w_state = Waiting\<rparr>]\<rparr>"

definition pool_busy :: "nat ExecutePool" where
  "pool_busy = pool_started\<lparr>ep_queueCh := (make_chan 2000)\<lparr>ch_buf := [8]\<rparr>, ep_submitted := [7, 8], ep_taken := [7],
     ep_workers := [\<lparr>w_stopCh = 0, w_state = Running 7\<rparr>]\<rparr>"

lemma pool_started_reachable: "pool_reachable 1 pool_started"
  by (rule pool_reachable.step [OF pool_reachable.new], rule pool_step.start)
    (simp add: pool_started_def Start_def NewExecutePool_def bind_outcome_def)

lemma pool_busy_reachable: "pool_reachable 1 pool_busy"
proof -
  let ?q = "\<lambda>js. (make_chan 2000)\<lparr>ch_buf := js\<rparr>"
  have "pool_reachable 1 (pool_started\<lparr>ep_queueCh := ?q [7], ep_submitted := [7]\<rparr>)" (is "pool_reachable 1 ?a")
    by (rule pool_reachable.step [OF pool_started_reachable], rule pool_step.submit [of 7])
      (simp add: pool_started_def Submit_def NewExecutePool_def bind_outcome_def chan_send_def make_chan_def MaxPoolSize_def)
  then have "pool_reachable 1 (pool_started\<lparr>ep_queueCh := ?q [7, 8], ep_submitted := [7, 8]\<rparr>)" (is "pool_reachable 1 ?b")
    by (rule pool_reachable.step) (rule pool_step.submit [of 8],
      simp add: pool_started_def Submit_def NewExecutePool_def bind_outcome_def chan_send_def make_chan_def MaxPoolSize_def)
  then show ?thesis
    by (rule pool_reachable.step) (rule pool_step.take [of 0],
      simp_all add: pool_busy_def pool_started_def worker_queue_def NewExecutePool_def bind_outcome_def chan_recv_def make_chan_def
        MaxPoolSize_def set_worker_def)
qed

theorem pool_fifo_and_bounded_witness:
  "pool_reachable 1 pool_busy \<and> ep_taken pool_busy @ ch_buf (ep_queueCh pool_busy) = ep_submitted pool_busy
   \<and> length (filter is_running (ep_workers pool_busy)) \<le> 1"
  using pool_busy_reachable pool_fifo_and_bounded [OF pool_busy_reachable]
  by (simp add: pool_busy_def pool_started_def)

text \<open>A pool that was stopped accepts no start, stop or job.\<close>

lemma stopped_pool:
  assumes "pool_reachable wn w" "Stop w = Done w'"
  shows "Start w' = Panics ''send on closed channel'' \<and> Stop w' = Panics ''send on closed channel'' \<and> Submit j w' = Panics ''send on closed channel''"
proof -
  obtain i c q where st: "ep_stopCh w = Some i" "w' = w\<lparr>ep_stopChans := (ep_stopChans w)[i := c], ep_queueCh := q\<rparr>"
      "ch_closed c" "ch_closed q"
    using assms(2) by (auto simp: Stop_def bind_outcome_Done chan_close_def split: if_splits elim!: signal_stop_Done)
  moreover have "i < length (ep_stopChans w)" using pool_reachable_ok [OF assms(1)] st(1) by (simp add: workers_ok_def)
  ultimately show ?thesis by (simp add: Start_def Stop_def Submit_def signal_stop_def bind_outcome_def chan_send_def)
qed

text \<open>
  A pool can be stopped once, after it was started: \<open>Stop\<close> on a pool that was never started
  blocks (a send on the nil channel), and after a \<open>Stop\<close> both a second \<open>Stop\<close> and a \<open>Submit\<close> panic.
\<close>

theorem pool_stops_once:
  assumes "pool_reachable wn w" "Stop w = Done w'"
  shows "Stop (NewExecutePool wn :: 'j ExecutePool) = Blocks
    \<and> Stop w' = Panics ''send on closed channel'' \<and> Submit j w' = Panics ''send on closed channel''"
  using stopped_pool [OF assms, of j] by (simp add: Stop_def signal_stop_def NewExecutePool_def bind_outcome_def)

theorem pool_stops_once_witness:
  "\<exists>w'. Stop pool_started = Done w' \<and> Stop w' = Panics ''send on closed channel''"
proof -
  have "\<exists>w'. Stop pool_started = Done w'"
    by (simp add: Stop_def signal_stop_def bind_outcome_def pool_started_def NewExecutePool_def chan_send_def chan_close_def make_chan_def)
  then obtain w' where "Stop pool_started = Done w'" by blast
  with pool_stops_once [OF pool_started_reachable this, of 0] show ?thesis by blast
qed

end
