(* ===== verification/Signer.thy ===== *)
theory Signer
  imports Http_Client "HOL-Library.Char_ord" "HOL-Library.List_Lexorder" "HOL-Library.AList" "HOL-Library.Multiset"
begin

text \<open>
  Request signing, \<open>pkg/apigw/core\<close>: the escaping of \<open>escape.go\<close> and the canonical request and its
  signature of \<open>signer.go\<close>. A string is a list of bytes (\<open>char\<close> has 8 bits). Hash functions and the clock
  are the record \<open>signer_env\<close>. Of the standard library the model has \<open>url.QueryUnescape\<close> and
  \<open>url.ParseQuery\<close>, and \<open>http.Header\<close> as an association list; the code only uses header names that are
  in canonical form already.
\<close>

subsection \<open>Escaping\<close>

definition shouldEscape :: "char \<Rightarrow> bool" where
  "shouldEscape c \<longleftrightarrow> \<not> ((65::nat) \<le> of_char c \<and> of_char c \<le> (90::nat) \<or> (97::nat) \<le> of_char c \<and> of_char c \<le> (122::nat)
     \<or> (48::nat) \<le> of_char c \<and> of_char c \<le> (57::nat) \<or> c = CHR ''_'' \<or> c = CHR ''-'' \<or> c = CHR ''~'' \<or> c = CHR ''.'')"

definition hi_digit :: "char \<Rightarrow> char" where
  "hi_digit c = ''0123456789ABCDEF'' ! (of_char c div 16)"

definition lo_digit :: "char \<Rightarrow> char" where
  "lo_digit c = ''0123456789ABCDEF'' ! (of_char c mod 16)"

text \<open>The second loop, which fills the buffer \<open>t\<close> from position \<open>j\<close>.\<close>

fun escape_loop :: "string \<Rightarrow> nat \<Rightarrow> string \<Rightarrow> string" where
  "escape_loop [] j t = t"
| "escape_loop (c # cs) j t =
     (if shouldEscape c
      then escape_loop cs (j + 3) (t[j := CHR ''%'', j + 1 := hi_digit c, j + 2 := lo_digit c])
      else escape_loop cs (j + 1) (t[j := c]))"

definition escape :: "string \<Rightarrow> string" where
  "escape s =
     (let hexCount = length (filter shouldEscape s) in
      if hexCount = 0 then s
      else escape_loop s 0 (replicate (length s + 2 * hexCount) (CHR 0x00)))"

text \<open>The same byte by byte.\<close>

definition escape_byte :: "char \<Rightarrow> string" where
  "escape_byte c = (if shouldEscape c then [CHR ''%'', hi_digit c, lo_digit c] else [c])"

lemma escape_loop_fills:
  "length t = j + length (concat (map escape_byte s)) \<Longrightarrow> escape_loop s j t = take j t @ concat (map escape_byte s)"
proof (induction s arbitrary: j t)
  case Nil
  then show ?case by simp
next
  case (Cons c cs)
  show ?case
  proof (cases "shouldEscape c")
    case True
    with Cons.prems have "length t \<ge> j + 3" by (simp add: escape_byte_def)
    then have "take (j + 3) (t[j := CHR ''%'', j + 1 := hi_digit c, j + 2 := lo_digit c]) = take j t @ [CHR ''%'', hi_digit c, lo_digit c]"
      by (auto simp: list_eq_iff_nth_eq nth_append nth_list_update nth_Cons' less_Suc_eq numeral_eq_Suc)
    then show ?thesis
      using True Cons.prems Cons.IH [of "t[j := CHR ''%'', j + 1 := hi_digit c, j + 2 := lo_digit c]" "j + 3"]
      by (simp add: escape_byte_def)
  next
    case False
    with Cons.prems have "length t \<ge> j + 1" by (simp add: escape_byte_def)
    then have "take (j + 1) (t[j := c]) = take j t @ [c]"
      by (auto simp: list_eq_iff_nth_eq nth_append nth_list_update less_Suc_eq)
    then show ?thesis using False Cons.prems Cons.IH [of "t[j := c]" "j + 1"] by (simp add: escape_byte_def)
  qed
qed

lemma escape_length: "length (concat (map escape_byte s)) = length s + 2 * length (filter shouldEscape s)"
  by (induction s) (auto simp: escape_byte_def)

lemma escape_bytes: "escape s = concat (map escape_byte s)"
proof (cases "filter shouldEscape s = []")
  case True
  then have "concat (map escape_byte s) = s" by (induction s) (auto simp: escape_byte_def split: if_splits)
  then show ?thesis using True by (simp add: escape_def)
next
  case False
  have "escape_loop s 0 (replicate (length s + 2 * length (filter shouldEscape s)) (CHR 0x00)) = concat (map escape_byte s)"
    by (subst escape_loop_fills) (simp_all add: escape_length)
  then show ?thesis using False by (simp add: escape_def)
qed

subsection \<open>Unescaping\<close>

definition unhex :: "char \<Rightarrow> nat option" where
  "unhex c = (if (48::nat) \<le> of_char c \<and> of_char c \<le> (57::nat) then Some (of_char c - 48)
     else if (97::nat) \<le> of_char c \<and> of_char c \<le> (102::nat) then Some (of_char c - 97 + 10)
     else if (65::nat) \<le> of_char c \<and> of_char c \<le> (70::nat) then Some (of_char c - 65 + 10) else None)"

fun QueryUnescape :: "string \<Rightarrow> string option" where
  "QueryUnescape [] = Some []"
| "QueryUnescape (c # cs) =
     (if c = CHR ''%'' then (case cs of
          a # b # r \<Rightarrow> (case (unhex a, unhex b) of
              (Some x, Some y) \<Rightarrow> map_option ((#) (char_of (16 * x + y))) (QueryUnescape r)
            | _ \<Rightarrow> None)
        | _ \<Rightarrow> None)
      else map_option ((#) (if c = CHR ''+'' then CHR '' '' else c)) (QueryUnescape cs))"

lemma of_char_less: "(of_char (c :: char) :: nat) < 256"
  using nat_of_char_less_256 by simp

lemma unhex_upper: "n < 16 \<Longrightarrow> unhex (''0123456789ABCDEF'' ! n) = Some n"
proof -
  have "\<forall>n\<in>set [0..<16]. unhex (''0123456789ABCDEF'' ! n) = Some n" by code_simp
  then show "n < 16 \<Longrightarrow> unhex (''0123456789ABCDEF'' ! n) = Some n" by simp
qed

lemma unescape_byte: "QueryUnescape (escape_byte c @ r) = map_option ((#) c) (QueryUnescape r)"
proof (cases "shouldEscape c")
  case True
  have "unhex (hi_digit c) = Some (of_char c div 16)" "unhex (lo_digit c) = Some (of_char c mod 16)"
    using of_char_less [of c] by (simp_all add: hi_digit_def lo_digit_def unhex_upper less_mult_imp_div_less)
  then show ?thesis using True by (simp add: escape_byte_def char_of_char)
next
  case False
  then show ?thesis by (auto simp: escape_byte_def shouldEscape_def)
qed

lemma unescape_escape: "QueryUnescape (escape s) = Some s"
  unfolding escape_bytes by (induction s) (simp_all add: unescape_byte)

text \<open>Escaped text has no byte that a query gives a meaning to.\<close>

lemma hex_plain: "d \<in> set ''0123456789ABCDEF'' \<Longrightarrow> \<not> shouldEscape d"
proof -
  have "list_all (\<lambda>d. \<not> shouldEscape d) ''0123456789ABCDEF''" by code_simp
  then show "d \<in> set ''0123456789ABCDEF'' \<Longrightarrow> \<not> shouldEscape d" unfolding list_all_iff by blast
qed

lemma digits_plain: "\<not> shouldEscape (hi_digit c)" "\<not> shouldEscape (lo_digit c)"
proof -
  have "of_char c div 16 < length ''0123456789ABCDEF''" "of_char c mod 16 < length ''0123456789ABCDEF''"
    using of_char_less [of c] by (simp_all add: less_mult_imp_div_less)
  then show "\<not> shouldEscape (hi_digit c)" "\<not> shouldEscape (lo_digit c)"
    using hex_plain [OF nth_mem] unfolding hi_digit_def lo_digit_def by blast+
qed

lemma escape_plain: "c \<in> set (escape s) \<Longrightarrow> shouldEscape c \<Longrightarrow> c = CHR ''%''"
  unfolding escape_bytes by (auto simp: escape_byte_def digits_plain split: if_splits)

lemma reserved: "shouldEscape (CHR ''&'')" "shouldEscape (CHR ''='')" "shouldEscape (CHR '';'')"
  by code_simp+

lemma escape_no_reserved: "CHR ''&'' \<notin> set (escape s)" "CHR ''='' \<notin> set (escape s)" "CHR '';'' \<notin> set (escape s)"
  using escape_plain [of _ s] reserved by fastforce+

subsection \<open>Queries\<close>

text \<open>\<open>url.ParseQuery\<close>, with the pairs it rejects left out as \<open>URL.Query\<close> does.\<close>

definition cut_at :: "char \<Rightarrow> string \<Rightarrow> string \<times> string" where
  "cut_at sep s = (takeWhile (\<lambda>c. c \<noteq> sep) s, drop 1 (dropWhile (\<lambda>c. c \<noteq> sep) s))"

definition parse_pair :: "string \<Rightarrow> (string \<times> string) option" where
  "parse_pair p =
     (if CHR '';'' \<in> set p \<or> p = [] then None
      else let (k, v) = cut_at (CHR ''='') p in
        case (QueryUnescape k, QueryUnescape v) of (Some k', Some v') \<Rightarrow> Some (k', v') | _ \<Rightarrow> None)"

type_synonym multimap = "(string \<times> string list) list"

definition mm_add :: "string \<times> string \<Rightarrow> multimap \<Rightarrow> multimap" where
  "mm_add kv m = AList.update (fst kv) ((case map_of m (fst kv) of None \<Rightarrow> [] | Some vs \<Rightarrow> vs) @ [snd kv]) m"

definition ParseQuery :: "string \<Rightarrow> multimap" where
  "ParseQuery raw = fold mm_add (List.map_filter parse_pair (split_on (CHR ''&'') raw)) []"

definition values_of :: "multimap \<Rightarrow> string \<Rightarrow> string list" where
  "values_of m k = (case map_of m k of None \<Rightarrow> [] | Some vs \<Rightarrow> vs)"

definition canonical_pairs :: "multimap \<Rightarrow> (string \<times> string) list" where
  "canonical_pairs query = concat (map (\<lambda>k. map (Pair k) (sort (values_of query k))) (sort (map fst query)))"

definition CanonicalQueryString :: "string \<Rightarrow> string" where
  "CanonicalQueryString raw =
     join_with ''&'' (map (\<lambda>(k, v). escape k @ ''='' @ escape v) (canonical_pairs (ParseQuery raw)))"

lemma mm_fold_values: "values_of (fold mm_add ps m) k = values_of m k @ map snd (filter (\<lambda>p. fst p = k) ps)"
  by (induction ps arbitrary: m) (auto simp: mm_add_def values_of_def AList.update_conv')

lemma mm_fold_keys:
  "fst ` set (fold mm_add ps m) = fst ` set m \<union> fst ` set ps" "distinct (map fst m) \<Longrightarrow> distinct (map fst (fold mm_add ps m))"
  by (induction ps arbitrary: m) (auto simp: mm_add_def AList.dom_update AList.distinct_update)

lemma split_join:
  assumes "ps \<noteq> []" and "\<And>p. p \<in> set ps \<Longrightarrow> sep \<notin> set p"
  shows "split_on sep (join_with [sep] ps) = ps"
  using assms
proof (induction "[sep]" ps rule: join_with.induct)
  case (3 s t ts)
  have "split_on sep (s @ sep # r) = s # split_on sep r" if "sep \<notin> set s" for r
    using that by (induction s) auto
  then show ?case using 3 by simp
qed (auto simp: split_on_no_sep)

lemma parse_canonical_pair: "parse_pair (escape k @ ''='' @ escape v) = Some (k, v)"
proof -
  have "takeWhile (\<lambda>c. c \<noteq> CHR ''='') (xs @ CHR ''='' # ys) = xs \<and> dropWhile (\<lambda>c. c \<noteq> CHR ''='') (xs @ CHR ''='' # ys) = CHR ''='' # ys"
    if "CHR ''='' \<notin> set xs" for xs ys using that by (induction xs) auto
  note cut = this [OF escape_no_reserved(2)]
  then show ?thesis
    using escape_no_reserved(3) [of k] escape_no_reserved(3) [of v] by (simp add: parse_pair_def cut_at_def cut unescape_escape)
qed

lemma parse_canonical_pairs:
  "List.map_filter parse_pair (split_on (CHR ''&'') (join_with ''&'' (map (\<lambda>(k, v). escape k @ ''='' @ escape v) ps))) = ps"
proof (cases "ps = []")
  case True
  then show ?thesis by (simp add: parse_pair_def List.map_filter_simps)
next
  case False
  have "split_on (CHR ''&'') (join_with ''&'' (map (\<lambda>(k, v). escape k @ ''='' @ escape v) ps)) = map (\<lambda>(k, v). escape k @ ''='' @ escape v) ps"
    using False escape_no_reserved(1) by (intro split_join) auto
  moreover have "List.map_filter parse_pair (map (\<lambda>(k, v). escape k @ ''='' @ escape v) ps) = ps"
    by (induction ps) (auto simp: List.map_filter_simps parse_canonical_pair simp del: append_Cons)
  ultimately show ?thesis by simp
qed

lemma ParseQuery_distinct: "distinct (map fst (ParseQuery raw))"
  by (simp add: ParseQuery_def mm_fold_keys(2))

lemma ParseQuery_values_nonempty: "k \<in> fst ` set (ParseQuery raw) \<Longrightarrow> values_of (ParseQuery raw) k \<noteq> []"
  by (auto simp: ParseQuery_def mm_fold_keys(1) mm_fold_values filter_empty_conv)

lemma values_of_absent: "k \<notin> fst ` set m \<Longrightarrow> values_of m k = []"
  by (force simp: values_of_def dest: map_of_SomeD split: option.splits)

lemma values_of_Nil [simp]: "values_of [] k = []"
  by (simp add: values_of_def)

lemma canonical_pairs_filter:
  assumes "distinct (map fst m)"
  shows "map snd (filter (\<lambda>p. fst p = k) (canonical_pairs m)) = sort (values_of m k)"
proof -
  have "map snd (filter (\<lambda>p. fst p = k) (concat (map (\<lambda>k. map (Pair k) (f k)) ks))) = (if k \<in> set ks then f k else [])"
    if "distinct ks" for ks and f :: "string \<Rightarrow> string list"
    using that
  proof (induction ks)
    case (Cons a ks)
    then show ?case by (cases "a = k") (auto simp: filter_map comp_def)
  qed simp
  then show ?thesis using assms by (simp add: canonical_pairs_def values_of_absent)
qed

lemma ParseQuery_pairs: "ParseQuery (join_with ''&'' (map (\<lambda>(k, v). escape k @ ''='' @ escape v) ps)) = fold mm_add ps []"
  by (simp only: ParseQuery_def parse_canonical_pairs)

lemma ParseQuery_canonical: "ParseQuery (CanonicalQueryString raw) = fold mm_add (canonical_pairs (ParseQuery raw)) []"
  by (simp only: CanonicalQueryString_def ParseQuery_pairs)

text \<open>The canonical query denotes the same values, sorted, for the same keys.\<close>

lemma canonical_values: "values_of (ParseQuery (CanonicalQueryString raw)) k = sort (values_of (ParseQuery raw) k)"
  by (simp add: ParseQuery_canonical mm_fold_values canonical_pairs_filter [OF ParseQuery_distinct])

lemma pairs_keys: "fst ` set (concat (map (\<lambda>k. map (Pair k) (f k)) ks)) = {k \<in> set ks. f k \<noteq> []}"
  by (induction ks) (auto simp: image_Un image_image image_constant_conv)

lemma canonical_keys: "fst ` set (ParseQuery (CanonicalQueryString raw)) = fst ` set (ParseQuery raw)"
proof -
  have "sort (values_of (ParseQuery raw) k) = [] \<longleftrightarrow> values_of (ParseQuery raw) k = []" for k
    by (metis set_empty set_sort)
  then have "fst ` set (ParseQuery (CanonicalQueryString raw)) = {k \<in> fst ` set (ParseQuery raw). values_of (ParseQuery raw) k \<noteq> []}"
    unfolding ParseQuery_canonical mm_fold_keys(1) canonical_pairs_def pairs_keys by simp
  then show ?thesis using ParseQuery_values_nonempty by blast
qed

lemma canonical_query_idem: "CanonicalQueryString (CanonicalQueryString raw) = CanonicalQueryString raw"
proof -
  have "sort (map fst (ParseQuery (CanonicalQueryString raw))) = sort (map fst (ParseQuery raw))"
    using canonical_keys by (intro sorted_distinct_set_unique) (simp_all add: ParseQuery_distinct)
  then have "canonical_pairs (ParseQuery (CanonicalQueryString raw)) = canonical_pairs (ParseQuery raw)"
    by (simp add: canonical_pairs_def canonical_values sorted_sort_id)
  then show ?thesis by (metis CanonicalQueryString_def)
qed

subsection \<open>The canonical request\<close>

record signer_request =
  sr_Method :: string
  sr_Path :: string
  sr_RawQuery :: string
  sr_Host :: string
  sr_Header :: multimap
  sr_Body :: "(error + string) option"

record 't signer_env =
  se_sha256 :: "string \<Rightarrow> string"
  se_hmac :: "string \<Rightarrow> string \<Rightarrow> string"
  se_now :: 't
  se_format :: "'t \<Rightarrow> string"
  se_parse :: "string \<Rightarrow> 't option"

abbreviation (input) HeaderXDate :: string where "HeaderXDate \<equiv> ''X-Sdk-Date''"
abbreviation (input) HeaderAuthorization :: string where "HeaderAuthorization \<equiv> ''Authorization''"
abbreviation (input) HeaderContentSha256 :: string where "HeaderContentSha256 \<equiv> ''X-Sdk-Content-Sha256''"
abbreviation (input) Algorithm :: string where "Algorithm \<equiv> ''SDK-HMAC-SHA256''"
abbreviation (input) newline :: string where "newline \<equiv> [CHR 0x0A]"

definition header_Get :: "signer_request \<Rightarrow> string \<Rightarrow> string" where
  "header_Get r key = (case values_of (sr_Header r) key of [] \<Rightarrow> [] | v # _ \<Rightarrow> v)"

definition header_Set :: "string \<Rightarrow> string \<Rightarrow> signer_request \<Rightarrow> signer_request" where
  "header_Set key v r = r\<lparr>sr_Header := AList.update key [v] (sr_Header r)\<rparr>"

definition hex_lower :: "string \<Rightarrow> string" where
  "hex_lower bytes = concat (map (\<lambda>c. [''0123456789abcdef'' ! (of_char c div 16), ''0123456789abcdef'' ! (of_char c mod 16)]) bytes)"

definition CanonicalURI :: "signer_request \<Rightarrow> string" where
  "CanonicalURI r =
     (let urlpath = join_with ''/'' (map escape (split_on (CHR ''/'') (sr_Path r))) in
      if length urlpath = 0 \<or> last urlpath \<noteq> CHR ''/'' then urlpath @ ''/'' else urlpath)"

text \<open>\<open>sort.Strings\<close> sorts the slice it is given, here a fresh one for the host and the header's own otherwise.\<close>

definition header_values :: "signer_request \<Rightarrow> string \<Rightarrow> string list" where
  "header_values r key =
     (if equal_fold key ''host'' then [sr_Host r] else sort (values_of (map (\<lambda>(k, v). (to_lower k, v)) (sr_Header r)) key))"

definition CanonicalHeaders :: "signer_request \<Rightarrow> string list \<Rightarrow> string" where
  "CanonicalHeaders r signerHeaders =
     join_with newline (concat (map (\<lambda>key. map (\<lambda>v. key @ '':'' @ trim_space v) (header_values r key)) signerHeaders)) @ newline"

definition sort_signed :: "string list \<Rightarrow> signer_request \<Rightarrow> signer_request" where
  "sort_signed signerHeaders r = r\<lparr>sr_Header := map (\<lambda>(k, v).
     (k, if to_lower k \<in> set signerHeaders \<and> \<not> equal_fold k ''host'' then sort v else v)) (sr_Header r)\<rparr>"

definition SignedHeaders :: "signer_request \<Rightarrow> string list" where
  "SignedHeaders r = sort (map (\<lambda>kv. to_lower (fst kv)) (sr_Header r))"

definition RequestPayload :: "signer_request \<Rightarrow> error + string" where
  "RequestPayload r = (case sr_Body r of None \<Rightarrow> Inr [] | Some b \<Rightarrow> b)"

definition HexEncodeSHA256Hash :: "'t signer_env \<Rightarrow> string \<Rightarrow> string" where
  "HexEncodeSHA256Hash E body = hex_lower (se_sha256 E body)"

text \<open>Building the request text rewrites the query and sorts header values; a body that was read can be read again.\<close>

definition CanonicalRequest :: "'t signer_env \<Rightarrow> signer_request \<Rightarrow> string list \<Rightarrow> error + (string \<times> signer_request)" where
  "CanonicalRequest E r signedHeaders =
     (let hex = header_Get r HeaderContentSha256;
          hash = (if hex \<noteq> [] then Inr hex
                  else case RequestPayload r of Inl e \<Rightarrow> Inl e | Inr data \<Rightarrow> Inr (HexEncodeSHA256Hash E data))
      in case hash of
           Inl e \<Rightarrow> Inl e
         | Inr hexencode \<Rightarrow>
             Inr (join_with newline [sr_Method r, CanonicalURI r, CanonicalQueryString (sr_RawQuery r), CanonicalHeaders r signedHeaders,
                    join_with '';'' signedHeaders, hexencode],
                  sort_signed signedHeaders (r\<lparr>sr_RawQuery := CanonicalQueryString (sr_RawQuery r)\<rparr>)))"

subsection \<open>The signature\<close>

record Signer =
  sg_Key :: string
  sg_Secret :: string

definition StringToSign :: "'t signer_env \<Rightarrow> string \<Rightarrow> 't \<Rightarrow> string" where
  "StringToSign E canonicalRequest t =
     Algorithm @ newline @ se_format E t @ newline @ hex_lower (se_sha256 E canonicalRequest)"

definition SignStringToSign :: "'t signer_env \<Rightarrow> string \<Rightarrow> string \<Rightarrow> string" where
  "SignStringToSign E stringToSign signingKey = hex_lower (se_hmac E signingKey stringToSign)"

definition AuthHeaderValue :: "string \<Rightarrow> string \<Rightarrow> string list \<Rightarrow> string" where
  "AuthHeaderValue signature accessKey signedHeaders =
     Algorithm @ '' Access='' @ accessKey @ '', SignedHeaders='' @ join_with '';'' signedHeaders @ '', Signature='' @ signature"

text \<open>The time of the request: that of its date header if there is one that parses, else now, which is then written to the header.\<close>

definition sign_time :: "'t signer_env \<Rightarrow> signer_request \<Rightarrow> 't \<times> signer_request" where
  "sign_time E r =
     (let dt = header_Get r HeaderXDate in
      case (if dt \<noteq> [] then se_parse E dt else None) of
        Some t \<Rightarrow> (t, r)
      | None \<Rightarrow> (se_now E, header_Set HeaderXDate (se_format E (se_now E)) r))"

definition Sign :: "'t signer_env \<Rightarrow> Signer \<Rightarrow> signer_request \<Rightarrow> error + signer_request" where
  "Sign E s r =
     (let (t, r1) = sign_time E r; signedHeaders = SignedHeaders r1
      in case CanonicalRequest E r1 signedHeaders of
           Inl e \<Rightarrow> Inl e
         | Inr (canonicalRequest, r2) \<Rightarrow>
             let signature = SignStringToSign E (StringToSign E canonicalRequest t) (sg_Secret s)
             in Inr (header_Set HeaderAuthorization (AuthHeaderValue signature (sg_Key s) signedHeaders) r2))"

subsection \<open>A signed request verifies\<close>

lemma to_lower_char_idem: "to_lower_char (to_lower_char c) = to_lower_char c"
  by (auto simp: to_lower_char_def)

lemma to_lower_idem [simp]: "to_lower (to_lower s) = to_lower s"
  by (simp add: to_lower_def to_lower_char_idem)

lemma values_of_update: "values_of (AList.update k v m) j = (if j = k then v else values_of m j)"
  by (simp add: values_of_def AList.update_conv')

lemma values_of_sorted:
  "values_of (map (\<lambda>(k, v). (k, if b k then sort v else v)) m) j = (if b j then sort (values_of m j) else values_of m j)"
  by (induction m) (auto simp: values_of_def)

lemma values_of_lower:
  "inj_on to_lower (insert k (fst ` set m)) \<Longrightarrow> values_of (map (\<lambda>(k, v). (to_lower k, v)) m) (to_lower k) = values_of m k"
proof (induction m)
  case (Cons kv m)
  then have "inj_on to_lower (insert k (fst ` set m))" "to_lower k = to_lower (fst kv) \<longleftrightarrow> k = fst kv"
    by (auto simp: inj_on_def)
  with Cons.IH show ?case by (cases kv) (auto simp: values_of_def)
qed simp

lemma sort_signed_sel [simp]:
  "sr_Method (sort_signed hs r) = sr_Method r" "sr_Path (sort_signed hs r) = sr_Path r" "sr_RawQuery (sort_signed hs r) = sr_RawQuery r"
  "sr_Host (sort_signed hs r) = sr_Host r" "sr_Body (sort_signed hs r) = sr_Body r"
  "fst ` set (sr_Header (sort_signed hs r)) = fst ` set (sr_Header r)"
  by (auto simp: sort_signed_def image_image case_prod_beta)

lemma header_Set_sel [simp]:
  "sr_Method (header_Set k v r) = sr_Method r" "sr_Path (header_Set k v r) = sr_Path r" "sr_RawQuery (header_Set k v r) = sr_RawQuery r"
  "sr_Host (header_Set k v r) = sr_Host r" "sr_Body (header_Set k v r) = sr_Body r"
  "sr_Header (header_Set k v r) = AList.update k [v] (sr_Header r)"
  by (simp_all add: header_Set_def)

text \<open>The request as it is sent: the canonical query, sorted header values and the authorization added.\<close>

definition sent :: "string list \<Rightarrow> string \<Rightarrow> signer_request \<Rightarrow> signer_request" where
  "sent hs auth r = header_Set HeaderAuthorization auth (sort_signed hs (r\<lparr>sr_RawQuery := CanonicalQueryString (sr_RawQuery r)\<rparr>))"

lemma sent_values:
  "k \<noteq> HeaderAuthorization \<Longrightarrow> values_of (sr_Header (sent hs auth r)) k =
     (if to_lower k \<in> set hs \<and> \<not> equal_fold k ''host'' then sort (values_of (sr_Header r) k) else values_of (sr_Header r) k)"
  by (simp add: sent_def values_of_update sort_signed_def values_of_sorted)

lemma sent_keys: "fst ` set (sr_Header (sent hs auth r)) = insert HeaderAuthorization (fst ` set (sr_Header r))"
  by (simp add: sent_def AList.dom_update)

lemma sent_Host: "sr_Host (sent hs auth r) = sr_Host r"
  by (simp add: sent_def)

lemma sent_Get:
  assumes "length (values_of (sr_Header r) k) \<le> 1" "k \<noteq> HeaderAuthorization"
  shows "header_Get (sent hs auth r) k = header_Get r k"
proof -
  have "sort vs = vs" if "length vs \<le> 1" for vs :: "string list" using that by (cases vs) auto
  with assms show ?thesis by (simp add: header_Get_def sent_values)
qed

lemma sent_header_values:
  assumes "inj_on to_lower (insert HeaderAuthorization (fst ` set (sr_Header r)))" "HeaderAuthorization \<notin> fst ` set (sr_Header r)"
    and "key \<in> set (SignedHeaders r)"
  shows "header_values (sent (SignedHeaders r) auth r) key = header_values r key"
proof -
  obtain k where k: "key = to_lower k" "k \<in> fst ` set (sr_Header r)" using assms(3) by (auto simp: SignedHeaders_def)
  then have ne: "k \<noteq> HeaderAuthorization" using assms(2) by metis
  have inj: "inj_on to_lower (insert k (fst ` set (sr_Header r)))" "inj_on to_lower (insert k (fst ` set (sr_Header (sent (SignedHeaders r) auth r))))"
    using assms(1) k(2) by (auto simp: sent_keys insert_absorb intro: inj_on_subset)
  show ?thesis
    using assms(3) ne values_of_lower [OF inj(1)] values_of_lower [OF inj(2)]
    by (simp only: header_values_def k(1) sent_values equal_fold_def sent_Host) (simp add: sent_values equal_fold_def sorted_sort_id)
qed

lemma sent_canonical:
  assumes "inj_on to_lower (insert HeaderAuthorization (fst ` set (sr_Header r)))" "HeaderAuthorization \<notin> fst ` set (sr_Header r)"
    and "length (values_of (sr_Header r) HeaderContentSha256) \<le> 1"
    and "CanonicalRequest E r (SignedHeaders r) = Inr (canon, r2)"
  shows "\<exists>r3. CanonicalRequest E (sent (SignedHeaders r) auth r) (SignedHeaders r) = Inr (canon, r3)"
proof -
  let ?r = "sent (SignedHeaders r) auth r"
  have headers: "CanonicalHeaders ?r (SignedHeaders r) = CanonicalHeaders r (SignedHeaders r)"
    using sent_header_values [OF assms(1,2)] by (simp add: CanonicalHeaders_def cong: map_cong)
  have get: "header_Get ?r HeaderContentSha256 = header_Get r HeaderContentSha256" using assms(3) by (simp add: sent_Get)
  have same: "sr_Method ?r = sr_Method r" "CanonicalURI ?r = CanonicalURI r" "RequestPayload ?r = RequestPayload r"
    "CanonicalQueryString (sr_RawQuery ?r) = CanonicalQueryString (sr_RawQuery r)"
    by (simp_all add: sent_def CanonicalURI_def RequestPayload_def canonical_query_idem)
  show ?thesis using assms(4) unfolding CanonicalRequest_def Let_def headers get same by (auto split: sum.splits)
qed

text \<open>What the gateway checks: the authorization is the one recomputed from the request, its date header and the listed headers.\<close>

definition verifies :: "'t signer_env \<Rightarrow> Signer \<Rightarrow> string list \<Rightarrow> signer_request \<Rightarrow> bool" where
  "verifies E s hs r = (case CanonicalRequest E r hs of
       Inl e \<Rightarrow> False
     | Inr (canon, _) \<Rightarrow> header_Get r HeaderAuthorization =
         AuthHeaderValue (hex_lower (se_hmac E (sg_Secret s)
           (Algorithm @ newline @ header_Get r HeaderXDate @ newline @ hex_lower (se_sha256 E canon)))) (sg_Key s) hs)"

definition fresh_request :: "signer_request \<Rightarrow> bool" where
  "fresh_request r \<longleftrightarrow> inj_on to_lower ({HeaderXDate, HeaderAuthorization} \<union> fst ` set (sr_Header r)) \<and>
     HeaderAuthorization \<notin> fst ` set (sr_Header r) \<and>
     length (values_of (sr_Header r) HeaderXDate) \<le> 1 \<and> length (values_of (sr_Header r) HeaderContentSha256) \<le> 1"

lemma fresh_request_facts:
  assumes "fresh_request r"
  shows "inj_on to_lower (insert HeaderAuthorization (fst ` set (sr_Header r)))" "HeaderAuthorization \<notin> fst ` set (sr_Header r)"
    "length (values_of (sr_Header r) HeaderContentSha256) \<le> 1" "length (values_of (sr_Header r) HeaderXDate) \<le> 1"
proof -
  have "inj_on to_lower ({HeaderXDate, HeaderAuthorization} \<union> fst ` set (sr_Header r))"
    using assms unfolding fresh_request_def by blast
  then show "inj_on to_lower (insert HeaderAuthorization (fst ` set (sr_Header r)))" by (rule inj_on_subset) blast
qed (use assms in \<open>simp_all add: fresh_request_def\<close>)

lemma sign_time_fresh:
  assumes "fresh_request r" and "sign_time E r = (t, r1)" 
    and "\<And>t. header_Get r HeaderXDate \<noteq> [] \<Longrightarrow> se_parse E (header_Get r HeaderXDate) = Some t \<Longrightarrow> se_format E t = header_Get r HeaderXDate"
  shows "fresh_request r1 \<and> header_Get r1 HeaderXDate = se_format E t \<and> insert HeaderXDate (fst ` set (sr_Header r)) = fst ` set (sr_Header r1)"
proof (cases "if header_Get r HeaderXDate \<noteq> [] then se_parse E (header_Get r HeaderXDate) else None")
  case None
  with assms(2) have "t = se_now E" "r1 = header_Set HeaderXDate (se_format E (se_now E)) r"
    by (auto simp: sign_time_def Let_def)
  moreover have "{HeaderXDate, HeaderAuthorization} \<union> ({HeaderXDate} \<union> X) = {HeaderXDate, HeaderAuthorization} \<union> X" for X by blast
  ultimately show ?thesis
    using assms(1) by (simp add: fresh_request_def header_Get_def values_of_update AList.dom_update del: inj_on_insert)
next
  case (Some t')
  with assms(2,3) have r: "r1 = r" "t' = t" "header_Get r HeaderXDate = se_format E t" "header_Get r HeaderXDate \<noteq> []"
    by (auto simp: sign_time_def Let_def split: if_splits)
  have "header_Get r HeaderXDate = []" if "HeaderXDate \<notin> fst ` set (sr_Header r)"
    using values_of_absent [OF that] by (simp add: header_Get_def)
  then have "HeaderXDate \<in> fst ` set (sr_Header r)" using r(4) by blast
  then show ?thesis using r assms(1) by (simp add: insert_absorb)
qed

lemma Sign_verifies:
  assumes "fresh_request r" and "Sign E s r = Inr r'"
    and "\<And>t. header_Get r HeaderXDate \<noteq> [] \<Longrightarrow> se_parse E (header_Get r HeaderXDate) = Some t \<Longrightarrow> se_format E t = header_Get r HeaderXDate"
  shows "\<exists>hs. verifies E s hs r' \<and> ''x-sdk-date'' \<in> set hs \<and> to_lower ` fst ` set (sr_Header r) \<subseteq> set hs"
proof -
  obtain t r1 where st: "sign_time E r = (t, r1)" by (cases "sign_time E r")
  note f = sign_time_fresh [OF assms(1) st assms(3)]
  let ?hs = "SignedHeaders r1"
  obtain canon r2 where c: "CanonicalRequest E r1 ?hs = Inr (canon, r2)"
    using assms(2) by (auto simp: Sign_def st Let_def split: sum.splits)
  define auth where "auth = AuthHeaderValue (SignStringToSign E (StringToSign E canon t) (sg_Secret s)) (sg_Key s) ?hs"
  have r': "r' = sent ?hs auth r1"
    using assms(2) c by (auto simp: Sign_def st auth_def sent_def CanonicalRequest_def Let_def split: sum.splits)
  note fresh = fresh_request_facts [OF conjunct1 [OF f]]
  obtain r3 where "CanonicalRequest E r' ?hs = Inr (canon, r3)"
    using sent_canonical [OF fresh(1-3) c] r' by blast
  moreover have "header_Get r' HeaderXDate = se_format E t" using f fresh(4) by (simp add: r' sent_Get)
  moreover have "header_Get r' HeaderAuthorization = auth" by (simp add: r' sent_def header_Get_def values_of_update)
  ultimately have "verifies E s ?hs r'" by (simp add: verifies_def auth_def SignStringToSign_def StringToSign_def)
  moreover have "set ?hs = to_lower ` fst ` set (sr_Header r1)" by (simp add: SignedHeaders_def image_image)
  moreover have "to_lower HeaderXDate = ''x-sdk-date''" by code_simp
  ultimately show ?thesis using f by (metis image_mono imageI insertI1 subset_insertI)
qed

text \<open>An unsigned request whose body can be read is always signed.\<close>

lemma Sign_succeeds: "sr_Body r = map_option Inr b \<Longrightarrow> \<exists>r'. Sign E s r = Inr r'"
proof -
  assume "sr_Body r = map_option Inr b"
  moreover obtain t r1 where st: "sign_time E r = (t, r1)" by (cases "sign_time E r")
  moreover from st have "sr_Body r1 = sr_Body r" by (auto simp: sign_time_def Let_def split: option.splits)
  ultimately show ?thesis by (auto simp: Sign_def CanonicalRequest_def RequestPayload_def Let_def split: option.splits)
qed

subsection \<open>The requests of \<open>http.go\<close>\<close>

text \<open>
  The part of \<open>DoRequest\<close> between building and sending a request. \<open>http.NewRequest\<close> has split the address into path, query
  and host; it sets no header.
\<close>

fun method_text :: "http_method \<Rightarrow> string" where
  "method_text MethodGet = ''GET''"
| "method_text MethodPost = ''POST''"
| "method_text MethodPut = ''PUT''"
| "method_text MethodDelete = ''DELETE''"

definition new_http_request :: "http_method \<Rightarrow> string \<Rightarrow> string \<Rightarrow> string \<Rightarrow> string option \<Rightarrow> signer_request" where
  "new_http_request meth path query host body =
     \<lparr>sr_Method = method_text meth, sr_Path = path, sr_RawQuery = query, sr_Host = host, sr_Header = [], sr_Body = map_option Inr body\<rparr>"

definition sign_http_request :: "'t signer_env \<Rightarrow> ServiceClient \<Rightarrow> signer_request \<Rightarrow> error + signer_request" where
  "sign_http_request E service req =
     (let req = header_Set ''User-Agent'' ''huaweicloud-kubernetes-ccm'' req in
      case sc_Access service of
        None \<Rightarrow> Inr req
      | Some access \<Rightarrow>
          (let sign = \<lparr>sg_Key = ai_AccessKey access, sg_Secret = ai_SecretKey access\<rparr>;
               req = header_Set ''X-Project-Id'' (sc_TenantId service) req;
               req = (if ai_SecurityToken access \<noteq> [] then header_Set ''X-Security-Token'' (ai_SecurityToken access) req else req)
           in case Sign E sign req of
                Inl e \<Rightarrow> Inl (Errorf (''DoRequest failed to get sign key '' @ err_text e))
              | Inr req \<Rightarrow> Inr req))"

text \<open>
  C35. A request that was not signed before and has no repeated date, hash or differently capitalised header: what \<open>Sign\<close> puts
  in the authorization header is what a verifier recomputes from the request as it is sent, with the query it rewrote and the
  date it may have added; the signature covers the date header and every header the caller set. A date header the caller set
  has to be in the form the signer writes.
\<close>

theorem signed_request_verifies:
  assumes "fresh_request r" and "Sign E s r = Inr r'"
    and "\<And>t. header_Get r HeaderXDate \<noteq> [] \<Longrightarrow> se_parse E (header_Get r HeaderXDate) = Some t \<Longrightarrow> se_format E t = header_Get r HeaderXDate"
  shows "\<exists>hs. verifies E s hs r' \<and> ''x-sdk-date'' \<in> set hs \<and> to_lower ` fst ` set (sr_Header r) \<subseteq> set hs"
  using assms by (rule Sign_verifies)

definition demo_env :: "string signer_env" where
  "demo_env = \<lparr>se_sha256 = (\<lambda>s. [char_of (length s)]), se_hmac = (\<lambda>k s. [char_of (length k + length s)]),
     se_now = ''20240102T030405Z'', se_format = (\<lambda>t. t), se_parse = Some\<rparr>"

definition demo_request :: signer_request where
  "demo_request = \<lparr>sr_Method = ''GET'', sr_Path = ''/v2/a b'', sr_RawQuery = ''b=2&a=1&b=1'', sr_Host = ''elb'',
     sr_Header = [(''X-Project'', [''p''])], sr_Body = None\<rparr>"

definition demo_signed :: signer_request where
  "demo_signed = (case Sign demo_env \<lparr>sg_Key = ''ak'', sg_Secret = ''sk''\<rparr> demo_request of Inr r \<Rightarrow> r | Inl _ \<Rightarrow> demo_request)"

theorem signed_request_verifies_witness:
  "sr_RawQuery demo_signed = ''a=1&b=1&b=2'' \<and>
   (\<exists>hs. verifies demo_env \<lparr>sg_Key = ''ak'', sg_Secret = ''sk''\<rparr> hs demo_signed \<and> ''x-sdk-date'' \<in> set hs \<and>
     to_lower ` fst ` set (sr_Header demo_request) \<subseteq> set hs)"
proof
  show "sr_RawQuery demo_signed = ''a=1&b=1&b=2''" by code_simp
  have "fresh_request demo_request"
    by (simp add: fresh_request_def demo_request_def values_of_def to_lower_def to_lower_char_def)
  moreover have "Sign demo_env \<lparr>sg_Key = ''ak'', sg_Secret = ''sk''\<rparr> demo_request = Inr demo_signed"
    by (simp add: demo_signed_def Sign_def CanonicalRequest_def RequestPayload_def demo_request_def sign_time_def header_Get_def header_Set_def
        demo_env_def values_of_def Let_def)
  ultimately show "\<exists>hs. verifies demo_env \<lparr>sg_Key = ''ak'', sg_Secret = ''sk''\<rparr> hs demo_signed \<and> ''x-sdk-date'' \<in> set hs \<and>
     to_lower ` fst ` set (sr_Header demo_request) \<subseteq> set hs"
    by (rule signed_request_verifies) (simp add: demo_env_def)
qed

lemma Sign_body:
  assumes "Sign E s r = Inr r'"
  shows "sr_Body r' = sr_Body r"
  using assms
  by (auto simp: Sign_def CanonicalRequest_def sign_time_def header_Set_def sort_signed_def Let_def split: sum.splits prod.splits if_splits option.splits)

text \<open>What is sent keeps the body it was built with, and is signed.\<close>

lemma http_request_signed:
  "\<exists>r' hs. sign_http_request E \<lparr>sc_Endpoint = endpoint, sc_Access = Some access, sc_TenantId = tenant\<rparr>
       (new_http_request meth path query host body) = Inr r' \<and> sr_Body r' = map_option Inr body \<and>
     verifies E \<lparr>sg_Key = ai_AccessKey access, sg_Secret = ai_SecretKey access\<rparr> hs r' \<and>
     {''x-sdk-date'', ''x-project-id''} \<union> (if ai_SecurityToken access = [] then {} else {''x-security-token''}) \<subseteq> set hs"
proof -
  define s where "s = \<lparr>sg_Key = ai_AccessKey access, sg_Secret = ai_SecretKey access\<rparr>"
  define r where "r = (new_http_request meth path query host body)\<lparr>sr_Header := [(''User-Agent'', [''huaweicloud-kubernetes-ccm'']),
    (''X-Project-Id'', [tenant])] @ (if ai_SecurityToken access = [] then [] else [(''X-Security-Token'', [ai_SecurityToken access])])\<rparr>"
  have send: "sign_http_request E \<lparr>sc_Endpoint = endpoint, sc_Access = Some access, sc_TenantId = tenant\<rparr>
       (new_http_request meth path query host body) = Inr r'" if "Sign E s r = Inr r'" for r'
    using that by (auto simp: sign_http_request_def r_def s_def new_http_request_def header_Set_def Let_def)
  obtain r' where r': "Sign E s r = Inr r'"
    using Sign_succeeds [of r body] by (auto simp: r_def new_http_request_def)
  have "fresh_request r" by (auto simp: fresh_request_def r_def values_of_def to_lower_def to_lower_char_def)
  moreover have "header_Get r HeaderXDate = []" by (simp add: header_Get_def r_def values_of_def)
  ultimately obtain hs where hs: "verifies E s hs r'" "''x-sdk-date'' \<in> set hs" "to_lower ` fst ` set (sr_Header r) \<subseteq> set hs"
    using Sign_verifies [OF _ r'] by metis
  have "to_lower ''X-Project-Id'' = ''x-project-id''" "to_lower ''X-Security-Token'' = ''x-security-token''" by code_simp+
  with hs have "{''x-sdk-date'', ''x-project-id''} \<union> (if ai_SecurityToken access = [] then {} else {''x-security-token''}) \<subseteq> set hs"
    by (auto simp: r_def split: if_splits)
  moreover have "sr_Body r' = map_option Inr body" using Sign_body [OF r'] by (simp add: r_def new_http_request_def)
  ultimately show ?thesis using send [OF r'] hs(1) unfolding s_def by blast
qed

text \<open>
  C34. Every request the NAT and version 1 ELB clients send goes out signed: signing cannot fail, the authorization is the one a
  verifier recomputes from the request as it is sent, and it covers the date, the project and, with temporary credentials, the token.
\<close>

theorem http_requests_verify:
  "\<exists>r' hs. sign_http_request E \<lparr>sc_Endpoint = endpoint, sc_Access = Some access, sc_TenantId = tenant\<rparr>
       (new_http_request meth path query host body) = Inr r' \<and>
     verifies E \<lparr>sg_Key = ai_AccessKey access, sg_Secret = ai_SecretKey access\<rparr> hs r' \<and>
     {''x-sdk-date'', ''x-project-id''} \<union> (if ai_SecurityToken access = [] then {} else {''x-security-token''}) \<subseteq> set hs"
  using http_request_signed by metis

text \<open>
  C36. The two-pass escaping into a counted buffer gives byte by byte escaping, and the standard library's unescaping reads
  back the text.
\<close>

theorem escape_matches_reference:
  "escape s = concat (map escape_byte s) \<and> QueryUnescape (escape s) = Some s"
  by (simp add: escape_bytes unescape_escape [unfolded escape_bytes])

end
