(* ===== verification/Provider_Process.thy ===== *)
theory Provider_Process
  imports Cloud_Provider Elb1_Cloud Nat_Cloud Execute_Pool
begin

text \<open>
  The process around the provider, from \<open>huaweicloud.go\<close> and \<open>pkg/config\<close>: reading the configuration and building the
  provider with its four load balancers, the answers to \<open>k8s.io/cloud-provider\<close>, and the callbacks of the leader
  election that start and stop the listeners. The files, the config map, the client of the cluster, the options of the
  controller manager and the host name are the record \<open>start_env\<close>. \<open>klog.Fatalf\<close> ends the process.
\<close>

subsection \<open>Start-up\<close>

record start_env =
  st_gcfg :: "string \<Rightarrow> error + CloudConfig"
  st_inClusterConfig :: "error option"
  st_newForConfig :: "error option"
  st_configMap :: "string \<Rightarrow> string \<Rightarrow> error + (string \<rightharpoonup> string)"
  st_ccmOptions :: "error option"
  st_hostname :: "error + string"

definition ReadConfig :: "start_env \<Rightarrow> string option \<Rightarrow> error + CloudConfig" where
  "ReadConfig S cfg = (case cfg of
      None \<Rightarrow> Inl (Errorf ''Must provide a config file'')
    | Some f \<Rightarrow> (case st_gcfg S f of Inl e \<Rightarrow> Inl e | Inr cc \<Rightarrow> Inr (setDefaultConfig cc)))"

definition getKubeClient :: "start_env \<Rightarrow> error option" where
  "getKubeClient S = (case st_inClusterConfig S of Some e \<Rightarrow> Some e | None \<Rightarrow> st_newForConfig S)"

definition newKubeClient :: "start_env \<Rightarrow> error option" where
  "newKubeClient S = (case st_inClusterConfig S of
      Some e \<Rightarrow> Some (Errorf (''initial cluster configuration failed with error: '' @ err_text e))
    | None \<Rightarrow> (case st_newForConfig S of
        Some e \<Rightarrow> Some (Errorf (''create kubeClient failed with error: '' @ err_text e))
      | None \<Rightarrow> None))"

text \<open>The configuration comes with an error when it is the default because the config map could not be read.\<close>

definition LoadElbConfigFromCM :: "start_env \<Rightarrow> codecs \<Rightarrow> LoadbalancerConfig \<times> error option" where
  "LoadElbConfigFromCM S cd = (case getKubeClient S of
      Some e \<Rightarrow> (NewDefaultELBConfig, Some e)
    | None \<Rightarrow> (case st_configMap S ''huawei-cloud-provider'' ''loadbalancer-config'' of
        Inr data \<Rightarrow> (LoadELBConfig cd data, None)
      | Inl _ \<Rightarrow> (case st_configMap S ''kube-system'' ''loadbalancer-config'' of
          Inr data \<Rightarrow> (LoadELBConfig cd data, None)
        | Inl e \<Rightarrow> (NewDefaultELBConfig, Some e))))"

datatype 'a startup = Started 'a | Failed error | Exited string

definition start_basic :: "CloudConfig \<Rightarrow> LoadbalancerConfig \<Rightarrow> 'w api \<Rightarrow> codecs \<Rightarrow> 'w Basic" where
  "start_basic cc elbCfg A cd = \<lparr>cloudConfig = cc, loadbalancerOpts = LoadBalancerOpts elbCfg, networkingOpts = NetworkingOpts elbCfg,
     metadataOpts = MetadataOpts elbCfg, clients = A, decoders = cd\<rparr>"

text \<open>What the two HTTP providers take from outside: decoders, the order of goroutines and maps, the cluster and the ticks of a wait.\<close>

record http_settings =
  hs_json :: json_decoders
  hs_Schedule :: "elb_task list"
  hs_Range :: "tempServicePort list \<Rightarrow> tempServicePort list"
  hs_ClusterID :: string
  hs_Ticks :: nat

definition elb_cloud :: "http_settings \<Rightarrow> 'w Basic \<Rightarrow> 'w ELBCloud" where
  "elb_cloud H basic = \<lparr>ec_Basic = basic, ec_json = hs_json H, ec_Schedule = hs_Schedule H, ec_Range = hs_Range H\<rparr>"

definition nat_cloud :: "http_settings \<Rightarrow> 'w Basic \<Rightarrow> 'w NATCloud" where
  "nat_cloud H basic = \<lparr>nc_Basic = basic, nc_json = hs_json H, nc_ClusterID = hs_ClusterID H, nc_Ticks = hs_Ticks H\<rparr>"

definition start_cloud :: "start_env \<Rightarrow> http_settings \<Rightarrow> 'w api \<Rightarrow> codecs \<Rightarrow> string option \<Rightarrow> 'w CloudProvider startup" where
  "start_cloud S H A cd cfg = (case cfg of
      None \<Rightarrow> Failed (Errorf ''huaweicloud provider config is nil'')
    | Some f \<Rightarrow> (case ReadConfig S (Some f) of
        Inl e \<Rightarrow> Exited (''failed to read AuthOpts CloudConfig: '' @ err_text e)
      | Inr cc \<Rightarrow>
          let elbCfg = fst (LoadElbConfigFromCM S cd) in
          (case newKubeClient S of
             Some e \<Rightarrow> Failed e
           | None \<Rightarrow> (case st_ccmOptions S of
               Some e \<Rightarrow> Failed (Errorf (''failed to init CloudControllerManagerOptions: '' @ err_text e))
             | None \<Rightarrow>
                 let basic = start_basic cc elbCfg A cd in
                 (case st_hostname S of
                    Inl e \<Rightarrow> Failed (Errorf (''failed to elect leader in listener EndpointSlice : '' @ err_text e))
                  | Inr _ \<Rightarrow> Started (NewHWSCloud basic (ELBCloud_provider (elb_cloud H basic)) (NATCloud_provider (nat_cloud H basic))))))))"

subsection \<open>The interfaces the provider offers\<close>

text \<open>An interface is offered with its implementation, here the struct it embeds, or not at all.\<close>

definition cp_LoadBalancer :: "'w CloudProvider \<Rightarrow> 'w CloudProvider option" where
  "cp_LoadBalancer h = (if LoadBalancerClass (loadbalancerOpts (cp_Basic h)) \<noteq> [] then None else Some h)"

definition cp_Instances :: "'w CloudProvider \<Rightarrow> 'w Basic option" where
  "cp_Instances h =
     (if \<not> contains (InstanceVersion (AuthOpts (cloudConfig (cp_Basic h)))) ''v1'' then None else Some (cp_Basic h))"

definition cp_InstancesV2 :: "'w CloudProvider \<Rightarrow> 'w Basic option" where
  "cp_InstancesV2 h =
     (let version = InstanceVersion (AuthOpts (cloudConfig (cp_Basic h))) in
      if version = [] \<or> contains version ''v2'' then Some (cp_Basic h) else None)"

definition cp_Zones :: "'w CloudProvider \<Rightarrow> unit option" where
  "cp_Zones h = None"

definition cp_Routes :: "'w CloudProvider \<Rightarrow> unit option" where
  "cp_Routes h = None"

definition cp_Clusters :: "'w CloudProvider \<Rightarrow> 'w CloudProvider option" where
  "cp_Clusters h = Some h"

definition cp_ListClusters :: "'w CloudProvider \<Rightarrow> error + string list" where
  "cp_ListClusters h = Inr []"

definition cp_Master :: "'w CloudProvider \<Rightarrow> string \<Rightarrow> error + string" where
  "cp_Master h clusterName = Inr []"

definition cp_ExternalID :: "'w CloudProvider \<Rightarrow> string \<Rightarrow> error + string" where
  "cp_ExternalID h name = Inl NotImplemented"

definition cp_HasClusterID :: "'w CloudProvider \<Rightarrow> bool" where
  "cp_HasClusterID h = True"

subsection \<open>Starting the informers\<close>

text \<open>
  One attempt of \<open>startEndpointListener\<close>: the errors of listing the endpoints and of registering the two handlers. The
  informers that run are counted. \<open>False\<close> is a loop that has not ended within the attempts given; it has no bound.
\<close>

record start_attempt =
  sa_List :: "error option"
  sa_Endpoints :: "error option"
  sa_Services :: "error option"

fun start_informers :: "start_attempt list \<Rightarrow> nat \<times> nat \<Rightarrow> (nat \<times> nat) \<times> bool" where
  "start_informers [] (eps, svcs) = ((eps, svcs), False)"
| "start_informers (a # tries) (eps, svcs) =
     (if sa_List a \<noteq> None then start_informers tries (eps, svcs)
      else if sa_Endpoints a \<noteq> None then start_informers tries (eps, svcs)
      else if sa_Services a \<noteq> None then start_informers tries (eps + 1, svcs)
      else ((eps + 1, svcs + 1), True))"

text \<open>Once the cluster answers there is one informer of services; every failure to register its handler left one of endpoints behind.\<close>

lemma start_informers_count:
  "\<forall>a\<in>set tries. sa_List a \<noteq> None \<or> sa_Endpoints a \<noteq> None \<or> sa_Services a \<noteq> None \<Longrightarrow>
   start_informers (tries @ \<lparr>sa_List = None, sa_Endpoints = None, sa_Services = None\<rparr> # rest) (eps, svcs) =
     ((eps + 1 + length (filter (\<lambda>a. sa_List a = None \<and> sa_Endpoints a = None) tries), svcs + 1), True)"
  by (induction tries arbitrary: eps) auto

subsection \<open>Leadership\<close>

record 'j listeners =
  ls_goroutinePool :: "'j ExecutePool"
  ls_stopChannel :: "unit chan"
  ls_secStopChannel :: "unit chan"

definition new_listeners :: "'j listeners" where
  "new_listeners = \<lparr>ls_goroutinePool = NewExecutePool 5, ls_stopChannel = make_chan 1, ls_secStopChannel = make_chan 1\<rparr>"

definition stopListenerSlice :: "'j listeners \<Rightarrow> 'j listeners outcome" where
  "stopListenerSlice e = bind_outcome (chan_send (ls_stopChannel e) ()) (\<lambda>c. Done (e\<lparr>ls_stopChannel := c\<rparr>))"

definition stopSecurityGroupListener :: "'j listeners \<Rightarrow> 'j listeners outcome" where
  "stopSecurityGroupListener e = bind_outcome (chan_send (ls_secStopChannel e) ()) (\<lambda>c. Done (e\<lparr>ls_secStopChannel := c\<rparr>))"

definition onSuccess :: "'j listeners \<Rightarrow> 'j listeners outcome" where
  "onSuccess e = bind_outcome (Start (ls_goroutinePool e)) (\<lambda>p. Done (e\<lparr>ls_goroutinePool := p\<rparr>))"

definition onStop :: "'j listeners \<Rightarrow> 'j listeners outcome" where
  "onStop e =
     bind_outcome (Stop (ls_goroutinePool e)) (\<lambda>p.
     bind_outcome (stopListenerSlice (e\<lparr>ls_goroutinePool := p\<rparr>)) stopSecurityGroupListener)"

datatype leader_event = OnStartedLeading | OnStoppedLeading | OnNewLeader string

fun leaderElection :: "string \<Rightarrow> leader_event \<Rightarrow> 'j listeners \<Rightarrow> 'j listeners outcome" where
  "leaderElection hostname OnStartedLeading e = onSuccess e"
| "leaderElection hostname OnStoppedLeading e = onStop e"
| "leaderElection hostname (OnNewLeader identity) e = (if contains identity hostname then Done e else onStop e)"

text \<open>The callbacks interleave with the workers and the submissions of the pool, and with informers that take a token to stop.\<close>

inductive process_step :: "string \<Rightarrow> 'j listeners \<Rightarrow> 'j listeners \<Rightarrow> bool" for hostname where
  callback: "leaderElection hostname ev e = Done e' \<Longrightarrow> process_step hostname e e'"
| job: "Submit j (ls_goroutinePool e) = Done p \<Longrightarrow> process_step hostname e (e\<lparr>ls_goroutinePool := p\<rparr>)"
| worker: "pool_step (ls_goroutinePool e) p \<Longrightarrow> process_step hostname e (e\<lparr>ls_goroutinePool := p\<rparr>)"
| token: "chan_recv (ls_stopChannel e) = Done (Some (), c) \<Longrightarrow> process_step hostname e (e\<lparr>ls_stopChannel := c\<rparr>)"
| sec_token: "chan_recv (ls_secStopChannel e) = Done (Some (), c) \<Longrightarrow> process_step hostname e (e\<lparr>ls_secStopChannel := c\<rparr>)"

inductive process_reachable :: "string \<Rightarrow> 'j listeners \<Rightarrow> bool" for hostname where
  new: "process_reachable hostname new_listeners"
| step: "process_reachable hostname e \<Longrightarrow> process_step hostname e e' \<Longrightarrow> process_reachable hostname e'"

inductive_cases process_stepE: "process_step hostname e e'"

definition channels_open :: "'j listeners \<Rightarrow> bool" where
  "channels_open e \<longleftrightarrow> \<not> ch_closed (ls_stopChannel e) \<and> \<not> ch_closed (ls_secStopChannel e)"

lemma onStop_Done:
  assumes "onStop e = Done e'"
  shows "Stop (ls_goroutinePool e) = Done (ls_goroutinePool e')" "channels_open e'"
  using assms by (auto simp: onStop_def stopListenerSlice_def stopSecurityGroupListener_def bind_outcome_Done chan_send_def channels_open_def
      split: if_splits)

lemma onSuccess_Done:
  assumes "onSuccess e = Done e'"
  shows "Start (ls_goroutinePool e) = Done (ls_goroutinePool e')" "channels_open e' = channels_open e"
  using assms by (auto simp: onSuccess_def bind_outcome_Done channels_open_def)

lemma process_invariant: "process_reachable hostname e \<Longrightarrow> pool_reachable 5 (ls_goroutinePool e) \<and> channels_open e"
proof (induction rule: process_reachable.induct)
  case new
  then show ?case by (simp add: new_listeners_def pool_reachable.new channels_open_def make_chan_def)
next
  case (step e e')
  note pool = pool_reachable.step [OF conjunct1 [OF step.IH]]
  from step.hyps(2) show ?case
  proof cases
    case (callback ev)
    then show ?thesis
    proof (cases ev)
      case OnStartedLeading
      with callback onSuccess_Done [of e e'] pool [OF pool_step.start] step.IH show ?thesis by simp
    next
      case OnStoppedLeading
      with callback onStop_Done [of e e'] pool [OF pool_step.stop] show ?thesis by simp
    next
      case (OnNewLeader identity)
      with callback onStop_Done [of e e'] pool [OF pool_step.stop] step.IH show ?thesis by (auto split: if_splits)
    qed
  next
    case (job j p)
    then show ?thesis using pool [OF pool_step.submit] step.IH by (auto simp: channels_open_def)
  next
    case (worker p)
    then show ?thesis using pool step.IH by (auto simp: channels_open_def)
  qed (use step.IH in \<open>auto simp: channels_open_def chan_recv_def split: list.splits if_splits\<close>)
qed

text \<open>
  C37. The listeners stop once. In every interleaving of callbacks, jobs, workers and informers, after a stop that has ended
  leadership: a second end of leadership, a new leadership and the submission of a job to the pool panic; the notice of a new
  leader panics unless the identity it names contains the host name, and then does nothing; and the channels that the informers
  take their token to stop from are left open. The notice of another leader to a process that never led blocks its goroutine.
\<close>

theorem leadership_ends_once:
  assumes "process_reachable hostname e" "onStop e = Done e'"
  shows "leaderElection hostname OnStoppedLeading e' = Panics ''send on closed channel''
    \<and> leaderElection hostname OnStartedLeading e' = Panics ''send on closed channel''
    \<and> Submit j (ls_goroutinePool e') = Panics ''send on closed channel''
    \<and> leaderElection hostname (OnNewLeader identity) e' = (if contains identity hostname then Done e' else Panics ''send on closed channel'')
    \<and> \<not> ch_closed (ls_stopChannel e') \<and> \<not> ch_closed (ls_secStopChannel e')
    \<and> leaderElection hostname (OnNewLeader identity) (new_listeners :: 'j listeners) =
        (if contains identity hostname then Done new_listeners else Blocks)"
proof -
  have "pool_reachable 5 (ls_goroutinePool e)" using process_invariant [OF assms(1)] by blast
  note stopped = stopped_pool [OF this onStop_Done(1) [OF assms(2)]]
  have "Stop (NewExecutePool 5 :: 'j ExecutePool) = Blocks" by (simp add: Stop_def signal_stop_def NewExecutePool_def bind_outcome_def)
  then show ?thesis
    using stopped onStop_Done(2) [OF assms(2)] by (simp add: onStop_def onSuccess_def bind_outcome_def new_listeners_def channels_open_def)
qed

theorem leadership_ends_once_witness:
  "\<exists>e' :: nat listeners. process_reachable ''node-1'' e' \<and> channels_open e'
     \<and> leaderElection ''node-1'' (OnNewLeader ''node-2_8c1f'') e' = Panics ''send on closed channel''"
proof -
  obtain e :: "nat listeners" where e: "leaderElection ''node-1'' OnStartedLeading new_listeners = Done e"
    by (simp add: onSuccess_def new_listeners_def Start_def NewExecutePool_def bind_outcome_def Let_def)
  then have r: "process_reachable ''node-1'' e" by (blast intro: process_reachable.intros process_step.callback)
  have "\<exists>e'. onStop e = Done e'"
    using e by (auto simp: onSuccess_def new_listeners_def Start_def NewExecutePool_def onStop_def Stop_def signal_stop_def stopListenerSlice_def
        stopSecurityGroupListener_def bind_outcome_def chan_send_def chan_close_def make_chan_def Let_def)
  then obtain e' where e': "onStop e = Done e'" by blast
  then have "process_reachable ''node-1'' e'" by (intro process_reachable.step [OF r] process_step.callback [of _ OnStoppedLeading]) simp
  moreover have "\<not> contains ''node-2_8c1f'' ''node-1''" by code_simp
  ultimately show ?thesis using leadership_ends_once [OF r e', of 0 "''node-2_8c1f''"] by (auto simp: channels_open_def)
qed

text \<open>The identity of a host is compared by containment: the leader on a host whose name has this one as a part is taken for this one.\<close>

lemma other_host_taken_for_own: "leaderElection ''node-1'' (OnNewLeader ''node-10_8c1f'') e = Done e"
proof -
  have "contains ''node-10_8c1f'' ''node-1''" by code_simp
  then show ?thesis by simp
qed

subsection \<open>A provider that has started\<close>

text \<open>It knows where its cloud is, and it has a provider for every class of load balancer a service can ask for.\<close>

lemma start_cloud_ready:
  assumes "start_cloud S H A cd cfg = Started h" and "getLoadBalancerVersion svc = Inr lbVersion"
  shows "Cloud (AuthOpts (cloudConfig (cp_Basic h))) \<noteq> [] \<and> AuthURL (AuthOpts (cloudConfig (cp_Basic h))) \<noteq> []
    \<and> clients (cp_Basic h) = A \<and> cp_providers h lbVersion \<noteq> None"
proof -
  obtain f cc where cc: "cfg = Some f" "st_gcfg S f = Inr cc"
    and h: "h = NewHWSCloud (start_basic (setDefaultConfig cc) (fst (LoadElbConfigFromCM S cd)) A cd)
      (ELBCloud_provider (elb_cloud H (start_basic (setDefaultConfig cc) (fst (LoadElbConfigFromCM S cd)) A cd)))
      (NATCloud_provider (nat_cloud H (start_basic (setDefaultConfig cc) (fst (LoadElbConfigFromCM S cd)) A cd)))"
    using assms(1) by (auto simp: start_cloud_def ReadConfig_def Let_def split: option.splits sum.splits)
  show ?thesis
    using assms(2) by (auto simp: h NewHWSCloud_def NewHWSCloud_providers_def start_basic_def setDefaultConfig_def Let_def
        getLoadBalancerVersion_def split: if_splits option.splits)
qed

end
