(* ===== verification/Metadata_Service.thy ===== *)
theory Metadata_Service
  imports Go_Result "HOL-Library.Multiset"
begin

text \<open>
  The metadata of the host, \<open>pkg/utils/metadata/metadata.go\<close>: from a config drive, which is mounted for the
  time of the reading, or from the metadata service. The operating system, the mounter of \<open>k8s.io/utils\<close>, the
  transport and the JSON decoder are the record \<open>host_env\<close>; its operations change a state of their own. The log
  has one event per operation that takes a resource, gives it back or is refused to give it back: the errors of
  removing a directory and of unmounting are only logged by the code. The process-wide cache is passed explicitly. \<open>os.MkdirTemp\<close> makes a clean path, so \<open>filepath.Join\<close> only adds a separator.
\<close>

record Metadata =
  md_UUID :: string
  md_Name :: string
  md_AvailabilityZone :: string
  md_RegionID :: string

datatype host_event =
    DirMade string
  | DirRemoved string
  | RemoveFailed string
  | Mounted string string string
  | Unmounted string
  | UnmountFailed string
  | FileOpened string
  | FileClosed string
  | Fetched string
  | BodyClosed string

record 'w host_env =
  os_device_missing :: "string \<Rightarrow> 'w \<Rightarrow> bool"
  os_blkid :: "string list \<Rightarrow> 'w \<Rightarrow> (error + string) \<times> 'w"
  os_MkdirTemp :: "string \<Rightarrow> 'w \<Rightarrow> (error + string) \<times> 'w"
  os_Remove :: "string \<Rightarrow> 'w \<Rightarrow> error option \<times> 'w"
  os_Mount :: "string \<Rightarrow> string \<Rightarrow> string \<Rightarrow> string list \<Rightarrow> 'w \<Rightarrow> error option \<times> 'w"
  os_Unmount :: "string \<Rightarrow> 'w \<Rightarrow> error option \<times> 'w"
  os_Open :: "string \<Rightarrow> 'w \<Rightarrow> error + string"
  http_Get :: "string \<Rightarrow> 'w \<Rightarrow> (error + int \<times> string \<times> string) \<times> 'w"
  json_metadata :: "string \<Rightarrow> error + Metadata"

type_synonym ('w, 'a) host_prog = "('w, host_event, 'a) m"

subsection \<open>The operating system\<close>

text \<open>
  An operation that is recorded only when it succeeds; one whose failure is recorded and has no other effect on the caller; and
  the closing of a file or of a body, whose error is ignored and after which it is closed in any case.
\<close>

definition acquire :: "('a \<Rightarrow> host_event) \<Rightarrow> ('w \<Rightarrow> (error + 'a) \<times> 'w) \<Rightarrow> ('w, 'a) host_prog" where
  "acquire ev f = (\<lambda>s. case f (world s) of
      (Inl e, w) \<Rightarrow> (Err e, s\<lparr>world := w\<rparr>)
    | (Inr x, w) \<Rightarrow> (Ok x, s\<lparr>world := w, log := log s @ [ev x]\<rparr>))"

definition release :: "host_event \<Rightarrow> host_event \<Rightarrow> ('w \<Rightarrow> error option \<times> 'w) \<Rightarrow> ('w, unit) host_prog" where
  "release done failed f = (\<lambda>s. case f (world s) of
      (None, w) \<Rightarrow> (Ok (), s\<lparr>world := w, log := log s @ [done]\<rparr>)
    | (Some e, w) \<Rightarrow> (Ok (), s\<lparr>world := w, log := log s @ [failed]\<rparr>))"

definition closeR :: "host_event \<Rightarrow> ('w, unit) host_prog" where
  "closeR ev = (\<lambda>s. (Ok (), s\<lparr>log := log s @ [ev]\<rparr>))"

definition silent :: "('w \<Rightarrow> (error + 'a) \<times> 'w) \<Rightarrow> ('w, 'a) host_prog" where
  "silent f = (\<lambda>s. case f (world s) of (Inl e, w) \<Rightarrow> (Err e, s\<lparr>world := w\<rparr>) | (Inr x, w) \<Rightarrow> (Ok x, s\<lparr>world := w\<rparr>))"

text \<open>\<open>defer\<close>: the deferred call runs whatever the rest of the function ends in, and does not change that.\<close>

definition deferR :: "('w, 'e, unit) m \<Rightarrow> ('w, 'e, 'a) m \<Rightarrow> ('w, 'e, 'a) m" where
  "deferR cleanup m = (\<lambda>s. let (r, s') = m s in (r, snd (cleanup s')))"

subsection \<open>The sources\<close>

abbreviation (input) defaultMetadataVersion :: string where "defaultMetadataVersion \<equiv> ''latest''"
abbreviation (input) MetadataID :: string where "MetadataID \<equiv> ''metadataService''"
abbreviation (input) ConfigDriveID :: string where "ConfigDriveID \<equiv> ''configDrive''"
abbreviation (input) configDriveLabel :: string where "configDriveLabel \<equiv> ''config-2''"

definition ErrBadMetadata :: error where
  "ErrBadMetadata = Errorf ''invalid HuaweiCloud metadata, got empty uuid''"

definition parseMetadata :: "'w host_env \<Rightarrow> string \<Rightarrow> error + Metadata" where
  "parseMetadata H r = (case json_metadata H r of
      Inl e \<Rightarrow> Inl e
    | Inr metadata \<Rightarrow> if md_UUID metadata = [] then Inl ErrBadMetadata else Inr metadata)"

definition getMetadataURL :: "string \<Rightarrow> string" where
  "getMetadataURL metadataVersion = ''http://169.254.169.254/openstack/'' @ metadataVersion @ ''/meta_data.json''"

definition getConfigDrivePath :: "string \<Rightarrow> string" where
  "getConfigDrivePath metadataVersion = ''openstack/'' @ metadataVersion @ ''/meta_data.json''"

definition returnR :: "error + 'a \<Rightarrow> ('w, 'e, 'a) m" where
  "returnR r = (case r of Inl e \<Rightarrow> errR e | Inr x \<Rightarrow> okR x)"

definition config_drive_device :: "'w host_env \<Rightarrow> ('w, string) host_prog" where
  "config_drive_device H = (\<lambda>s.
     (let dev = ''/dev/disk/by-label/'' @ configDriveLabel in
      if os_device_missing H dev (world s)
      then bindR (attempt (silent (os_blkid H [''-l'', ''-t'', ''LABEL='' @ configDriveLabel, ''-o'', ''device'']))) (\<lambda>r. case r of
          Inl e \<Rightarrow> errR (Errorf (''unable to run blkid: '' @ err_text e))
        | Inr out \<Rightarrow> okR (trim_space out)) s
      else okR dev s))"

definition mount_as :: "'w host_env \<Rightarrow> string \<Rightarrow> string \<Rightarrow> string \<Rightarrow> ('w, unit) host_prog" where
  "mount_as H dev mntdir fstype = acquire (\<lambda>_. Mounted dev mntdir fstype)
     (\<lambda>w. case os_Mount H dev mntdir fstype [''ro''] w of (Some e, w') \<Rightarrow> (Inl e, w') | (None, w') \<Rightarrow> (Inr (), w'))"

definition mount_config_drive :: "'w host_env \<Rightarrow> string \<Rightarrow> string \<Rightarrow> ('w, unit) host_prog" where
  "mount_config_drive H dev mntdir =
     bindR (attempt (mount_as H dev mntdir ''iso9660'')) (\<lambda>r. case r of
       Inr _ \<Rightarrow> okR ()
     | Inl _ \<Rightarrow> bindR (attempt (mount_as H dev mntdir ''vfat'')) (\<lambda>r. case r of
         Inr _ \<Rightarrow> okR ()
       | Inl e \<Rightarrow> errR (Errorf (''error mounting config drive '' @ dev @ '': '' @ err_text e))))"

definition read_config_drive :: "'w host_env \<Rightarrow> string \<Rightarrow> string \<Rightarrow> ('w, Metadata) host_prog" where
  "read_config_drive H mntdir metadataVersion =
     (let configDrivePath = getConfigDrivePath metadataVersion; path = mntdir @ ''/'' @ configDrivePath in
      bindR (attempt (acquire (\<lambda>_. FileOpened path) (\<lambda>w. (os_Open H path w, w)))) (\<lambda>r. case r of
        Inl e \<Rightarrow> errR (Errorf (''error reading '' @ configDrivePath @ '' on config drive: '' @ err_text e))
      | Inr f \<Rightarrow> deferR (closeR (FileClosed path)) (returnR (parseMetadata H f))))"

definition getFromConfigDrive :: "'w host_env \<Rightarrow> string \<Rightarrow> ('w, Metadata) host_prog" where
  "getFromConfigDrive H metadataVersion =
     bindR (config_drive_device H) (\<lambda>dev.
     bindR (acquire DirMade (os_MkdirTemp H ''configdrive'')) (\<lambda>mntdir.
     deferR (release (DirRemoved mntdir) (RemoveFailed mntdir) (os_Remove H mntdir))
       (bindR (mount_config_drive H dev mntdir) (\<lambda>_.
        deferR (release (Unmounted mntdir) (UnmountFailed mntdir) (os_Unmount H mntdir))
          (read_config_drive H mntdir metadataVersion)))))"

definition getFromMetadataService :: "'w host_env \<Rightarrow> string \<Rightarrow> ('w, Metadata) host_prog" where
  "getFromMetadataService H metadataVersion =
     (let url = getMetadataURL metadataVersion in
      bindR (attempt (acquire (\<lambda>_. Fetched url) (http_Get H url))) (\<lambda>r. case r of
        Inl e \<Rightarrow> errR (Errorf (''error fetching '' @ url @ '': '' @ err_text e))
      | Inr (StatusCode, Status, Body) \<Rightarrow> deferR (closeR (BodyClosed url))
          (if StatusCode \<noteq> 200
           then errR (Errorf (''unexpected status code when reading metadata from '' @ url @ '': '' @ Status))
           else returnR (parseMetadata H Body))))"

definition get_from :: "'w host_env \<Rightarrow> string \<Rightarrow> ('w, Metadata) host_prog" where
  "get_from H source =
     (if source = ConfigDriveID then getFromConfigDrive H defaultMetadataVersion
      else if source = MetadataID then getFromMetadataService H defaultMetadataVersion
      else errR (Errorf (source @ '' is not a valid metadata search order option. Supported options are '' @ ConfigDriveID @ '' and '' @ MetadataID)))"

text \<open>The loop over the search order ends with the last error, or with the first source that answers.\<close>

fun get_loop :: "'w host_env \<Rightarrow> string list \<Rightarrow> error option \<Rightarrow> ('w, Metadata option) host_prog" where
  "get_loop H [] err = (case err of None \<Rightarrow> okR None | Some e \<Rightarrow> errR e)"
| "get_loop H (source # elements) err =
     bindR (attempt (get_from H (trim_space source))) (\<lambda>r. case r of
       Inr md \<Rightarrow> okR (Some md)
     | Inl e \<Rightarrow> get_loop H elements (Some e))"

text \<open>What is returned is the cache after the call; an error leaves it as it was.\<close>

definition metadata_Get :: "'w host_env \<Rightarrow> Metadata option \<Rightarrow> string \<Rightarrow> ('w, Metadata option) host_prog" where
  "metadata_Get H metadataCache order =
     (if metadataCache = None then get_loop H (split_on (CHR '','') order) None else okR metadataCache)"

subsection \<open>Resources are given back\<close>

datatype resource = TempDir string | MountPoint string | OpenFile string | OpenBody string

text \<open>What an event takes, gives back, or is refused to give back.\<close>

fun taken_by :: "host_event \<Rightarrow> resource option" where
  "taken_by (DirMade d) = Some (TempDir d)"
| "taken_by (Mounted dev d fs) = Some (MountPoint d)"
| "taken_by (FileOpened f) = Some (OpenFile f)"
| "taken_by (Fetched url) = Some (OpenBody url)"
| "taken_by _ = None"

fun given_back_by :: "host_event \<Rightarrow> resource option" where
  "given_back_by (DirRemoved d) = Some (TempDir d)"
| "given_back_by (Unmounted d) = Some (MountPoint d)"
| "given_back_by (FileClosed f) = Some (OpenFile f)"
| "given_back_by (BodyClosed url) = Some (OpenBody url)"
| "given_back_by _ = None"

fun refused_by :: "host_event \<Rightarrow> resource option" where
  "refused_by (RemoveFailed d) = Some (TempDir d)"
| "refused_by (UnmountFailed d) = Some (MountPoint d)"
| "refused_by _ = None"

definition resources :: "(host_event \<Rightarrow> resource option) \<Rightarrow> host_event list \<Rightarrow> resource multiset" where
  "resources f es = mset (List.map_filter f es)"

text \<open>
  The resources in use after some events, the last one taken first, one that is given back or refused being in use no longer;
  none if that happens out of order or to one that is not in use.
\<close>

fun held :: "resource list \<Rightarrow> host_event list \<Rightarrow> resource list option" where
  "held rs [] = Some rs"
| "held rs (e # es) = (case taken_by e of
      Some r \<Rightarrow> held (r # rs) es
    | None \<Rightarrow> (case (case given_back_by e of Some r \<Rightarrow> Some r | None \<Rightarrow> refused_by e) of
        Some r \<Rightarrow> (if rs \<noteq> [] \<and> hd rs = r then held (tl rs) es else None)
      | None \<Rightarrow> held rs es))"

lemma held_append: "held rs (xs @ ys) = Option.bind (held rs xs) (\<lambda>rs'. held rs' ys)"
  by (induction rs xs rule: held.induct) (auto split: option.splits)

lemma one_resource:
  "taken_by e = Some r \<Longrightarrow> given_back_by e = None \<and> refused_by e = None" "given_back_by e = Some r \<Longrightarrow> refused_by e = None"
  by (cases e; simp)+

lemma resources_Cons: "resources f (e # es) = (case f e of None \<Rightarrow> resources f es | Some r \<Rightarrow> add_mset r (resources f es))"
  by (simp add: resources_def List.map_filter_simps split: option.split)

lemma held_balance:
  "held rs es = Some rs' \<Longrightarrow> mset rs + resources taken_by es = resources given_back_by es + resources refused_by es + mset rs'"
proof (induction es arbitrary: rs)
  case Nil
  then show ?case by (simp add: resources_def List.map_filter_def)
next
  case (Cons e es)
  have tl: "mset rs = add_mset (hd rs) (mset (tl rs))" if "rs \<noteq> []" using that by (cases rs) simp_all
  show ?case
  proof (cases "taken_by e")
    case (Some r)
    then show ?thesis using Cons.IH [of "r # rs"] Cons.prems one_resource(1) [OF Some] by (simp add: resources_Cons)
  next
    case None
    note taken = this
    show ?thesis
    proof (cases "given_back_by e")
      case (Some r)
      then show ?thesis
        using Cons.IH [of "tl rs"] Cons.prems one_resource(2) [OF Some] taken tl by (simp add: resources_Cons split: if_splits)
    next
      case None
      then show ?thesis
        using Cons.IH [of rs] Cons.IH [of "tl rs"] Cons.prems taken tl
        by (cases "refused_by e") (simp_all add: resources_Cons split: if_splits)
    qed
  qed
qed

text \<open>\<open>keeps m f\<close>: a run of \<open>m\<close> turns what is held into \<open>f\<close> of its result added to it.\<close>

definition keeps :: "('w, 'a) host_prog \<Rightarrow> ('a res \<Rightarrow> resource list) \<Rightarrow> bool" where
  "keeps m f \<longleftrightarrow> (\<forall>s. \<exists>new. log (snd (m s)) = log s @ new \<and> (\<forall>rs. held rs new = Some (f (fst (m s)) @ rs)))"

abbreviation balanced :: "('w, 'a) host_prog \<Rightarrow> bool" where
  "balanced m \<equiv> keeps m (\<lambda>_. [])"

lemma keepsE:
  assumes "keeps m f" "m s = (r, t)"
  obtains new where "log t = log s @ new" "\<And>rs. held rs new = Some (f r @ rs)"
  using assms unfolding keeps_def by (metis fst_conv snd_conv)

lemma keepsI:
  "(\<And>s r t. m s = (r, t) \<Longrightarrow> \<exists>new. log t = log s @ new \<and> (\<forall>rs. held rs new = Some (f r @ rs))) \<Longrightarrow> keeps m f"
  unfolding keeps_def by (metis prod.collapse)

named_theorems keeps_intro \<open>rules that show what a computation holds afterwards\<close>

lemma keeps_simple [keeps_intro]: "balanced (okR x)" "balanced (errR e)" "balanced (returnR y)" "balanced (silent g)"
  by (auto simp: keeps_def run_simps returnR_def silent_def split: sum.splits prod.splits)

lemma keeps_bindR [keeps_intro]:
  assumes "balanced m" "\<And>x. balanced (k x)"
  shows "balanced (bindR m k)"
proof (rule keepsI)
  fix s r t
  assume run: "bindR m k s = (r, t)"
  obtain r1 t1 where m: "m s = (r1, t1)" by (cases "m s")
  obtain n1 where n1: "log t1 = log s @ n1" "\<And>rs. held rs n1 = Some rs" using keepsE [OF assms(1) m] by auto
  show "\<exists>new. log t = log s @ new \<and> (\<forall>rs. held rs new = Some ([] @ rs))"
  proof (cases r1)
    case (Ok x)
    with run m have "k x t1 = (r, t)" by (simp add: run_simps)
    then obtain n2 where "log t = log t1 @ n2" "\<And>rs. held rs n2 = Some rs" using keepsE [OF assms(2)] by (metis append_Nil)
    with n1 show ?thesis by (auto simp: held_append)
  qed (use run m n1 in \<open>auto simp: run_simps\<close>)
qed

lemma keeps_attempt [keeps_intro]: "balanced m \<Longrightarrow> balanced (attempt m)"
proof -
  have "snd (attempt m s) = snd (m s)" for s by (simp add: run_simps split: prod.splits res.splits)
  then show "balanced m \<Longrightarrow> balanced (attempt m)" by (simp add: keeps_def)
qed

text \<open>The resource that a computation takes is given back by the deferred call of what follows.\<close>

definition takes :: "('a res \<Rightarrow> resource) \<Rightarrow> 'a res \<Rightarrow> resource list" where
  "takes c r = (case r of Ok _ \<Rightarrow> [c r] | _ \<Rightarrow> [])"

definition gives_back :: "('w, unit) host_prog \<Rightarrow> resource \<Rightarrow> bool" where
  "gives_back cleanup r \<longleftrightarrow> (\<forall>s. \<exists>e. log (snd (cleanup s)) = log s @ [e] \<and> (\<forall>rs. held (r # rs) [e] = Some rs))"

lemma gives_back_release:
  "gives_back (release (DirRemoved d) (RemoveFailed d) f) (TempDir d)"
  "gives_back (release (Unmounted d) (UnmountFailed d) f) (MountPoint d)"
  by (auto simp: gives_back_def release_def split: prod.splits option.splits)

lemma keeps_bracket:
  assumes "keeps m (takes c)" "\<And>x. balanced (k x)" "\<And>x. gives_back (cl x) (c (Ok x))"
  shows "balanced (bindR m (\<lambda>x. deferR (cl x) (k x)))"
proof (rule keepsI)
  fix s r t
  assume run: "bindR m (\<lambda>x. deferR (cl x) (k x)) s = (r, t)"
  obtain r1 t1 where m: "m s = (r1, t1)" by (cases "m s")
  obtain n1 where n1: "log t1 = log s @ n1" "\<And>rs. held rs n1 = Some (takes c r1 @ rs)" using keepsE [OF assms(1) m] by auto
  show "\<exists>new. log t = log s @ new \<and> (\<forall>rs. held rs new = Some ([] @ rs))"
  proof (cases r1)
    case (Ok x)
    obtain r2 t2 where k: "k x t1 = (r2, t2)" by (cases "k x t1")
    obtain n2 where n2: "log t2 = log t1 @ n2" "\<And>rs. held rs n2 = Some rs" using keepsE [OF assms(2) k] by auto
    obtain e where e: "log (snd (cl x t2)) = log t2 @ [e]" "\<And>rs. held (c (Ok x) # rs) [e] = Some rs"
      using assms(3) [of x] unfolding gives_back_def by blast
    have "log t = log s @ (n1 @ n2 @ [e])" using run m Ok k n1(1) n2(1) e(1) by (auto simp: run_simps deferR_def)
    moreover have "held rs (n1 @ n2 @ [e]) = Some rs" for rs
      using n1(2) n2(2) e(2) Ok by (simp add: held_append takes_def del: held.simps(2))
    ultimately show ?thesis by (metis append_Nil)
  qed (use run m n1 in \<open>auto simp: run_simps takes_def\<close>)
qed

lemma keeps_acquire: "(\<And>x rs. held rs [ev x] = Some (c (Ok x) # rs)) \<Longrightarrow> keeps (acquire ev g) (takes c)"
  unfolding keeps_def acquire_def takes_def by (auto split: prod.splits sum.splits)

lemma keeps_mount: "keeps (mount_config_drive H dev d) (takes (\<lambda>_. MountPoint d))"
  unfolding keeps_def mount_config_drive_def mount_as_def acquire_def takes_def
  by (auto simp: run_simps split: prod.splits sum.splits option.splits)

lemma balanced_device [keeps_intro]: "balanced (config_drive_device H)"
proof -
  have "balanced (bindR (attempt (silent (os_blkid H args))) (\<lambda>r. case r of Inl e \<Rightarrow> errR (e1 e) | Inr out \<Rightarrow> okR (f out)))" for args e1 and f :: "string \<Rightarrow> string"
    by (intro keeps_intro) (auto intro: keeps_intro split: sum.splits)
  then show ?thesis unfolding keeps_def config_drive_device_def Let_def by (auto simp: run_okR split: if_splits)
qed

lemma balanced_read [keeps_intro]: "balanced (read_config_drive H d v)"
  unfolding keeps_def read_config_drive_def acquire_def deferR_def closeR_def Let_def
  by (auto simp: run_simps returnR_def split: prod.splits sum.splits)

lemma balanced_config_drive [keeps_intro]: "balanced (getFromConfigDrive H v)"
  unfolding getFromConfigDrive_def
proof (rule keeps_bindR [OF balanced_device])
  fix dev
  show "balanced (bindR (acquire DirMade (os_MkdirTemp H ''configdrive'')) (\<lambda>mntdir. deferR (release (DirRemoved mntdir) (RemoveFailed mntdir) (os_Remove H mntdir))
       (bindR (mount_config_drive H dev mntdir) (\<lambda>_. deferR (release (Unmounted mntdir) (UnmountFailed mntdir) (os_Unmount H mntdir)) (read_config_drive H mntdir v)))))"
    by (rule keeps_bracket [where c = "\<lambda>r. case r of Ok d \<Rightarrow> TempDir d"])
      (auto intro!: keeps_acquire keeps_bracket [OF keeps_mount] balanced_read gives_back_release)
qed

lemma balanced_service [keeps_intro]: "balanced (getFromMetadataService H v)"
  unfolding keeps_def getFromMetadataService_def acquire_def deferR_def closeR_def Let_def
  by (auto simp: run_simps returnR_def split: prod.splits sum.splits)

lemma balanced_loop [keeps_intro]: "balanced (get_loop H xs err)"
proof (induction xs arbitrary: err)
  case Nil
  then show ?case by (cases err) (auto intro: keeps_intro)
next
  case (Cons x xs)
  have "balanced (get_from H y)" for y unfolding get_from_def by (auto intro: keeps_intro)
  then show ?case using Cons by (auto intro!: keeps_intro split: sum.splits)
qed

subsection \<open>What is found\<close>

lemma yields_deferR [yields_intro]: "yields m P \<Longrightarrow> yields (deferR c m) P"
  by (auto simp: yields_def deferR_def Let_def split: prod.splits)

lemma yields_attempt_Inr: "yields m P \<Longrightarrow> yields (attempt m) (\<lambda>r. case r of Inl e \<Rightarrow> True | Inr x \<Rightarrow> P x)"
  by (auto simp: yields_def attempt_def split: prod.splits res.splits)

lemma yields_parse [yields_intro]: "yields (returnR (parseMetadata H f)) (\<lambda>md. md_UUID md \<noteq> [])"
  by (auto simp: returnR_def parseMetadata_def intro: yields_intro split: sum.splits)

lemma yields_source: "yields (get_from H source) (\<lambda>md. md_UUID md \<noteq> [])"
  unfolding get_from_def getFromConfigDrive_def read_config_drive_def getFromMetadataService_def Let_def
  by (intro yields_intro)

lemma yields_loop: "xs \<noteq> [] \<or> err \<noteq> None \<Longrightarrow> yields (get_loop H xs err) (\<lambda>c. \<exists>md. c = Some md \<and> md_UUID md \<noteq> [])"
proof (induction xs arbitrary: err)
  case Nil
  then show ?case by (auto intro: yields_intro)
next
  case (Cons x xs)
  show ?case
    unfolding get_loop.simps
  proof (rule yields_bindR [OF yields_attempt_Inr [OF yields_source]])
    fix r :: "error + Metadata"
    assume "case r of Inl e \<Rightarrow> True | Inr md \<Rightarrow> md_UUID md \<noteq> []"
    then show "yields (case r of Inr md \<Rightarrow> okR (Some md) | Inl e \<Rightarrow> get_loop H xs (Some e)) (\<lambda>c. \<exists>md. c = Some md \<and> md_UUID md \<noteq> [])"
      using Cons.IH by (auto intro: yields_okR split: sum.splits)
  qed
qed

text \<open>A search that ends without an error has found metadata with an identifier.\<close>

lemma metadata_found: "yields (metadata_Get H None order) (\<lambda>c. \<exists>md. c = Some md \<and> md_UUID md \<noteq> [])"
  by (simp add: metadata_Get_def yields_loop split_on_nonempty)

text \<open>
  C38. Whatever the search order, the cache and the operating system, a query for the metadata of the host tries to give back all
  it takes, in the reverse of the order of taking: every temporary directory made, every drive mounted, every file opened and
  every body received. So each of them is given back, except the directories and drives whose removal or unmounting the operating
  system refuses, which are left behind.
\<close>

theorem metadata_resources_released:
  "\<exists>new. log (snd (metadata_Get H metadataCache order s)) = log s @ new \<and> held [] new = Some []
     \<and> resources taken_by new = resources given_back_by new + resources refused_by new"
proof -
  have "balanced (metadata_Get H metadataCache order)" by (auto simp: metadata_Get_def intro: keeps_intro)
  then obtain new where "log (snd (metadata_Get H metadataCache order s)) = log s @ new" "held [] new = Some []"
    by (auto simp: keeps_def)
  then show ?thesis using held_balance [of "[]" new "[]"] by (intro exI [of _ new]) simp
qed

text \<open>A deferred call does not change the result, so a refused unmounting is not reported.\<close>

lemma deferR_result: "fst (deferR cleanup m s) = fst (m s)"
  by (simp add: deferR_def split: prod.splits)

end
