(* ===== verification/Log_Redaction.thy ===== *)
theory Log_Redaction
  imports Go_Result "HOL-Library.Char_ord" "HOL-Library.List_Lexorder" "HOL-Library.Multiset" "HOL-Library.Sublist"
begin

text \<open>
  What \<open>pkg/utils/loggertripper.go\<close> writes to the log of HTTP exchanges: headers with secrets redacted, and
  JSON bodies with the password of an authentication request masked. Headers are an association list in the
  order in which \<open>range\<close> visits the map. Of \<open>encoding/json\<close> the model has the values; parsing and printing
  are the record \<open>json_text\<close>.
\<close>

subsection \<open>Headers\<close>

definition redactheaders :: "string list" where
  "redactheaders = [''x-auth-token'', ''x-auth-key'', ''x-service-token'',
     ''x-storage-token'', ''x-account-meta-temp-url-key'', ''x-account-meta-temp-url-key-2'',
     ''x-container-meta-temp-url-key'', ''x-container-meta-temp-url-key-2'', ''set-cookie'',
     ''x-subject-token'', ''authorization'']"

fun isSliceContainsStr :: "string list \<Rightarrow> string \<Rightarrow> bool" where
  "isSliceContainsStr [] val = False"
| "isSliceContainsStr (v # target) val = (if v = val then True else isSliceContainsStr target val)"

definition redact_header :: "string \<times> string list \<Rightarrow> string list" where
  "redact_header = (\<lambda>(name, header). map (\<lambda>v.
     if isSliceContainsStr redactheaders (to_lower name) then name @ '': '' @ ''***'' else name @ '': '' @ v) header)"

definition RedactHeaders :: "(string \<times> string list) list \<Rightarrow> string list" where
  "RedactHeaders headers = concat (map redact_header headers)"

definition FormatHeaders :: "(string \<times> string list) list \<Rightarrow> string \<Rightarrow> string" where
  "FormatHeaders headers separator = separator @ join_with separator (sort (RedactHeaders headers))"

subsection \<open>Bodies\<close>

datatype json = JNull | JBool bool | JNumber string | JString string | JArray "json list" | JObject "(string \<times> json) list"

record json_text =
  unmarshal_object :: "string \<Rightarrow> error + (string \<times> json) list"
  marshal_indent :: "(string \<times> json) list \<Rightarrow> error + string"

text \<open>An object decoded into a map has one value per key. \<open>in_object key f\<close> changes the object under \<open>key\<close>, if there is one.\<close>

definition in_object :: "string \<Rightarrow> ((string \<times> json) list \<Rightarrow> (string \<times> json) list) \<Rightarrow> (string \<times> json) list \<Rightarrow> (string \<times> json) list" where
  "in_object key f data = map (\<lambda>(k, v). (k, if k = key then (case v of JObject o1 \<Rightarrow> JObject (f o1) | _ \<Rightarrow> v) else v)) data"

definition set_key :: "string \<Rightarrow> json \<Rightarrow> (string \<times> json) list \<Rightarrow> (string \<times> json) list" where
  "set_key key x data =
     (if key \<in> fst ` set data then map (\<lambda>(k, v). (k, if k = key then x else v)) data else data @ [(key, x)])"

definition mask_password :: "(string \<times> json) list \<Rightarrow> (string \<times> json) list" where
  "mask_password = in_object ''auth'' (in_object ''identity'' (in_object ''password'' (in_object ''user'' (set_key ''password'' (JString ''***'')))))"

definition has_catalog :: "(string \<times> json) list \<Rightarrow> bool" where
  "has_catalog data = (case map_of data ''token'' of Some (JObject v) \<Rightarrow> map_of v ''catalog'' \<noteq> None | _ \<Rightarrow> False)"

definition formatJSON :: "json_text \<Rightarrow> string \<Rightarrow> string" where
  "formatJSON J raw = (case unmarshal_object J raw of
      Inl e \<Rightarrow> raw
    | Inr data0 \<Rightarrow>
        let data = mask_password data0 in
        if has_catalog data then []
        else (case marshal_indent J data of Inl e \<Rightarrow> raw | Inr pretty \<Rightarrow> pretty))"

subsection \<open>The exchange\<close>

text \<open>
  A body that is read is replaced by a fresh reader of the same bytes. A reader is the bytes it will give or the error of
  reading them. Beside the new body the functions give the text they log.
\<close>

type_synonym reader = "error + string"

definition LogRequest :: "json_text \<Rightarrow> reader \<Rightarrow> string \<Rightarrow> error + (reader \<times> string)" where
  "LogRequest J original contentType = (case original of
      Inl e \<Rightarrow> Inl e
    | Inr bs \<Rightarrow>
        let debugInfo = (if prefix ''application/json'' contentType then formatJSON J bs else bs)
        in Inr (Inr bs, ''Request Body: '' @ debugInfo))"

definition LogResponse :: "json_text \<Rightarrow> reader \<Rightarrow> string \<Rightarrow> error + (reader \<times> string)" where
  "LogResponse J original contentType =
     (if prefix ''application/json'' contentType
      then case original of
          Inl e \<Rightarrow> Inl e
        | Inr bs \<Rightarrow> let debugInfo = formatJSON J bs in
            Inr (Inr bs, if debugInfo \<noteq> [] then ''Response Body: '' @ debugInfo else [])
      else Inr (original, ''Not logging because response body isn't JSON''))"

record http_message =
  hm_StatusCode :: int
  hm_Header :: "(string \<times> string list) list"
  hm_Body :: "reader option"

definition message_Get :: "http_message \<Rightarrow> string \<Rightarrow> string" where
  "message_Get msg key = (case map_of (hm_Header msg) key of Some (v # _) \<Rightarrow> v | _ \<Rightarrow> [])"

text \<open>
  \<open>RoundTrip\<close> over the transport \<open>rt\<close>, which gives no response, or a response with a body and possibly an error; the
  error of a response that is not nil is dropped. The result is response and error, and the lines logged.
\<close>

definition log_response :: "json_text \<Rightarrow> http_message \<Rightarrow> (http_message option \<times> error option) \<times> string list" where
  "log_response J response =
     (let head = [''Response Code: '' @ int_str (hm_StatusCode response), ''Response Headers:'' @ [CHR 0x0A] @ FormatHeaders (hm_Header response) [CHR 0x0A]];
          body = (case hm_Body response of None \<Rightarrow> Inr [] | Some b \<Rightarrow> b)
      in case LogResponse J body (message_Get response ''Content-Type'') of
           Inl e \<Rightarrow> ((Some (response\<lparr>hm_Body := None\<rparr>), Some e), head)
         | Inr (body', line) \<Rightarrow> ((Some (response\<lparr>hm_Body := Some body'\<rparr>), None), head @ [line]))"

definition RoundTrip ::
  "json_text \<Rightarrow> (http_message \<Rightarrow> http_message option \<times> error option) \<Rightarrow> string \<Rightarrow> http_message \<Rightarrow>
   (http_message option \<times> error option) \<times> string list" where
  "RoundTrip J rt url request =
     (let head = [''Request URL: '' @ url, ''Request Headers:'' @ [CHR 0x0A] @ FormatHeaders (hm_Header request) [CHR 0x0A]];
          logged = (case hm_Body request of
              None \<Rightarrow> Inr (request, [])
            | Some b \<Rightarrow> (case LogRequest J b (message_Get request ''Content-Type'') of
                Inl e \<Rightarrow> Inl e
              | Inr (b', line) \<Rightarrow> Inr (request\<lparr>hm_Body := Some b'\<rparr>, [line])))
      in case logged of
           Inl e \<Rightarrow> ((None, Some e), head)
         | Inr (request', lines) \<Rightarrow> (case rt request' of
             (None, err) \<Rightarrow> ((None, err), head @ lines)
           | (Some response, err) \<Rightarrow>
               (let (result, lines') = log_response J response in (result, head @ lines @ lines'))))"

subsection \<open>Secrets stay out of the log\<close>

text \<open>
  The headers that carry a secret: the access key's signature, the tokens of the identity and the object storage services, the
  keys of temporary URLs and the cookies a server sets. The list is that of the services' interfaces, written out here and
  not taken from the code; header names do not depend on case.
\<close>

definition secret_headers :: "string list" where
  "secret_headers = [''Authorization'', ''X-Auth-Token'', ''X-Subject-Token'', ''X-Service-Token'', ''X-Storage-Token'', ''X-Auth-Key'',
     ''X-Account-Meta-Temp-Url-Key'', ''X-Account-Meta-Temp-Url-Key-2'', ''X-Container-Meta-Temp-Url-Key'', ''X-Container-Meta-Temp-Url-Key-2'',
     ''Set-Cookie'']"

definition secret :: "string \<Rightarrow> bool" where
  "secret name \<longleftrightarrow> to_lower name \<in> to_lower ` set secret_headers"

lemma isSliceContainsStr_set: "isSliceContainsStr target val \<longleftrightarrow> val \<in> set target"
  by (induction target) auto

lemma redactheaders_secret: "isSliceContainsStr redactheaders (to_lower name) \<longleftrightarrow> secret name"
proof -
  have "set redactheaders = to_lower ` set secret_headers" by code_simp
  then show ?thesis by (simp add: isSliceContainsStr_set secret_def)
qed

text \<open>Headers that differ only in the values of secret ones.\<close>

definition same_public :: "(string \<times> string list) list \<Rightarrow> (string \<times> string list) list \<Rightarrow> bool" where
  "same_public = list_all2 (\<lambda>(k, v) (k', v'). k = k' \<and> (if secret k then length v = length v' else v = v'))"

lemma RedactHeaders_same: "same_public h h' \<Longrightarrow> RedactHeaders h = RedactHeaders h'"
  unfolding same_public_def
proof (induction rule: list_all2_induct)
  case (Cons x xs y ys)
  then have "redact_header x = redact_header y"
    by (auto simp: redact_header_def redactheaders_secret map_replicate_const split: if_splits)
  with Cons show ?case by (simp add: RedactHeaders_def)
qed (simp add: RedactHeaders_def)

lemma RedactHeaders_mset: "mset h = mset h' \<Longrightarrow> mset (RedactHeaders h) = mset (RedactHeaders h')"
proof -
  have "mset (RedactHeaders h) = \<Sum>\<^sub># (image_mset (\<lambda>x. mset (redact_header x)) (mset h))" for h
    by (induction h) (auto simp: RedactHeaders_def)
  then show "mset h = mset h' \<Longrightarrow> mset (RedactHeaders h) = mset (RedactHeaders h')" by simp
qed

lemma FormatHeaders_order: "mset h = mset h' \<Longrightarrow> FormatHeaders h sep = FormatHeaders h' sep"
  using RedactHeaders_mset [of h h'] by (metis FormatHeaders_def properties_for_sort mset_sort sorted_sort)

text \<open>A document with the password \<open>pw\<close> where an authentication request has it.\<close>

definition with_password :: "json \<Rightarrow> (string \<times> json) list \<Rightarrow> (string \<times> json) list" where
  "with_password pw = in_object ''auth'' (in_object ''identity'' (in_object ''password'' (in_object ''user'' (set_key ''password'' pw))))"

lemma in_object_twice: "in_object key f (in_object key g data) = in_object key (\<lambda>x. f (g x)) data"
  by (auto simp: in_object_def split: json.splits)

lemma set_key_twice: "set_key key x (set_key key y data) = set_key key x data"
proof -
  have "map (\<lambda>(k, v). (k, if k = key then x else v)) data = data" if "key \<notin> fst ` set data"
    using that by (intro map_idI) force
  then show ?thesis by (auto simp: set_key_def image_image case_prod_beta)
qed

lemma mask_with_password: "mask_password (with_password pw data) = mask_password data"
  by (simp add: mask_password_def with_password_def in_object_twice set_key_twice)

subsection \<open>Messages that differ only in secrets\<close>

text \<open>The header map has one entry per name and is visited in any order.\<close>

definition same_headers :: "(string \<times> string list) list \<Rightarrow> (string \<times> string list) list \<Rightarrow> bool" where
  "same_headers h h' \<longleftrightarrow> distinct (map fst h) \<and> (\<exists>g. same_public h g \<and> mset g = mset h')"

text \<open>Two JSON documents that differ in the password of an authentication request, of which the masked document can be printed.\<close>

definition same_but_password :: "json_text \<Rightarrow> string \<Rightarrow> string \<Rightarrow> bool" where
  "same_but_password J raw raw' \<longleftrightarrow> (\<exists>data pw pw' pretty. unmarshal_object J raw = Inr (with_password pw data)
     \<and> unmarshal_object J raw' = Inr (with_password pw' data) \<and> marshal_indent J (mask_password data) = Inr pretty)"

definition same_body :: "json_text \<Rightarrow> bool \<Rightarrow> reader option \<Rightarrow> reader option \<Rightarrow> bool" where
  "same_body J is_json body body' \<longleftrightarrow> body = body'
     \<or> (\<exists>raw raw'. is_json \<and> body = Some (Inr raw) \<and> body' = Some (Inr raw') \<and> same_but_password J raw raw')"

definition same_message :: "json_text \<Rightarrow> http_message \<Rightarrow> http_message \<Rightarrow> bool" where
  "same_message J m m' \<longleftrightarrow> hm_StatusCode m = hm_StatusCode m' \<and> same_headers (hm_Header m) (hm_Header m')
     \<and> same_body J (prefix ''application/json'' (message_Get m ''Content-Type'')) (hm_Body m) (hm_Body m')"

lemma FormatHeaders_same: "same_headers h h' \<Longrightarrow> FormatHeaders h sep = FormatHeaders h' sep"
  unfolding same_headers_def using FormatHeaders_order by (metis FormatHeaders_def RedactHeaders_same)

lemma same_public_map_of: "same_public h g \<Longrightarrow> \<not> secret k \<Longrightarrow> map_of h k = map_of g k"
  unfolding same_public_def by (induction rule: list_all2_induct) (auto split: if_splits)

lemma same_public_names: "same_public h g \<Longrightarrow> map fst h = map fst g"
  unfolding same_public_def by (induction rule: list_all2_induct) auto

lemma same_headers_Get: "same_headers (hm_Header m) (hm_Header m') \<Longrightarrow> \<not> secret k \<Longrightarrow> message_Get m k = message_Get m' k"
proof -
  assume "same_headers (hm_Header m) (hm_Header m')" and k: "\<not> secret k"
  then obtain g where g: "same_public (hm_Header m) g" "mset g = mset (hm_Header m')" "distinct (map fst (hm_Header m))"
    by (auto simp: same_headers_def)
  have d: "distinct (map fst g)" using g(1,3) same_public_names by metis
  then have "distinct (map fst (hm_Header m'))" using g(2) by (metis mset_eq_imp_distinct_iff mset_map)
  then have "map_of g = map_of (hm_Header m')" using d g(2) by (metis map_of_inject_set mset_eq_setD)
  then show ?thesis using same_public_map_of [OF g(1) k] by (simp add: message_Get_def)
qed

lemma content_type_public: "\<not> secret ''Content-Type''"
  by code_simp

lemma formatJSON_same: "same_but_password J raw raw' \<Longrightarrow> formatJSON J raw = formatJSON J raw'"
  by (auto simp: same_but_password_def formatJSON_def Let_def mask_with_password)

lemma log_response_same: "same_message J m m' \<Longrightarrow> snd (log_response J m) = snd (log_response J m')"
  using same_headers_Get [of m m', OF _ content_type_public] FormatHeaders_same formatJSON_same
  by (auto simp: same_message_def same_body_def log_response_def LogResponse_def Let_def split: sum.splits option.splits)

text \<open>The lines of an exchange, for a request whose body can be read.\<close>

definition answer_lines :: "json_text \<Rightarrow> http_message option \<Rightarrow> string list" where
  "answer_lines J answer = (case answer of None \<Rightarrow> [] | Some response \<Rightarrow> snd (log_response J response))"

lemma answer_lines_same: "rel_option (same_message J) a a' \<Longrightarrow> answer_lines J a = answer_lines J a'"
  by (auto simp: answer_lines_def log_response_same elim: option.rel_cases)

lemma RoundTrip_lines:
  assumes "\<nexists>e. hm_Body request = Some (Inl e)"
  shows "snd (RoundTrip J rt url request) =
     [''Request URL: '' @ url, ''Request Headers:'' @ [CHR 0x0A] @ FormatHeaders (hm_Header request) [CHR 0x0A]]
     @ (case hm_Body request of Some (Inr raw) \<Rightarrow>
          [''Request Body: '' @ (if prefix ''application/json'' (message_Get request ''Content-Type'') then formatJSON J raw else raw)]
        | _ \<Rightarrow> [])
     @ answer_lines J (fst (rt request))"
proof -
  have same: "request\<lparr>hm_Body := Some (Inr x)\<rparr> = request" if "hm_Body request = Some (Inr x)" for x
    using that by (cases request) simp
  obtain answer err where rt: "rt request = (answer, err)" by (cases "rt request")
  consider "hm_Body request = None" | raw where "hm_Body request = Some (Inr raw)"
    using assms by (metis not_None_eq sum.exhaust_sel)
  then show ?thesis
    by cases (simp_all add: RoundTrip_def LogRequest_def Let_def answer_lines_def rt same case_prod_beta split: option.split)
qed

text \<open>
  C39. Two exchanges with the same URL whose requests, and whose responses, differ only in secrets leave the same lines in the log:
  the values of the authorization, token, key and set-cookie headers, in whatever case their names are written and in whatever
  order the map of headers is visited, and the password of a JSON authentication request, as long as the masked document can be
  printed. Of a secret header only its name and its number of values show.
\<close>

theorem log_hides_secrets:
  assumes "same_message J request1 request2" and "rel_option (same_message J) (fst (rt1 request1)) (fst (rt2 request2))"
  shows "snd (RoundTrip J rt1 url request1) = snd (RoundTrip J rt2 url request2)"
proof (cases "\<exists>e. hm_Body request1 = Some (Inl e)")
  case True
  then have "hm_Body request2 = hm_Body request1" using assms(1) by (auto simp: same_message_def same_body_def)
  then show ?thesis
    using True assms(1) FormatHeaders_same by (auto simp: RoundTrip_def LogRequest_def Let_def same_message_def)
next
  case False
  then have False2: "\<nexists>e. hm_Body request2 = Some (Inl e)" using assms(1) by (auto simp: same_message_def same_body_def)
  have type: "message_Get request1 ''Content-Type'' = message_Get request2 ''Content-Type''"
    using assms(1) same_headers_Get content_type_public by (simp add: same_message_def)
  have head: "FormatHeaders (hm_Header request1) sep = FormatHeaders (hm_Header request2) sep" for sep
    using assms(1) FormatHeaders_same by (simp add: same_message_def)
  have body: "same_body J (prefix ''application/json'' (message_Get request2 ''Content-Type'')) (hm_Body request1) (hm_Body request2)"
    using assms(1) type by (simp add: same_message_def)
  show ?thesis
    using body formatJSON_same answer_lines_same [OF assms(2)]
    unfolding RoundTrip_lines [OF False] RoundTrip_lines [OF False2] head type same_body_def by auto
qed

text \<open>A decoder and a printer of one kind of document, and two log-ins with different passwords, answered with different tokens.\<close>

definition demo_json :: json_text where
  "demo_json = \<lparr>unmarshal_object = (\<lambda>raw. Inr [(''auth'', JObject [(''identity'', JObject [(''password'', JObject [(''user'',
       JObject [(''password'', JString raw)])])])])]),
     marshal_indent = (\<lambda>data. Inr (if data = [] then [] else ''{ ... }''))\<rparr>"

definition demo_login :: "string \<Rightarrow> string \<Rightarrow> http_message" where
  "demo_login key password = \<lparr>hm_StatusCode = 0, hm_Header = [(''Authorization'', [key]), (''Content-Type'', [''application/json''])],
     hm_Body = Some (Inr password)\<rparr>"

definition demo_token :: "string \<Rightarrow> http_message" where
  "demo_token token = \<lparr>hm_StatusCode = 201, hm_Header = [(''X-Subject-Token'', [token]), (''Server'', [''iam''])], hm_Body = None\<rparr>"

lemma demo_same_password: "same_but_password demo_json raw raw'"
proof -
  define data where "data = [(''auth'', JObject [(''identity'', JObject [(''password'', JObject [(''user'', JObject [])])])])]"
  have "unmarshal_object demo_json x = Inr (with_password (JString x) data)" for x
    by (simp add: data_def demo_json_def with_password_def in_object_def set_key_def)
  moreover have "\<exists>pretty. marshal_indent demo_json (mask_password data) = Inr pretty" by (simp add: demo_json_def)
  ultimately show ?thesis unfolding same_but_password_def by blast
qed

lemma demo_same_headers:
  "same_headers [(''Authorization'', [a]), (''Content-Type'', [c])] [(''Authorization'', [b]), (''Content-Type'', [c])]"
  "same_headers [(''X-Subject-Token'', [a]), (''Server'', [c])] [(''X-Subject-Token'', [b]), (''Server'', [c])]"
proof -
  have "secret ''Authorization''" "secret ''X-Subject-Token''" by code_simp+
  then show "same_headers [(''Authorization'', [a]), (''Content-Type'', [c])] [(''Authorization'', [b]), (''Content-Type'', [c])]"
    "same_headers [(''X-Subject-Token'', [a]), (''Server'', [c])] [(''X-Subject-Token'', [b]), (''Server'', [c])]"
    unfolding same_headers_def same_public_def
    by (auto intro: exI [of _ "[(''Authorization'', [b]), (''Content-Type'', [c])]"] exI [of _ "[(''X-Subject-Token'', [b]), (''Server'', [c])]"])
qed

theorem log_hides_secrets_witness:
  "snd (RoundTrip demo_json (\<lambda>_. (Some (demo_token ''t1''), None)) ''POST /v3/auth/tokens'' (demo_login ''key one'' ''abc''))
     = snd (RoundTrip demo_json (\<lambda>_. (Some (demo_token ''t2''), None)) ''POST /v3/auth/tokens'' (demo_login ''key two'' ''xyz''))"
proof (rule log_hides_secrets)
  show "same_message demo_json (demo_login ''key one'' ''abc'') (demo_login ''key two'' ''xyz'')"
    by (simp add: same_message_def demo_login_def demo_same_headers same_body_def demo_same_password message_Get_def)
  show "rel_option (same_message demo_json) (fst (Some (demo_token ''t1''), None :: error option)) (fst (Some (demo_token ''t2''), None :: error option))"
    by (simp add: same_message_def demo_token_def demo_same_headers same_body_def)
qed

text \<open>
  Every other header is logged with its values. Among them are \<open>Cookie\<close> and \<open>X-Security-Token\<close>, the token of temporary
  credentials: neither is in \<open>redactheaders\<close>.
\<close>

lemma other_headers_logged:
  assumes "(name, values) \<in> set h" "v \<in> set values" "\<not> secret name"
  shows "name @ '': '' @ v \<in> set (RedactHeaders h)"
  using assms by (force simp: RedactHeaders_def redact_header_def redactheaders_secret)

lemma cookie_and_security_token_logged:
  "RedactHeaders [(''Cookie'', [c]), (''X-Security-Token'', [token])] = [''Cookie: '' @ c, ''X-Security-Token: '' @ token]"
proof -
  have "\<not> secret ''Cookie''" "\<not> secret ''X-Security-Token''" by code_simp+
  then show ?thesis by (simp add: RedactHeaders_def redact_header_def redactheaders_secret)
qed

text \<open>Logging does not change an exchange whose bodies can be read: the transport gets the request as it was and the caller its response.\<close>

lemma RoundTrip_transparent:
  assumes "hm_Body request = map_option Inr b" and "rt request = (Some response, err)" and "hm_Body response = Some (Inr b')"
  shows "fst (RoundTrip J rt url request) = (Some response, None)"
proof -
  have same: "request\<lparr>hm_Body := Some (Inr x)\<rparr> = request" if "hm_Body request = Some (Inr x)" for x
    using that by (cases request) simp
  have "response\<lparr>hm_Body := Some (Inr b')\<rparr> = response" using assms(3) by (cases response) simp
  then have "fst (log_response J response) = (Some response, None)" using assms(3) by (simp add: log_response_def LogResponse_def Let_def)
  then show ?thesis
    using assms(1,2) by (cases b) (simp_all add: RoundTrip_def LogRequest_def Let_def same case_prod_beta)
qed

end
