(* ===== verification/Filters.thy ===== *)
theory Filters
  imports Go_Result "HOL-Library.Sublist"
begin

text \<open>
  The generic filters of \<open>pkg/utils/filters.go\<close> and the field access of \<open>reflects.go\<close> on a model of the values
  package \<open>reflect\<close> gives access to: integers, floating point numbers and strings with their types, structs with their
  exported fields, slices that are not nil, and pointers with their address. Calls of \<open>reflect\<close> on a value of the wrong kind panic.
  Printing a value with the verb \<open>%#v\<close> is the parameter \<open>show\<close>.
\<close>

subsection \<open>Values\<close>

datatype gval =
    GInt string int
  | GFloat string string
  | GString string
  | GBool bool
  | GStruct string "(string \<times> gval) list"
  | GSlice string "gval list"
  | GPtr string "(nat \<times> gval) option"

fun go_type :: "gval \<Rightarrow> string" where
  "go_type (GInt t n) = t"
| "go_type (GFloat t x) = t"
| "go_type (GString s) = ''string''"
| "go_type (GBool b) = ''bool''"
| "go_type (GStruct t fs) = t"
| "go_type (GSlice t xs) = ''[]'' @ t"
| "go_type (GPtr t p) = CHR ''*'' # t"

fun comparable :: "gval \<Rightarrow> bool" where
  "comparable (GSlice t xs) = False"
| "comparable (GStruct t fs) = list_all (\<lambda>f. comparable (snd f)) fs"
| "comparable _ = True"

text \<open>What \<open>==\<close> looks at: of a pointer the address only.\<close>

fun go_ident :: "gval \<Rightarrow> gval" where
  "go_ident (GPtr t (Some (a, v))) = GPtr t (Some (a, GBool False))"
| "go_ident (GStruct t fs) = GStruct t (map (\<lambda>f. (fst f, go_ident (snd f))) fs)"
| "go_ident v = v"

definition go_equal :: "gval \<Rightarrow> gval \<Rightarrow> bool res" where
  "go_equal a b =
     (if go_type a \<noteq> go_type b then Ok False
      else if \<not> (comparable a \<and> comparable b) then Panic (''runtime error: comparing uncomparable type '' @ go_type a)
      else Ok (go_ident a = go_ident b))"

text \<open>\<open>Value.IsZero\<close>.\<close>

fun is_zero :: "gval \<Rightarrow> bool" where
  "is_zero (GInt t n) \<longleftrightarrow> n = 0"
| "is_zero (GFloat t x) \<longleftrightarrow> x = ''0''"
| "is_zero (GString s) \<longleftrightarrow> s = []"
| "is_zero (GBool b) \<longleftrightarrow> \<not> b"
| "is_zero (GStruct t fs) \<longleftrightarrow> list_all (\<lambda>f. is_zero (snd f)) fs"
| "is_zero (GSlice t xs) \<longleftrightarrow> False"
| "is_zero (GPtr t p) \<longleftrightarrow> p = None"

fun bind_res :: "'a res \<Rightarrow> ('a \<Rightarrow> 'b res) \<Rightarrow> 'b res" where
  "bind_res (Ok x) f = f x"
| "bind_res (Err e) f = Err e"
| "bind_res (Panic msg) f = Panic msg"

text \<open>The value itself or what it points to; the zero \<open>Value\<close> behind a nil pointer is \<open>None\<close>.\<close>

definition getReflectVal :: "gval \<Rightarrow> gval option" where
  "getReflectVal a = (case a of GPtr t p \<Rightarrow> map_option snd p | _ \<Rightarrow> Some a)"

subsection \<open>Fields\<close>

definition ReflectStructField :: "(gval option \<Rightarrow> string) \<Rightarrow> gval option \<Rightarrow> string \<Rightarrow> gval res" where
  "ReflectStructField show value key =
     (let v = Option.bind value getReflectVal in
      case v of
        Some (GStruct t fs) \<Rightarrow> (case map_of fs key of
            Some field \<Rightarrow> Ok field
          | None \<Rightarrow> Err (Errorf (''key '' @ key @ '' not found in '' @ show v)))
      | _ \<Rightarrow> Panic ''reflect: call of reflect.Value.FieldByName on a value that is not a struct'')"

fun field_path :: "(gval option \<Rightarrow> string) \<Rightarrow> gval \<Rightarrow> string list \<Rightarrow> gval res" where
  "field_path show value [] = Ok value"
| "field_path show value (key # keys) = bind_res (ReflectStructField show (Some value) key) (\<lambda>v. field_path show v keys)"

definition GetStructField :: "(gval option \<Rightarrow> string) \<Rightarrow> gval \<Rightarrow> string \<Rightarrow> gval res" where
  "GetStructField show object keys = (case getReflectVal object of
      Some (GSlice t xs) \<Rightarrow> Err (Errorf ''GetStructField: arg: object must be a struct, not a slice'')
    | _ \<Rightarrow> field_path show object (split_on (CHR ''.'') keys))"

definition getItemFieldVal :: "(gval option \<Rightarrow> string) \<Rightarrow> gval \<Rightarrow> string \<Rightarrow> gval option res" where
  "getItemFieldVal show item key = bind_res (GetStructField show item key) (\<lambda>v. Ok (getReflectVal v))"

subsection \<open>Filtering basic values\<close>

text \<open>An item of a slice of basic values as a key of the map.\<close>

definition basic_key :: "gval \<Rightarrow> gval res" where
  "basic_key item = (case getReflectVal item of
      None \<Rightarrow> Panic ''reflect: call of reflect.Value.Interface on zero Value''
    | Some (GStruct t fs) \<Rightarrow> Err (Errorf ''object in slice is not a basic type'')
    | Some v \<Rightarrow> if comparable v then Ok v else Panic (''runtime error: hash of unhashable type '' @ go_type v))"

definition items_of :: "gval option \<Rightarrow> gval list res" where
  "items_of v = (case v of
      Some (GSlice t xs) \<Rightarrow> Ok xs
    | Some (GString s) \<Rightarrow> Ok (map (\<lambda>c. GInt ''uint8'' (int (of_char c))) s)
    | _ \<Rightarrow> Panic ''reflect: call of reflect.Value.Len on a value without length'')"

fun filter_mapper :: "gval list \<Rightarrow> (gval \<rightharpoonup> bool) \<Rightarrow> (gval \<rightharpoonup> bool) res" where
  "filter_mapper [] m = Ok m"
| "filter_mapper (item # items) m = bind_res (basic_key item) (\<lambda>k. filter_mapper items (m(go_ident k \<mapsto> True)))"

fun filter_basic_loop :: "bool \<Rightarrow> gval list \<Rightarrow> (gval \<rightharpoonup> bool) \<Rightarrow> gval list \<Rightarrow> gval list res" where
  "filter_basic_loop dedupe [] m destArr = Ok destArr"
| "filter_basic_loop dedupe (item # items) m destArr = bind_res (basic_key item) (\<lambda>k.
     if m (go_ident k) = Some True
     then filter_basic_loop dedupe items (m(go_ident k \<mapsto> \<not> dedupe)) (destArr @ [k])
     else filter_basic_loop dedupe items m destArr)"

text \<open>\<open>rstArr.Set(reflect.Append(rstArr, destArr...))\<close>: the slice pointed to gets the items, which must fit its type.\<close>

definition append_result :: "gval \<Rightarrow> gval list \<Rightarrow> gval res" where
  "append_result result destArr = (case getReflectVal result of
      Some (GSlice t xs) \<Rightarrow>
        if \<forall>v\<in>set destArr. t = ''interface {}'' \<or> go_type v = t then Ok (GSlice t (xs @ destArr))
        else Panic ''reflect.Set: value is not assignable to the type of the slice''
    | _ \<Rightarrow> Panic ''reflect: call of reflect.Append on a value that is not a slice'')"

definition is_pointer :: "gval \<Rightarrow> bool" where
  "is_pointer v = (case v of GPtr t p \<Rightarrow> True | _ \<Rightarrow> False)"

definition FilterBasicSlice :: "gval \<Rightarrow> gval \<Rightarrow> gval \<Rightarrow> gval list \<Rightarrow> gval res" where
  "FilterBasicSlice target flt result args =
     (if \<not> is_pointer result then Err (Errorf ''FilterSlice arg: result must be a pointer'')
      else case getReflectVal target of
          Some (GSlice t xs) \<Rightarrow>
            bind_res (items_of (getReflectVal flt)) (\<lambda>ks.
            bind_res (filter_mapper ks Map.empty) (\<lambda>filterMapper.
              let dedupe = (args = [GBool True]) in
              bind_res (filter_basic_loop dedupe xs filterMapper []) (append_result result)))
        | _ \<Rightarrow> Err (Errorf ''FilterSlice arg: target must be a slice''))"

subsection \<open>Filtering structs\<close>

text \<open>A filter is a slice or a map from paths to values, in the order in which \<open>range\<close> visits it; another value is an empty map.\<close>

datatype go_filter = SliceFilter gval | MapFilter "(string \<times> gval) list" | OtherFilter

definition removeZero :: "(string \<times> gval) list \<Rightarrow> (string \<times> gval) list" where
  "removeZero flt = filter (\<lambda>kv. \<not> is_zero (snd kv)) flt"

fun item_matches :: "(gval option \<Rightarrow> string) \<Rightarrow> gval \<Rightarrow> (string \<times> gval) list \<Rightarrow> bool res" where
  "item_matches show item [] = Ok True"
| "item_matches show item ((key, val) # flt) =
     bind_res (getItemFieldVal show item key) (\<lambda>itemVal. case itemVal of
       None \<Rightarrow> Panic ''reflect: call of reflect.Value.Interface on zero Value''
     | Some v \<Rightarrow> bind_res (go_equal v val) (\<lambda>same. if same then item_matches show item flt else Ok False))"

fun filter_struct_loop :: "(gval option \<Rightarrow> string) \<Rightarrow> (string \<times> gval) list \<Rightarrow> gval list \<Rightarrow> gval list \<Rightarrow> gval list res" where
  "filter_struct_loop show flt [] destArr = Ok destArr"
| "filter_struct_loop show flt (item # items) destArr = (case getReflectVal item of
      Some (GStruct t fs) \<Rightarrow>
        bind_res (item_matches show (GStruct t fs) flt) (\<lambda>isMatch.
          filter_struct_loop show flt items (if isMatch then destArr @ [GStruct t fs] else destArr))
    | _ \<Rightarrow> Err (Errorf ''object in slice is not a struct''))"

definition FilterSlice :: "(gval option \<Rightarrow> string) \<Rightarrow> gval \<Rightarrow> go_filter \<Rightarrow> gval \<Rightarrow> gval list \<Rightarrow> gval res" where
  "FilterSlice show target flt result args =
     (if \<not> is_pointer result then Err (Errorf ''FilterSlice arg: result must be a pointer'')
      else case flt of
        SliceFilter f \<Rightarrow> FilterBasicSlice target f result args
      | _ \<Rightarrow> (case getReflectVal target of
          Some (GSlice t xs) \<Rightarrow>
            let newFilter = (case flt of MapFilter m \<Rightarrow> if args = [GBool True] then removeZero m else m | _ \<Rightarrow> [])
            in bind_res (filter_struct_loop show newFilter xs []) (append_result result)
        | _ \<Rightarrow> Err (Errorf ''FilterSlice arg: target must be a slice'')))"

subsection \<open>What is selected\<close>

lemma filter_mapper_Ok:
  "map basic_key xs = map Ok ks \<Longrightarrow> filter_mapper xs m = Ok (\<lambda>v. if v \<in> go_ident ` set ks then Some True else m v)"
proof (induction xs arbitrary: ks m)
  case (Cons x xs)
  then obtain k ks' where k: "ks = k # ks'" "basic_key x = Ok k" "map basic_key xs = map Ok ks'" by (cases ks) auto
  have "(\<lambda>v. if v \<in> go_ident ` set ks' then Some True else (m(go_ident k \<mapsto> True)) v)
      = (\<lambda>v. if v \<in> go_ident ` set ks then Some True else m v)"
    unfolding k(1) by (rule ext) simp
  then show ?case unfolding filter_mapper.simps k(2) bind_res.simps Cons.IH [OF k(3)] by (rule arg_cong)
qed simp

lemma filter_basic_all:
  "map basic_key xs = map Ok ks \<Longrightarrow> filter_basic_loop False xs m d = Ok (d @ filter (\<lambda>k. m (go_ident k) = Some True) ks)"
proof (induction xs arbitrary: ks d)
  case (Cons x xs)
  then obtain k ks' where k: "ks = k # ks'" "basic_key x = Ok k" "map basic_key xs = map Ok ks'" by (cases ks) auto
  have "m(go_ident k \<mapsto> True) = m" if "m (go_ident k) = Some True" using that by auto
  with Cons.IH [OF k(3)] k show ?case by simp
qed simp

lemma filter_basic_distinct:
  "map basic_key xs = map Ok ks \<Longrightarrow>
   \<exists>e. filter_basic_loop True xs m d = Ok (d @ e) \<and> subseq e ks \<and> distinct (map go_ident e) \<and>
     go_ident ` set e = {k. m k = Some True} \<inter> go_ident ` set ks"
proof (induction xs arbitrary: ks d m)
  case (Cons x xs)
  then obtain k ks' where k: "ks = k # ks'" "basic_key x = Ok k" "map basic_key xs = map Ok ks'" by (cases ks) auto
  show ?case
  proof (cases "m (go_ident k) = Some True")
    case True
    obtain e where e: "filter_basic_loop True xs (m(go_ident k \<mapsto> False)) (d @ [k]) = Ok ((d @ [k]) @ e)" "subseq e ks'"
      "distinct (map go_ident e)" "go_ident ` set e = {j. (m(go_ident k \<mapsto> False)) j = Some True} \<inter> go_ident ` set ks'"
      using Cons.IH [OF k(3), of "m(go_ident k \<mapsto> False)" "d @ [k]"] by blast
    have "go_ident k \<notin> go_ident ` set e" using e(4) by auto
    moreover have "go_ident ` set (k # e) = {j. m j = Some True} \<inter> go_ident ` set ks" using e(4) True k(1) by auto
    ultimately show ?thesis using e(1-3) True k by (intro exI [of _ "k # e"]) auto
  next
    case False
    obtain e where "filter_basic_loop True xs m d = Ok (d @ e)" "subseq e ks'" "distinct (map go_ident e)"
      "go_ident ` set e = {j. m j = Some True} \<inter> go_ident ` set ks'"
      using Cons.IH [OF k(3), of m d] by blast
    with False k show ?thesis by (intro exI [of _ e]) auto
  qed
qed simp

text \<open>The value a filter entry is compared with is found and comparable.\<close>

definition field_is :: "(gval option \<Rightarrow> string) \<Rightarrow> gval \<Rightarrow> string \<times> gval \<Rightarrow> bool res" where
  "field_is show item kv = bind_res (getItemFieldVal show item (fst kv)) (\<lambda>v. case v of
     None \<Rightarrow> Panic ''reflect: call of reflect.Value.Interface on zero Value'' | Some v \<Rightarrow> go_equal v (snd kv))"

lemma item_matches_Ok:
  assumes "\<And>kv. kv \<in> set flt \<Longrightarrow> field_is show item kv = Ok (eq kv)"
  shows "item_matches show item flt = Ok (list_all eq flt)"
  using assms
proof (induction flt)
  case (Cons kv flt)
  obtain key val where kv: "kv = (key, val)" by (cases kv)
  have "field_is show item (key, val) = Ok (eq (key, val))" using Cons.prems kv by simp
  then obtain v where "getItemFieldVal show item key = Ok (Some v)" "go_equal v val = Ok (eq (key, val))"
    by (cases "getItemFieldVal show item key") (auto simp: field_is_def split: option.splits)
  with Cons kv show ?case by simp
qed simp

text \<open>Where every item is a struct or points to one, and every path leads to a comparable value, a map filter selects exactly the structs
  whose values are all as required, in order, whatever the order of the map.\<close>

lemma filter_struct_exact:
  assumes "map getReflectVal items = map Some structs" "\<And>x. x \<in> set structs \<Longrightarrow> \<exists>t fs. x = GStruct t fs"
    and "\<And>x kv. x \<in> set structs \<Longrightarrow> kv \<in> set flt \<Longrightarrow> field_is show x kv = Ok (eq x kv)"
  shows "filter_struct_loop show flt items d = Ok (d @ filter (\<lambda>x. \<forall>kv\<in>set flt. eq x kv) structs)"
  using assms
proof (induction items arbitrary: structs d)
  case (Cons item items)
  then obtain x xs where x: "structs = x # xs" "getReflectVal item = Some x" "map getReflectVal items = map Some xs" by (cases structs) auto
  then obtain t fs where t: "x = GStruct t fs" using Cons.prems(2) [of x] by auto
  have "item_matches show x flt = Ok (list_all (eq x) flt)" using Cons.prems(3) x(1) by (intro item_matches_Ok) simp
  moreover have "filter_struct_loop show flt items d' = Ok (d' @ filter (\<lambda>x. \<forall>kv\<in>set flt. eq x kv) xs)" for d'
    using Cons.prems(2,3) x(1) by (intro Cons.IH [OF x(3)]) auto
  ultimately show ?case using x t by (simp add: list_all_iff)
qed simp

text \<open>
  Filtering a slice of basic values: without the flag the result gets exactly the items the filter lists, in order and with
  repetitions; with the flag it gets each of these once, in the order of the slice.
\<close>

theorem filter_basic_slice_exact:
  assumes "map basic_key xs = map Ok ks" "map basic_key fs = map Ok fks"
  shows "FilterBasicSlice (GSlice t xs) (GSlice u fs) (GPtr r (Some (a, GSlice ''interface {}'' old))) []
      = Ok (GSlice ''interface {}'' (old @ filter (\<lambda>k. go_ident k \<in> go_ident ` set fks) ks))
    \<and> (\<exists>e. FilterBasicSlice (GSlice t xs) (GSlice u fs) (GPtr r (Some (a, GSlice ''interface {}'' old))) [GBool True]
          = Ok (GSlice ''interface {}'' (old @ e))
        \<and> subseq e ks \<and> distinct (map go_ident e) \<and> go_ident ` set e = go_ident ` set fks \<inter> go_ident ` set ks)"
proof
  let ?m = "\<lambda>v. if v \<in> go_ident ` set fks then Some True else None"
  note mapper = filter_mapper_Ok [OF assms(2), of Map.empty]
  have listed: "(?m k = Some True) = (k \<in> go_ident ` set fks)" for k by simp
  show "FilterBasicSlice (GSlice t xs) (GSlice u fs) (GPtr r (Some (a, GSlice ''interface {}'' old))) []
      = Ok (GSlice ''interface {}'' (old @ filter (\<lambda>k. go_ident k \<in> go_ident ` set fks) ks))"
    by (simp add: FilterBasicSlice_def is_pointer_def getReflectVal_def items_of_def append_result_def mapper filter_basic_all [OF assms(1)])
  obtain e where "filter_basic_loop True xs ?m [] = Ok e" "subseq e ks" "distinct (map go_ident e)"
    "go_ident ` set e = {k. ?m k = Some True} \<inter> go_ident ` set ks"
    using filter_basic_distinct [OF assms(1), of ?m "[]"] by auto
  then show "\<exists>e. FilterBasicSlice (GSlice t xs) (GSlice u fs) (GPtr r (Some (a, GSlice ''interface {}'' old))) [GBool True]
          = Ok (GSlice ''interface {}'' (old @ e))
        \<and> subseq e ks \<and> distinct (map go_ident e) \<and> go_ident ` set e = go_ident ` set fks \<inter> go_ident ` set ks"
    by (intro exI [of _ e]) (auto simp: FilterBasicSlice_def is_pointer_def getReflectVal_def items_of_def append_result_def mapper)
qed

theorem filter_basic_slice_exact_witness:
  "FilterBasicSlice (GSlice ''string'' [GString ''a'', GString ''a'', GString ''b'', GString ''c'']) (GSlice ''string'' [GString ''a'', GString ''b''])
     (GPtr ''[]interface {}'' (Some (1, GSlice ''interface {}'' []))) []
   = Ok (GSlice ''interface {}'' [GString ''a'', GString ''a'', GString ''b''])"
proof -
  have "map basic_key [GString ''a'', GString ''a'', GString ''b'', GString ''c''] = map Ok [GString ''a'', GString ''a'', GString ''b'', GString ''c'']"
    "map basic_key [GString ''a'', GString ''b''] = map Ok [GString ''a'', GString ''b'']"
    by (simp_all add: basic_key_def getReflectVal_def)
  from conjunct1 [OF filter_basic_slice_exact [OF this]] show ?thesis by simp
qed

end
