(* ===== verification/Process_Runs.thy ===== *)
theory Process_Runs
  imports Provider_Process Lifecycle_Correct Http_Scenario
begin

text \<open>
  Runs of the whole process: a provider as start-up builds it, called by the service controller through its entry
  points and by the listener through the handler of events, for any services in any order. Errors go back to the
  callers, which are not part of the repository.
\<close>

datatype process_call = EnsureCall "node list" | UpdateCall "node list" | DeleteCall | GetCall | ServiceEvent bool

fun run_call :: "'w CloudProvider \<Rightarrow> string \<Rightarrow> service \<Rightarrow> process_call \<Rightarrow> ('w, unit) prog" where
  "run_call h c svc (EnsureCall nodes) = bindR (attempt (cp_EnsureLoadBalancer h c svc nodes)) (\<lambda>_. okR ())"
| "run_call h c svc (UpdateCall nodes) = bindR (attempt (cp_UpdateLoadBalancer h c svc nodes)) (\<lambda>_. okR ())"
| "run_call h c svc DeleteCall = bindR (attempt (cp_EnsureLoadBalancerDeleted h c svc)) (\<lambda>_. okR ())"
| "run_call h c svc GetCall = bindR (attempt (cp_GetLoadBalancer h c svc)) (\<lambda>_. okR ())"
| "run_call h c svc (ServiceEvent isDelete) = handle_service h c svc isDelete"

definition process_run :: "'w CloudProvider \<Rightarrow> string \<Rightarrow> (service \<times> process_call) list \<Rightarrow> ('w, unit) prog" where
  "process_run h c calls = foldR (\<lambda>(svc, call) _. run_call h c svc call) calls ()"

subsection \<open>What the entry points request\<close>

text \<open>
  Bounds on the requests of a provider carry over to the entry points that dispatch to it: the contract of a provider for
  one service, over the requests \<open>K\<close>.
\<close>

definition serves_within :: "'w provider \<Rightarrow> string \<Rightarrow> service \<Rightarrow> kind set \<Rightarrow> bool" where
  "serves_within P c svc K \<longleftrightarrow> emits (p_GetLoadBalancer P c svc) (kinds K) \<and> emits (p_EnsureLoadBalancerDeleted P c svc) (kinds K) \<and>
     (\<forall>nodes. emits (p_EnsureLoadBalancer P c svc nodes) (kinds K) \<and> emits (p_UpdateLoadBalancer P c svc nodes) (kinds K))"

definition entry_kinds :: "kind set \<Rightarrow> kind set" where
  "entry_kinds K = K \<union> {KLock, KStatus, KEvent, KRead}"

lemma emits_entry_lock: "emits m (kinds K) \<Longrightarrow> emits (with_lock key m) (kinds (entry_kinds K))"
  by (rule emits_mono [OF emits_with_lock]) (auto simp: entry_kinds_def)

lemma entry_kinds_mono: "K \<subseteq> entry_kinds K"
  by (auto simp: entry_kinds_def)

lemma emits_entries:
  assumes "cp_providers h lbVersion = Some P" "getLoadBalancerVersion svc = Inr lbVersion" "serves_within P c svc K"
  shows "emits (cp_GetLoadBalancer h c svc) (kinds (entry_kinds K))" "emits (cp_EnsureLoadBalancer h c svc nodes) (kinds (entry_kinds K))"
    "emits (cp_UpdateLoadBalancer h c svc nodes) (kinds (entry_kinds K))" "emits (cp_EnsureLoadBalancerDeleted h c svc) (kinds (entry_kinds K))"
  using assms emits_mono [OF _ kinds_mono [OF entry_kinds_mono]]
  unfolding cp_GetLoadBalancer_def cp_EnsureLoadBalancer_def cp_UpdateLoadBalancer_def cp_EnsureLoadBalancerDeleted_def serves_within_def
  by (auto intro!: emits_intro emits_entry_lock)

lemma emits_list_nodes: "emits (list_nodes b) (kinds (entry_kinds K))"
  unfolding list_nodes_def by (auto intro!: emits_intro simp: entry_kinds_def)

lemma emits_handle_service:
  assumes "cp_providers h lbVersion = Some P" "getLoadBalancerVersion svc = Inr lbVersion" "serves_within P c svc K"
  shows "emits (handle_service h c svc isDelete) (kinds (entry_kinds K))"
proof -
  have event: "emits (sendEvent reason msg) (kinds (entry_kinds K))" for reason msg
    by (auto intro!: emits_intro simp: entry_kinds_def)
  have status: "emits (updateService b svc st) (kinds (entry_kinds K))" for b :: "'a Basic" and st
    by (auto intro!: emits_intro simp: entry_kinds_def)
  show ?thesis
    unfolding handle_service_def handle_delete_def handle_update_def
    by (intro emits_intro event status emits_list_nodes emits_entries [OF assms])
qed

lemma emits_run_call:
  assumes "cp_providers h lbVersion = Some P" "getLoadBalancerVersion svc = Inr lbVersion" "serves_within P c svc K"
  shows "emits (run_call h c svc call) (kinds (entry_kinds K))"
  using emits_handle_service [OF assms] emits_entries [OF assms] by (cases call) (auto intro!: emits_intro)

context lb_provider
begin

lemma serves_named: "getStringFromSvsAnnotation svc ElbID [] \<noteq> [] \<Longrightarrow> serves_within (P b) c svc named_kinds"
proof -
  have "{KRead} \<subseteq> named_kinds" "{KRead, KMember, KMonitor, KPool} \<subseteq> named_kinds" by (auto simp: named_kinds_def)
  from kinds_mono [OF this(1)] kinds_mono [OF this(2)]
  show "getStringFromSvsAnnotation svc ElbID [] \<noteq> [] \<Longrightarrow> serves_within (P b) c svc named_kinds"
    unfolding serves_within_def
    using ensure_named delete_named emits_mono [OF get_reads] emits_mono [OF update_kinds] by blast
qed

end

lemma start_cloud_Started:
  assumes "start_cloud S H A cd cfg = Started h"
  obtains b where "h = NewHWSCloud b (ELBCloud_provider (elb_cloud H b)) (NATCloud_provider (nat_cloud H b))" "clients b = A"
  using assms by (auto simp: start_cloud_def start_basic_def Let_def split: option.splits sum.splits)

subsection \<open>Instances of the user\<close>

definition uses_own_instance :: "service \<Rightarrow> bool" where
  "uses_own_instance svc \<longleftrightarrow> getStringFromSvsAnnotation svc ElbID [] \<noteq> [] \<and>
     (getLoadBalancerVersion svc = Inr VersionShared \<or> getLoadBalancerVersion svc = Inr VersionDedicated)"

text \<open>
  C5. From start-up on: whatever the service controller and the events of the cluster make the process do with services that name
  their instance by annotation, in any order and whatever cloud and cluster answer, no load balancer instance is created or
  deleted and no public address is released.
\<close>

theorem named_instances_survive_the_process:
  assumes "start_cloud S H A cd cfg = Started h" and "\<forall>(svc, call)\<in>set calls. uses_own_instance svc"
  shows "\<exists>es. log (snd (process_run h c calls s)) = log s @ es
     \<and> (\<forall>e\<in>set es. kind_of e \<notin> {KInstanceCreate, KInstanceDelete, KEipDelete})"
proof -
  obtain b where h: "h = NewHWSCloud b (ELBCloud_provider (elb_cloud H b)) (NATCloud_provider (nat_cloud H b))"
    using start_cloud_Started [OF assms(1)] by blast
  have "emits (run_call h c svc call) (kinds (entry_kinds named_kinds))" if "(svc, call) \<in> set calls" for svc call
  proof -
    have own: "uses_own_instance svc" using assms(2) that by blast
    then show ?thesis
      unfolding uses_own_instance_def h
      using emits_run_call [OF NewHWSCloud_shared(2) _ shared.serves_named] emits_run_call [OF NewHWSCloud_shared(3) _ dedicated.serves_named] by blast
  qed
  then have "emits (process_run h c calls) (kinds (entry_kinds named_kinds))"
    unfolding process_run_def by (auto intro!: emits_foldR)
  from emits_snd [OF this, of s] show ?thesis by (fastforce simp: entry_kinds_def named_kinds_def)
qed

definition demo_start :: start_env where
  "demo_start = \<lparr>st_gcfg = (\<lambda>_. Inr (cloudConfig demo_basic)), st_inClusterConfig = None, st_newForConfig = None,
     st_configMap = (\<lambda>_ _. Inr Map.empty), st_ccmOptions = None, st_hostname = Inr ''node-1''\<rparr>"

definition demo_settings :: http_settings where
  "demo_settings = \<lparr>hs_json = no_decoders, hs_Schedule = [], hs_Range = (\<lambda>x. x), hs_ClusterID = ''cluster'', hs_Ticks = 1\<rparr>"

theorem named_instances_survive_the_process_witness:
  "\<exists>h es. start_cloud demo_start demo_settings demo_api (decoders demo_basic) (Some []) = Started h
     \<and> log (snd (process_run h ''c'' [(demo_service named_ann, EnsureCall [demo_node]), (demo_service named_ann, ServiceEvent True)] start)) = [] @ es
     \<and> (\<forall>e\<in>set es. kind_of e \<notin> {KInstanceCreate, KInstanceDelete, KEipDelete})"
proof -
  obtain h where h: "start_cloud demo_start demo_settings demo_api (decoders demo_basic) (Some []) = Started h"
    by (simp add: start_cloud_def demo_start_def ReadConfig_def newKubeClient_def Let_def)
  have "uses_own_instance (demo_service named_ann)"
    by (simp add: uses_own_instance_def named_ann_ElbID getLoadBalancerVersion_def)
  then show ?thesis
    using h named_instances_survive_the_process [OF h, of "[(demo_service named_ann, EnsureCall [demo_node]), (demo_service named_ann, ServiceEvent True)]" "''c''" start]
    by (auto simp: start_def)
qed

end
