(* ===== verification/Lock_Freedom.thy ===== *)
theory Lock_Freedom
  imports Process_Runs
begin

text \<open>
  None of the four load balancers touches the key locks itself: only the entry points of \<open>huaweicloud.go\<close> do. For the
  shared and the dedicated one this is part of the contract \<open>lb_provider\<close>; here are the two that use HTTP.
\<close>

named_theorems lockfree "operations that issue no lock event"

abbreviation (input) no_locks :: "event set" where
  "no_locks \<equiv> kinds (- {KLock})"

lemma http_no_lock [simp]: "kind_of (Http r) \<noteq> KLock"
  by simp

lemma emits_sendEvent_free [lockfree]: "emits (sendEvent reason msg) no_locks"
  by (auto intro!: emits_intro)

lemma nat_reads_free [lockfree]:
  "emits (GetNATGateway A J tenant gid) no_locks" "emits (GetDNATRule A J tenant rid) no_locks"
  "emits (ListDNATRules A J tenant params) no_locks" "emits (ListPorts A J params) no_locks"
  "emits (GetPort A J pid) no_locks" "emits (ListFloatings A J params) no_locks"
  "emits (CreateDNATRule A J tenant conf) no_locks" "emits (DeleteDNATRule A tenant rid gid) no_locks"
  by (auto intro!: emits_intro)

lemma kube_reads_free [lockfree]:
  "emits (kube_service A ns name) no_locks" "emits (kube_node A name) no_locks" "emits (kube_services A) no_locks"
  "emits (listPods A ns sel) no_locks"
  by (auto intro!: emits_intro)

subsection \<open>The NAT provider\<close>

lemma nat_steps_free [lockfree]:
  "emits (listDnatRule c gid) no_locks" "emits (listAllDnatRuleByFloatIP c fid) no_locks"
  "emits (ensureCreateDNATRule c port p f g) no_locks" "emits (checkDNATRuleById c rid) no_locks"
  "emits (getFloatingIpInfoByIp c ip) no_locks" "emits (getPortByFixedIp c sid ip) no_locks" "emits (nat_getPods c name ns) no_locks"
  unfolding listDnatRule_def listAllDnatRuleByFloatIP_def ensureCreateDNATRule_def checkDNATRuleById_def getFloatingIpInfoByIp_def
    getPortByFixedIp_def nat_getPods_def
  by (auto intro!: emits_intro lockfree)

lemma emits_collect: "emits m S \<Longrightarrow> emits (collect what m errs) S" "emits m S \<Longrightarrow> emits (collect_plain m errs) S" "emits (aggregate errs) S"
  unfolding collect_def collect_plain_def aggregate_def by (auto intro!: emits_intro)

lemma nat_delete_free [lockfree]: "emits (ensureDeleteDNATRule c rule g) no_locks"
  unfolding ensureDeleteDNATRule_def by (auto intro!: emits_intro lockfree)

lemma nat_loops_free [lockfree]:
  "emits (nat_prepare c svc blank) no_locks" "emits (reconcile_rules c svc rules p f) no_locks"
  "emits (delete_port_rules c msg rules g ports) no_locks" "emits (nat_update_port c rules p f g h port errs) no_locks"
  unfolding nat_prepare_def reconcile_rules_def create_rules_def delete_rules_def delete_port_rules_def nat_update_port_def Let_def
  by (intro emits_intro lockfree emits_collect)+

lemma nat_serves_free: "serves_within (NATCloud_provider c) name svc (- {KLock})"
  unfolding serves_within_def NATCloud_provider_def provider.simps nat_GetLoadBalancer_def nat_EnsureLoadBalancer_def
    nat_UpdateLoadBalancer_def nat_EnsureLoadBalancerDeleted_def Let_def
  by (intro conjI allI emits_intro lockfree emits_collect)

subsection \<open>The version 1 provider\<close>

lemma elb_get_free [lockfree]: "emits (GetJobStatus A J tenant jobID) no_locks"
  unfolding GetJobStatus_def by (auto intro!: emits_intro)

lemma emits_wait_for_free [lockfree]: "emits m no_locks \<Longrightarrow> emits (wait_for m) no_locks"
  unfolding wait_for_def by (intro emits_intro)

lemma deref_all_free [lockfree]: "emits (deref_all ps) no_locks"
  unfolding deref_all_def by (intro emits_intro)

lemma elb_requests_free [lockfree]:
  "emits (submit_job A J r failed) no_locks" "emits (job_condition A J tenant jobID) no_locks" "emits (v1_ListMembers A J tenant lid) no_locks"
  "emits (v1_ListListeners A J tenant lb) no_locks" "emits (v1_ListLoadBalancers A J tenant params) no_locks"
  "emits (v1_CreateListener A J tenant conf) no_locks" "emits (v1_DeleteListener A tenant lid) no_locks"
  "emits (v1_UpdateListener A J tenant conf lid) no_locks" "emits (v1_CreateHealthCheck A J tenant h) no_locks"
  "emits (v1_DeleteHealthCheck A tenant hid) no_locks" "emits (v1_GetHealthCheck A J tenant hid) no_locks"
  "emits (v1_UpdateHealthCheck A J tenant h hid) no_locks"
  unfolding submit_job_def job_condition_def v1_ListMembers_def v1_ListListeners_def v1_ListLoadBalancers_def v1_CreateListener_def
    v1_DeleteListener_def v1_UpdateListener_def v1_CreateHealthCheck_def v1_DeleteHealthCheck_def v1_GetHealthCheck_def v1_UpdateHealthCheck_def
  by (auto intro!: emits_intro lockfree simp del: kind_of.simps)

lemma scan_member_free [lockfree]: "emits (scan_member sid ps) no_locks"
  by (induction ps) (auto intro!: emits_intro)

lemma members_ready_free [lockfree]: "emits (members_ready ms ps) no_locks"
  by (induction ms) (auto intro!: emits_intro lockfree)

lemma elb_jobs_free [lockfree]:
  "emits (WaitJobComplete A J tenant jobID) no_locks" "emits (v1_DeleteMembers A J tenant lid) no_locks"
  "emits (AsyncCreateMembers A J tenant lid ms) no_locks" "emits (AsyncDeleteMembers A J tenant lid rms) no_locks"
  "emits (WaitMemberComplete A J tenant lid ms) no_locks"
  unfolding WaitJobComplete_def v1_DeleteMembers_def AsyncCreateMembers_def AsyncDeleteMembers_def WaitMemberComplete_def
  by (intro emits_intro lockfree)+

lemma kube_update_free [lockfree]: "emits (kube_update A svc) no_locks" "emits (after_update A svc r) no_locks"
  unfolding kube_update_def after_update_def
  by (auto intro!: emits_intro lockfree split: error.splits kube_reason.splits)

lemma mark_loops_free [lockfree]: "emits (updateServiceStatus A svc) no_locks" "emits (updateServiceMarkIfNeeded A svc again) no_locks"
proof -
  have "emits (update_status_loop n A svc) no_locks" for n
    by (induction n arbitrary: svc) (auto intro!: emits_intro lockfree split: option.splits)
  moreover have "emits (update_mark_loop n A svc again) no_locks" for n
    by (induction n arbitrary: svc) (auto intro!: emits_intro lockfree)
  ultimately show "emits (updateServiceStatus A svc) no_locks" "emits (updateServiceMarkIfNeeded A svc again) no_locks"
    by (simp_all only: updateServiceStatus_def updateServiceMarkIfNeeded_def)
qed

lemma run_background_free [lockfree]: "emits (run_background c bg) no_locks"
  unfolding run_background_def by (intro emits_intro lockfree)

lemma emits_reporting [lockfree]: "emits m no_locks \<Longrightarrow> emits (or_report reason what m) no_locks" "emits m no_locks \<Longrightarrow> emits (prefixed what m) no_locks"
  unfolding or_report_def prefixed_def by (auto intro!: emits_intro lockfree)

lemma elb_lists_free [lockfree]:
  "emits (getListenersByService c svc) no_locks" "emits (generateMembers c svc) no_locks" "emits (match_members ms ps) no_locks"
  unfolding getListenersByService_def generateMembers_def generate_step_def elb_getPods_def match_members_def
  by (intro emits_intro lockfree)+

lemma updateListenerMembers_free [lockfree]: "emits (updateListenerMembers c svc lid ms ps) no_locks"
  unfolding updateListenerMembers_def Let_def by (intro emits_intro lockfree)

lemma session_free [lockfree]: "emits (session_or_report c svc reason what) no_locks"
  unfolding session_or_report_def elb_getSessionAffinityType_def elb_getSessionAffinityOptions_def Let_def
  by (intro emits_intro lockfree)

lemma elb_ports_free [lockfree]:
  "emits (create_port c lb svc h ms aff opts port acc) no_locks" "emits (update_listener c svc h ms aff opts temp bgs) no_locks"
  "emits (elb_deleteListener c lid hid) no_locks"
  unfolding create_port_def ensureCreateListener_def update_listener_def updateHealthcheckIfNeeded_def elb_deleteListener_def Let_def
  by (intro emits_intro lockfree)+

lemma run_task_free [lockfree]: "emits (delete_listeners c msg ls) no_locks" "emits (run_task c lb svc plan ms task) no_locks"
proof -
  show del: "emits (delete_listeners c msg ls) no_locks" for msg ls
    unfolding delete_listeners_def by (intro emits_intro lockfree)
  show "emits (run_task c lb svc plan ms task) no_locks"
    unfolding run_task_def createLoadBalancer_def updateLoadBalancer_def deleteLoadBalancer_def
    by (cases task) (auto intro!: emits_intro lockfree del)
qed

lemma elb_serves_free: "serves_within (ELBCloud_provider c) name svc (- {KLock})"
  unfolding serves_within_def ELBCloud_provider_def provider.simps elb_GetLoadBalancer_def elb_EnsureLoadBalancer_def
    elb_UpdateLoadBalancer_def elb_EnsureLoadBalancerDeleted_def settle_background_def Let_def
  by (intro conjI allI emits_intro lockfree)

subsection \<open>All providers of a process\<close>

context lb_provider
begin

lemma serves_free: "serves_within (P b) c svc (- {KLock})"
proof -
  have "provider_kinds \<subseteq> - {KLock}" "{KRead} \<subseteq> - {KLock}" "{KRead, KMember, KMonitor, KPool} \<subseteq> - {KLock}" by (auto simp: provider_kinds_def)
  note sub = this [THEN kinds_mono]
  show ?thesis
    unfolding serves_within_def
    using emits_mono [OF get_reads sub(2)] emits_mono [OF update_kinds sub(3)] emits_mono [OF ensure_kinds sub(1)] emits_mono [OF delete_kinds sub(1)] by blast
qed

end

lemma started_serves_free:
  assumes "start_cloud S H A cd cfg = Started h" "cp_providers h v = Some P"
  shows "serves_within P c svc (- {KLock})"
proof -
  obtain b where h: "h = NewHWSCloud b (ELBCloud_provider (elb_cloud H b)) (NATCloud_provider (nat_cloud H b))"
    using start_cloud_Started [OF assms(1)] by blast
  with assms(2) show ?thesis
    using shared.serves_free dedicated.serves_free elb_serves_free nat_serves_free by (auto simp: NewHWSCloud_def NewHWSCloud_providers_def split: if_splits)
qed

end
