(* ===== verification/Command_Start.thy ===== *)
theory Command_Start
  imports Process_Runs
begin

text \<open>
  The command \<open>cloud-controller-manager\<close> and what surrounds the listeners of \<open>huaweicloud.go\<close>: the registration of the
  provider and the initializer that ends the process when there is none, the names of the annotations, the options of the informers'
  queries, the jobs their handlers submit, and the parameters of the leader election. The framework of
  \<open>k8s.io/cloud-provider\<close> that runs the command is a parameter; its \<open>InitCloudProvider\<close> is a lookup of the registered name.
\<close>

subsection \<open>Names\<close>

definition ProviderName :: string where
  "ProviderName = ''huaweicloud''"

definition annotation_keys :: "string list" where
  "annotation_keys =
    [''kubernetes.io/elb.class'', ''kubernetes.io/elb.id'', ''kubernetes.io/elb.subnet-id'', ''kubernetes.io/elb.backend.subnet-id'',
     ''kubernetes.io/elb.backend.ip-version'', ''kubernetes.io/elb.eip-id'', ''kubernetes.io/elb.keep-eip'',
     ''kubernetes.io/elb.eip-auto-create-option'', ''kubernetes.io/elb.lb-algorithm'', ''kubernetes.io/elb.session-affinity-flag'',
     ''kubernetes.io/elb.session-affinity-option'', ''kubernetes.io/elb.health-check-flag'', ''kubernetes.io/elb.health-check-option'',
     ''kubernetes.io/elb.x-forwarded-host'', ''kubernetes.io/elb.default-tls-container-ref'', ''kubernetes.io/elb.idle-timeout'',
     ''kubernetes.io/elb.request-timeout'', ''kubernetes.io/elb.response-timeout'', ''kubernetes.io/elb.mark'']"

definition dedicated_annotation_keys :: "string list" where
  "dedicated_annotation_keys =
    [''kubernetes.io/elb.enable-cross-vpc'', ''kubernetes.io/elb.l4-flavor-id'', ''kubernetes.io/elb.l7-flavor-id'',
     ''kubernetes.io/elb.availability-zones'', ''kubernetes.io/elb.enable-transparent-client-ip'']"

text \<open>No annotation is read for two options.\<close>

lemma annotation_keys_distinct: "distinct (annotation_keys @ dedicated_annotation_keys)"
  by (simp add: annotation_keys_def dedicated_annotation_keys_def)

text \<open>The names the other theories use are these.\<close>

lemma annotation_keys_used:
  "set [ElbClass, ElbID, ElbSubnetID, ElbEipID, AutoCreateEipOptions, ElbAlgorithm, ElbSessionAffinityFlag, ElbSessionAffinityOption,
     ElbHealthCheckFlag, ElbHealthCheckOptions, ElbXForwardedHost, DefaultTLSContainerRef, ELBMarkAnnotation] \<subseteq> set annotation_keys"
  by (simp add: annotation_keys_def)

subsection \<open>The command\<close>

record command_config =
  kc_Name :: string
  kc_CloudConfigFile :: string
  kc_AllowUntaggedCloud :: bool

text \<open>\<open>init\<close> registers the constructor under the name of the provider; a configuration is given by the path of its file.\<close>

definition registered_providers ::
  "start_env \<Rightarrow> http_settings \<Rightarrow> 'w api \<Rightarrow> codecs \<Rightarrow> (string \<rightharpoonup> (string option \<Rightarrow> 'w CloudProvider startup))" where
  "registered_providers S H A cd = [ProviderName \<mapsto> start_cloud S H A cd]"

text \<open>\<open>Failed\<close> is an error, \<open>Started None\<close> a nil provider; \<open>open_file\<close> is \<open>os.Open\<close>.\<close>

definition InitCloudProvider ::
  "(string \<rightharpoonup> (string option \<Rightarrow> 'w CloudProvider startup)) \<Rightarrow> (string \<Rightarrow> error option) \<Rightarrow> string \<Rightarrow> string \<Rightarrow> 'w CloudProvider option startup" where
  "InitCloudProvider providers open_file name configFilePath =
     (if name = [] \<or> name = ''external'' then Started None
      else
        let create = (\<lambda>config. case providers name of
              None \<Rightarrow> Failed (Errorf (''unknown cloud provider '' @ name))
            | Some f \<Rightarrow> (case f config of
                  Started h \<Rightarrow> Started (Some h)
                | Failed e \<Rightarrow> Failed (Errorf (''could not init cloud provider '' @ name @ '': '' @ err_text e))
                | Exited msg \<Rightarrow> Exited msg))
        in if configFilePath \<noteq> []
           then (case open_file configFilePath of
               Some e \<Rightarrow> Exited (''Couldn'' @ [CHR 0x27] @ ''t open cloud provider configuration '' @ configFilePath)
             | None \<Rightarrow> create (Some configFilePath))
           else create None)"

definition cloudInitializer ::
  "(string \<rightharpoonup> (string option \<Rightarrow> 'w CloudProvider startup)) \<Rightarrow> (string \<Rightarrow> error option) \<Rightarrow> command_config \<Rightarrow> 'w CloudProvider startup" where
  "cloudInitializer providers open_file cfg = (case InitCloudProvider providers open_file (kc_Name cfg) (kc_CloudConfigFile cfg) of
       Failed e \<Rightarrow> Exited (''Cloud provider could not be initialized: '' @ err_text e)
     | Exited msg \<Rightarrow> Exited msg
     | Started None \<Rightarrow> Exited ''Cloud provider is nil''
     | Started (Some cloud) \<Rightarrow>
         if \<not> cp_HasClusterID cloud \<and> \<not> kc_AllowUntaggedCloud cfg
         then Exited ''no ClusterID found.  A ClusterID is required for the cloud provider to function properly. ''
         else Started cloud)"

text \<open>\<open>main\<close>: the options of the framework and the run of its command are given with their errors.\<close>

datatype exit_status = ExitOk | ExitFatal string | ExitError string

definition command_main :: "error option \<Rightarrow> error option \<Rightarrow> exit_status" where
  "command_main optionsErr executeErr = (case optionsErr of
       Some e \<Rightarrow> ExitFatal (''unable to initialize command options: '' @ err_text e)
     | None \<Rightarrow> (case executeErr of Some e \<Rightarrow> ExitError (''error: '' @ err_text e) | None \<Rightarrow> ExitOk))"

text \<open>
  The command comes up with a provider exactly when it is asked for this one with a configuration file that opens and from which the
  provider starts; in every other case the process ends. An untagged cluster never matters.
\<close>

theorem command_starts_provider:
  "cloudInitializer (registered_providers S H A cd) open_file cfg = Started h \<longleftrightarrow>
     kc_Name cfg = ProviderName \<and> kc_CloudConfigFile cfg \<noteq> [] \<and> open_file (kc_CloudConfigFile cfg) = None \<and>
     start_cloud S H A cd (Some (kc_CloudConfigFile cfg)) = Started h"
proof -
  have none: "start_cloud S H A cd None \<noteq> Started h'" for h' by (simp add: start_cloud_def)
  show ?thesis
    using none
    by (auto simp: cloudInitializer_def InitCloudProvider_def registered_providers_def ProviderName_def cp_HasClusterID_def Let_def
        split: startup.splits option.splits if_splits)
qed

subsection \<open>Queries and handlers of the informers\<close>

record ListOptions =
  lo_ResourceVersion :: string
  lo_Limit :: int

text \<open>A query without a version, or with any version, starts at the list of endpoints read before; the services' queries use it too.\<close>

definition from_version :: "string \<Rightarrow> ListOptions \<Rightarrow> ListOptions" where
  "from_version listed options =
     (if lo_ResourceVersion options = [] \<or> lo_ResourceVersion options = ''0'' then options\<lparr>lo_ResourceVersion := listed\<rparr> else options)"

datatype listener_job = Dispatch string string string | HandleService service bool

datatype informer_event =
    EndpointsAdded string string
  | EndpointsUpdated string string
  | EndpointsDeleted string string
  | ServiceAdded service
  | ServiceUpdated service
  | ServiceDeleted service

fun submitted_jobs :: "'w Basic \<Rightarrow> informer_event \<Rightarrow> listener_job list" where
  "submitted_jobs b (EndpointsAdded ns name) = (if endpoint_submitted name then [Dispatch ns name ''endpointAdded''] else [])"
| "submitted_jobs b (EndpointsUpdated ns name) = (if endpoint_submitted name then [Dispatch ns name ''endpointUpdate''] else [])"
| "submitted_jobs b (EndpointsDeleted ns name) = []"
| "submitted_jobs b (ServiceAdded svs) = []"
| "submitted_jobs b (ServiceUpdated svs) = (if service_submitted b svs then [HandleService svs False] else [])"
| "submitted_jobs b (ServiceDeleted svs) = (if service_submitted b svs then [HandleService svs True] else [])"

text \<open>One worker of the pool runs a job; the cache of missing services is shared by the jobs.\<close>

fun run_job :: "'w CloudProvider \<Rightarrow> string \<Rightarrow> listener_job \<Rightarrow> (string \<rightharpoonup> string) \<Rightarrow> ('w, string \<rightharpoonup> string) prog" where
  "run_job h clusterName (Dispatch ns name eType) missing = dispatcher (cp_Basic h) missing ns name eType (handle_service h clusterName)"
| "run_job h clusterName (HandleService svc isDelete) missing = bindR (handle_service h clusterName svc isDelete) (\<lambda>_. okR missing)"

definition listener_run :: "'w CloudProvider \<Rightarrow> string \<Rightarrow> informer_event list \<Rightarrow> (string \<rightharpoonup> string) \<Rightarrow> ('w, string \<rightharpoonup> string) prog" where
  "listener_run h clusterName events missing = foldR (run_job h clusterName) (concat (map (submitted_jobs (cp_Basic h)) events)) missing"

subsection \<open>Leader election\<close>

text \<open>Times in seconds.\<close>

record lease_config =
  lc_Name :: string
  lc_Namespace :: string
  lc_Identity :: string
  lc_LeaseDuration :: nat
  lc_RenewDeadline :: nat
  lc_RetryPeriod :: nat

definition lease_for :: "string \<Rightarrow> string \<Rightarrow> lease_config" where
  "lease_for hostname uuid = \<lparr>lc_Name = ''endpoint-slice-listener'', lc_Namespace = ''kube-system'', lc_Identity = hostname @ ''_'' @ uuid,
     lc_LeaseDuration = 60, lc_RenewDeadline = 50, lc_RetryPeriod = 30\<rparr>"

text \<open>What \<open>NewLeaderElector\<close> checks: otherwise \<open>RunOrDie\<close> ends the process. Its jitter factor is 1.2.\<close>

definition lease_accepted :: "lease_config \<Rightarrow> bool" where
  "lease_accepted l \<longleftrightarrow> lc_RenewDeadline l < lc_LeaseDuration l \<and> 12 * lc_RetryPeriod l < 10 * lc_RenewDeadline l \<and>
     1 \<le> lc_LeaseDuration l \<and> 1 \<le> lc_RenewDeadline l \<and> 1 \<le> lc_RetryPeriod l \<and> lc_Identity l \<noteq> []"

lemma contains_prefix: "contains (xs @ ys) xs"
  by (simp add: contains_sublist)

text \<open>The parameters are accepted, and a process that learns of its own leadership keeps its listeners.\<close>

lemma own_leadership_recognised: "lease_accepted (lease_for hostname uuid)"
  "leaderElection hostname (OnNewLeader (lc_Identity (lease_for hostname uuid))) e = Done e"
  by (simp_all add: lease_accepted_def lease_for_def contains_prefix)

subsection \<open>Values in the log\<close>

datatype any_value = AnyString string | AnyStringPtr "string option" | AnyOther string

text \<open>\<open>utils.ToString\<close>; \<open>marshal\<close> is the JSON encoder and \<open>print\<close> the verb \<open>%#v\<close>.\<close>

definition ToString :: "(string \<Rightarrow> error + string) \<Rightarrow> (string \<Rightarrow> string) \<Rightarrow> any_value \<Rightarrow> string" where
  "ToString marshal print val = (case val of
       AnyString s \<Rightarrow> s
     | AnyStringPtr p \<Rightarrow> (case p of None \<Rightarrow> [] | Some s \<Rightarrow> s)
     | AnyOther v \<Rightarrow> (case marshal v of Inl e \<Rightarrow> print v | Inr b \<Rightarrow> b))"

end
