(* ===== verification/Concurrent_Calls.thy ===== *)
theory Concurrent_Calls
  imports Mutex_KV Lock_Freedom Command_Start
begin

text \<open>
  Calls of several goroutines at once. The service controller and the listener call the entry points from workers of
  their own; what a goroutine does is the list of its events (calls of \<open>run_call\<close> or jobs of \<open>run_job\<close>), and they meet at the key locks
  of \<open>mutexkv.go\<close>. A goroutine issues its requests one by one, goes through the steps of \<open>advance\<close> at every
  \<open>LockKey\<close> and \<open>UnlockKey\<close>, and the common log has the events in the order in which they happen. The answers
  a goroutine gets depend on what the others have changed: each has a remote world \<open>A t\<close> of its own, which may answer anything,
  so whatever cloud and cluster the goroutines share, the answers it gives to goroutine \<open>t\<close> are those of some \<open>A t\<close>.
\<close>

text \<open>The locks of one goroutine: it holds at most one key, and unlocks what it has locked.\<close>

fun locked_trace :: "string option \<Rightarrow> event list \<Rightarrow> bool" where
  "locked_trace held [] = (held = None)"
| "locked_trace held (LockKey k # es) = (held = None \<and> locked_trace (Some k) es)"
| "locked_trace held (UnlockKey k # es) = (held = Some k \<and> locked_trace None es)"
| "locked_trace held (e # es) = locked_trace held es"

record calls_state =
  cs_kv :: kv_state
  cs_todo :: "nat \<Rightarrow> event list"
  cs_log :: "(nat \<times> event) list"

definition calls_init :: "(nat \<Rightarrow> event list) \<Rightarrow> calls_state" where
  "calls_init prog = \<lparr>cs_kv = kv_init, cs_todo = prog, cs_log = []\<rparr>"

definition issue :: "nat \<Rightarrow> event \<Rightarrow> calls_state \<Rightarrow> calls_state" where
  "issue t e s = s\<lparr>cs_todo := (cs_todo s)(t := tl (cs_todo s t)), cs_log := cs_log s @ [(t, e)]\<rparr>"

text \<open>One action on the lock; the event is done when the goroutine has reached the counter \<open>p\<close>.\<close>

definition lock_action :: "nat \<Rightarrow> event \<Rightarrow> kv_pc \<Rightarrow> kv_state \<Rightarrow> calls_state \<Rightarrow> calls_state" where
  "lock_action t e p kv s = (if kv_pcs kv t = p then issue t e (s\<lparr>cs_kv := kv\<rparr>) else s\<lparr>cs_kv := kv\<rparr>)"

definition call_step :: "nat \<Rightarrow> calls_state \<Rightarrow> calls_state option" where
  "call_step t s = (case cs_todo s t of
       [] \<Rightarrow> None
     | e # _ \<Rightarrow> (case e of
           LockKey k \<Rightarrow> map_option (\<lambda>kv. lock_action t e (Critical k) kv s) (advance t k (cs_kv s))
         | UnlockKey k \<Rightarrow> map_option (\<lambda>kv. lock_action t e Idle kv s) (advance t k (cs_kv s))
         | _ \<Rightarrow> Some (issue t e s)))"

text \<open>The states after a number of steps, in any schedule.\<close>

inductive calls_run :: "(nat \<Rightarrow> event list) \<Rightarrow> nat \<Rightarrow> calls_state \<Rightarrow> bool" for prog where
  init: "calls_run prog 0 (calls_init prog)"
| step: "calls_run prog n s \<Longrightarrow> call_step t s = Some s' \<Longrightarrow> calls_run prog (Suc n) s'"

definition events_of :: "nat \<Rightarrow> (nat \<times> event) list \<Rightarrow> event list" where
  "events_of t es = map snd (filter (\<lambda>e. fst e = t) es)"

text \<open>The log checked against the locks: who holds which key after it, if every lock was free and every unlock by its holder.\<close>

fun holders :: "(string \<rightharpoonup> nat) \<Rightarrow> (nat \<times> event) list \<Rightarrow> (string \<rightharpoonup> nat) option" where
  "holders own [] = Some own"
| "holders own ((t, LockKey k) # es) = (if own k = None then holders (own(k \<mapsto> t)) es else None)"
| "holders own ((t, UnlockKey k) # es) = (if own k = Some t then holders (own(k := None)) es else None)"
| "holders own ((t, e) # es) = holders own es"

subsection \<open>The invariant\<close>

text \<open>Where a goroutine is in the lock, and what it still has to do.\<close>

fun op_fits :: "kv_op \<Rightarrow> string \<Rightarrow> event list \<Rightarrow> bool" where
  "op_fits OpLock k es = (locked_trace None es \<and> es \<noteq> [] \<and> hd es = LockKey k)"
| "op_fits OpUnlock k es = (locked_trace (Some k) es \<and> es \<noteq> [] \<and> hd es = UnlockKey k)"

fun pc_fits :: "kv_pc \<Rightarrow> event list \<Rightarrow> bool" where
  "pc_fits Idle es = locked_trace None es"
| "pc_fits (Critical k) es = locked_trace (Some k) es"
| "pc_fits Crashed es = False"
| "pc_fits (WantStore op k) es = op_fits op k es"
| "pc_fits (InStore op k) es = op_fits op k es"
| "pc_fits (Found op k a) es = op_fits op k es"
| "pc_fits (Got op k a) es = op_fits op k es"

definition calls_ok :: "(nat \<Rightarrow> event list) \<Rightarrow> calls_state \<Rightarrow> bool" where
  "calls_ok prog s \<longleftrightarrow> kv_inv (cs_kv s) \<and> (\<forall>t. pc_fits (kv_pcs (cs_kv s) t) (cs_todo s t)) \<and>
     (\<forall>t. events_of t (cs_log s) @ cs_todo s t = prog t) \<and>
     (\<exists>own. holders Map.empty (cs_log s) = Some own \<and> (\<forall>t k. own k = Some t \<longleftrightarrow> holds (kv_pcs (cs_kv s) t) k))"

lemma holders_append: "holders own (xs @ ys) = Option.bind (holders own xs) (\<lambda>own'. holders own' ys)"
  by (induction own xs rule: holders.induct) (simp_all add: fun_upd_def)

lemma events_of_simps [simp]: "events_of t [] = []" "events_of t (xs @ ys) = events_of t xs @ events_of t ys"
  "events_of t (e # xs) = (if fst e = t then snd e # events_of t xs else events_of t xs)"
  by (simp_all add: events_of_def)

lemma issue_simps [simp]: "cs_kv (issue t e s) = cs_kv s" "cs_log (issue t e s) = cs_log s @ [(t, e)]"
  "cs_todo (issue t e s) = (cs_todo s)(t := tl (cs_todo s t))"
  by (simp_all add: issue_def)

text \<open>What one action on a lock does to the counters.\<close>

lemma advance_other: "advance t key s = Some s' \<Longrightarrow> u \<noteq> t \<Longrightarrow> kv_pcs s' u = kv_pcs s u"
  by (auto simp: advance_def split: kv_pc.splits kv_op.splits if_splits prod.splits)

lemma kind_KLock: "kind_of e = KLock \<longleftrightarrow> (\<exists>k. e = LockKey k \<or> e = UnlockKey k)"
proof -
  have "elb_kind r \<noteq> KLock" for r by (cases r) simp_all
  moreover have "elb3_kind r \<noteq> KLock" for r by (cases r) simp_all
  moreover have "eip_kind r \<noteq> KLock" for r by (cases r) simp_all
  moreover have "ecs_kind r \<noteq> KLock" for r by (cases r) simp_all
  moreover have "vpc_kind r \<noteq> KLock" for r by (cases r) simp_all
  moreover have "kube_kind r \<noteq> KLock" for r by (cases r) simp_all
  ultimately show ?thesis by (cases e rule: kind_of.cases) auto
qed

lemma request_not_locking:
  assumes "kind_of e \<noteq> KLock"
  shows "locked_trace held (e # es) = locked_trace held es" "holders own ((t, e) # l) = holders own l"
  using assms by (cases e; simp)+

lemma calls_okD:
  assumes "calls_ok prog s"
  shows "kv_inv (cs_kv s)" "pc_fits (kv_pcs (cs_kv s) t) (cs_todo s t)" "events_of t (cs_log s) @ cs_todo s t = prog t"
  using assms by (auto simp: calls_ok_def)

lemma pc_fits_request:
  assumes "pc_fits p (e # es)" "kind_of e \<noteq> KLock"
  shows "pc_fits p es" "p = Idle \<or> (\<exists>k. p = Critical k)"
proof -
  have "\<not> op_fits op k (e # es)" for op k using assms(2) by (cases op) auto
  then show "pc_fits p es" "p = Idle \<or> (\<exists>k. p = Critical k)"
    using assms request_not_locking [OF assms(2)] by (cases p; simp)+
qed

lemma op_fits_Cons [simp]:
  "op_fits op j (LockKey k # es) \<longleftrightarrow> op = OpLock \<and> j = k \<and> locked_trace (Some k) es"
  "op_fits op j (UnlockKey k # es) \<longleftrightarrow> op = OpUnlock \<and> j = k \<and> locked_trace None es"
  by (cases op; auto)+

lemma advance_lock:
  assumes fits: "pc_fits (kv_pcs kv t) (LockKey k # es)" and inv: "kv_inv kv" and adv: "advance t k kv = Some kv'"
  shows "kv_pcs kv' t = Critical k \<and> (\<forall>u. \<not> holds (kv_pcs kv u) k) \<and> (\<forall>j. \<not> holds (kv_pcs kv t) j)
     \<or> kv_pcs kv' t \<noteq> Critical k \<and> pc_fits (kv_pcs kv' t) (LockKey k # es) \<and> (\<forall>j. holds (kv_pcs kv' t) j \<longleftrightarrow> holds (kv_pcs kv t) j)"
proof (cases "kv_pcs kv t")
  case (Got op j a)
  then have op: "op = OpLock" "j = k" using fits by (cases op; simp)+
  then have store: "kv_store (kv_kv kv) k = Some a" using found_okD [of kv t k a] inv Got by (auto simp: kv_inv_def)
  have "a \<notin> kv_locked kv" using adv Got op by (auto simp: advance_def split: if_splits)
  then have "\<not> holds (kv_pcs kv u) k" for u using inv store by (auto simp: kv_inv_def locked_ok_def)
  then show ?thesis using adv Got op by (auto simp: advance_def split: if_splits)
next
  case (WantStore op j)
  then show ?thesis using fits adv by (cases op) (auto simp: advance_def split: if_splits)
next
  case (InStore op j)
  then show ?thesis using fits adv by (cases op) (auto simp: advance_def split: if_splits prod.splits)
next
  case (Found op j a)
  then show ?thesis using fits adv by (cases op) (auto simp: advance_def split: if_splits)
qed (use fits adv in \<open>auto simp: advance_def\<close>)

lemma advance_unlock:
  assumes fits: "pc_fits (kv_pcs kv t) (UnlockKey k # es)" and inv: "kv_inv kv" and adv: "advance t k kv = Some kv'"
  shows "kv_pcs kv' t = Idle \<and> (\<forall>j. holds (kv_pcs kv t) j \<longleftrightarrow> j = k)
     \<or> kv_pcs kv' t \<noteq> Idle \<and> pc_fits (kv_pcs kv' t) (UnlockKey k # es) \<and> (\<forall>j. holds (kv_pcs kv' t) j \<longleftrightarrow> holds (kv_pcs kv t) j)"
proof (cases "kv_pcs kv t")
  case (Got op j a)
  then have "op_fits op j (UnlockKey k # es)" using fits by simp
  then have op: "op = OpUnlock \<and> j = k" by simp
  then have "a \<in> kv_locked kv" using kv_inv_unlock_locked [OF inv, of t k a] Got by simp
  then show ?thesis using adv Got op by (auto simp: advance_def)
next
  case (WantStore op j)
  then show ?thesis using fits adv by (cases op) (auto simp: advance_def split: if_splits)
next
  case (InStore op j)
  then show ?thesis using fits adv by (cases op) (auto simp: advance_def split: if_splits prod.splits)
next
  case (Found op j a)
  then show ?thesis using fits adv by (cases op) (auto simp: advance_def split: if_splits)
qed (use fits adv in \<open>auto simp: advance_def\<close>)

text \<open>A step that does no event, and one that does the first event to do.\<close>

lemma calls_ok_silent:
  assumes ok: "calls_ok prog s" and kv: "kv_inv kv" and other: "\<And>u. u \<noteq> t \<Longrightarrow> kv_pcs kv u = kv_pcs (cs_kv s) u"
    and fits: "pc_fits (kv_pcs kv t) (cs_todo s t)" and same: "\<And>k. holds (kv_pcs kv t) k \<longleftrightarrow> holds (kv_pcs (cs_kv s) t) k"
  shows "calls_ok prog (s\<lparr>cs_kv := kv\<rparr>)"
proof -
  have "holds (kv_pcs kv u) k \<longleftrightarrow> holds (kv_pcs (cs_kv s) u) k" for u k using other [of u] same by (cases "u = t") auto
  moreover have "pc_fits (kv_pcs kv u) (cs_todo s u)" for u using ok other [of u] fits by (cases "u = t") (auto simp: calls_ok_def)
  ultimately show ?thesis using ok kv by (simp add: calls_ok_def)
qed

lemma calls_ok_issue:
  assumes ok: "calls_ok prog s" and kv: "kv_inv kv" and other: "\<And>u. u \<noteq> t \<Longrightarrow> kv_pcs kv u = kv_pcs (cs_kv s) u"
    and todo: "cs_todo s t = e # es" and fits: "pc_fits (kv_pcs kv t) es"
    and own: "\<And>own. \<forall>u k. own k = Some u \<longleftrightarrow> holds (kv_pcs (cs_kv s) u) k \<Longrightarrow>
      \<exists>own'. holders own [(t, e)] = Some own' \<and> (\<forall>u k. own' k = Some u \<longleftrightarrow> holds (kv_pcs kv u) k)"
  shows "calls_ok prog (issue t e (s\<lparr>cs_kv := kv\<rparr>))"
proof -
  obtain m where m: "holders Map.empty (cs_log s) = Some m" "\<forall>u k. m k = Some u \<longleftrightarrow> holds (kv_pcs (cs_kv s) u) k"
    using ok by (auto simp: calls_ok_def)
  then obtain m' where "holders m [(t, e)] = Some m'" "\<forall>u k. m' k = Some u \<longleftrightarrow> holds (kv_pcs kv u) k" using own by blast
  with m have "\<exists>own. holders Map.empty (cs_log s @ [(t, e)]) = Some own \<and> (\<forall>u k. own k = Some u \<longleftrightarrow> holds (kv_pcs kv u) k)"
    by (simp add: holders_append)
  moreover have "pc_fits (kv_pcs kv u) (((cs_todo s)(t := es)) u)" for u
    using ok other [of u] fits by (auto simp: calls_ok_def)
  moreover have "events_of u (cs_log s @ [(t, e)]) @ ((cs_todo s)(t := es)) u = prog u" for u
    using calls_okD(3) [OF ok, of u] todo by auto
  ultimately show ?thesis using kv todo by (simp add: calls_ok_def)
qed

lemma calls_ok_lock:
  assumes ok: "calls_ok prog s" and todo: "cs_todo s t = LockKey k # es" and adv: "advance t k (cs_kv s) = Some kv"
  shows "calls_ok prog (lock_action t (LockKey k) (Critical k) kv s)"
proof -
  have inv: "kv_inv (cs_kv s)" and fits: "pc_fits (kv_pcs (cs_kv s) t) (LockKey k # es)"
    using calls_okD(1) [OF ok] calls_okD(2) [OF ok, of t] todo by simp_all
  note kv = advance_inv [OF inv adv] and other = advance_other [OF adv]
  from advance_lock [OF fits inv adv] show ?thesis
  proof (elim disjE conjE)
    assume pc: "kv_pcs kv t = Critical k" and free: "\<forall>u. \<not> holds (kv_pcs (cs_kv s) u) k" "\<forall>j. \<not> holds (kv_pcs (cs_kv s) t) j"
    have "locked_trace (Some k) es" using fits by (cases "kv_pcs (cs_kv s) t"; auto elim!: op_fits.elims)
    moreover have "\<exists>own'. holders own [(t, LockKey k)] = Some own' \<and> (\<forall>u j. own' j = Some u \<longleftrightarrow> holds (kv_pcs kv u) j)"
      if "\<forall>u j. own j = Some u \<longleftrightarrow> holds (kv_pcs (cs_kv s) u) j" for own
    proof -
      have "own k = None" using that free(1) by (metis option.exhaust)
      moreover have "(own(k \<mapsto> t)) j = Some u \<longleftrightarrow> holds (kv_pcs kv u) j" for u j
        using that free other [of u] pc by (cases "u = t") auto
      ultimately show ?thesis by simp
    qed
    ultimately show ?thesis using calls_ok_issue [OF ok kv other todo] pc by (simp add: lock_action_def)
  next
    assume "kv_pcs kv t \<noteq> Critical k" "pc_fits (kv_pcs kv t) (LockKey k # es)" "\<forall>j. holds (kv_pcs kv t) j = holds (kv_pcs (cs_kv s) t) j"
    then show ?thesis using calls_ok_silent [OF ok kv other] todo by (simp add: lock_action_def)
  qed
qed

lemma calls_ok_unlock:
  assumes ok: "calls_ok prog s" and todo: "cs_todo s t = UnlockKey k # es" and adv: "advance t k (cs_kv s) = Some kv"
  shows "calls_ok prog (lock_action t (UnlockKey k) Idle kv s)"
proof -
  have inv: "kv_inv (cs_kv s)" and fits: "pc_fits (kv_pcs (cs_kv s) t) (UnlockKey k # es)"
    using calls_okD(1) [OF ok] calls_okD(2) [OF ok, of t] todo by simp_all
  note kv = advance_inv [OF inv adv] and other = advance_other [OF adv]
  from advance_unlock [OF fits inv adv] show ?thesis
  proof (elim disjE conjE)
    assume pc: "kv_pcs kv t = Idle" and mine: "\<forall>j. holds (kv_pcs (cs_kv s) t) j = (j = k)"
    have only: "u = t" if "holds (kv_pcs (cs_kv s) u) k" for u
      using inv mine that by (auto simp: kv_inv_def holder_ok_def)
    have "locked_trace None es" using fits by (cases "kv_pcs (cs_kv s) t"; auto elim!: op_fits.elims)
    moreover have "\<exists>own'. holders own [(t, UnlockKey k)] = Some own' \<and> (\<forall>u j. own' j = Some u \<longleftrightarrow> holds (kv_pcs kv u) j)"
      if "\<forall>u j. own j = Some u \<longleftrightarrow> holds (kv_pcs (cs_kv s) u) j" for own
    proof -
      have "own k = Some t" using that mine by auto
      moreover have "(own(k := None)) j = Some u \<longleftrightarrow> holds (kv_pcs kv u) j" for u j
        using that mine only [of u] other [of u] pc by (cases "u = t") auto
      ultimately show ?thesis by simp
    qed
    ultimately show ?thesis using calls_ok_issue [OF ok kv other todo] pc by (simp add: lock_action_def)
  next
    assume "kv_pcs kv t \<noteq> Idle" "pc_fits (kv_pcs kv t) (UnlockKey k # es)" "\<forall>j. holds (kv_pcs kv t) j = holds (kv_pcs (cs_kv s) t) j"
    then show ?thesis using calls_ok_silent [OF ok kv other] todo by (simp add: lock_action_def)
  qed
qed

lemma calls_ok_request:
  assumes ok: "calls_ok prog s" and todo: "cs_todo s t = e # es" and e: "kind_of e \<noteq> KLock"
  shows "calls_ok prog (issue t e s)"
proof -
  have "kv_inv (cs_kv s)" and fits: "pc_fits (kv_pcs (cs_kv s) t) (e # es)" using calls_okD(1) [OF ok] calls_okD(2) [OF ok, of t] todo by simp_all
  then show ?thesis
    using calls_ok_issue [OF ok _ _ todo] pc_fits_request [OF fits e] request_not_locking [OF e] by (metis calls_state.surjective calls_state.update_convs(1) holders.simps(1))
qed

text \<open>The three kinds of steps.\<close>

lemma call_step_cases:
  assumes "call_step t s = Some s'"
  obtains (lock) k es kv where "cs_todo s t = LockKey k # es" "advance t k (cs_kv s) = Some kv" "s' = lock_action t (LockKey k) (Critical k) kv s"
  | (unlock) k es kv where "cs_todo s t = UnlockKey k # es" "advance t k (cs_kv s) = Some kv" "s' = lock_action t (UnlockKey k) Idle kv s"
  | (request) e es where "cs_todo s t = e # es" "kind_of e \<noteq> KLock" "s' = issue t e s"
proof (cases "cs_todo s t")
  case (Cons e es)
  with assms that show ?thesis by (cases e) (auto simp: call_step_def kind_KLock)
qed (use assms in \<open>simp add: call_step_def\<close>)

lemma calls_ok_step: "calls_ok prog s \<Longrightarrow> call_step t s = Some s' \<Longrightarrow> calls_ok prog s'"
  by (erule call_step_cases) (auto intro: calls_ok_lock calls_ok_unlock calls_ok_request)

lemma calls_run_ok: "calls_run prog n s \<Longrightarrow> \<forall>t. locked_trace None (prog t) \<Longrightarrow> calls_ok prog s"
proof (induction rule: calls_run.induct)
  case init
  then show ?case using kv_reachable_inv [OF kv_reachable.init] by (simp add: calls_ok_def calls_init_def) (simp add: kv_init_def)
qed (auto intro: calls_ok_step)

subsection \<open>Progress and completion\<close>

lemma advance_key: "kv_pcs s t \<noteq> Idle \<Longrightarrow> advance t j s = advance t k s"
  by (cases "kv_pcs s t") (simp_all add: advance_def)

lemma pc_fits_Nil: "pc_fits p [] \<Longrightarrow> p = Idle"
  by (cases p) (auto elim: op_fits.elims)

lemma calls_progress:
  assumes ok: "calls_ok prog s" and todo: "cs_todo s t \<noteq> []"
  shows "\<exists>u. call_step u s \<noteq> None"
proof (cases "kv_pcs (cs_kv s) t = Idle")
  case True
  obtain e es where "cs_todo s t = e # es" using todo by (cases "cs_todo s t") auto
  then have "call_step t s \<noteq> None" using True by (cases e) (auto simp: call_step_def advance_def)
  then show ?thesis by blast
next
  case False
  then obtain u kv where u: "kv_pcs (cs_kv s) u \<noteq> Idle" "advance u [] (cs_kv s) = Some kv"
    using kv_progress [OF calls_okD(1) [OF ok]] by blast
  then obtain e es where "cs_todo s u = e # es" using calls_okD(2) [OF ok, of u] pc_fits_Nil by (cases "cs_todo s u") auto
  moreover have "advance u k (cs_kv s) = Some kv" for k using u advance_key by metis
  ultimately have "call_step u s \<noteq> None" by (cases e) (auto simp: call_step_def)
  then show ?thesis by blast
qed

text \<open>The steps a goroutine has left: at most five for an event.\<close>

fun pc_rank :: "kv_pc \<Rightarrow> nat" where
  "pc_rank (WantStore op k) = 1"
| "pc_rank (InStore op k) = 2"
| "pc_rank (Found op k a) = 3"
| "pc_rank (Got op k a) = 4"
| "pc_rank _ = 0"

definition steps_left :: "calls_state \<Rightarrow> nat \<Rightarrow> nat" where
  "steps_left s t = 5 * length (cs_todo s t) - pc_rank (kv_pcs (cs_kv s) t)"

lemma pc_rank_less: "pc_rank p < 5"
  by (cases p) auto

lemma advance_rank:
  assumes "advance t k s = Some s'"
  shows "pc_rank (kv_pcs s' t) = Suc (pc_rank (kv_pcs s t)) \<or> pc_rank (kv_pcs s t) = 4 \<and> pc_rank (kv_pcs s' t) = 0"
  using assms by (cases "kv_pcs s t") (auto simp: advance_def split: if_splits prod.splits kv_op.splits)

lemma lock_action_left:
  assumes "cs_todo s t = e # es" "advance t k (cs_kv s) = Some kv" "pc_rank p = 0"
    and "kv_pcs kv t = p \<or> pc_rank (kv_pcs kv t) \<noteq> 0"
  shows "steps_left (lock_action t e p kv s) t < steps_left s t"
    "u \<noteq> t \<Longrightarrow> steps_left (lock_action t e p kv s) u = steps_left s u"
  using assms advance_rank [OF assms(2)] pc_rank_less [of "kv_pcs (cs_kv s) t"] pc_rank_less [of "kv_pcs kv t"] advance_other [OF assms(2), of u]
  by (auto simp: lock_action_def steps_left_def)

text \<open>A goroutine at a lock is either done with it or inside.\<close>

lemma fits_rank:
  "pc_fits p (LockKey k # es) \<Longrightarrow> p \<noteq> Idle \<Longrightarrow> pc_rank p \<noteq> 0"
  "pc_fits p (UnlockKey k # es) \<Longrightarrow> p \<noteq> Critical k \<Longrightarrow> pc_rank p \<noteq> 0"
  by (cases p; auto)+

lemma advance_not_Idle: "advance t k s = Some s' \<Longrightarrow> kv_pcs s' t = Idle \<Longrightarrow> \<exists>j a. kv_pcs s t = Got OpUnlock j a"
  "advance t k s = Some s' \<Longrightarrow> kv_pcs s' t = Critical i \<Longrightarrow> \<exists>a. kv_pcs s t = Got OpLock i a"
  by (cases "kv_pcs s t"; auto simp: advance_def split: if_splits prod.splits kv_op.splits)+

lemma call_step_left:
  assumes ok: "calls_ok prog s" and step: "call_step t s = Some s'"
  shows "steps_left s' t < steps_left s t \<and> (\<forall>u. u \<noteq> t \<longrightarrow> steps_left s' u = steps_left s u)"
  using step
proof (cases rule: call_step_cases)
  case (lock k es kv)
  have fits: "pc_fits (kv_pcs (cs_kv s) t) (LockKey k # es)" using calls_okD(2) [OF ok, of t] lock(1) by simp
  have "kv_pcs kv t = Critical k \<or> pc_rank (kv_pcs kv t) \<noteq> 0"
    using advance_lock [OF fits calls_okD(1) [OF ok] lock(2)] fits_rank(1) [of "kv_pcs kv t" k es] advance_not_Idle(1) [OF lock(2)] fits by fastforce
  then show ?thesis using lock_action_left [OF lock(1,2)] lock(3) by simp
next
  case (unlock k es kv)
  have fits: "pc_fits (kv_pcs (cs_kv s) t) (UnlockKey k # es)" using calls_okD(2) [OF ok, of t] unlock(1) by simp
  have "kv_pcs kv t = Idle \<or> pc_rank (kv_pcs kv t) \<noteq> 0"
    using advance_unlock [OF fits calls_okD(1) [OF ok] unlock(2)] fits_rank(2) [of "kv_pcs kv t" k es] advance_not_Idle(2) [OF unlock(2), of k] fits by fastforce
  then show ?thesis using lock_action_left [OF unlock(1,2)] unlock(3) by simp
next
  case (request e es)
  have "pc_rank (kv_pcs (cs_kv s) t) = 0"
    using pc_fits_request(2) [OF _ request(2)] calls_okD(2) [OF ok, of t] request(1) by fastforce
  then show ?thesis using request by (auto simp: steps_left_def)
qed

lemma calls_run_bound:
  assumes "calls_run prog n s" "\<forall>t. locked_trace None (prog t)" "finite T" "\<forall>t. t \<notin> T \<longrightarrow> prog t = []"
  shows "n + (\<Sum>t\<in>T. steps_left s t) \<le> 5 * (\<Sum>t\<in>T. length (prog t))"
  using assms(1)
proof (induction rule: calls_run.induct)
  case init
  then show ?case by (simp add: steps_left_def calls_init_def kv_init_def sum_distrib_left)
next
  case (step n s t s')
  have ok: "calls_ok prog s" by (rule calls_run_ok [OF step.hyps(1) assms(2)])
  have left: "steps_left s' t < steps_left s t" "\<And>u. u \<noteq> t \<Longrightarrow> steps_left s' u = steps_left s u"
    using call_step_left [OF ok step.hyps(2)] by auto
  have "cs_todo s t \<noteq> []" using step.hyps(2) by (auto simp: call_step_def split: list.splits)
  then have "t \<in> T" using calls_okD(3) [OF ok, of t] assms(4) by (metis append_is_Nil_conv)
  moreover have "steps_left s' u \<le> steps_left s u" for u using left by (cases "u = t") auto
  ultimately have "(\<Sum>u\<in>T. steps_left s' u) < (\<Sum>u\<in>T. steps_left s u)"
    using left(1) assms(3) by (intro sum_strict_mono_ex1) auto
  then show ?case using step.IH by simp
qed

subsection \<open>The calls of the process\<close>

text \<open>Every call keeps the discipline of locks: its events alone form such a list, whatever the answers.\<close>

definition well_locked :: "('w, event, 'a) m \<Rightarrow> bool" where
  "well_locked m \<longleftrightarrow> (\<forall>s. \<exists>es. log (snd (m s)) = log s @ es \<and> locked_trace None es)"

lemma locked_trace_append: "locked_trace held xs \<Longrightarrow> locked_trace None ys \<Longrightarrow> locked_trace held (xs @ ys)"
  by (induction held xs rule: locked_trace.induct) auto

lemma locked_trace_free: "\<forall>e\<in>set es. kind_of e \<noteq> KLock \<Longrightarrow> locked_trace held (es @ ys) = locked_trace held ys"
  by (induction es) (simp_all add: request_not_locking)

lemma well_locked_free: "emits m (kinds (- {KLock})) \<Longrightarrow> well_locked m"
  unfolding emits_def well_locked_def using locked_trace_free [of _ None "[]"] by fastforce

lemma well_locked_section: "emits m (kinds (- {KLock})) \<Longrightarrow> well_locked (with_lock key m)"
  unfolding well_locked_def
proof
  fix s :: "('a, event) sys"
  assume m: "emits m (kinds (- {KLock}))"
  obtain r t where run: "with_lock key m s = (r, t)" by fastforce
  obtain es where "log t = log s @ LockKey key # es @ [UnlockKey key]" "\<forall>e\<in>set es. kind_of e \<noteq> KLock"
    using with_lock_log [OF m run] by fastforce
  then show "\<exists>es. log (snd (with_lock key m s)) = log s @ es \<and> locked_trace None es"
    using run locked_trace_free by simp
qed

lemma well_locked_bindR: "well_locked m \<Longrightarrow> (\<And>x. well_locked (f x)) \<Longrightarrow> well_locked (bindR m f)"
  unfolding well_locked_def
proof
  fix s :: "('a, event) sys"
  assume m: "\<forall>s. \<exists>es. log (snd (m s)) = log s @ es \<and> locked_trace None es"
    and f: "\<And>x. \<forall>s. \<exists>es. log (snd (f x s)) = log s @ es \<and> locked_trace None es"
  obtain r t es where run: "m s = (r, t)" "log t = log s @ es" "locked_trace None es" using m by (metis prod.collapse)
  show "\<exists>es. log (snd (bindR m f s)) = log s @ es \<and> locked_trace None es"
  proof (cases r)
    case (Ok x)
    obtain fs where "log (snd (f x t)) = log t @ fs" "locked_trace None fs" using f by blast
    then show ?thesis using run Ok locked_trace_append by (auto simp: run_bindR)
  qed (use run in \<open>auto simp: run_bindR\<close>)
qed

lemma well_locked_attempt: "well_locked m \<Longrightarrow> well_locked (attempt m)"
  unfolding well_locked_def by (simp add: run_attempt split: prod.splits res.splits) (metis snd_conv)

lemma well_locked_cases:
  "well_locked (okR x)" "well_locked (errR e)"
  "(c \<Longrightarrow> well_locked m) \<Longrightarrow> (\<not> c \<Longrightarrow> well_locked n) \<Longrightarrow> well_locked (if c then m else n)"
  "(\<And>e. r = Inl e \<Longrightarrow> well_locked (g e)) \<Longrightarrow> (\<And>x. r = Inr x \<Longrightarrow> well_locked (k x)) \<Longrightarrow> well_locked (case r of Inl e \<Rightarrow> g e | Inr x \<Rightarrow> k x)"
  "(\<And>a b. p = (a, b) \<Longrightarrow> well_locked (q a b)) \<Longrightarrow> well_locked (case p of (a, b) \<Rightarrow> q a b)"
  by (auto simp: well_locked_def okR_def errR_def split: sum.splits prod.splits)

lemmas well_locked_intro = well_locked_cases well_locked_bindR well_locked_attempt

lemma well_locked_foldR: "(\<And>x b. x \<in> set xs \<Longrightarrow> well_locked (f x b)) \<Longrightarrow> well_locked (foldR f xs b)"
  by (induction xs arbitrary: b) (auto intro!: well_locked_intro)

lemma entries_well_locked:
  assumes "start_cloud S H A cd cfg = Started h"
  shows "well_locked (cp_GetLoadBalancer h c svc)" "well_locked (cp_EnsureLoadBalancer h c svc nodes)"
    "well_locked (cp_UpdateLoadBalancer h c svc nodes)" "well_locked (cp_EnsureLoadBalancerDeleted h c svc)"
proof -
  note free = started_serves_free [OF assms, unfolded serves_within_def]
  show "well_locked (cp_GetLoadBalancer h c svc)"
    unfolding cp_GetLoadBalancer_def by (rule well_locked_free) (use free in \<open>auto intro!: emits_intro\<close>)
  show "well_locked (cp_EnsureLoadBalancer h c svc nodes)" "well_locked (cp_UpdateLoadBalancer h c svc nodes)"
    "well_locked (cp_EnsureLoadBalancerDeleted h c svc)"
    unfolding cp_EnsureLoadBalancer_def cp_UpdateLoadBalancer_def cp_EnsureLoadBalancerDeleted_def
    by (intro well_locked_intro well_locked_section; use free in \<open>auto intro!: emits_intro\<close>)+
qed

lemma run_call_well_locked:
  assumes "start_cloud S H A cd cfg = Started h"
  shows "well_locked (run_call h c svc call)"
proof -
  have "well_locked (sendEvent reason msg)" "well_locked (updateService b svc st)" "well_locked (list_nodes b)"
    for reason msg st and b :: "'a Basic"
    unfolding list_nodes_def by (auto intro!: well_locked_free emits_intro)
  then show ?thesis
    using entries_well_locked [OF assms]
    by (cases call) (auto simp: handle_service_def handle_delete_def handle_update_def intro!: well_locked_intro)
qed

lemma process_run_well_locked: "start_cloud S H A cd cfg = Started h \<Longrightarrow> well_locked (process_run h c calls)"
  unfolding process_run_def by (auto intro!: well_locked_foldR run_call_well_locked)

lemma run_job_well_locked:
  assumes "start_cloud S H A cd cfg = Started h"
  shows "well_locked (run_job h c job missing)"
proof (cases job)
  case (Dispatch ns name eType)
  have handle: "well_locked (handle_service h c svc False)" for svc
    using run_call_well_locked [OF assms, of c svc "ServiceEvent False"] by simp
  have read: "well_locked (attempt (remote (Kube (GetService ns name)) (\<lambda>w. kube_call A' w (GetService ns name))))" for A' :: "'a api"
    by (rule well_locked_free) (auto intro!: emits_intro)
  show ?thesis
    unfolding Dispatch run_job.simps dispatcher_def Let_def
    by (intro well_locked_intro read) (auto intro!: well_locked_intro handle split: kube_payload.splits)
next
  case (HandleService svc isDelete)
  then show ?thesis using run_call_well_locked [OF assms, of c svc "ServiceEvent isDelete"] by (auto intro!: well_locked_intro)
qed

text \<open>What a goroutine does: calls of the service controller one after the other, or the jobs one worker of the
  listener takes, each with the cache of missing services, which the workers share, as it is then. The goroutines that the
  version 1 provider leaves behind take no lock and count as part of the call that started them.\<close>

datatype goroutine = Caller "(service \<times> process_call) list" | Worker "(listener_job \<times> (string \<rightharpoonup> string)) list"

fun goroutine_run :: "'w CloudProvider \<Rightarrow> string \<Rightarrow> goroutine \<Rightarrow> ('w, unit) prog" where
  "goroutine_run h c (Caller calls) = process_run h c calls"
| "goroutine_run h c (Worker jobs) = foldR (\<lambda>(job, missing) _. bindR (run_job h c job missing) (\<lambda>_. okR ())) jobs ()"

lemma goroutine_well_locked: "start_cloud S H A cd cfg = Started h \<Longrightarrow> well_locked (goroutine_run h c g)"
  by (cases g) (auto intro!: process_run_well_locked well_locked_intro well_locked_foldR run_job_well_locked)

text \<open>The events a goroutine can issue, for some answers of cloud and cluster.\<close>

definition issues :: "'w CloudProvider \<Rightarrow> string \<Rightarrow> goroutine \<Rightarrow> event list \<Rightarrow> bool" where
  "issues h c g es \<longleftrightarrow> (\<exists>s. log (snd (goroutine_run h c g s)) = log s @ es)"

lemma issues_locked: "start_cloud S H A cd cfg = Started h \<Longrightarrow> issues h c g es \<Longrightarrow> locked_trace None es"
  using goroutine_well_locked [of S H A cd cfg h c g] unfolding issues_def well_locked_def by (metis same_append_eq)

lemma holders_keep: "holders own es = Some own' \<Longrightarrow> own k = Some t \<Longrightarrow> (t, UnlockKey k) \<notin> set es \<Longrightarrow> own' k = Some t"
proof (induction own es rule: holders.induct)
  case (2 own u j es)
  then show ?case by (cases "k = j") (auto simp: fun_upd_def split: if_splits)
next
  case (3 own u j es)
  then show ?case by (cases "k = j") (auto simp: fun_upd_def split: if_splits)
qed auto

lemma holders_exclusive:
  assumes "holders own (xs @ (t, LockKey k) # ys @ (u, LockKey k) # zs) = Some own'"
  shows "(t, UnlockKey k) \<in> set ys"
proof (rule ccontr)
  assume "(t, UnlockKey k) \<notin> set ys"
  moreover obtain m m' where "holders (m(k \<mapsto> t)) ys = Some m'" "m' k = None"
    using assms by (auto simp: holders_append bind_eq_Some_conv split: if_splits)
  ultimately show False using holders_keep [of "m(k \<mapsto> t)" ys m' k t] by simp
qed

text \<open>
  C23. Calls for one service do not overlap: in a started process, however the goroutines of the service controller and of
  the listener are scheduled and whatever calls they make or jobs they take and whatever each is answered, the lock of a key is taken a second time only after the first call has
  unlocked it, and each goroutine issues the events of its own calls in their order.
\<close>

theorem calls_for_a_service_exclusive:
  assumes "\<forall>t. start_cloud S H (A t) cd cfg = Started (h t)" "\<forall>t. issues (h t) c (work t) (prog t)"
    and "calls_run prog n s" "cs_log s = xs @ (t, LockKey k) # ys @ (u, LockKey k) # zs"
  shows "(t, UnlockKey k) \<in> set ys \<and> (\<exists>rest. prog v = events_of v (cs_log s) @ rest)"
proof -
  have ok: "calls_ok prog s" using calls_run_ok [OF assms(3)] issues_locked assms(1,2) by blast
  then obtain own where "holders Map.empty (cs_log s) = Some own" by (auto simp: calls_ok_def)
  then have "(t, UnlockKey k) \<in> set ys" unfolding assms(4) by (rule holders_exclusive)
  then show ?thesis using calls_okD(3) [OF ok, of v] by metis
qed

text \<open>
  C24. Concurrent calls always finish: with finitely many goroutines, whatever each is answered, every schedule has at most five steps for an event, and
  while some goroutine has events left some goroutine can go on, so no schedule ends in a deadlock of the key locks.
\<close>

theorem concurrent_calls_finish:
  assumes "\<forall>t. start_cloud S H (A t) cd cfg = Started (h t)" "\<forall>t. issues (h t) c (work t) (prog t)"
    and "finite T" "\<forall>t. t \<notin> T \<longrightarrow> prog t = []" "calls_run prog n s"
  shows "n \<le> 5 * (\<Sum>t\<in>T. length (prog t)) \<and> (events_of v (cs_log s) = prog v \<or> (\<exists>u s'. call_step u s = Some s'))"
proof -
  have locked: "\<forall>t. locked_trace None (prog t)" using issues_locked assms(1,2) by blast
  have ok: "calls_ok prog s" by (rule calls_run_ok [OF assms(5) locked])
  have "events_of v (cs_log s) = prog v \<or> (\<exists>u s'. call_step u s = Some s')"
  proof (cases "cs_todo s v = []")
    case True
    then show ?thesis using calls_okD(3) [OF ok, of v] by simp
  next
    case False
    then show ?thesis using calls_progress [OF ok] by blast
  qed
  then show ?thesis using calls_run_bound [OF assms(5) locked assms(3,4)] by simp
qed

subsection \<open>Two goroutines and one service\<close>

definition calls_exec :: "nat list \<Rightarrow> calls_state \<Rightarrow> calls_state option" where
  "calls_exec sched s = foldl (\<lambda>r t. Option.bind r (call_step t)) (Some s) sched"

lemma calls_exec_run: "calls_exec sched (calls_init prog) = Some s \<Longrightarrow> calls_run prog (length sched) s"
proof (induction sched arbitrary: s rule: rev_induct)
  case Nil
  then have "s = calls_init prog" by (simp add: calls_exec_def)
  then show ?case by (simp add: calls_run.init)
next
  case (snoc t sched)
  then show ?case by (auto simp: calls_exec_def bind_eq_Some_conv intro: calls_run.step)
qed

text \<open>A service of an unknown class: the call locks, fails and unlocks.\<close>

definition demo_unknown :: service where
  "demo_unknown = (demo_service [ElbClass \<mapsto> ''unknown''])\<lparr>svc_LoadBalancerClass := Some LoadBalancerClassName\<rparr>"

definition demo_calls :: "nat \<Rightarrow> goroutine" where
  "demo_calls t = (if t = 1 \<or> t = 2 then Caller [(demo_unknown, DeleteCall)] else Worker [])"

definition demo_progs :: "nat \<Rightarrow> event list" where
  "demo_progs t = (if t = 1 \<or> t = 2 then [LockKey ''ns/web'', UnlockKey ''ns/web''] else [])"

definition demo_schedule :: "nat list" where
  "demo_schedule = [1, 1, 2, 1, 1, 2, 1, 2, 2, 1, 1, 1, 1, 1, 2]"

definition demo_end :: calls_state where
  "demo_end = the (calls_exec demo_schedule (calls_init demo_progs))"

text \<open>One goroutine sees a cloud out of reach, the others the cloud of the scenario.\<close>

definition demo_worlds :: "nat \<Rightarrow> unit api" where
  "demo_worlds t = (if t = 1 then demo_api\<lparr>sdk_call := \<lambda>w r. (Inl (Errorf ''connection refused''), w)\<rparr> else demo_api)"

lemma demo_started:
  obtains h where "\<forall>t. start_cloud demo_start demo_settings (demo_worlds t) (decoders demo_basic) (Some []) = Started (h t)"
    "\<forall>t. issues (h t) ''c'' (demo_calls t) (demo_progs t)"
proof -
  have "\<exists>h. start_cloud demo_start demo_settings (demo_worlds t) (decoders demo_basic) (Some []) = Started h" for t
    by (simp add: start_cloud_def demo_start_def ReadConfig_def newKubeClient_def Let_def)
  then obtain h where h: "\<forall>t. start_cloud demo_start demo_settings (demo_worlds t) (decoders demo_basic) (Some []) = Started (h t)"
    by metis
  have run: "log (snd (run_call g ''c'' demo_unknown DeleteCall start)) = [LockKey ''ns/web'', UnlockKey ''ns/web'']" for g :: "unit CloudProvider"
    by (simp add: demo_unknown_def cp_EnsureLoadBalancerDeleted_def isSupportedSvc_def getLoadBalancerVersion_def with_lock_def
        service_key_def start_def demo_service_def run_simps)
  have "issues g ''c'' (demo_calls t) (demo_progs t)" for g :: "unit CloudProvider" and t
    using run [of g]
    unfolding issues_def by (intro exI [of _ start]) (auto simp: demo_calls_def demo_progs_def process_run_def start_def run_simps split: prod.splits res.splits)
  with h that show ?thesis by blast
qed

lemma demo_end_run: "calls_exec demo_schedule (calls_init demo_progs) = Some demo_end"
  "cs_log demo_end = [] @ (1, LockKey ''ns/web'') # [(1, UnlockKey ''ns/web'')] @ (2, LockKey ''ns/web'') # []"
  by (simp_all add: demo_end_def demo_schedule_def calls_exec_def calls_init_def demo_progs_def call_step_def lock_action_def issue_def
      advance_def kv_init_def NewMutexKV_def kv_get_def set_pc_def)

lemma demo_run: "calls_run demo_progs 15 demo_end"
proof -
  have "length demo_schedule = 15" by (simp add: demo_schedule_def)
  with calls_exec_run [OF demo_end_run(1)] show ?thesis by metis
qed

theorem calls_for_a_service_exclusive_witness:
  "\<exists>h. (\<forall>t. start_cloud demo_start demo_settings (demo_worlds t) (decoders demo_basic) (Some []) = Started (h t))
     \<and> (\<forall>t. issues (h t) ''c'' (demo_calls t) (demo_progs t)) \<and> calls_run demo_progs 15 demo_end
     \<and> (1, UnlockKey ''ns/web'') \<in> set [(1 :: nat, UnlockKey ''ns/web'')] \<and> (\<exists>rest. demo_progs 2 = events_of 2 (cs_log demo_end) @ rest)"
proof -
  obtain h where h: "\<forall>t. start_cloud demo_start demo_settings (demo_worlds t) (decoders demo_basic) (Some []) = Started (h t)"
    "\<forall>t. issues (h t) ''c'' (demo_calls t) (demo_progs t)" by (rule demo_started)
  show ?thesis using h demo_run calls_for_a_service_exclusive [OF h demo_run demo_end_run(2), of 2] by blast
qed

theorem concurrent_calls_finish_witness:
  "\<exists>h. (\<forall>t. start_cloud demo_start demo_settings (demo_worlds t) (decoders demo_basic) (Some []) = Started (h t))
     \<and> (15::nat) \<le> 5 * (\<Sum>t\<in>{1, 2}. length (demo_progs t))
     \<and> (events_of 2 (cs_log demo_end) = demo_progs 2 \<or> (\<exists>u s'. call_step u demo_end = Some s'))"
proof -
  obtain h where h: "\<forall>t. start_cloud demo_start demo_settings (demo_worlds t) (decoders demo_basic) (Some []) = Started (h t)"
    "\<forall>t. issues (h t) ''c'' (demo_calls t) (demo_progs t)" by (rule demo_started)
  have T: "finite {1, 2 :: nat}" "\<forall>t. t \<notin> {1, 2} \<longrightarrow> demo_progs t = []" by (simp_all add: demo_progs_def)
  show ?thesis using h concurrent_calls_finish [OF h T demo_run, of 2] by blast
qed

end
