(* ===== verification/Client_Methods.thy ===== *)
theory Client_Methods
  imports Wrapper Filters
begin

text \<open>
  The methods of the SDK clients in \<open>wrapper/\<close> that no load balancer calls, the VPC client, and the two parts of
  \<open>wrapper/ecs.go\<close> and \<open>config/config.go\<close> all clients share: how the field of a reply is copied into a result by
  reflection, and how the HTTP client of the SDK is configured.
\<close>

subsection \<open>SharedLoadBalanceClient\<close>

definition s_UpdateInstance :: "'w api \<Rightarrow> string \<Rightarrow> string \<Rightarrow> string \<Rightarrow> ('w, LoadbalancerResp option) prog" where
  "s_UpdateInstance A uid name description = commonWrapper A (ElbV2 (UpdateLoadbalancerReq uid name description)) asLoadbalancer"

definition s_CreateListener :: "'w api \<Rightarrow> CreateListenerReq \<Rightarrow> ('w, ListenerResp option) prog" where
  "s_CreateListener A req = commonWrapper A (ElbV2 (CreateListenerRequest req)) asListener"

definition s_UpdateListener :: "'w api \<Rightarrow> string \<Rightarrow> UpdateListenerReq \<Rightarrow> ('w, unit) prog" where
  "s_UpdateListener A uid req = wrapper0 A (ElbV2 (UpdateListenerRequest uid req))"

definition s_GetPool :: "'w api \<Rightarrow> string \<Rightarrow> ('w, Pool option) prog" where
  "s_GetPool A uid = commonWrapper A (ElbV2 (ShowPoolReq uid)) asPool"

definition s_GetHealthMonitor :: "'w api \<Rightarrow> string \<Rightarrow> ('w, Monitor option) prog" where
  "s_GetHealthMonitor A uid = commonWrapper A (ElbV2 (ShowHealthmonitorReq uid)) asMonitor"

definition s_GetMember :: "'w api \<Rightarrow> string \<Rightarrow> ('w, Member option) prog" where
  "s_GetMember A uid = commonWrapper A (ElbV2 (ShowMemberReq uid)) asMember"

definition s_UpdateMember :: "'w api \<Rightarrow> string \<Rightarrow> UpdateMemberReq \<Rightarrow> ('w, Member option) prog" where
  "s_UpdateMember A uid req = commonWrapper A (ElbV2 (UpdateMemberRequest uid req)) asMember"

subsection \<open>DedicatedLoadBalanceClient\<close>

definition d_UpdateInstance :: "'w api \<Rightarrow> string \<Rightarrow> string \<Rightarrow> string \<Rightarrow> ('w, LoadBalancer option) prog" where
  "d_UpdateInstance A uid name description = commonWrapper A (ElbV3 (V3UpdateLoadBalancer uid name description)) asLoadBalancer3"

definition d_GetListener :: "'w api \<Rightarrow> string \<Rightarrow> ('w, Listener option) prog" where
  "d_GetListener A uid = commonWrapper A (ElbV3 (V3ShowListener uid)) asListener3"

definition d_GetPool :: "'w api \<Rightarrow> string \<Rightarrow> ('w, Pool option) prog" where
  "d_GetPool A uid = commonWrapper A (ElbV3 (V3ShowPool uid)) asPool"

definition d_GetHealthMonitor :: "'w api \<Rightarrow> string \<Rightarrow> ('w, Monitor option) prog" where
  "d_GetHealthMonitor A uid = commonWrapper A (ElbV3 (V3ShowHealthMonitor uid)) asMonitor"

definition d_BatchAddMember :: "'w api \<Rightarrow> string \<Rightarrow> BatchCreateMembersOption list \<Rightarrow> ('w, BatchMember list option) prog" where
  "d_BatchAddMember A poolID members =
     bindR (attempt (commonWrapper A (ElbV3 (V3BatchCreateMembers poolID members)) asBatchMembers)) (\<lambda>r. case r of
         Inr x \<Rightarrow> okR x
       | Inl e \<Rightarrow> (case e of
             ServiceResponseErrorVal _ code _ \<Rightarrow> if code = ''409'' then okR None else errR e
           | _ \<Rightarrow> errR e))"

definition d_GetMember :: "'w api \<Rightarrow> string \<Rightarrow> ('w, Member option) prog" where
  "d_GetMember A uid = commonWrapper A (ElbV3 (V3ShowMember uid)) asMember"

definition d_UpdateMember :: "'w api \<Rightarrow> string \<Rightarrow> UpdateMemberReq \<Rightarrow> ('w, Member option) prog" where
  "d_UpdateMember A uid req = commonWrapper A (ElbV3 (V3UpdateMember uid req)) asMember"

text \<open>The loop copies each ID before it takes its address, so the options point to the IDs in order.\<close>

definition d_BatchDeleteMember :: "'w api \<Rightarrow> string \<Rightarrow> string list \<Rightarrow> ('w, unit) prog" where
  "d_BatchDeleteMember A poolID uids =
     wrapper0 A (ElbV3 (V3BatchDeleteMembers poolID (foldl (\<lambda>members uid. members @ [uid]) [] uids)))"

subsection \<open>EIpClient and VpcClient\<close>

definition e_CreateSharedBandwidth :: "'w api \<Rightarrow> CreateSharedBandwidthOption option \<Rightarrow> ('w, BandwidthResp option) prog" where
  "e_CreateSharedBandwidth A req = commonWrapper A (Eip (CreateSharedBandwidthReq req)) asBandwidth"

definition e_DeleteSharedBandwidth :: "'w api \<Rightarrow> string \<Rightarrow> ('w, unit) prog" where
  "e_DeleteSharedBandwidth A uid = wrapper0 A (Eip (DeleteSharedBandwidthReq uid))"

definition v_ListSecurityGroupRules :: "'w api \<Rightarrow> string \<Rightarrow> ('w, SecurityGroupRule list) prog" where
  "v_ListSecurityGroupRules A securityGroupID = commonWrapper A (Vpc (ListSecurityGroupRulesReq securityGroupID)) asRules"

definition v_CreateSecurityGroupRule :: "'w api \<Rightarrow> CreateSecurityGroupRuleOption option \<Rightarrow> ('w, SecurityGroupRule option) prog" where
  "v_CreateSecurityGroupRule A rule = commonWrapper A (Vpc (CreateSecurityGroupRuleReq rule)) asRule"

definition v_DeleteSecurityGroupRule :: "'w api \<Rightarrow> string \<Rightarrow> ('w, unit) prog" where
  "v_DeleteSecurityGroupRule A ruleID = wrapper0 A (Vpc (DeleteSecurityGroupRuleReq ruleID))"

subsection \<open>Copying a field into a result\<close>

text \<open>
  \<open>setResultValue\<close> on the values of package \<open>reflect\<close>: \<open>result\<close> points to the variable to set (a nil slice in it is
  written as the empty slice: only its type matters), and the result is the new content of the variable. Results
  and fields are pointers to structs and slices of structs, for which a value can be converted to a type only if
  it has that type.
\<close>

definition setResultValue :: "gval \<Rightarrow> gval \<Rightarrow> gval res" where
  "setResultValue result val = (case result of
      GPtr t p \<Rightarrow>
        let refVal = (case val of GPtr u (Some (a, GSlice e xs)) \<Rightarrow> GSlice e xs | _ \<Rightarrow> val)
        in (case p of
              None \<Rightarrow> Panic ''reflect: call of reflect.Value.CanConvert on zero Value''
            | Some (a, rstVal) \<Rightarrow>
                if go_type rstVal \<noteq> go_type refVal
                then Err (Errorf (''error, cannot convert '' @ go_type refVal @ '' to '' @ go_type rstVal))
                else Ok refVal)
    | _ \<Rightarrow> Err (Errorf ''`result` must be a pointer type, otherwise the data cannot be set''))"

text \<open>
  The whole of \<open>commonWrapper\<close> after the handler has answered: the arguments are none, a result, or a key and a
  result. The outcome is the new content of the result, or \<open>None\<close> when nothing is stored.
\<close>

definition status_of :: "gval \<Rightarrow> int res" where
  "status_of v = (case v of GInt t n \<Rightarrow> Ok n | _ \<Rightarrow> Panic ''reflect: call of reflect.Value.Int on a value that is not an integer'')"

definition check_reply :: "(gval option \<Rightarrow> string) \<Rightarrow> gval \<Rightarrow> int list \<Rightarrow> unit res" where
  "check_reply show response okCodes =
     bind_res (GetStructField show response ''HttpStatusCode'') (\<lambda>value. bind_res (status_of value) (\<lambda>statusCode.
       if statusCode \<in> set okCodes then Ok ()
       else Err (ServiceResponseErrorVal statusCode [] (''error: unexpected StatusCode: '' @ int_str statusCode))))"

definition copy_reply :: "(gval option \<Rightarrow> string) \<Rightarrow> error + gval \<Rightarrow> int list \<Rightarrow> gval list \<Rightarrow> gval option res" where
  "copy_reply show reply okCodes args = (case reply of
      Inl e \<Rightarrow> Err e
    | Inr response \<Rightarrow> bind_res (check_reply show response okCodes) (\<lambda>_. (case args of
          [] \<Rightarrow> Ok None
        | arg # rest \<Rightarrow>
            if length args > 2 then Err (Errorf (''`args` length is wrong, expected 2, got: '' @ int_str (int (length args))))
            else (case arg of
                GString key \<Rightarrow> (case rest of
                    [] \<Rightarrow> Panic ''runtime error: index out of range [1] with length 1''
                  | result # _ \<Rightarrow>
                      if length key = 0 \<or> trim_space key = [] then Ok None
                      else bind_res (GetStructField show response key) (\<lambda>v. bind_res (setResultValue result v) (\<lambda>x. Ok (Some x))))
              | _ \<Rightarrow> bind_res (setResultValue arg response) (\<lambda>x. Ok (Some x))))))"

subsection \<open>The HTTP client of the SDK\<close>

text \<open>\<open>newHTTPConfig\<close> sets the retries and the check of certificates; its handlers only log.\<close>

record HttpConfig =
  hcf_Retries :: int
  hcf_IgnoreSSLVerification :: bool

record Credentials =
  cr_AK :: string
  cr_SK :: string
  cr_ProjectId :: string

record HcHttpClient =
  hcc_Endpoint :: string
  hcc_RegionId :: string
  hcc_Credentials :: Credentials
  hcc_HttpConfig :: HttpConfig
  hcc_UserAgent :: string

definition GetCredentials :: "AuthOptions \<Rightarrow> Credentials" where
  "GetCredentials a = \<lparr>cr_AK = AccessKey a, cr_SK = SecretKey a, cr_ProjectId = ProjectID a\<rparr>"

definition newHTTPConfig :: "HttpConfig \<Rightarrow> string \<Rightarrow> HttpConfig" where
  "newHTTPConfig defConfig insecure =
     (let conf = defConfig\<lparr>hcf_Retries := 3\<rparr> in if insecure = ''true'' then conf\<lparr>hcf_IgnoreSSLVerification := True\<rparr> else conf)"

definition GetHcClient :: "HttpConfig \<Rightarrow> AuthOptions \<Rightarrow> string \<Rightarrow> HcHttpClient" where
  "GetHcClient defConfig a catalogName =
     (let cloud = (if trim_space (Cloud a) \<noteq> [] then trim_space (Cloud a) else ''myhuaweicloud.com'')
      in \<lparr>hcc_Endpoint = ''https://'' @ catalogName @ ''.'' @ Region a @ ''.'' @ cloud, hcc_RegionId = Region a,
          hcc_Credentials = GetCredentials a, hcc_HttpConfig = newHTTPConfig defConfig (Insecure a),
          hcc_UserAgent = ''huaweicloud-kubernetes-ccm''\<rparr>)"

text \<open>The HTTP client the \<open>wrapper\<close> method of each client asks for; the handler it is given runs with it under \<open>commonWrapper\<close>.\<close>

definition s_wrapper_client :: "HttpConfig \<Rightarrow> AuthOptions \<Rightarrow> HcHttpClient" where
  "s_wrapper_client defConfig a = GetHcClient defConfig a ''elb''"

definition d_wrapper_client :: "HttpConfig \<Rightarrow> AuthOptions \<Rightarrow> HcHttpClient" where
  "d_wrapper_client defConfig a = GetHcClient defConfig a ''elb''"

definition e_wrapper_client :: "HttpConfig \<Rightarrow> AuthOptions \<Rightarrow> HcHttpClient" where
  "e_wrapper_client defConfig a = GetHcClient defConfig a ''vpc''"

definition ecs_wrapper_client :: "HttpConfig \<Rightarrow> AuthOptions \<Rightarrow> HcHttpClient" where
  "ecs_wrapper_client defConfig a = GetHcClient defConfig a ''ecs''"

definition v_wrapper_client :: "HttpConfig \<Rightarrow> AuthOptions \<Rightarrow> HcHttpClient" where
  "v_wrapper_client defConfig a = GetHcClient defConfig a ''vpc''"

fun client_for :: "HttpConfig \<Rightarrow> AuthOptions \<Rightarrow> sdk_request \<Rightarrow> HcHttpClient" where
  "client_for defConfig a (ElbV2 r) = s_wrapper_client defConfig a"
| "client_for defConfig a (ElbV3 r) = d_wrapper_client defConfig a"
| "client_for defConfig a (Eip r) = e_wrapper_client defConfig a"
| "client_for defConfig a (Ecs r) = ecs_wrapper_client defConfig a"
| "client_for defConfig a (Vpc r) = v_wrapper_client defConfig a"

subsection \<open>Facts\<close>

lemma client_methods_read [emits_intro]:
  "KRead \<in> K \<Longrightarrow> emits (s_GetPool A uid) (kinds K)" "KRead \<in> K \<Longrightarrow> emits (s_GetHealthMonitor A uid) (kinds K)"
  "KRead \<in> K \<Longrightarrow> emits (s_GetMember A uid) (kinds K)" "KRead \<in> K \<Longrightarrow> emits (d_GetListener A uid) (kinds K)"
  "KRead \<in> K \<Longrightarrow> emits (d_GetPool A uid) (kinds K)" "KRead \<in> K \<Longrightarrow> emits (d_GetHealthMonitor A uid) (kinds K)"
  "KRead \<in> K \<Longrightarrow> emits (d_GetMember A uid) (kinds K)" "KRead \<in> K \<Longrightarrow> emits (v_ListSecurityGroupRules A sg) (kinds K)"
  unfolding s_GetPool_def s_GetHealthMonitor_def s_GetMember_def d_GetListener_def d_GetPool_def d_GetHealthMonitor_def d_GetMember_def
    v_ListSecurityGroupRules_def
  by (intro emits_intro, simp)+

text \<open>
  Every request of every client goes over HTTPS into the cloud and region of the configuration, is signed with its key for its
  project, and is tried again at most three times; certificates go unchecked only when the SDK's default or the option says so.
\<close>

lemma client_for_config:
  assumes "trim_space (Cloud a) \<noteq> []"
  shows "\<exists>catalog\<in>{''elb'', ''vpc'', ''ecs''}. hcc_Endpoint (client_for defConfig a req) = ''https://'' @ catalog @ ''.'' @ Region a @ ''.'' @ trim_space (Cloud a)"
    "hcc_Credentials (client_for defConfig a req) = GetCredentials a" "hcf_Retries (hcc_HttpConfig (client_for defConfig a req)) = 3"
    "hcf_IgnoreSSLVerification (hcc_HttpConfig (client_for defConfig a req)) \<longleftrightarrow> hcf_IgnoreSSLVerification defConfig \<or> Insecure a = ''true''"
  using assms
  by (cases req; simp add: s_wrapper_client_def d_wrapper_client_def e_wrapper_client_def ecs_wrapper_client_def v_wrapper_client_def
      GetHcClient_def newHTTPConfig_def Let_def)+

text \<open>One request deletes exactly the members named, in their order.\<close>

lemma batch_delete_request: "log (snd (d_BatchDeleteMember A poolID uids s)) = log s @ [Sdk (ElbV3 (V3BatchDeleteMembers poolID uids))]"
proof -
  have "foldl (\<lambda>members uid. members @ [uid]) xs uids = xs @ uids" for xs
    by (induction uids arbitrary: xs) simp_all
  then have "d_BatchDeleteMember A poolID uids = wrapper0 A (ElbV3 (V3BatchDeleteMembers poolID uids))"
    by (simp add: d_BatchDeleteMember_def)
  then show ?thesis
    by (cases "wrapper0 A (ElbV3 (V3BatchDeleteMembers poolID uids)) s") (auto simp: wrapper0_def dest: commonWrapper_log)
qed

text \<open>A reply of the SDK, and the variables the client methods declare for a result.\<close>

definition reply_value :: "string \<Rightarrow> int \<Rightarrow> string \<Rightarrow> gval \<Rightarrow> gval" where
  "reply_value T st key field = GPtr T (Some (0, GStruct T [(''HttpStatusCode'', GInt ''int'' st), (key, field)]))"

definition pointer_var :: "string \<Rightarrow> gval" where
  "pointer_var t = GPtr (CHR ''*'' # t) (Some (0, GPtr t None))"

definition slice_var :: "string \<Rightarrow> gval" where
  "slice_var t = GPtr (''[]'' @ t) (Some (0, GSlice t []))"

definition cannot_convert :: "string \<Rightarrow> string \<Rightarrow> error" where
  "cannot_convert from to = Errorf (''error, cannot convert '' @ from @ '' to '' @ to)"

lemma check_reply_value: "check_reply show (reply_value T st key field) codes =
    (if st \<in> set codes then Ok () else Err (ServiceResponseErrorVal st [] (''error: unexpected StatusCode: '' @ int_str st)))"
  by (simp add: check_reply_def reply_value_def GetStructField_def getReflectVal_def ReflectStructField_def status_of_def split_on_no_sep)

lemma field_of_reply: "key \<noteq> ''HttpStatusCode'' \<Longrightarrow> CHR ''.'' \<notin> set key \<Longrightarrow> GetStructField show (reply_value T st key field) key = Ok field"
  by (simp add: reply_value_def GetStructField_def getReflectVal_def ReflectStructField_def split_on_no_sep)

text \<open>
  C26. What a client method returns for the field of a reply with an accepted status: a pointer to a struct as it is, nil
  included; a slice behind a pointer as the slice, while a nil pointer to a slice is a conversion error. A result that is itself a pointer
  to a slice is never set from a slice: \<open>BatchAddMember\<close> reports an error for every reply that lists the members it created.
  A reply with another status is a service error whatever it holds.
\<close>

theorem reply_copied_into_result:
  assumes "key \<noteq> ''HttpStatusCode''" "CHR ''.'' \<notin> set key" "trim_space key \<noteq> []"
    and "\<forall>a e xs. p \<noteq> Some (a, GSlice e xs)"
  shows "copy_reply show (Inr (reply_value T st key field)) OKCodes [GString key, result] =
      (if st \<in> set OKCodes then bind_res (setResultValue result field) (\<lambda>x. Ok (Some x))
       else Err (ServiceResponseErrorVal st [] (''error: unexpected StatusCode: '' @ int_str st)))
    \<and> setResultValue (pointer_var t) (GPtr t p) = Ok (GPtr t p)
    \<and> setResultValue (slice_var t) (GPtr (''[]'' @ t) (Some (a, GSlice t xs))) = Ok (GSlice t xs)
    \<and> setResultValue (slice_var t) (GPtr (''[]'' @ t) None) = Err (cannot_convert (''*[]'' @ t) (''[]'' @ t))
    \<and> setResultValue (pointer_var (''[]'' @ t)) (GPtr (''[]'' @ t) (Some (a, GSlice t xs))) = Err (cannot_convert (''[]'' @ t) (''*[]'' @ t))"
proof -
  have "length key \<noteq> 0" using assms(3) by (auto simp: trim_space_def trim_by_def)
  then have "copy_reply show (Inr (reply_value T st key field)) OKCodes [GString key, result] =
      (if st \<in> set OKCodes then bind_res (setResultValue result field) (\<lambda>x. Ok (Some x))
       else Err (ServiceResponseErrorVal st [] (''error: unexpected StatusCode: '' @ int_str st)))"
    using assms(3) by (simp add: copy_reply_def check_reply_value field_of_reply [OF assms(1,2)])
  moreover have "setResultValue (pointer_var t) (GPtr t p) = Ok (GPtr t p)"
    using assms(4) by (cases p) (auto simp: setResultValue_def pointer_var_def split: gval.splits)
  ultimately show ?thesis
    by (simp add: setResultValue_def pointer_var_def slice_var_def cannot_convert_def)
qed

theorem reply_copied_into_result_witness:
  "copy_reply (\<lambda>_. []) (Inr (reply_value ''Rsp'' 201 ''Members'' (GPtr ''[]Member'' (Some (3, GSlice ''Member'' [GInt ''Member'' 1])))))
       OKCodes [GString ''Members'', pointer_var ''[]Member''] = Err (cannot_convert ''[]Member'' ''*[]Member'')
   \<and> setResultValue (pointer_var ''Member'') (GPtr ''Member'' None) = Ok (GPtr ''Member'' None)"
proof -
  have "trim_space ''Members'' \<noteq> []" by (simp add: trim_space_def trim_by_def is_space_def)
  then show ?thesis
    using reply_copied_into_result [of "''Members''" None "\<lambda>_. []" "''Rsp''" 201 "GPtr ''[]Member'' (Some (3, GSlice ''Member'' [GInt ''Member'' 1]))"
        "pointer_var ''[]Member''" "''Member''" 3 "[GInt ''Member'' 1]"]
    by (simp add: OKCodes_def)
qed

text \<open>The same at the level of the client: the request is sent and its success is reported as an error.\<close>

theorem batch_add_member_reports_failure:
  assumes "sdk_call A (world s) (ElbV3 (V3BatchCreateMembers poolID ms)) = (Inr rsp, w)" "HttpStatusCode rsp \<in> set OKCodes" "Body rsp = PBatchMembers xs"
  shows "fst (d_BatchAddMember A poolID ms s) = Err (Errorf ''error, cannot convert'')"
    "log (snd (d_BatchAddMember A poolID ms s)) = log s @ [Sdk (ElbV3 (V3BatchCreateMembers poolID ms))]"
  using assms by (simp_all add: d_BatchAddMember_def commonWrapper_def remote_def checkStatusCode_def asBatchMembers_def run_simps)

end
