(* ===== verification/Throttle_Watch.thy ===== *)
theory Throttle_Watch
  imports Throttle Nat_Client Http_Scenario "HOL-Library.Word"
begin

text \<open>
  The rest of \<open>throttle.go\<close> and of \<open>http.go\<close>: the names of the variables and of the limiters, the goroutine that reads
  \<open>throttle.json\<close> and watches its directory, and the start of the HTTP client. The file system and the watcher of
  \<open>fsnotify\<close> are parameters: what \<open>os.Stat\<close> says, what each read of the file returns, and the events in their order.
\<close>

unbundle bit_operations_syntax

subsection \<open>Names\<close>

definition throttle_env_names :: "string list" where
  "throttle_env_names =
    [''PUBLIC_ELB_INSTANCE_GET_MAX_QPS'', ''PUBLIC_ELB_INSTANCE_GET_MAX_BURST'',
     ''PUBLIC_ELB_INSTANCE_LIST_MAX_QPS'', ''PUBLIC_ELB_INSTANCE_LIST_MAX_BURST'',
     ''PUBLIC_ELB_INSTANCE_CREATE_MAX_QPS'', ''PUBLIC_ELB_INSTANCE_CREATE_MAX_BURST'',
     ''PUBLIC_ELB_INSTANCE_DELETE_MAX_QPS'', ''PUBLIC_ELB_INSTANCE_DELETE_MAX_BURST'',
     ''PUBLIC_ELB_LISTENER_GET_MAX_QPS'', ''PUBLIC_ELB_LISTENER_GET_MAX_BURST'',
     ''PUBLIC_ELB_LISTENER_LIST_MAX_QPS'', ''PUBLIC_ELB_LISTENER_LIST_MAX_BURST'',
     ''PUBLIC_ELB_LISTENER_CREATE_MAX_QPS'', ''PUBLIC_ELB_LISTENER_CREATE_MAX_BURST'',
     ''PUBLIC_ELB_LISTENER_UPDATE_MAX_QPS'', ''PUBLIC_ELB_LISTENER_UPDATE_MAX_BURST'',
     ''PUBLIC_ELB_LISTENER_DELETE_MAX_QPS'', ''PUBLIC_ELB_LISTENER_DELETE_MAX_BURST'',
     ''PUBLIC_ELB_POOL_GET_MAX_QPS'', ''PUBLIC_ELB_POOL_GET_MAX_BURST'',
     ''PUBLIC_ELB_POOL_LIST_MAX_QPS'', ''PUBLIC_ELB_POOL_LIST_MAX_BURST'',
     ''PUBLIC_ELB_POOL_CREATE_MAX_QPS'', ''PUBLIC_ELB_POOL_CREATE_MAX_BURST'',
     ''PUBLIC_ELB_POOL_UPDATE_MAX_QPS'', ''PUBLIC_ELB_POOL_UPDATE_MAX_BURST'',
     ''PUBLIC_ELB_POOL_DELETE_MAX_QPS'', ''PUBLIC_ELB_POOL_DELETE_MAX_BURST'',
     ''PUBLIC_ELB_MEMBER_GET_MAX_QPS'', ''PUBLIC_ELB_MEMBER_GET_MAX_BURST'',
     ''PUBLIC_ELB_MEMBER_LIST_MAX_QPS'', ''PUBLIC_ELB_MEMBER_LIST_MAX_BURST'',
     ''PUBLIC_ELB_MEMBER_CREATE_MAX_QPS'', ''PUBLIC_ELB_MEMBER_CREATE_MAX_BURST'',
     ''PUBLIC_ELB_MEMBER_UPDATE_MAX_QPS'', ''PUBLIC_ELB_MEMBER_UPDATE_MAX_BURST'',
     ''PUBLIC_ELB_MEMBER_DELETE_MAX_QPS'', ''PUBLIC_ELB_MEMBER_DELETE_MAX_BURST'',
     ''PUBLIC_ELB_HEALTHZ_GET_MAX_QPS'', ''PUBLIC_ELB_HEALTHZ_GET_MAX_BURST'',
     ''PUBLIC_ELB_HEALTHZ_LIST_MAX_QPS'', ''PUBLIC_ELB_HEALTHZ_LIST_MAX_BURST'',
     ''PUBLIC_ELB_HEALTHZ_CREATE_MAX_QPS'', ''PUBLIC_ELB_HEALTHZ_CREATE_MAX_BURST'',
     ''PUBLIC_ELB_HEALTHZ_UPDATE_MAX_QPS'', ''PUBLIC_ELB_HEALTHZ_UPDATE_MAX_BURST'',
     ''PUBLIC_ELB_HEALTHZ_DELETE_MAX_QPS'', ''PUBLIC_ELB_HEALTHZ_DELETE_MAX_BURST'',
     ''NAT_GATEWAY_GET_MAX_QPS'', ''NAT_GATEWAY_GET_MAX_BURST'',
     ''NAT_GATEWAY_LIST_MAX_QPS'', ''NAT_GATEWAY_LIST_MAX_BURST'',
     ''NAT_RULE_GET_MAX_QPS'', ''NAT_RULE_GET_MAX_BURST'',
     ''NAT_RULE_LIST_MAX_QPS'', ''NAT_RULE_LIST_MAX_BURST'',
     ''NAT_RULE_CREATE_MAX_QPS'', ''NAT_RULE_CREATE_MAX_BURST'',
     ''NAT_RULE_DELETE_MAX_QPS'', ''NAT_RULE_DELETE_MAX_BURST'',
     ''EIP_BIND_MAX_QPS'', ''EIP_BIND_MAX_BURST'', ''EIP_CREATE_MAX_QPS'', ''EIP_CREATE_MAX_BURST'',
     ''EIP_DELETE_MAX_QPS'', ''EIP_DELETE_MAX_BURST'', ''EIP_LIST_MAX_QPS'', ''EIP_LIST_MAX_BURST'',
     ''SUBNET_GET_MAX_QPS'', ''SUBNET_GET_MAX_BURST'', ''SUBNET_LIST_MAX_QPS'', ''SUBNET_LIST_MAX_BURST'']"

definition throttle_types :: "string list" where
  "throttle_types =
    [''ELB_INSTANCE_GET'', ''ELB_INSTANCE_LIST'', ''ELB_INSTANCE_CREATE'', ''ELB_INSTANCE_DELETE'',
     ''ELB_LISTENER_GET'', ''ELB_LISTENER_LIST'', ''ELB_LISTENER_CREATE'', ''ELB_LISTENER_UPDATE'', ''ELB_LISTENER_DELETE'',
     ''ELB_POOL_GET'', ''ELB_POOL_LIST'', ''ELB_POOL_CREATE'', ''ELB_POOL_UPDATE'', ''ELB_POOL_DELETE'',
     ''ELB_MEMBER_GET'', ''ELB_MEMBER_LIST'', ''ELB_MEMBER_CREATE'', ''ELB_MEMBER_UPDATE'', ''ELB_MEMBER_DELETE'',
     ''ELB_WHITELIST_GET'', ''ELB_WHITELIST_LIST'', ''ELB_WHITELIST_CREATE'', ''ELB_WHITELIST_UPDATE'', ''ELB_WHITELIST_DELETE'',
     ''ELB_HEALTHZ_GET'', ''ELB_HEALTHZ_LIST'', ''ELB_HEALTHZ_CREATE'', ''ELB_HEALTHZ_UPDATE'', ''ELB_HEALTHZ_DELETE'',
     ''NAT_GATEWAY_GET'', ''NAT_GATEWAY_LIST'', ''NAT_RULE_GET'', ''NAT_RULE_LIST'', ''NAT_RULE_CREATE'', ''NAT_RULE_DELETE'',
     ''EIP_BIND'', ''EIP_CREATE'', ''EIP_DELETE'', ''EIP_LIST'', ''SUBNET_GET'', ''SUBNET_LIST'', ''ECS_LIST'']"

subsection \<open>The file and its directory\<close>

text \<open>\<open>path.Split\<close>, \<open>path.Clean\<close> and \<open>path.Join\<close> of the standard library.\<close>

definition path_Split :: "string \<Rightarrow> string \<times> string" where
  "path_Split p = (rev (dropWhile (\<lambda>c. c \<noteq> CHR ''/'') (rev p)), rev (takeWhile (\<lambda>c. c \<noteq> CHR ''/'') (rev p)))"

definition clean_step :: "bool \<Rightarrow> string list \<Rightarrow> string \<Rightarrow> string list" where
  "clean_step rooted ws w =
     (if w = [] \<or> w = ''.'' then ws
      else if w = ''..'' then (if ws \<noteq> [] \<and> last ws \<noteq> ''..'' then butlast ws else if rooted then ws else ws @ [w])
      else ws @ [w])"

definition path_Clean :: "string \<Rightarrow> string" where
  "path_Clean p =
     (let rooted = (p \<noteq> [] \<and> hd p = CHR ''/'');
          body = join_with ''/'' (foldl (clean_step rooted) [] (split_on (CHR ''/'') p))
      in if rooted then CHR ''/'' # body else if body = [] then ''.'' else body)"

definition path_Join :: "string list \<Rightarrow> string" where
  "path_Join elems = (let es = filter (\<lambda>e. e \<noteq> []) elems in if es = [] then [] else path_Clean (join_with ''/'' es))"

definition throttle_file :: "string \<Rightarrow> string" where
  "throttle_file conf = path_Join [conf, ''throttle.json'']"

subsection \<open>Reading and watching\<close>

datatype stat_result = StatNotExist | StatFailed error | StatDir | StatFile

text \<open>An event has its operations as the bits of \<open>fsnotify.Op\<close>; with it comes what a read of the file returns then.\<close>

datatype watch_event = FsEvent "32 word" "error + string" | FsError error

definition fsnotify_Write :: "32 word" where
  "fsnotify_Write = push_bit 1 1"

definition watch_step :: "'f floats \<Rightarrow> (string \<Rightarrow> error + (string \<times> 'f ThrottleParam) list) \<Rightarrow> watch_event \<Rightarrow> 'f throttles \<Rightarrow> 'f throttles" where
  "watch_step fl unmarshal event th = (case event of
       FsEvent op file \<Rightarrow> if op AND fsnotify_Write = fsnotify_Write then resetThrottles fl unmarshal file th else th
     | FsError e \<Rightarrow> th)"

record file_system =
  fs_stat :: "string \<Rightarrow> stat_result"
  fs_read :: "string \<Rightarrow> error + string"
  fs_NewWatcher :: "error option"
  fs_Add :: "string \<Rightarrow> error option"

text \<open>
  The limiters after the events so far. \<open>os.Stat\<close> returns no \<open>FileInfo\<close> beside an error, and an error other than a missing file
  goes on to use it.
\<close>

definition syncThrottleFromConfig ::
  "'f floats \<Rightarrow> (string \<Rightarrow> error + (string \<times> 'f ThrottleParam) list) \<Rightarrow> (string \<Rightarrow> string) \<Rightarrow> file_system \<Rightarrow> watch_event list
     \<Rightarrow> 'f throttles \<Rightarrow> 'f throttles res" where
  "syncThrottleFromConfig fl unmarshal env FS events th =
     (let conf = (if env ''THROTTLE_CONFIG_FILE'' = [] then ''/srv/throttle'' else env ''THROTTLE_CONFIG_FILE'');
          go = (\<lambda>dir. let th1 = resetThrottles fl unmarshal (fs_read FS (throttle_file dir)) th
                       in case fs_NewWatcher FS of
                            Some e \<Rightarrow> th1
                          | None \<Rightarrow> (case fs_Add FS dir of Some e \<Rightarrow> th1 | None \<Rightarrow> fold (watch_step fl unmarshal) events th1))
      in case fs_stat FS conf of
           StatNotExist \<Rightarrow> Ok th
         | StatFailed e \<Rightarrow> Panic ''invalid memory address or nil pointer dereference''
         | StatDir \<Rightarrow> Ok (go conf)
         | StatFile \<Rightarrow> Ok (go (fst (path_Split conf))))"

subsection \<open>The HTTP client\<close>

record http_transport =
  tr_InsecureSkipVerify :: bool
  tr_DialTimeout :: nat
  tr_MaxIdleConnsPerHost :: nat
  tr_ResponseHeaderTimeout :: nat

definition httpClient :: http_transport where
  "httpClient = \<lparr>tr_InsecureSkipVerify = True, tr_DialTimeout = 15, tr_MaxIdleConnsPerHost = 10, tr_ResponseHeaderTimeout = 15\<rparr>"

text \<open>\<open>init\<close> of the package: limits that are not valid end the process before it starts.\<close>

definition init_http :: "'f floats \<Rightarrow> (string \<Rightarrow> string) \<Rightarrow> (http_transport \<times> 'f throttles) res" where
  "init_http fl env = (case InitialThrottler fl env of Inl e \<Rightarrow> Panic (err_text e) | Inr th \<Rightarrow> Ok (httpClient, th))"

text \<open>
  The calls of the NAT client (\<open>nat_connections.go\<close>): what each does, and the limiter it passes to \<open>DoRequest\<close>. Those of the
  ports and of the floating IPs pass nil, and \<open>tryThrottle\<close> waits only when there is a limiter.
\<close>

datatype nat_operation =
    OpGetNATGateway string
  | OpListNATGateways "(string \<times> string) list"
  | OpCreateDNATRule DNATRule
  | OpDeleteDNATRule string string
  | OpGetDNATRule string
  | OpListDNATRules "(string \<times> string) list"
  | OpListPorts "(string \<times> string) list"
  | OpGetPort string
  | OpListFloatings "(string \<times> string) list"

definition discard :: "('w, 'a) prog \<Rightarrow> ('w, unit) prog" where
  "discard m = bindR m (\<lambda>_. okR ())"

fun nat_call :: "'w api \<Rightarrow> json_decoders \<Rightarrow> string \<Rightarrow> nat_operation \<Rightarrow> ('w, unit) prog" where
  "nat_call A J tenant (OpGetNATGateway gid) = discard (GetNATGateway A J tenant gid)"
| "nat_call A J tenant (OpListNATGateways params) = discard (ListNATGateways A J tenant params)"
| "nat_call A J tenant (OpCreateDNATRule conf) = discard (CreateDNATRule A J tenant conf)"
| "nat_call A J tenant (OpDeleteDNATRule rid gid) = DeleteDNATRule A tenant rid gid"
| "nat_call A J tenant (OpGetDNATRule rid) = discard (GetDNATRule A J tenant rid)"
| "nat_call A J tenant (OpListDNATRules params) = discard (ListDNATRules A J tenant params)"
| "nat_call A J tenant (OpListPorts params) = discard (ListPorts A J params)"
| "nat_call A J tenant (OpGetPort pid) = discard (GetPort A J pid)"
| "nat_call A J tenant (OpListFloatings params) = discard (ListFloatings A J params)"

fun nat_throttle_key :: "nat_operation \<Rightarrow> string option" where
  "nat_throttle_key (OpGetNATGateway gid) = Some ''NAT_GATEWAY_GET''"
| "nat_throttle_key (OpListNATGateways params) = Some ''NAT_GATEWAY_LIST''"
| "nat_throttle_key (OpCreateDNATRule conf) = Some ''NAT_RULE_CREATE''"
| "nat_throttle_key (OpDeleteDNATRule rid gid) = Some ''NAT_RULE_DELETE''"
| "nat_throttle_key (OpGetDNATRule rid) = Some ''NAT_RULE_GET''"
| "nat_throttle_key (OpListDNATRules params) = Some ''NAT_RULE_LIST''"
| "nat_throttle_key (OpListPorts params) = None"
| "nat_throttle_key (OpGetPort pid) = None"
| "nat_throttle_key (OpListFloatings params) = None"

definition tryThrottle :: "'f rate_limiter option \<Rightarrow> 'f rate_limiter list" where
  "tryThrottle throttle = (case throttle of None \<Rightarrow> [] | Some limiter \<Rightarrow> [limiter])"

subsection \<open>Facts\<close>

lemmas all_specs_list = all_specs_def instance_specs_def listener_specs_def pool_specs_def member_specs_def healthz_specs_def
  nat_gateway_specs_def nat_rule_specs_def eip_specs_def subnet_specs_def spec_def

text \<open>Each variable is read for exactly one limiter: the names are those of the constants, in their order.\<close>

lemma env_names_read: "concat (map (\<lambda>ts. [ts_QPSEnv ts, ts_BurstEnv ts]) all_specs) = throttle_env_names"
  by (simp add: all_specs_list throttle_env_names_def)

definition without_limiter :: "string list" where
  "without_limiter = [''ELB_WHITELIST_GET'', ''ELB_WHITELIST_LIST'', ''ELB_WHITELIST_CREATE'', ''ELB_WHITELIST_UPDATE'', ''ELB_WHITELIST_DELETE'', ''ECS_LIST'']"

lemma spec_keys: "ts_Key ` set all_specs = set throttle_types - set without_limiter"
proof -
  have "map ts_Key all_specs = filter (\<lambda>k. k \<notin> set without_limiter) throttle_types"
    by (simp add: all_specs_list throttle_types_def without_limiter_def)
  then have "set (map ts_Key all_specs) = set throttle_types - set without_limiter" by (simp only: set_filter) auto
  then show ?thesis by simp
qed

lemma reset_throttle_dom: "dom th \<subseteq> dom (reset_throttle fl entry th)"
  by (auto simp: reset_throttle_def split: prod.splits)

lemma fold_reset_throttle_dom: "dom th \<subseteq> dom (fold (reset_throttle fl) entries th)"
proof (induction entries arbitrary: th)
  case (Cons e entries)
  show ?case using subset_trans [OF reset_throttle_dom [of th fl e] Cons.IH] by simp
qed simp

text \<open>What every step of the goroutine keeps.\<close>

definition limiters_kept :: "'f floats \<Rightarrow> 'f throttles \<Rightarrow> 'f throttles \<Rightarrow> bool" where
  "limiters_kept fl th th' \<longleftrightarrow> (throttles_ok fl th \<longrightarrow> throttles_ok fl th') \<and> dom th \<subseteq> dom th'"

lemma kept_refl: "limiters_kept fl th th"
  by (simp add: limiters_kept_def)

lemma kept_trans: "limiters_kept fl th th' \<Longrightarrow> limiters_kept fl th' th'' \<Longrightarrow> limiters_kept fl th th''"
  by (auto simp: limiters_kept_def)

lemma kept_reset: "limiters_kept fl th (resetThrottles fl unmarshal contents th)"
proof -
  have "limiters_kept fl th (fold (reset_throttle fl) entries th)" for entries
    unfolding limiters_kept_def using fold_reset_throttle_ok fold_reset_throttle_dom by blast
  then show ?thesis by (simp add: resetThrottles_def kept_refl split: sum.splits)
qed

lemma kept_watch: "limiters_kept fl th (fold (watch_step fl unmarshal) es th)"
proof (induction es arbitrary: th)
  case (Cons e es)
  have "limiters_kept fl th (watch_step fl unmarshal e th)"
    by (simp add: watch_step_def kept_reset kept_refl split: watch_event.splits)
  then show ?case using kept_trans Cons.IH by (simp add: fold_Cons) blast
qed (simp add: kept_refl)

lemma kept_sync: "syncThrottleFromConfig fl unmarshal env FS events th = Ok th' \<Longrightarrow> limiters_kept fl th th'"
  using kept_reset kept_trans [OF kept_reset kept_watch]
  by (auto simp: syncThrottleFromConfig_def Let_def kept_refl split: stat_result.splits option.splits)

subsection \<open>Properties\<close>

text \<open>The limiters a call waits for, and the one request it sends.\<close>

definition limiters_of :: "'f throttles \<Rightarrow> nat_operation \<Rightarrow> 'f rate_limiter list" where
  "limiters_of th oper = tryThrottle (Option.bind (nat_throttle_key oper) (GetThrottleByKey th))"

lemma log_discard: "log (snd (discard m s)) = log (snd (m s))"
  by (cases "m s") (auto simp: discard_def run_simps split: res.splits)

lemma log_request:
  assumes "url_parses A (rq_Url r)"
  shows "log (snd (request_decode A r failed decode out s)) = log s @ [Http r]"
    and "log (snd (request_decode_found A r missing failed decode out s)) = log s @ [Http r]"
    and "log (snd (request_no_content A r failed s)) = log s @ [Http r]"
  using DoRequest_log [of A r s] assms
  by (cases "DoRequest A r s";
      auto simp: request_decode_def request_decode_found_def request_no_content_def run_simps split: res.splits sum.splits)+

lemma nat_call_request:
  assumes "\<And>u. url_parses A u"
  shows "\<exists>r. log (snd (nat_call A J tenant oper s)) = log s @ [Http r] \<and> (rq_Service r = NatEndpoint \<longleftrightarrow> nat_throttle_key oper \<noteq> None)
     \<and> (rq_Service r = VpcEndpoint \<longleftrightarrow> nat_throttle_key oper = None)"
  by (cases oper) (auto simp: log_discard ListNATGateways_def nat_client_defs log_request [OF assms])

text \<open>
  C17. From the start of the process, whatever the environment and the file say and whatever events the watcher delivers, every
  limiter has a rate of at most its burst, and each declared key except the six of white lists and of \<open>ECS_LIST\<close> has a
  limiter. So each call of the NAT client that sends a request to the NAT service waits for exactly one limiter, whose rate is at
  most its burst; the calls that send one to the VPC service (ports and floating IPs) wait for none.
\<close>

theorem throttles_always_valid:
  assumes "init_http fl env = Ok (client, th)" "syncThrottleFromConfig fl unmarshal env FS events th = Ok th'" "\<And>u. url_parses A u"
  shows "throttles_ok fl th' \<and> set throttle_types - set without_limiter \<subseteq> dom th'
    \<and> (\<exists>r. log (snd (nat_call A J tenant oper s)) = log s @ [Http r] \<and>
         (if rq_Service r = NatEndpoint then \<exists>limiter. limiters_of th' oper = [limiter] \<and> limiter_ok fl limiter
          else rq_Service r = VpcEndpoint \<and> limiters_of th' oper = []))"
proof -
  have "InitialThrottler fl env = Inr th" using assms(1) by (simp add: init_http_def split: sum.splits)
  then have th: "dom th = ts_Key ` set all_specs \<and> throttles_ok fl th"
    using set_throttles_Inr [of fl env all_specs Map.empty th] by (simp add: InitialThrottler_specs throttles_ok_def)
  then have ok: "throttles_ok fl th'" and keys: "set throttle_types - set without_limiter \<subseteq> dom th'"
    using kept_sync [OF assms(2)] by (auto simp: limiters_kept_def spec_keys)
  have "nat_throttle_key oper = Some key \<Longrightarrow> key \<in> set throttle_types - set without_limiter" for key
    by (cases oper) (auto simp: throttle_types_def without_limiter_def)
  with keys have "nat_throttle_key oper = Some key \<Longrightarrow> \<exists>limiter. th' key = Some limiter" for key by blast
  then have "nat_throttle_key oper \<noteq> None \<Longrightarrow> \<exists>limiter. limiters_of th' oper = [limiter] \<and> limiter_ok fl limiter"
    using ok by (fastforce simp: limiters_of_def tryThrottle_def GetThrottleByKey_def throttles_ok_def)
  moreover have "nat_throttle_key oper = None \<Longrightarrow> limiters_of th' oper = []" by (simp add: limiters_of_def tryThrottle_def)
  ultimately show ?thesis using ok keys nat_call_request [OF assms(3), of J tenant oper s] by (metis option.distinct(1))
qed

definition demo_files :: "stat_result \<Rightarrow> file_system" where
  "demo_files st = \<lparr>fs_stat = (\<lambda>_. st), fs_read = (\<lambda>_. Inr ''{}''), fs_NewWatcher = None, fs_Add = (\<lambda>_. None)\<rparr>"

theorem throttles_always_valid_witness:
  "\<exists>th th'. init_http tenths (\<lambda>_. []) = Ok (httpClient, th)
     \<and> syncThrottleFromConfig tenths (\<lambda>_. Inr [(''NAT_RULE_GET'', \<lparr>tp_QPS = 50, tp_Burst = 4\<rparr>)]) (\<lambda>_. []) (demo_files StatDir)
         [FsEvent 3 (Inr ''{}''), FsError (Errorf ''overflow'')] th = Ok th'
     \<and> throttles_ok tenths th' \<and> (\<exists>limiter. limiters_of th' (OpGetDNATRule ''r'') = [limiter]) \<and> limiters_of th' (OpGetPort ''p'') = []"
proof -
  let ?u = "\<lambda>_. Inr [(''NAT_RULE_GET'', \<lparr>tp_QPS = 50, tp_Burst = 4\<rparr>)] :: error + (string \<times> int ThrottleParam) list"
  obtain th where th: "init_http tenths (\<lambda>_. []) = Ok (httpClient, th)" using tenths_start by (auto simp: init_http_def)
  obtain th' where th': "syncThrottleFromConfig tenths ?u (\<lambda>_. []) (demo_files StatDir) [FsEvent 3 (Inr ''{}''), FsError (Errorf ''overflow'')] th = Ok th'"
    by (simp add: syncThrottleFromConfig_def demo_files_def)
  have urls: "url_parses demo_api u" for u by (simp add: demo_api_def)
  note valid = throttles_always_valid [OF th th' urls, where J = no_decoders and tenant = "[]" and s = start]
  have "\<exists>limiter. limiters_of th' (OpGetDNATRule ''r'') = [limiter]"
    using valid [of "OpGetDNATRule ''r''"] nat_call_request [OF urls, of no_decoders "[]" "OpGetDNATRule ''r''" start]
    by (auto split: if_splits)
  moreover have "limiters_of th' (OpGetPort ''p'') = []" by (simp add: limiters_of_def tryThrottle_def)
  ultimately show ?thesis using th th' valid by blast
qed

text \<open>
  The file read is always \<open>throttle.json\<close> in the directory of the path configured: a file of another name is never
  read. A path that exists but cannot be examined ends the process.
\<close>

lemma throttle_file_examples:
  "throttle_file ''/srv/throttle'' = ''/srv/throttle/throttle.json''"
  "throttle_file (fst (path_Split ''/etc/ccm/limits.json'')) = ''/etc/ccm/throttle.json''"
  by (simp_all add: throttle_file_def path_Join_def path_Clean_def clean_step_def path_Split_def Let_def)

lemma sync_reads_throttle_json:
  assumes "\<And>d. fs_read FS (throttle_file d) = fs_read FS' (throttle_file d)" "fs_stat FS = fs_stat FS'" "fs_NewWatcher FS = fs_NewWatcher FS'" "fs_Add FS = fs_Add FS'"
  shows "syncThrottleFromConfig fl unmarshal env FS events th = syncThrottleFromConfig fl unmarshal env FS' events th"
  using assms by (simp add: syncThrottleFromConfig_def Let_def split: stat_result.splits option.splits)

lemma unreadable_path_panics:
  "fs_stat FS (if env ''THROTTLE_CONFIG_FILE'' = [] then ''/srv/throttle'' else env ''THROTTLE_CONFIG_FILE'') = StatFailed e \<Longrightarrow>
   \<exists>msg. syncThrottleFromConfig fl unmarshal env FS events th = Panic msg"
  by (simp add: syncThrottleFromConfig_def)

end
