(* ===== verification/Replay.thy ===== *)
theory Replay
  imports Lb_Interface
begin

text \<open>
  The log of a call determines what the cloud did. \<open>replays A m\<close>: the remote world after \<open>m\<close> is the world before it
  moved through the events \<open>m\<close> has logged, one after the other, so nothing is requested that the log does not have,
  and \<open>sdk_answers\<close> recomputes every answer the call was given. With it a property can speak of the answers of a
  run (which listeners the cloud listed, which identifiers it gave to new ones) and not only of its requests.
\<close>

fun event_step :: "'w api \<Rightarrow> event \<Rightarrow> 'w \<Rightarrow> 'w" where
  "event_step A (Sdk r) w = snd (sdk_call A w r)"
| "event_step A (Kube r) w = snd (kube_call A w r)"
| "event_step A (Http r) w = snd (http_call A w r)"
| "event_step A _ w = w"

definition replay :: "'w api \<Rightarrow> event list \<Rightarrow> 'w \<Rightarrow> 'w" where
  "replay A es w = fold (event_step A) es w"

text \<open>The answers of the SDK, in order.\<close>

type_synonym sdk_answer = "sdk_request \<times> (error + sdk_response)"

fun sdk_answers :: "'w api \<Rightarrow> 'w \<Rightarrow> event list \<Rightarrow> sdk_answer list" where
  "sdk_answers A w [] = []"
| "sdk_answers A w (Sdk r # es) = (r, fst (sdk_call A w r)) # sdk_answers A (snd (sdk_call A w r)) es"
| "sdk_answers A w (e # es) = sdk_answers A (event_step A e w) es"

lemma replay_simps [simp]: "replay A [] w = w" "replay A (e # es) w = replay A es (event_step A e w)"
  "replay A (es @ fs) w = replay A fs (replay A es w)"
  by (simp_all add: replay_def)

lemma sdk_answers_append [simp]: "sdk_answers A w (es @ fs) = sdk_answers A w es @ sdk_answers A (replay A es w) fs"
  by (induction A w es rule: sdk_answers.induct) simp_all

definition replays :: "'w api \<Rightarrow> ('w, 'a) prog \<Rightarrow> bool" where
  "replays A m \<longleftrightarrow> (\<forall>s. \<exists>es. log (snd (m s)) = log s @ es \<and> world (snd (m s)) = replay A es (world s))"

named_theorems replays_intro "rules for replays"

lemma replaysI: "(\<And>s r t. m s = (r, t) \<Longrightarrow> \<exists>es. log t = log s @ es \<and> world t = replay A es (world s)) \<Longrightarrow> replays A m"
  unfolding replays_def by (metis prod.collapse)

lemma replaysE:
  assumes "replays A m" "m s = (r, t)"
  obtains es where "log t = log s @ es" "world t = replay A es (world s)"
  using assms unfolding replays_def by (metis snd_conv)

lemma replaysD: "replays A m \<Longrightarrow> m s = (r, t) \<Longrightarrow> log t = log s @ es \<Longrightarrow> world t = replay A es (world s)"
  by (metis replaysE same_append_eq)

subsection \<open>The rules\<close>

lemma replays_okR [replays_intro]: "replays A (okR x)"
  by (simp add: replays_def okR_def)

lemma replays_errR [replays_intro]: "replays A (errR e)"
  by (simp add: replays_def errR_def)

lemma replays_panicR [replays_intro]: "replays A (panicR msg)"
  by (simp add: replays_def panicR_def)

lemma replays_deref [replays_intro]: "replays A (deref p)"
  by (cases p) (simp_all add: replays_def run_simps)

lemma replays_bindR [replays_intro]:
  assumes "replays A m" "\<And>x. replays A (f x)"
  shows "replays A (bindR m f)"
proof (rule replaysI)
  fix s r t
  assume run: "bindR m f s = (r, t)"
  obtain q u where mu: "m s = (q, u)" by fastforce
  obtain es where es: "log u = log s @ es" "world u = replay A es (world s)" by (rule replaysE [OF assms(1) mu])
  show "\<exists>es. log t = log s @ es \<and> world t = replay A es (world s)"
  proof (cases q)
    case (Ok x)
    with run mu have "f x u = (r, t)" by (simp add: run_bindR)
    then obtain fs where "log t = log u @ fs" "world t = replay A fs (world u)" by (rule replaysE [OF assms(2)])
    with es show ?thesis by (intro exI [of _ "es @ fs"]) simp
  qed (use run mu es in \<open>auto simp: run_bindR\<close>)
qed

lemma replays_attempt [replays_intro]:
  assumes "replays A m"
  shows "replays A (attempt m)"
proof (rule replaysI)
  fix s r t
  assume run: "attempt m s = (r, t)"
  obtain q u where mu: "m s = (q, u)" by fastforce
  obtain es where "log u = log s @ es" "world u = replay A es (world s)" by (rule replaysE [OF assms mu])
  with run mu show "\<exists>es. log t = log s @ es \<and> world t = replay A es (world s)"
    by (cases q) (auto simp: run_attempt)
qed

lemma replays_foldR [replays_intro]: "(\<And>x b. replays A (f x b)) \<Longrightarrow> replays A (foldR f xs b)"
  by (induction xs arbitrary: b) (auto intro!: replays_intro)

lemma replays_if [replays_intro]: "replays A m \<Longrightarrow> replays A n \<Longrightarrow> replays A (if c then m else n)"
  by simp

lemma replays_case_option [replays_intro]: "replays A m \<Longrightarrow> (\<And>x. replays A (f x)) \<Longrightarrow> replays A (case p of None \<Rightarrow> m | Some x \<Rightarrow> f x)"
  by (cases p) auto

lemma replays_case_sum [replays_intro]:
  "(\<And>e. replays A (f e)) \<Longrightarrow> (\<And>x. replays A (g x)) \<Longrightarrow> replays A (case r of Inl e \<Rightarrow> f e | Inr x \<Rightarrow> g x)"
  by (cases r) auto

lemma replays_case_prod [replays_intro]: "(\<And>x y. replays A (f x y)) \<Longrightarrow> replays A (case p of (x, y) \<Rightarrow> f x y)"
  by (cases p) auto

lemma replays_case_list [replays_intro]:
  "replays A m \<Longrightarrow> (\<And>y ys. replays A (f y ys)) \<Longrightarrow> replays A (case xs of [] \<Rightarrow> m | y # ys \<Rightarrow> f y ys)"
  by (cases xs) auto

lemma replays_Let [replays_intro]: "replays A (f x) \<Longrightarrow> replays A (Let x f)"
  by (simp add: Let_def)

lemma replays_exponential_backoff [replays_intro]: "(\<And>v. replays A (c v)) \<Longrightarrow> replays A (exponential_backoff n c v)"
  by (induction n arbitrary: v) (auto intro!: replays_intro)

lemma replays_WaitForCompleted [replays_intro]: "(\<And>v. replays A (c v)) \<Longrightarrow> replays A (WaitForCompleted c v)"
  by (simp add: WaitForCompleted_def replays_exponential_backoff)

lemma replays_remote:
  "replays A (remote (Sdk r) (\<lambda>w. sdk_call A w r))" "replays A (remote (Kube q) (\<lambda>w. kube_call A w q))"
  by (auto simp: replays_def remote_def split: prod.splits sum.splits)

subsection \<open>The clients\<close>

lemma replays_commonWrapper [replays_intro]: "replays A (commonWrapper A req select)"
  unfolding commonWrapper_def by (intro replays_intro replays_remote)

lemma replays_wrapper0 [replays_intro]: "replays A (wrapper0 A req)"
  unfolding wrapper0_def by (intro replays_intro)

lemma replays_LookupHost [replays_intro]: "replays A (LookupHost A domain)"
  by (simp add: replays_def LookupHost_def split: sum.splits)

lemma replays_listPods [replays_intro]: "replays A (listPods A ns sel)"
  unfolding listPods_def by (intro replays_intro replays_remote) (auto intro!: replays_intro split: kube_payload.splits)

lemma replays_clean_members [replays_intro]: "(\<And>x. replays A (del x)) \<Longrightarrow> replays A (clean_members del ign ms)"
  unfolding clean_members_def by (intro replays_intro)

text \<open>Calls that are one request.\<close>

lemma replays_requests [replays_intro]:
  "replays A (s_Show A x1)" "replays A (s_CreateInstance A x2)" "replays A (s_GetInstance A x3)" "replays A (s_ListInstances A x4)"
  "replays A (s_DeleteInstance A x5)" "replays A (s_GetListener A x6)" "replays A (s_ListListeners A x7)" "replays A (s_ListPools A x8)"
  "replays A (s_CreatePool A x9)" "replays A (s_UpdatePool A x10 x11)" "replays A (s_DeletePool A x12)"
  "replays A (s_CreateHealthMonitor A x13 x14)" "replays A (s_UpdateHealthMonitor A x15 x16)" "replays A (s_DeleteHealthMonitor A x17)"
  "replays A (s_AddMember A x18 x19)" "replays A (s_ListMembers A x20)" "replays A (s_DeleteMember A x21 x22)"
  "replays A (d_CreateInstance A x23)" "replays A (d_GetInstance A x24)" "replays A (d_ListInstances A x25)"
  "replays A (d_DeleteInstance A x26)" "replays A (d_CreateListener A x27)" "replays A (d_ListListeners A x28)"
  "replays A (d_UpdateListener A x29 x30)" "replays A (d_ListPools A x31 x32)" "replays A (d_CreatePool A x33)"
  "replays A (d_UpdatePool A x34 x35)" "replays A (d_DeletePool A x36)" "replays A (d_CreateHealthMonitor A x37 x38)"
  "replays A (d_UpdateHealthMonitor A x39 x40)" "replays A (d_DeleteHealthMonitor A x41)" "replays A (d_ListMembers A x42 x43)"
  "replays A (d_DeleteMember A x44 x45)" "replays A (e_Create A x46)" "replays A (e_Get A x47)" "replays A (e_List A x48)"
  "replays A (e_Update A x49 x50)" "replays A (e_Delete A x51)"
  by (simp_all add: replays_commonWrapper replays_okR wrapper0_def s_client_defs d_client_defs e_client_defs)

lemma replays_s_WaitStatusActive [replays_intro]: "replays A (s_WaitStatusActive A uid)"
  unfolding s_WaitStatusActive_def by (intro replays_intro)

lemma replays_s_CreateInstanceCompleted [replays_intro]: "replays A (s_CreateInstanceCompleted A req)"
  unfolding s_CreateInstanceCompleted_def by (intro replays_intro)

lemma replays_s_DeleteListener [replays_intro]: "replays A (s_DeleteListener A elbID listenerID)"
  unfolding s_DeleteListener_def by (intro replays_intro)

lemma replays_s_DeleteAllPoolMembers [replays_intro]: "replays A (s_DeleteAllPoolMembers A poolID)"
  unfolding s_DeleteAllPoolMembers_def by (intro replays_intro)

lemma replays_d_WaitStatusActive [replays_intro]: "replays A (d_WaitStatusActive A uid)"
  unfolding d_WaitStatusActive_def by (intro replays_intro)

lemma replays_d_CreateInstanceCompleted [replays_intro]: "replays A (d_CreateInstanceCompleted A req)"
  unfolding d_CreateInstanceCompleted_def by (intro replays_intro)

lemma replays_d_DeleteListener [replays_intro]: "replays A (d_DeleteListener A elbID listenerID)"
  unfolding d_DeleteListener_def by (intro replays_intro)

lemma replays_d_AddMember [replays_intro]: "replays A (d_AddMember A poolID req)"
  unfolding d_AddMember_def by (intro replays_intro) (auto intro!: replays_intro split: error.splits)

lemma replays_d_DeleteAllPoolMembers [replays_intro]: "replays A (d_DeleteAllPoolMembers A poolID)"
  unfolding d_DeleteAllPoolMembers_def by (intro replays_intro)

lemma replays_e_Bind [replays_intro]: "replays A (e_Bind A uid portID)"
  unfolding e_Bind_def by (intro replays_intro)

lemma replays_e_Unbind [replays_intro]: "replays A (e_Unbind A uid)"
  unfolding e_Unbind_def by (intro replays_intro)

subsection \<open>The operations of the providers\<close>

lemma replays_first_server [replays_intro]: "replays A (first_server e ip servers)"
  unfolding first_server_def by (intro replays_intro)

lemma replays_GetByNodeIP [replays_intro]: "replays A (GetByNodeIP A ip)"
  unfolding GetByNodeIP_def ecs_ListByIp_def by (intro replays_intro)

lemma replays_GetByName [replays_intro]: "replays A (GetByName A name)"
  unfolding GetByName_def ecs_ListByName_def by (intro replays_intro)

lemma replays_GetByNodeName [replays_intro]: "replays A (GetByNodeName A name)"
  unfolding GetByNodeName_def ecs_ListByIp_def by (intro replays_intro)

lemma replays_GetByNodeIPNew [replays_intro]: "replays A (GetByNodeIPNew A ip)"
  unfolding GetByNodeIPNew_def by (intro replays_intro)

lemma replays_ecs_ListInterfaces [replays_intro]: "replays A (ecs_ListInterfaces A uid)"
  unfolding ecs_ListInterfaces_def by (intro replays_intro)

lemma replays_subnet_of_ip [replays_intro]: "replays A (subnet_of_ip ifs ip e)"
  unfolding subnet_of_ip_def by (intro replays_intro)

lemma replays_listPodsBySelector [replays_intro]: "replays (clients b) (listPodsBySelector b ns sel)"
  unfolding listPodsBySelector_def by (intro replays_intro)

lemma replays_getNodeSubnetIDByHostIP [replays_intro]: "replays (clients b) (getNodeSubnetIDByHostIP b ip)"
  unfolding getNodeSubnetIDByHostIP_def by (intro replays_intro)

lemma replays_getNodeSubnetID [replays_intro]: "replays (clients b) (getNodeSubnetID b n)"
  unfolding getNodeSubnetID_def by (intro replays_intro)

lemma replays_getSubnetID [replays_intro]: "replays (clients b) (getSubnetID b svc n)"
  unfolding getSubnetID_def by (intro replays_intro)

lemma replays_getPrimaryIP [replays_intro]: "replays (clients b) (getPrimaryIP b ip)"
  unfolding getPrimaryIP_def by (intro replays_intro)

lemma replays_getEipAddress [replays_intro]: "replays A (getEipAddress eip)"
  unfolding getEipAddress_def by (intro replays_intro)

lemma replays_createEIP [replays_intro]: "replays (clients b) (createEIP b svc)"
  unfolding createEIP_def by (intro replays_intro)

lemma replays_select_eip [replays_intro]: "replays (clients b) (select_eip b ins svc)"
  unfolding select_eip_def by (intro replays_intro)

lemma replays_replace_bound_eip [replays_intro]: "replays (clients b) (replace_bound_eip b ins eid sp)"
  unfolding replace_bound_eip_def by (intro replays_intro)

lemma replays_bind_eip [replays_intro]: "replays (clients b) (bind_eip b eid port)"
  unfolding bind_eip_def by (intro replays_intro)

lemma replays_createOrAssociateEIP [replays_intro]: "replays (clients b) (createOrAssociateEIP b lb svc)"
  unfolding createOrAssociateEIP_def by (intro replays_intro)

lemma replays_unbindEIP [replays_intro]: "replays A (unbindEIP A port eid keep)"
  unfolding unbindEIP_def by (intro replays_intro)

lemma replays_popMember [replays_intro]: "replays A (popMember ms a p)"
  unfolding popMember_def by (intro replays_intro)

lemma replays_member_step [replays_intro]:
  "(\<And>n p. replays A (getIP n p)) \<Longrightarrow> (\<And>n p. replays A (add p n)) \<Longrightarrow> replays A (member_step getIP add nm p st)"
  unfolding member_step_def by (intro replays_intro)

lemma replays_sync_members [replays_intro]:
  "replays A lm \<Longrightarrow> replays A lp \<Longrightarrow> (\<And>n p. replays A (getIP n p)) \<Longrightarrow> (\<And>n p. replays A (add p n)) \<Longrightarrow> (\<And>m. replays A (del m)) \<Longrightarrow>
   replays A (sync_members lm lp getIP add del nodes)"
  unfolding sync_members_def by (intro replays_intro)

lemma replays_slb_getLoadBalancerInstance [replays_intro]: "replays (clients b) (slb_getLoadBalancerInstance b c svc)"
  unfolding slb_getLoadBalancerInstance_def by (intro replays_intro)

lemma replays_slb_GetLoadBalancer [replays_intro]: "replays (clients b) (slb_GetLoadBalancer b c svc)"
  unfolding slb_GetLoadBalancer_def Let_def by (intro replays_intro)

lemma replays_slb_createLoadbalancer [replays_intro]: "replays (clients b) (slb_createLoadbalancer b c sid svc)"
  unfolding slb_createLoadbalancer_def by (intro replays_intro)

lemma replays_slb_wait_active [replays_intro]: "replays (clients b) (slb_wait_active b uid msg)"
  unfolding slb_wait_active_def by (intro replays_intro)

lemma replays_slb_updateHealthMonitor [replays_intro]: "replays (clients b) (slb_updateHealthMonitor b uid p opts)"
  unfolding slb_updateHealthMonitor_def by (intro replays_intro)

lemma replays_slb_createHealthMonitor [replays_intro]: "replays (clients b) (slb_createHealthMonitor b lid pid p opts)"
  unfolding slb_createHealthMonitor_def by (intro replays_intro)

lemma replays_slb_ensureHealthCheck [replays_intro]: "replays (clients b) (slb_ensureHealthCheck b lid pool port svc)"
  unfolding slb_ensureHealthCheck_def by (intro replays_intro)

lemma replays_slb_getMemberIP [replays_intro]: "replays (clients b) (slb_getMemberIP b svc n p port)"
  unfolding slb_getMemberIP_def by (auto intro!: replays_intro split: option.splits bool.splits intstr.splits sum.splits prod.splits)

lemma replays_slb_addMember [replays_intro]: "replays (clients b) (slb_addMember b svc eid pid port p n)"
  unfolding slb_addMember_def by (intro replays_intro)

lemma replays_slb_deleteMember [replays_intro]: "replays (clients b) (slb_deleteMember b eid pid m)"
  unfolding slb_deleteMember_def by (intro replays_intro)

lemma replays_slb_addOrRemoveMembers [replays_intro]: "replays (clients b) (slb_addOrRemoveMembers b lb svc pool port nodes)"
  unfolding slb_addOrRemoveMembers_def by (intro replays_intro)

lemma replays_slb_getPool [replays_intro]: "replays (clients b) (slb_getPool b eid lid)"
  unfolding slb_getPool_def by (intro replays_intro)

lemma replays_slb_createPool [replays_intro]: "replays (clients b) (slb_createPool b l svc)"
  unfolding slb_createPool_def Let_def by (intro replays_intro)

lemma replays_slb_ensurePoolAlgorithm [replays_intro]: "replays (clients b) (slb_ensurePoolAlgorithm b pool svc)"
  unfolding slb_ensurePoolAlgorithm_def by (intro replays_intro)

lemma replays_slb_deletePool [replays_intro]: "replays (clients b) (slb_deletePool b pool)"
  unfolding slb_deletePool_def by (intro replays_intro)

lemma replays_slb_deleteListeners [replays_intro]: "replays (clients b) (slb_deleteListeners b eid ls)"
  unfolding slb_deleteListeners_def by (intro replays_intro)

lemma replays_convertToListenerV2 [replays_intro]: "replays A (convertToListenerV2 l)"
  unfolding convertToListenerV2_def by (auto intro!: replays_intro split: option.splits bool.splits intstr.splits sum.splits prod.splits)

lemma replays_slb_createListener [replays_intro]: "replays (clients b) (slb_createListener b eid svc port)"
  unfolding slb_createListener_def by (intro replays_intro)

lemma replays_slb_updateListener [replays_intro]: "replays (clients b) (slb_updateListener b l svc)"
  unfolding slb_updateListener_def Let_def by (intro replays_intro)

lemma replays_slb_deleteListener [replays_intro]: "replays (clients b) (slb_deleteListener b lb svc)"
  unfolding slb_deleteListener_def by (intro replays_intro)

lemma replays_slb_deleteELBInstance [replays_intro]: "replays (clients b) (slb_deleteELBInstance b lb svc)"
  unfolding slb_deleteELBInstance_def by (intro replays_intro)

lemma replays_slb_EnsureLoadBalancerDeleted [replays_intro]: "replays (clients b) (slb_EnsureLoadBalancerDeleted b c svc)"
  unfolding slb_EnsureLoadBalancerDeleted_def by (intro replays_intro)

lemma replays_slb_getOrCreatePool [replays_intro]: "replays (clients b) (slb_getOrCreatePool b eid l svc)"
  unfolding slb_getOrCreatePool_def by (intro replays_intro)

lemma replays_slb_health_with_first_node [replays_intro]: "replays (clients b) (slb_health_with_first_node b eid pool port svc nodes)"
  unfolding slb_health_with_first_node_def by (intro replays_intro)

lemma replays_slb_ensure_port [replays_intro]: "replays (clients b) (slb_ensure_port b lb svc nodes port ls)"
  unfolding slb_ensure_port_def by (intro replays_intro)

lemma replays_slb_ensure_instance [replays_intro]: "replays (clients b) (slb_ensure_instance b c svc)"
  unfolding slb_ensure_instance_def by (intro replays_intro)

lemma replays_slb_EnsureLoadBalancer [replays_intro]: "replays (clients b) (slb_EnsureLoadBalancer b c svc nodes)"
  unfolding slb_EnsureLoadBalancer_def by (intro replays_intro)

lemma replays_slb_update_port [replays_intro]: "replays (clients b) (slb_update_port b lb svc nodes ls port u)"
  unfolding slb_update_port_def by (intro replays_intro)

lemma replays_slb_UpdateLoadBalancer [replays_intro]: "replays (clients b) (slb_UpdateLoadBalancer b c svc nodes)"
  unfolding slb_UpdateLoadBalancer_def by (intro replays_intro)

lemma replays_dlb_getLoadBalancerInstance [replays_intro]: "replays (clients b) (dlb_getLoadBalancerInstance b c svc)"
  unfolding dlb_getLoadBalancerInstance_def by (intro replays_intro)

lemma replays_dlb_GetLoadBalancer [replays_intro]: "replays (clients b) (dlb_GetLoadBalancer b c svc)"
  unfolding dlb_GetLoadBalancer_def by (intro replays_intro)

lemma replays_dlb_createLoadbalancer [replays_intro]: "replays (clients b) (dlb_createLoadbalancer b c sid svc)"
  unfolding dlb_createLoadbalancer_def by (intro replays_intro)

lemma replays_dlb_wait_active [replays_intro]: "replays (clients b) (dlb_wait_active b uid msg)"
  unfolding dlb_wait_active_def by (intro replays_intro)

lemma replays_dlb_updateHealthMonitor [replays_intro]: "replays (clients b) (dlb_updateHealthMonitor b uid p opts)"
  unfolding dlb_updateHealthMonitor_def by (intro replays_intro)

lemma replays_dlb_createHealthMonitor [replays_intro]: "replays (clients b) (dlb_createHealthMonitor b lid pid p opts)"
  unfolding dlb_createHealthMonitor_def by (intro replays_intro)

lemma replays_dlb_ensureHealthCheck [replays_intro]: "replays (clients b) (dlb_ensureHealthCheck b lid pool port svc)"
  unfolding dlb_ensureHealthCheck_def by (intro replays_intro)

lemma replays_dlb_getMemberIP [replays_intro]: "replays (clients b) (dlb_getMemberIP b svc n p port)"
  unfolding dlb_getMemberIP_def Let_def by (auto intro!: replays_intro split: option.splits bool.splits intstr.splits sum.splits prod.splits)

lemma replays_dlb_member_subnet [replays_intro]: "replays (clients b) (dlb_member_subnet b svc lb addr)"
  unfolding dlb_member_subnet_def by (intro replays_intro)

lemma replays_dlb_addMember [replays_intro]: "replays (clients b) (dlb_addMember b svc lb pool p port n)"
  unfolding dlb_addMember_def by (intro replays_intro)

lemma replays_dlb_deleteMember [replays_intro]: "replays (clients b) (dlb_deleteMember b eid pid m)"
  unfolding dlb_deleteMember_def by (intro replays_intro)

lemma replays_dlb_addOrRemoveMembers [replays_intro]: "replays (clients b) (dlb_addOrRemoveMembers b lb svc pool port nodes)"
  unfolding dlb_addOrRemoveMembers_def by (intro replays_intro)

lemma replays_dlb_getPool [replays_intro]: "replays (clients b) (dlb_getPool b eid lid)"
  unfolding dlb_getPool_def by (intro replays_intro)

lemma replays_dlb_createPool [replays_intro]: "replays (clients b) (dlb_createPool b l svc)"
  unfolding dlb_createPool_def Let_def by (intro replays_intro)

lemma replays_dlb_ensurePoolAlgorithm [replays_intro]: "replays (clients b) (dlb_ensurePoolAlgorithm b pool svc)"
  unfolding dlb_ensurePoolAlgorithm_def by (intro replays_intro)

lemma replays_dlb_deletePool [replays_intro]: "replays (clients b) (dlb_deletePool b pool)"
  unfolding dlb_deletePool_def by (intro replays_intro)

lemma replays_dlb_deleteListeners [replays_intro]: "replays (clients b) (dlb_deleteListeners b eid ls)"
  unfolding dlb_deleteListeners_def by (intro replays_intro)

lemma replays_dlb_createListener [replays_intro]: "replays (clients b) (dlb_createListener b eid svc port)"
  unfolding dlb_createListener_def Let_def by (intro replays_intro)

lemma replays_dlb_updateListener [replays_intro]: "replays (clients b) (dlb_updateListener b l svc port)"
  unfolding dlb_updateListener_def Let_def by (intro replays_intro)

lemma replays_dlb_deleteListener [replays_intro]: "replays (clients b) (dlb_deleteListener b lb svc)"
  unfolding dlb_deleteListener_def by (intro replays_intro)

lemma replays_dlb_deleteELBInstance [replays_intro]: "replays (clients b) (dlb_deleteELBInstance b lb svc)"
  unfolding dlb_deleteELBInstance_def by (intro replays_intro)

lemma replays_dlb_EnsureLoadBalancerDeleted [replays_intro]: "replays (clients b) (dlb_EnsureLoadBalancerDeleted b c svc)"
  unfolding dlb_EnsureLoadBalancerDeleted_def by (intro replays_intro)

lemma replays_dlb_getOrCreatePool [replays_intro]: "replays (clients b) (dlb_getOrCreatePool b eid l svc)"
  unfolding dlb_getOrCreatePool_def by (intro replays_intro)

lemma replays_dlb_health_with_first_node [replays_intro]: "replays (clients b) (dlb_health_with_first_node b eid pool port svc nodes)"
  unfolding dlb_health_with_first_node_def by (intro replays_intro)

lemma replays_dlb_ensure_port [replays_intro]: "replays (clients b) (dlb_ensure_port b lb svc nodes port ls)"
  unfolding dlb_ensure_port_def by (intro replays_intro)

lemma replays_dlb_ensure_instance [replays_intro]: "replays (clients b) (dlb_ensure_instance b c svc nodes)"
  unfolding dlb_ensure_instance_def by (intro replays_intro)

lemma replays_dlb_EnsureLoadBalancer [replays_intro]: "replays (clients b) (dlb_EnsureLoadBalancer b c svc nodes)"
  unfolding dlb_EnsureLoadBalancer_def by (intro replays_intro)

lemma replays_dlb_update_port [replays_intro]: "replays (clients b) (dlb_update_port b lb svc nodes ls port u)"
  unfolding dlb_update_port_def by (intro replays_intro)

lemma replays_dlb_UpdateLoadBalancer [replays_intro]: "replays (clients b) (dlb_UpdateLoadBalancer b c svc nodes)"
  unfolding dlb_UpdateLoadBalancer_def by (intro replays_intro)

end
