(* ===== verification/Listeners_Reconciled.thy ===== *)
theory Listeners_Reconciled
  imports Replay Ensure_Correct
begin

text \<open>
  The listeners of a whole \<open>EnsureLoadBalancer\<close>: which of them a successful call creates, updates and deletes, for both load
  balancers. The abstract view of a listener is its identifier, protocol and port. The locales \<open>listener_step\<close>
  and \<open>listener_loop\<close> have the loop over the ports and the cleanup once; both providers interpret them.
\<close>

datatype listener_change = ListenerCreated string string int | ListenerUpdated string | ListenerDeleted string

definition listener_change_of :: "event \<Rightarrow> listener_change option" where
  "listener_change_of e = (case e of
       Sdk (ElbV2 r) \<Rightarrow> (case r of
           CreateListenerRequest c \<Rightarrow> Some (ListenerCreated (cl_LoadbalancerId c) (cl_Protocol c) (cl_ProtocolPort c))
         | UpdateListenerRequest i _ \<Rightarrow> Some (ListenerUpdated i)
         | DeleteListenerReq i \<Rightarrow> Some (ListenerDeleted i)
         | _ \<Rightarrow> None)
     | Sdk (ElbV3 r) \<Rightarrow> (case r of
           V3CreateListener c \<Rightarrow> Some (ListenerCreated (co_LoadbalancerId c) (co_Protocol c) (co_ProtocolPort c))
         | V3UpdateListener i _ \<Rightarrow> Some (ListenerUpdated i)
         | V3DeleteListener i \<Rightarrow> Some (ListenerDeleted i)
         | _ \<Rightarrow> None)
     | _ \<Rightarrow> None)"

definition listener_changes :: "event list \<Rightarrow> listener_change list" where
  "listener_changes es = List.map_filter listener_change_of es"

text \<open>The listings among the answers: the instance, and identifier, protocol and port of each listener.\<close>

type_synonym listener_key = "string \<times> string \<times> int"

definition listing :: "sdk_answer \<Rightarrow> (string \<times> listener_key list) option" where
  "listing a = (case a of
       (ElbV2 (ListListenersReq lb), Inr rsp) \<Rightarrow>
         map_option (\<lambda>ls. (lb, map (\<lambda>l. (li_Id l, li_Protocol l, li_ProtocolPort l)) ls)) (asListeners (Body rsp))
     | (ElbV3 (V3ListListeners lb), Inr rsp) \<Rightarrow>
         map_option (\<lambda>ls. (lb, map (\<lambda>l. (l3_Id l, l3_Protocol l, l3_ProtocolPort l)) ls)) (asListeners3 (Body rsp))
     | _ \<Rightarrow> None)"

text \<open>The identifiers the cloud has given to new listeners.\<close>

definition new_id :: "sdk_answer \<Rightarrow> string option" where
  "new_id a = (case a of
       (ElbV3 (V3CreateListener _), Inr rsp) \<Rightarrow> (case asListener3 (Body rsp) of Some (Some l) \<Rightarrow> Some (l3_Id l) | _ \<Rightarrow> None)
     | _ \<Rightarrow> None)"

definition new_ids :: "sdk_answer list \<Rightarrow> string set" where
  "new_ids ans = set (List.map_filter new_id ans)"

definition listings :: "sdk_answer list \<Rightarrow> (string \<times> listener_key list) set" where
  "listings ans = set (List.map_filter listing ans)"

text \<open>The cloud said that there is nothing to list the pools of.\<close>

definition pools_missing :: "sdk_answer list \<Rightarrow> bool" where
  "pools_missing ans \<longleftrightarrow> (\<exists>a\<in>set ans. (case fst a of ElbV2 (ListPoolsReq _) \<Rightarrow> True | ElbV3 (V3ListPools _ _) \<Rightarrow> True | _ \<Rightarrow> False) \<and>
     (case (case snd a of Inl e \<Rightarrow> Some e | Inr rsp \<Rightarrow> checkStatusCode rsp OKCodes) of Some e \<Rightarrow> IsNotFound e | None \<Rightarrow> False))"

text \<open>
  What the documentation of the service says of listeners: identifiers are unique, an instance has at most one listener
  for a protocol and port, and a new listener gets a new identifier.
\<close>

definition well_keyed :: "listener_key list \<Rightarrow> bool" where
  "well_keyed ls \<longleftrightarrow> distinct (map fst ls) \<and> distinct (map snd ls)"

definition sound_listings :: "sdk_answer list \<Rightarrow> bool" where
  "sound_listings ans \<longleftrightarrow> (\<forall>(lb, ls)\<in>listings ans. well_keyed ls \<and> fst ` set ls \<inter> new_ids ans = {})"

definition serves_port :: "service \<Rightarrow> listener_key \<Rightarrow> service_port \<Rightarrow> bool" where
  "serves_port svc l port \<longleftrightarrow> snd l = (parseProtocol svc port, port_Port port)"

definition port_change :: "service \<Rightarrow> string \<Rightarrow> listener_key list \<Rightarrow> service_port \<Rightarrow> listener_change" where
  "port_change svc lb ls port = (case find (\<lambda>l. serves_port svc l port) ls of
       Some l \<Rightarrow> ListenerUpdated (fst l)
     | None \<Rightarrow> ListenerCreated lb (parseProtocol svc port) (port_Port port))"

subsection \<open>Stretches of a run\<close>

definition does :: "'w api \<Rightarrow> ('w, event) sys \<Rightarrow> ('w, event) sys \<Rightarrow> event list \<Rightarrow> bool" where
  "does A s t es \<longleftrightarrow> log t = log s @ es \<and> world t = replay A es (world s)"

lemma does_trans: "does A s t es \<Longrightarrow> does A t u fs \<Longrightarrow> does A s u (es @ fs)"
  by (simp add: does_def)

lemma replays_does:
  assumes "replays A m" "m s = (r, t)"
  obtains es where "does A s t es"
  using replaysE [OF assms] by (auto simp: does_def)

lemma listener_changes_simps [simp]: "listener_changes [] = []"
  "listener_changes (e # es) = (case listener_change_of e of None \<Rightarrow> listener_changes es | Some c \<Rightarrow> c # listener_changes es)"
  "listener_changes (es @ fs) = listener_changes es @ listener_changes fs"
  by (simp_all add: listener_changes_def map_filter_def split: option.splits)

lemma new_ids_append [simp]: "new_ids (xs @ ys) = new_ids xs \<union> new_ids ys"
  by (simp add: new_ids_def map_filter_def)

lemma listings_append [simp]: "listings (xs @ ys) = listings xs \<union> listings ys"
  by (simp add: listings_def map_filter_def)

lemma pools_missing_append [simp]: "pools_missing (xs @ ys) \<longleftrightarrow> pools_missing xs \<or> pools_missing ys"
  by (auto simp: pools_missing_def)

lemma listener_change_of_kind: "kind_of e \<noteq> KListener \<Longrightarrow> listener_change_of e = None"
  by (auto simp: listener_change_of_def split: event.splits sdk_request.splits elb_request.splits elb3_request.splits)

text \<open>A computation that requests no change of a listener.\<close>

lemma quiet_does:
  assumes "emits m (kinds K)" "KListener \<notin> K" "replays A m" "m s = (r, t)"
  obtains es where "does A s t es" "listener_changes es = []"
proof -
  obtain es where es: "does A s t es" by (rule replays_does [OF assms(3,4)])
  then have "set es \<subseteq> kinds K" using emitsD [OF assms(1,4)] by (auto simp: does_def)
  then have "\<forall>e\<in>set es. listener_change_of e = None" using assms(2) by (auto intro!: listener_change_of_kind)
  then have "listener_changes es = []" by (induction es) auto
  with es that show ?thesis by blast
qed

lemma quiet_exists: "emits m (kinds K) \<Longrightarrow> KListener \<notin> K \<Longrightarrow> replays A m \<Longrightarrow> m s = (r, t) \<Longrightarrow> \<exists>es. does A s t es \<and> listener_changes es = []"
  by (metis quiet_does)

text \<open>One request of the SDK, and its answer.\<close>

lemma commonWrapper_does:
  assumes "commonWrapper A req select s = (r, t)"
  shows "does A s t [Sdk req]"
    "r = Ok x \<Longrightarrow> \<exists>rsp. fst (sdk_call A (world s) req) = Inr rsp \<and> checkStatusCode rsp OKCodes = None \<and> select (Body rsp) = Some x"
    "r = Err e \<Longrightarrow> IsNotFound e \<Longrightarrow>
       (case fst (sdk_call A (world s) req) of Inl e \<Rightarrow> Some e | Inr rsp \<Rightarrow> checkStatusCode rsp OKCodes) = Some e"
    "r \<noteq> Panic msg"
  using assms by (auto simp: commonWrapper_def remote_def does_def run_simps split: prod.splits sum.splits option.splits)

subsection \<open>The loop over the ports\<close>

text \<open>\<open>find\<close> on two lists with the same matching elements, when at most one matches.\<close>

lemma find_unique:
  assumes "\<And>x y. x \<in> set xs \<Longrightarrow> y \<in> set xs \<Longrightarrow> P x \<Longrightarrow> P y \<Longrightarrow> x = y" and "{x \<in> set ys. P x} = {x \<in> set xs. P x}"
  shows "find P ys = find P xs"
proof (cases "find P xs")
  case None
  then have "\<forall>x\<in>set ys. \<not> P x" using assms(2) by (auto simp: find_None_iff)
  with None show ?thesis by (metis find_None_iff)
next
  case (Some x)
  then have x: "x \<in> set xs" "P x" by (auto simp: find_Some_iff)
  then have "x \<in> set ys" using assms(2) by blast
  with \<open>P x\<close> have "find P ys \<noteq> None" by (auto simp: find_None_iff)
  then obtain y where y: "find P ys = Some y" by blast
  then have "y \<in> set ys" "P y" by (auto simp: find_Some_iff)
  then have "y \<in> set xs" using assms(2) by blast
  then have "y = x" using assms(1) x \<open>P y\<close> by blast
  with y Some show ?thesis by simp
qed

lemma find_map_key: "find P (map f xs) = map_option f (find (\<lambda>x. P (f x)) xs)"
  by (induction xs) auto

lemma port_change_map: "port_change svc lb (map key ls) port = (case find (\<lambda>l. serves_port svc (key l) port) ls of
    Some l \<Rightarrow> ListenerUpdated (fst (key l)) | None \<Rightarrow> ListenerCreated lb (parseProtocol svc port) (port_Port port))"
  by (simp add: port_change_def find_map_key split: option.splits)

lemma well_keyedD:
  assumes "well_keyed ls" "l \<in> set ls" "m \<in> set ls"
  shows "fst l = fst m \<Longrightarrow> l = m" "serves_port svc l port \<Longrightarrow> serves_port svc m port \<Longrightarrow> l = m"
  using assms by (auto simp: well_keyed_def distinct_map inj_on_def serves_port_def)

lemma distinct_map_mset: "mset xs = mset ys \<Longrightarrow> distinct (map f xs) \<longleftrightarrow> distinct (map f ys)"
  by (metis mset_eq_imp_distinct_iff mset_map)

lemma well_keyed_mset:
  assumes "well_keyed ls" "mset ls' = filter_mset P (mset ls)"
  shows "well_keyed ls'"
proof -
  have eq: "mset ls' = mset (filter P ls)" using assms(2) by simp
  show ?thesis
    using assms(1) by (simp add: well_keyed_def distinct_map_mset [OF eq] distinct_map_filter)
qed

text \<open>What is done for a port does not depend on the listeners of another port.\<close>

lemma port_change_kept:
  assumes "well_keyed ls" "set ls1 = {l \<in> set ls. \<not> serves_port svc l p}"
    and "(parseProtocol svc q, port_Port q) \<noteq> (parseProtocol svc p, port_Port p)"
  shows "port_change svc lb ls1 q = port_change svc lb ls q"
proof -
  have "\<not> serves_port svc l p" if "serves_port svc l q" for l
    using that assms(3) by (simp add: serves_port_def)
  then have "{l \<in> set ls1. serves_port svc l q} = {l \<in> set ls. serves_port svc l q}"
    using assms(2) by blast
  with well_keyedD(2) [OF assms(1)] have "find (\<lambda>l. serves_port svc l q) ls1 = find (\<lambda>l. serves_port svc l q) ls"
    by (rule find_unique)
  then show ?thesis by (simp add: port_change_def)
qed

text \<open>
  One iteration: the listener that serves the port is updated, or a listener is created, nothing else is requested
  of listeners, and the listener is popped from those left over.
\<close>

locale listener_step =
  fixes A :: "'w api" and step :: "service_port \<Rightarrow> 'l list \<Rightarrow> ('w, 'l list) prog" and key :: "'l \<Rightarrow> listener_key"
    and svc :: service and lb :: string
  assumes step_Ok: "step port ls s = (Ok ls', t) \<Longrightarrow> \<exists>es uid. does A s t es \<and> ls' = pop_first (\<lambda>l. fst (key l) = uid) ls \<and>
     (case find (\<lambda>l. serves_port svc (key l) port) ls of
        Some l \<Rightarrow> uid = fst (key l) \<and> listener_changes es = [ListenerUpdated uid]
      | None \<Rightarrow> uid \<in> new_ids (sdk_answers A (world s) es) \<and> listener_changes es = [ListenerCreated lb (parseProtocol svc port) (port_Port port)])"
begin

lemma step_pops:
  assumes "step port ls s = (Ok ls', t)" "well_keyed (map key ls)" "does A s t es"
    and "new_ids (sdk_answers A (world s) es) \<inter> fst ` set (map key ls) = {}"
  shows "listener_changes es = [port_change svc lb (map key ls) port]"
    "mset ls' = filter_mset (\<lambda>l. \<not> serves_port svc (key l) port) (mset ls)"
proof -
  let ?find = "find (\<lambda>l. serves_port svc (key l) port) ls"
  from step_Ok [OF assms(1)] assms(3) obtain uid where uid: "ls' = pop_first (\<lambda>l. fst (key l) = uid) ls"
    "case ?find of Some l \<Rightarrow> uid = fst (key l) \<and> listener_changes es = [ListenerUpdated uid]
      | None \<Rightarrow> uid \<in> new_ids (sdk_answers A (world s) es) \<and> listener_changes es = [ListenerCreated lb (parseProtocol svc port) (port_Port port)]"
    by (auto simp: does_def)
  from uid(2) show "listener_changes es = [port_change svc lb (map key ls) port]" by (auto simp: port_change_map split: option.splits)
  have "distinct (map (\<lambda>l. fst (key l)) ls)" using assms(2) by (simp add: well_keyed_def comp_def)
  from pop_first.pop_distinct_keys [OF this, of uid] have "mset ls' = filter_mset (\<lambda>l. fst (key l) \<noteq> uid) (mset ls)"
    using uid(1) by auto
  also have "\<dots> = filter_mset (\<lambda>l. \<not> serves_port svc (key l) port) (mset ls)"
  proof (rule filter_mset_cong [OF refl])
    fix l assume "l \<in># mset ls"
    then have l: "key l \<in> set (map key ls)" by simp
    show "(fst (key l) \<noteq> uid) = (\<not> serves_port svc (key l) port)"
    proof (cases ?find)
      case None
      with uid(2) assms(4) l have "fst (key l) \<noteq> uid" by auto
      moreover have "\<not> serves_port svc (key l) port" using None l by (auto simp: find_None_iff \<open>l \<in># mset ls\<close> [simplified])
      ultimately show ?thesis by simp
    next
      case (Some m)
      then have "m \<in> set ls" "serves_port svc (key m) port" by (auto simp: find_Some_iff)
      then have "key m \<in> set (map key ls)" by simp
      then show ?thesis using uid(2) Some \<open>serves_port svc (key m) port\<close> well_keyedD [OF assms(2) l] by fastforce
    qed
  qed
  finally show "mset ls' = filter_mset (\<lambda>l. \<not> serves_port svc (key l) port) (mset ls)" .
qed

lemma loop_does: "foldR step ports ls s = (Ok ls', t) \<Longrightarrow> \<exists>es. does A s t es"
proof (induction ports arbitrary: ls s)
  case Nil
  then show ?case by (auto simp: run_simps does_def intro!: exI [of _ "[]"])
next
  case (Cons p ps)
  then obtain ls1 u where "step p ls s = (Ok ls1, u)" "foldR step ps ls1 u = (Ok ls', t)" by (auto elim: bindR_Ok_E)
  then show ?case using step_Ok Cons.IH does_trans by blast
qed

lemma loop_changes:
  assumes "foldR step ports ls s = (Ok ls', t)" "well_keyed (map key ls)" "does A s t es"
    and "new_ids (sdk_answers A (world s) es) \<inter> fst ` set (map key ls) = {}"
    and "distinct (map (\<lambda>p. (parseProtocol svc p, port_Port p)) ports)"
  shows "listener_changes es = map (port_change svc lb (map key ls)) ports
    \<and> mset ls' = filter_mset (\<lambda>l. \<forall>p\<in>set ports. \<not> serves_port svc (key l) p) (mset ls)"
  using assms
proof (induction ports arbitrary: ls s es)
  case Nil
  then show ?case by (auto simp: run_simps does_def)
next
  case (Cons p ps)
  from Cons.prems(1) obtain ls1 u where 1: "step p ls s = (Ok ls1, u)" and 2: "foldR step ps ls1 u = (Ok ls', t)"
    by (auto elim: bindR_Ok_E)
  obtain es1 where es1: "does A s u es1" using step_Ok [OF 1] by blast
  obtain es2 where es2: "does A u t es2" using loop_does [OF 2] by blast
  have es: "es = es1 @ es2" using es1 es2 Cons.prems(3) by (simp add: does_def)
  have ids: "sdk_answers A (world s) es = sdk_answers A (world s) es1 @ sdk_answers A (world u) es2"
    using es es1 by (simp add: does_def)
  have step: "listener_changes es1 = [port_change svc lb (map key ls) p]"
    "mset ls1 = filter_mset (\<lambda>l. \<not> serves_port svc (key l) p) (mset ls)"
    using step_pops [OF 1 Cons.prems(2) es1] Cons.prems(4) by (auto simp: ids)
  have set1: "set ls1 = {l \<in> set ls. \<not> serves_port svc (key l) p}" using arg_cong [OF step(2), of set_mset] by simp
  have "mset (map key ls1) = filter_mset (\<lambda>l. \<not> serves_port svc l p) (mset (map key ls))"
    by (simp add: step(2) filter_mset_image_mset)
  then have keyed: "well_keyed (map key ls1)" by (rule well_keyed_mset [OF Cons.prems(2)])
  have IH: "listener_changes es2 = map (port_change svc lb (map key ls1)) ps"
    "mset ls' = filter_mset (\<lambda>l. \<forall>p\<in>set ps. \<not> serves_port svc (key l) p) (mset ls1)"
    using Cons.IH [OF 2 keyed es2] Cons.prems(4,5) set1 by (auto simp: ids)
  have "port_change svc lb (map key ls1) q = port_change svc lb (map key ls) q" if "q \<in> set ps" for q
  proof (rule port_change_kept [OF Cons.prems(2)])
    show "set (map key ls1) = {l \<in> set (map key ls). \<not> serves_port svc l p}" using set1 by auto
    have "(parseProtocol svc q, port_Port q) \<in> (\<lambda>p. (parseProtocol svc p, port_Port p)) ` set ps" using that by (rule imageI)
    with Cons.prems(5) show "(parseProtocol svc q, port_Port q) \<noteq> (parseProtocol svc p, port_Port p)" by (auto simp del: Pair_inject)
  qed
  then have "listener_changes es = map (port_change svc lb (map key ls)) (p # ps)" using es step(1) IH(1) by simp
  moreover have "mset ls' = filter_mset (\<lambda>l. \<forall>p\<in>set (p # ps). \<not> serves_port svc (key l) p) (mset ls)"
    unfolding IH(2) step(2) by (simp add: filter_filter_mset conj_commute)
  ultimately show ?case by simp
qed

end

text \<open>The parts of an iteration: the listener is found and updated, or created; what follows does not touch listeners.\<close>

lemma step_parts:
  assumes run: "bindR (case find (\<lambda>l. serves_port svc (key l) port) ls of None \<Rightarrow> create | Some l \<Rightarrow> bindR (update l) (\<lambda>_. okR l))
      (\<lambda>l. bindR (rest l) (\<lambda>_. okR (pop_first (\<lambda>x. fst (key x) = fst (key l)) ls))) s = (Ok ls', t)"
    and create: "\<And>l u. create s = (Ok l, u) \<Longrightarrow> \<exists>es. does A s u es \<and> fst (key l) \<in> new_ids (sdk_answers A (world s) es)
      \<and> listener_changes es = [ListenerCreated lb (parseProtocol svc port) (port_Port port)]"
    and update: "\<And>l u. update l s = (Ok (), u) \<Longrightarrow> \<exists>es. does A s u es \<and> listener_changes es = [ListenerUpdated (fst (key l))]"
    and rest: "\<And>l u r. rest l u = (Ok (), t) \<Longrightarrow> \<exists>es. does A u t es \<and> listener_changes es = []"
  shows "\<exists>es uid. does A s t es \<and> ls' = pop_first (\<lambda>l. fst (key l) = uid) ls \<and>
     (case find (\<lambda>l. serves_port svc (key l) port) ls of
        Some l \<Rightarrow> uid = fst (key l) \<and> listener_changes es = [ListenerUpdated uid]
      | None \<Rightarrow> uid \<in> new_ids (sdk_answers A (world s) es) \<and> listener_changes es = [ListenerCreated lb (parseProtocol svc port) (port_Port port)])"
proof -
  let ?head = "case find (\<lambda>l. serves_port svc (key l) port) ls of None \<Rightarrow> create | Some l \<Rightarrow> bindR (update l) (\<lambda>_. okR l)"
  obtain l u where head: "?head s = (Ok l, u)" and r: "rest l u = (Ok (), t)"
    and ls': "ls' = pop_first (\<lambda>x. fst (key x) = fst (key l)) ls"
    using run by (auto elim!: bindR_Ok_E simp: run_okR)
  obtain fs where fs: "does A u t fs" "listener_changes fs = []" using rest [OF r] by blast
  show ?thesis
  proof (cases "find (\<lambda>l. serves_port svc (key l) port) ls")
    case None
    with head obtain es where es: "does A s u es" "fst (key l) \<in> new_ids (sdk_answers A (world s) es)"
      "listener_changes es = [ListenerCreated lb (parseProtocol svc port) (port_Port port)]" using create by fastforce
    then show ?thesis using None fs ls' does_trans [OF es(1) fs(1)] by (intro exI [of _ "es @ fs"] exI [of _ "fst (key l)"]) simp
  next
    case (Some x)
    with head have x: "l = x" "update x s = (Ok (), u)" by (auto simp: run_okR elim!: bindR_Ok_E)
    then obtain es where es: "does A s u es" "listener_changes es = [ListenerUpdated (fst (key x))]" using update by blast
    then show ?thesis using Some fs ls' x(1) does_trans [OF es(1) fs(1)]
      by (intro exI [of _ "es @ fs"] exI [of _ "fst (key l)"]) simp
  qed
qed

subsection \<open>The cleanup\<close>

definition obsolete :: "service \<Rightarrow> listener_key \<Rightarrow> bool" where
  "obsolete svc l \<longleftrightarrow> (\<forall>p\<in>set (svc_Ports svc). \<not> serves_port svc l p)"

text \<open>
  The cleanup that ends without an error has requested the deletion of each listener once, except where the cloud does
  not find what to list the pools of.
\<close>

definition cleaned :: "'w api \<Rightarrow> string list \<Rightarrow> ('w, event) sys \<Rightarrow> ('w, event) sys \<Rightarrow> bool" where
  "cleaned A ids s t \<longleftrightarrow> (\<exists>es dels. does A s t es \<and> listener_changes es = map ListenerDeleted dels \<and> dels \<in> set (subseqs ids) \<and>
     (\<forall>i\<in>set ids. i \<in> set dels \<or> pools_missing (sdk_answers A (world s) es)))"

lemma cleaned_Nil: "cleaned A [] s s"
  by (auto simp: cleaned_def does_def intro!: exI [of _ "[]"])

lemma cleaned_Cons:
  assumes "does A s u es" "listener_changes es = [ListenerDeleted i] \<or> listener_changes es = [] \<and> pools_missing (sdk_answers A (world s) es)"
    and "cleaned A ids u t"
  shows "cleaned A (i # ids) s t"
proof -
  obtain fs dels where fs: "does A u t fs" "listener_changes fs = map ListenerDeleted dels" "dels \<in> set (subseqs ids)"
    "\<forall>i\<in>set ids. i \<in> set dels \<or> pools_missing (sdk_answers A (world u) fs)"
    using assms(3) by (auto simp: cleaned_def)
  have all: "does A s t (es @ fs)" "sdk_answers A (world s) (es @ fs) = sdk_answers A (world s) es @ sdk_answers A (world u) fs"
    using does_trans [OF assms(1) fs(1)] assms(1) by (simp_all add: does_def)
  from assms(2) show ?thesis
  proof
    assume "listener_changes es = [ListenerDeleted i]"
    then show ?thesis using all fs unfolding cleaned_def
      by (intro exI [of _ "es @ fs"] exI [of _ "i # dels"]) (auto simp: Let_def)
  next
    assume "listener_changes es = [] \<and> pools_missing (sdk_answers A (world s) es)"
    then show ?thesis using all fs unfolding cleaned_def
      by (intro exI [of _ "es @ fs"] exI [of _ dels]) (auto simp: Let_def)
  qed
qed

text \<open>The cleanup of one listener.\<close>

definition deletes :: "'w api \<Rightarrow> string \<Rightarrow> ('w, event) sys \<Rightarrow> ('w, event) sys \<Rightarrow> bool" where
  "deletes A i s t \<longleftrightarrow> (\<exists>es. does A s t es \<and>
     (listener_changes es = [ListenerDeleted i] \<or> listener_changes es = [] \<and> pools_missing (sdk_answers A (world s) es)))"

text \<open>A loop that collects errors and ends with none.\<close>

lemma cleaned_foldR:
  assumes "foldR body ls errs s = (Ok [], t)"
    and "\<And>l errs errs' s t. body l errs s = (Ok errs', t) \<Longrightarrow> (\<exists>new. errs' = errs @ new) \<and> (errs' = [] \<longrightarrow>
      deletes A (f l) s t)"
  shows "errs = [] \<and> cleaned A (map f ls) s t"
  using assms(1)
proof (induction ls arbitrary: errs s)
  case Nil
  then show ?case by (auto simp: run_simps cleaned_Nil)
next
  case (Cons l ls)
  then obtain errs' u where 1: "body l errs s = (Ok errs', u)" and 2: "foldR body ls errs' u = (Ok [], t)"
    by (auto elim: bindR_Ok_E)
  from Cons.IH [OF 2] have IH: "errs' = []" "cleaned A (map f ls) u t" by simp_all
  with assms(2) [OF 1] have "errs = []" "deletes A (f l) s u" by auto
  from \<open>deletes A (f l) s u\<close> have "cleaned A (f l # map f ls) s t"
    unfolding deletes_def using cleaned_Cons IH(2) by blast
  with \<open>errs = []\<close> show ?case by simp
qed

text \<open>A request whose error is kept, and what follows it without touching listeners.\<close>

lemma delete_then_quiet:
  assumes "bindR (attempt (wrapper0 A req)) rest u = (r, t)"
    and "\<And>x. emits (rest x) (kinds {KRead})" "\<And>x. replays A (rest x)" "listener_change_of (Sdk req) = Some c"
  obtains es where "does A u t es" "listener_changes es = [c]"
proof -
  obtain q v where w: "wrapper0 A req u = (q, v)" by fastforce
  note call = commonWrapper_does [OF w [unfolded wrapper0_def]]
  have "\<exists>x. attempt (wrapper0 A req) u = (Ok x, v)" using w call(4) by (cases q) (auto simp: run_attempt)
  with assms(1) obtain x where x: "rest x v = (r, t)" by (auto simp: run_bindR)
  obtain fs where fs: "does A v t fs" "listener_changes fs = []" by (rule quiet_does [OF assms(2) _ assms(3) x]) simp
  from does_trans [OF call(1) fs(1)] show ?thesis by (rule that) (simp add: assms(4) fs(2))
qed

text \<open>
  One iteration of the cleanup: the pool of the listener is looked up and deleted, then the listener; \<open>del\<close> collects errors.
\<close>

lemma deletes_after:
  assumes "does A s u fs" "listener_changes fs = []" "deletes A i u t"
  shows "deletes A i s t"
proof -
  obtain es where es: "does A u t es"
    "listener_changes es = [ListenerDeleted i] \<or> listener_changes es = [] \<and> pools_missing (sdk_answers A (world u) es)"
    using assms(3) by (auto simp: deletes_def)
  moreover have "sdk_answers A (world s) (fs @ es) = sdk_answers A (world s) fs @ sdk_answers A (world u) es"
    using assms(1) by (simp add: does_def)
  ultimately show ?thesis
    unfolding deletes_def using does_trans [OF assms(1)] assms(2) by (intro exI [of _ "fs @ es"]) auto
qed

lemma cleanup_body:
  assumes run: "bindR (attempt getPool) (\<lambda>r. case r of
             Inl e \<Rightarrow> if IsNotFound e then del errs else okR (errs @ [e])
           | Inr pool \<Rightarrow> bindR (deletePool pool) (\<lambda>delErrs. del (errs @ delErrs))) s = (Ok errs', t)"
    and get: "emits getPool (kinds K)" "replays A getPool" and pool: "\<And>p. emits (deletePool p) (kinds K)" "\<And>p. replays A (deletePool p)"
    and K: "KListener \<notin> K"
    and del: "\<And>errs errs' u. del errs u = (Ok errs', t) \<Longrightarrow> (\<exists>new. errs' = errs @ new) \<and> (errs' = [] \<longrightarrow> deletes A i u t)"
  shows "(\<exists>new. errs' = errs @ new) \<and> (errs' = [] \<longrightarrow> deletes A i s t)"
proof -
  obtain q u where q: "getPool s = (q, u)" by fastforce
  obtain fs where fs: "does A s u fs" "listener_changes fs = []" by (rule quiet_does [OF get(1) K get(2) q])
  show ?thesis
  proof (cases q)
    case (Err e)
    show ?thesis
    proof (cases "IsNotFound e")
      case True
      with run q Err have "del errs u = (Ok errs', t)" by (simp add: run_bindR run_attempt)
      from del [OF this] show ?thesis using deletes_after [OF fs] by blast
    qed (use run q Err in \<open>auto simp: run_bindR run_attempt run_okR\<close>)
  next
    case (Ok p)
    with run q have "bindR (deletePool p) (\<lambda>delErrs. del (errs @ delErrs)) u = (Ok errs', t)"
      by (simp add: run_bindR run_attempt)
    then obtain delErrs v where v: "deletePool p u = (Ok delErrs, v)" "del (errs @ delErrs) v = (Ok errs', t)" by (rule bindR_Ok_E)
    obtain gs where gs: "does A u v gs" "listener_changes gs = []" by (rule quiet_does [OF pool(1) K pool(2) v(1)])
    from del [OF v(2)] show ?thesis using deletes_after [OF fs] deletes_after [OF gs] by auto
  qed (use run q in \<open>auto simp: run_bindR run_attempt\<close>)
qed

text \<open>The error of a deletion is collected unless the listener is not there.\<close>

lemma cleanup_del:
  assumes "bindR (attempt deletion) (\<lambda>r. case r of
               Inl e \<Rightarrow> if IsNotFound e then okR errs else okR (errs @ [wrap e]) | Inr _ \<Rightarrow> okR errs) u = (Ok errs', t)"
    and "\<And>r. deletion u = (r, t) \<Longrightarrow> r = Ok () \<or> (\<exists>e. r = Err e \<and> IsNotFound e) \<Longrightarrow> deletes A i u t"
  shows "(\<exists>new. errs' = errs @ new) \<and> (errs' = [] \<longrightarrow> deletes A i u t)"
proof -
  obtain r v where r: "deletion u = (r, v)" by fastforce
  show ?thesis using assms(1) assms(2) [of r] r
    by (cases r) (auto simp: run_bindR run_attempt run_okR split: if_splits)
qed

text \<open>
  The specification of a successful call: one change for each port in order, then deletions of listeners that serve no port,
  each at most once; none of them if the service names its instance, all of them otherwise, unless the cloud does not
  find what to list the pools of.
\<close>

definition listener_plan :: "service \<Rightarrow> bool \<Rightarrow> string \<Rightarrow> listener_key list \<Rightarrow> bool \<Rightarrow> listener_change list \<Rightarrow> bool" where
  "listener_plan svc own lb ls missing cs \<longleftrightarrow> (\<exists>dels.
     cs = map (port_change svc lb ls) (svc_Ports svc) @ map ListenerDeleted dels \<and> distinct dels \<and>
     (if own then set dels \<subseteq> fst ` {l \<in> set ls. obsolete svc l} \<and> (missing \<or> fst ` {l \<in> set ls. obsolete svc l} \<subseteq> set dels)
      else dels = []))"

definition reconciled :: "service \<Rightarrow> sdk_answer list \<Rightarrow> listener_change list \<Rightarrow> bool" where
  "reconciled svc ans cs \<longleftrightarrow>
     (\<exists>(lb, ls)\<in>listings ans. listener_plan svc (getStringFromSvsAnnotation svc ElbID [] = []) lb ls (pools_missing ans) cs)"

lemma listener_plan_missing: "listener_plan svc own lb ls m cs \<Longrightarrow> (m \<Longrightarrow> m') \<Longrightarrow> listener_plan svc own lb ls m' cs"
  unfolding listener_plan_def by (auto split: if_splits)

locale listener_loop = listener_step A step key svc lb
  for A :: "'w api" and step :: "service_port \<Rightarrow> 'l list \<Rightarrow> ('w, 'l list) prog" and key svc lb +
  fixes cleanup :: "'l list \<Rightarrow> ('w, unit) prog"
  assumes cleanup_Ok: "cleanup ls s = (Ok (), t) \<Longrightarrow> cleaned A (map (\<lambda>l. fst (key l)) ls) s t"
begin

lemma cleanup_if:
  assumes "(if own then cleanup ls else okR ()) s = (Ok (), t)"
  shows "if own then cleaned A (map (\<lambda>l. fst (key l)) ls) s t else t = s"
  using assms cleanup_Ok by (auto simp: run_simps split: if_splits)

lemma ensure_changes:
  assumes run: "bindR (foldR step (svc_Ports svc) ls) (\<lambda>rest. bindR (if own then cleanup rest else okR ()) (\<lambda>_. tail)) s = (Ok st, t)"
    and tail: "\<And>u. tail u = (Ok st, t) \<Longrightarrow> \<exists>es. does A u t es \<and> listener_changes es = []"
    and es: "does A s t es" and keyed: "well_keyed (map key ls)"
    and fresh: "new_ids (sdk_answers A (world s) es) \<inter> fst ` set (map key ls) = {}"
    and ports: "distinct (map (\<lambda>p. (parseProtocol svc p, port_Port p)) (svc_Ports svc))"
  shows "listener_plan svc own lb (map key ls) (pools_missing (sdk_answers A (world s) es)) (listener_changes es)"
proof -
  from run obtain rest u v where 1: "foldR step (svc_Ports svc) ls s = (Ok rest, u)"
    and 2: "(if own then cleanup rest else okR ()) u = (Ok (), v)" and 3: "tail v = (Ok st, t)"
    by (auto elim!: bindR_Ok_E)
  obtain es1 where es1: "does A s u es1" using loop_does [OF 1] by blast
  have "cleaned A (if own then map (\<lambda>l. fst (key l)) rest else []) u v"
    using cleanup_if [OF 2] cleaned_Nil by (auto split: if_splits)
  then obtain es2 dels where es2: "does A u v es2" "listener_changes es2 = map ListenerDeleted dels"
    "dels \<in> set (subseqs (if own then map (\<lambda>l. fst (key l)) rest else []))"
    "\<forall>i\<in>set (if own then map (\<lambda>l. fst (key l)) rest else []). i \<in> set dels \<or> pools_missing (sdk_answers A (world u) es2)"
    unfolding cleaned_def by blast
  obtain es3 where es3: "does A v t es3" "listener_changes es3 = []" using tail [OF 3] by blast
  have split: "es = es1 @ es2 @ es3" "sdk_answers A (world s) es = sdk_answers A (world s) es1 @ sdk_answers A (world u) es2 @ sdk_answers A (world v) es3"
    using es es1 es2(1) es3(1) by (simp_all add: does_def)
  have loop: "listener_changes es1 = map (port_change svc lb (map key ls)) (svc_Ports svc)"
    "mset rest = filter_mset (\<lambda>l. obsolete svc (key l)) (mset ls)"
    using loop_changes [OF 1 keyed es1 _ ports] fresh by (auto simp: split obsolete_def)
  have rest: "set rest = {l \<in> set ls. obsolete svc (key l)}" using arg_cong [OF loop(2), of set_mset] by simp
  have eq: "mset rest = mset (filter (\<lambda>l. obsolete svc (key l)) ls)" using loop(2) by simp
  have "distinct (map (\<lambda>l. fst (key l)) rest)"
    using keyed by (simp add: distinct_map_mset [OF eq] distinct_map_filter well_keyed_def comp_def)
  then have "distinct (if own then map (\<lambda>l. fst (key l)) rest else [])" by simp
  then have "distinct dels" by (rule subseqs_distinctD [OF es2(3)])
  moreover have "set dels \<subseteq> set (if own then map (\<lambda>l. fst (key l)) rest else [])"
    using es2(3) subseqs_powset by (metis PowD imageI)
  moreover have "fst ` {l \<in> set (map key ls). obsolete svc l} = (\<lambda>l. fst (key l)) ` set rest" using rest by auto
  ultimately show ?thesis
    unfolding listener_plan_def using split loop(1) es2(2,4) es3(2) by (intro exI [of _ dels]) (auto split: if_splits)
qed

text \<open>With what precedes the loop: a stretch that touches no listener, and the listing.\<close>

lemma ensure_reconciled:
  assumes run: "bindR (foldR step (svc_Ports svc) ls) (\<lambda>rest.
      bindR (if getStringFromSvsAnnotation svc ElbID [] = [] then cleanup rest else okR ()) (\<lambda>_. tail)) v = (Ok st, t)"
    and tail: "\<And>u. tail u = (Ok st, t) \<Longrightarrow> \<exists>es. does A u t es \<and> listener_changes es = []"
    and pre: "does A s u es1" "listener_changes es1 = []"
    and call: "does A u v [Sdk req]" "listener_change_of (Sdk req) = None" "listing (req, fst (sdk_call A (world u) req)) = Some (lb, map key ls)"
    and es: "does A s t es" and sound: "sound_listings (sdk_answers A (world s) es)"
    and ports: "distinct (map (\<lambda>p. (parseProtocol svc p, port_Port p)) (svc_Ports svc))"
  shows "reconciled svc (sdk_answers A (world s) es) (listener_changes es)"
proof -
  from run obtain rest w w' where r: "foldR step (svc_Ports svc) ls v = (Ok rest, w)" "tail w' = (Ok st, t)"
    and c: "(if getStringFromSvsAnnotation svc ElbID [] = [] then cleanup rest else okR ()) w = (Ok (), w')"
    by (auto elim!: bindR_Ok_E)
  have "\<exists>fs. does A w w' fs" using cleanup_if [OF c] by (auto simp: cleaned_def does_def split: if_splits intro: exI [of _ "[]"])
  then obtain es2 where es2: "does A v t es2" using loop_does [OF r(1)] tail [OF r(2)] does_trans by blast
  have split: "es = es1 @ Sdk req # es2" "sdk_answers A (world s) es =
      sdk_answers A (world s) es1 @ (req, fst (sdk_call A (world u) req)) # sdk_answers A (world v) es2"
    using es pre(1) call(1) es2 by (simp_all add: does_def)
  have "(lb, map key ls) \<in> listings (sdk_answers A (world s) es)"
    unfolding split(2) listings_append by (simp add: call(3) listings_def map_filter_def)
  moreover have "new_ids (sdk_answers A (world v) es2) \<subseteq> new_ids (sdk_answers A (world s) es)"
    unfolding split(2) new_ids_append by (auto simp: new_ids_def map_filter_def)
  ultimately have key: "well_keyed (map key ls)" "new_ids (sdk_answers A (world v) es2) \<inter> fst ` set (map key ls) = {}"
    using sound unfolding sound_listings_def by blast+
  have "pools_missing (sdk_answers A (world s) es)" if "pools_missing (sdk_answers A (world v) es2)"
    using that unfolding split(2) pools_missing_append by (auto simp: pools_missing_def)
  with ensure_changes [OF run tail es2 key ports]
  have "listener_plan svc (getStringFromSvsAnnotation svc ElbID [] = []) lb (map key ls) (pools_missing (sdk_answers A (world s) es))
      (listener_changes es2)" by (rule listener_plan_missing)
  moreover have "listener_changes es = listener_changes es2" by (simp add: split(1) pre(2) call(2))
  ultimately show ?thesis unfolding reconciled_def using \<open>(lb, map key ls) \<in> _\<close> by auto
qed

end

subsection \<open>The shared load balancer\<close>

definition li_key :: "ListenerResp \<Rightarrow> listener_key" where
  "li_key l = (li_Id l, li_Protocol l, li_ProtocolPort l)"

text \<open>The part of an iteration after the listener is known.\<close>

definition slb_port_rest :: "'w Basic \<Rightarrow> LoadbalancerResp \<Rightarrow> service \<Rightarrow> node list \<Rightarrow> service_port \<Rightarrow> ListenerResp \<Rightarrow> ('w, unit) prog" where
  "slb_port_rest b lb svc nodes port listener =
     bindR (slb_getOrCreatePool b (lb_Id lb) listener svc) (\<lambda>pool.
     bindR (slb_ensurePoolAlgorithm b pool svc) (\<lambda>_.
     bindR (slb_addOrRemoveMembers b lb svc pool port nodes) (\<lambda>_.
       slb_health_with_first_node b (lb_Id lb) pool port svc nodes)))"

lemma slb_ensure_port_rest:
  "slb_ensure_port b lb svc nodes port ls =
     bindR (case slb_filterListenerByPort ls svc port of
              None \<Rightarrow> slb_createListener b (lb_Id lb) svc port
            | Some listener \<Rightarrow> bindR (slb_updateListener b listener svc) (\<lambda>_. okR listener)) (\<lambda>listener.
     bindR (slb_port_rest b lb svc nodes port listener) (\<lambda>_. okR (slb_popListener ls (li_Id listener))))"
  by (simp add: slb_ensure_port_def slb_port_rest_def bindR_assoc)

lemma slb_port_rest_quiet:
  assumes "slb_port_rest b lb svc nodes port listener s = (r, t)"
  shows "\<exists>es. does (clients b) s t es \<and> listener_changes es = []"
proof -
  have e: "emits (slb_port_rest b lb svc nodes port listener) (kinds {KRead, KMember, KMonitor, KPool})"
    unfolding slb_port_rest_def by (intro emits_intro) simp_all
  have r: "replays (clients b) (slb_port_rest b lb svc nodes port listener)"
    unfolding slb_port_rest_def by (intro replays_intro)
  show ?thesis by (rule quiet_exists [where m = "slb_port_rest b lb svc nodes port listener", OF e _ r assms]) simp
qed

lemma created_protocol: "co_LoadbalancerId (slb_listener_option opts lb svc port) = lb"
  "co_Protocol (slb_listener_option opts lb svc port) = parseProtocol svc port"
  "co_ProtocolPort (slb_listener_option opts lb svc port) = port_Port port"
  by (auto simp: slb_listener_option_def parseProtocol_def Let_def)

lemma slb_createListener_does:
  assumes "slb_createListener b lb svc port s = (Ok l, t)"
  shows "\<exists>es. does (clients b) s t es \<and> li_Id l \<in> new_ids (sdk_answers (clients b) (world s) es)
    \<and> listener_changes es = [ListenerCreated lb (parseProtocol svc port) (port_Port port)]"
proof -
  let ?req = "ElbV3 (V3CreateListener (slb_listener_option (loadbalancerOpts b) lb svc port))"
  from assms obtain l3 u where call: "commonWrapper (clients b) ?req asListener3 s = (Ok (Some l3), u)" and "convertToListenerV2 l3 u = (Ok l, t)"
    unfolding slb_createListener_def d_CreateListener_def
    by (auto elim!: bindR_Ok_E simp: run_simps deref_def split: sum.splits option.splits res.splits prod.splits)
  have "yields (convertToListenerV2 l3 :: ('a, ListenerResp) prog) (\<lambda>l. li_Id l = l3_Id l3)"
    unfolding convertToListenerV2_def by (intro yields_intro) simp
  then have conv: "li_Id l = l3_Id l3" using \<open>convertToListenerV2 l3 u = (Ok l, t)\<close> by (rule yieldsD)
  obtain fs where "does (clients b) u t fs" "listener_changes fs = []"
    by (rule quiet_does [OF emits_convertToListenerV2 _ replays_convertToListenerV2 \<open>convertToListenerV2 l3 u = (Ok l, t)\<close>, of "{}"]) auto
  with does_trans [OF commonWrapper_does(1) [OF call]] have "does (clients b) s t (Sdk ?req # fs)" by fastforce
  with commonWrapper_does(2) [OF call] conv \<open>listener_changes fs = []\<close> show ?thesis
    by (intro exI [of _ "Sdk ?req # fs"]) (auto simp: new_ids_def new_id_def map_filter_def listener_change_of_def created_protocol)
qed

lemma d_UpdateListener_does:
  assumes "d_UpdateListener A i opt s = (Ok (), t)"
  shows "\<exists>es. does A s t es \<and> listener_changes es = [ListenerUpdated i]"
proof -
  have "does A s t [Sdk (ElbV3 (V3UpdateListener i opt))]"
    using assms unfolding d_UpdateListener_def wrapper0_def by (rule commonWrapper_does(1))
  then show ?thesis by (intro exI [of _ "[Sdk (ElbV3 (V3UpdateListener i opt))]"]) (simp add: listener_change_of_def)
qed

lemma find_li_key: "slb_filterListenerByPort ls svc port = find (\<lambda>l. serves_port svc (li_key l) port) ls"
  by (simp add: slb_filterListenerByPort_def serves_port_def li_key_def)

lemma slb_step_Ok:
  assumes "slb_ensure_port b lb svc nodes port ls s = (Ok ls', t)"
  shows "\<exists>es uid. does (clients b) s t es \<and> ls' = pop_first (\<lambda>l. fst (li_key l) = uid) ls \<and>
     (case find (\<lambda>l. serves_port svc (li_key l) port) ls of
        Some l \<Rightarrow> uid = fst (li_key l) \<and> listener_changes es = [ListenerUpdated uid]
      | None \<Rightarrow> uid \<in> new_ids (sdk_answers (clients b) (world s) es)
          \<and> listener_changes es = [ListenerCreated (lb_Id lb) (parseProtocol svc port) (port_Port port)])"
proof (rule step_parts)
  show "bindR (case find (\<lambda>l. serves_port svc (li_key l) port) ls of None \<Rightarrow> slb_createListener b (lb_Id lb) svc port
      | Some l \<Rightarrow> bindR (slb_updateListener b l svc) (\<lambda>_. okR l))
    (\<lambda>l. bindR (slb_port_rest b lb svc nodes port l) (\<lambda>_. okR (pop_first (\<lambda>x. fst (li_key x) = fst (li_key l)) ls))) s = (Ok ls', t)"
    using assms unfolding slb_ensure_port_rest find_li_key slb_popListener_def by (simp add: li_key_def)
next
  fix l u assume "slb_createListener b (lb_Id lb) svc port s = (Ok l, u)"
  then show "\<exists>es. does (clients b) s u es \<and> fst (li_key l) \<in> new_ids (sdk_answers (clients b) (world s) es)
      \<and> listener_changes es = [ListenerCreated (lb_Id lb) (parseProtocol svc port) (port_Port port)]"
    using slb_createListener_does by (fastforce simp: li_key_def)
next
  fix l u assume "slb_updateListener b l svc s = (Ok (), u)"
  then show "\<exists>es. does (clients b) s u es \<and> listener_changes es = [ListenerUpdated (fst (li_key l))]"
    unfolding slb_updateListener_def Let_def li_key_def fst_conv by (rule d_UpdateListener_does)
qed (rule slb_port_rest_quiet)

text \<open>A deletion is requested unless its pools cannot be listed; an error that counts as success is then a missing instance.\<close>

lemma s_DeleteListener_does:
  assumes "s_DeleteListener A elbID i s = (r, t)" "r = Ok () \<or> (\<exists>e. r = Err e \<and> IsNotFound e)"
  shows "deletes A i s t"
proof -
  obtain q u where pools: "s_ListPools A elbID s = (q, u)" by fastforce
  note call = commonWrapper_does [OF pools [unfolded s_ListPools_def]]
  show ?thesis
  proof (cases q)
    case (Err e)
    with assms pools have "r = Err e" "t = u" "IsNotFound e" by (auto simp: s_DeleteListener_def run_bindR)
    with call(1,3) Err show ?thesis
      unfolding deletes_def by (intro exI [of _ "[Sdk (ElbV2 (ListPoolsReq elbID))]"]) (auto simp: listener_change_of_def pools_missing_def)
  next
    case (Ok ps)
    define rest where "rest = (\<lambda>rsp :: error + unit. case rsp of Inr _ \<Rightarrow> okR () | Inl e \<Rightarrow> if IsNotFound e
             then bindR (attempt (s_GetListener A i)) (\<lambda>r2. case r2 of
                    Inl e2 \<Rightarrow> if IsNotFound e2 then okR () else errR e2 | Inr _ \<Rightarrow> okR ())
             else errR e)"
    have "\<not> pools_using ps i > 0" using assms pools Ok by (auto simp: s_DeleteListener_def run_bindR run_errR Let_def split: if_splits)
    then have "s_DeleteListener A elbID i s = bindR (attempt (wrapper0 A (ElbV2 (DeleteListenerReq i)))) rest u"
      unfolding s_DeleteListener_def run_bindR [where m = "s_ListPools A elbID"] pools Ok rest_def
      by (simp only: Let_def prod.case res.case if_False)
    with assms(1) have del: "bindR (attempt (wrapper0 A (ElbV2 (DeleteListenerReq i)))) rest u = (r, t)" by simp
    have quiet: "emits (rest x) (kinds {KRead})" "replays A (rest x)" for x
      unfolding rest_def by (intro emits_intro replays_intro; simp)+
    obtain es where "does A u t es" "listener_changes es = [ListenerDeleted i]"
      by (rule delete_then_quiet [OF del quiet]) (simp_all add: listener_change_of_def)
    with does_trans [OF call(1)] show ?thesis
      unfolding deletes_def by (intro exI [of _ "[Sdk (ElbV2 (ListPoolsReq elbID))] @ es"]) (auto simp: listener_change_of_def)
  qed (use call(4) in auto)
qed

lemma slb_cleanup_Ok:
  assumes "slb_deleteListeners b eid ls s = (Ok (), t)"
  shows "cleaned (clients b) (map (\<lambda>l. fst (li_key l)) ls) s t"
proof -
  define del where "del = (\<lambda>(lis :: ListenerResp) errs. bindR (attempt (s_DeleteListener (clients b) eid (li_Id lis))) (\<lambda>r. case r of
      Inl e \<Rightarrow> if IsNotFound e then okR errs
               else okR (errs @ [Errorf (''failed to delete ELB listener '' @ li_Id lis @ '' : '' @ err_text e @ '' '')])
    | Inr _ \<Rightarrow> okR errs))"
  from assms have "foldR (\<lambda>lis errs. bindR (attempt (slb_getPool b eid (li_Id lis))) (\<lambda>r. case r of
             Inl e \<Rightarrow> if IsNotFound e then del lis errs else okR (errs @ [e])
           | Inr pool \<Rightarrow> bindR (slb_deletePool b pool) (\<lambda>delErrs. del lis (errs @ delErrs)))) ls [] s = (Ok [], t)"
    unfolding slb_deleteListeners_def Let_def del_def by (auto elim!: bindR_Ok_E simp: run_okR run_errR split: if_splits)
  then have "[] = ([] :: error list) \<and> cleaned (clients b) (map (\<lambda>l. fst (li_key l)) ls) s t"
  proof (rule cleaned_foldR)
    fix l errs errs' s t
    have del: "(\<exists>new. errs' = errs @ new) \<and> (errs' = [] \<longrightarrow> deletes (clients b) (li_Id l) u t)" if "del l errs u = (Ok errs', t)" for errs errs' u
      using that unfolding del_def by (rule cleanup_del) (rule s_DeleteListener_does)
    assume run: "bindR (attempt (slb_getPool b eid (li_Id l))) (\<lambda>r. case r of
             Inl e \<Rightarrow> if IsNotFound e then del l errs else okR (errs @ [e])
           | Inr pool \<Rightarrow> bindR (slb_deletePool b pool) (\<lambda>delErrs. del l (errs @ delErrs))) s = (Ok errs', t)"
    show "(\<exists>new. errs' = errs @ new) \<and> (errs' = [] \<longrightarrow> deletes (clients b) (fst (li_key l)) s t)"
      unfolding li_key_def fst_conv
      by (rule cleanup_body [OF run, where K = "{KRead, KMember, KMonitor, KPool}"])
        (auto intro: emits_slb_getPool emits_slb_deletePool replays_slb_getPool replays_slb_deletePool dest: del)
  qed
  then show ?thesis by simp
qed

interpretation shared: listener_loop "clients b" "slb_ensure_port b loadbalancer svc nodes" li_key svc "lb_Id loadbalancer"
    "slb_deleteListeners b (lb_Id loadbalancer)" for b loadbalancer svc nodes
  by unfold_locales (erule slb_step_Ok, erule slb_cleanup_Ok)

text \<open>What precedes the loop, and the listing.\<close>

lemma slb_ensure_instance_quiet:
  assumes "slb_ensure_instance b c svc s = (r, t)"
  obtains es where "does (clients b) s t es" "listener_changes es = []"
proof -
  have "emits (slb_ensure_instance b c svc) (kinds {KRead, KInstanceCreate})" by (intro emits_intro) simp_all
  from quiet_does [OF this _ replays_slb_ensure_instance assms] that show ?thesis by auto
qed

lemma slb_EnsureLoadBalancer_reconciled:
  assumes run: "slb_EnsureLoadBalancer b c svc nodes s = (Ok st, t)" and es: "does (clients b) s t es"
    and sound: "sound_listings (sdk_answers (clients b) (world s) es)"
    and ports: "distinct (map (\<lambda>p. (parseProtocol svc p, port_Port p)) (svc_Ports svc))"
  shows "reconciled svc (sdk_answers (clients b) (world s) es) (listener_changes es)"
proof -
  let ?A = "clients b" and ?own = "getStringFromSvsAnnotation svc ElbID [] = []"
  define tail where "tail = (\<lambda>lb. bindR (attempt (createOrAssociateEIP b lb svc)) (\<lambda>r. case r of
      Inr publicIPAddr \<Rightarrow> okR [if publicIPAddr \<noteq> [] then publicIPAddr else lb_VipAddress lb]
    | Inl e \<Rightarrow> bindR (attempt (slb_EnsureLoadBalancerDeleted b c svc)) (\<lambda>r2.
        errR (Aggregate (e # (case r2 of Inl e2 \<Rightarrow> [e2] | Inr _ \<Rightarrow> []))))))"
  have "bindR (slb_ensure_instance b c svc) (\<lambda>lb. bindR (s_ListListeners ?A (lb_Id lb)) (\<lambda>ls.
      bindR (foldR (slb_ensure_port b lb svc nodes) (svc_Ports svc) ls) (\<lambda>rest.
      bindR (if ?own then slb_deleteListeners b (lb_Id lb) rest else okR ()) (\<lambda>_. tail lb)))) s = (Ok st, t)"
    using run unfolding slb_EnsureLoadBalancer_def tail_def by (simp add: run_errR split: if_splits option.splits)
  then obtain lb u where 1: "slb_ensure_instance b c svc s = (Ok lb, u)"
    and rest: "bindR (s_ListListeners ?A (lb_Id lb)) (\<lambda>ls. bindR (foldR (slb_ensure_port b lb svc nodes) (svc_Ports svc) ls) (\<lambda>rest.
      bindR (if ?own then slb_deleteListeners b (lb_Id lb) rest else okR ()) (\<lambda>_. tail lb))) u = (Ok st, t)" by (rule bindR_Ok_E)
  from rest obtain ls v where 2: "s_ListListeners ?A (lb_Id lb) u = (Ok ls, v)"
    and 3: "bindR (foldR (slb_ensure_port b lb svc nodes) (svc_Ports svc) ls) (\<lambda>rest.
      bindR (if ?own then slb_deleteListeners b (lb_Id lb) rest else okR ()) (\<lambda>_. tail lb)) v = (Ok st, t)" by (rule bindR_Ok_E)
  obtain es1 where es1: "does ?A s u es1" "listener_changes es1 = []" by (rule slb_ensure_instance_quiet [OF 1])
  note call = commonWrapper_does [OF 2 [unfolded s_ListListeners_def]]
  have tail: "\<exists>fs. does ?A w t fs \<and> listener_changes fs = []" if "tail lb w = (Ok st, t)" for w
  proof -
    from that obtain x where x: "createOrAssociateEIP b lb svc w = (Ok x, t)"
      unfolding tail_def by (auto elim!: bindR_Ok_E simp: run_simps split: sum.splits res.splits prod.splits)
    have "emits (createOrAssociateEIP b lb svc) (kinds {KRead, KEipCreate, KEipUpdate})" by (intro emits_intro) simp_all
    from quiet_does [OF this _ replays_createOrAssociateEIP x] show ?thesis by auto
  qed
  have listing: "listing (ElbV2 (ListListenersReq (lb_Id lb)), fst (sdk_call ?A (world u) (ElbV2 (ListListenersReq (lb_Id lb)))))
      = Some (lb_Id lb, map li_key ls)"
    using call(2) [OF refl] by (auto simp: listing_def li_key_def)
  show ?thesis
    by (rule shared.ensure_reconciled [OF 3 tail es1 call(1) _ listing es sound ports]) (simp_all add: listener_change_of_def)
qed

subsection \<open>The dedicated load balancer\<close>

definition l3_key :: "Listener \<Rightarrow> listener_key" where
  "l3_key l = (l3_Id l, l3_Protocol l, l3_ProtocolPort l)"

definition dlb_port_rest :: "'w Basic \<Rightarrow> LoadBalancer \<Rightarrow> service \<Rightarrow> node list \<Rightarrow> service_port \<Rightarrow> Listener \<Rightarrow> ('w, unit) prog" where
  "dlb_port_rest b lb svc nodes port listener =
     bindR (dlb_getOrCreatePool b (lb3_Id lb) listener svc) (\<lambda>pool.
     bindR (dlb_ensurePoolAlgorithm b pool svc) (\<lambda>_.
     bindR (dlb_addOrRemoveMembers b lb svc pool port nodes) (\<lambda>_.
       dlb_health_with_first_node b (lb3_Id lb) pool port svc nodes)))"

lemma dlb_ensure_port_rest:
  "dlb_ensure_port b lb svc nodes port ls =
     bindR (case dlb_filterListenerByPort ls svc port of
              None \<Rightarrow> bindR (dlb_createListener b (lb3_Id lb) svc port) deref
            | Some listener \<Rightarrow> bindR (dlb_updateListener b listener svc port) (\<lambda>_. okR listener)) (\<lambda>listener.
     bindR (dlb_port_rest b lb svc nodes port listener) (\<lambda>_. okR (dlb_popListener ls (l3_Id listener))))"
  by (simp add: dlb_ensure_port_def dlb_port_rest_def bindR_assoc)

lemma dlb_port_rest_quiet:
  assumes "dlb_port_rest b lb svc nodes port listener s = (r, t)"
  shows "\<exists>es. does (clients b) s t es \<and> listener_changes es = []"
proof -
  have e: "emits (dlb_port_rest b lb svc nodes port listener) (kinds {KRead, KMember, KMonitor, KPool})"
    unfolding dlb_port_rest_def by (intro emits_intro) simp_all
  have r: "replays (clients b) (dlb_port_rest b lb svc nodes port listener)"
    unfolding dlb_port_rest_def by (intro replays_intro)
  show ?thesis by (rule quiet_exists [where m = "dlb_port_rest b lb svc nodes port listener", OF e _ r assms]) simp
qed

lemma dlb_createListener_does:
  assumes "bindR (dlb_createListener b lb svc port) deref s = (Ok l, t)"
  shows "\<exists>es. does (clients b) s t es \<and> l3_Id l \<in> new_ids (sdk_answers (clients b) (world s) es)
    \<and> listener_changes es = [ListenerCreated lb (parseProtocol svc port) (port_Port port)]"
proof -
  from assms obtain opt where call: "commonWrapper (clients b) (ElbV3 (V3CreateListener opt)) asListener3 s = (Ok (Some l), t)"
    and opt: "co_LoadbalancerId opt = lb" "co_Protocol opt = parseProtocol svc port" "co_ProtocolPort opt = port_Port port"
    unfolding dlb_createListener_def d_CreateListener_def parseProtocol_def Let_def
    by (auto elim!: bindR_Ok_E simp: run_simps deref_def split: sum.splits option.splits res.splits prod.splits)
  from commonWrapper_does(1,2) [OF call] opt show ?thesis
    by (intro exI [of _ "[Sdk (ElbV3 (V3CreateListener opt))]"]) (auto simp: new_ids_def new_id_def map_filter_def listener_change_of_def)
qed

lemma find_l3_key: "dlb_filterListenerByPort ls svc port = find (\<lambda>l. serves_port svc (l3_key l) port) ls"
  by (simp add: dlb_filterListenerByPort_def serves_port_def l3_key_def)

lemma dlb_step_Ok:
  assumes "dlb_ensure_port b lb svc nodes port ls s = (Ok ls', t)"
  shows "\<exists>es uid. does (clients b) s t es \<and> ls' = pop_first (\<lambda>l. fst (l3_key l) = uid) ls \<and>
     (case find (\<lambda>l. serves_port svc (l3_key l) port) ls of
        Some l \<Rightarrow> uid = fst (l3_key l) \<and> listener_changes es = [ListenerUpdated uid]
      | None \<Rightarrow> uid \<in> new_ids (sdk_answers (clients b) (world s) es)
          \<and> listener_changes es = [ListenerCreated (lb3_Id lb) (parseProtocol svc port) (port_Port port)])"
proof (rule step_parts)
  show "bindR (case find (\<lambda>l. serves_port svc (l3_key l) port) ls of None \<Rightarrow> bindR (dlb_createListener b (lb3_Id lb) svc port) deref
      | Some l \<Rightarrow> bindR (dlb_updateListener b l svc port) (\<lambda>_. okR l))
    (\<lambda>l. bindR (dlb_port_rest b lb svc nodes port l) (\<lambda>_. okR (pop_first (\<lambda>x. fst (l3_key x) = fst (l3_key l)) ls))) s = (Ok ls', t)"
    using assms unfolding dlb_ensure_port_rest find_l3_key dlb_popListener_def by (simp add: l3_key_def)
next
  fix l u assume "bindR (dlb_createListener b (lb3_Id lb) svc port) deref s = (Ok l, u)"
  then show "\<exists>es. does (clients b) s u es \<and> fst (l3_key l) \<in> new_ids (sdk_answers (clients b) (world s) es)
      \<and> listener_changes es = [ListenerCreated (lb3_Id lb) (parseProtocol svc port) (port_Port port)]"
    using dlb_createListener_does by (fastforce simp: l3_key_def)
next
  fix l u assume "dlb_updateListener b l svc port s = (Ok (), u)"
  then show "\<exists>es. does (clients b) s u es \<and> listener_changes es = [ListenerUpdated (fst (l3_key l))]"
    unfolding dlb_updateListener_def Let_def l3_key_def fst_conv by (rule d_UpdateListener_does)
qed (rule dlb_port_rest_quiet)

lemma d_DeleteListener_does:
  assumes "d_DeleteListener A elbID i s = (r, t)" "r = Ok () \<or> (\<exists>e. r = Err e \<and> IsNotFound e)"
  shows "deletes A i s t"
proof -
  obtain q u where pools: "d_ListPools A elbID (Some i) s = (q, u)" by fastforce
  note call = commonWrapper_does [OF pools [unfolded d_ListPools_def]]
  show ?thesis
  proof (cases q)
    case (Err e)
    with assms pools have "r = Err e" "t = u" "IsNotFound e" by (auto simp: d_DeleteListener_def run_bindR)
    with call(1,3) Err show ?thesis
      unfolding deletes_def by (intro exI [of _ "[Sdk (ElbV3 (V3ListPools elbID (Some i)))]"]) (auto simp: listener_change_of_def pools_missing_def)
  next
    case (Ok ps)
    define rest where "rest = (\<lambda>rsp :: error + unit. case rsp of Inr _ \<Rightarrow> okR ()
      | Inl e \<Rightarrow> if IsNotFound e then okR () else (errR e :: ('a, unit) prog))"
    have "\<not> length ps > 0" using assms pools Ok by (auto simp: d_DeleteListener_def run_bindR run_errR split: if_splits)
    then have "d_DeleteListener A elbID i s = bindR (attempt (wrapper0 A (ElbV3 (V3DeleteListener i)))) rest u"
      unfolding d_DeleteListener_def run_bindR [where m = "d_ListPools A elbID (Some i)"] pools Ok rest_def
      by (simp only: prod.case res.case if_False)
    with assms(1) have del: "bindR (attempt (wrapper0 A (ElbV3 (V3DeleteListener i)))) rest u = (r, t)" by simp
    have quiet: "emits (rest x) (kinds {KRead})" "replays A (rest x)" for x
      unfolding rest_def by (intro emits_intro replays_intro; simp)+
    obtain es where "does A u t es" "listener_changes es = [ListenerDeleted i]"
      by (rule delete_then_quiet [OF del quiet]) (simp_all add: listener_change_of_def)
    with does_trans [OF call(1)] show ?thesis
      unfolding deletes_def by (intro exI [of _ "[Sdk (ElbV3 (V3ListPools elbID (Some i)))] @ es"]) (auto simp: listener_change_of_def)
  qed (use call(4) in auto)
qed

lemma dlb_cleanup_Ok:
  assumes "dlb_deleteListeners b eid ls s = (Ok (), t)"
  shows "cleaned (clients b) (map (\<lambda>l. fst (l3_key l)) ls) s t"
proof -
  define del where "del = (\<lambda>(lis :: Listener) errs. bindR (attempt (d_DeleteListener (clients b) eid (l3_Id lis))) (\<lambda>r. case r of
      Inl e \<Rightarrow> if IsNotFound e then okR errs
               else okR (errs @ [Errorf (''failed to delete ELB listener '' @ l3_Id lis @ '' : '' @ err_text e @ '' '')])
    | Inr _ \<Rightarrow> okR errs))"
  from assms have "foldR (\<lambda>lis errs. bindR (attempt (dlb_getPool b eid (l3_Id lis))) (\<lambda>r. case r of
             Inl e \<Rightarrow> if IsNotFound e then del lis errs else okR (errs @ [e])
           | Inr pool \<Rightarrow> bindR (dlb_deletePool b pool) (\<lambda>delErrs. del lis (errs @ delErrs)))) ls [] s = (Ok [], t)"
    unfolding dlb_deleteListeners_def Let_def del_def by (auto elim!: bindR_Ok_E simp: run_okR run_errR split: if_splits)
  then have "[] = ([] :: error list) \<and> cleaned (clients b) (map (\<lambda>l. fst (l3_key l)) ls) s t"
  proof (rule cleaned_foldR)
    fix l errs errs' s t
    have del: "(\<exists>new. errs' = errs @ new) \<and> (errs' = [] \<longrightarrow> deletes (clients b) (l3_Id l) u t)" if "del l errs u = (Ok errs', t)" for errs errs' u
      using that unfolding del_def by (rule cleanup_del) (rule d_DeleteListener_does)
    assume run: "bindR (attempt (dlb_getPool b eid (l3_Id l))) (\<lambda>r. case r of
             Inl e \<Rightarrow> if IsNotFound e then del l errs else okR (errs @ [e])
           | Inr pool \<Rightarrow> bindR (dlb_deletePool b pool) (\<lambda>delErrs. del l (errs @ delErrs))) s = (Ok errs', t)"
    show "(\<exists>new. errs' = errs @ new) \<and> (errs' = [] \<longrightarrow> deletes (clients b) (fst (l3_key l)) s t)"
      unfolding l3_key_def fst_conv
      by (rule cleanup_body [OF run, where K = "{KRead, KMember, KMonitor, KPool}"])
        (auto intro: emits_dlb_getPool emits_dlb_deletePool replays_dlb_getPool replays_dlb_deletePool dest: del)
  qed
  then show ?thesis by simp
qed

interpretation dedicated: listener_loop "clients b" "dlb_ensure_port b loadbalancer svc nodes" l3_key svc "lb3_Id loadbalancer"
    "dlb_deleteListeners b (lb3_Id loadbalancer)" for b loadbalancer svc nodes
  by unfold_locales (erule dlb_step_Ok, erule dlb_cleanup_Ok)

lemma dlb_EnsureLoadBalancer_reconciled:
  assumes run: "dlb_EnsureLoadBalancer b c svc nodes s = (Ok st, t)" and es: "does (clients b) s t es"
    and sound: "sound_listings (sdk_answers (clients b) (world s) es)"
    and ports: "distinct (map (\<lambda>p. (parseProtocol svc p, port_Port p)) (svc_Ports svc))"
  shows "reconciled svc (sdk_answers (clients b) (world s) es) (listener_changes es)"
proof -
  let ?A = "clients b" and ?own = "getStringFromSvsAnnotation svc ElbID [] = []"
  define tail where "tail = (\<lambda>lb. okR (dlb_buildStatus lb) :: ('a, string list) prog)"
  have "bindR (dlb_ensure_instance b c svc nodes) (\<lambda>lb. bindR (d_ListListeners ?A (lb3_Id lb)) (\<lambda>ls.
      bindR (foldR (dlb_ensure_port b lb svc nodes) (svc_Ports svc) ls) (\<lambda>rest.
      bindR (if ?own then dlb_deleteListeners b (lb3_Id lb) rest else okR ()) (\<lambda>_. tail lb)))) s = (Ok st, t)"
    using run unfolding dlb_EnsureLoadBalancer_def tail_def by (simp add: run_errR split: if_splits option.splits)
  then obtain lb u where 1: "dlb_ensure_instance b c svc nodes s = (Ok lb, u)"
    and rest: "bindR (d_ListListeners ?A (lb3_Id lb)) (\<lambda>ls. bindR (foldR (dlb_ensure_port b lb svc nodes) (svc_Ports svc) ls) (\<lambda>rest.
      bindR (if ?own then dlb_deleteListeners b (lb3_Id lb) rest else okR ()) (\<lambda>_. tail lb))) u = (Ok st, t)" by (rule bindR_Ok_E)
  from rest obtain ls v where 2: "d_ListListeners ?A (lb3_Id lb) u = (Ok ls, v)"
    and 3: "bindR (foldR (dlb_ensure_port b lb svc nodes) (svc_Ports svc) ls) (\<lambda>rest.
      bindR (if ?own then dlb_deleteListeners b (lb3_Id lb) rest else okR ()) (\<lambda>_. tail lb)) v = (Ok st, t)" by (rule bindR_Ok_E)
  have "emits (dlb_ensure_instance b c svc nodes) (kinds {KRead, KInstanceCreate})" by (intro emits_intro) simp_all
  from quiet_does [OF this _ replays_dlb_ensure_instance 1] obtain es1 where es1: "does ?A s u es1" "listener_changes es1 = []" by auto
  note call = commonWrapper_does [OF 2 [unfolded d_ListListeners_def]]
  have tail: "\<exists>fs. does ?A w t fs \<and> listener_changes fs = []" if "tail lb w = (Ok st, t)" for w
    using that by (intro exI [of _ "[]"]) (simp add: tail_def run_okR does_def)
  have listing: "listing (ElbV3 (V3ListListeners (lb3_Id lb)), fst (sdk_call ?A (world u) (ElbV3 (V3ListListeners (lb3_Id lb)))))
      = Some (lb3_Id lb, map l3_key ls)"
    using call(2) [OF refl] by (auto simp: listing_def l3_key_def)
  show ?thesis
    by (rule dedicated.ensure_reconciled [OF 3 tail es1 call(1) _ listing es sound ports]) (simp_all add: listener_change_of_def)
qed

subsection \<open>Both load balancers\<close>

lemma ensure_reconciled_either:
  assumes "P \<in> {SharedLoadBalancer_provider b, DedicatedLoadBalancer_provider b}"
    and "p_EnsureLoadBalancer P c svc nodes s = (Ok st, t)" "log t = log s @ es"
    and "sound_listings (sdk_answers (clients b) (world s) es)"
    and "distinct (map (\<lambda>p. (parseProtocol svc p, port_Port p)) (svc_Ports svc))"
  shows "reconciled svc (sdk_answers (clients b) (world s) es) (listener_changes es) \<and> world t = replay (clients b) es (world s)"
  using assms(1)
proof (elim insertE emptyE)
  assume "P = SharedLoadBalancer_provider b"
  with assms(2) obtain r where run: "slb_EnsureLoadBalancer b c svc nodes s = (Ok r, t)"
    by (auto simp: SharedLoadBalancer_provider_def run_okR elim!: bindR_Ok_E)
  then have "world t = replay (clients b) es (world s)" by (rule replaysD [OF replays_slb_EnsureLoadBalancer _ assms(3)])
  with slb_EnsureLoadBalancer_reconciled [OF run _ assms(4,5)] assms(3) show ?thesis by (simp add: does_def)
next
  assume "P = DedicatedLoadBalancer_provider b"
  with assms(2) obtain r where run: "dlb_EnsureLoadBalancer b c svc nodes s = (Ok r, t)"
    by (auto simp: DedicatedLoadBalancer_provider_def run_okR elim!: bindR_Ok_E)
  then have "world t = replay (clients b) es (world s)" by (rule replaysD [OF replays_dlb_EnsureLoadBalancer _ assms(3)])
  with dlb_EnsureLoadBalancer_reconciled [OF run _ assms(4,5)] assms(3) show ?thesis by (simp add: does_def)
qed

text \<open>
  C3. A successful \<open>EnsureLoadBalancer\<close> of the shared or the dedicated load balancer reconciles the listeners: with the listeners
  the cloud has listed, it updates the listener of each port that has one and creates one with the protocol and
  port of each other port, in the order of the ports, and then deletes, once each, the listeners that serve no port, or none if
  the service names its instance; it requests no other change of a listener. The hypotheses are what the service documents
  of its listings, and that no two ports ask for the same protocol and port.
\<close>

theorem listeners_reconciled:
  assumes "P \<in> {SharedLoadBalancer_provider b, DedicatedLoadBalancer_provider b}"
    and "p_EnsureLoadBalancer P c svc nodes s = (Ok st, t)" "log t = log s @ es"
    and "sound_listings (sdk_answers (clients b) (world s) es)"
    and "distinct (map (\<lambda>p. (parseProtocol svc p, port_Port p)) (svc_Ports svc))"
  shows "reconciled svc (sdk_answers (clients b) (world s) es) (listener_changes es) \<and> world t = replay (clients b) es (world s)"
  by (rule ensure_reconciled_either [OF assms])

text \<open>In the scenario every answer comes from the same tables, and the call succeeds.\<close>

lemma demo_answers: "(r, x) \<in> set (sdk_answers demo_api w es) \<Longrightarrow> x = reply (demo_sdk r)"
  by (induction demo_api w es rule: sdk_answers.induct) (auto simp: demo_api_def)

lemma demo_listings: "listings (sdk_answers demo_api w es) \<subseteq> {(lb, [(''l80'', ''TCP'', 80), (''l99'', ''TCP'', 99)]) |lb. True}"
proof -
  have "k \<in> {(lb, [(''l80'', ''TCP'', 80), (''l99'', ''TCP'', 99)]) |lb. True}"
    if "(r, x) \<in> set (sdk_answers demo_api w es)" "listing (r, x) = Some k" for r x k
    using that demo_answers [OF that(1)]
    by (auto simp: listing_def reply_def asListeners_def asListeners3_def demo_listener_def demo_listener3_def
        split: sdk_request.splits elb_request.splits elb3_request.splits)
  then show ?thesis by (force simp: listings_def map_filter_def)
qed

lemma demo_new_ids: "new_ids (sdk_answers demo_api w es) \<subseteq> {''lnew''}"
proof -
  have "k = ''lnew''" if "(r, x) \<in> set (sdk_answers demo_api w es)" "new_id (r, x) = Some k" for r x k
    using that demo_answers [OF that(1)]
    by (auto simp: new_id_def reply_def asListener3_def demo_listener3_def split: sdk_request.splits elb3_request.splits)
  then show ?thesis by (force simp: new_ids_def map_filter_def)
qed

lemma demo_sound: "sound_listings (sdk_answers demo_api w es)"
  using demo_listings [of w es] demo_new_ids [of w es] by (force simp: sound_listings_def well_keyed_def)

lemma demo_ensure: "\<exists>t. slb_EnsureLoadBalancer demo_basic ''c'' (demo_service Map.empty) [demo_node] start = (Ok [''192.168.0.9''], t)"
proof -
  have ann: "getStringFromSvsAnnotation (demo_service Map.empty) k d = d" "getBoolFromSvsAnnotation (demo_service Map.empty) k e = e" for k d e
    by (simp_all add: getStringFromSvsAnnotation_def getBoolFromSvsAnnotation_def)
  obtain s1 where 1: "slb_ensure_instance demo_basic ''c'' (demo_service Map.empty) start = (Ok demo_lb, s1)"
    by (simp add: slb_ensure_instance_def slb_getLoadBalancerInstance_def ann demo_run Let_def)
  obtain s2 where 2: "s_ListListeners demo_api ''lb'' s1 = (Ok [demo_listener ''l80'' ''TCP'' 80, demo_listener ''l99'' ''TCP'' 99], s2)"
    by (simp add: demo_run)
  obtain s3 where 3: "slb_ensure_port demo_basic demo_lb (demo_service Map.empty) [demo_node] demo_port
      [demo_listener ''l80'' ''TCP'' 80, demo_listener ''l99'' ''TCP'' 99] s2 = (Ok [demo_listener ''l99'' ''TCP'' 99], s3)"
    using demo_ensure_port by blast
  obtain s4 where 4: "slb_deleteListeners demo_basic ''lb'' [demo_listener ''l99'' ''TCP'' 99] s3 = (Ok (), s4)"
    by (simp add: slb_deleteListeners_def slb_getPool_def s_DeleteListener_def pools_using_def demo_listener_def demo_run)
  obtain s5 where 5: "createOrAssociateEIP demo_basic demo_lb (demo_service Map.empty) s4 = (Ok [], s5)"
    by (simp add: createOrAssociateEIP_def select_eip_def ann parseEIPAutoCreateOptions_def demo_run)
  show ?thesis
    using 1 2 3 4 5 by (simp add: slb_EnsureLoadBalancer_def isSupportedSvc_def ensureLoadBalancerValidation_def ann run_simps)
qed

lemma demo_pools: "\<not> pools_missing (sdk_answers demo_api w es)"
  using demo_answers [of _ _ w es] by (fastforce simp: pools_missing_def reply_def checkStatusCode_def OKCodes_def)

lemma distinct_singleton_list: "distinct xs \<Longrightarrow> set xs = {x} \<Longrightarrow> xs = [x]"
  by (cases xs) (auto simp: subset_singleton_iff)

lemma demo_plan:
  assumes "reconciled (demo_service Map.empty) (sdk_answers demo_api w es) cs"
  shows "cs = [ListenerUpdated ''l80'', ListenerDeleted ''l99'']"
proof -
  let ?ls = "[(''l80'', ''TCP'', 80), (''l99'', ''TCP'', 99)] :: listener_key list" and ?svc = "demo_service Map.empty"
  have ann: "parseProtocol ?svc demo_port = ''TCP''" by (simp add: parseProtocol_def getStringFromSvsAnnotation_def getBoolFromSvsAnnotation_def)
  have serves: "serves_port ?svc (i, pr, n) demo_port \<longleftrightarrow> pr = ''TCP'' \<and> n = 80" for i pr n by (simp add: serves_port_def ann)
  have obs: "fst ` {l \<in> set ?ls. obsolete ?svc l} = {''l99''}" by (force simp: obsolete_def serves)
  have own: "getStringFromSvsAnnotation ?svc ElbID [] = []" by (simp add: getStringFromSvsAnnotation_def)
  obtain lb ls where ls: "(lb, ls) \<in> listings (sdk_answers demo_api w es)" "listener_plan ?svc True lb ls False cs"
    using assms demo_pools [of w es] own unfolding reconciled_def by auto
  from ls(1) have "ls = ?ls" using demo_listings [of w es] by blast
  with ls(2) have "\<exists>dels. cs = map (port_change ?svc lb ?ls) (svc_Ports ?svc) @ map ListenerDeleted dels \<and> distinct dels
      \<and> set dels \<subseteq> {''l99''} \<and> (False \<or> {''l99''} \<subseteq> set dels)" unfolding listener_plan_def if_True by (simp only: obs)
  then obtain dels where cs: "cs = map (port_change ?svc lb ?ls) (svc_Ports ?svc) @ map ListenerDeleted dels" "distinct dels"
    "set dels \<subseteq> {''l99''}" "{''l99''} \<subseteq> set dels" by blast
  then have "dels = [''l99'']" by (intro distinct_singleton_list) auto
  with cs(1) show ?thesis by (simp add: port_change_def serves)
qed

text \<open>The listener \<open>l80\<close> is updated for the one port and the listener \<open>l99\<close> deleted.\<close>

theorem listeners_reconciled_witness:
  "\<exists>t. p_EnsureLoadBalancer (SharedLoadBalancer_provider demo_basic) ''c'' (demo_service Map.empty) [demo_node] start = (Ok (Some [''192.168.0.9'']), t)
     \<and> listener_changes (log t) = [ListenerUpdated ''l80'', ListenerDeleted ''l99'']"
proof -
  obtain t where "slb_EnsureLoadBalancer demo_basic ''c'' (demo_service Map.empty) [demo_node] start = (Ok [''192.168.0.9''], t)"
    using demo_ensure by blast
  then have run: "p_EnsureLoadBalancer (SharedLoadBalancer_provider demo_basic) ''c'' (demo_service Map.empty) [demo_node] start = (Ok (Some [''192.168.0.9'']), t)"
    by (simp add: SharedLoadBalancer_provider_def run_bindR run_okR)
  have "reconciled (demo_service Map.empty) (sdk_answers (clients demo_basic) (world start) (log t)) (listener_changes (log t))"
    using listeners_reconciled [OF _ run, of demo_basic "log t"] demo_sound by (simp add: start_def)
  then have "listener_changes (log t) = [ListenerUpdated ''l80'', ListenerDeleted ''l99'']" by (intro demo_plan) simp
  with run show ?thesis by blast
qed

end
