(* ===== verification/Listeners_Settled.thy ===== *)
theory Listeners_Settled
  imports Listeners_Reconciled
begin

text \<open>
  Two calls of \<open>EnsureLoadBalancer\<close> for the same service, one after the other: once the cloud has done what the first has asked
  for, the second finds every port served and nothing left over. A cloud that keeps its listeners
  from call to call is the example.
\<close>

text \<open>The protocols and ports of the listeners that are created, and the listing when every change has been made.\<close>

definition created :: "listener_change list \<Rightarrow> (string \<times> int) list" where
  "created cs = List.map_filter (\<lambda>c. case c of ListenerCreated _ pr n \<Rightarrow> Some (pr, n) | _ \<Rightarrow> None) cs"

definition results_in :: "listener_change list \<Rightarrow> listener_key list \<Rightarrow> listener_key list \<Rightarrow> bool" where
  "results_in cs ls ls' \<longleftrightarrow> (\<exists>ids. length ids = length (created cs) \<and>
     mset ls' = mset (filter (\<lambda>l. ListenerDeleted (fst l) \<notin> set cs) ls) + mset (zip ids (created cs)))"

lemma set_created: "(pr, n) \<in> set (created cs) \<longleftrightarrow> (\<exists>lb. ListenerCreated lb pr n \<in> set cs)"
  by (induction cs) (auto simp: created_def List.map_filter_simps split: listener_change.splits option.splits)

lemma results_in_set:
  assumes "results_in cs ls ls'"
  shows "snd ` set ls' = snd ` {l \<in> set ls. ListenerDeleted (fst l) \<notin> set cs} \<union> set (created cs)"
proof -
  obtain ids where ids: "length ids = length (created cs)"
    "mset ls' = mset (filter (\<lambda>l. ListenerDeleted (fst l) \<notin> set cs) ls @ zip ids (created cs))"
    using assms by (auto simp: results_in_def)
  have "set (created cs) = snd ` set (zip ids (created cs))" by (metis ids(1) map_snd_zip set_map)
  moreover have "set ls' = {l \<in> set ls. ListenerDeleted (fst l) \<notin> set cs} \<union> set (zip ids (created cs))"
    using mset_eq_setD [OF ids(2)] by simp
  ultimately show ?thesis by (simp only: image_Un)
qed

text \<open>What the plan leaves: every port is served, and in an instance of its own no listener is obsolete.\<close>

lemma plan_created: "listener_plan svc own lb ls m cs \<Longrightarrow> k \<in> set (created cs) \<Longrightarrow> \<exists>p\<in>set (svc_Ports svc). k = (parseProtocol svc p, port_Port p)"
  by (cases k) (fastforce simp: listener_plan_def set_created port_change_def split: option.splits)

lemma plan_deleted: "listener_plan svc own lb ls m cs \<Longrightarrow> ListenerDeleted i \<in> set cs \<Longrightarrow> i \<in> fst ` {l \<in> set ls. obsolete svc l}"
  by (auto simp: listener_plan_def port_change_def split: option.splits if_splits)

lemma plan_all_deleted: "listener_plan svc True lb ls False cs \<Longrightarrow> l \<in> set ls \<Longrightarrow> obsolete svc l \<Longrightarrow> ListenerDeleted (fst l) \<in> set cs"
  by (auto simp: listener_plan_def)

lemma plan_serves:
  assumes "listener_plan svc own lb ls m cs" "well_keyed ls" "results_in cs ls ls'" "p \<in> set (svc_Ports svc)"
  shows "\<exists>l\<in>set ls'. serves_port svc l p"
proof -
  have "(parseProtocol svc p, port_Port p) \<in> snd ` set ls'"
  proof (cases "find (\<lambda>l. serves_port svc l p) ls")
    case None
    then have "ListenerCreated lb (parseProtocol svc p) (port_Port p) \<in> set cs"
      using assms(1,4) by (force simp: listener_plan_def port_change_def)
    then show ?thesis by (auto simp: results_in_set [OF assms(3)] set_created)
  next
    case (Some l)
    then have l: "l \<in> set ls" "serves_port svc l p" by (auto simp: find_Some_iff)
    then have "\<not> obsolete svc l" using assms(4) by (auto simp: obsolete_def)
    then have "ListenerDeleted (fst l) \<notin> set cs"
      using plan_deleted [OF assms(1), of "fst l"] well_keyedD(1) [OF assms(2) l(1)] by fastforce
    moreover have "snd l = (parseProtocol svc p, port_Port p)" using l(2) by (simp add: serves_port_def)
    ultimately show ?thesis using l(1) by (force simp: results_in_set [OF assms(3)])
  qed
  then show ?thesis by (force simp: serves_port_def)
qed

lemma plan_leaves_none:
  assumes "listener_plan svc True lb ls False cs" "results_in cs ls ls'" "l \<in> set ls'"
  shows "\<not> obsolete svc l"
proof -
  have "snd l \<in> snd ` {l \<in> set ls. ListenerDeleted (fst l) \<notin> set cs} \<union> set (created cs)"
    using assms(3) results_in_set [OF assms(2)] by blast
  then show ?thesis
  proof (elim UnE imageE)
    fix k assume "k \<in> {l \<in> set ls. ListenerDeleted (fst l) \<notin> set cs}" "snd l = snd k"
    then have "\<not> obsolete svc k" using plan_all_deleted [OF assms(1)] by blast
    with \<open>snd l = snd k\<close> show ?thesis by (simp add: obsolete_def serves_port_def)
  next
    assume "snd l \<in> set (created cs)"
    then show ?thesis using plan_created [OF assms(1)] by (auto simp: obsolete_def serves_port_def)
  qed
qed

lemma distinct_map_fun: "distinct (map f xs) \<Longrightarrow> (\<And>x y. x \<in> set xs \<Longrightarrow> y \<in> set xs \<Longrightarrow> g x = g y \<Longrightarrow> f x = f y) \<Longrightarrow> distinct (map g xs)"
  unfolding distinct_map inj_on_def by meson

text \<open>Where every port is served and nothing is obsolete, the plan is to update one listener for each port.\<close>

lemma plan_settled:
  assumes plan: "listener_plan svc own lb ls m cs" and keyed: "well_keyed ls"
    and served: "\<And>p. p \<in> set (svc_Ports svc) \<Longrightarrow> \<exists>l\<in>set ls. serves_port svc l p"
    and none: "own \<Longrightarrow> \<forall>l\<in>set ls. \<not> obsolete svc l"
    and ports: "distinct (map (\<lambda>p. (parseProtocol svc p, port_Port p)) (svc_Ports svc))"
  shows "\<exists>ids. cs = map ListenerUpdated ids \<and> length ids = length (svc_Ports svc) \<and> distinct ids"
proof -
  define of_port where "of_port = (\<lambda>p. fst (the (find (\<lambda>l. serves_port svc l p) ls)))"
  have found: "\<exists>l\<in>set ls. serves_port svc l p \<and> find (\<lambda>l. serves_port svc l p) ls = Some l" if "p \<in> set (svc_Ports svc)" for p
    using served [OF that] by (cases "find (\<lambda>l. serves_port svc l p) ls") (auto simp: find_None_iff find_Some_iff)
  have "port_change svc lb ls p = ListenerUpdated (of_port p)" if "p \<in> set (svc_Ports svc)" for p
    using found [OF that] by (auto simp: port_change_def of_port_def)
  then have cs: "map (port_change svc lb ls) (svc_Ports svc) = map ListenerUpdated (map of_port (svc_Ports svc))" by simp
  have "distinct (map of_port (svc_Ports svc))"
  proof (rule distinct_map_fun [OF ports])
    fix p q assume p: "p \<in> set (svc_Ports svc)" "q \<in> set (svc_Ports svc)" "of_port p = of_port q"
    obtain l k where "l \<in> set ls" "serves_port svc l p" "find (\<lambda>l. serves_port svc l p) ls = Some l"
      "k \<in> set ls" "serves_port svc k q" "find (\<lambda>l. serves_port svc l q) ls = Some k" using found p by blast
    with p(3) well_keyedD(1) [OF keyed, of l k] show "(parseProtocol svc p, port_Port p) = (parseProtocol svc q, port_Port q)"
      by (auto simp: of_port_def serves_port_def)
  qed
  moreover have "cs = map (port_change svc lb ls) (svc_Ports svc)"
  proof -
    have "{l \<in> set ls. obsolete svc l} = {}" if own using none [OF that] by blast
    with plan show ?thesis by (cases own) (auto simp: listener_plan_def)
  qed
  ultimately show ?thesis using cs by (intro exI [of _ "map of_port (svc_Ports svc)"]) simp
qed


subsection \<open>A cloud that keeps its listeners\<close>

text \<open>
  The world is the listing: a deletion and a creation change it, every other request is answered as in the scenario. There
  are no pods, and no members.
\<close>

definition live_sdk :: "listener_key list \<Rightarrow> sdk_request \<Rightarrow> payload \<times> listener_key list" where
  "live_sdk ls r = (case r of
       ElbV2 (ListListenersReq _) \<Rightarrow> (PListeners (map (\<lambda>(i, pr, n). demo_listener i pr n) ls), ls)
     | ElbV2 (DeleteListenerReq i) \<Rightarrow> (PNone, filter (\<lambda>l. fst l \<noteq> i) ls)
     | ElbV3 (V3CreateListener c) \<Rightarrow>
         (PListener3 (demo_listener3 ''l80'' (co_Protocol c) (co_ProtocolPort c)), ls @ [(''l80'', co_Protocol c, co_ProtocolPort c)])
     | ElbV2 (ListMembersReq _) \<Rightarrow> (PMembers [], ls)
     | _ \<Rightarrow> (demo_sdk r, ls))"

definition live_api :: "listener_key list api" where
  "live_api = \<lparr>sdk_call = (\<lambda>w r. case live_sdk w r of (p, w') \<Rightarrow> (reply p, w')), kube_call = (\<lambda>w r. (Inr (KPods []), w)),
     http_call = (\<lambda>w r. (Inl (Errorf ''no route to host''), w)), url_parses = (\<lambda>_. True), lookup_host = (\<lambda>_ _. Inr [])\<rparr>"

definition live_basic :: "listener_key list Basic" where
  "live_basic = \<lparr>cloudConfig = demo_config, loadbalancerOpts = LoadBalancerOpts NewDefaultELBConfig,
     networkingOpts = NetworkingOpts NewDefaultELBConfig, metadataOpts = MetadataOpts NewDefaultELBConfig,
     clients = live_api, decoders = demo_codecs\<rparr>"

lemma live_call:
  "commonWrapper live_api req sel s =
     ((case sel (fst (live_sdk (world s) req)) of None \<Rightarrow> Err (Errorf ''error, cannot convert'') | Some x \<Rightarrow> Ok x),
      s\<lparr>log := log s @ [Sdk req], world := snd (live_sdk (world s) req)\<rparr>)"
  by (cases s) (simp add: commonWrapper_def live_api_def reply_def remote_def checkStatusCode_def OKCodes_def run_simps
      split: option.splits prod.splits)

lemma live_sdk_call: "sdk_call live_api w r = (reply (fst (live_sdk w r)), snd (live_sdk w r))" "snd (kube_call live_api w k) = w"
  by (simp_all add: live_api_def split: prod.splits)

lemma live_listPods: "listPods live_api ns sel s = (Ok [], s\<lparr>log := log s @ [Kube (ListPods ns sel)]\<rparr>)"
  by (cases s) (simp add: listPods_def live_api_def remote_def run_simps)

lemma live_clients [simp]: "clients live_basic = live_api" "decoders live_basic = demo_codecs"
  "PrimaryNic (loadbalancerOpts live_basic) = []" "LBAlgorithm (loadbalancerOpts live_basic) = []"
  "LoadBalancerClass (loadbalancerOpts live_basic) = []" "KeepEIP (loadbalancerOpts live_basic) = False"
  by (simp_all add: live_basic_def NewDefaultELBConfig_def lb_initDefaultValue_def zero_LoadBalancerOptions_def)

lemma live_annotation [simp]: "getStringFromSvsAnnotation (demo_service Map.empty) k d = d" "getBoolFromSvsAnnotation (demo_service Map.empty) k e = e"
  by (simp_all add: getStringFromSvsAnnotation_def getBoolFromSvsAnnotation_def)

lemmas live_run = live_call live_listPods live_sdk_def run_simps payload_selectors wrapper0_def s_client_defs d_client_defs e_client_defs
  listPodsBySelector_def


lemmas live_steps = live_run slb_EnsureLoadBalancer_def isSupportedSvc_def ensureLoadBalancerValidation_def slb_ensure_instance_def
  slb_getLoadBalancerInstance_def slb_ensure_port_def slb_filterListenerByPort_def slb_createListener_def slb_updateListener_def
  convertToListenerV2_def slb_listener_option_def parseProtocol_def slb_getOrCreatePool_def slb_getPool_def slb_ensurePoolAlgorithm_def
  slb_addOrRemoveMembers_def sync_members_def nodeNameMapping_def slb_health_with_first_node_def slb_ensureHealthCheck_def slb_updateHealthMonitor_def
  getHealthCheckOptionFromAnnotation_def slb_deleteListeners_def s_DeleteListener_def pools_using_def slb_popListener_def pop_first_def
  createOrAssociateEIP_def select_eip_def parseEIPAutoCreateOptions_def demo_listener_def demo_listener3_def trim_quotes_def demo_codecs_def

abbreviation live_state :: "listener_key list \<Rightarrow> (listener_key list, event) sys" where
  "live_state ls \<equiv> \<lparr>world = ls, log = []\<rparr>"

lemmas live_answers = live_sdk_call reply_def listings_def listing_def new_ids_def new_id_def pools_missing_def checkStatusCode_def OKCodes_def
  sound_listings_def well_keyed_def listener_change_of_def

text \<open>The first call creates the listener of the port and deletes the listener that is left over.\<close>

lemma live_first: "\<exists>t. slb_EnsureLoadBalancer live_basic ''c'' (demo_service Map.empty) [demo_node] (live_state [(''l99'', ''TCP'', 99)])
      = (Ok [''192.168.0.9''], t) \<and> world t = [(''l80'', ''TCP'', 80)]
    \<and> listener_changes (log t) = [ListenerCreated ''lb'' ''TCP'' 80, ListenerDeleted ''l99'']
    \<and> listings (sdk_answers live_api [(''l99'', ''TCP'', 99)] (log t)) = {(''lb'', [(''l99'', ''TCP'', 99)])}
    \<and> sound_listings (sdk_answers live_api [(''l99'', ''TCP'', 99)] (log t))
    \<and> \<not> pools_missing (sdk_answers live_api [(''l99'', ''TCP'', 99)] (log t))"
  by (simp add: live_steps live_answers Let_def List.map_filter_simps)

lemma live_second: "\<exists>t. slb_EnsureLoadBalancer live_basic ''c'' (demo_service Map.empty) [demo_node] (live_state [(''l80'', ''TCP'', 80)])
      = (Ok [''192.168.0.9''], t)
    \<and> listings (sdk_answers live_api [(''l80'', ''TCP'', 80)] (log t)) = {(''lb'', [(''l80'', ''TCP'', 80)])}
    \<and> sound_listings (sdk_answers live_api [(''l80'', ''TCP'', 80)] (log t))"
  by (simp add: live_steps live_answers Let_def List.map_filter_simps)

text \<open>
  C4. A second call finds nothing left to do: when \<open>EnsureLoadBalancer\<close> of a service has succeeded and the listing a later
  successful call is given is what the first call's changes make of its listing, then the second call neither creates nor
  deletes a listener; it updates one for each port, each once.
\<close>

theorem second_call_only_updates:
  assumes "P \<in> {SharedLoadBalancer_provider b, DedicatedLoadBalancer_provider b}"
    and ports: "distinct (map (\<lambda>p. (parseProtocol svc p, port_Port p)) (svc_Ports svc))"
    and "p_EnsureLoadBalancer P c svc nodes s = (Ok st, t)" "log t = log s @ es"
    and "sound_listings (sdk_answers (clients b) (world s) es)" "\<not> pools_missing (sdk_answers (clients b) (world s) es)"
    and "listings (sdk_answers (clients b) (world s) es) = {(lb, ls)}"
    and "p_EnsureLoadBalancer P c svc nodes' s' = (Ok st', t')" "log t' = log s' @ es'"
    and "sound_listings (sdk_answers (clients b) (world s') es')"
    and "listings (sdk_answers (clients b) (world s') es') = {(lb, ls')}" "results_in (listener_changes es) ls ls'"
  shows "\<exists>ids. listener_changes es' = map ListenerUpdated ids \<and> length ids = length (svc_Ports svc) \<and> distinct ids"
proof -
  let ?own = "getStringFromSvsAnnotation svc ElbID [] = []"
  have 1: "listener_plan svc ?own lb ls False (listener_changes es)"
    using ensure_reconciled_either [OF assms(1,3,4,5) ports] assms(6,7) by (simp add: reconciled_def)
  have 2: "\<exists>m. listener_plan svc ?own lb ls' m (listener_changes es')"
    using ensure_reconciled_either [OF assms(1,8,9,10) ports] assms(11) by (auto simp: reconciled_def)
  have keyed: "well_keyed ls" "well_keyed ls'" using assms(5,7,10,11) by (auto simp: sound_listings_def)
  from 2 obtain m where m: "listener_plan svc ?own lb ls' m (listener_changes es')" by blast
  show ?thesis
    by (rule plan_settled [OF m keyed(2) plan_serves [OF 1 keyed(1) assms(12)] _ ports]) (use plan_leaves_none [OF _ assms(12)] 1 in auto)
qed

theorem second_call_only_updates_witness:
  "\<exists>t t'. p_EnsureLoadBalancer (SharedLoadBalancer_provider live_basic) ''c'' (demo_service Map.empty) [demo_node] (live_state [(''l99'', ''TCP'', 99)])
       = (Ok (Some [''192.168.0.9'']), t)
     \<and> p_EnsureLoadBalancer (SharedLoadBalancer_provider live_basic) ''c'' (demo_service Map.empty) [demo_node] (live_state (world t))
       = (Ok (Some [''192.168.0.9'']), t')
     \<and> (\<exists>i. listener_changes (log t') = [ListenerUpdated i])"
proof -
  let ?P = "SharedLoadBalancer_provider live_basic" and ?svc = "demo_service Map.empty"
  obtain t where t: "slb_EnsureLoadBalancer live_basic ''c'' ?svc [demo_node] (live_state [(''l99'', ''TCP'', 99)]) = (Ok [''192.168.0.9''], t)"
    "world t = [(''l80'', ''TCP'', 80)]" "listener_changes (log t) = [ListenerCreated ''lb'' ''TCP'' 80, ListenerDeleted ''l99'']"
    "listings (sdk_answers live_api [(''l99'', ''TCP'', 99)] (log t)) = {(''lb'', [(''l99'', ''TCP'', 99)])}"
    "sound_listings (sdk_answers live_api [(''l99'', ''TCP'', 99)] (log t))"
    "\<not> pools_missing (sdk_answers live_api [(''l99'', ''TCP'', 99)] (log t))" using live_first by blast
  obtain t' where t': "slb_EnsureLoadBalancer live_basic ''c'' ?svc [demo_node] (live_state [(''l80'', ''TCP'', 80)]) = (Ok [''192.168.0.9''], t')"
    "listings (sdk_answers live_api [(''l80'', ''TCP'', 80)] (log t')) = {(''lb'', [(''l80'', ''TCP'', 80)])}"
    "sound_listings (sdk_answers live_api [(''l80'', ''TCP'', 80)] (log t'))" using live_second by blast
  have runs: "p_EnsureLoadBalancer ?P ''c'' ?svc [demo_node] (live_state [(''l99'', ''TCP'', 99)]) = (Ok (Some [''192.168.0.9'']), t)"
    "p_EnsureLoadBalancer ?P ''c'' ?svc [demo_node] (live_state (world t)) = (Ok (Some [''192.168.0.9'']), t')"
    using t(1,2) t'(1) by (simp_all add: SharedLoadBalancer_provider_def run_bindR run_okR)
  have "results_in (listener_changes (log t)) [(''l99'', ''TCP'', 99)] [(''l80'', ''TCP'', 80)]"
    unfolding results_in_def by (rule exI [of _ "[''l80'']"]) (simp add: t(3) created_def List.map_filter_simps)
  then have "\<exists>ids. listener_changes (log t') = map ListenerUpdated ids \<and> length ids = length (svc_Ports ?svc) \<and> distinct ids"
    using second_call_only_updates [OF _ _ runs(1) _ _ _ _ runs(2), of live_basic "log t" "''lb''" "[(''l99'', ''TCP'', 99)]" "log t'" "[(''l80'', ''TCP'', 80)]"]
      t t' by simp
  with runs show ?thesis by (fastforce simp: length_Suc_conv)
qed

end
