(* ===== verification/Listener_Requests.thy ===== *)
theory Listener_Requests
  imports Scenario
begin

text \<open>
  The timeouts of the listeners that both load balancers ask for, over whole runs of \<open>EnsureLoadBalancer\<close>: every request
  that creates or updates a listener is accounted for, whichever branch sends it and whatever the cloud answers.
\<close>

subsection \<open>What a request has to carry\<close>

text \<open>
  The timeout \<open>t\<close> sent for the number \<open>n\<close> of the annotation or the configuration: none for zero, otherwise the 32-bit integer
  that agrees with \<open>n\<close> modulo 2 to the 32 (so \<open>n\<close> itself, if it is one).
\<close>

definition timeout_sent :: "int \<Rightarrow> int option \<Rightarrow> bool" where
  "timeout_sent n t = (case t of None \<Rightarrow> n = 0 | Some x \<Rightarrow> n \<noteq> 0 \<and> - (2 ^ 31) \<le> x \<and> x < 2 ^ 31 \<and> 2 ^ 32 dvd n - x)"

text \<open>Only listeners of the protocols HTTP and TERMINATED_HTTPS have timeouts for requests and responses.\<close>

definition timeouts_sent :: "LoadBalancerOptions \<Rightarrow> service \<Rightarrow> service_port \<Rightarrow> int option \<Rightarrow> int option \<Rightarrow> int option \<Rightarrow> bool" where
  "timeouts_sent opts svc p keepalive client member =
     (timeout_sent (getIntFromSvsAnnotation svc ''kubernetes.io/elb.idle-timeout'' (IdleTimeout opts)) keepalive \<and>
      (if parseProtocol svc p \<in> {''HTTP'', ''TERMINATED_HTTPS''}
       then timeout_sent (getIntFromSvsAnnotation svc ''kubernetes.io/elb.request-timeout'' (RequestTimeout opts)) client \<and>
            timeout_sent (getIntFromSvsAnnotation svc ''kubernetes.io/elb.response-timeout'' (ResponseTimeout opts)) member
       else client = None \<and> member = None))"

text \<open>The requests of the version 2 interface for listeners are not used.\<close>

fun listener_request_ok :: "LoadBalancerOptions \<Rightarrow> service \<Rightarrow> event \<Rightarrow> bool" where
  "listener_request_ok opts svc (Sdk (ElbV3 (V3CreateListener req))) =
     (\<exists>p\<in>set (svc_Ports svc). co_ProtocolPort req = port_Port p \<and> co_Protocol req = parseProtocol svc p \<and>
        timeouts_sent opts svc p (co_KeepaliveTimeout req) (co_ClientTimeout req) (co_MemberTimeout req))"
| "listener_request_ok opts svc (Sdk (ElbV3 (V3UpdateListener lid req))) =
     (\<exists>p\<in>set (svc_Ports svc). timeouts_sent opts svc p (uo_KeepaliveTimeout req) (uo_ClientTimeout req) (uo_MemberTimeout req))"
| "listener_request_ok opts svc (Sdk (ElbV2 (CreateListenerRequest req))) = False"
| "listener_request_ok opts svc (Sdk (ElbV2 (UpdateListenerRequest lid req))) = False"
| "listener_request_ok opts svc _ = True"

definition ok_requests :: "LoadBalancerOptions \<Rightarrow> service \<Rightarrow> event set" where
  "ok_requests opts svc = {e. listener_request_ok opts svc e}"

lemma timeout_opt_sent: "timeout_sent (getIntFromSvsAnnotation svc key d) (timeout_opt svc key d)"
proof -
  have "2 ^ 32 dvd n - to_int32 n" for n :: int
  proof -
    have "to_int32 n = (n + 2 ^ 31) mod 2 ^ 32 - 2 ^ 31"
      by (simp add: to_int32_def signed_take_bit_eq_take_bit_shift take_bit_eq_mod)
    moreover have "n + 2 ^ 31 - (n + 2 ^ 31) mod 2 ^ 32 = 2 ^ 32 * ((n + 2 ^ 31) div 2 ^ 32)"
      by (rule minus_mod_eq_mult_div)
    ultimately show ?thesis by (metis add_diff_eq diff_diff_eq2 dvd_triv_left)
  qed
  then show ?thesis using to_int32_range by (simp add: timeout_sent_def timeout_opt_def Let_def)
qed

subsection \<open>The runs of the providers\<close>

lemma emits_quiet:
  assumes "emits m (kinds (- {KListener}))"
  shows "emits m (ok_requests opts svc)"
proof (rule emits_mono [OF assms])
  have "listener_request_ok opts svc e" if "kind_of e \<noteq> KListener" for e
    using that by (cases "(opts, svc, e)" rule: listener_request_ok.cases) simp_all
  then show "kinds (- {KListener}) \<subseteq> ok_requests opts svc" by (auto simp: ok_requests_def)
qed

lemma emits_ok_call:
  "listener_request_ok opts svc (Sdk req) \<Longrightarrow> emits (commonWrapper A req sel) (ok_requests opts svc)"
  "listener_request_ok opts svc (Sdk req) \<Longrightarrow> emits (wrapper0 A req) (ok_requests opts svc)"
  by (intro emits_intro; simp add: ok_requests_def)+

lemmas emits_flow = emits_bindR emits_foldR emits_attempt emits_case_sum emits_case_option emits_case_list emits_if emits_Let
  emits_okR emits_errR emits_panicR emits_deref

lemma emits_delete_request:
  "emits (s_DeleteListener A eid lid) (ok_requests opts svc)" "emits (d_DeleteListener A eid lid) (ok_requests opts svc)"
  unfolding s_DeleteListener_def d_DeleteListener_def s_ListPools_def s_GetListener_def d_ListPools_def
  by (intro emits_flow emits_ok_call; simp)+

lemma emits_deleteListeners:
  "emits (slb_deleteListeners b eid ls) (ok_requests opts svc)" "emits (dlb_deleteListeners b eid ls3) (ok_requests opts svc)"
proof -
  have parts: "emits (slb_getPool b e l) (ok_requests opts svc)" "emits (slb_deletePool b pool) (ok_requests opts svc)"
    "emits (dlb_getPool b e l) (ok_requests opts svc)" "emits (dlb_deletePool b pool) (ok_requests opts svc)" for e l pool
    by (rule emits_quiet; intro emits_intro; simp)+
  show "emits (slb_deleteListeners b eid ls) (ok_requests opts svc)" "emits (dlb_deleteListeners b eid ls3) (ok_requests opts svc)"
    unfolding slb_deleteListeners_def dlb_deleteListeners_def Let_def
    by (intro emits_flow emits_delete_request parts)+
qed

lemma emits_list_listeners:
  "emits (s_ListListeners A eid) (ok_requests opts svc)" "emits (d_ListListeners A eid) (ok_requests opts svc)"
  by (rule emits_quiet; intro emits_intro; simp)+

lemma emits_slb_deleted: "emits (slb_EnsureLoadBalancerDeleted b c svc) (ok_requests opts svc)"
proof -
  have parts: "emits (slb_getLoadBalancerInstance b c svc) (ok_requests opts svc)" "emits (unbindEIP (clients b) port eid keep) (ok_requests opts svc)"
    "emits (s_DeleteInstance (clients b) i) (ok_requests opts svc)" for port eid keep i
    by (rule emits_quiet; intro emits_intro; simp)+
  show ?thesis
    unfolding slb_EnsureLoadBalancerDeleted_def slb_deleteListener_def slb_deleteELBInstance_def
    by (intro emits_flow emits_list_listeners emits_deleteListeners parts)
qed

lemma emits_slb_listener:
  assumes "p \<in> set (svc_Ports svc)"
  shows "emits (slb_createListener b eid svc p) (ok_requests (loadbalancerOpts b) svc)"
    and "li_Protocol l = parseProtocol svc p \<Longrightarrow> emits (slb_updateListener b l svc) (ok_requests (loadbalancerOpts b) svc)"
proof -
  have convert: "emits (convertToListenerV2 x) (ok_requests (loadbalancerOpts b) svc)" for x by (rule emits_convertToListenerV2)
  have "timeouts_sent (loadbalancerOpts b) svc p (co_KeepaliveTimeout (slb_listener_option (loadbalancerOpts b) eid svc p))
      (co_ClientTimeout (slb_listener_option (loadbalancerOpts b) eid svc p)) (co_MemberTimeout (slb_listener_option (loadbalancerOpts b) eid svc p))"
    by (auto simp: slb_listener_option_def Let_def timeouts_sent_def timeout_opt_sent parseProtocol_def)
  moreover have "co_ProtocolPort (slb_listener_option (loadbalancerOpts b) eid svc p) = port_Port p"
    "co_Protocol (slb_listener_option (loadbalancerOpts b) eid svc p) = parseProtocol svc p"
    by (auto simp: slb_listener_option_def Let_def parseProtocol_def)
  ultimately show "emits (slb_createListener b eid svc p) (ok_requests (loadbalancerOpts b) svc)"
    unfolding slb_createListener_def d_CreateListener_def using assms by (intro emits_flow emits_ok_call convert) auto
  show "emits (slb_updateListener b l svc) (ok_requests (loadbalancerOpts b) svc)" if "li_Protocol l = parseProtocol svc p"
    unfolding slb_updateListener_def d_UpdateListener_def Let_def
    by (rule emits_ok_call) (use assms that in \<open>auto simp: timeouts_sent_def timeout_opt_sent intro!: bexI [of _ p]\<close>)
qed

lemma emits_slb_port:
  assumes "p \<in> set (svc_Ports svc)"
  shows "emits (slb_ensure_port b lb svc nodes p ls) (ok_requests (loadbalancerOpts b) svc)"
proof -
  have "li_Protocol l = parseProtocol svc p" if "slb_filterListenerByPort ls svc p = Some l" for l
    using that by (auto simp: slb_filterListenerByPort_def Let_def find_Some_iff)
  note protocol = this
  have parts: "emits (slb_getOrCreatePool b e l svc) (ok_requests (loadbalancerOpts b) svc)"
    "emits (slb_ensurePoolAlgorithm b pool svc) (ok_requests (loadbalancerOpts b) svc)"
    "emits (slb_addOrRemoveMembers b lb svc pool p nodes) (ok_requests (loadbalancerOpts b) svc)"
    "emits (slb_health_with_first_node b e pool p svc nodes) (ok_requests (loadbalancerOpts b) svc)" for e l pool
    by (rule emits_quiet; intro emits_intro; simp)+
  show ?thesis
    unfolding slb_ensure_port_def by (intro emits_flow emits_slb_listener [OF assms] protocol parts)
qed

lemma emits_dlb_listener:
  assumes "p \<in> set (svc_Ports svc)"
  shows "emits (dlb_createListener b eid svc p) (ok_requests (loadbalancerOpts b) svc)"
    and "emits (dlb_updateListener b l svc p) (ok_requests (loadbalancerOpts b) svc)"
  unfolding dlb_createListener_def dlb_updateListener_def d_CreateListener_def d_UpdateListener_def Let_def
  using assms by (intro emits_flow emits_ok_call; auto simp: timeouts_sent_def timeout_opt_sent parseProtocol_def intro!: bexI [of _ p])+

lemma emits_dlb_port:
  assumes "p \<in> set (svc_Ports svc)"
  shows "emits (dlb_ensure_port b lb svc nodes p ls) (ok_requests (loadbalancerOpts b) svc)"
proof -
  have parts: "emits (dlb_getOrCreatePool b e l svc) (ok_requests (loadbalancerOpts b) svc)"
    "emits (dlb_ensurePoolAlgorithm b pool svc) (ok_requests (loadbalancerOpts b) svc)"
    "emits (dlb_addOrRemoveMembers b lb svc pool p nodes) (ok_requests (loadbalancerOpts b) svc)"
    "emits (dlb_health_with_first_node b e pool p svc nodes) (ok_requests (loadbalancerOpts b) svc)" for e l pool
    by (rule emits_quiet; intro emits_intro; simp)+
  show ?thesis
    unfolding dlb_ensure_port_def by (intro emits_flow emits_dlb_listener [OF assms] parts)
qed

lemma emits_ensure:
  "emits (slb_EnsureLoadBalancer b c svc nodes) (ok_requests (loadbalancerOpts b) svc)"
  "emits (dlb_EnsureLoadBalancer b c svc nodes) (ok_requests (loadbalancerOpts b) svc)"
proof -
  have parts: "emits (slb_ensure_instance b c svc) (ok_requests (loadbalancerOpts b) svc)" "emits (createOrAssociateEIP b lb svc) (ok_requests (loadbalancerOpts b) svc)"
    "emits (dlb_ensure_instance b c svc nodes) (ok_requests (loadbalancerOpts b) svc)" for lb
    by (rule emits_quiet; intro emits_intro; simp)+
  show "emits (slb_EnsureLoadBalancer b c svc nodes) (ok_requests (loadbalancerOpts b) svc)"
    unfolding slb_EnsureLoadBalancer_def
    by (intro emits_flow emits_list_listeners emits_deleteListeners emits_slb_deleted emits_slb_port parts)
  show "emits (dlb_EnsureLoadBalancer b c svc nodes) (ok_requests (loadbalancerOpts b) svc)"
    unfolding dlb_EnsureLoadBalancer_def
    by (intro emits_flow emits_list_listeners emits_deleteListeners emits_dlb_port parts)
qed

text \<open>
  C16. In every run of \<open>EnsureLoadBalancer\<close> of both load balancers, each request that creates a listener is for the number and the
  protocol of a port of the service, and each request that creates or updates one carries the timeouts of the service: the idle
  timeout, and for the HTTP protocols those of requests and responses (for other protocols none of these two). A timeout of zero
  is not sent; any other is sent as a 32-bit integer that agrees with it modulo 2 to the 32.
\<close>

theorem listener_timeouts_sent:
  "(\<exists>es. log (snd (slb_EnsureLoadBalancer b c svc nodes s)) = log s @ es \<and> list_all (listener_request_ok (loadbalancerOpts b) svc) es)
   \<and> (\<exists>es. log (snd (dlb_EnsureLoadBalancer b c svc nodes s)) = log s @ es \<and> list_all (listener_request_ok (loadbalancerOpts b) svc) es)"
proof -
  have "list_all (listener_request_ok (loadbalancerOpts b) svc) es" if "set es \<subseteq> ok_requests (loadbalancerOpts b) svc" for es
    using that by (auto simp: ok_requests_def list_all_iff)
  then show ?thesis using emits_ensure [of b c svc nodes] unfolding emits_def by blast
qed

text \<open>A timeout that fits is sent as it is; 4294967306 is sent as 10.\<close>

lemma timeout_fits:
  assumes "- (2 ^ 31) \<le> n" "n < 2 ^ 31"
  shows "timeout_sent n (Some x) \<longleftrightarrow> n \<noteq> 0 \<and> x = n"
proof -
  have "x = n" if "- (2 ^ 31) \<le> x" "x < 2 ^ 31" "2 ^ 32 dvd n - x"
    using that assms dvd_imp_le_int [of "n - x" "2 ^ 32"] by fastforce
  with assms show ?thesis by (auto simp: timeout_sent_def)
qed

lemma timeout_truncated: "timeout_sent 4294967306 (Some 10)"
  by (simp add: timeout_sent_def)

end
