(* ===== verification/Session_Affinity.thy ===== *)
theory Session_Affinity
  imports Scenario
begin

text \<open>
  What \<open>getSessionAffinity\<close> of both load balancers does to the configuration they share. The option of the configuration is
  copied, but its cookie name and its timeout are pointers: \<open>json.Unmarshal\<close> writes a value it finds for such a field through a
  pointer that is set, so that the configuration has it from then on; where the pointer is nil, or the document says \<open>null\<close>, only the
  copy changes. The definitions of the load balancers take the configuration as it is when a call begins; here is what it is
  after the option of a service was read, for documents that name a field at most once.
\<close>

definition written_through :: "'a option \<Rightarrow> 'a option \<Rightarrow> 'a option" where
  "written_through pointer decoded = (case pointer of
      None \<Rightarrow> None
    | Some old \<Rightarrow> (case decoded of None \<Rightarrow> Some old | Some new \<Rightarrow> Some new))"

definition affinity_opts_after :: "codecs \<Rightarrow> LoadBalancerOptions \<Rightarrow> service \<Rightarrow> LoadBalancerOptions" where
  "affinity_opts_after cd globalOpts svc =
     (let sessionMode = getStringFromSvsAnnotation svc ElbSessionAffinityFlag (SessionAffinityFlag globalOpts);
          opts = getStringFromSvsAnnotation svc ElbSessionAffinityOption []
      in if sessionMode = [] \<or> sessionMode = ''off'' \<or> opts = [] then globalOpts
         else let pointers = SessionAffinityOption globalOpts; decoded = fst (json_session cd opts pointers)
              in globalOpts\<lparr>SessionAffinityOption := pointers\<lparr>
                   sp_CookieName := written_through (sp_CookieName pointers) (sp_CookieName decoded),
                   sp_PersistenceTimeout := written_through (sp_PersistenceTimeout pointers) (sp_PersistenceTimeout decoded)\<rparr>\<rparr>)"

text \<open>The options used for services one after the other, and the configuration in the end.\<close>

fun affinity_sequence :: "codecs \<Rightarrow> LoadBalancerOptions \<Rightarrow> service list \<Rightarrow> SessionPersistence option list \<times> LoadBalancerOptions" where
  "affinity_sequence cd globalOpts [] = ([], globalOpts)"
| "affinity_sequence cd globalOpts (svc # svcs) =
     (let (ps, final) = affinity_sequence cd (affinity_opts_after cd globalOpts svc) svcs
      in (sessionAffinity cd globalOpts svc # ps, final))"

subsection \<open>What stays and what leaks\<close>

lemma written_through_simps [simp]:
  "written_through None d = None" "written_through p None = p" "written_through (Some x) (Some y) = Some y"
  by (simp_all add: written_through_def split: option.split)

text \<open>With no cookie name and no timeout in the configuration, as by default, every service gets its own option.\<close>

lemma affinity_opts_unset:
  assumes "sp_CookieName (SessionAffinityOption opts) = None" "sp_PersistenceTimeout (SessionAffinityOption opts) = None"
  shows "affinity_opts_after cd opts svc = opts"
proof -
  have "SessionAffinityOption opts\<lparr>sp_CookieName := None, sp_PersistenceTimeout := None\<rparr> = SessionAffinityOption opts"
    using assms by (cases "SessionAffinityOption opts") simp
  then show ?thesis using assms by (simp add: affinity_opts_after_def Let_def)
qed

lemma affinity_sequence_unset:
  assumes "sp_CookieName (SessionAffinityOption opts) = None" "sp_PersistenceTimeout (SessionAffinityOption opts) = None"
  shows "affinity_sequence cd opts svcs = (map (sessionAffinity cd opts) svcs, opts)"
  by (induction svcs) (simp_all add: affinity_opts_unset [OF assms])

text \<open>Nothing but the cookie name and the timeout can change, and neither is ever unset.\<close>

lemma affinity_opts_frame:
  "\<exists>c t. affinity_opts_after cd opts svc = opts\<lparr>SessionAffinityOption := SessionAffinityOption opts\<lparr>sp_CookieName := c, sp_PersistenceTimeout := t\<rparr>\<rparr>
     \<and> (c = None \<longleftrightarrow> sp_CookieName (SessionAffinityOption opts) = None)
     \<and> (t = None \<longleftrightarrow> sp_PersistenceTimeout (SessionAffinityOption opts) = None)"
proof (cases "affinity_opts_after cd opts svc = opts")
  case True
  then show ?thesis
    by (intro exI [of _ "sp_CookieName (SessionAffinityOption opts)"] exI [of _ "sp_PersistenceTimeout (SessionAffinityOption opts)"]) simp
next
  case False
  have set: "written_through p d = None \<longleftrightarrow> p = None" for p d :: "'b option" by (simp add: written_through_def split: option.split)
  let ?decoded = "fst (json_session cd (getStringFromSvsAnnotation svc ElbSessionAffinityOption []) (SessionAffinityOption opts))"
  show ?thesis
    using False unfolding affinity_opts_after_def Let_def
    by (intro exI [of _ "written_through (sp_CookieName (SessionAffinityOption opts)) (sp_CookieName ?decoded)"]
        exI [of _ "written_through (sp_PersistenceTimeout (SessionAffinityOption opts)) (sp_PersistenceTimeout ?decoded)"])
      (simp add: set split: if_splits)
qed

text \<open>
  A timeout in the configuration is replaced by the one a service asks for, and a later service that asks for none gets the timeout
  of the first.
\<close>

lemma affinity_option_leaks:
  assumes "sp_PersistenceTimeout (SessionAffinityOption opts) = Some old"
    and "getStringFromSvsAnnotation svc1 ElbSessionAffinityFlag (SessionAffinityFlag opts) \<notin> {[], ''off''}"
    and "getStringFromSvsAnnotation svc1 ElbSessionAffinityOption [] = doc" "doc \<noteq> []"
    and "sp_PersistenceTimeout (fst (json_session cd doc (SessionAffinityOption opts))) = Some new"
    and "getStringFromSvsAnnotation svc2 ElbSessionAffinityFlag (SessionAffinityFlag opts) \<notin> {[], ''off''}"
    and "getStringFromSvsAnnotation svc2 ElbSessionAffinityOption [] = []"
  shows "map_option sp_PersistenceTimeout (sessionAffinity cd opts svc2) = Some (Some old)"
    and "map_option sp_PersistenceTimeout (sessionAffinity cd (affinity_opts_after cd opts svc1) svc2) = Some (Some new)"
  using assms by (simp_all add: sessionAffinity_def affinity_opts_after_def Let_def)

text \<open>Two services, the first of which asks for 30 minutes where the configuration has 15: the second gets 30 as well.\<close>

definition affinity_codecs :: codecs where
  "affinity_codecs = demo_codecs\<lparr>json_session := (\<lambda>doc p. (p\<lparr>sp_PersistenceTimeout := Some 30\<rparr>, None))\<rparr>"

lemma affinity_option_leaks_example:
  "map (map_option sp_PersistenceTimeout)
     (fst (affinity_sequence affinity_codecs
       (LoadBalancerOpts NewDefaultELBConfig\<lparr>SessionAffinityOption := \<lparr>sp_Type = ''SOURCE_IP'', sp_CookieName = None, sp_PersistenceTimeout = Some 15\<rparr>\<rparr>)
       [demo_service [ElbSessionAffinityFlag \<mapsto> ''on''],
        demo_service [ElbSessionAffinityFlag \<mapsto> ''on'', ElbSessionAffinityOption \<mapsto> ''(persistence_timeout: 30)''],
        demo_service [ElbSessionAffinityFlag \<mapsto> ''on'']]))
   = [Some (Some 15), Some (Some 30), Some (Some 30)]"
  by (simp add: sessionAffinity_def affinity_opts_after_def getStringFromSvsAnnotation_def affinity_codecs_def Let_def)

end
