(* ===== verification/Json_Text.thy ===== *)
theory Json_Text
  imports CCM_Prelude
begin

text \<open>
  The text of JSON documents as \<open>encoding/json\<close> of Go 1.22 (the version of the image and of the tests) writes and reads it. Strings
  are bytes; a document is a \<open>json\<close> value, a number its literal, the members of an object a list
  in the order of the text. The writer escapes what Go escapes (quotes, control characters, the three HTML
  characters, the line separators, bytes that are not UTF-8), the reader accepts what Go's scanner accepts, blanks
  and escapes included, up to the nesting depth of 10000. The main lemma is that the reader gives back what was written.
\<close>

datatype json =
    JNull
  | JBool bool
  | JNum string
  | JStr string
  | JArr "json list"
  | JObj "(string \<times> json) list"

subsection \<open>UTF-8\<close>

definition byte :: "char \<Rightarrow> nat" where
  "byte c = of_char c"

definition within :: "nat \<Rightarrow> nat \<Rightarrow> char \<Rightarrow> bool" where
  "within lo hi c \<longleftrightarrow> lo \<le> byte c \<and> byte c \<le> hi"

text \<open>
  The length a first byte announces, and the bytes that may follow it: the second is restricted for some first bytes (no
  overlong forms, no surrogates, nothing beyond U+10FFFF).
\<close>

definition lead_len :: "char \<Rightarrow> nat" where
  "lead_len a = (if byte a < 128 then 1 else if within 194 223 a then 2 else if within 224 239 a then 3
     else if within 240 244 a then 4 else 0)"

definition tail_ok :: "char \<Rightarrow> string \<Rightarrow> bool" where
  "tail_ok a t = (case t of
       [] \<Rightarrow> True
     | b # cs \<Rightarrow> within (if byte a = 224 then 160 else if byte a = 240 then 144 else 128)
                       (if byte a = 237 then 159 else if byte a = 244 then 143 else 191) b
                \<and> list_all (within 128 191) cs)"

text \<open>The number of bytes of the rune at the start of a text; 0 if there is none.\<close>

definition rune_len :: "string \<Rightarrow> nat" where
  "rune_len s = (case s of
       [] \<Rightarrow> 0
     | a # cs \<Rightarrow> if lead_len a - 1 \<le> length cs \<and> tail_ok a (take (lead_len a - 1) cs) then lead_len a else 0)"

lemma rune_len_le: "rune_len s \<le> length s"
  by (auto simp: rune_len_def split: list.splits)

lemma rune_len_take: "0 < rune_len s \<Longrightarrow> rune_len (take (rune_len s) s @ t) = rune_len s"
  by (cases s) (auto simp: rune_len_def take_Cons split: if_splits nat.splits)

lemma rune_len_ascii [simp]: "byte c < 128 \<Longrightarrow> rune_len (c # s) = 1"
  by (simp add: rune_len_def lead_len_def tail_ok_def)

text \<open>A text cut into its runes; a byte that starts no rune is a piece of its own.\<close>

function runes :: "string \<Rightarrow> string list" where
  "runes [] = []"
| "runes (c # cs) = take (max 1 (rune_len (c # cs))) (c # cs) # runes (drop (max 1 (rune_len (c # cs))) (c # cs))"
  by pat_completeness auto
termination by (relation "measure length") auto

definition replacement :: string where
  "replacement = [CHR 0xEF, CHR 0xBF, CHR 0xBD]"

text \<open>What Go makes of bytes that are not UTF-8: each becomes the replacement character.\<close>

definition valid_rune :: "string \<Rightarrow> bool" where
  "valid_rune r \<longleftrightarrow> rune_len r = length r \<and> r \<noteq> []"

definition clean_rune :: "string \<Rightarrow> string" where
  "clean_rune r = (if valid_rune r then r else replacement)"

definition clean_text :: "string \<Rightarrow> string" where
  "clean_text s = concat (map clean_rune (runes s))"

definition valid_utf8 :: "string \<Rightarrow> bool" where
  "valid_utf8 s \<longleftrightarrow> list_all valid_rune (runes s)"

lemma concat_runes: "concat (runes s) = s"
proof (induction s rule: runes.induct)
  case (2 c cs)
  then show ?case by (simp only: runes.simps concat.simps append_take_drop_id)
qed simp

lemma clean_text_valid: "valid_utf8 s \<Longrightarrow> clean_text s = s"
proof -
  assume "valid_utf8 s"
  then have "map clean_rune (runes s) = runes s"
    by (auto simp: valid_utf8_def clean_rune_def list_all_iff intro: map_idI)
  then show ?thesis by (simp add: clean_text_def concat_runes)
qed

lemma ascii_valid: "list_all (\<lambda>c. byte c < 128) s \<Longrightarrow> valid_utf8 s"
proof (induction s)
  case (Cons c cs)
  then show ?case by (simp add: valid_utf8_def valid_rune_def)
qed (simp add: valid_utf8_def)

text \<open>The bytes of a code point.\<close>

definition utf8_encode :: "nat \<Rightarrow> string" where
  "utf8_encode n = map char_of
     (if n < 0x80 then [n]
      else if n < 0x800 then [192 + n div 64, 128 + n mod 64]
      else if n < 0x10000 then [224 + n div 4096, 128 + n div 64 mod 64, 128 + n mod 64]
      else [240 + n div 262144, 128 + n div 4096 mod 64, 128 + n div 64 mod 64, 128 + n mod 64])"

subsection \<open>Writing\<close>

definition hex_digit :: "nat \<Rightarrow> char" where
  "hex_digit n = (if n < 10 then char_of (48 + n) else char_of (87 + n))"

definition plain_char :: "char \<Rightarrow> bool" where
  "plain_char c \<longleftrightarrow> 32 \<le> byte c \<and> c \<notin> {CHR 0x22, CHR 0x5C, CHR ''<'', CHR ''>'', CHR ''&''}"

definition escape_char :: "char \<Rightarrow> string" where
  "escape_char c =
     (if plain_char c then [c]
      else if c = CHR 0x22 \<or> c = CHR 0x5C then [CHR 0x5C, c]
      else if byte c = 8 then [CHR 0x5C, CHR ''b'']
      else if byte c = 12 then [CHR 0x5C, CHR ''f'']
      else if byte c = 10 then [CHR 0x5C, CHR ''n'']
      else if byte c = 13 then [CHR 0x5C, CHR ''r'']
      else if byte c = 9 then [CHR 0x5C, CHR ''t'']
      else [CHR 0x5C, CHR ''u'', CHR ''0'', CHR ''0'', hex_digit (byte c div 16), hex_digit (byte c mod 16)])"

definition escape_rune :: "string \<Rightarrow> string" where
  "escape_rune r =
     (if \<not> valid_rune r then CHR 0x5C # ''ufffd''
      else if length r = 1 then escape_char (hd r)
      else if r = [CHR 0xE2, CHR 0x80, CHR 0xA8] then CHR 0x5C # ''u2028''
      else if r = [CHR 0xE2, CHR 0x80, CHR 0xA9] then CHR 0x5C # ''u2029''
      else r)"

definition escape_text :: "string \<Rightarrow> string" where
  "escape_text s = concat (map escape_rune (runes s))"

definition quote :: "string \<Rightarrow> string" where
  "quote s = CHR 0x22 # escape_text s @ [CHR 0x22]"

fun json_text :: "json \<Rightarrow> string" where
  "json_text JNull = ''null''"
| "json_text (JBool b) = (if b then ''true'' else ''false'')"
| "json_text (JNum l) = l"
| "json_text (JStr s) = quote s"
| "json_text (JArr js) = CHR ''['' # join_with '','' (map json_text js) @ '']''"
| "json_text (JObj ms) = CHR ''{'' # join_with '','' (map (\<lambda>(k, j). quote k @ CHR '':'' # json_text j) ms) @ ''}''"

subsection \<open>Reading\<close>

definition is_blank :: "char \<Rightarrow> bool" where
  "is_blank c \<longleftrightarrow> c \<in> {CHR '' '', CHR 0x09, CHR 0x0A, CHR 0x0D}"

definition skip_blanks :: "string \<Rightarrow> string" where
  "skip_blanks = dropWhile is_blank"

definition hex_value :: "char \<Rightarrow> nat option" where
  "hex_value c = (if within 48 57 c then Some (byte c - 48) else if within 97 102 c then Some (byte c - 87)
     else if within 65 70 c then Some (byte c - 55) else None)"

text \<open>Four hexadecimal digits.\<close>

definition read_hex4 :: "string \<Rightarrow> (nat \<times> string) option" where
  "read_hex4 s = (case s of
       a # b # c # d # t \<Rightarrow> (case (hex_value a, hex_value b, hex_value c, hex_value d) of
           (Some x, Some y, Some z, Some w) \<Rightarrow> Some (((x * 16 + y) * 16 + z) * 16 + w, t)
         | _ \<Rightarrow> None)
     | _ \<Rightarrow> None)"

text \<open>
  What follows \<open>\u\<close>: a code point, two of them for a surrogate pair; a surrogate without its partner is the
  replacement character.
\<close>

definition read_u :: "string \<Rightarrow> (string \<times> string) option" where
  "read_u s = (case read_hex4 s of
       None \<Rightarrow> None
     | Some (n, t) \<Rightarrow>
         if n < 0xD800 \<or> 0xDFFF < n then Some (utf8_encode n, t)
         else (case t of
             x # y # t' \<Rightarrow>
               if x = CHR 0x5C \<and> y = CHR ''u''
               then (case read_hex4 t' of
                       Some (m, t'') \<Rightarrow>
                         if n < 0xDC00 \<and> 0xDC00 \<le> m \<and> m \<le> 0xDFFF
                         then Some (utf8_encode (0x10000 + (n - 0xD800) * 0x400 + (m - 0xDC00)), t'')
                         else Some (replacement, t)
                     | None \<Rightarrow> Some (replacement, t))
               else Some (replacement, t)
           | _ \<Rightarrow> Some (replacement, t)))"

definition short_escape :: "char \<Rightarrow> char option" where
  "short_escape c =
     (if c \<in> {CHR 0x22, CHR 0x5C, CHR ''/''} then Some c
      else if c = CHR ''b'' then Some (CHR 0x08) else if c = CHR ''f'' then Some (CHR 0x0C)
      else if c = CHR ''n'' then Some (CHR 0x0A) else if c = CHR ''r'' then Some (CHR 0x0D)
      else if c = CHR ''t'' then Some (CHR 0x09) else None)"

text \<open>One rune or escape of a string, and what follows it.\<close>

definition read_rune :: "string \<Rightarrow> (string \<times> string) option" where
  "read_rune s = (case s of
       [] \<Rightarrow> None
     | c # cs \<Rightarrow>
         if c = CHR 0x5C
         then (case cs of
                 [] \<Rightarrow> None
               | e # t \<Rightarrow> (case short_escape e of Some x \<Rightarrow> Some ([x], t) | None \<Rightarrow> if e = CHR ''u'' then read_u t else None))
         else if byte c < 32 then None
         else if rune_len s = 0 then Some (replacement, cs)
         else Some (take (rune_len s) s, drop (rune_len s) s))"

lemma read_hex4_shorter: "read_hex4 s = Some (n, t) \<Longrightarrow> length t < length s"
  by (auto simp: read_hex4_def split: list.splits option.splits)

lemma read_u_shorter: "read_u s = Some (x, t) \<Longrightarrow> length t < length s"
  by (auto simp: read_u_def dest!: read_hex4_shorter split: option.splits prod.splits if_splits list.splits)

lemma read_rune_shorter: "read_rune s = Some (x, t) \<Longrightarrow> length t < length s"
  by (auto simp: read_rune_def dest!: read_u_shorter split: list.splits option.splits if_splits)

text \<open>A string after its opening quote, and what follows its closing quote.\<close>

function read_chars :: "string \<Rightarrow> (string \<times> string) option" where
  "read_chars s = (case s of
       [] \<Rightarrow> None
     | c # cs \<Rightarrow>
         if c = CHR 0x22 then Some ([], cs)
         else (case read_rune s of
                 None \<Rightarrow> None
               | Some (x, t) \<Rightarrow> (case read_chars t of None \<Rightarrow> None | Some (y, u) \<Rightarrow> Some (x @ y, u))))"
  by pat_completeness auto
termination by (relation "measure length") (auto dest: read_rune_shorter)

declare read_chars.simps [simp del]


text \<open>A number: its literal, and what follows it.\<close>

definition read_fraction :: "string \<Rightarrow> (string \<times> string) option" where
  "read_fraction s = (case s of
       [] \<Rightarrow> Some ([], [])
     | c # t \<Rightarrow>
         if c \<noteq> CHR ''.'' then Some ([], s)
         else if takeWhile is_digit t = [] then None
         else Some (c # takeWhile is_digit t, dropWhile is_digit t))"

definition read_exponent :: "string \<Rightarrow> (string \<times> string) option" where
  "read_exponent s = (case s of
       [] \<Rightarrow> Some ([], [])
     | c # t \<Rightarrow>
         if c \<noteq> CHR ''e'' \<and> c \<noteq> CHR ''E'' then Some ([], s)
         else let (sign, u) = (case t of x # u \<Rightarrow> if x = CHR ''+'' \<or> x = CHR ''-'' then ([x], u) else ([], t) | [] \<Rightarrow> ([], []))
              in if takeWhile is_digit u = [] then None
                 else Some (c # sign @ takeWhile is_digit u, dropWhile is_digit u))"

definition read_number :: "string \<Rightarrow> (string \<times> string) option" where
  "read_number s =
     (let (sign, t) = (case s of x # t \<Rightarrow> if x = CHR ''-'' then ([x], t) else ([], s) | [] \<Rightarrow> ([], []))
      in case t of
           [] \<Rightarrow> None
         | d # u \<Rightarrow>
             if \<not> is_digit d then None
             else let (whole, v) = (if d = CHR ''0'' then ([d], u) else (takeWhile is_digit t, dropWhile is_digit t))
                  in case read_fraction v of
                       None \<Rightarrow> None
                     | Some (frac, w) \<Rightarrow> (case read_exponent w of
                           None \<Rightarrow> None
                         | Some (expo, r) \<Rightarrow> Some (sign @ whole @ frac @ expo, r)))"

definition strip_word :: "string \<Rightarrow> 'a \<Rightarrow> string \<Rightarrow> ('a \<times> string) option" where
  "strip_word w x s = (if take (length w) s = w then Some (x, drop (length w) s) else None)"

text \<open>
  A value, the rest of an array after \<open>[\<close> and the rest of an object after \<open>{\<close>. The first number is the nesting that is
  still allowed, the second is fuel.
\<close>

fun read_value :: "nat \<Rightarrow> nat \<Rightarrow> string \<Rightarrow> (json \<times> string) option"
  and read_items :: "nat \<Rightarrow> nat \<Rightarrow> string \<Rightarrow> (json list \<times> string) option"
  and read_members :: "nat \<Rightarrow> nat \<Rightarrow> string \<Rightarrow> ((string \<times> json) list \<times> string) option" where
  "read_value d 0 s = None"
| "read_value d (Suc n) s = (case skip_blanks s of
       [] \<Rightarrow> None
     | c # t \<Rightarrow>
         if c = CHR ''['' then
           (if d = 0 then None
            else case skip_blanks t of
                [] \<Rightarrow> None
              | x # u \<Rightarrow> if x = CHR '']'' then Some (JArr [], u) else map_option (apfst JArr) (read_items (d - 1) n t))
         else if c = CHR ''{'' then
           (if d = 0 then None
            else case skip_blanks t of
                [] \<Rightarrow> None
              | x # u \<Rightarrow> if x = CHR ''}'' then Some (JObj [], u) else map_option (apfst JObj) (read_members (d - 1) n t))
         else if c = CHR 0x22 then map_option (apfst JStr) (read_chars t)
         else if c = CHR ''n'' then strip_word ''null'' JNull (c # t)
         else if c = CHR ''t'' then strip_word ''true'' (JBool True) (c # t)
         else if c = CHR ''f'' then strip_word ''false'' (JBool False) (c # t)
         else map_option (apfst JNum) (read_number (c # t)))"
| "read_items d 0 s = None"
| "read_items d (Suc n) s = (case read_value d n s of
       None \<Rightarrow> None
     | Some (j, t) \<Rightarrow> (case skip_blanks t of
           [] \<Rightarrow> None
         | c # u \<Rightarrow>
             if c = CHR '','' then map_option (apfst (Cons j)) (read_items d n u)
             else if c = CHR '']'' then Some ([j], u) else None))"
| "read_members d 0 s = None"
| "read_members d (Suc n) s = (case skip_blanks s of
       [] \<Rightarrow> None
     | q # t \<Rightarrow>
         if q \<noteq> CHR 0x22 then None
         else case read_chars t of
           None \<Rightarrow> None
         | Some (k, u) \<Rightarrow> (case skip_blanks u of
               [] \<Rightarrow> None
             | c # v \<Rightarrow>
                 if c \<noteq> CHR '':'' then None
                 else case read_value d n v of
                   None \<Rightarrow> None
                 | Some (j, w) \<Rightarrow> (case skip_blanks w of
                       [] \<Rightarrow> None
                     | x # y \<Rightarrow>
                         if x = CHR '','' then map_option (apfst (Cons (k, j))) (read_members d n y)
                         else if x = CHR ''}'' then Some ([(k, j)], y) else None)))"

definition max_depth :: nat where
  "max_depth = 10000"

definition read_json :: "string \<Rightarrow> (json \<times> string) option" where
  "read_json s = read_value max_depth (2 * length s + 2) s"

text \<open>The first value of a text, as a \<open>Decoder\<close> reads it, and a text that is one value, as \<open>Unmarshal\<close> wants it.\<close>

definition first_json :: "string \<Rightarrow> json option" where
  "first_json s = map_option fst (read_json s)"

definition whole_json :: "string \<Rightarrow> json option" where
  "whole_json s = (case read_json s of Some (j, t) \<Rightarrow> if skip_blanks t = [] then Some j else None | None \<Rightarrow> None)"

subsection \<open>Strings: the reader undoes the writer\<close>

lemma byte_less: "byte c < 256"
  by (simp add: byte_def)

lemma char_of_byte [simp]: "char_of (byte c) = c"
  by (simp add: byte_def)

lemma byte_char_of: "n < 256 \<Longrightarrow> byte (char_of n) = n"
  by (simp add: byte_def)

lemma hex_value_digit: "n < 16 \<Longrightarrow> hex_value (hex_digit n) = Some n"
  by (auto simp: hex_value_def hex_digit_def within_def byte_char_of)

lemma hex_zero: "hex_value (CHR ''0'') = Some 0"
  by (simp add: hex_value_def within_def byte_def)

lemma read_u_ascii:
  assumes "byte c < 128"
  shows "read_u (CHR ''0'' # CHR ''0'' # hex_digit (byte c div 16) # hex_digit (byte c mod 16) # t) = Some ([c], t)"
proof -
  have "hex_value (hex_digit (byte c div 16)) = Some (byte c div 16)" "hex_value (hex_digit (byte c mod 16)) = Some (byte c mod 16)"
    using assms by (intro hex_value_digit; linarith)+
  then have "read_hex4 (CHR ''0'' # CHR ''0'' # hex_digit (byte c div 16) # hex_digit (byte c mod 16) # t) = Some (byte c, t)"
    by (simp add: read_hex4_def hex_zero)
  then show ?thesis using assms by (simp add: read_u_def utf8_encode_def)
qed

lemma byte_inj: "byte c = byte d \<Longrightarrow> c = d"
  by (metis char_of_byte)

lemma small_bytes: "byte (CHR 0x08) = 8" "byte (CHR 0x09) = 9" "byte (CHR 0x0A) = 10" "byte (CHR 0x0C) = 12" "byte (CHR 0x0D) = 13"
  by (simp_all add: byte_def)

lemma read_escape_char:
  assumes "byte c < 128"
  shows "read_rune (escape_char c @ t) = Some ([c], t)"
proof (cases "plain_char c")
  case True
  then have "c \<noteq> CHR 0x5C" "\<not> byte c < 32" by (auto simp: plain_char_def)
  with True assms show ?thesis by (simp add: escape_char_def read_rune_def)
next
  case False
  consider "c \<in> {CHR 0x22, CHR 0x5C}" | "byte c \<in> {8, 9, 10, 12, 13}" | "c \<notin> {CHR 0x22, CHR 0x5C}" "byte c \<notin> {8, 9, 10, 12, 13}"
    by blast
  then show ?thesis
  proof cases
    case 1
    then show ?thesis by (auto simp: escape_char_def plain_char_def read_rune_def short_escape_def)
  next
    case 2
    then have "c \<in> {CHR 0x08, CHR 0x09, CHR 0x0A, CHR 0x0C, CHR 0x0D}" unfolding small_bytes [symmetric] by (auto dest: byte_inj)
    then show ?thesis by (elim insertE emptyE; hypsubst; simp add: escape_char_def plain_char_def read_rune_def short_escape_def small_bytes)
  next
    case 3
    then have "escape_char c = [CHR 0x5C, CHR ''u'', CHR ''0'', CHR ''0'', hex_digit (byte c div 16), hex_digit (byte c mod 16)]"
      using False by (auto simp: escape_char_def)
    then show ?thesis using read_u_ascii [OF assms] by (simp add: read_rune_def short_escape_def)
  qed
qed

lemma u_escapes:
  "read_rune (CHR 0x5C # ''ufffd'' @ t) = Some (replacement, t)"
  "read_rune (CHR 0x5C # ''u2028'' @ t) = Some ([CHR 0xE2, CHR 0x80, CHR 0xA8], t)"
  "read_rune (CHR 0x5C # ''u2029'' @ t) = Some ([CHR 0xE2, CHR 0x80, CHR 0xA9], t)"
  by (simp_all add: read_rune_def short_escape_def read_u_def read_hex4_def hex_value_def within_def byte_def utf8_encode_def replacement_def char_of_def bit_0)

lemma rune_cases:
  assumes "valid_rune r"
  obtains c where "r = [c]" "byte c < 128" | a b u where "r = a # b # u" "128 \<le> byte a"
proof (cases r)
  case Nil
  with assms show ?thesis by (simp add: valid_rune_def)
next
  case (Cons a u)
  show ?thesis
  proof (cases "byte a < 128")
    case True
    with assms Cons that(1) show ?thesis by (simp add: valid_rune_def)
  next
    case False
    with assms Cons have "lead_len a = Suc (length u)" "lead_len a \<noteq> 1"
      by (auto simp: valid_rune_def rune_len_def lead_len_def split: if_splits)
    then obtain b v where "u = b # v" by (cases u) auto
    with Cons False that(2) show ?thesis by simp
  qed
qed

lemma valid_rune_read:
  assumes "valid_rune r" "128 \<le> byte (hd r)"
  shows "read_rune (r @ t) = Some (r, t)"
proof -
  have len: "rune_len (r @ t) = length r" "r \<noteq> []" using rune_len_take [of r t] assms(1) by (auto simp: valid_rune_def)
  then obtain a u where "r = a # u" by (cases r) auto
  moreover have "CHR 0x5C \<noteq> a" using assms(2) \<open>r = a # u\<close> by (auto simp: byte_def)
  ultimately show ?thesis using len assms(2) by (auto simp: read_rune_def)
qed

lemma read_escape_rune: "read_rune (escape_rune r @ t) = Some (clean_rune r, t)"
proof (cases "valid_rune r")
  case True
  then show ?thesis
  proof (cases rule: rune_cases)
    case (1 c)
    then show ?thesis using True read_escape_char [of c t] by (simp add: escape_rune_def clean_rune_def)
  next
    case (2 a b u)
    then have "read_rune (r @ t) = Some (r, t)" using valid_rune_read [OF True] by simp
    then show ?thesis using True 2 u_escapes [of t] by (auto simp: escape_rune_def clean_rune_def)
  qed
next
  case False
  then show ?thesis using u_escapes(1) [of t] by (simp add: escape_rune_def clean_rune_def)
qed

lemma escape_rune_start: "\<exists>c u. escape_rune r = c # u \<and> c \<noteq> CHR 0x22"
proof (cases "valid_rune r")
  case True
  then show ?thesis
  proof (cases rule: rune_cases)
    case (1 c)
    then show ?thesis using True by (auto simp: escape_rune_def escape_char_def plain_char_def)
  next
    case (2 a b u)
    then have "a \<noteq> CHR 0x22" by (auto simp: byte_def)
    then show ?thesis using True 2 by (auto simp: escape_rune_def)
  qed
qed (simp add: escape_rune_def)

lemma read_chars_runes: "read_chars (concat (map escape_rune rs) @ CHR 0x22 # t) = Some (concat (map clean_rune rs), t)"
proof (induction rs)
  case Nil
  show ?case by (subst read_chars.simps) simp
next
  case (Cons r rs)
  obtain c u where start: "escape_rune r = c # u" "c \<noteq> CHR 0x22" using escape_rune_start by blast
  have "read_rune (escape_rune r @ concat (map escape_rune rs) @ CHR 0x22 # t) = Some (clean_rune r, concat (map escape_rune rs) @ CHR 0x22 # t)"
    by (rule read_escape_rune)
  with start Cons show ?case by (subst read_chars.simps) simp
qed

lemma read_quote: "read_chars (escape_text s @ CHR 0x22 # t) = Some (clean_text s, t)"
  by (simp only: escape_text_def clean_text_def read_chars_runes)


subsection \<open>Documents: the reader undoes the writer\<close>

text \<open>Nesting of at most \<open>d\<close>; what the reader makes of the strings; numbers that are those of 64-bit integers.\<close>

fun nested :: "nat \<Rightarrow> json \<Rightarrow> bool" where
  "nested d (JArr js) \<longleftrightarrow> 0 < d \<and> list_all (nested (d - 1)) js"
| "nested d (JObj ms) \<longleftrightarrow> 0 < d \<and> list_all (\<lambda>(k, j). nested (d - 1) j) ms"
| "nested d j \<longleftrightarrow> True"

fun clean :: "json \<Rightarrow> json" where
  "clean (JStr s) = JStr (clean_text s)"
| "clean (JArr js) = JArr (map clean js)"
| "clean (JObj ms) = JObj (map (\<lambda>(k, j). (clean_text k, clean j)) ms)"
| "clean j = j"

fun int_numbers :: "json \<Rightarrow> bool" where
  "int_numbers (JNum l) = (case Atoi l of Some i \<Rightarrow> l = int_str i | None \<Rightarrow> False)"
| "int_numbers (JArr js) = list_all int_numbers js"
| "int_numbers (JObj ms) = list_all (\<lambda>(k, j). int_numbers j) ms"
| "int_numbers j = True"

definition number_end :: "string \<Rightarrow> bool" where
  "number_end t \<longleftrightarrow> (case t of [] \<Rightarrow> True | c # _ \<Rightarrow> \<not> is_digit c \<and> c \<notin> {CHR ''.'', CHR ''e'', CHR ''E''})"

lemma nat_str_zero: "nat_str n = CHR ''0'' # u \<Longrightarrow> n = 0 \<and> u = []"
proof (induction n arbitrary: u rule: nat_str.induct)
  case (1 n)
  show ?case
  proof (cases "n < 10")
    case True
    then have "nat_str n = [char_of (48 + n)]" by (subst nat_str.simps) simp
    then have "char_of (48 + n) = CHR ''0''" "u = []" using 1(2) by simp_all
    then have "48 + n = of_char (CHR ''0'')" using True by (metis of_char_digit)
    with \<open>u = []\<close> show ?thesis by simp
  next
    case False
    then have "nat_str (n div 10) @ [char_of (48 + n mod 10)] = CHR ''0'' # u" using 1(2) by (subst (asm) nat_str.simps) simp
    then obtain v where "nat_str (n div 10) = CHR ''0'' # v" using nat_str_hd [of "n div 10"] by (auto simp: Cons_eq_append_conv)
    with 1(1) [OF False] False show ?thesis by fastforce
  qed
qed

lemma digit_byte: "is_digit c \<Longrightarrow> \<not> is_blank c \<and> c \<notin> {CHR ''['', CHR ''{'', CHR 0x22, CHR ''n'', CHR ''t'', CHR ''f'', CHR '']'', CHR ''}''}"
  by (auto simp: is_digit_def is_blank_def)

lemma takeWhile_digits:
  assumes "list_all is_digit s" "number_end t"
  shows "takeWhile is_digit (s @ t) = s" "dropWhile is_digit (s @ t) = t"
  using assms by (cases t; auto simp: number_end_def list_all_iff takeWhile_append2 dropWhile_append2)+

lemma number_end_rest: "number_end t \<Longrightarrow> read_fraction t = Some ([], t)" "number_end t \<Longrightarrow> read_exponent t = Some ([], t)"
  by (auto simp: number_end_def read_fraction_def read_exponent_def split: list.splits)

lemma read_nat:
  assumes "number_end t"
  shows "read_number (nat_str n @ t) = Some (nat_str n, t)" "read_number (CHR ''-'' # nat_str n @ t) = Some (CHR ''-'' # nat_str n, t)"
proof -
  obtain c u where c: "nat_str n = c # u" "is_digit c" using nat_str_hd by blast
  note rest = number_end_rest [OF assms]
  have num: "c \<noteq> CHR ''-''" using c(2) digit_not_sign by blast
  have digits: "takeWhile is_digit (c # u @ t) = c # u" "dropWhile is_digit (c # u @ t) = t"
    using takeWhile_digits [OF nat_str_digits [of n] assms] by (simp_all add: c)
  show "read_number (nat_str n @ t) = Some (nat_str n, t)" "read_number (CHR ''-'' # nat_str n @ t) = Some (CHR ''-'' # nat_str n, t)"
    unfolding read_number_def c(1) using c(2) num rest digits nat_str_zero [of n u] c(1)
    by (cases "c = CHR ''0''"; simp add: Let_def)+
qed

lemma read_int: "number_end t \<Longrightarrow> read_number (int_str i @ t) = Some (int_str i, t)"
  using read_nat by (simp add: int_str_def)

text \<open>The first character of a document.\<close>

lemma json_text_start:
  assumes "int_numbers j"
  shows "\<exists>c u. json_text j = c # u \<and> \<not> is_blank c \<and> c \<noteq> CHR '']'' \<and> c \<noteq> CHR ''}''"
proof (cases j)
  case (JNum l)
  then obtain i where i: "l = int_str i" using assms by (auto split: option.splits)
  obtain c u where "nat_str (nat i) = c # u" "is_digit c" using nat_str_hd by blast
  then show ?thesis using JNum i digit_byte [of c] by (simp add: int_str_def is_blank_def)
qed (auto simp: is_blank_def quote_def)


lemma skip_blanks_start: "\<not> is_blank c \<Longrightarrow> skip_blanks (c # s) = c # s"
  by (simp add: skip_blanks_def)

lemma skip_blanks_punct [simp]:
  "skip_blanks (CHR '','' # s) = CHR '','' # s" "skip_blanks (CHR '']'' # s) = CHR '']'' # s" "skip_blanks (CHR ''}'' # s) = CHR ''}'' # s"
  "skip_blanks (CHR '':'' # s) = CHR '':'' # s" "skip_blanks (CHR 0x22 # s) = CHR 0x22 # s"
  by (simp_all add: skip_blanks_def is_blank_def)

text \<open>That the reader gives back the document \<open>j\<close>, whatever follows it.\<close>

definition reads :: "json \<Rightarrow> bool" where
  "reads j \<longleftrightarrow> (\<forall>d n t. nested d j \<longrightarrow> 2 * length (json_text j) < n \<longrightarrow> number_end t \<longrightarrow> read_value d n (json_text j @ t) = Some (clean j, t))"

lemma number_end_punct [simp]: "number_end (CHR '','' # t)" "number_end (CHR '']'' # t)" "number_end (CHR ''}'' # t)"
  by (simp_all add: number_end_def is_digit_def)

lemma read_items_text:
  assumes "\<forall>j\<in>set js. reads j \<and> nested d j" "js \<noteq> []" "2 * length (join_with '','' (map json_text js)) + 1 < n"
  shows "read_items d n (join_with '','' (map json_text js) @ '']'' @ t) = Some (map clean js, t)"
  using assms
proof (induction js arbitrary: n)
  case (Cons j js)
  then obtain m where n: "n = Suc m" by (cases n) auto
  have j: "read_value d m (json_text j @ u) = Some (clean j, u)" if "number_end u" for u
  proof -
    have "2 * length (json_text j) < m" using Cons.prems(3) n by (cases js) auto
    with Cons.prems(1) that show ?thesis by (simp add: reads_def)
  qed
  show ?case
  proof (cases js)
    case Nil
    then show ?thesis by (simp add: n j)
  next
    case (Cons k ks)
    have "2 * length (join_with '','' (map json_text js)) + 1 < m"
      using Cons.prems(3) n by (simp add: Cons)
    then have "read_items d m (join_with '','' (map json_text js) @ '']'' @ t) = Some (map clean js, t)"
      using Cons.IH Cons.prems(1) Cons by simp
    then show ?thesis by (simp add: n j Cons)
  qed
qed simp

lemma read_members_text:
  assumes "\<forall>(k, j)\<in>set ms. reads j \<and> nested d j" "ms \<noteq> []"
    and "2 * length (join_with '','' (map (\<lambda>(k, j). quote k @ CHR '':'' # json_text j) ms)) + 1 < n"
  shows "read_members d n (join_with '','' (map (\<lambda>(k, j). quote k @ CHR '':'' # json_text j) ms) @ ''}'' @ t)
    = Some (map (\<lambda>(k, j). (clean_text k, clean j)) ms, t)"
  using assms
proof (induction ms arbitrary: n)
  case (Cons m ms)
  obtain k j where m: "m = (k, j)" by fastforce
  obtain l where n: "n = Suc l" using Cons.prems by (cases n) auto
  have j: "read_value d l (json_text j @ u) = Some (clean j, u)" if "number_end u" for u
  proof -
    have "2 * length (json_text j) < l" using Cons.prems(3) n m by (cases ms) auto
    with Cons.prems(1) that m show ?thesis by (simp add: reads_def)
  qed
  have k: "quote k @ u = CHR 0x22 # escape_text k @ CHR 0x22 # u" for u by (simp add: quote_def)
  show ?case
  proof (cases ms)
    case Nil
    then show ?thesis by (simp add: n j m k read_quote)
  next
    case (Cons p ps)
    have "2 * length (join_with '','' (map (\<lambda>(k, j). quote k @ CHR '':'' # json_text j) ms)) + 1 < l"
      using Cons.prems(3) n by (simp add: Cons m)
    then have "read_members d l (join_with '','' (map (\<lambda>(k, j). quote k @ CHR '':'' # json_text j) ms) @ ''}'' @ t)
        = Some (map (\<lambda>(k, j). (clean_text k, clean j)) ms, t)"
      using Cons.IH Cons.prems(1) Cons by simp
    then show ?thesis by (simp add: n j m k read_quote Cons)
  qed
qed simp

lemma join_start: "x \<noteq> [] \<Longrightarrow> \<exists>u. join_with sep (x # xs) = hd x # u"
  by (cases xs; cases x) auto

lemma reads_array:
  assumes "\<And>j. j \<in> set js \<Longrightarrow> reads j" "list_all int_numbers js"
  shows "reads (JArr js)"
  unfolding reads_def
proof (intro allI impI)
  fix d n t assume d: "nested d (JArr js)" and n: "2 * length (json_text (JArr js)) < n" and "number_end t"
  obtain m where m: "n = Suc m" using n by (cases n) auto
  show "read_value d n (json_text (JArr js) @ t) = Some (clean (JArr js), t)"
  proof (cases js)
    case Nil
    then show ?thesis using d by (simp add: m skip_blanks_start is_blank_def)
  next
    case (Cons j ks)
    obtain c u where c: "json_text j = c # u" "\<not> is_blank c" "c \<noteq> CHR '']''"
      using json_text_start [of j] assms(2) Cons by auto
    obtain v where v: "join_with '','' (map json_text js) = c # v"
      using join_start [of "json_text j" "'',''" "map json_text ks"] Cons c(1) by auto
    have "read_items (d - 1) m (join_with '','' (map json_text js) @ '']'' @ t) = Some (map clean js, t)"
      using assms(1) d n m Cons by (intro read_items_text) (auto simp: list_all_iff)
    then have "read_items (d - 1) m (c # v @ CHR '']'' # t) = Some (map clean js, t)" by (simp add: v)
    then show ?thesis using d c v by (simp add: m skip_blanks_start is_blank_def)
  qed
qed

lemma reads_object:
  assumes "\<And>k j. (k, j) \<in> set ms \<Longrightarrow> reads j"
  shows "reads (JObj ms)"
  unfolding reads_def
proof (intro allI impI)
  fix d n t assume d: "nested d (JObj ms)" and n: "2 * length (json_text (JObj ms)) < n" and "number_end t"
  let ?text = "\<lambda>(k, j). quote k @ CHR '':'' # json_text j"
  obtain m where m: "n = Suc m" using n by (cases n) auto
  show "read_value d n (json_text (JObj ms) @ t) = Some (clean (JObj ms), t)"
  proof (cases ms)
    case Nil
    then show ?thesis using d by (simp add: m skip_blanks_start is_blank_def)
  next
    case (Cons p ps)
    have "hd (?text p) = CHR 0x22" "?text p \<noteq> []" by (auto simp: quote_def split: prod.splits)
    then obtain v where v: "join_with '','' (map ?text ms) = CHR 0x22 # v"
      using join_start [of "?text p" "'',''" "map ?text ps"] Cons by auto
    have "read_members (d - 1) m (join_with '','' (map ?text ms) @ ''}'' @ t) = Some (map (\<lambda>(k, j). (clean_text k, clean j)) ms, t)"
      using assms d n m Cons by (intro read_members_text) (auto simp: list_all_iff)
    then have "read_members (d - 1) m (CHR 0x22 # v @ CHR ''}'' # t) = Some (map (\<lambda>(k, j). (clean_text k, clean j)) ms, t)" by (simp add: v)
    then show ?thesis using d v by (simp add: m skip_blanks_start is_blank_def)
  qed
qed

lemma reads_leaf:
  "reads JNull" "reads (JBool b)" "reads (JStr s)" "reads (JNum (int_str i))"
proof -
  have fuel: "\<exists>m. n = Suc m" if "k < n" for k n :: nat using that by (cases n) auto
  have leaf: "reads j" if "\<And>d n t. read_value d (Suc n) (json_text j @ t) = Some (clean j, t)" for j
    unfolding reads_def using that fuel by metis
  show "reads JNull" "reads (JBool b)" "reads (JStr s)"
    by (rule leaf, simp add: skip_blanks_start is_blank_def strip_word_def quote_def read_quote)+
  show "reads (JNum (int_str i))"
    unfolding reads_def
  proof (intro allI impI)
    fix d n t assume n: "2 * length (json_text (JNum (int_str i))) < n" and t: "number_end t"
    obtain m where m: "n = Suc m" using fuel [OF n] by blast
    obtain c u where c: "int_str i = c # u" "is_digit c \<or> c = CHR ''-''"
      using nat_str_hd [of "nat i"] by (cases "i < 0") (auto simp: int_str_def)
    then have "\<not> is_blank c" "c \<notin> {CHR ''['', CHR ''{'', CHR 0x22, CHR ''n'', CHR ''t'', CHR ''f''}"
      using digit_byte [of c] by (cases "is_digit c"; simp add: is_blank_def)+
    with c(1) read_int [OF t, of i] show "read_value d n (json_text (JNum (int_str i)) @ t) = Some (clean (JNum (int_str i)), t)"
      by (simp add: m skip_blanks_start)
  qed
qed

lemma reads_json: "int_numbers j \<Longrightarrow> reads j"
proof (induction j)
  case (JArr js)
  then show ?case by (intro reads_array) (auto simp: list_all_iff)
next
  case (JObj ms)
  then show ?case by (intro reads_object) (fastforce simp: list_all_iff)
qed (auto simp: reads_leaf split: option.splits)

text \<open>A document that was written is read back, strings that are not UTF-8 with replacement characters.\<close>

theorem read_json_text:
  assumes "int_numbers j" "nested max_depth j" "number_end t"
  shows "read_json (json_text j @ t) = Some (clean j, t)"
proof -
  have "2 * length (json_text j) < 2 * length (json_text j @ t) + 2" by simp
  then show ?thesis using reads_json [OF assms(1)] assms(2,3) unfolding reads_def read_json_def by blast
qed

lemma first_json_text: "int_numbers j \<Longrightarrow> nested max_depth j \<Longrightarrow> number_end t \<Longrightarrow> first_json (json_text j @ t) = Some (clean j)"
  by (simp add: first_json_def read_json_text)

lemma whole_json_text: "int_numbers j \<Longrightarrow> nested max_depth j \<Longrightarrow> whole_json (json_text j) = Some (clean j)"
  using read_json_text [of j "[]"] by (simp add: whole_json_def number_end_def skip_blanks_def)

text \<open>Documents whose strings are UTF-8 come back as they were.\<close>

fun utf8_strings :: "json \<Rightarrow> bool" where
  "utf8_strings (JStr s) \<longleftrightarrow> valid_utf8 s"
| "utf8_strings (JArr js) \<longleftrightarrow> list_all utf8_strings js"
| "utf8_strings (JObj ms) \<longleftrightarrow> list_all (\<lambda>(k, j). valid_utf8 k \<and> utf8_strings j) ms"
| "utf8_strings j \<longleftrightarrow> True"

lemma clean_utf8: "utf8_strings j \<Longrightarrow> clean j = j"
proof (induction j)
  case (JArr js)
  then show ?case by (auto simp: list_all_iff intro: map_idI)
next
  case (JObj ms)
  then show ?case by (fastforce simp: list_all_iff clean_text_valid intro!: map_idI)
qed (auto simp: clean_text_valid)


subsection \<open>The fuel is enough\<close>

text \<open>Every reader consumes something, so that twice the length of the text is fuel enough: more of it changes nothing.\<close>

lemma skip_blanks_le: "length (skip_blanks s) \<le> length s"
  by (simp add: skip_blanks_def length_dropWhile_le)

lemma skip_blanks_Cons: "skip_blanks s = c # t \<Longrightarrow> length t < length s"
  using skip_blanks_le [of s] by simp

lemma read_chars_shorter: "read_chars s = Some (x, t) \<Longrightarrow> length t < length s"
proof (induction s arbitrary: x rule: read_chars.induct)
  case (1 s)
  show ?case
  proof (cases s)
    case (Cons c cs)
    show ?thesis
    proof (cases "c = CHR 0x22")
      case False
      then obtain y u z where "read_rune s = Some (y, u)" "read_chars u = Some (z, t)"
        using 1(2) Cons by (subst (asm) read_chars.simps) (auto split: option.splits)
      with 1(1) [OF Cons False] read_rune_shorter show ?thesis using Cons by fastforce
    qed (use 1(2) Cons in \<open>subst (asm) read_chars.simps; simp\<close>)
  qed (use 1(2) in \<open>subst (asm) read_chars.simps; simp\<close>)
qed

lemma drop_digits_le: "length (dropWhile is_digit s) \<le> length s"
  by (rule length_dropWhile_le)

lemma read_fraction_le: "read_fraction s = Some (x, t) \<Longrightarrow> length t \<le> length s"
  using drop_digits_le [of "tl s"] by (auto simp: read_fraction_def split: list.splits if_splits)

lemma read_exponent_le: "read_exponent s = Some (x, t) \<Longrightarrow> length t \<le> length s"
  using drop_digits_le [of "tl s"] drop_digits_le [of "tl (tl s)"]
  by (auto simp: read_exponent_def Let_def split: list.splits if_splits)

lemma read_number_shorter:
  assumes "read_number s = Some (x, t)"
  shows "length t < length s"
proof -
  define body where "body = (case s of c # u \<Rightarrow> if c = CHR ''-'' then u else s | [] \<Rightarrow> [])"
  have body: "length body \<le> length s" by (auto simp: body_def split: list.splits)
  from assms obtain c u whole v frac w expo where "body = c # u" "is_digit c"
    and v: "(whole, v) = (if c = CHR ''0'' then ([c], u) else (takeWhile is_digit body, dropWhile is_digit body))"
    and tail: "read_fraction v = Some (frac, w)" "read_exponent w = Some (expo, t)"
    unfolding read_number_def body_def by (auto simp: Let_def split: list.splits if_splits option.splits prod.splits)
  then have "length v \<le> length u" using drop_digits_le [of u] by (auto split: if_splits)
  with read_fraction_le [OF tail(1)] read_exponent_le [OF tail(2)] body \<open>body = c # u\<close> show ?thesis by simp
qed

lemma strip_word_shorter: "strip_word w x s = Some (y, t) \<Longrightarrow> w \<noteq> [] \<Longrightarrow> length t < length s"
  by (cases w; cases s) (auto simp: strip_word_def split: if_splits)

definition shortens :: "(string \<Rightarrow> ('a \<times> string) option) \<Rightarrow> bool" where
  "shortens f \<longleftrightarrow> (\<forall>s x t. f s = Some (x, t) \<longrightarrow> length t < length s)"

lemma shortensD: "shortens f \<Longrightarrow> f s = Some (x, t) \<Longrightarrow> length t < length s"
  by (simp add: shortens_def)

lemma shortens_value:
  assumes "\<And>d. shortens (read_items d n)" "\<And>d. shortens (read_members d n)"
  shows "shortens (read_value d (Suc n))"
  unfolding shortens_def
proof (intro allI impI)
  fix s x t assume run: "read_value d (Suc n) s = Some (x, t)"
  then obtain c u where c: "skip_blanks s = c # u" by (cases "skip_blanks s") auto
  have "length t \<le> length u"
    using run c by (auto dest: skip_blanks_Cons shortensD [OF assms(1)] shortensD [OF assms(2)] read_chars_shorter
        dest!: strip_word_shorter read_number_shorter split: if_splits list.splits)
  with skip_blanks_Cons [OF c] show "length t < length s" by simp
qed

lemma shortens_items:
  assumes "shortens (read_value d n)" "shortens (read_items d n)"
  shows "shortens (read_items d (Suc n))"
  unfolding shortens_def
  by (auto dest!: shortensD [OF assms(1)] shortensD [OF assms(2)] skip_blanks_Cons split: option.splits list.splits if_splits)

lemma shortens_members:
  assumes "shortens (read_value d n)" "shortens (read_members d n)"
  shows "shortens (read_members d (Suc n))"
  unfolding shortens_def
  by (auto dest!: shortensD [OF assms(1)] shortensD [OF assms(2)] skip_blanks_Cons read_chars_shorter split: option.splits list.splits if_splits)

lemma read_shortens: "shortens (read_value d n) \<and> shortens (read_items d n) \<and> shortens (read_members d n)"
proof (induction n arbitrary: d)
  case 0
  show ?case by (simp add: shortens_def)
next
  case (Suc n)
  then show ?case by (intro conjI shortens_value shortens_items shortens_members) blast+
qed

lemma read_value_shorter: "read_value d n s = Some (j, t) \<Longrightarrow> length t < length s"
  using read_shortens [of d n] by (simp add: shortens_def)

lemma read_fuel:
  "(2 * length s < n \<longrightarrow> read_value d (Suc n) s = read_value d n s)
   \<and> (2 * length s + 1 < n \<longrightarrow> read_items d (Suc n) s = read_items d n s)
   \<and> (2 * length s + 1 < n \<longrightarrow> read_members d (Suc n) s = read_members d n s)"
proof (induction n arbitrary: d s)
  case 0
  show ?case by simp
next
  case (Suc n)
  have v: "read_value d (Suc n) u = read_value d n u" if "2 * length u < n" for d u using Suc that by blast
  have i: "read_items d (Suc n) u = read_items d n u" "read_members d (Suc n) u = read_members d n u" if "2 * length u + 1 < n" for d u
    using Suc that by blast+
  have 1: "read_value d (Suc (Suc n)) s = read_value d (Suc n) s" if "2 * length s < Suc n"
  proof (cases "skip_blanks s")
    case (Cons c u)
    then have "2 * length u + 1 < n" using skip_blanks_Cons [OF Cons] that by simp
    then show ?thesis by (simp only: read_value.simps Cons list.case i)
  qed simp
  have 2: "read_items d (Suc (Suc n)) s = read_items d (Suc n) s" if fuel: "2 * length s + 1 < Suc n"
  proof -
    have rv: "read_value d (Suc n) s = read_value d n s" using fuel by (intro v) simp
    have "read_items d (Suc n) y = read_items d n y" if "read_value d n s = Some (j, x)" "skip_blanks x = e # y" for j x e y
      using fuel skip_blanks_Cons [OF that(2)] read_value_shorter [OF that(1)] by (intro i) simp
    then show ?thesis unfolding read_items.simps(2) [of d "Suc n" s] read_items.simps(2) [of d n s]
      by (simp add: rv del: read_value.simps read_items.simps split: option.split list.split)
  qed
  have 3: "read_members d (Suc (Suc n)) s = read_members d (Suc n) s" if fuel: "2 * length s + 1 < Suc n"
    unfolding read_members.simps(2) [of d "Suc n" s] read_members.simps(2) [of d n s]
  proof (cases "skip_blanks s", goal_cases)
    case (2 q t)
    note t = skip_blanks_Cons [OF 2]
    show ?case
    proof (cases "read_chars t")
      case (Some p)
      obtain k u where p: "p = (k, u)" by fastforce
      note u = read_chars_shorter [OF Some [unfolded p]]
      show ?thesis
      proof (cases "skip_blanks u")
        case (Cons c w)
        note w = skip_blanks_Cons [OF Cons]
        have rv: "read_value d (Suc n) w = read_value d n w" using fuel t u w by (intro v) simp
        have "read_members d (Suc n) y = read_members d n y" if "read_value d n w = Some (j, x)" "skip_blanks x = e # y" for j x e y
          using fuel t u w skip_blanks_Cons [OF that(2)] read_value_shorter [OF that(1)] by (intro i) simp
        then show ?thesis
          by (simp add: 2 Some p Cons rv del: read_value.simps read_members.simps split: option.split list.split)
      qed (simp add: 2 Some p del: read_value.simps read_members.simps)
    qed (simp add: 2 del: read_value.simps read_members.simps)
  qed (simp del: read_value.simps read_members.simps)
  from 1 2 3 show ?case by blast
qed


theorem read_json_fuel: "read_value max_depth (2 * length s + 2 + k) s = read_json s"
proof (induction k)
  case (Suc k)
  then show ?case using read_fuel [of s "2 * length s + 2 + k" max_depth] by simp
qed (simp add: read_json_def)

end
