(* ===== verification/Json_Struct.thy ===== *)
theory Json_Struct
  imports Json_Text Go_Result "HOL-Library.Char_ord" "HOL-Library.List_Lexorder"
begin

text \<open>
  How \<open>encoding/json\<close> writes and reads Go values: what it knows of a type is a \<open>go_type\<close>, of a struct its fields in order.
  A value is read into what is already there: \<open>null\<close> leaves it (pointers, slices and maps become nil), members that no
  field is named after are skipped, names are compared up to case, and a member of the wrong kind
  is left as it was and makes the call return an error while the others are still read. The flag beside a result
  says that there was no such error. A \<open>locale\<close> has the laws of a struct's fields, under which reading undoes writing.
\<close>

record 'a go_type =
  ty_Write :: "'a \<Rightarrow> json"
  ty_Read :: "json \<Rightarrow> 'a \<Rightarrow> 'a \<times> bool"
  ty_Empty :: "'a \<Rightarrow> bool"
  ty_Zero :: 'a

definition string_type :: "string go_type" where
  "string_type = \<lparr>ty_Write = JStr, ty_Read = (\<lambda>j old. case j of JStr s \<Rightarrow> (s, True) | JNull \<Rightarrow> (old, True) | _ \<Rightarrow> (old, False)),
     ty_Empty = (\<lambda>s. s = []), ty_Zero = []\<rparr>"

definition bool_type :: "bool go_type" where
  "bool_type = \<lparr>ty_Write = JBool, ty_Read = (\<lambda>j old. case j of JBool b \<Rightarrow> (b, True) | JNull \<Rightarrow> (old, True) | _ \<Rightarrow> (old, False)),
     ty_Empty = Not, ty_Zero = False\<rparr>"

text \<open>A signed integer of \<open>w\<close> bits; a literal with a fraction or an exponent, or out of range, is of the wrong kind.\<close>

definition int_fits :: "nat \<Rightarrow> int \<Rightarrow> bool" where
  "int_fits w i \<longleftrightarrow> - (2 ^ (w - 1)) \<le> i \<and> i < 2 ^ (w - 1)"

definition int_type :: "nat \<Rightarrow> int go_type" where
  "int_type w = \<lparr>ty_Write = (\<lambda>i. JNum (int_str i)),
     ty_Read = (\<lambda>j old. case j of
         JNum l \<Rightarrow> (case Atoi l of Some i \<Rightarrow> if int_fits w i then (i, True) else (old, False) | None \<Rightarrow> (old, False))
       | JNull \<Rightarrow> (old, True) | _ \<Rightarrow> (old, False)),
     ty_Empty = (\<lambda>i. i = 0), ty_Zero = 0\<rparr>"

text \<open>The elements of a slice are read into those it had, as far as it had them.\<close>

fun read_all :: "(json \<Rightarrow> 'a \<Rightarrow> 'a \<times> bool) \<Rightarrow> 'a \<Rightarrow> json list \<Rightarrow> 'a list \<Rightarrow> 'a list \<times> bool" where
  "read_all rd z [] old = ([], True)"
| "read_all rd z (j # js) old =
     (let (x, ok) = rd j (case old of [] \<Rightarrow> z | y # _ \<Rightarrow> y); (xs, oks) = read_all rd z js (tl old) in (x # xs, ok \<and> oks))"

definition slice_type :: "'a go_type \<Rightarrow> 'a list go_type" where
  "slice_type t = \<lparr>ty_Write = (\<lambda>xs. JArr (map (ty_Write t) xs)),
     ty_Read = (\<lambda>j old. case j of JArr js \<Rightarrow> read_all (ty_Read t) (ty_Zero t) js old | JNull \<Rightarrow> ([], True) | _ \<Rightarrow> (old, False)),
     ty_Empty = (\<lambda>xs. xs = []), ty_Zero = []\<rparr>"

text \<open>A slice that is nil when it is empty, as one that was only appended to; nil is written as \<open>null\<close>.\<close>

definition appended_type :: "'a go_type \<Rightarrow> 'a list go_type" where
  "appended_type t = (slice_type t)\<lparr>ty_Write := (\<lambda>xs. if xs = [] then JNull else ty_Write (slice_type t) xs)\<rparr>"

definition pointer_type :: "'a go_type \<Rightarrow> 'a option go_type" where
  "pointer_type t = \<lparr>ty_Write = (\<lambda>p. case p of None \<Rightarrow> JNull | Some x \<Rightarrow> ty_Write t x),
     ty_Read = (\<lambda>j old. if j = JNull then (None, True)
        else (let (x, ok) = ty_Read t j (case old of None \<Rightarrow> ty_Zero t | Some y \<Rightarrow> y) in (Some x, ok))),
     ty_Empty = (\<lambda>p. p = None), ty_Zero = None\<rparr>"

text \<open>A map with string keys, as an association list; its members are written in the order of the keys.\<close>

definition put_key :: "string \<Rightarrow> 'a \<Rightarrow> (string \<times> 'a) list \<Rightarrow> (string \<times> 'a) list" where
  "put_key k x m = (k, x) # filter (\<lambda>(l, _). l \<noteq> k) m"

definition map_type :: "'a go_type \<Rightarrow> (string \<times> 'a) list go_type" where
  "map_type t = \<lparr>ty_Write = (\<lambda>m. JObj (map (\<lambda>(k, x). (k, ty_Write t x)) (sort_key fst m))),
     ty_Read = (\<lambda>j old. case j of
         JObj ms \<Rightarrow> fold (\<lambda>(k, v) (m, ok). let (x, ok') = ty_Read t v (ty_Zero t) in (put_key k x m, ok \<and> ok')) ms (old, True)
       | JNull \<Rightarrow> ([], True) | _ \<Rightarrow> (old, False)),
     ty_Empty = (\<lambda>m. m = []), ty_Zero = []\<rparr>"

subsection \<open>Structs\<close>

record 'r field =
  fd_Name :: string
  fd_Omit :: "'r \<Rightarrow> bool"
  fd_Write :: "'r \<Rightarrow> json"
  fd_Read :: "json \<Rightarrow> 'r \<Rightarrow> 'r \<times> bool"
  fd_Put :: "'r \<Rightarrow> 'r \<Rightarrow> 'r"

text \<open>
  A field with its tag: the name, whether an empty value is omitted, the type, and the selector and update of the record; \<open>fd_Put q r\<close>
  is \<open>r\<close> with the field of \<open>q\<close>.
\<close>

definition tagged :: "string \<Rightarrow> bool \<Rightarrow> 'a go_type \<Rightarrow> ('r \<Rightarrow> 'a) \<Rightarrow> (('a \<Rightarrow> 'a) \<Rightarrow> 'r \<Rightarrow> 'r) \<Rightarrow> 'r field" where
  "tagged name omitempty t get upd =
     \<lparr>fd_Name = name, fd_Omit = (\<lambda>r. omitempty \<and> ty_Empty t (get r)), fd_Write = (\<lambda>r. ty_Write t (get r)),
      fd_Read = (\<lambda>j r. case ty_Read t j (get r) of (x, ok) \<Rightarrow> (upd (\<lambda>_. x) r, ok)),
      fd_Put = (\<lambda>q r. upd (\<lambda>_. get q) r)\<rparr>"

text \<open>
  The name of a member up to case: ASCII letters, and the two letters beyond ASCII that fold to one (the long s and the Kelvin
  sign). The tags of the program are ASCII, so other letters need not be folded.
\<close>

definition fold_rune :: "string \<Rightarrow> string" where
  "fold_rune r = (if r = [CHR 0xC5, CHR 0xBF] then ''s'' else if r = [CHR 0xE2, CHR 0x84, CHR 0xAA] then ''k'' else to_lower r)"

definition fold_key :: "string \<Rightarrow> string" where
  "fold_key s = concat (map fold_rune (runes s))"

definition field_for :: "'r field list \<Rightarrow> string \<Rightarrow> 'r field option" where
  "field_for fs k = (case find (\<lambda>f. fd_Name f = k) fs of
       Some f \<Rightarrow> Some f
     | None \<Rightarrow> find (\<lambda>f. fold_key (fd_Name f) = fold_key k) fs)"

definition read_member :: "'r field list \<Rightarrow> string \<times> json \<Rightarrow> 'r \<times> bool \<Rightarrow> 'r \<times> bool" where
  "read_member fs m a = (case field_for fs (fst m) of
       None \<Rightarrow> a
     | Some f \<Rightarrow> (case fd_Read f (snd m) (fst a) of (r, ok) \<Rightarrow> (r, snd a \<and> ok)))"

definition read_struct :: "'r field list \<Rightarrow> json \<Rightarrow> 'r \<Rightarrow> 'r \<times> bool" where
  "read_struct fs j r = (case j of JObj ms \<Rightarrow> fold (read_member fs) ms (r, True) | JNull \<Rightarrow> (r, True) | _ \<Rightarrow> (r, False))"

definition write_struct :: "'r field list \<Rightarrow> 'r \<Rightarrow> json" where
  "write_struct fs r = JObj (map (\<lambda>f. (fd_Name f, fd_Write f r)) (filter (\<lambda>f. \<not> fd_Omit f r) fs))"

definition struct_type :: "'r field list \<Rightarrow> 'r \<Rightarrow> 'r go_type" where
  "struct_type fs zero = \<lparr>ty_Write = write_struct fs, ty_Read = read_struct fs, ty_Empty = (\<lambda>_. False), ty_Zero = zero\<rparr>"

text \<open>A struct with one field of its own type, which the model does not make a record of.\<close>

definition wrapped :: "string \<Rightarrow> bool \<Rightarrow> 'a go_type \<Rightarrow> 'a go_type" where
  "wrapped name omitempty t = struct_type [tagged name omitempty t (\<lambda>x. x) (\<lambda>f x. f x)] (ty_Zero t)"

subsection \<open>Documents\<close>

text \<open>
  \<open>Marshal\<close>, \<open>Encoder.Encode\<close>, which adds a line feed, \<open>Unmarshal\<close> and \<open>Decoder.Decode\<close>; \<open>fault\<close> is the error for a
  document that cannot be read, whose text is not modelled.
\<close>

definition Marshal :: "'a go_type \<Rightarrow> 'a \<Rightarrow> string" where
  "Marshal t x = json_text (ty_Write t x)"

definition Encode :: "'a go_type \<Rightarrow> 'a \<Rightarrow> string" where
  "Encode t x = Marshal t x @ [CHR 0x0A]"

definition read_document :: "'a go_type \<Rightarrow> (string \<Rightarrow> error) \<Rightarrow> json option \<Rightarrow> string \<Rightarrow> 'a \<Rightarrow> 'a \<times> error option" where
  "read_document t fault doc s old = (case doc of
       None \<Rightarrow> (old, Some (fault s))
     | Some j \<Rightarrow> (case ty_Read t j old of (x, ok) \<Rightarrow> (x, if ok then None else Some (fault s))))"

definition Unmarshal :: "'a go_type \<Rightarrow> (string \<Rightarrow> error) \<Rightarrow> string \<Rightarrow> 'a \<Rightarrow> 'a \<times> error option" where
  "Unmarshal t fault s old = read_document t fault (whole_json s) s old"

definition Decode :: "'a go_type \<Rightarrow> (string \<Rightarrow> error) \<Rightarrow> string \<Rightarrow> 'a \<Rightarrow> 'a \<times> error option" where
  "Decode t fault s old = read_document t fault (first_json s) s old"

text \<open>The value where there is no error; a client that gets an error drops the value.\<close>

definition or_error :: "'a \<times> error option \<Rightarrow> error + 'a" where
  "or_error r = (case snd r of Some e \<Rightarrow> Inl e | None \<Rightarrow> Inr (fst r))"

subsection \<open>Reading undoes writing\<close>

definition reads_back :: "'a go_type \<Rightarrow> 'a \<Rightarrow> bool" where
  "reads_back t x \<longleftrightarrow> ty_Read t (ty_Write t x) (ty_Zero t) = (x, True)"

lemmas go_type_defs = string_type_def bool_type_def int_type_def slice_type_def pointer_type_def struct_type_def

lemma reads_back_string [simp]: "reads_back string_type x"
  and reads_back_bool [simp]: "reads_back bool_type b"
  by (simp_all add: reads_back_def go_type_defs)

lemma Atoi_fits: "int_fits w i \<Longrightarrow> w \<le> 64 \<Longrightarrow> Atoi (int_str i) = Some i"
proof -
  assume i: "int_fits w i" "w \<le> 64"
  have "(2::int) ^ (w - 1) \<le> 2 ^ 63" using i(2) by (intro power_increasing) auto
  then have "- (2 ^ 63) \<le> i" "i < 2 ^ 63" using i(1) by (auto simp: int_fits_def)
  then show ?thesis by (rule Atoi_int_str)
qed

lemma reads_back_int [simp]: "int_fits w i \<Longrightarrow> w \<le> 64 \<Longrightarrow> reads_back (int_type w) i"
  using Atoi_fits [of w i] by (simp add: reads_back_def int_type_def)

lemma read_all_back: "\<forall>x\<in>set xs. reads_back t x \<Longrightarrow> read_all (ty_Read t) (ty_Zero t) (map (ty_Write t) xs) [] = (xs, True)"
  by (induction xs) (auto simp: reads_back_def)

lemma reads_back_slice: "(\<And>x. x \<in> set xs \<Longrightarrow> reads_back t x) \<Longrightarrow> reads_back (slice_type t) xs"
  using read_all_back [of xs t] by (simp add: reads_back_def slice_type_def)

lemma reads_back_appended: "(\<And>x. x \<in> set xs \<Longrightarrow> reads_back t x) \<Longrightarrow> reads_back (appended_type t) xs"
  using reads_back_slice [of xs t] by (simp add: reads_back_def appended_type_def slice_type_def)

lemma reads_back_pointer:
  "(\<And>x. p = Some x \<Longrightarrow> reads_back t x \<and> ty_Write t x \<noteq> JNull) \<Longrightarrow> reads_back (pointer_type t) p"
  by (cases p) (auto simp: reads_back_def pointer_type_def)

lemma empty_is_zero:
  "ty_Empty string_type x \<Longrightarrow> x = ty_Zero string_type" "ty_Empty bool_type b \<Longrightarrow> b = ty_Zero bool_type"
  "ty_Empty (int_type w) i \<Longrightarrow> i = ty_Zero (int_type w)" "ty_Empty (slice_type t) xs \<Longrightarrow> xs = ty_Zero (slice_type t)"
  "ty_Empty (pointer_type t) p \<Longrightarrow> p = ty_Zero (pointer_type t)" "ty_Empty (struct_type fs zero) r \<Longrightarrow> r = ty_Zero (struct_type fs zero)"
  by (simp_all add: go_type_defs)

text \<open>
  The laws of the fields of a struct for the values \<open>wf\<close>: what was written of a field is read back
  into a value that has the field's zero, an omitted field is the zero, the fields are independent of each other, are told apart
  by their names, and make up the struct.
\<close>

locale struct_laws =
  fixes fs :: "'r field list" and zero :: 'r and wf :: "'r \<Rightarrow> bool"
  assumes names: "distinct (map (\<lambda>f. fold_key (fd_Name f)) fs)"
    and read_field: "f \<in> set fs \<Longrightarrow> wf r \<Longrightarrow> fd_Put f zero x = x \<Longrightarrow> fd_Read f (fd_Write f r) x = (fd_Put f r x, True)"
    and put_zero: "f \<in> set fs \<Longrightarrow> fd_Put f zero zero = zero"
    and put_comm: "f \<in> set fs \<Longrightarrow> g \<in> set fs \<Longrightarrow> fd_Name f \<noteq> fd_Name g \<Longrightarrow> fd_Put f q (fd_Put g r x) = fd_Put g r (fd_Put f q x)"
    and omitted: "f \<in> set fs \<Longrightarrow> fd_Omit f r \<Longrightarrow> fd_Put f r zero = zero"
    and all_fields: "fold (\<lambda>f. fd_Put f r) fs zero = r"
begin

lemma field_for_name:
  assumes "f \<in> set fs"
  shows "field_for fs (fd_Name f) = Some f"
proof -
  have inj: "inj_on (\<lambda>f. fold_key (fd_Name f)) (set fs)" using names by (simp add: distinct_map)
  obtain g where g: "find (\<lambda>g. fd_Name g = fd_Name f) fs = Some g" "g \<in> set fs" "fd_Name g = fd_Name f"
  proof (cases "find (\<lambda>g. fd_Name g = fd_Name f) fs")
    case None
    with assms show ?thesis by (auto simp: find_None_iff)
  next
    case (Some g)
    with that show ?thesis by (auto simp: find_Some_iff)
  qed
  have "g = f" using inj_onD [OF inj _ g(2) assms] g(3) by simp
  with g(1) show ?thesis by (simp add: field_for_def)
qed

text \<open>Reading the fields \<open>gs\<close> that are left, with \<open>fold (\<lambda>f. fd_Put f r)\<close> of the others done.\<close>

lemma put_fold:
  assumes "f \<in> set fs" "set gs \<subseteq> set fs" "\<forall>g\<in>set gs. fd_Name f \<noteq> fd_Name g"
  shows "fd_Put f q (fold (\<lambda>g. fd_Put g r) gs x) = fold (\<lambda>g. fd_Put g r) gs (fd_Put f q x)"
  using assms(2,3) by (induction gs arbitrary: x) (auto simp: put_comm [OF assms(1)])

lemma read_fields:
  assumes "wf r" "gs @ hs = fs"
  shows "fold (read_member fs) (map (\<lambda>f. (fd_Name f, fd_Write f r)) (filter (\<lambda>f. \<not> fd_Omit f r) gs)) (zero, True)
    = (fold (\<lambda>f. fd_Put f r) gs zero, True)"
  using assms(2)
proof (induction gs arbitrary: hs rule: rev_induct)
  case (snoc f gs)
  have f: "f \<in> set fs" "set gs \<subseteq> set fs" using snoc.prems by auto
  have "distinct (map (\<lambda>f. fold_key (fd_Name f)) (gs @ [f]))"
    using names unfolding snoc.prems [symmetric] by (simp add: distinct_append)
  then have "\<forall>g\<in>set gs. fd_Name f \<noteq> fd_Name g" by force
  then have comm: "fd_Put f q (fold (\<lambda>g. fd_Put g r) gs x) = fold (\<lambda>g. fd_Put g r) gs (fd_Put f q x)" for q x
    by (rule put_fold [OF f])
  show ?case
  proof (cases "fd_Omit f r")
    case True
    then show ?thesis using snoc.IH [of "f # hs"] snoc.prems omitted [OF f(1) True] by (simp add: comm)
  next
    case False
    have "fd_Put f zero (fold (\<lambda>g. fd_Put g r) gs zero) = fold (\<lambda>g. fd_Put g r) gs zero"
      by (simp add: comm put_zero [OF f(1)])
    with False show ?thesis using snoc.IH [of "f # hs"] snoc.prems
      by (simp add: read_member_def field_for_name [OF f(1)] read_field [OF f(1) assms(1)])
  qed
qed simp

lemma struct_back: "wf r \<Longrightarrow> reads_back (struct_type fs zero) r"
  using read_fields [of r fs "[]"] by (simp add: reads_back_def struct_type_def read_struct_def write_struct_def all_fields)

end

text \<open>The laws of a tagged field follow from those of its type and of the record's selector and update.\<close>

lemma tagged_read:
  assumes "\<And>v x. get (upd (\<lambda>_. v) x) = v" "get zero = ty_Zero t" "reads_back t (get r)"
    and "fd_Put (tagged name om t get upd) zero x = x"
  shows "fd_Read (tagged name om t get upd) (fd_Write (tagged name om t get upd) r) x = (fd_Put (tagged name om t get upd) r x, True)"
proof -
  have "get x = ty_Zero t" using assms(1) [of "get zero" x] assms(2,4) by (simp add: tagged_def)
  with assms(3) show ?thesis by (simp add: tagged_def reads_back_def)
qed

lemma tagged_simps [simp]:
  "fd_Name (tagged name om t get upd) = name" "fd_Put (tagged name om t get upd) q r = upd (\<lambda>_. get q) r"
  "fd_Omit (tagged name om t get upd) r \<longleftrightarrow> om \<and> ty_Empty t (get r)"
  by (simp_all add: tagged_def)


lemma reads_back_wrapped:
  assumes "reads_back t x" "om \<Longrightarrow> ty_Empty t x \<Longrightarrow> x = ty_Zero t"
  shows "reads_back (wrapped name om t) x"
proof -
  let ?f = "tagged name om t (\<lambda>x. x) (\<lambda>f x. f x)"
  have "field_for [?f] name = Some ?f" by (simp add: field_for_def)
  then have "read_member [?f] (name, ty_Write t x) (ty_Zero t, True) = (x, True)"
    using assms(1) by (simp add: read_member_def tagged_def reads_back_def split: prod.split)
  with assms(2) show ?thesis
    by (auto simp: reads_back_def wrapped_def struct_type_def read_struct_def write_struct_def) (simp_all add: tagged_def)
qed

text \<open>A document that was written of UTF-8 strings and of integers is read back as a value.\<close>

definition writable :: "'a go_type \<Rightarrow> 'a \<Rightarrow> bool" where
  "writable t x \<longleftrightarrow> utf8_strings (ty_Write t x) \<and> int_numbers (ty_Write t x) \<and> nested max_depth (ty_Write t x)"

lemma Unmarshal_Marshal:
  assumes "reads_back t x" "writable t x"
  shows "Unmarshal t fault (Marshal t x) (ty_Zero t) = (x, None)"
  using assms whole_json_text [of "ty_Write t x"] clean_utf8 [of "ty_Write t x"]
  by (simp add: Unmarshal_def read_document_def Marshal_def reads_back_def writable_def)

lemma Decode_Encode:
  assumes "reads_back t x" "writable t x"
  shows "Decode t fault (Encode t x @ rest) (ty_Zero t) = (x, None)"
proof -
  have "number_end ([CHR 0x0A] @ rest)" by (simp add: number_end_def is_digit_def)
  then have "first_json (json_text (ty_Write t x) @ [CHR 0x0A] @ rest) = Some (ty_Write t x)"
    using assms(2) first_json_text clean_utf8 unfolding writable_def by metis
  with assms(1) show ?thesis by (simp add: Decode_def read_document_def Encode_def Marshal_def reads_back_def)
qed

end
