(* ===== verification/Wire_Format.thy ===== *)
theory Wire_Format
  imports Json_Struct Http_Types Config
begin

text \<open>
  The JSON tags of the structs of \<open>nat_connections.go\<close> and \<open>elb_connection.go\<close>, and of the options that users and
  administrators write as JSON: one list of fields per struct, in the order of the source. An embedded struct contributes its
  fields. From them come the decoders the clients use, the text of the bodies they send, and, by
  the laws of \<open>struct_laws\<close>, that a peer with the same tags reads what was sent.
\<close>

abbreviation text_field :: "string \<Rightarrow> ('r \<Rightarrow> string) \<Rightarrow> ((string \<Rightarrow> string) \<Rightarrow> 'r \<Rightarrow> 'r) \<Rightarrow> 'r field" where
  "text_field name \<equiv> tagged name False string_type"

abbreviation text_opt :: "string \<Rightarrow> ('r \<Rightarrow> string) \<Rightarrow> ((string \<Rightarrow> string) \<Rightarrow> 'r \<Rightarrow> 'r) \<Rightarrow> 'r field" where
  "text_opt name \<equiv> tagged name True string_type"

subsection \<open>NAT\<close>

definition NATGateway_fields :: "NATGateway field list" where
  "NATGateway_fields =
     [text_opt ''id'' ng_Id ng_Id_update, text_opt ''name'' ng_Name ng_Name_update,
      text_opt ''description'' ng_Description ng_Description_update, text_opt ''router_id'' ng_RouterId ng_RouterId_update,
      text_opt ''internal_network_id'' ng_InternalNetWorkId ng_InternalNetWorkId_update,
      text_opt ''status'' ng_Status ng_Status_update, text_opt ''spec'' ng_Spec ng_Spec_update,
      text_opt ''tenant_id'' ng_TenantId ng_TenantId_update,
      tagged ''admin_state_up'' True bool_type ng_AdminStateUp ng_AdminStateUp_update]"

definition NATGateway_type :: "NATGateway go_type" where
  "NATGateway_type = struct_type NATGateway_fields zero_NATGateway"

definition NATArr :: "NATGateway go_type" where
  "NATArr = wrapped ''nat_gateway'' False NATGateway_type"

definition NATGatewayList :: "NATGateway list go_type" where
  "NATGatewayList = wrapped ''nat_gateways'' False (slice_type NATGateway_type)"

definition DNATRuleDescription_fields :: "DNATRuleDescription field list" where
  "DNATRuleDescription_fields =
     [text_opt ''cluster_id'' dd_ClusterID dd_ClusterID_update, text_opt ''description'' dd_Description dd_Description_update]"

definition zero_DNATRuleDescription :: DNATRuleDescription where
  "zero_DNATRuleDescription = \<lparr>dd_ClusterID = [], dd_Description = []\<rparr>"

definition DNATRuleDescription_type :: "DNATRuleDescription go_type" where
  "DNATRuleDescription_type = struct_type DNATRuleDescription_fields zero_DNATRuleDescription"

definition DNATRule_fields :: "DNATRule field list" where
  "DNATRule_fields =
     [text_opt ''id'' dr_Id dr_Id_update, text_opt ''tenant_id'' dr_TenantId dr_TenantId_update,
      text_opt ''nat_gateway_id'' dr_NATGatewayId dr_NATGatewayId_update, text_opt ''port_id'' dr_PortId dr_PortId_update,
      tagged ''internal_service_port'' True (int_type 32) dr_InternalServicePort dr_InternalServicePort_update,
      text_opt ''floating_ip_id'' dr_FloatingIpId dr_FloatingIpId_update,
      tagged ''external_service_port'' True (int_type 32) dr_ExternalServicePort dr_ExternalServicePort_update,
      text_opt ''floating_ip_address'' dr_FloatingIpAddress dr_FloatingIpAddress_update,
      text_opt ''protocol'' dr_Protocol dr_Protocol_update, text_opt ''status'' dr_Status dr_Status_update,
      tagged ''admin_state_up'' True bool_type dr_AdminStateUp dr_AdminStateUp_update,
      text_opt ''description'' dr_Description dr_Description_update]"

definition DNATRule_type :: "DNATRule go_type" where
  "DNATRule_type = struct_type DNATRule_fields zero_DNATRule"

definition DNATRuleArr :: "DNATRule go_type" where
  "DNATRuleArr = wrapped ''dnat_rule'' False DNATRule_type"

definition DNATRuleList :: "DNATRule list go_type" where
  "DNATRuleList = wrapped ''dnat_rules'' False (slice_type DNATRule_type)"

definition FixedIp_type :: "NatFixedIp go_type" where
  "FixedIp_type = struct_type
     [text_opt ''subnet_id'' nfi_SubnetId nfi_SubnetId_update, text_field ''ip_address'' nfi_IpAddress nfi_IpAddress_update]
     \<lparr>nfi_SubnetId = [], nfi_IpAddress = []\<rparr>"

definition AllowAddressPair_type :: "AllowAddressPair go_type" where
  "AllowAddressPair_type = struct_type
     [text_opt ''ip_address'' ap_IpAddress ap_IpAddress_update, text_opt ''mac_address'' ap_MacAddress ap_MacAddress_update,
      text_opt ''opt_name'' ap_OptName ap_OptName_update, text_opt ''opt_value'' ap_OptValue ap_OptValue_update]
     \<lparr>ap_IpAddress = [], ap_MacAddress = [], ap_OptName = [], ap_OptValue = []\<rparr>"

definition Port_type :: "Port go_type" where
  "Port_type = struct_type
     [text_opt ''id'' po_Id po_Id_update, text_opt ''name'' po_Name po_Name_update,
      text_opt ''network_id'' po_NetworkId po_NetworkId_update,
      tagged ''admin_state_up'' True bool_type po_AdminStateUp po_AdminStateUp_update,
      text_opt ''mac_address'' po_MacAddress po_MacAddress_update,
      tagged ''fixed_ips'' True (slice_type (pointer_type FixedIp_type)) po_FixedIps po_FixedIps_update,
      text_opt ''device_id'' po_DeviceId po_DeviceId_update, text_opt ''device_owner'' po_DeviceOwner po_DeviceOwner_update,
      text_opt ''tenant_id'' po_TenantId po_TenantId_update, text_opt ''status'' po_Status po_Status_update,
      tagged ''security_groups'' True (slice_type string_type) po_SecurityGroups po_SecurityGroups_update,
      tagged ''allow_address_pairs'' True (slice_type (pointer_type AllowAddressPair_type)) po_AllowedAddressPairs po_AllowedAddressPairs_update]
     zero_Port"

definition PortArr :: "Port go_type" where
  "PortArr = wrapped ''port'' False Port_type"

definition PortList :: "Port list go_type" where
  "PortList = wrapped ''ports'' True (slice_type Port_type)"

definition FloatingIp_type :: "FloatingIp go_type" where
  "FloatingIp_type = struct_type
     [text_opt ''id'' fl_Id fl_Id_update, text_opt ''status'' fl_Status fl_Status_update,
      text_opt ''floating_ip_address'' fl_FloatingIpAddress fl_FloatingIpAddress_update,
      text_opt ''floating_network_id'' fl_FloatingNetworkId fl_FloatingNetworkId_update,
      text_opt ''router_id'' fl_RouterId fl_RouterId_update, text_opt ''port_id'' fl_PortId fl_PortId_update,
      text_opt ''fixed_ip_address'' fl_FixedIpAddress fl_FixedIpAddress_update, text_opt ''tenant_id'' fl_TenantId fl_TenantId_update]
     \<lparr>fl_Id = [], fl_Status = [], fl_FloatingIpAddress = [], fl_FloatingNetworkId = [], fl_RouterId = [], fl_PortId = [],
      fl_FixedIpAddress = [], fl_TenantId = []\<rparr>"

definition FloatingIpArr :: "FloatingIp go_type" where
  "FloatingIpArr = wrapped ''floatingip'' False FloatingIp_type"

definition FloatingIpList :: "FloatingIp list go_type" where
  "FloatingIpList = wrapped ''floatingips'' True (slice_type FloatingIp_type)"

subsection \<open>ELB, version 1\<close>

text \<open>The fields of a struct that others embed are stated for every extension of its record.\<close>

definition ELB_fields :: "'a ELB_scheme field list" where
  "ELB_fields =
     [text_field ''name'' elb_Name elb_Name_update, text_opt ''description'' elb_Description elb_Description_update,
      text_field ''vpc_id'' elb_VpcID elb_VpcID_update, tagged ''bandwidth'' False (int_type 64) elb_Bandwidth elb_Bandwidth_update,
      text_field ''type'' elb_Type elb_Type_update,
      tagged ''admin_state_up'' False (int_type 64) elb_AdminStateUp elb_AdminStateUp_update]"

definition zero_ELB :: ELB where
  "zero_ELB = \<lparr>elb_Name = [], elb_Description = [], elb_VpcID = [], elb_Bandwidth = 0, elb_Type = [], elb_AdminStateUp = 0\<rparr>"

definition ELB_type :: "ELB go_type" where
  "ELB_type = struct_type ELB_fields zero_ELB"

definition ElbDetail_type :: "ElbDetail go_type" where
  "ElbDetail_type = struct_type
     (ELB_fields @
      [text_field ''vip_address'' elb_VipAddress elb_VipAddress_update, text_field ''create_time'' elb_CreateTime elb_CreateTime_update,
       text_field ''status'' elb_Status elb_Status_update, text_field ''id'' elb_LoadbalancerId elb_LoadbalancerId_update,
       text_opt ''vip_subnet_id'' elb_VipSubnetId elb_VipSubnetId_update]) zero_ElbDetail"

definition ElbList_type :: "ElbList go_type" where
  "ElbList_type = struct_type
     [text_field ''instance_num'' el_InstanceNum el_InstanceNum_update,
      tagged ''loadbalancers'' True (slice_type ElbDetail_type) el_Loadbalancers el_Loadbalancers_update]
     \<lparr>el_InstanceNum = [], el_Loadbalancers = []\<rparr>"

definition ElbNum :: "string go_type" where
  "ElbNum = wrapped ''instance_num'' False string_type"

definition ListenerModify_fields :: "'a ELBListener_scheme field list" where
  "ListenerModify_fields =
     [text_opt ''name'' ls_Name ls_Name_update, tagged ''admin_state_up'' True bool_type ls_AdminStateUp ls_AdminStateUp_update,
      text_opt ''description'' ls_Description ls_Description_update]"

definition Listener_fields :: "'a ELBListener_scheme field list" where
  "Listener_fields = ListenerModify_fields @
     [text_opt ''loadbalancer_id'' ls_LoadbalancerID ls_LoadbalancerID_update, text_opt ''protocol'' ls_Protocol ls_Protocol_update,
      tagged ''port'' True (int_type 64) ls_Port ls_Port_update, text_opt ''backend_protocol'' ls_BackendProtocol ls_BackendProtocol_update,
      tagged ''backend_port'' True (int_type 64) ls_BackendPort ls_BackendPort_update,
      text_opt ''lb_algorithm'' ls_LBAlgorithm ls_LBAlgorithm_update, text_opt ''ssl_certificate'' ls_SSLCertificate ls_SSLCertificate_update,
      tagged ''session_sticky'' False bool_type ls_SessionSticky ls_SessionSticky_update,
      text_opt ''sticky_session_type'' ls_StickySessionType ls_StickySessionType_update,
      tagged ''cookie_timeout'' True (int_type 64) ls_CookieTimeout ls_CookieTimeout_update,
      tagged ''tcp_timeout'' True (int_type 64) ls_TCPTimeout ls_TCPTimeout_update]"

definition Listener_type :: "ELBListener go_type" where
  "Listener_type = struct_type Listener_fields zero_ELBListener"

text \<open>What \<open>ListenerRsp\<close> adds to \<open>Listener\<close>.\<close>

definition ListenerRsp_fields :: "ListenerDetail field list" where
  "ListenerRsp_fields =
     [text_field ''id'' ls_ID ls_ID_update, text_field ''tenant_id'' ls_TenantID ls_TenantID_update,
      text_field ''status'' ls_Status ls_Status_update, text_field ''create_time'' ls_CreateTime ls_CreateTime_update,
      text_field ''healthcheck_id'' ls_HealthcheckID ls_HealthcheckID_update]"

definition ListenerRsp_type :: "ListenerDetail go_type" where
  "ListenerRsp_type = struct_type (Listener_fields @ ListenerRsp_fields) zero_ListenerDetail"

definition ListenerDetail_type :: "ListenerDetail go_type" where
  "ListenerDetail_type = struct_type
     (ListenerModify_fields @
      [text_field ''loadbalancer_id'' ls_LoadbalancerID ls_LoadbalancerID_update, text_field ''protocol'' ls_Protocol ls_Protocol_update,
       tagged ''port'' False (int_type 64) ls_Port ls_Port_update, text_field ''backend_protocol'' ls_BackendProtocol ls_BackendProtocol_update,
       tagged ''backend_port'' False (int_type 64) ls_BackendPort ls_BackendPort_update,
       text_field ''lb_algorithm'' ls_LBAlgorithm ls_LBAlgorithm_update, text_opt ''ssl_certificate'' ls_SSLCertificate ls_SSLCertificate_update,
       tagged ''session_sticky'' True bool_type ls_SessionSticky ls_SessionSticky_update,
       text_opt ''sticky_session_type'' ls_StickySessionType ls_StickySessionType_update,
       tagged ''cookie_timeout'' True (int_type 64) ls_CookieTimeout ls_CookieTimeout_update] @
      ListenerRsp_fields @ [tagged ''tcp_timeout'' True (int_type 64) ls_TCPTimeout ls_TCPTimeout_update]) zero_ListenerDetail"

definition HealthCheck_fields :: "'a HealthCheck_scheme field list" where
  "HealthCheck_fields =
     [text_opt ''listener_id'' hk_ListenerID hk_ListenerID_update, text_field ''healthcheck_protocol'' hk_HealthcheckProtocol hk_HealthcheckProtocol_update,
      text_opt ''healthcheck_uri'' hk_HealthcheckURI hk_HealthcheckURI_update,
      tagged ''healthcheck_connect_port'' False (int_type 64) hk_HealthcheckConnectPort hk_HealthcheckConnectPort_update,
      tagged ''healthy_threshold'' False (int_type 64) hk_HealthyThreshold hk_HealthyThreshold_update,
      tagged ''unhealthy_threshold'' False (int_type 64) hk_UnhealthyThreshold hk_UnhealthyThreshold_update,
      tagged ''healthcheck_timeout'' False (int_type 64) hk_HealthcheckTimeout hk_HealthcheckTimeout_update,
      tagged ''healthcheck_interval'' False (int_type 64) hk_HealthcheckInterval hk_HealthcheckInterval_update]"

definition HealthCheck_type :: "HealthCheck go_type" where
  "HealthCheck_type = struct_type HealthCheck_fields zero_HealthCheck"

definition HealthCheckRsp_fields :: "'a HealthCheckRsp_scheme field list" where
  "HealthCheckRsp_fields = HealthCheck_fields @ [text_opt ''id'' hk_ID hk_ID_update, text_opt ''tenant_id'' hk_TenantID hk_TenantID_update]"

definition HealthCheckRsp_type :: "HealthCheckRsp go_type" where
  "HealthCheckRsp_type = struct_type HealthCheckRsp_fields zero_HealthCheckRsp"

definition HealthCheckDetail_type :: "HealthCheckDetail go_type" where
  "HealthCheckDetail_type = struct_type
     (HealthCheckRsp_fields @ [text_opt ''healthcheck_status'' hk_HealthcheckStatus hk_HealthcheckStatus_update,
        text_field ''create_time'' hk_CreateTime hk_CreateTime_update])
     (HealthCheckRsp.extend zero_HealthCheckRsp (HealthCheckDetail.fields [] []))"

definition Member_fields :: "'a ELBMember_scheme field list" where
  "Member_fields =
     [text_opt ''listener_id'' em_ListenerID em_ListenerID_update, text_field ''server_id'' em_ServerID em_ServerID_update,
      text_field ''address'' em_Address em_Address_update]"

definition zero_ELBMember :: ELBMember where
  "zero_ELBMember = \<lparr>em_ListenerID = [], em_ServerID = [], em_Address = []\<rparr>"

definition Member_type :: "ELBMember go_type" where
  "Member_type = struct_type Member_fields zero_ELBMember"

definition MemDetail_type :: "MemDetail go_type" where
  "MemDetail_type = struct_type
     (Member_fields @
      [text_field ''server_address'' em_ServerAddress em_ServerAddress_update, text_field ''id'' em_ID em_ID_update,
       text_field ''status'' em_Status em_Status_update,
       tagged ''listeners'' False (slice_type (map_type string_type)) em_Listeners em_Listeners_update,
       text_field ''server_name'' em_ServerName em_ServerName_update, text_field ''health_status'' em_HealthStatus em_HealthStatus_update])
     (ELBMember.extend zero_ELBMember (MemDetail.fields [] [] [] [] [] []))"

definition MemberRm_fields :: "MemberRm field list" where
  "MemberRm_fields = [text_field ''id'' mr_ID mr_ID_update, text_field ''address'' mr_Address mr_Address_update]"

definition MemberRm_type :: "MemberRm go_type" where
  "MemberRm_type = struct_type MemberRm_fields \<lparr>mr_ID = [], mr_Address = []\<rparr>"

definition MembersDel :: "MemberRm list go_type" where
  "MembersDel = wrapped ''removeMember'' False (appended_type MemberRm_type)"

definition QuotaResource_type :: "QuotaResource go_type" where
  "QuotaResource_type = struct_type
     [text_field ''type'' qr_Type qr_Type_update, tagged ''used'' False (int_type 64) qr_Used qr_Used_update,
      tagged ''quota'' False (int_type 64) qr_Quota qr_Quota_update] \<lparr>qr_Type = [], qr_Used = 0, qr_Quota = 0\<rparr>"

definition Quota :: "QuotaResource list go_type" where
  "Quota = wrapped ''quotas'' False (wrapped ''resources'' False (slice_type QuotaResource_type))"

text \<open>The anonymous structs \<open>Entities\<close> and \<open>Elb\<close> of a job are read in place.\<close>

definition job_member_type :: "(string \<times> string) go_type" where
  "job_member_type = struct_type [text_field ''address'' fst apfst, text_field ''id'' snd apsnd] ([], [])"

definition inner_struct :: "string \<Rightarrow> 'r field list \<Rightarrow> 'r \<Rightarrow> 'r field" where
  "inner_struct name fs zero = tagged name False (struct_type fs zero) (\<lambda>r. r) (\<lambda>f r. f r)"

definition AsyncJobResp_type :: "AsyncJobResp go_type" where
  "AsyncJobResp_type = struct_type
     [text_field ''status'' aj_Status aj_Status_update,
      inner_struct ''entities''
        [inner_struct ''elb'' [text_field ''id'' aj_LoadbalancerId aj_LoadbalancerId_update] zero_AsyncJobResp,
         tagged ''members'' False (slice_type job_member_type) aj_Members aj_Members_update] zero_AsyncJobResp,
      text_field ''fail_reason'' aj_FailReason aj_FailReason_update, text_field ''error_code'' aj_ErrorCode aj_ErrorCode_update]
     zero_AsyncJobResp"

definition JobResp_type :: "JobResp go_type" where
  "JobResp_type = struct_type [text_field ''job_id'' jr_JobID jr_JobID_update, text_field ''uri'' jr_Uri jr_Uri_update] zero_JobResp"

definition ErrorRsp_type :: "ErrorRsp go_type" where
  "ErrorRsp_type = wrapped ''error'' False
     (struct_type [text_field ''message'' er_Message er_Message_update, text_field ''code'' er_Code er_Code_update] \<lparr>er_Message = [], er_Code = []\<rparr>)"

definition EcsAddress :: "string go_type" where
  "EcsAddress = wrapped ''addr'' False string_type"

definition Server_type :: "Server go_type" where
  "Server_type = struct_type
     [text_field ''id'' sv_Id sv_Id_update, text_field ''name'' sv_Name sv_Name_update,
      tagged ''addresses'' True (map_type (slice_type EcsAddress)) sv_Addresses sv_Addresses_update]
     \<lparr>sv_Id = [], sv_Name = [], sv_Addresses = []\<rparr>"

definition EcsServers :: "Server list go_type" where
  "EcsServers = wrapped ''servers'' True (slice_type Server_type)"


subsection \<open>Options\<close>

text \<open>
  The documents of annotations and of the config map. \<open>SessionPersistence\<close> is a struct of the SDK with a
  reader of its own, so its type is an argument.
\<close>

definition HealthCheckOption_fields :: "HealthCheckOption field list" where
  "HealthCheckOption_fields =
     [tagged ''enable'' False bool_type hc_Enable hc_Enable_update, tagged ''delay'' False (int_type 32) hc_Delay hc_Delay_update,
      tagged ''timeout'' False (int_type 32) hc_Timeout hc_Timeout_update,
      tagged ''max_retries'' False (int_type 32) hc_MaxRetries hc_MaxRetries_update,
      text_field ''protocol'' hc_Protocol hc_Protocol_update, text_field ''path'' hc_Path hc_Path_update]"

definition zero_HealthCheckOption :: HealthCheckOption where
  "zero_HealthCheckOption = \<lparr>hc_Enable = False, hc_Delay = 0, hc_Timeout = 0, hc_MaxRetries = 0, hc_Protocol = [], hc_Path = []\<rparr>"

definition HealthCheckOption_type :: "HealthCheckOption go_type" where
  "HealthCheckOption_type = struct_type HealthCheckOption_fields zero_HealthCheckOption"

definition CreateEIPOptions_type :: "CreateEIPOptions go_type" where
  "CreateEIPOptions_type = struct_type
     [tagged ''bandwidth_size'' False (int_type 32) eo_BandwidthSize eo_BandwidthSize_update,
      text_field ''share_type'' eo_ShareType eo_ShareType_update, text_field ''share_id'' eo_ShareID eo_ShareID_update,
      text_field ''charge_mode'' eo_ChargeMode eo_ChargeMode_update, text_field ''ip_type'' eo_IPType eo_IPType_update]
     \<lparr>eo_BandwidthSize = 0, eo_ShareType = [], eo_ShareID = [], eo_ChargeMode = [], eo_IPType = []\<rparr>"

definition LoadBalancerOptions_type :: "SessionPersistence go_type \<Rightarrow> LoadBalancerOptions go_type" where
  "LoadBalancerOptions_type session = struct_type
     [text_field ''lb-algorithm'' LBAlgorithm LBAlgorithm_update, text_field ''lb-provider'' LBProvider LBProvider_update,
      tagged ''keep-eip'' False bool_type KeepEIP KeepEIP_update,
      tagged ''enable-cross-vpc'' False bool_type EnableCrossVpc EnableCrossVpc_update,
      text_field ''l4-flavor-id'' L4FlavorID L4FlavorID_update, text_field ''l7-flavor-id'' L7FlavorID L7FlavorID_update,
      tagged ''session-affinity-option'' False session SessionAffinityOption SessionAffinityOption_update,
      text_field ''session-affinity-flag'' SessionAffinityFlag SessionAffinityFlag_update,
      tagged ''enable-transparent-client-ip'' False bool_type EnableTransparentClientIP EnableTransparentClientIP_update,
      tagged ''idle-timeout'' False (int_type 64) IdleTimeout IdleTimeout_update,
      tagged ''request-timeout'' False (int_type 64) RequestTimeout RequestTimeout_update,
      tagged ''response-timeout'' False (int_type 64) ResponseTimeout ResponseTimeout_update,
      text_field ''health-check-flag'' HealthCheckFlag HealthCheckFlag_update,
      tagged ''health-check-option'' False HealthCheckOption_type HealthCheckOption HealthCheckOption_update,
      tagged ''disable-create-security-group'' False bool_type DisableCreateSecurityGroup DisableCreateSecurityGroup_update,
      text_field ''loadbalancer-class'' LoadBalancerClass LoadBalancerClass_update,
      text_field ''business-name'' BusinessName BusinessName_update, text_field ''primary-nic'' PrimaryNic PrimaryNic_update]
     zero_LoadBalancerOptions"

definition NetworkingOptions_type :: "NetworkingOptions go_type" where
  "NetworkingOptions_type = struct_type
     [tagged ''public-network-name'' False (slice_type string_type) PublicNetworkName PublicNetworkName_update,
      tagged ''internal-network-name'' False (slice_type string_type) InternalNetworkName InternalNetworkName_update]
     \<lparr>PublicNetworkName = [], InternalNetworkName = []\<rparr>"

definition MetadataOptions_type :: "MetadataOptions go_type" where
  "MetadataOptions_type = struct_type [text_field ''search-order'' SearchOrder SearchOrder_update] \<lparr>SearchOrder = []\<rparr>"

subsection \<open>The decoders and encoders of the program\<close>

definition decoded :: "(string \<Rightarrow> error) \<Rightarrow> 'a go_type \<Rightarrow> string \<Rightarrow> error + 'a" where
  "decoded fault t s = or_error (Decode t fault s (ty_Zero t))"

definition unmarshalled :: "(string \<Rightarrow> error) \<Rightarrow> 'a go_type \<Rightarrow> string \<Rightarrow> error + 'a" where
  "unmarshalled fault t s = or_error (Unmarshal t fault s (ty_Zero t))"

text \<open>\<open>elb.go\<close> reads the session options into a map that is there; \<open>null\<close> makes it nil.\<close>

definition session_options :: "(string \<Rightarrow> error) \<Rightarrow> string \<Rightarrow> error + (string \<rightharpoonup> string) option" where
  "session_options fault s = (case unmarshalled fault (map_type string_type) s of
       Inl e \<Rightarrow> Inl e
     | Inr m \<Rightarrow> Inr (if whole_json s = Some JNull then None else Some (map_of m)))"

definition go_json :: "(string \<Rightarrow> error) \<Rightarrow> json_decoders" where
  "go_json fault = \<lparr>js_NATGateway = decoded fault NATArr, js_NATGateways = decoded fault NATGatewayList,
     js_DNATRule = decoded fault DNATRuleArr, js_DNATRules = decoded fault DNATRuleList,
     js_Port = decoded fault PortArr, js_Ports = decoded fault PortList, js_FloatingIps = decoded fault FloatingIpList,
     js_Description = unmarshalled fault DNATRuleDescription_type, js_encDescription = Marshal DNATRuleDescription_type,
     js_Job = decoded fault AsyncJobResp_type, js_JobResp = decoded fault JobResp_type, js_Quotas = decoded fault Quota,
     js_ElbDetail = decoded fault ElbDetail_type, js_ElbNum = unmarshalled fault (pointer_type ElbNum),
     js_ElbList = unmarshalled fault ElbList_type, js_ListenerRsp = unmarshalled fault ListenerRsp_type,
     js_Listener = decoded fault ListenerDetail_type, js_Listeners = decoded fault (slice_type (pointer_type ListenerDetail_type)),
     js_ErrorRsp = unmarshalled fault (pointer_type ErrorRsp_type), js_HealthCheckRsp = decoded fault HealthCheckRsp_type,
     js_HealthCheckDetail = unmarshalled fault HealthCheckDetail_type,
     js_Members = unmarshalled fault (slice_type (pointer_type MemDetail_type)), js_Servers = decoded fault EcsServers,
     js_SessionOptions = session_options fault\<rparr>"

definition go_codecs :: "(string \<Rightarrow> error) \<Rightarrow> SessionPersistence go_type \<Rightarrow> codecs" where
  "go_codecs fault session = \<lparr>json_health = Unmarshal HealthCheckOption_type fault, json_session = Unmarshal session fault,
     json_eip = Unmarshal CreateEIPOptions_type fault, json_lb_options = Unmarshal (LoadBalancerOptions_type session) fault,
     json_networking = Unmarshal NetworkingOptions_type fault, json_metadata = Unmarshal MetadataOptions_type fault\<rparr>"

text \<open>\<open>encodeBody\<close>: the text of the object of a request.\<close>

fun encodeBody :: "http_obj \<Rightarrow> string" where
  "encodeBody (ObjDNATRule r) = Encode DNATRuleArr r"
| "encodeBody (ObjELB e) = Encode ELB_type e"
| "encodeBody (ObjListener l) = Encode Listener_type l"
| "encodeBody (ObjHealthCheck h) = Encode HealthCheck_type h"
| "encodeBody (ObjMembers ms) = Encode (slice_type Member_type) ms"
| "encodeBody (ObjMembersDel ms) = Encode MembersDel ms"

definition request_body :: "http_request \<Rightarrow> string option" where
  "request_body r = map_option encodeBody (rq_Obj r)"

end
