(* ===== verification/Wire_Laws.thy ===== *)
theory Wire_Laws
  imports Wire_Format Annotations
begin

text \<open>
  The laws of \<open>struct_laws\<close> for every struct the program writes as JSON, and for the options it reads: what
  was written of a value of the struct is read back. Integers must fit their type.
\<close>

lemma fold_key_ascii: "list_all (\<lambda>c. byte c < 128) s \<Longrightarrow> fold_key s = to_lower s"
proof (induction s)
  case (Cons c cs)
  then have "byte c < 128" by simp
  then have "[c] \<noteq> [CHR 0xC5, CHR 0xBF]" "[c] \<noteq> [CHR 0xE2, CHR 0x84, CHR 0xAA]" by auto
  with Cons show ?case by (simp add: fold_key_def fold_rune_def to_lower_def)
qed (simp add: fold_key_def to_lower_def)

text \<open>Tags in lower case are told apart as they are written.\<close>

definition lower_tag :: "string \<Rightarrow> bool" where
  "lower_tag s \<longleftrightarrow> list_all (\<lambda>c. byte c < 128 \<and> to_lower_char c = c) s"

lemma lower_tag_fold: "lower_tag s \<Longrightarrow> fold_key s = s"
proof -
  assume "lower_tag s"
  then have "list_all (\<lambda>c. byte c < 128) s" "to_lower s = s" by (auto simp: lower_tag_def list_all_iff to_lower_def intro: map_idI)
  then show ?thesis by (simp add: fold_key_ascii)
qed

lemma distinct_tags:
  assumes "list_all (\<lambda>f. lower_tag (fd_Name f)) fs" "distinct (map fd_Name fs)"
  shows "distinct (map (\<lambda>f. fold_key (fd_Name f)) fs)"
proof -
  have "map (\<lambda>f. fold_key (fd_Name f)) fs = map fd_Name fs"
    using assms(1) by (intro map_cong) (auto simp: list_all_iff lower_tag_fold)
  with assms(2) show ?thesis by (simp only:)
qed

lemmas lower_tags = lower_tag_def to_lower_char_def byte_def

text \<open>A string, a flag and an integer are read back whatever was there, so the laws of their fields are equations.\<close>

lemma leaf_read [simp]:
  "ty_Read string_type (ty_Write string_type v) old = (v, True)" "ty_Read bool_type (ty_Write bool_type b) old' = (b, True)"
  by (simp_all add: go_type_defs)

lemma int_read [simp]: "int_fits w i \<Longrightarrow> w \<le> 64 \<Longrightarrow> ty_Read (int_type w) (ty_Write (int_type w) i) old = (i, True)"
  using reads_back_int [of w i] by (cases "Atoi (int_str i)") (auto simp: reads_back_def int_type_def split: if_splits)

lemma tagged_leaf [simp]:
  "ty_Read t (ty_Write t (get r)) (get x) = (get r, True) \<Longrightarrow>
   fd_Read (tagged name om t get upd) (fd_Write (tagged name om t get upd) r) x = (upd (\<lambda>_. get r) x, True)"
  by (simp add: tagged_def)

lemma leaf_empty [simp]: "ty_Empty string_type s \<longleftrightarrow> s = []" "ty_Empty bool_type b \<longleftrightarrow> \<not> b" "ty_Empty (int_type w) i \<longleftrightarrow> i = 0"
  by (auto simp: go_type_defs)

interpretation description: struct_laws DNATRuleDescription_fields zero_DNATRuleDescription "\<lambda>_. True"
  by unfold_locales
    (rule distinct_tags, auto simp: DNATRuleDescription_fields_def zero_DNATRuleDescription_def lower_tags)

definition rule_ints :: "DNATRule \<Rightarrow> bool" where
  "rule_ints r \<longleftrightarrow> int_fits 32 (dr_InternalServicePort r) \<and> int_fits 32 (dr_ExternalServicePort r)"

interpretation rule: struct_laws DNATRule_fields zero_DNATRule rule_ints
  by unfold_locales
    (rule distinct_tags, auto simp: DNATRule_fields_def zero_DNATRule_def lower_tags rule_ints_def)


definition elb_ints :: "ELB \<Rightarrow> bool" where
  "elb_ints e \<longleftrightarrow> int_fits 64 (elb_Bandwidth e) \<and> int_fits 64 (elb_AdminStateUp e)"

interpretation elb: struct_laws ELB_fields zero_ELB elb_ints
  by unfold_locales
    (rule distinct_tags, auto simp: ELB_fields_def zero_ELB_def lower_tags elb_ints_def)

definition listener_ints :: "ELBListener \<Rightarrow> bool" where
  "listener_ints l \<longleftrightarrow> list_all (int_fits 64) [ls_Port l, ls_BackendPort l, ls_CookieTimeout l, ls_TCPTimeout l]"

interpretation listener: struct_laws Listener_fields zero_ELBListener listener_ints
  by unfold_locales
    (rule distinct_tags, auto simp: Listener_fields_def ListenerModify_fields_def zero_ELBListener_def lower_tags listener_ints_def)

definition health_ints :: "HealthCheck \<Rightarrow> bool" where
  "health_ints h \<longleftrightarrow> list_all (int_fits 64) [hk_HealthcheckConnectPort h, hk_HealthyThreshold h, hk_UnhealthyThreshold h,
     hk_HealthcheckTimeout h, hk_HealthcheckInterval h]"

interpretation health_check: struct_laws HealthCheck_fields zero_HealthCheck health_ints
  by unfold_locales
    (rule distinct_tags, auto simp: HealthCheck_fields_def zero_HealthCheck_def lower_tags health_ints_def)

interpretation member: struct_laws Member_fields zero_ELBMember "\<lambda>_. True"
  by unfold_locales
    (rule distinct_tags, auto simp: Member_fields_def zero_ELBMember_def lower_tags)

interpretation member_rm: struct_laws MemberRm_fields "\<lparr>mr_ID = [], mr_Address = []\<rparr>" "\<lambda>_. True"
  by unfold_locales
    (rule distinct_tags, auto simp: MemberRm_fields_def lower_tags)

definition option_ints :: "HealthCheckOption \<Rightarrow> bool" where
  "option_ints h \<longleftrightarrow> list_all (int_fits 32) [hc_Delay h, hc_Timeout h, hc_MaxRetries h]"

interpretation health_option: struct_laws HealthCheckOption_fields zero_HealthCheckOption option_ints
  by unfold_locales
    (rule distinct_tags, auto simp: HealthCheckOption_fields_def zero_HealthCheckOption_def lower_tags option_ints_def)

end
