(* ===== verification/Wire_Correct.thy ===== *)
theory Wire_Correct
  imports Wire_Laws Nat_Correct
begin

text \<open>
  What the clients send arrives: every object is read back from the body of its request, and the rules a cluster
  has created are those it recognises when it lists them. The decoders of the clients are \<open>go_json\<close> here.
\<close>

subsection \<open>The documents of the objects\<close>

text \<open>A struct of strings, flags and integers.\<close>

definition leaf :: "json \<Rightarrow> bool" where
  "leaf j \<longleftrightarrow> (case j of JStr _ \<Rightarrow> True | JBool _ \<Rightarrow> True | JNum _ \<Rightarrow> int_numbers j | _ \<Rightarrow> False)"

lemma leaf_flat: "leaf j \<Longrightarrow> int_numbers j \<and> nested d j"
  by (cases j) (auto simp: leaf_def)

lemma leaf_write [simp]: "leaf (ty_Write string_type s)" "leaf (ty_Write bool_type b)"
  by (simp_all add: leaf_def go_type_defs)

lemma leaf_write_int [simp]: "int_fits w i \<Longrightarrow> w \<le> 64 \<Longrightarrow> leaf (ty_Write (int_type w) i)"
  by (simp add: leaf_def int_type_def Atoi_fits)

lemma tagged_write [simp]: "fd_Write (tagged name om t get upd) r = ty_Write t (get r)"
  by (simp add: tagged_def)

definition flat :: "'a go_type \<Rightarrow> 'a \<Rightarrow> bool" where
  "flat t x \<longleftrightarrow> int_numbers (ty_Write t x) \<and> nested 1 (ty_Write t x)"

lemma flat_struct: "list_all (\<lambda>f. leaf (fd_Write f r)) fs \<Longrightarrow> flat (struct_type fs zero) r"
  by (auto simp: flat_def struct_type_def write_struct_def list_all_iff leaf_flat)

lemma nested_more: "nested d j \<Longrightarrow> d \<le> e \<Longrightarrow> nested e j"
proof (induction d j arbitrary: e rule: nested.induct)
  case (1 d js)
  then show ?case by (auto simp: list_all_iff)
next
  case (2 d ms)
  then show ?case by (fastforce simp: list_all_iff intro: diff_le_mono)
qed auto

lemma flat_nested: "flat t x \<Longrightarrow> 0 < d \<Longrightarrow> nested d (ty_Write t x)"
  using nested_more by (fastforce simp: flat_def)

lemma wrapped_write: "ty_Write (wrapped name False t) x = JObj [(name, ty_Write t x)]"
  by (simp add: wrapped_def struct_type_def write_struct_def)

text \<open>What \<open>sendable\<close> asks for is UTF-8 and integers that fit; the rest of \<open>writable\<close> holds of the structs.\<close>

lemma writable_flat: "flat t x \<Longrightarrow> utf8_strings (ty_Write t x) \<Longrightarrow> writable t x"
  using flat_nested [of t x max_depth] by (simp add: writable_def flat_def max_depth_def)

lemma flat_types:
  "rule_ints r \<Longrightarrow> flat DNATRule_type r" "elb_ints e \<Longrightarrow> flat ELB_type e" "listener_ints l \<Longrightarrow> flat Listener_type l"
  "health_ints h \<Longrightarrow> flat HealthCheck_type h" "flat Member_type m" "flat MemberRm_type rm" "flat DNATRuleDescription_type d"
  unfolding DNATRule_type_def ELB_type_def Listener_type_def HealthCheck_type_def Member_type_def MemberRm_type_def DNATRuleDescription_type_def
  by (intro flat_struct; simp add: DNATRule_fields_def ELB_fields_def Listener_fields_def ListenerModify_fields_def HealthCheck_fields_def
      Member_fields_def MemberRm_fields_def DNATRuleDescription_fields_def rule_ints_def elb_ints_def listener_ints_def health_ints_def)+

lemma flat_list: "(\<And>x. x \<in> set xs \<Longrightarrow> flat t x) \<Longrightarrow> int_numbers (JArr (map (ty_Write t) xs)) \<and> nested 2 (JArr (map (ty_Write t) xs))"
  by (auto simp: list_all_iff flat_def)

subsection \<open>Bodies\<close>

text \<open>A peer that reads a body into the struct it was written from.\<close>

fun reread :: "(string \<Rightarrow> error) \<Rightarrow> http_obj \<Rightarrow> string \<Rightarrow> error + http_obj" where
  "reread fault (ObjDNATRule _) s = map_sum (\<lambda>e. e) ObjDNATRule (decoded fault DNATRuleArr s)"
| "reread fault (ObjELB _) s = map_sum (\<lambda>e. e) ObjELB (decoded fault ELB_type s)"
| "reread fault (ObjListener _) s = map_sum (\<lambda>e. e) ObjListener (decoded fault Listener_type s)"
| "reread fault (ObjHealthCheck _) s = map_sum (\<lambda>e. e) ObjHealthCheck (decoded fault HealthCheck_type s)"
| "reread fault (ObjMembers _) s = map_sum (\<lambda>e. e) ObjMembers (decoded fault (slice_type Member_type) s)"
| "reread fault (ObjMembersDel _) s = map_sum (\<lambda>e. e) ObjMembersDel (decoded fault MembersDel s)"

text \<open>The strings of an object are UTF-8 and its integers fit their types.\<close>

fun sendable :: "http_obj \<Rightarrow> bool" where
  "sendable (ObjDNATRule r) \<longleftrightarrow> rule_ints r \<and> utf8_strings (ty_Write DNATRule_type r)"
| "sendable (ObjELB e) \<longleftrightarrow> elb_ints e \<and> utf8_strings (ty_Write ELB_type e)"
| "sendable (ObjListener l) \<longleftrightarrow> listener_ints l \<and> utf8_strings (ty_Write Listener_type l)"
| "sendable (ObjHealthCheck h) \<longleftrightarrow> health_ints h \<and> utf8_strings (ty_Write HealthCheck_type h)"
| "sendable (ObjMembers ms) \<longleftrightarrow> list_all (\<lambda>m. utf8_strings (ty_Write Member_type m)) ms"
| "sendable (ObjMembersDel ms) \<longleftrightarrow> list_all (\<lambda>m. utf8_strings (ty_Write MemberRm_type m)) ms"

lemma decoded_Encode: "reads_back t x \<Longrightarrow> writable t x \<Longrightarrow> decoded fault t (Encode t x) = Inr x"
  using Decode_Encode [of t x fault "[]"] by (simp add: decoded_def or_error_def)

lemma unmarshalled_Marshal: "reads_back t x \<Longrightarrow> writable t x \<Longrightarrow> unmarshalled fault t (Marshal t x) = Inr x"
  using Unmarshal_Marshal [of t x fault] by (simp add: unmarshalled_def or_error_def)

lemma struct_backs:
  "rule_ints r \<Longrightarrow> reads_back DNATRule_type r" "elb_ints e \<Longrightarrow> reads_back ELB_type e" "listener_ints l \<Longrightarrow> reads_back Listener_type l"
  "health_ints h \<Longrightarrow> reads_back HealthCheck_type h" "reads_back Member_type m" "reads_back MemberRm_type rm" "reads_back DNATRuleDescription_type d"
  unfolding DNATRule_type_def ELB_type_def Listener_type_def HealthCheck_type_def Member_type_def MemberRm_type_def DNATRuleDescription_type_def
  by (simp_all add: rule.struct_back elb.struct_back listener.struct_back health_check.struct_back member.struct_back member_rm.struct_back
      description.struct_back)

lemma reads_back_list_types: "reads_back (slice_type Member_type) ms" "reads_back MembersDel rms"
  unfolding MembersDel_def by (intro reads_back_slice reads_back_wrapped reads_back_appended struct_backs; simp)+

lemma reads_back_rules: "rule_ints r \<Longrightarrow> reads_back DNATRuleArr r" "list_all rule_ints rs \<Longrightarrow> reads_back DNATRuleList rs"
  unfolding DNATRuleArr_def DNATRuleList_def by (intro reads_back_slice reads_back_wrapped struct_backs; simp add: list_all_iff)+

lemma valid_tags: "valid_utf8 ''removeMember''" "valid_utf8 ''dnat_rule''" "valid_utf8 ''dnat_rules''"
  by (rule ascii_valid, simp add: byte_def)+

lemma writable_rule:
  assumes "rule_ints r" "utf8_strings (ty_Write DNATRule_type r)"
  shows "writable DNATRuleArr r"
  using assms(2) flat_types(1) [OF assms(1)] flat_nested [OF flat_types(1) [OF assms(1)], of "max_depth - 1"]
  by (simp add: writable_def DNATRuleArr_def wrapped_write flat_def valid_tags max_depth_def)

lemma writable_members:
  assumes "list_all (\<lambda>m. utf8_strings (ty_Write Member_type m)) ms"
  shows "writable (slice_type Member_type) ms"
  using assms flat_list [of ms Member_type] flat_types(5) flat_nested [of Member_type _ "max_depth - 1"]
  by (auto simp: writable_def slice_type_def list_all_iff max_depth_def)

lemma writable_members_del:
  assumes "list_all (\<lambda>m. utf8_strings (ty_Write MemberRm_type m)) ms"
  shows "writable MembersDel ms"
  using assms flat_list [of ms MemberRm_type] flat_types(6) flat_nested [of MemberRm_type _ "max_depth - 2"]
  by (auto simp: writable_def MembersDel_def wrapped_write appended_type_def slice_type_def list_all_iff max_depth_def valid_tags)


text \<open>A peer with the same tags reads the object back, omitted fields, escapes and numbers included.\<close>

lemma object_read_back:
  assumes "sendable obj"
  shows "reread fault obj (encodeBody obj) = Inr obj"
proof (cases obj)
  case (ObjDNATRule r)
  then show ?thesis using assms by (simp add: decoded_Encode reads_back_rules writable_rule)
next
  case (ObjMembers ms)
  then show ?thesis using assms by (simp add: decoded_Encode reads_back_list_types writable_members)
next
  case (ObjMembersDel ms)
  then show ?thesis using assms by (simp add: decoded_Encode reads_back_list_types writable_members_del)
qed (use assms in \<open>simp_all add: decoded_Encode struct_backs writable_flat flat_types\<close>)

subsection \<open>The rules of a cluster\<close>

lemma clean_rune_ascii: "list_all (\<lambda>c. byte c < 128) s \<Longrightarrow> clean_text s = s"
  by (simp add: ascii_valid clean_text_valid)

lemma clean_text_empty [simp]: "clean_text s = [] \<longleftrightarrow> s = []"
proof (cases s)
  case (Cons c cs)
  have "clean_rune r \<noteq> []" for r by (auto simp: clean_rune_def valid_rune_def replacement_def)
  then show ?thesis using Cons by (simp add: clean_text_def)
qed (simp add: clean_text_def)

text \<open>The description as it is read by any cluster: bytes of the ID that are not UTF-8 are replaced.\<close>

lemma description_read:
  "unmarshalled fault DNATRuleDescription_type (Marshal DNATRuleDescription_type \<lparr>dd_ClusterID = i, dd_Description = Attention\<rparr>)
   = Inr \<lparr>dd_ClusterID = clean_text i, dd_Description = Attention\<rparr>"
proof -
  let ?d = "\<lparr>dd_ClusterID = i, dd_Description = Attention\<rparr>" and ?e = "\<lparr>dd_ClusterID = clean_text i, dd_Description = Attention\<rparr>"
  have ascii: "clean_text Attention = Attention" "clean_text ''cluster_id'' = ''cluster_id''" "clean_text ''description'' = ''description''"
    "Attention \<noteq> []" by (rule clean_rune_ascii, simp add: Attention_def byte_def)+ (simp add: Attention_def)
  have clean: "clean (ty_Write DNATRuleDescription_type ?d) = ty_Write DNATRuleDescription_type ?e"
    by (simp add: DNATRuleDescription_type_def struct_type_def write_struct_def DNATRuleDescription_fields_def string_type_def ascii)
  have "flat DNATRuleDescription_type ?d" by (rule flat_types)
  then have "int_numbers (ty_Write DNATRuleDescription_type ?d)" "nested max_depth (ty_Write DNATRuleDescription_type ?d)"
    using flat_nested [of DNATRuleDescription_type ?d max_depth] by (auto simp: flat_def max_depth_def)
  then have "whole_json (Marshal DNATRuleDescription_type ?d) = Some (ty_Write DNATRuleDescription_type ?e)"
    unfolding Marshal_def clean [symmetric] by (rule whole_json_text)
  moreover have "reads_back DNATRuleDescription_type ?e" by (rule struct_backs)
  ultimately show ?thesis
    by (simp add: unmarshalled_def Unmarshal_def read_document_def or_error_def reads_back_def)
qed

lemma Marshal_nonempty: "Marshal (struct_type fs z) x \<noteq> []"
  by (simp add: Marshal_def struct_type_def write_struct_def)

lemma own_rule_wire:
  assumes "nc_json c = go_json f" "nc_json d = go_json g" "dr_Description r = genDNATRuleDescription c"
  shows "own_rule d r \<longleftrightarrow> nc_ClusterID d = clean_text (nc_ClusterID c)"
proof -
  have "dr_Description r = Marshal DNATRuleDescription_type \<lparr>dd_ClusterID = nc_ClusterID c, dd_Description = Attention\<rparr>"
    using assms(1,3) by (simp add: genDNATRuleDescription_def go_json_def)
  moreover from this have "dr_Description r \<noteq> []" using Marshal_nonempty by (simp add: DNATRuleDescription_type_def)
  ultimately show ?thesis
    using assms(2) by (auto simp: own_rule_def getDNATRuleDescription_def go_json_def description_read)
qed

text \<open>
  C28. A cluster finds the rules it has created and no other cluster takes them for its own: when the list of rules a cluster is
  given has a rule with the description some cluster writes into its new rules, then the rule is among the own rules
  exactly when the two cluster IDs are equal, up to bytes of the ID that are not UTF-8. The description goes
  through the JSON text of \<open>genDNATRuleDescription\<close> and \<open>getDNATRuleDescription\<close>.
\<close>

theorem created_rules_recognised:
  assumes "nc_json c = go_json f" "nc_json d = go_json g"
    and "ListDNATRules (nat_api d) (nc_json d) (nat_tenant d) [(''nat_gateway_id'', gid)] s = (Ok rules, t)"
    and "r \<in> set rules" "dr_Description r = dr_Description (new_rule c p netPort floatingIp gw)"
  shows "\<exists>own. listDnatRule d gid s = (Ok own, t) \<and> (r \<in> set own \<longleftrightarrow> nc_ClusterID d = clean_text (nc_ClusterID c))"
proof -
  have "dr_Description r = genDNATRuleDescription c" using assms(5) by (simp add: new_rule_def zero_DNATRule_def)
  then have "own_rule d r \<longleftrightarrow> nc_ClusterID d = clean_text (nc_ClusterID c)" by (rule own_rule_wire [OF assms(1,2)])
  then show ?thesis using assms(3,4) by (simp add: listDnatRule_def run_bindR run_okR)
qed


text \<open>A cloud that answers every request with the list of rules, as text.\<close>

lemma writable_rules:
  assumes "list_all (\<lambda>r. rule_ints r \<and> utf8_strings (ty_Write DNATRule_type r)) rs"
  shows "writable DNATRuleList rs"
  using assms flat_list [of rs DNATRule_type] flat_types(1) flat_nested [of DNATRule_type _ "max_depth - 2"]
  by (auto simp: writable_def DNATRuleList_def wrapped_write slice_type_def list_all_iff max_depth_def valid_tags flat_def)

definition listing_cloud :: "string \<Rightarrow> DNATRule list \<Rightarrow> unit NATCloud" where
  "listing_cloud cid rs = \<lparr>nc_Basic = demo_basic\<lparr>clients := demo_api\<lparr>http_call := (\<lambda>w r.
       (Inr \<lparr>rsp_StatusCode = 200, rsp_Body = Encode DNATRuleList rs, rsp_ReadErr = None\<rparr>, w))\<rparr>\<rparr>,
     nc_json = go_json (\<lambda>_. Errorf ''bad document''), nc_ClusterID = cid, nc_Ticks = 50\<rparr>"

lemma listing_cloud_simps [simp]: "nc_json (listing_cloud cid rs) = go_json (\<lambda>_. Errorf ''bad document'')" "nc_ClusterID (listing_cloud cid rs) = cid"
  by (simp_all add: listing_cloud_def)

lemma listing_body: "2 < length (filter (\<lambda>c. c \<noteq> CHR '' '') (Encode DNATRuleList rs))"
  by (simp add: Encode_def Marshal_def DNATRuleList_def wrapped_write quote_def)

lemma listing_cloud_lists:
  assumes "list_all (\<lambda>r. rule_ints r \<and> utf8_strings (ty_Write DNATRule_type r)) rs"
  shows "\<exists>t. ListDNATRules (nat_api (listing_cloud cid rs)) (nc_json (listing_cloud cid rs)) (nat_tenant (listing_cloud cid rs)) params s = (Ok rs, t)"
proof -
  have "decoded (\<lambda>_. Errorf ''bad document'') DNATRuleList (Encode DNATRuleList rs) = Inr rs"
    using assms by (intro decoded_Encode reads_back_rules writable_rules) (auto simp: list_all_iff)
  then have "js_DNATRules (nc_json (listing_cloud cid rs)) (Encode DNATRuleList rs) = Inr rs" by (simp add: go_json_def)
  with listing_body [of rs] show ?thesis
    by (simp add: ListDNATRules_def request_decode_def DoRequest_def remote_def run_simps DecodeBody_def nat_api_def listing_cloud_def demo_api_def)
qed

lemma demo_description: "list_all (\<lambda>c. byte c < 128) (Marshal DNATRuleDescription_type \<lparr>dd_ClusterID = ''c1'', dd_Description = Attention\<rparr>)"
  by code_simp

theorem created_rules_recognised_witness:
  "\<exists>r. list_all (\<lambda>cid. \<exists>own t. listDnatRule (listing_cloud cid [r]) ''gw'' start = (Ok own, t) \<and> (r \<in> set own \<longleftrightarrow> cid = ''c1'')) [''c1'', ''c2'']"
proof -
  let ?c = "listing_cloud ''c1'' []"
  define r where "r = new_rule ?c demo_port zero_Port demo_floating ''gw''"
  have clean: "clean_text ''c1'' = ''c1''" by (rule clean_rune_ascii) (simp add: byte_def)
  have "dr_Description r = Marshal DNATRuleDescription_type \<lparr>dd_ClusterID = ''c1'', dd_Description = Attention\<rparr>"
    by (simp add: r_def new_rule_def genDNATRuleDescription_def go_json_def)
  then have "valid_utf8 (dr_Description r)" using ascii_valid [OF demo_description] by simp
  then have "utf8_strings (ty_Write DNATRule_type r)" "rule_ints r"
    by (simp_all add: DNATRule_type_def struct_type_def write_struct_def DNATRule_fields_def r_def new_rule_def zero_DNATRule_def zero_Port_def
        demo_floating_def demo_port_def string_type_def int_type_def bool_type_def ascii_valid byte_def rule_ints_def int_fits_def)
  have "\<exists>own t. listDnatRule (listing_cloud cid [r]) ''gw'' start = (Ok own, t) \<and> (r \<in> set own \<longleftrightarrow> cid = ''c1'')" for cid
  proof -
    obtain t where "ListDNATRules (nat_api (listing_cloud cid [r])) (nc_json (listing_cloud cid [r])) (nat_tenant (listing_cloud cid [r]))
        [(''nat_gateway_id'', ''gw'')] start = (Ok [r], t)"
      using listing_cloud_lists [of "[r]" cid] \<open>utf8_strings (ty_Write DNATRule_type r)\<close> \<open>rule_ints r\<close> by fastforce
    from created_rules_recognised [OF _ _ this, of ?c "\<lambda>_. Errorf ''bad document''" "\<lambda>_. Errorf ''bad document''" r
        demo_port zero_Port demo_floating "''gw''"] clean
    show ?thesis by (auto simp: r_def)
  qed
  then show ?thesis by (intro exI [of _ r]) simp
qed


subsection \<open>Documents of the services\<close>

text \<open>
  Where \<open>CLUSTER_ID\<close> is not set, every rule with a description that is a document without a cluster ID counts as own, whoever
  made it.
\<close>

lemma rules_without_cluster_id:
  assumes "nc_json c = go_json f" "nc_ClusterID c = []" "dr_Description r \<in> {''{}'', ''null''}"
  shows "own_rule c r"
proof -
  have "whole_json ''{}'' = Some (JObj [])" "whole_json ''null'' = Some JNull" by code_simp+
  then show ?thesis
    using assms by (auto simp: own_rule_def getDNATRuleDescription_def go_json_def unmarshalled_def Unmarshal_def read_document_def or_error_def
        DNATRuleDescription_type_def struct_type_def read_struct_def zero_DNATRuleDescription_def)
qed

text \<open>
  The answer of a service without load balancers, which the comments of \<open>ListLoadBalancers\<close> speak of: the number is
  read, the list could not be.
\<close>

definition no_balancers :: string where
  "no_balancers = json_text (JObj [(''loadbalancers'', JObj []), (''instance_num'', JStr ''0'')])"

lemma no_balancers_read: "js_ElbNum (go_json f) no_balancers = Inr (Some ''0'')" "js_ElbList (go_json f) no_balancers = Inl (f no_balancers)"
proof -
  have "whole_json no_balancers = Some (JObj [(''loadbalancers'', JObj []), (''instance_num'', JStr ''0'')])" by code_simp
  moreover have "field_for [text_field ''instance_num'' (\<lambda>x. x) (\<lambda>f x. f x)] ''loadbalancers'' = None" by code_simp
  ultimately show "js_ElbNum (go_json f) no_balancers = Inr (Some ''0'')" "js_ElbList (go_json f) no_balancers = Inl (f no_balancers)"
    by (simp_all add: go_json_def unmarshalled_def Unmarshal_def read_document_def or_error_def pointer_type_def ElbNum_def ElbList_type_def
        wrapped_def struct_type_def read_struct_def read_member_def field_for_def tagged_def string_type_def slice_type_def)
qed

text \<open>An annotation changes the options it names and keeps the defaults of the others.\<close>

lemma annotation_keeps_defaults:
  "fst (json_health (go_codecs f session) (json_text (JObj [(''delay'', JNum ''7''), (''Timeout'', JStr ''x'')])) opts) = opts\<lparr>hc_Delay := 7\<rparr>"
proof -
  have "whole_json (json_text (JObj [(''delay'', JNum ''7''), (''Timeout'', JStr ''x'')])) = Some (JObj [(''delay'', JNum ''7''), (''Timeout'', JStr ''x'')])"
    by code_simp
  moreover have "fold_key ''Timeout'' = ''timeout''" "fold_key ''enable'' = ''enable''" "fold_key ''delay'' = ''delay''" "fold_key ''timeout'' = ''timeout''" by code_simp+
  moreover have "Atoi ''7'' = Some 7" by (simp add: Atoi_def atoi_unsigned_def is_digit_def digit_val_def)
  ultimately show ?thesis
    by (simp add: go_codecs_def Unmarshal_def read_document_def HealthCheckOption_type_def struct_type_def read_struct_def read_member_def
        field_for_def HealthCheckOption_fields_def tagged_def int_type_def int_fits_def)
qed

end
