(* ===== verification/Wire_Requests.thy ===== *)
theory Wire_Requests
  imports Wire_Correct Signer
begin

text \<open>
  What goes out for an object: \<open>DoRequest\<close> puts the text of \<open>encodeBody\<close> into the request it builds, and signs that request.
\<close>

definition outgoing_request :: "http_request \<Rightarrow> string \<Rightarrow> string \<Rightarrow> string \<Rightarrow> signer_request" where
  "outgoing_request r path query host = new_http_request (rq_Method r) path query host (request_body r)"

text \<open>
  C29. What the HTTP clients send for an object arrives as it was meant: the request goes out signed, the signature verifies on the
  request as it is sent, its body included, and covers date, project and token; and a peer that reads the body into a struct
  of the same tags gets the object, for every kind of object the clients send, if its strings are UTF-8 and its integers
  fit their types.
\<close>

theorem sent_objects_arrive:
  assumes "rq_Obj r = Some obj" "sendable obj"
  shows "\<exists>r' hs text. sign_http_request E \<lparr>sc_Endpoint = ep, sc_Access = Some access, sc_TenantId = tenant\<rparr>
       (outgoing_request r path query host) = Inr r' \<and>
     verifies E \<lparr>sg_Key = ai_AccessKey access, sg_Secret = ai_SecretKey access\<rparr> hs r' \<and>
     {''x-sdk-date'', ''x-project-id''} \<union> (if ai_SecurityToken access = [] then {} else {''x-security-token''}) \<subseteq> set hs \<and>
     sr_Body r' = Some (Inr text) \<and> reread fault obj text = Inr obj"
proof -
  have "request_body r = Some (encodeBody obj)" using assms(1) by (simp add: request_body_def)
  moreover note object_read_back [OF assms(2), of fault]
  ultimately show ?thesis
    using http_request_signed [of E ep access tenant "rq_Method r" path query host "request_body r"]
    unfolding outgoing_request_def by (metis option.map(2))
qed

definition wire_rule :: DNATRule where
  "wire_rule = zero_DNATRule\<lparr>dr_NATGatewayId := ''gw'', dr_ExternalServicePort := 443, dr_InternalServicePort := 30443,
     dr_Protocol := ''TCP'', dr_Description := [CHR 0x22]\<rparr>"

definition wire_request :: http_request where
  "wire_request = NewRequest NatEndpoint MethodPost ''/v2/t/dnat_rules'' (Some (ObjDNATRule wire_rule))"

definition wire_access :: AccessInfo where
  "wire_access = \<lparr>ai_Region = ''r'', ai_AccessKey = ''ak'', ai_SecretKey = ''sk'', ai_SecurityToken = [], ai_ServiceType = ''ec2''\<rparr>"

theorem sent_objects_arrive_witness:
  "\<exists>r' hs text. sign_http_request demo_env \<lparr>sc_Endpoint = ''https://nat'', sc_Access = Some wire_access, sc_TenantId = ''t''\<rparr>
       (outgoing_request wire_request ''/v2/t/dnat_rules'' [] ''nat'') = Inr r' \<and>
     verifies demo_env \<lparr>sg_Key = ''ak'', sg_Secret = ''sk''\<rparr> hs r' \<and>
     sr_Body r' = Some (Inr text) \<and> reread (\<lambda>_. Errorf []) (ObjDNATRule wire_rule) text = Inr (ObjDNATRule wire_rule)"
proof -
  have "utf8_strings (ty_Write DNATRule_type wire_rule)"
    by (simp add: DNATRule_type_def struct_type_def write_struct_def DNATRule_fields_def wire_rule_def zero_DNATRule_def string_type_def int_type_def
        bool_type_def ascii_valid byte_def)
  then have "sendable (ObjDNATRule wire_rule)" by (simp add: rule_ints_def wire_rule_def zero_DNATRule_def int_fits_def)
  then show ?thesis
    using sent_objects_arrive [of wire_request "ObjDNATRule wire_rule" demo_env "''https://nat''" wire_access "''t''" "''/v2/t/dnat_rules''" "[]" "''nat''"
        "\<lambda>_. Errorf []"]
    by (simp add: wire_request_def wire_access_def) blast
qed

end
