(* ===== verification/Spec2Isabelle.thy ===== *)
theory Spec2Isabelle
  imports Members_Correct Lifecycle_Correct Ensure_Correct Steps_Correct Listener_Correct Nodes_Correct
    Nat_Correct Elb1_Correct Security_Group Throttle Mutex_KV Execute_Pool
    Signer Provider_Process Metadata_Service Log_Redaction Filters Sdk_Models
    Process_Runs Lock_Freedom Command_Start Concurrent_Calls Client_Methods Throttle_Watch
    Replay Listeners_Reconciled Listeners_Settled Listener_Requests Session_Affinity Wire_Requests
begin

text \<open>
  Verification of the Huawei Cloud controller manager.

  \<^bold>\<open>The program.\<close> The controller manager keeps the load balancers of a cloud in step with the
  services of a Kubernetes cluster, and answers questions about nodes. \<open>huaweicloud.go\<close> receives the
  calls of the service controller and the events of endpoints and services, takes the lock of the
  service (\<open>mutexkv.go\<close>), reads the version the service asks for and hands the call to a provider:
  \<open>sharedloadbalancer.go\<close>, \<open>dedicatedloadbalancer.go\<close>, the version 1 provider \<open>elb.go\<close> or the NAT provider
  \<open>nat.go\<close>. The first two read annotations, talk to the cloud through the clients of \<open>wrapper/\<close>, and
  reconcile instance, listeners, pools, members, health monitors and public addresses; the other two
  speak HTTP (\<open>http.go\<close>) through \<open>elb_connection.go\<close> and \<open>nat_connections.go\<close> and reconcile listeners and
  their members, and DNAT rules. \<open>security_group_listener.go\<close> keeps the nodes in a security group. \<open>instances.go\<close> answers questions about nodes with the ECS client.
  \<open>common.go\<close> has polling, error classification and the worker pool, \<open>throttle.go\<close> the rate limits,
  \<open>pkg/config\<close> the options. \<open>pkg/apigw/core\<close> signs HTTP requests, \<open>loggertripper.go\<close> logs them, \<open>pkg/utils/metadata\<close>
  reads what the host knows about itself. The process elects a leader, which alone runs the listeners.

  \<^bold>\<open>The model.\<close> Code that talks to the cloud or the cluster is a computation (\<open>Go_Result\<close>): it takes
  the state of the remote world and the log of events issued so far and ends in a value, an error or a
  panic. The remote services are the record \<open>api\<close> of \<open>Cloud_Api\<close>: one function that answers requests
  of the SDK, one for requests of the cluster, one for HTTP requests, one for host names, each with any
  state of its own. No
  property assumes more of it than what it states. Pointers are options, a nil dereference, an index
  out of range and a send on a closed channel are panics. Errors are values with the texts the code
  builds (structures printed as JSON are reduced to their main fields). JSON documents are decoded by
  the records \<open>codecs\<close> and \<open>json_decoders\<close>, which \<open>go_codecs\<close> and \<open>go_json\<close> of \<open>Wire_Format\<close> instantiate with the model of
  \<open>encoding/json\<close>; floating point numbers are the record \<open>floats\<close>, a parameter. Integers
  are \<open>int\<close> with \<open>int32\<close> conversions written out. Log output and the passing of time are left out.

  \<^item> \<open>CCM_Prelude\<close>: string and number functions of the Go library the code uses, and the theorem
    collections; \<open>Net_Ip\<close>: \<open>net.ParseIP\<close> and \<open>To4\<close>; \<open>Slices\<close>: the two idioms that remove elements from
    a slice while ranging over it, with their contract as the locale \<open>keyed_pop\<close>.
  \<^item> \<open>Go_Result\<close>: errors, computations, and the calculus: \<open>emits\<close> bounds the events a computation can
    issue whatever the remote side answers, \<open>yields\<close> the values it can return, \<open>valid\<close> is a triple.
  \<^item> \<open>Common\<close> (\<open>common.go\<close>, \<open>utils.go\<close>), \<open>Config\<close> (\<open>pkg/config\<close>), \<open>Kube\<close> (the Kubernetes objects),
    \<open>Annotations\<close> (annotation readers, validation, versions, names), \<open>Cloud_Api\<close> (requests, responses,
    the generic \<open>commonWrapper\<close>, and the classification of requests), over the objects, enumerations and request
    definitions of \<open>Sdk_Models\<close> (\<open>model/\<close>, \<open>wrapper/model/\<close>), \<open>Wrapper\<close> (the ELB v2, ELB v3 and
    EIP clients: prefixes \<open>s_\<close>, \<open>d_\<close>, \<open>e_\<close>), \<open>Client_Methods\<close> (the client methods no load balancer calls, the copy of a
    reply into a result by reflection, and what each client asks of the SDK), \<open>Ecs\<close> (\<open>wrapper/ecs.go\<close>), \<open>Basic\<close> (the struct embedded in
    all providers).
  \<^item> \<open>Member_Sync\<close>: the reconciliation loop both providers have, over the operations in which they
    differ; the locale \<open>member_backend\<close> has its correctness, interpreted for both providers.
  \<^item> \<open>Session_Affinity\<close>: what reading the session affinity of a service does to the configuration all services share.
  \<^item> \<open>Eip\<close>, \<open>Shared_Load_Balancer\<close> (prefix \<open>slb_\<close>) and \<open>Dedicated_Load_Balancer\<close> (prefix \<open>dlb_\<close>): the
    providers, function by function.
  \<^item> \<open>Lb_Interface\<close>: the interface \<open>cloudprovider.LoadBalancer\<close> as a record, runs of a controller over
    it, and the locale \<open>lb_provider\<close>, interpreted for both providers; \<open>Cloud_Provider\<close>: the entry points
    and the listener of \<open>huaweicloud.go\<close>.
  \<^item> \<open>Http_Types\<close> (the structs of the NAT and ELB version 1 APIs), \<open>Http_Client\<close> (\<open>http.go\<close>), \<open>Nat_Client\<close> and
    \<open>Nat_Cloud\<close> (\<open>nat_connections.go\<close>, \<open>nat.go\<close>), \<open>Elb1_Client\<close> and \<open>Elb1_Cloud\<close> (\<open>elb_connection.go\<close>, \<open>elb.go\<close>;
    prefixes \<open>v1_\<close> and \<open>elb_\<close>), \<open>Security_Group\<close> (\<open>security_group_listener.go\<close>). \<open>Changes\<close> is the calculus for
    exact statements about what is requested: \<open>settles m cs\<close> says that the changes \<open>m\<close> requests are
    exactly \<open>cs\<close>, in order, whatever the remote side answers.
  \<^item> \<open>Json_Text\<close> and \<open>Json_Struct\<close>: \<open>encoding/json\<close> of Go 1.22, as far as the program uses it: the text of documents
    with its escapes and UTF-8, and how values of Go types are written and read by the tags of their structs (the
    locale \<open>struct_laws\<close>). \<open>Wire_Format\<close>: the tags of the structs of \<open>nat_connections.go\<close>, \<open>elb_connection.go\<close> and \<open>pkg/config\<close>,
    those around documents included, the decoders made of them, and \<open>encodeBody\<close> of \<open>http.go\<close>.
    \<open>Wire_Laws\<close> interprets the locale for every struct that is sent. \<open>Wire_Requests\<close>: the request \<open>DoRequest\<close> builds of an object.
  \<^item> \<open>Instances\<close> (\<open>instances.go\<close>), \<open>Throttle\<close> and \<open>Throttle_Watch\<close> (\<open>throttle.go\<close>: the limits, and the goroutine that watches
    their file), \<open>Mutex_KV\<close> (\<open>mutexkv.go\<close>, a state machine
    over goroutines), \<open>Execute_Pool\<close> (the worker pool of \<open>common.go\<close>, a state machine over workers on a
    model of Go channels).
  \<^item> \<open>Provider_Process\<close> (\<open>huaweicloud.go\<close>, \<open>pkg/config\<close>): start-up, which builds the provider over the four load balancers,
    the interfaces it offers, and the callbacks of the leader election as a state machine over the worker pool. \<open>Signer\<close>
    (\<open>signer.go\<close>, \<open>escape.go\<close>, and the headers \<open>DoRequest\<close> sets), \<open>Metadata_Service\<close> (\<open>metadata.go\<close>), \<open>Log_Redaction\<close>
    (\<open>loggertripper.go\<close>): hash functions, clock, operating system and the text of a logged JSON document are parameters of each. \<open>Filters\<close>
    (\<open>filters.go\<close>, \<open>reflects.go\<close>): generic filters on a model of the values of package \<open>reflect\<close>.
  \<^item> \<open>Command_Start\<close> (\<open>cmd/\<close>, and how \<open>huaweicloud.go\<close> turns events of the informers into jobs): the initializer and the exits
    of the command. \<open>Process_Runs\<close>: what a started process does on a sequence of calls and jobs. \<open>Lock_Freedom\<close>: which
    providers issue no lock event of their own. \<open>Concurrent_Calls\<close>: several such sequences at once, each a goroutine whose
    lock events go through the steps of \<open>Mutex_KV\<close>.
  \<^item> \<open>Scenario\<close>, \<open>Http_Scenario\<close>: a concrete cluster and cloud, on which the properties with hypotheses are applied.

  \<^bold>\<open>What is shown.\<close>

  \<^item> \<open>Members_Correct\<close>: reconciling a pool creates exactly the missing endpoints and deletes exactly the
    obsolete members, for both providers, whatever else the cloud does.
  \<^item> \<open>Replay\<close>: the log of a call of the shared or dedicated load balancer determines the remote world after it and every answer it
    was given; \<open>Listeners_Reconciled\<close>: a successful \<open>EnsureLoadBalancer\<close> of either changes exactly the listeners it should, in order,
    against an abstract plan over identifier, protocol and port (the loop over the ports and the cleanup are the locales
    \<open>listener_step\<close> and \<open>listener_loop\<close>, interpreted for both). \<open>Listeners_Settled\<close>: the next call has nothing left to create or delete.
  \<^item> \<open>Listener_Requests\<close>: every request for a listener over a whole run of \<open>EnsureLoadBalancer\<close>: port, protocol and timeouts.
    \<open>Session_Affinity\<close>: services keep their own option if the configuration names none; otherwise one service's option
    reaches the next.
  \<^item> \<open>Lifecycle_Correct\<close>: an instance named by the user survives every run of a controller; public
    addresses are kept when asked for; what a deletion requests, in which order: the listeners, the EIP, the instance. \<open>Process_Runs\<close>: the same for every run of a process as it is
    started, through the dispatch by version and the handler of endpoint events.
  \<^item> \<open>Ensure_Correct\<close>: services of other classes and invalid services cause no request; waiting ends after
    at most 30 polls (the constant \<open>DefaultSteps\<close>; it is the fuel of the polling loop, so no bound is
    added by the model); listeners in use are kept; obsolete listeners serve no port; an update without
    nodes cannot succeed.
  \<^item> \<open>Steps_Correct\<close>: pool algorithm, health check, locks, slices, node addresses, pod addresses, names,
    and the status patch, each on every branch.
  \<^item> \<open>Nat_Correct\<close>: which DNAT rules are created and deleted, exactly and in order, also when the list of
    services cannot be read (it then counts as empty); only rules with the cluster ID of the process are deleted, which without
    an ID are the rules of anyone who gives none. \<open>Elb1_Correct\<close>: ports and
    listeners are compared into a partition (the first listener of a port is updated, the others go), members are removed only
    while a healthy one remains and after no failed addition, a
    deletion touches only listeners with the service's name, failed attempts are counted up to three and then end, timeouts are
    bounded by 60. \<open>Security_Group\<close>: at most one change per node event.
  \<^item> \<open>Json_Text\<close>: what is written is read back, and twice the length of a text is fuel enough for the reader (more changes
    nothing). \<open>Wire_Correct\<close>: every object the HTTP clients send is read back from its body, and over the text of its description a
    cluster recognises exactly the rules it has created. \<open>Wire_Requests\<close>: so does what goes out signed.
  \<^item> \<open>Listener_Correct\<close>, \<open>Nodes_Correct\<close>: the dispatcher of endpoint events and the queries about nodes, with the
    exact conditions under which a node is reported gone.
  \<^item> \<open>Throttle\<close>, \<open>Mutex_KV\<close>, \<open>Execute_Pool\<close>: their properties stand at the end of each theory: every limiter
    is valid; mutual exclusion, no unlock of an unlocked mutex and no deadlock of the key locks; jobs
    are handed out once and in order, within bounds. \<open>Throttle_Watch\<close>: every limiter stays valid whatever the watcher delivers, and which calls of the
    NAT client wait for one.
    \<open>Concurrent_Calls\<close>: calls for one service exclude each other in every schedule, and every schedule of calls ends.
  \<^item> \<open>Client_Methods\<close>: which replies reach the caller, and which end in a conversion error. \<open>Sdk_Models\<close>: enumerations survive
    JSON, and every request definition is well formed. \<open>Command_Start\<close>: when exactly the command hands over a provider.
  \<^item> \<open>Signer\<close>: what is sent verifies, with the rewritten query and the added date; escaping equals its byte by byte
    reference and is undone by \<open>net/url\<close>. \<open>Provider_Process\<close>: the listeners can be stopped once, and what happens after.
    \<open>Metadata_Service\<close>: every resource taken is given back in reverse order, but for removals and unmountings the system
    refuses. \<open>Log_Redaction\<close>: the log of an exchange does not depend on
    secrets, by a list of secret headers of its own (a statement of non-interference). \<open>Filters\<close>: exactly the items the filter asks for, once each if wanted.

  \<^bold>\<open>Bounds.\<close> Loops of the source that are bounded keep their bounds (30 polls, 100 queries of a job, three
  attempts to mark a service). Two bounds are parameters: \<open>nc_Ticks\<close>, the ticks \<open>wait.Poll\<close> delivers within
  its five seconds, and the attempts to start an informer, a loop without a bound in the source. Concurrent calls need no
  fuel: they are a step relation, and an event takes at most five steps of it, the five actions of \<open>Lock\<close> and \<open>Unlock\<close>.

  \<^bold>\<open>What is not modelled.\<close> Concurrent calls meet at the key locks; what they see of each other's changes is not computed but
  left open, since each is answered by a remote world of its own. The three goroutines of \<open>EnsureLoadBalancer\<close> in \<open>elb.go\<close>
  run one after the other, in an order that is a parameter, and the order in which \<open>range\<close> visits the query parameters of
  a request is not modelled. Left out are HTTP transport, hash functions, the informers and the election of client-go (their
  callbacks are modelled), the flags and controllers of \<open>k8s.io/cloud-provider\<close> the command runs, the expiry of the cache of missing
  services, and the mounter: input and output or library code. Of \<open>encoding/json\<close>, the texts of its
  errors are a parameter; so is the reader of the session persistence, a struct of the SDK, and an element of an array is read
  into the element an earlier member of the same name left, but not into one that array had dropped before. The runs of
    the load balancers take the configuration as it is at their start; what a run writes into it is in \<open>Session_Affinity\<close>.
    The delay by a rate limiter is left out; which limiter a request waits for is not.
\<close>

end
